(* ===== verification/Prelude.thy ===== *)
theory Prelude
  imports Main "HOL-Library.Char_ord" "HOL-Library.List_Lexorder" "HOL-Library.Product_Lexorder"
begin

section \<open>Shared types, tables and automation\<close>

text \<open>
  What every component of the model uses: results of code that may raise, relational tables,
  SQL ordering with NULLs, and three interfaces.

  A table is the list of its rows.  A query is a filter, an \<open>ORDER BY\<close> is the library's stable
  sort (so rows with equal keys keep their insertion order, one of the orders the database may
  return), a \<open>LIMIT\<close> is a prefix, an \<open>UPDATE ... WHERE\<close> rewrites the rows that satisfy its
  condition, and writing an attribute of a loaded row rewrites the row with the same primary key.
  Each \<open>with get_session(...)\<close> block that commits is one atomic step.
\<close>

named_theorems model_defs "definitions unfolded by the component proofs"

subsection \<open>Results\<close>

text \<open>\<open>Inl e\<close> is an exception that leaves the function, \<open>Inr v\<close> a returned value.\<close>

type_synonym ('e, 'a) outcome = "'e + 'a"

abbreviation Raise :: "'e \<Rightarrow> ('e, 'a) outcome" where
  "Raise \<equiv> Inl"

abbreviation Return :: "'a \<Rightarrow> ('e, 'a) outcome" where
  "Return \<equiv> Inr"

text \<open>A call whose exception leaves the caller.\<close>

definition and_then :: "('e, 'a) outcome \<Rightarrow> ('a \<Rightarrow> ('e, 'b) outcome) \<Rightarrow> ('e, 'b) outcome" where
  "and_then r f = (case r of Inl e \<Rightarrow> Raise e | Inr v \<Rightarrow> f v)"

lemma and_then_simps [simp]: "and_then (Raise e) f = Raise e" "and_then (Return v) f = f v"
  by (simp_all add: and_then_def)

lemma and_then_Return: "and_then r f = Return w \<longleftrightarrow> (\<exists>v. r = Return v \<and> f v = Return w)"
  by (cases r) simp_all

text \<open>Python's \<open>x or ""\<close> on an optional string.\<close>

definition or_empty :: "string option \<Rightarrow> string" where
  "or_empty x = (case x of None \<Rightarrow> [] | Some s \<Rightarrow> s)"

text \<open>Python's \<open>s or None\<close> on a string: the empty string becomes \<open>None\<close>.\<close>

definition none_if_empty :: "string \<Rightarrow> string option" where
  "none_if_empty s = (if s = [] then None else Some s)"

lemma or_empty_simps [simp]:
  "or_empty None = []" "or_empty (Some s) = s"
  by (simp_all add: or_empty_def)

lemma or_empty_none_if_empty [simp]: "or_empty (none_if_empty s) = s"
  by (simp add: none_if_empty_def)

subsection \<open>Tables\<close>

definition row_get :: "('r \<Rightarrow> 'k) \<Rightarrow> 'k \<Rightarrow> 'r list \<Rightarrow> 'r option" where
  "row_get key k rows = find (\<lambda>r. key r = k) rows"

definition rows_update :: "('r \<Rightarrow> bool) \<Rightarrow> ('r \<Rightarrow> 'r) \<Rightarrow> 'r list \<Rightarrow> 'r list" where
  "rows_update cond f rows = map (\<lambda>r. if cond r then f r else r) rows"

definition row_put :: "('r \<Rightarrow> 'k) \<Rightarrow> 'r \<Rightarrow> 'r list \<Rightarrow> 'r list" where
  "row_put key r rows = rows_update (\<lambda>x. key x = key r) (\<lambda>_. r) rows"

definition keys_distinct :: "('r \<Rightarrow> 'k) \<Rightarrow> 'r list \<Rightarrow> bool" where
  "keys_distinct key rows = distinct (map key rows)"

lemma row_get_Some: "row_get key k rows = Some r \<Longrightarrow> r \<in> set rows \<and> key r = k"
  by (auto simp: row_get_def find_Some_iff)

lemma row_get_None: "row_get key k rows = None \<longleftrightarrow> (\<forall>r\<in>set rows. key r \<noteq> k)"
  by (auto simp: row_get_def find_None_iff)

lemma row_get_unique:
  "keys_distinct key rows \<Longrightarrow> r \<in> set rows \<Longrightarrow> row_get key (key r) rows = Some r"
  unfolding keys_distinct_def row_get_def
  by (induction rows) (auto simp: image_iff)

lemma keys_distinct_inj:
  "keys_distinct key rows \<Longrightarrow> p \<in> set rows \<Longrightarrow> r \<in> set rows \<Longrightarrow> key p = key r \<Longrightarrow> p = r"
  by (simp add: keys_distinct_def distinct_map inj_on_def)

lemma rows_update_keys:
  assumes "\<And>r. cond r \<Longrightarrow> key (f r) = key r"
  shows "map key (rows_update cond f rows) = map key rows"
  using assms by (simp add: rows_update_def)

lemma rows_update_distinct [intro]:
  assumes "keys_distinct key rows" and "\<And>r. cond r \<Longrightarrow> key (f r) = key r"
  shows "keys_distinct key (rows_update cond f rows)"
  using assms by (simp add: keys_distinct_def rows_update_keys)

lemma length_rows_update [simp]: "length (rows_update cond f rows) = length rows"
  by (simp add: rows_update_def)

lemma rows_update_id: "(\<And>r. r \<in> set rows \<Longrightarrow> \<not> cond r) \<Longrightarrow> rows_update cond f rows = rows"
  by (simp add: rows_update_def map_idI)

lemma in_rows_update:
  "r' \<in> set (rows_update cond f rows) \<longleftrightarrow>
     (\<exists>r\<in>set rows. r' = (if cond r then f r else r))"
  by (auto simp: rows_update_def image_iff)

lemma row_get_rows_update:
  assumes "\<And>r. cond r \<Longrightarrow> key (f r) = key r"
  shows "row_get key k (rows_update cond f rows) =
    map_option (\<lambda>r. if cond r then f r else r) (row_get key k rows)"
  using assms by (induction rows) (auto simp: row_get_def rows_update_def)

lemma row_get_put_same [simp]:
  "row_get key (key r) (row_put key r rows) =
     (if row_get key (key r) rows = None then None else Some r)"
proof -
  have *: "row_get key (key r) rows = Some x \<Longrightarrow> key x = key r" for x
    by (auto dest: row_get_Some)
  show ?thesis
    unfolding row_put_def
    by (subst row_get_rows_update) (auto split: option.splits dest: *)
qed

lemma row_get_put_other [simp]:
  "k \<noteq> key r \<Longrightarrow> row_get key k (row_put key r rows) = row_get key k rows"
  by (induction rows) (auto simp: row_get_def rows_update_def row_put_def)

lemma row_put_distinct [intro]:
  "keys_distinct key rows \<Longrightarrow> keys_distinct key (row_put key r rows)"
  unfolding row_put_def by (rule rows_update_distinct) auto

lemma in_row_put:
  "x \<in> set (row_put key r rows) \<Longrightarrow> x = r \<or> (x \<in> set rows \<and> key x \<noteq> key r)"
  by (auto simp: row_put_def in_rows_update split: if_splits)

lemma row_get_append:
  "row_get key k (xs @ ys) = (case row_get key k xs of None \<Rightarrow> row_get key k ys | Some r \<Rightarrow> Some r)"
  by (induction xs) (auto simp: row_get_def)

lemma keys_distinct_append:
  "keys_distinct key (rows @ [r]) \<longleftrightarrow> keys_distinct key rows \<and> row_get key (key r) rows = None"
  by (simp add: keys_distinct_def row_get_None) (metis image_iff)

lemma keys_distinct_filter [intro]: "keys_distinct key rows \<Longrightarrow> keys_distinct key (filter P rows)"
  by (simp add: keys_distinct_def distinct_map_filter)

lemma length_filter_eq: "distinct rows \<Longrightarrow> length (filter (\<lambda>q. q = r \<and> P) rows) \<le> (if P then 1 else 0)"
  by (induction rows) (auto simp: filter_empty_conv)

subsection \<open>Ordering with NULLs\<close>

text \<open>
  PostgreSQL sorts NULL after every value when ascending and before every value when descending.
\<close>

definition asc_nulls_last :: "int option \<Rightarrow> int \<times> int" where
  "asc_nulls_last x = (case x of None \<Rightarrow> (1, 0) | Some t \<Rightarrow> (0, t))"

definition desc_nulls_first :: "int option \<Rightarrow> int \<times> int" where
  "desc_nulls_first x = (case x of None \<Rightarrow> (0, 0) | Some t \<Rightarrow> (1, - t))"

text \<open>\<open>column <= t\<close> in a WHERE clause: unknown, hence not selected, when the column is NULL.\<close>

definition sql_le :: "int option \<Rightarrow> int \<Rightarrow> bool" where
  "sql_le x t = (case x of None \<Rightarrow> False | Some v \<Rightarrow> v \<le> t)"

definition sql_ge :: "int option \<Rightarrow> int \<Rightarrow> bool" where
  "sql_ge x t = (case x of None \<Rightarrow> False | Some v \<Rightarrow> t \<le> v)"

lemma sql_simps [simp]:
  "\<not> sql_le None t" "sql_le (Some v) t \<longleftrightarrow> v \<le> t"
  "\<not> sql_ge None t" "sql_ge (Some v) t \<longleftrightarrow> t \<le> v"
  by (simp_all add: sql_le_def sql_ge_def)

text \<open>\<open>func.min(column)\<close> over the selected rows ignores NULLs and is NULL when nothing is left.\<close>

definition sql_min :: "int option list \<Rightarrow> int option" where
  "sql_min xs = (case List.map_filter id xs of [] \<Rightarrow> None | y # ys \<Rightarrow> Some (fold min ys y))"

definition sql_max :: "int option list \<Rightarrow> int option" where
  "sql_max xs = (case List.map_filter id xs of [] \<Rightarrow> None | y # ys \<Rightarrow> Some (fold max ys y))"

definition sql_limit :: "int \<Rightarrow> 'r list \<Rightarrow> 'r list" where
  "sql_limit n rows = take (nat n) rows"

lemma fold_min_le: "fold min ys (y::int) \<le> y \<and> (\<forall>z\<in>set ys. fold min ys y \<le> z)"
proof (induction ys arbitrary: y)
  case Nil
  then show ?case by simp
next
  case (Cons a ys)
  from Cons.IH [of "min a y"] show ?case by auto
qed

lemma sql_min_le: "sql_min xs = Some m \<Longrightarrow> Some v \<in> set xs \<Longrightarrow> m \<le> v"
proof -
  assume m: "sql_min xs = Some m" and v: "Some v \<in> set xs"
  from v have "v \<in> set (List.map_filter id xs)"
    by (force simp: List.map_filter_def)
  with m fold_min_le show "m \<le> v"
    by (auto simp: sql_min_def split: list.splits)
qed

subsection \<open>Interface: a conditional claim\<close>

text \<open>
  Workers compete for a row with \<open>UPDATE ... WHERE key = k AND guard\<close> and look at the number of
  rows written.  The interface: the update keeps the key and its result no longer satisfies the
  guard.  Then a claim has at most one winner, and it changes nothing but the claimed row.
\<close>

locale conditional_claim =
  fixes key :: "'r \<Rightarrow> 'k"
    and guard :: "'t \<Rightarrow> 'r \<Rightarrow> bool"
    and effect :: "'t \<Rightarrow> 'r \<Rightarrow> 'r"
  assumes effect_key: "key (effect t r) = key r"
    and effect_disables: "guard t r \<Longrightarrow> \<not> guard u (effect t r)"
begin

definition claim_rows :: "'t \<Rightarrow> 'k \<Rightarrow> 'r list \<Rightarrow> 'r list" where
  "claim_rows t k rows = rows_update (\<lambda>r. key r = k \<and> guard t r) (effect t) rows"

definition claim_wins :: "'t \<Rightarrow> 'k \<Rightarrow> 'r list \<Rightarrow> bool" where
  "claim_wins t k rows = (\<exists>r\<in>set rows. key r = k \<and> guard t r)"

lemma claim_get:
  "row_get key k (claim_rows t k' rows) =
     map_option (\<lambda>r. if key r = k' \<and> guard t r then effect t r else r) (row_get key k rows)"
  unfolding claim_rows_def by (rule row_get_rows_update) (simp add: effect_key)

lemma claim_keys: "map key (claim_rows t k rows) = map key rows"
  unfolding claim_rows_def by (rule rows_update_keys) (simp add: effect_key)

lemma claim_distinct: "keys_distinct key rows \<Longrightarrow> keys_distinct key (claim_rows t k rows)"
  by (simp add: keys_distinct_def claim_keys)

lemma claim_single_winner:
  assumes distinct: "keys_distinct key rows" and wins: "claim_wins t k rows"
  shows "\<not> claim_wins u k (claim_rows t k rows)"
proof
  assume "claim_wins u k (claim_rows t k rows)"
  then obtain r' where r': "r' \<in> set (claim_rows t k rows)" "key r' = k" "guard u r'"
    by (auto simp: claim_wins_def)
  from wins obtain w where w: "w \<in> set rows" "key w = k" "guard t w"
    by (auto simp: claim_wins_def)
  from r'(1) obtain r where r: "r \<in> set rows" "r' = (if key r = k \<and> guard t r then effect t r else r)"
    by (auto simp: claim_rows_def in_rows_update)
  have "key r = k" using r r' effect_key by (auto split: if_splits)
  with distinct r w have "r = w"
    by (metis option.inject row_get_unique)
  with w r have "r' = effect t w" by simp
  with w r' effect_disables show False by simp
qed

lemma claim_loses_unchanged: "\<not> claim_wins t k rows \<Longrightarrow> claim_rows t k rows = rows"
  unfolding claim_rows_def claim_wins_def by (rule rows_update_id) auto

lemma claim_frame: "r \<in> set rows \<Longrightarrow> key r \<noteq> k \<Longrightarrow> r \<in> set (claim_rows t k rows)"
  by (force simp: claim_rows_def in_rows_update)

end

subsection \<open>Interface: a transition system with an inductive invariant\<close>

text \<open>
  A component shared by concurrent workers is a set of initial states and a relation of atomic
  steps.  The interface: the invariant holds initially and every step keeps it.
\<close>

locale invariant_system =
  fixes init :: "'s \<Rightarrow> bool"
    and step :: "'s \<Rightarrow> 's \<Rightarrow> bool"
    and inv :: "'s \<Rightarrow> bool"
  assumes inv_init: "init s \<Longrightarrow> inv s"
    and inv_step: "inv s \<Longrightarrow> step s s' \<Longrightarrow> inv s'"
begin

lemma inv_run: "init s \<Longrightarrow> step\<^sup>*\<^sup>* s s' \<Longrightarrow> inv s'"
proof -
  assume "init s" and run: "step\<^sup>*\<^sup>* s s'"
  then have "inv s" by (simp add: inv_init)
  with run show "inv s'"
    by (induction rule: rtranclp_induct) (auto intro: inv_step)
qed

lemma inv_continues: "inv s \<Longrightarrow> step\<^sup>*\<^sup>* s s' \<Longrightarrow> inv s'"
  by (rotate_tac, induction rule: rtranclp_induct) (auto intro: inv_step)

end

end
