(* ===== verification/PyValues.thy ===== *)
theory PyValues
  imports Complex_Main Prelude
begin

section \<open>Python values: JSON, strings, integers, timestamps\<close>

text \<open>
  The part of Python's value semantics the modelled code relies on.  A JSON column or payload is a
  \<open>json\<close> value; a dictionary keeps its insertion order.  A float carries its value and the text
  Python prints for it, so that no shortest-representation algorithm is needed.  Strings are lists
  of code points below 256.  A timestamp is its instant in microseconds since the epoch: the code
  reads naive database timestamps as UTC and converts aware ones to UTC, so both denote an instant.
\<close>

subsection \<open>JSON values\<close>

datatype json =
    JNull
  | JBool bool
  | JInt int
  | JFloat rat string
  | JStr string
  | JList "json list"
  | JObj "(string \<times> json) list"

type_synonym json_dict = "(string \<times> json) list"

text \<open>\<open>bool(value)\<close>\<close>

fun py_truthy :: "json \<Rightarrow> bool" where
  "py_truthy JNull = False"
| "py_truthy (JBool b) = b"
| "py_truthy (JInt i) = (i \<noteq> 0)"
| "py_truthy (JFloat r _) = (r \<noteq> 0)"
| "py_truthy (JStr s) = (s \<noteq> [])"
| "py_truthy (JList xs) = (xs \<noteq> [])"
| "py_truthy (JObj kvs) = (kvs \<noteq> [])"

text \<open>\<open>value if isinstance(value, dict) else {}\<close>; a missing value is \<open>None\<close>.\<close>

definition dict_or_empty :: "json option \<Rightarrow> json_dict" where
  "dict_or_empty v = (case v of Some (JObj kvs) \<Rightarrow> kvs | _ \<Rightarrow> [])"

text \<open>\<open>d.get(key)\<close>, with \<open>None\<close> for a missing key as for a stored null.\<close>

definition py_get :: "json_dict \<Rightarrow> string \<Rightarrow> json" where
  "py_get d k = (case map_of d k of None \<Rightarrow> JNull | Some v \<Rightarrow> v)"

text \<open>\<open>d[key] = value\<close>: an existing key keeps its place.\<close>

fun py_set :: "json_dict \<Rightarrow> string \<Rightarrow> json \<Rightarrow> json_dict" where
  "py_set [] k v = [(k, v)]"
| "py_set ((k', v') # d) k v = (if k' = k then (k, v) # d else (k', v') # py_set d k v)"

lemma map_of_py_set: "map_of (py_set d k v) = (map_of d)(k \<mapsto> v)"
  by (induction d k v rule: py_set.induct) auto

lemma py_get_set [simp]: "py_get (py_set d k v) k' = (if k' = k then v else py_get d k')"
  by (simp add: py_get_def map_of_py_set)

subsection \<open>Strings\<close>

definition py_space :: "char \<Rightarrow> bool" where
  "py_space c = (let n = (of_char c :: nat) in
     (9 \<le> n \<and> n \<le> 13) \<or> (28 \<le> n \<and> n \<le> 32) \<or> n = 133 \<or> n = 160)"

definition py_strip :: "string \<Rightarrow> string" where
  "py_strip s = rev (dropWhile py_space (rev (dropWhile py_space s)))"

definition py_lower_char :: "char \<Rightarrow> char" where
  "py_lower_char c = (let n = (of_char c :: nat) in
     if (65 \<le> n \<and> n \<le> 90) \<or> (192 \<le> n \<and> n \<le> 222 \<and> n \<noteq> 215) then char_of (n + 32) else c)"

definition py_lower :: "string \<Rightarrow> string" where
  "py_lower s = map py_lower_char s"

text \<open>\<open>str.upper\<close> on ASCII letters; it is only applied to HTTP method names.\<close>

definition ascii_upper :: "string \<Rightarrow> string" where
  "ascii_upper s = map (\<lambda>c. let n = (of_char c :: nat) in
     if 97 \<le> n \<and> n \<le> 122 then char_of (n - 32) else c) s"

definition is_digit :: "char \<Rightarrow> bool" where
  "is_digit c = (let n = (of_char c :: nat) in 48 \<le> n \<and> n \<le> 57)"

definition digit_value :: "char \<Rightarrow> nat" where
  "digit_value c = of_char c - 48"

text \<open>\<open>s.split(sep)\<close> for a separator of one character.\<close>

fun py_split :: "char \<Rightarrow> string \<Rightarrow> string list" where
  "py_split sep [] = [[]]"
| "py_split sep (c # cs) =
     (if c = sep then [] # py_split sep cs
      else (case py_split sep cs of [] \<Rightarrow> [[c]] | w # ws \<Rightarrow> (c # w) # ws))"

text \<open>\<open>s.split(sep, n)\<close>: at most \<open>n\<close> cuts.\<close>

primrec py_split_max :: "char \<Rightarrow> nat \<Rightarrow> string \<Rightarrow> string list" where
  "py_split_max sep 0 s = [s]"
| "py_split_max sep (Suc n) s =
     (if sep \<in> set s
      then takeWhile (\<lambda>c. c \<noteq> sep) s # py_split_max sep n (tl (dropWhile (\<lambda>c. c \<noteq> sep) s))
      else [s])"

fun join_with :: "string \<Rightarrow> string list \<Rightarrow> string" where
  "join_with sep [] = []"
| "join_with sep [w] = w"
| "join_with sep (w # ws) = w @ sep @ join_with sep ws"

definition starts_with :: "string \<Rightarrow> string \<Rightarrow> bool" where
  "starts_with prefix s = (take (length prefix) s = prefix)"

lemma py_split_nonempty: "py_split sep s \<noteq> []"
  by (induction sep s rule: py_split.induct) (auto split: list.splits)

lemma py_split_no_sep: "sep \<notin> set w \<Longrightarrow> py_split sep w = [w]"
  by (induction w) auto

lemma py_split_append:
  "sep \<notin> set w \<Longrightarrow> py_split sep (w @ sep # s) = w # py_split sep s"
  by (induction w) auto

lemma takeWhile_sep: "sep \<notin> set w \<Longrightarrow> takeWhile (\<lambda>c. c \<noteq> sep) (w @ sep # s) = w"
  by (induction w) auto

lemma dropWhile_sep: "sep \<notin> set w \<Longrightarrow> dropWhile (\<lambda>c. c \<noteq> sep) (w @ sep # s) = sep # s"
  by (induction w) auto

lemma py_split_max_append:
  "sep \<notin> set w \<Longrightarrow> py_split_max sep (Suc n) (w @ sep # s) = w # py_split_max sep n s"
  by (simp add: takeWhile_sep dropWhile_sep)

lemma join_py_split: "join_with [sep] (py_split sep s) = s"
proof (induction sep s rule: py_split.induct)
  case (1 sep)
  then show ?case by simp
next
  case (2 sep c cs)
  obtain w ws where ws: "py_split sep cs = w # ws"
    using py_split_nonempty by (cases "py_split sep cs") auto
  then show ?case using 2 by (cases ws) auto
qed

lemma dropWhile_all_not: "\<forall>c\<in>set s. \<not> P c \<Longrightarrow> dropWhile P s = s"
  by (cases s) auto

lemma py_strip_no_space: "\<forall>c\<in>set s. \<not> py_space c \<Longrightarrow> py_strip s = s"
  by (simp add: py_strip_def dropWhile_all_not)

lemma dropWhile_dropWhile [simp]: "dropWhile P (dropWhile P s) = dropWhile P s"
  by (induction s) auto

lemma dropWhile_hd: "u = [] \<or> \<not> P (hd u) \<Longrightarrow> dropWhile P u = u"
  by (cases u) auto

lemma dropWhile_rev_dropWhile:
  "dropWhile P (rev (dropWhile P (rev (dropWhile P s)))) = rev (dropWhile P (rev (dropWhile P s)))"
proof -
  let ?t = "dropWhile P s" and ?u = "rev (dropWhile P (rev (dropWhile P s)))"
  have "rev ?t = takeWhile P (rev ?t) @ dropWhile P (rev ?t)" by simp
  then have "?t = ?u @ rev (takeWhile P (rev ?t))" by (metis rev_append rev_rev_ident)
  then have "?u \<noteq> [] \<Longrightarrow> hd ?u = hd ?t \<and> ?t \<noteq> []" by (metis hd_append2 append_is_Nil_conv)
  then have "?u \<noteq> [] \<Longrightarrow> \<not> P (hd ?u)" by (metis hd_dropWhile)
  then show ?thesis by (intro dropWhile_hd) blast
qed

lemma py_strip_idem [simp]: "py_strip (py_strip s) = py_strip s"
  unfolding py_strip_def by (simp add: dropWhile_rev_dropWhile)

subsection \<open>Integers as text\<close>

fun nat_text :: "nat \<Rightarrow> string" where
  "nat_text n = (if n < 10 then [char_of (48 + n)] else nat_text (n div 10) @ [char_of (48 + n mod 10)])"

declare nat_text.simps [simp del]

definition int_text :: "int \<Rightarrow> string" where
  "int_text i = (if i < 0 then ''-'' @ nat_text (nat (- i)) else nat_text (nat i))"

text \<open>
  \<open>int(text)\<close>: surrounding white space, an optional sign, digits with single underscores between
  them.  \<open>None\<close> is the \<open>ValueError\<close>.
\<close>

fun int_digits :: "nat \<Rightarrow> bool \<Rightarrow> string \<Rightarrow> nat option" where
  "int_digits acc prev [] = (if prev then Some acc else None)"
| "int_digits acc prev (c # cs) =
     (if is_digit c then int_digits (10 * acc + digit_value c) True cs
      else if c = CHR ''_'' \<and> prev then int_digits acc False cs
      else None)"

definition int_of_text :: "string \<Rightarrow> int option" where
  "int_of_text s =
     (case py_strip s of
        [] \<Rightarrow> None
      | c # cs \<Rightarrow>
          (if c = CHR ''-'' then map_option (\<lambda>n. - int n) (int_digits 0 False cs)
           else if c = CHR ''+'' then map_option int (int_digits 0 False cs)
           else map_option int (int_digits 0 False (c # cs))))"

lemma digit_char: "d < 10 \<Longrightarrow> is_digit (char_of (48 + d)) \<and> digit_value (char_of (48 + d)) = d"
  by (auto simp: is_digit_def digit_value_def of_char_of Let_def)

lemma int_digits_append:
  "int_digits acc prev ds = Some n \<Longrightarrow> is_digit c \<Longrightarrow>
     int_digits acc prev (ds @ [c]) = Some (10 * n + digit_value c)"
  by (induction acc prev ds rule: int_digits.induct) (auto split: if_splits)

lemma int_digits_nat_text: "int_digits 0 False (nat_text n) = Some n"
proof (induction n rule: nat_text.induct)
  case (1 n)
  show ?case
  proof (cases "n < 10")
    case True
    then show ?thesis by (simp add: digit_char nat_text.simps [of n])
  next
    case False
    with 1 have IH: "int_digits 0 False (nat_text (n div 10)) = Some (n div 10)" by simp
    have d: "n mod 10 < 10" by simp
    show ?thesis
      using int_digits_append [OF IH] digit_char [OF d] False
      by (simp add: nat_text.simps [of n])
  qed
qed

lemma nat_text_digits: "c \<in> set (nat_text n) \<Longrightarrow> is_digit c"
proof (induction n arbitrary: c rule: nat_text.induct)
  case (1 n)
  have d: "n mod 10 < 10" by simp
  show ?case
  proof (cases "n < 10")
    case True
    with 1 show ?thesis by (simp add: digit_char nat_text.simps [of n])
  next
    case False
    with 1 show ?thesis by (auto simp: digit_char [OF d] nat_text.simps [of n])
  qed
qed

lemma nat_text_nonempty: "nat_text n \<noteq> []"
  by (subst nat_text.simps) simp

lemma digit_not_space: "is_digit c \<Longrightarrow> \<not> py_space c"
  by (auto simp: is_digit_def py_space_def Let_def)

lemma int_of_nat_text: "int_of_text (nat_text n) = Some (int n)"
proof -
  obtain c cs where c: "nat_text n = c # cs" using nat_text_nonempty by (cases "nat_text n") auto
  then have "is_digit c" using nat_text_digits [of c n] by simp
  then have sign: "c \<noteq> CHR ''-''" "c \<noteq> CHR ''+''" by (auto simp: is_digit_def Let_def)
  have "py_strip (nat_text n) = nat_text n"
    by (rule py_strip_no_space) (auto dest: nat_text_digits digit_not_space)
  with c sign show ?thesis using int_digits_nat_text [of n] by (simp add: int_of_text_def)
qed

subsection \<open>\<open>str(value)\<close> and integer coercion\<close>

definition hex_digit :: "nat \<Rightarrow> char" where
  "hex_digit n = char_of (if n < 10 then 48 + n else 87 + n)"

definition repr_char :: "char \<Rightarrow> char \<Rightarrow> string" where
  "repr_char quote c = (let n = (of_char c :: nat) in
     if c = quote \<or> n = 92 then [char_of (92::nat), c]
     else if n = 9 then [char_of (92::nat), CHR ''t'']
     else if n = 10 then [char_of (92::nat), CHR ''n'']
     else if n = 13 then [char_of (92::nat), CHR ''r'']
     else if n < 32 \<or> (127 \<le> n \<and> n \<le> 160) \<or> n = 173
       then [char_of (92::nat), CHR ''x'', hex_digit (n div 16), hex_digit (n mod 16)]
     else [c])"

definition repr_string :: "string \<Rightarrow> string" where
  "repr_string s =
     (let quote = (if char_of (39::nat) \<in> set s \<and> char_of (34::nat) \<notin> set s
                   then char_of (34::nat) else char_of (39::nat))
      in [quote] @ concat (map (repr_char quote) s) @ [quote])"

primrec py_repr :: "json \<Rightarrow> string" where
  "py_repr JNull = ''None''"
| "py_repr (JBool b) = (if b then ''True'' else ''False'')"
| "py_repr (JInt i) = int_text i"
| "py_repr (JFloat r txt) = txt"
| "py_repr (JStr s) = repr_string s"
| "py_repr (JList xs) = ''['' @ join_with '', '' (map py_repr xs) @ '']''"
| "py_repr (JObj kvs) =
     ''{'' @ join_with '', '' (map (\<lambda>(k, t). repr_string k @ '': '' @ t) (map (map_prod id py_repr) kvs)) @ ''}''"

definition py_str :: "json \<Rightarrow> string" where
  "py_str v = (case v of JStr s \<Rightarrow> s | _ \<Rightarrow> py_repr v)"

text \<open>The idiom \<open>str(value or "")\<close>.\<close>

definition str_or_empty :: "json \<Rightarrow> string" where
  "str_or_empty v = (if py_truthy v then py_str v else [])"

lemma str_or_empty_simps [simp]:
  "str_or_empty JNull = []" "str_or_empty (JStr s) = s"
  by (simp_all add: str_or_empty_def py_str_def)

text \<open>\<open>int(x)\<close> on a float truncates towards zero.\<close>

definition rat_trunc :: "rat \<Rightarrow> int" where
  "rat_trunc r = (if r < 0 then - \<lfloor>- r\<rfloor> else \<lfloor>r\<rfloor>)"

definition coerce_int_default :: "int \<Rightarrow> json \<Rightarrow> int" where
  "coerce_int_default d v =
     (case v of
        JBool b \<Rightarrow> (if b then 1 else 0)
      | JInt i \<Rightarrow> i
      | JFloat r _ \<Rightarrow> rat_trunc r
      | JStr s \<Rightarrow> (case int_of_text s of Some i \<Rightarrow> i | None \<Rightarrow> d)
      | _ \<Rightarrow> d)"

subsection \<open>Timestamps\<close>

type_synonym instant = int

definition seconds :: "int \<Rightarrow> instant" where
  "seconds n = n * 1000000"

lemma seconds_mono [simp]: "seconds m \<le> seconds n \<longleftrightarrow> m \<le> n"
  by (simp add: seconds_def)

lemma seconds_less [simp]: "seconds m < seconds n \<longleftrightarrow> m < n"
  by (simp add: seconds_def)

lemma seconds_pos [simp]: "0 < seconds n \<longleftrightarrow> 0 < n" "0 \<le> seconds n \<longleftrightarrow> 0 \<le> n" "seconds 0 = 0"
  by (simp_all add: seconds_def)

text \<open>\<open>now.replace(microsecond=0)\<close>\<close>

definition drop_microseconds :: "instant \<Rightarrow> instant" where
  "drop_microseconds t = t - t mod 1000000"

lemma drop_microseconds_le: "drop_microseconds t \<le> t \<and> t < drop_microseconds t + seconds 1"
  by (simp add: drop_microseconds_def seconds_def)

text \<open>The proleptic Gregorian date of a day number counted from 1970-01-01.\<close>

definition civil_from_days :: "int \<Rightarrow> int \<times> int \<times> int" where
  "civil_from_days days =
     (let z = days + 719468;
          era = z div 146097;
          doe = z mod 146097;
          yoe = (doe - doe div 1460 + doe div 36524 - doe div 146096) div 365;
          doy = doe - (365 * yoe + yoe div 4 - yoe div 100);
          mp = (5 * doy + 2) div 153;
          d = doy - (153 * mp + 2) div 5 + 1;
          m = (if mp < 10 then mp + 3 else mp - 9);
          y = yoe + era * 400 + (if m \<le> 2 then 1 else 0)
      in (y, m, d))"

definition pad_text :: "nat \<Rightarrow> int \<Rightarrow> string" where
  "pad_text w i = (let t = nat_text (nat i) in replicate (w - length t) CHR ''0'' @ t)"

text \<open>\<open>value.isoformat()\<close> of a UTC datetime.\<close>

definition isoformat :: "instant \<Rightarrow> string" where
  "isoformat t =
     (let s = t div 1000000; us = t mod 1000000; (y, m, d) = civil_from_days (s div 86400);
          sod = s mod 86400
      in pad_text 4 y @ ''-'' @ pad_text 2 m @ ''-'' @ pad_text 2 d @ ''T''
         @ pad_text 2 (sod div 3600) @ '':'' @ pad_text 2 (sod div 60 mod 60) @ '':''
         @ pad_text 2 (sod mod 60) @ (if us = 0 then [] else ''.'' @ pad_text 6 us) @ ''+00:00'')"

lemma isoformat_example: "isoformat (seconds 1792318509 + 250) = ''2026-10-18T10:15:09.000250+00:00''"
  by code_simp

end
