(* ===== verification/JsonText.thy ===== *)
theory JsonText
  imports "HOL-Library.Multiset" PyValues
begin

section \<open>Canonical JSON text\<close>

text \<open>
  What \<open>json.dumps(value, sort_keys=True, separators=(",", ":"))\<close> prints.  The quoting of strings is an
  argument, because the code uses both \<open>ensure_ascii=True\<close> (\<open>json_quote\<close>) and \<open>ensure_ascii=False\<close>
  (\<open>json_quote_raw\<close>).
\<close>

definition json_escape_char :: "char \<Rightarrow> string" where
  "json_escape_char c = (let n = (of_char c :: nat) in
     if n = 34 \<or> n = 92 then [char_of (92::nat), c]
     else if n = 8 then [char_of (92::nat), CHR ''b'']
     else if n = 9 then [char_of (92::nat), CHR ''t'']
     else if n = 10 then [char_of (92::nat), CHR ''n'']
     else if n = 12 then [char_of (92::nat), CHR ''f'']
     else if n = 13 then [char_of (92::nat), CHR ''r'']
     else if n < 32 \<or> 126 < n
       then [char_of (92::nat)] @ ''u00'' @ [hex_digit (n div 16), hex_digit (n mod 16)]
     else [c])"

definition json_quote :: "string \<Rightarrow> string" where
  "json_quote s = [char_of (34::nat)] @ concat (map json_escape_char s) @ [char_of (34::nat)]"

definition json_quote_raw :: "string \<Rightarrow> string" where
  "json_quote_raw s = [char_of (34::nat)]
     @ concat (map (\<lambda>c. if 126 < (of_char c :: nat) then [c] else json_escape_char c) s) @ [char_of (34::nat)]"

primrec json_text :: "(string \<Rightarrow> string) \<Rightarrow> json \<Rightarrow> string" where
  "json_text quote JNull = ''null''"
| "json_text quote (JBool b) = (if b then ''true'' else ''false'')"
| "json_text quote (JInt i) = int_text i"
| "json_text quote (JFloat r txt) = txt"
| "json_text quote (JStr s) = quote s"
| "json_text quote (JList xs) = ''['' @ join_with '','' (map (json_text quote) xs) @ '']''"
| "json_text quote (JObj kvs) =
     ''{'' @ join_with '','' (map (\<lambda>(k, t). quote k @ '':'' @ t)
               (sort_key fst (map (map_prod id (json_text quote)) kvs))) @ ''}''"

abbreviation json_dumps :: "json \<Rightarrow> string" where
  "json_dumps \<equiv> json_text json_quote"

text \<open>Key order does not reach the canonical text.\<close>

lemma json_text_key_order:
  assumes keys: "distinct (map fst kvs)" and perm: "mset kvs = mset kvs'"
  shows "json_text quote (JObj kvs) = json_text quote (JObj kvs')"
proof -
  let ?m = "map (map_prod id (json_text quote))"
  have fst: "map fst (?m kvs) = map fst kvs" by simp
  have "sort_key fst (?m kvs) = sort_key fst (?m kvs')"
  proof (rule sort_key_inj_key_eq)
    show "mset (?m kvs) = mset (sort_key fst (?m kvs'))" using perm by simp
    show "inj_on fst (set (?m kvs))" using keys fst by (metis distinct_map)
    show "sorted (map fst (sort_key fst (?m kvs')))" by simp
  qed
  then show ?thesis by simp
qed

end
