(* ===== verification/Hashes.thy ===== *)
theory Hashes
  imports PyValues "HOL-Library.Word"
begin

unbundle bit_operations_syntax

section \<open>Bytes and the standard library's digests\<close>

text \<open>
  Byte strings and the parts of \<open>hashlib\<close>, \<open>hmac\<close>, \<open>base64\<close> and \<open>str.encode\<close> the code calls: SHA-1,
  SHA-256, HMAC and PBKDF2 on 32-bit words that wrap, hexadecimal, Base64 and Base32 text and UTF-8
  for code points below 256.
\<close>

type_synonym byte = "8 word"
type_synonym bytes = "byte list"

subsection \<open>Big-endian integers and text\<close>

definition word_bytes :: "32 word \<Rightarrow> bytes" where
  "word_bytes w = [ucast (drop_bit 24 w), ucast (drop_bit 16 w), ucast (drop_bit 8 w), ucast w]"

text \<open>\<open>n.to_bytes(length, "big")\<close> for a number that fits.\<close>

fun be_bytes :: "nat \<Rightarrow> nat \<Rightarrow> bytes" where
  "be_bytes 0 n = []"
| "be_bytes (Suc k) n = be_bytes k (n div 256) @ [of_nat (n mod 256)]"

text \<open>\<open>int.from_bytes(data, "big")\<close>\<close>

definition be_nat :: "bytes \<Rightarrow> nat" where
  "be_nat bs = foldl (\<lambda>acc b. 256 * acc + unat b) 0 bs"

fun words_of :: "bytes \<Rightarrow> 32 word list" where
  "words_of (a # b # c # d # rest) =
     (push_bit 24 (ucast a) OR push_bit 16 (ucast b) OR push_bit 8 (ucast c) OR ucast d) # words_of rest"
| "words_of _ = []"

fun chunks :: "nat \<Rightarrow> nat \<Rightarrow> 'a list \<Rightarrow> 'a list list" where
  "chunks 0 n xs = []"
| "chunks (Suc k) n xs = take n xs # chunks k n (drop n xs)"

definition hexdigest :: "bytes \<Rightarrow> string" where
  "hexdigest bs = concat (map (\<lambda>b. [hex_digit (unat b div 16), hex_digit (unat b mod 16)]) bs)"

subsection \<open>SHA-1 and SHA-256\<close>

definition rotl32 :: "nat \<Rightarrow> 32 word \<Rightarrow> 32 word" where
  "rotl32 n w = push_bit n w OR drop_bit (32 - n) w"

definition rotr32 :: "nat \<Rightarrow> 32 word \<Rightarrow> 32 word" where
  "rotr32 n w = drop_bit n w OR push_bit (32 - n) w"

text \<open>The message, the bit one, zeros up to 56 bytes modulo 64, and the bit length in 8 bytes.\<close>

definition md_pad :: "bytes \<Rightarrow> bytes" where
  "md_pad m = m @ [0x80] @ replicate ((119 - length m mod 64) mod 64) 0 @ be_bytes 8 (8 * length m)"

definition md_blocks :: "bytes \<Rightarrow> 32 word list list" where
  "md_blocks m = map words_of (chunks (length (md_pad m) div 64) 64 (md_pad m))"

text \<open>The message schedule is kept reversed, so that the word \<open>t - k\<close> is at index \<open>k - 1\<close>.\<close>

fun sha1_schedule :: "nat \<Rightarrow> 32 word list \<Rightarrow> 32 word list" where
  "sha1_schedule 0 w = w"
| "sha1_schedule (Suc n) w =
     sha1_schedule n (rotl32 1 (w ! 2 XOR w ! 7 XOR w ! 13 XOR w ! 15) # w)"

type_synonym sha1_state = "32 word \<times> 32 word \<times> 32 word \<times> 32 word \<times> 32 word"

definition sha1_round :: "nat \<Rightarrow> 32 word \<Rightarrow> sha1_state \<Rightarrow> sha1_state" where
  "sha1_round t w st =
     (let (a, b, c, d, e) = st;
          (f, k) = (if t < 20 then ((b AND c) OR (NOT b AND d), 0x5A827999)
                    else if t < 40 then (b XOR c XOR d, 0x6ED9EBA1)
                    else if t < 60 then ((b AND c) OR (b AND d) OR (c AND d), 0x8F1BBCDC)
                    else (b XOR c XOR d, 0xCA62C1D6))
      in (rotl32 5 a + f + e + k + w, a, rotl32 30 b, c, d))"

fun sha1_rounds :: "nat \<Rightarrow> 32 word list \<Rightarrow> sha1_state \<Rightarrow> sha1_state" where
  "sha1_rounds t [] st = st"
| "sha1_rounds t (w # ws) st = sha1_rounds (Suc t) ws (sha1_round t w st)"

definition sha1_block :: "sha1_state \<Rightarrow> 32 word list \<Rightarrow> sha1_state" where
  "sha1_block st block =
     (let (a, b, c, d, e) = st;
          (a', b', c', d', e') = sha1_rounds 0 (rev (sha1_schedule 64 (rev block))) st
      in (a + a', b + b', c + c', d + d', e + e'))"

definition sha1 :: "bytes \<Rightarrow> bytes" where
  "sha1 m =
     (let (a, b, c, d, e) = foldl sha1_block
            (0x67452301, 0xEFCDAB89, 0x98BADCFE, 0x10325476, 0xC3D2E1F0) (md_blocks m)
      in concat (map word_bytes [a, b, c, d, e]))"

text \<open>The constants of SHA-256 are the first 32 bits of the fractional parts of roots of the first
  primes: cube roots for the rounds, square roots for the initial state.\<close>

definition floor_root :: "nat \<Rightarrow> int \<Rightarrow> int" where
  "floor_root k n = foldl (\<lambda>r b. if (r + 2 ^ b) ^ k \<le> n then r + 2 ^ b else r) 0 (rev [0..<48])"

definition small_primes :: "int list" where
  "small_primes = filter (\<lambda>p. list_all (\<lambda>d. p mod d \<noteq> 0) [2..p - 1]) [2..311]"

definition root_fraction :: "nat \<Rightarrow> int \<Rightarrow> 32 word" where
  "root_fraction k p = of_int (floor_root k (p * 2 ^ (32 * k)))"

definition sha256_constants :: "32 word list" where
  "sha256_constants = map (root_fraction 3) small_primes"

definition sha256_initial :: "32 word list" where
  "sha256_initial = map (root_fraction 2) (take 8 small_primes)"

fun sha256_schedule :: "nat \<Rightarrow> 32 word list \<Rightarrow> 32 word list" where
  "sha256_schedule 0 w = w"
| "sha256_schedule (Suc n) w =
     sha256_schedule n
       ((w ! 15 + (rotr32 7 (w ! 14) XOR rotr32 18 (w ! 14) XOR drop_bit 3 (w ! 14))
         + w ! 6 + (rotr32 17 (w ! 1) XOR rotr32 19 (w ! 1) XOR drop_bit 10 (w ! 1))) # w)"

type_synonym sha256_state =
  "32 word \<times> 32 word \<times> 32 word \<times> 32 word \<times> 32 word \<times> 32 word \<times> 32 word \<times> 32 word"

definition sha256_round :: "sha256_state \<Rightarrow> 32 word \<times> 32 word \<Rightarrow> sha256_state" where
  "sha256_round st kw =
     (let (a, b, c, d, e, f, g, h) = st;
          t1 = h + (rotr32 6 e XOR rotr32 11 e XOR rotr32 25 e) + ((e AND f) XOR (NOT e AND g))
               + fst kw + snd kw;
          t2 = (rotr32 2 a XOR rotr32 13 a XOR rotr32 22 a) + ((a AND b) XOR (a AND c) XOR (b AND c))
      in (t1 + t2, a, b, c, d + t1, e, f, g))"

definition sha256_block :: "sha256_state \<Rightarrow> 32 word list \<Rightarrow> sha256_state" where
  "sha256_block st block =
     (let (a, b, c, d, e, f, g, h) = st;
          (a', b', c', d', e', f', g', h') =
            foldl sha256_round st (zip sha256_constants (rev (sha256_schedule 48 (rev block))))
      in (a + a', b + b', c + c', d + d', e + e', f + f', g + g', h + h'))"

definition sha256 :: "bytes \<Rightarrow> bytes" where
  "sha256 m =
     (let h0 = sha256_initial;
          (a, b, c, d, e, f, g, h) = foldl sha256_block
            (h0 ! 0, h0 ! 1, h0 ! 2, h0 ! 3, h0 ! 4, h0 ! 5, h0 ! 6, h0 ! 7) (md_blocks m)
      in concat (map word_bytes [a, b, c, d, e, f, g, h]))"

lemma length_word_bytes [simp]: "length (word_bytes w) = 4"
  by (simp add: word_bytes_def)

lemma length_sha256 [simp]: "length (sha256 m) = 32"
  by (simp add: sha256_def Let_def split: prod.split)

subsection \<open>HMAC and PBKDF2\<close>

text \<open>A key longer than the 64-byte block is hashed first, a shorter one padded with zeros.\<close>

definition hmac_key :: "(bytes \<Rightarrow> bytes) \<Rightarrow> bytes \<Rightarrow> bytes" where
  "hmac_key H key = (let k = (if 64 < length key then H key else key) in k @ replicate (64 - length k) 0)"

definition hmac :: "(bytes \<Rightarrow> bytes) \<Rightarrow> bytes \<Rightarrow> bytes \<Rightarrow> bytes" where
  "hmac H key msg =
     (let k = hmac_key H key
      in H (map (\<lambda>b. b XOR 0x5c) k @ H (map (\<lambda>b. b XOR 0x36) k @ msg)))"

definition xor_bytes :: "bytes \<Rightarrow> bytes \<Rightarrow> bytes" where
  "xor_bytes xs ys = map2 (XOR) xs ys"

fun pbkdf2_loop :: "nat \<Rightarrow> (bytes \<Rightarrow> bytes) \<Rightarrow> bytes \<Rightarrow> bytes \<Rightarrow> bytes" where
  "pbkdf2_loop 0 prf u acc = acc"
| "pbkdf2_loop (Suc n) prf u acc = (let u' = prf u in pbkdf2_loop n prf u' (xor_bytes acc u'))"

text \<open>\<open>pbkdf2_hmac\<close> with the digest's own length: the first block only.\<close>

definition pbkdf2_hmac :: "(bytes \<Rightarrow> bytes) \<Rightarrow> bytes \<Rightarrow> bytes \<Rightarrow> nat \<Rightarrow> bytes" where
  "pbkdf2_hmac H password salt iterations =
     (let u = hmac H password (salt @ be_bytes 4 1)
      in pbkdf2_loop (iterations - 1) (hmac H password) u u)"

subsection \<open>UTF-8\<close>

definition utf8_char :: "char \<Rightarrow> bytes" where
  "utf8_char c = (let n = (of_char c :: nat) in
     if n < 128 then [of_nat n] else [of_nat (192 + n div 64), of_nat (128 + n mod 64)])"

definition utf8_encode :: "string \<Rightarrow> bytes" where
  "utf8_encode s = concat (map utf8_char s)"

text \<open>
  \<open>None\<close> is the \<open>UnicodeDecodeError\<close>, and also a text with a code point above 255, which the model's
  strings do not hold.
\<close>

fun utf8_decode :: "bytes \<Rightarrow> string option" where
  "utf8_decode [] = Some []"
| "utf8_decode (b # bs) =
     (if unat b < 128 then map_option ((#) (char_of (unat b))) (utf8_decode bs)
      else case bs of
        [] \<Rightarrow> None
      | b' # bs' \<Rightarrow>
          if (unat b = 194 \<or> unat b = 195) \<and> 128 \<le> unat b' \<and> unat b' < 192
          then map_option ((#) (char_of ((unat b - 192) * 64 + (unat b' - 128)))) (utf8_decode bs')
          else None)"

lemma unat_byte: "n < 256 \<Longrightarrow> unat (of_nat n :: byte) = n"
  by (simp add: unat_of_nat)

lemma of_char_less: "(of_char c :: nat) < 256"
  by (rule nat_of_char_less_256)

lemma utf8_decode_encode: "utf8_decode (utf8_encode s) = Some s"
proof (induction s)
  case Nil
  then show ?case by (simp add: utf8_encode_def)
next
  case (Cons c s)
  let ?n = "of_char c :: nat"
  have n: "?n < 256" by (rule of_char_less)
  have rest: "utf8_decode (concat (map utf8_char s)) = Some s" using Cons by (simp add: utf8_encode_def)
  show ?case
  proof (cases "?n < 128")
    case True
    then show ?thesis using rest by (simp add: utf8_encode_def utf8_char_def unat_byte Let_def)
  next
    case False
    have hi: "?n div 64 = 2 \<or> ?n div 64 = 3" using False n by linarith
    have lead: "unat (of_nat (192 + ?n div 64) :: byte) = 192 + ?n div 64"
      by (rule unat_byte) (use hi in auto)
    have "?n mod 64 < 64" by simp
    then have tail: "unat (of_nat (128 + ?n mod 64) :: byte) = 128 + ?n mod 64"
      by (intro unat_byte) linarith
    have join: "?n div 64 * 64 + ?n mod 64 = ?n" by simp
    have c: "char_of (?n div 64 * 64 + ?n mod 64) = c" by (simp only: join char_of_char)
    have "utf8_encode (c # s) =
        of_nat (192 + ?n div 64) # of_nat (128 + ?n mod 64) # concat (map utf8_char s)"
      using False by (simp add: utf8_encode_def utf8_char_def Let_def del: of_nat_add)
    moreover have "\<not> 192 + ?n div 64 < 128" "192 + ?n div 64 = 194 \<or> 192 + ?n div 64 = 195"
      "128 + ?n mod 64 < 192" using hi \<open>?n mod 64 < 64\<close> by auto
    ultimately show ?thesis
      using rest c by (simp only: utf8_decode.simps lead tail list.case if_False if_True
          le_add1 simp_thms diff_add_inverse option.map)
  qed
qed

subsection \<open>Base64 and Base32\<close>

definition b64_char :: "nat \<Rightarrow> char" where
  "b64_char i = char_of (if i < 26 then 65 + i else if i < 52 then 71 + i
     else if i < 62 then i - 4 else if i = 62 then 45 else 95)"

definition b64_value :: "char \<Rightarrow> nat option" where
  "b64_value c = (let n = (of_char c :: nat) in
     if 65 \<le> n \<and> n \<le> 90 then Some (n - 65) else if 97 \<le> n \<and> n \<le> 122 then Some (n - 71)
     else if 48 \<le> n \<and> n \<le> 57 then Some (n + 4) else if n = 45 then Some 62
     else if n = 95 then Some 63 else None)"

lemma b64_value_char: "i < 64 \<Longrightarrow> b64_value (b64_char i) = Some i"
  by (auto simp: b64_value_def b64_char_def Let_def of_char_of)

text \<open>\<open>base64.urlsafe_b64encode\<close>\<close>

fun b64_encode :: "bytes \<Rightarrow> string" where
  "b64_encode [] = []"
| "b64_encode [x] =
     [b64_char (unat x div 4), b64_char (unat x mod 4 * 16), CHR ''='', CHR ''='']"
| "b64_encode [x, y] =
     [b64_char (unat x div 4), b64_char (unat x mod 4 * 16 + unat y div 16),
      b64_char (unat y mod 16 * 4), CHR ''='']"
| "b64_encode (x # y # z # rest) =
     b64_char (unat x div 4) # b64_char (unat x mod 4 * 16 + unat y div 16)
     # b64_char (unat y mod 16 * 4 + unat z div 64) # b64_char (unat z mod 64) # b64_encode rest"

definition b64_triple :: "nat \<Rightarrow> nat \<Rightarrow> nat \<Rightarrow> nat \<Rightarrow> bytes" where
  "b64_triple i j k l = [of_nat (i * 4 + j div 16), of_nat (j mod 16 * 16 + k div 4), of_nat (k mod 4 * 64 + l)]"

text \<open>\<open>b64decode(text, altchars=b"-_", validate=True)\<close>; trailing bits of a final group are dropped.\<close>

fun b64_decode :: "string \<Rightarrow> bytes option" where
  "b64_decode [] = Some []"
| "b64_decode (a # b # c # d # rest) =
     (case (b64_value a, b64_value b) of
        (Some i, Some j) \<Rightarrow>
          if c = CHR ''='' \<and> d = CHR ''='' \<and> rest = [] then Some (take 1 (b64_triple i j 0 0))
          else (case b64_value c of
             None \<Rightarrow> None
           | Some k \<Rightarrow>
               if d = CHR ''='' \<and> rest = [] then Some (take 2 (b64_triple i j k 0))
               else (case b64_value d of
                  None \<Rightarrow> None
                | Some l \<Rightarrow> map_option (\<lambda>bs. b64_triple i j k l @ bs) (b64_decode rest)))
      | _ \<Rightarrow> None)"
| "b64_decode _ = None"

lemma b64_char_not_pad: "i < 64 \<Longrightarrow> b64_char i \<noteq> CHR ''=''"
  using b64_value_char [of i] by (auto simp: b64_value_def)

lemma unat_byte_less: "unat (b :: byte) < 256"
  using unsigned_less [of b, where ?'a = nat] by simp

lemma b64_group:
  fixes x y z :: byte
  shows "unat x div 4 < 64" "unat x mod 4 * 16 < 64" "unat x mod 4 * 16 + unat y div 16 < 64"
    "unat y mod 16 * 4 < 64" "unat y mod 16 * 4 + unat z div 64 < 64" "unat z mod 64 < 64"
    "b64_triple (unat x div 4) (unat x mod 4 * 16 + unat y div 16)
       (unat y mod 16 * 4 + unat z div 64) (unat z mod 64) = [x, y, z]"
    "take 2 (b64_triple (unat x div 4) (unat x mod 4 * 16 + unat y div 16) (unat y mod 16 * 4) 0) = [x, y]"
    "take 1 (b64_triple (unat x div 4) (unat x mod 4 * 16) 0 0) = [x]"
proof -
  note less = unat_byte_less [of x] unat_byte_less [of y] unat_byte_less [of z]
  show "unat x div 4 < 64" "unat x mod 4 * 16 < 64" "unat x mod 4 * 16 + unat y div 16 < 64"
    "unat y mod 16 * 4 < 64" "unat y mod 16 * 4 + unat z div 64 < 64" "unat z mod 64 < 64"
    using less by linarith+
  have hi: "unat y div 16 < 16" "unat z div 64 < 4" using less by linarith+
  have xy: "unat x div 4 * 4 + (unat x mod 4 * 16 + unat y div 16) div 16 = unat x"
    using hi by simp
  have yz: "(unat x mod 4 * 16 + unat y div 16) mod 16 * 16 + (unat y mod 16 * 4 + unat z div 64) div 4 = unat y"
    using hi by (simp add: mod_mult_self3 div_mult_mod_eq)
  have y0: "(unat x mod 4 * 16 + unat y div 16) mod 16 * 16 + (unat y mod 16 * 4) div 4 = unat y"
    using hi by simp
  have x0: "unat x div 4 * 4 + (unat x mod 4 * 16) div 16 = unat x"
    by simp
  have zz: "(unat y mod 16 * 4 + unat z div 64) mod 4 * 64 + unat z mod 64 = unat z"
    using hi by simp
  show "b64_triple (unat x div 4) (unat x mod 4 * 16 + unat y div 16)
       (unat y mod 16 * 4 + unat z div 64) (unat z mod 64) = [x, y, z]"
    unfolding b64_triple_def xy yz zz by simp
  show "take 2 (b64_triple (unat x div 4) (unat x mod 4 * 16 + unat y div 16) (unat y mod 16 * 4) 0) = [x, y]"
    unfolding b64_triple_def xy y0 by (simp add: take_Cons')
  show "take 1 (b64_triple (unat x div 4) (unat x mod 4 * 16) 0 0) = [x]"
    unfolding b64_triple_def x0 by simp
qed

lemma b64_decode_encode: "b64_decode (b64_encode bs) = Some bs"
proof (induction bs rule: b64_encode.induct)
  case (2 x)
  then show ?case using b64_group(1,2,9) [of x] by (simp add: b64_value_char)
next
  case (3 x y)
  then show ?case using b64_group(1) [of x] b64_group(3,8) [of x y] b64_group(4) [of y] by (simp add: b64_value_char b64_char_not_pad)
next
  case (4 x y z rest)
  then show ?case
    using b64_group(1) [of x] b64_group(3) [of x y] b64_group(5) [of y z] b64_group(6) [of z] b64_group(7) [of x y z] by (simp add: b64_value_char b64_char_not_pad)
qed simp

lemma length_b64_encode: "length (b64_encode bs) = 4 * ((length bs + 2) div 3)"
proof (induction bs rule: b64_encode.induct)
  case (4 x y z rest)
  have "(length (x # y # z # rest) + 2) div 3 = 1 + (length rest + 2) div 3" by simp
  with 4 show ?case by (simp only: b64_encode.simps list.size) simp
qed simp_all

text \<open>\<open>base64.b32encode(data).rstrip("=")\<close>: the bits in groups of five, the last group filled with
  zeros.\<close>

definition b32_char :: "nat \<Rightarrow> char" where
  "b32_char i = char_of (if i < 26 then 65 + i else 24 + i)"

definition byte_bits :: "byte \<Rightarrow> bool list" where
  "byte_bits b = map (\<lambda>i. bit b (7 - i)) [0..<8]"

definition bits_nat :: "bool list \<Rightarrow> nat" where
  "bits_nat bs = foldl (\<lambda>acc b. 2 * acc + (if b then 1 else 0)) 0 bs"

fun b32_groups :: "bool list \<Rightarrow> string" where
  "b32_groups (a # b # c # d # e # rest) = b32_char (bits_nat [a, b, c, d, e]) # b32_groups rest"
| "b32_groups [] = []"
| "b32_groups bs = [b32_char (bits_nat (take 5 (bs @ replicate 5 False)))]"

definition b32_encode_unpadded :: "bytes \<Rightarrow> string" where
  "b32_encode_unpadded bs = b32_groups (concat (map byte_bits bs))"

subsection \<open>Digests of text\<close>

definition sha256_hex :: "string \<Rightarrow> string" where
  "sha256_hex s = hexdigest (sha256 (utf8_encode s))"

end
