(* ===== verification/RunStore.thy ===== *)
theory RunStore
  imports PyValues
begin

section \<open>Durable run records (app/adapters/repositories/runtime\_repository.py)\<close>

text \<open>
  The table \<open>run_records\<close> and the repository operations that create, claim, finish, cancel, purge
  and query runs.  Every \<open>datetime.now(UTC)\<close> of the code is an argument.  Foreign keys and column
  length limits are not modelled; the primary key and the unique constraint on
  (site, idempotency key) are.
\<close>

subsection \<open>Data\<close>

record run_record =
  r_run_id :: string
  r_site_id :: string
  r_account_id :: "string option"
  r_subscription_id :: "string option"
  r_plan_version_id :: "string option"
  r_ability_name :: string
  r_ability_family :: string
  r_skill_id :: "string option"
  r_workflow_id :: "string option"
  r_contract_version :: "string option"
  r_channel :: string
  r_execution_kind :: string
  r_execution_tier :: string
  r_execution_pattern :: string
  r_data_classification :: string
  r_profile_id :: string
  r_canonical_run_id :: "string option"
  r_status :: string
  r_idempotency_key :: "string option"
  r_request_fingerprint :: "string option"
  r_trace_id :: string
  r_cancel_requested_at :: "instant option"
  r_canceled_at :: "instant option"
  r_input_json :: "json option"
  r_execution_input_ciphertext :: "string option"
  r_policy_json :: "json option"
  r_result_ref :: "string option"
  r_result_json :: "json option"
  r_error_code :: "string option"
  r_error_message :: "string option"
  r_callback_status :: string
  r_callback_attempt_count :: int
  r_callback_last_attempt_at :: "instant option"
  r_callback_delivered_at :: "instant option"
  r_callback_next_attempt_at :: "instant option"
  r_callback_last_error_code :: "string option"
  r_callback_last_error_message :: "string option"
  r_selected_provider_id :: "string option"
  r_selected_model_id :: "string option"
  r_selected_instance_id :: "string option"
  r_fallback_used :: bool
  r_started_at :: instant
  r_processing_started_at :: "instant option"
  r_worker_eligible_at :: "instant option"
  r_finished_at :: "instant option"
  r_retention_expires_at :: "instant option"
  r_result_purged_at :: "instant option"

type_synonym run_table = "run_record list"

definition RUN_CALLBACK_STATUS_NOT_REQUESTED :: string where
  "RUN_CALLBACK_STATUS_NOT_REQUESTED = ''not_requested''"
definition RUN_CALLBACK_STATUS_PENDING :: string where
  "RUN_CALLBACK_STATUS_PENDING = ''pending''"
definition RUN_CALLBACK_STATUS_DISPATCHING :: string where
  "RUN_CALLBACK_STATUS_DISPATCHING = ''dispatching''"
definition RUN_CALLBACK_STATUS_DELIVERED :: string where
  "RUN_CALLBACK_STATUS_DELIVERED = ''delivered''"
definition RUN_CALLBACK_STATUS_FAILED :: string where
  "RUN_CALLBACK_STATUS_FAILED = ''failed''"

lemmas callback_status_defs =
  RUN_CALLBACK_STATUS_NOT_REQUESTED_def RUN_CALLBACK_STATUS_PENDING_def
  RUN_CALLBACK_STATUS_DISPATCHING_def RUN_CALLBACK_STATUS_DELIVERED_def
  RUN_CALLBACK_STATUS_FAILED_def

declare callback_status_defs [model_defs]

record provider_call =
  pc_id :: int
  pc_run_id :: string
  pc_provider_id :: string
  pc_model_id :: string
  pc_instance_id :: string
  pc_region :: string
  pc_latency_ms :: int
  pc_tokens_in :: int
  pc_tokens_out :: int
  pc_cost :: rat
  pc_retry_count :: int
  pc_fallback_used :: bool
  pc_error_code :: "string option"
  pc_created_at :: instant

definition RUNTIME_STORAGE_MODE_NO_STORE :: string where
  "RUNTIME_STORAGE_MODE_NO_STORE = ''no_store''"
definition RUNTIME_STORAGE_MODE_RESULT_ONLY :: string where
  "RUNTIME_STORAGE_MODE_RESULT_ONLY = ''result_only''"
definition RUNTIME_STORAGE_MODE_FULL_STORE_WITH_TTL :: string where
  "RUNTIME_STORAGE_MODE_FULL_STORE_WITH_TTL = ''full_store_with_ttl''"

definition RUNTIME_CALLBACK_DISPATCH_LEASE_RECOVERY_AFTER_SECONDS :: int where
  "RUNTIME_CALLBACK_DISPATCH_LEASE_RECOVERY_AFTER_SECONDS = 300"

definition RUNTIME_CALLBACK_DISPATCH_LEASE_RECOVERY_ERROR_CODE :: string where
  "RUNTIME_CALLBACK_DISPATCH_LEASE_RECOVERY_ERROR_CODE = ''runtime.callback_dispatch_lease_recovered''"

text \<open>The keyword arguments of \<open>create_run\<close>, which the run service passes as one command.\<close>

record run_command =
  c_run_id :: string
  c_site_id :: string
  c_account_id :: "string option"
  c_subscription_id :: "string option"
  c_plan_version_id :: "string option"
  c_ability_name :: string
  c_ability_family :: string
  c_skill_id :: string
  c_workflow_id :: string
  c_contract_version :: string
  c_channel :: string
  c_execution_kind :: string
  c_execution_tier :: string
  c_execution_pattern :: string
  c_data_classification :: string
  c_profile_id :: string
  c_canonical_run_id :: "string option"
  c_status :: string
  c_idempotency_key :: "string option"
  c_request_fingerprint :: string
  c_trace_id :: string
  c_input_json :: json_dict
  c_execution_input_ciphertext :: "string option"
  c_policy_json :: json_dict
  c_selected_provider_id :: "string option"
  c_selected_model_id :: "string option"
  c_selected_instance_id :: "string option"
  c_worker_eligible_at :: "instant option"

datatype db_error = IntegrityError

subsection \<open>Policy readers\<close>

definition run_policy :: "run_record \<Rightarrow> json_dict" where
  "run_policy r = dict_or_empty (r_policy_json r)"

definition coerce_int :: "json \<Rightarrow> int" where
  "coerce_int v = coerce_int_default 0 v"

definition get_storage_mode :: "json_dict \<Rightarrow> string" where
  "get_storage_mode policy =
     (let storage_mode = str_or_empty (py_get policy ''storage_mode'') in
      if storage_mode = RUNTIME_STORAGE_MODE_FULL_STORE_WITH_TTL
      then RUNTIME_STORAGE_MODE_FULL_STORE_WITH_TTL else storage_mode)"

definition repo_has_callback_target :: "json_dict \<Rightarrow> bool" where
  "repo_has_callback_target policy =
     ((case py_get policy ''runtime_callback'' of
         JObj runtime_callback \<Rightarrow>
           py_strip (str_or_empty (py_get runtime_callback ''callback_url'')) \<noteq> []
       | _ \<Rightarrow> False)
      \<or> py_strip (str_or_empty (py_get policy ''callback_url'')) \<noteq> [])"

text \<open>
  \<open>coalesce(policy_json -> runtime_callback -> callback_url, policy_json -> callback_url)\<close> as SQL
  extracts it: a path through something that is not an object, a missing key and a JSON null are
  NULL.  \<open>callback_url_set\<close> is the test \<open>IS NOT NULL AND <> ''\<close> of its text.
\<close>

definition json_path_value :: "json \<Rightarrow> string \<Rightarrow> json" where
  "json_path_value v k = (case v of JObj kvs \<Rightarrow> py_get kvs k | _ \<Rightarrow> JNull)"

definition callback_url_expression :: "run_record \<Rightarrow> json" where
  "callback_url_expression r =
     (let policy = (case r_policy_json r of None \<Rightarrow> JNull | Some v \<Rightarrow> v);
          nested = json_path_value (json_path_value policy ''runtime_callback'') ''callback_url''
      in if nested \<noteq> JNull then nested else json_path_value policy ''callback_url'')"

definition callback_url_set :: "run_record \<Rightarrow> bool" where
  "callback_url_set r =
     (case callback_url_expression r of JNull \<Rightarrow> False | JStr s \<Rightarrow> s \<noteq> [] | _ \<Rightarrow> True)"

subsection \<open>Creation and lookup\<close>

definition get_run_row :: "string \<Rightarrow> run_table \<Rightarrow> run_record option" where
  "get_run_row run_id rows = row_get r_run_id run_id rows"

definition get_run_by_idempotency :: "string \<Rightarrow> string \<Rightarrow> run_table \<Rightarrow> run_record option" where
  "get_run_by_idempotency site_id key rows =
     find (\<lambda>r. r_site_id r = site_id \<and> r_idempotency_key r = Some key) rows"

definition new_run_record :: "instant \<Rightarrow> instant \<Rightarrow> run_command \<Rightarrow> run_record" where
  "new_run_record now db_now c =
     \<lparr>r_run_id = c_run_id c, r_site_id = c_site_id c, r_account_id = c_account_id c,
      r_subscription_id = c_subscription_id c, r_plan_version_id = c_plan_version_id c,
      r_ability_name = c_ability_name c, r_ability_family = c_ability_family c,
      r_skill_id = none_if_empty (c_skill_id c), r_workflow_id = none_if_empty (c_workflow_id c),
      r_contract_version = none_if_empty (c_contract_version c), r_channel = c_channel c,
      r_execution_kind = c_execution_kind c, r_execution_tier = c_execution_tier c,
      r_execution_pattern = c_execution_pattern c,
      r_data_classification = c_data_classification c, r_profile_id = c_profile_id c,
      r_canonical_run_id = none_if_empty (or_empty (c_canonical_run_id c)),
      r_status = c_status c, r_idempotency_key = c_idempotency_key c,
      r_request_fingerprint = Some (c_request_fingerprint c), r_trace_id = c_trace_id c,
      r_cancel_requested_at = None, r_canceled_at = None,
      r_input_json = Some (JObj (c_input_json c)),
      r_execution_input_ciphertext = c_execution_input_ciphertext c,
      r_policy_json = Some (JObj (c_policy_json c)), r_result_ref = None, r_result_json = None,
      r_error_code = None, r_error_message = None,
      r_callback_status = RUN_CALLBACK_STATUS_NOT_REQUESTED, r_callback_attempt_count = 0,
      r_callback_last_attempt_at = None, r_callback_delivered_at = None,
      r_callback_next_attempt_at = None, r_callback_last_error_code = None,
      r_callback_last_error_message = None,
      r_selected_provider_id = c_selected_provider_id c,
      r_selected_model_id = c_selected_model_id c,
      r_selected_instance_id = c_selected_instance_id c, r_fallback_used = False,
      r_started_at = db_now,
      r_processing_started_at = (if c_status c = ''running'' then Some now else None),
      r_worker_eligible_at = c_worker_eligible_at c, r_finished_at = None,
      r_retention_expires_at = None, r_result_purged_at = None\<rparr>"

definition create_run ::
    "instant \<Rightarrow> instant \<Rightarrow> run_command \<Rightarrow> run_table \<Rightarrow> (db_error, run_record \<times> run_table) outcome" where
  "create_run now db_now c rows =
     (if get_run_row (c_run_id c) rows \<noteq> None
         \<or> (case c_idempotency_key c of
                None \<Rightarrow> False
              | Some key \<Rightarrow> get_run_by_idempotency (c_site_id c) key rows \<noteq> None)
      then Raise IntegrityError
      else let run = new_run_record now db_now c in Return (run, rows @ [run]))"

definition save_run :: "run_record \<Rightarrow> run_table \<Rightarrow> run_table" where
  "save_run r rows = row_put r_run_id r rows"

end
