(* ===== verification/RunTransitions.thy ===== *)
theory RunTransitions
  imports RunStore
begin

section \<open>State changes of a run (app/adapters/repositories/runtime\_repository.py)\<close>

text \<open>
  The writes that finish a run, claim it for a worker, request its cancellation, purge it, and move
  its callback through not-requested, pending, dispatching, delivered and failed.  The invariant
  \<open>run_wf\<close> relates status, timestamps, retained input and callback fields; every write keeps it.
\<close>

subsection \<open>Terminal writes\<close>

definition resolve_retention_expires_at :: "run_record \<Rightarrow> instant \<Rightarrow> instant option" where
  "resolve_retention_expires_at run terminal_at =
     (let policy = run_policy run in
      if get_storage_mode policy = RUNTIME_STORAGE_MODE_FULL_STORE_WITH_TTL
      then (let retention_ttl = coerce_int (py_get policy ''retention_ttl'') in
            if retention_ttl \<le> 0 then None else Some (terminal_at + seconds retention_ttl))
      else (let retention_ttl = coerce_int (py_get policy ''retention_ttl'') in
            if retention_ttl \<le> 0 then None else Some (terminal_at + seconds retention_ttl)))"

definition schedule_callback_delivery :: "instant \<Rightarrow> run_record \<Rightarrow> run_record" where
  "schedule_callback_delivery scheduled_at run =
     (if \<not> repo_has_callback_target (run_policy run)
      then run\<lparr>r_callback_status := RUN_CALLBACK_STATUS_NOT_REQUESTED,
               r_callback_next_attempt_at := None, r_callback_delivered_at := None,
               r_callback_last_error_code := None, r_callback_last_error_message := None\<rparr>
      else run\<lparr>r_callback_status := RUN_CALLBACK_STATUS_PENDING,
               r_callback_next_attempt_at := Some scheduled_at, r_callback_delivered_at := None\<rparr>)"

definition apply_terminal_input_storage_policy :: "run_record \<Rightarrow> run_record" where
  "apply_terminal_input_storage_policy run =
     (let storage_mode = get_storage_mode (run_policy run);
          run' = (if storage_mode \<in> {RUNTIME_STORAGE_MODE_NO_STORE, RUNTIME_STORAGE_MODE_RESULT_ONLY}
                  then run\<lparr>r_input_json := Some (JObj [])\<rparr> else run)
      in run'\<lparr>r_callback_last_error_code := None, r_callback_last_error_message := None\<rparr>)"

definition mark_run_succeeded ::
    "instant \<Rightarrow> json_dict \<Rightarrow> string \<Rightarrow> string \<Rightarrow> string \<Rightarrow> bool \<Rightarrow> run_record \<Rightarrow> run_record" where
  "mark_run_succeeded terminal_at result_json provider_id model_id instance_id fallback_used run =
     (let run = run\<lparr>r_status := ''succeeded'', r_result_ref := Some ''inline'',
                    r_result_json := Some (JObj result_json),
                    r_selected_provider_id := Some provider_id, r_selected_model_id := Some model_id,
                    r_selected_instance_id := Some instance_id, r_fallback_used := fallback_used,
                    r_error_code := None, r_error_message := None,
                    r_finished_at := Some terminal_at, r_canceled_at := None\<rparr>;
          run = run\<lparr>r_retention_expires_at := resolve_retention_expires_at run terminal_at,
                    r_execution_input_ciphertext := None\<rparr>
      in schedule_callback_delivery terminal_at (apply_terminal_input_storage_policy run))"

definition mark_run_failed ::
    "instant \<Rightarrow> string \<Rightarrow> string \<Rightarrow> string option \<Rightarrow> string option \<Rightarrow> string option \<Rightarrow> bool option
      \<Rightarrow> run_record \<Rightarrow> run_record" where
  "mark_run_failed terminal_at error_code error_message provider_id model_id instance_id fallback_used run =
     (let run = run\<lparr>r_status := ''failed'', r_error_code := Some error_code,
                    r_error_message := Some error_message\<rparr>;
          run = (if provider_id \<noteq> None then run\<lparr>r_selected_provider_id := provider_id\<rparr> else run);
          run = (if model_id \<noteq> None then run\<lparr>r_selected_model_id := model_id\<rparr> else run);
          run = (if instance_id \<noteq> None then run\<lparr>r_selected_instance_id := instance_id\<rparr> else run);
          run = (case fallback_used of None \<Rightarrow> run | Some b \<Rightarrow> run\<lparr>r_fallback_used := b\<rparr>);
          run = run\<lparr>r_finished_at := Some terminal_at, r_canceled_at := None\<rparr>;
          run = run\<lparr>r_retention_expires_at := resolve_retention_expires_at run terminal_at,
                    r_execution_input_ciphertext := None\<rparr>
      in schedule_callback_delivery terminal_at (apply_terminal_input_storage_policy run))"

definition request_run_cancel :: "instant \<Rightarrow> run_record \<Rightarrow> run_record" where
  "request_run_cancel requested_at run =
     (if r_cancel_requested_at run = None then run\<lparr>r_cancel_requested_at := Some requested_at\<rparr> else run)"

definition mark_run_canceled :: "instant \<Rightarrow> string \<Rightarrow> run_record \<Rightarrow> run_record" where
  "mark_run_canceled terminal_at message run =
     (let run = run\<lparr>r_status := ''canceled'', r_error_code := Some ''runtime.canceled'',
                    r_error_message := Some message, r_finished_at := Some terminal_at,
                    r_canceled_at := Some terminal_at\<rparr>;
          run = (if r_cancel_requested_at run = None
                 then run\<lparr>r_cancel_requested_at := Some terminal_at\<rparr> else run);
          run = run\<lparr>r_retention_expires_at := resolve_retention_expires_at run terminal_at,
                    r_execution_input_ciphertext := None\<rparr>
      in schedule_callback_delivery terminal_at (apply_terminal_input_storage_policy run))"

subsection \<open>Worker claims\<close>

definition worker_eligible :: "instant \<Rightarrow> run_record \<Rightarrow> bool" where
  "worker_eligible now r = (case r_worker_eligible_at r of None \<Rightarrow> True | Some t \<Rightarrow> t \<le> now)"

definition queued_claimable :: "instant \<Rightarrow> run_record \<Rightarrow> bool" where
  "queued_claimable now r \<longleftrightarrow> r_status r = ''queued'' \<and> worker_eligible now r"

definition start_processing :: "instant \<Rightarrow> run_record \<Rightarrow> run_record" where
  "start_processing now r = r\<lparr>r_status := ''running'', r_processing_started_at := Some now\<rparr>"

text \<open>
  \<open>UPDATE ... RETURNING run_id\<close>; an empty returned id is treated as no claim, although the row was
  written.
\<close>

definition claim_queued_run ::
    "(run_record \<Rightarrow> bool) \<Rightarrow> instant \<Rightarrow> run_table \<Rightarrow> run_record option \<times> run_table" where
  "claim_queued_run cond now rows =
     (case filter cond rows of
        [] \<Rightarrow> (None, rows)
      | claimed_row # _ \<Rightarrow>
          (let rows' = rows_update cond (start_processing now) rows;
               claimed_run_id = r_run_id claimed_row
           in if claimed_run_id = [] then (None, rows')
              else (get_run_row claimed_run_id rows', rows')))"

definition claim_run_if_queued ::
    "instant \<Rightarrow> instant \<Rightarrow> string \<Rightarrow> run_table \<Rightarrow> run_record option \<times> run_table" where
  "claim_run_if_queued now now' run_id rows =
     claim_queued_run (\<lambda>r. r_run_id r = run_id \<and> queued_claimable now r) now' rows"

definition is_running_media_derivative :: "run_record \<Rightarrow> bool" where
  "is_running_media_derivative r \<longleftrightarrow> r_status r = ''running'' \<and> r_execution_kind r = ''media_derivative''"

definition count_running_media_derivative_runs :: "string \<Rightarrow> run_table \<Rightarrow> int" where
  "count_running_media_derivative_runs site_id rows =
     int (length (filter (\<lambda>r. r_site_id r = site_id \<and> is_running_media_derivative r) rows))"

definition site_saturated :: "int \<Rightarrow> run_table \<Rightarrow> string \<Rightarrow> bool" where
  "site_saturated limit rows site_id \<longleftrightarrow>
     (\<exists>r\<in>set rows. r_site_id r = site_id \<and> is_running_media_derivative r)
     \<and> limit \<le> count_running_media_derivative_runs site_id rows"

definition runnable_filter :: "int option \<Rightarrow> instant \<Rightarrow> run_table \<Rightarrow> run_record \<Rightarrow> bool" where
  "runnable_filter limit now rows r \<longleftrightarrow>
     worker_eligible now r
     \<and> (case limit of
          None \<Rightarrow> True
        | Some n \<Rightarrow> n \<le> 0 \<or> r_execution_kind r \<noteq> ''media_derivative''
                    \<or> \<not> site_saturated n rows (r_site_id r))"

definition oldest_queued_run :: "int option \<Rightarrow> instant \<Rightarrow> run_table \<Rightarrow> run_record option" where
  "oldest_queued_run limit now rows =
     (case sort_key (\<lambda>r. (r_started_at r, r_run_id r))
             (filter (\<lambda>r. r_status r = ''queued'' \<and> runnable_filter limit now rows r) rows) of
        [] \<Rightarrow> None | r # _ \<Rightarrow> Some r)"

definition claim_next_queued_run ::
    "int option \<Rightarrow> instant \<Rightarrow> instant \<Rightarrow> run_table \<Rightarrow> run_record option \<times> run_table" where
  "claim_next_queued_run limit now now' rows =
     (case oldest_queued_run limit now rows of
        None \<Rightarrow> (None, rows)
      | Some oldest \<Rightarrow>
          claim_queued_run
            (\<lambda>r. r_run_id r = r_run_id oldest \<and> r_status r = ''queued'' \<and> runnable_filter limit now rows r)
            now' rows)"

definition defer_run_until :: "instant \<Rightarrow> run_record \<Rightarrow> run_record" where
  "defer_run_until eligible_at run =
     run\<lparr>r_status := ''queued'', r_processing_started_at := None, r_worker_eligible_at := Some eligible_at\<rparr>"

subsection \<open>Retention\<close>

definition retention_due :: "instant \<Rightarrow> run_record \<Rightarrow> bool" where
  "retention_due now r \<longleftrightarrow> sql_le (r_retention_expires_at r) now \<and> r_result_purged_at r = None"

definition purge_run :: "instant \<Rightarrow> run_record \<Rightarrow> run_record" where
  "purge_run now run =
     run\<lparr>r_result_json := None, r_input_json := None, r_execution_input_ciphertext := None,
         r_result_ref := Some ''purged'', r_result_purged_at := Some now\<rparr>"

definition expired_runs :: "instant \<Rightarrow> int \<Rightarrow> run_table \<Rightarrow> run_table" where
  "expired_runs now limit rows =
     sql_limit (max 1 limit)
       (sort_key (\<lambda>r. (asc_nulls_last (r_retention_expires_at r), r_run_id r))
          (filter (retention_due now) rows))"

definition purge_expired_run_results :: "instant \<Rightarrow> int \<Rightarrow> run_table \<Rightarrow> int \<times> run_table" where
  "purge_expired_run_results now limit rows =
     (let expired = expired_runs now limit rows in
      (int (length expired), fold (\<lambda>run t. save_run (purge_run now run) t) expired rows))"

definition count_expired_run_results :: "instant \<Rightarrow> run_table \<Rightarrow> int" where
  "count_expired_run_results now rows = int (length (filter (retention_due now) rows))"

subsection \<open>Callback delivery state\<close>

definition callback_claimable :: "run_record \<Rightarrow> bool" where
  "callback_claimable r \<longleftrightarrow>
     r_callback_status r \<in> {RUN_CALLBACK_STATUS_NOT_REQUESTED, RUN_CALLBACK_STATUS_PENDING}"

definition start_callback_dispatch :: "instant \<Rightarrow> run_record \<Rightarrow> run_record" where
  "start_callback_dispatch claimed_at r =
     r\<lparr>r_callback_status := RUN_CALLBACK_STATUS_DISPATCHING,
       r_callback_attempt_count := r_callback_attempt_count r + 1,
       r_callback_last_attempt_at := Some claimed_at,
       r_callback_next_attempt_at := None\<rparr>"

definition claim_callback_dispatch ::
    "instant \<Rightarrow> string \<Rightarrow> run_table \<Rightarrow> run_record option \<times> run_table" where
  "claim_callback_dispatch claimed_at run_id rows =
     (let cond = (\<lambda>r. r_run_id r = run_id \<and> callback_claimable r);
          rows' = rows_update cond (start_callback_dispatch claimed_at) rows
      in if length (filter cond rows) \<noteq> 1 then (None, rows') else (get_run_row run_id rows', rows'))"

definition list_due_callback_run_ids :: "int \<Rightarrow> instant \<Rightarrow> run_table \<Rightarrow> string list" where
  "list_due_callback_run_ids limit now rows =
     (let candidates =
            sql_limit (max 5 (limit * 5))
              (sort_key (\<lambda>r. (asc_nulls_last (r_finished_at r), r_started_at r))
                 (filter (\<lambda>r. r_finished_at r \<noteq> None \<and> callback_claimable r) rows))
      in map r_run_id
           (filter (\<lambda>r. repo_has_callback_target (run_policy r)
                        \<and> (case r_callback_next_attempt_at r of None \<Rightarrow> True | Some t \<Rightarrow> t \<le> now))
              candidates))"

definition lease_expired :: "instant \<Rightarrow> run_record \<Rightarrow> bool" where
  "lease_expired reclaim_before r \<longleftrightarrow>
     r_callback_status r = RUN_CALLBACK_STATUS_DISPATCHING
     \<and> sql_le (r_callback_last_attempt_at r) reclaim_before"

definition requeue_callback :: "instant \<Rightarrow> run_record \<Rightarrow> run_record" where
  "requeue_callback now r =
     r\<lparr>r_callback_status := RUN_CALLBACK_STATUS_PENDING, r_callback_next_attempt_at := Some now,
       r_callback_delivered_at := None,
       r_callback_last_error_code := Some RUNTIME_CALLBACK_DISPATCH_LEASE_RECOVERY_ERROR_CODE,
       r_callback_last_error_message := Some ''stale callback dispatch lease reclaimed and requeued''\<rparr>"

text \<open>
  The recovered runs are returned as they were loaded: the update does not refresh the loaded
  objects.
\<close>

fun reclaim_candidates ::
    "instant \<Rightarrow> instant \<Rightarrow> run_table \<Rightarrow> run_table \<Rightarrow> run_record list \<times> run_table" where
  "reclaim_candidates now reclaim_before [] rows = ([], rows)"
| "reclaim_candidates now reclaim_before (candidate # candidates) rows =
     (let cond = (\<lambda>r. r_run_id r = r_run_id candidate \<and> lease_expired reclaim_before r);
          rows' = rows_update cond (requeue_callback now) rows;
          (recovered, rows'') = reclaim_candidates now reclaim_before candidates rows'
      in if length (filter cond rows) \<noteq> 1 then (recovered, rows'')
         else (candidate # recovered, rows''))"

definition reclaim_stale_callback_dispatches ::
    "instant \<Rightarrow> int \<Rightarrow> run_table \<Rightarrow> run_record list \<times> run_table" where
  "reclaim_stale_callback_dispatches now limit rows =
     (let reclaim_before = now - seconds RUNTIME_CALLBACK_DISPATCH_LEASE_RECOVERY_AFTER_SECONDS;
          candidates =
            sql_limit (max 1 limit)
              (sort_key (\<lambda>r. (asc_nulls_last (r_callback_last_attempt_at r), asc_nulls_last (r_finished_at r)))
                 (filter (\<lambda>r. r_finished_at r \<noteq> None \<and> lease_expired reclaim_before r \<and> callback_url_set r) rows))
      in reclaim_candidates now reclaim_before candidates rows)"

definition mark_callback_delivered :: "instant \<Rightarrow> run_record \<Rightarrow> run_record" where
  "mark_callback_delivered completed_at run =
     run\<lparr>r_callback_status := RUN_CALLBACK_STATUS_DELIVERED,
         r_callback_delivered_at := Some completed_at, r_callback_next_attempt_at := None,
         r_callback_last_error_code := None, r_callback_last_error_message := None\<rparr>"

definition mark_callback_delivery_failed ::
    "string \<Rightarrow> string \<Rightarrow> instant option \<Rightarrow> run_record \<Rightarrow> run_record" where
  "mark_callback_delivery_failed error_code error_message retry_at run =
     run\<lparr>r_callback_status := (if retry_at \<noteq> None then RUN_CALLBACK_STATUS_PENDING
                               else RUN_CALLBACK_STATUS_FAILED),
         r_callback_next_attempt_at := retry_at, r_callback_delivered_at := None,
         r_callback_last_error_code := Some error_code,
         r_callback_last_error_message := Some error_message\<rparr>"

subsection \<open>Well-formed runs\<close>

definition terminal_status :: "string \<Rightarrow> bool" where
  "terminal_status st \<longleftrightarrow> st = ''succeeded'' \<or> st = ''failed'' \<or> st = ''canceled''"

definition known_status :: "string \<Rightarrow> bool" where
  "known_status st \<longleftrightarrow> st = ''queued'' \<or> st = ''running'' \<or> terminal_status st"

definition known_callback_status :: "string \<Rightarrow> bool" where
  "known_callback_status st \<longleftrightarrow>
     st \<in> {RUN_CALLBACK_STATUS_NOT_REQUESTED, RUN_CALLBACK_STATUS_PENDING,
           RUN_CALLBACK_STATUS_DISPATCHING, RUN_CALLBACK_STATUS_DELIVERED,
           RUN_CALLBACK_STATUS_FAILED}"

definition lifecycle_wf :: "run_record \<Rightarrow> bool" where
  "lifecycle_wf r \<longleftrightarrow>
     known_status (r_status r)
     \<and> (r_finished_at r \<noteq> None \<longleftrightarrow> terminal_status (r_status r))
     \<and> (r_canceled_at r \<noteq> None \<longleftrightarrow> r_status r = ''canceled'')
     \<and> (r_status r = ''canceled'' \<longrightarrow> r_cancel_requested_at r \<noteq> None)
     \<and> (r_status r = ''running'' \<longrightarrow> r_processing_started_at r \<noteq> None)
     \<and> (r_status r = ''queued'' \<longrightarrow> r_processing_started_at r = None)"

definition storage_wf :: "run_record \<Rightarrow> bool" where
  "storage_wf r \<longleftrightarrow>
     (terminal_status (r_status r) \<longrightarrow> r_execution_input_ciphertext r = None)
     \<and> (r_result_json r \<noteq> None \<longrightarrow> r_status r = ''succeeded'')
     \<and> (r_retention_expires_at r \<noteq> None \<longrightarrow> terminal_status (r_status r))
     \<and> (r_result_purged_at r \<noteq> None \<longrightarrow>
          terminal_status (r_status r) \<and> r_result_json r = None \<and> r_input_json r = None)"

definition callback_wf :: "run_record \<Rightarrow> bool" where
  "callback_wf r \<longleftrightarrow>
     known_callback_status (r_callback_status r)
     \<and> (r_callback_status r \<noteq> RUN_CALLBACK_STATUS_NOT_REQUESTED \<longrightarrow> r_finished_at r \<noteq> None)
     \<and> (r_callback_status r = RUN_CALLBACK_STATUS_PENDING \<longleftrightarrow> r_callback_next_attempt_at r \<noteq> None)
     \<and> (r_callback_status r = RUN_CALLBACK_STATUS_DELIVERED \<longleftrightarrow> r_callback_delivered_at r \<noteq> None)
     \<and> (r_callback_status r = RUN_CALLBACK_STATUS_DISPATCHING \<longrightarrow> r_callback_last_attempt_at r \<noteq> None)
     \<and> 0 \<le> r_callback_attempt_count r
     \<and> (r_callback_attempt_count r = 0 \<longrightarrow>
          r_callback_status r = RUN_CALLBACK_STATUS_NOT_REQUESTED
          \<or> r_callback_status r = RUN_CALLBACK_STATUS_PENDING)
     \<and> (r_finished_at r = None \<longrightarrow> r_callback_attempt_count r = 0)"

definition run_wf :: "run_record \<Rightarrow> bool" where
  "run_wf r \<longleftrightarrow> lifecycle_wf r \<and> storage_wf r \<and> callback_wf r"

lemmas run_wf_defs = run_wf_def lifecycle_wf_def storage_wf_def callback_wf_def

lemma callback_status_distinct [simp]:
  "RUN_CALLBACK_STATUS_NOT_REQUESTED \<noteq> RUN_CALLBACK_STATUS_PENDING"
  "RUN_CALLBACK_STATUS_PENDING \<noteq> RUN_CALLBACK_STATUS_NOT_REQUESTED"
  "RUN_CALLBACK_STATUS_NOT_REQUESTED \<noteq> RUN_CALLBACK_STATUS_DISPATCHING"
  "RUN_CALLBACK_STATUS_DISPATCHING \<noteq> RUN_CALLBACK_STATUS_NOT_REQUESTED"
  "RUN_CALLBACK_STATUS_NOT_REQUESTED \<noteq> RUN_CALLBACK_STATUS_DELIVERED"
  "RUN_CALLBACK_STATUS_DELIVERED \<noteq> RUN_CALLBACK_STATUS_NOT_REQUESTED"
  "RUN_CALLBACK_STATUS_NOT_REQUESTED \<noteq> RUN_CALLBACK_STATUS_FAILED"
  "RUN_CALLBACK_STATUS_FAILED \<noteq> RUN_CALLBACK_STATUS_NOT_REQUESTED"
  "RUN_CALLBACK_STATUS_PENDING \<noteq> RUN_CALLBACK_STATUS_DISPATCHING"
  "RUN_CALLBACK_STATUS_DISPATCHING \<noteq> RUN_CALLBACK_STATUS_PENDING"
  "RUN_CALLBACK_STATUS_PENDING \<noteq> RUN_CALLBACK_STATUS_DELIVERED"
  "RUN_CALLBACK_STATUS_DELIVERED \<noteq> RUN_CALLBACK_STATUS_PENDING"
  "RUN_CALLBACK_STATUS_PENDING \<noteq> RUN_CALLBACK_STATUS_FAILED"
  "RUN_CALLBACK_STATUS_FAILED \<noteq> RUN_CALLBACK_STATUS_PENDING"
  "RUN_CALLBACK_STATUS_DISPATCHING \<noteq> RUN_CALLBACK_STATUS_DELIVERED"
  "RUN_CALLBACK_STATUS_DELIVERED \<noteq> RUN_CALLBACK_STATUS_DISPATCHING"
  "RUN_CALLBACK_STATUS_DISPATCHING \<noteq> RUN_CALLBACK_STATUS_FAILED"
  "RUN_CALLBACK_STATUS_FAILED \<noteq> RUN_CALLBACK_STATUS_DISPATCHING"
  "RUN_CALLBACK_STATUS_DELIVERED \<noteq> RUN_CALLBACK_STATUS_FAILED"
  "RUN_CALLBACK_STATUS_FAILED \<noteq> RUN_CALLBACK_STATUS_DELIVERED"
  by (simp_all add: callback_status_defs)

lemma known_callback_statuses [simp]:
  "known_callback_status RUN_CALLBACK_STATUS_NOT_REQUESTED"
  "known_callback_status RUN_CALLBACK_STATUS_PENDING"
  "known_callback_status RUN_CALLBACK_STATUS_DISPATCHING"
  "known_callback_status RUN_CALLBACK_STATUS_DELIVERED"
  "known_callback_status RUN_CALLBACK_STATUS_FAILED"
  by (simp_all add: known_callback_status_def)

lemma status_facts [simp]:
  "known_status ''queued''" "known_status ''running''" "known_status ''succeeded''"
  "known_status ''failed''" "known_status ''canceled''"
  "\<not> terminal_status ''queued''" "\<not> terminal_status ''running''"
  "terminal_status ''succeeded''" "terminal_status ''failed''" "terminal_status ''canceled''"
  by (simp_all add: known_status_def terminal_status_def)

text \<open>The fields the two finishing helpers leave alone.\<close>

lemma schedule_callback_frame [simp]:
  "r_run_id (schedule_callback_delivery t r) = r_run_id r"
  "r_site_id (schedule_callback_delivery t r) = r_site_id r"
  "r_status (schedule_callback_delivery t r) = r_status r"
  "r_execution_kind (schedule_callback_delivery t r) = r_execution_kind r"
  "r_finished_at (schedule_callback_delivery t r) = r_finished_at r"
  "r_canceled_at (schedule_callback_delivery t r) = r_canceled_at r"
  "r_cancel_requested_at (schedule_callback_delivery t r) = r_cancel_requested_at r"
  "r_processing_started_at (schedule_callback_delivery t r) = r_processing_started_at r"
  "r_execution_input_ciphertext (schedule_callback_delivery t r) = r_execution_input_ciphertext r"
  "r_input_json (schedule_callback_delivery t r) = r_input_json r"
  "r_result_json (schedule_callback_delivery t r) = r_result_json r"
  "r_retention_expires_at (schedule_callback_delivery t r) = r_retention_expires_at r"
  "r_result_purged_at (schedule_callback_delivery t r) = r_result_purged_at r"
  "r_policy_json (schedule_callback_delivery t r) = r_policy_json r"
  "r_idempotency_key (schedule_callback_delivery t r) = r_idempotency_key r"
  "r_callback_attempt_count (schedule_callback_delivery t r) = r_callback_attempt_count r"
  by (simp_all add: schedule_callback_delivery_def)

lemma storage_policy_frame [simp]:
  "r_run_id (apply_terminal_input_storage_policy r) = r_run_id r"
  "r_site_id (apply_terminal_input_storage_policy r) = r_site_id r"
  "r_status (apply_terminal_input_storage_policy r) = r_status r"
  "r_execution_kind (apply_terminal_input_storage_policy r) = r_execution_kind r"
  "r_finished_at (apply_terminal_input_storage_policy r) = r_finished_at r"
  "r_canceled_at (apply_terminal_input_storage_policy r) = r_canceled_at r"
  "r_cancel_requested_at (apply_terminal_input_storage_policy r) = r_cancel_requested_at r"
  "r_processing_started_at (apply_terminal_input_storage_policy r) = r_processing_started_at r"
  "r_execution_input_ciphertext (apply_terminal_input_storage_policy r) = r_execution_input_ciphertext r"
  "r_result_json (apply_terminal_input_storage_policy r) = r_result_json r"
  "r_retention_expires_at (apply_terminal_input_storage_policy r) = r_retention_expires_at r"
  "r_result_purged_at (apply_terminal_input_storage_policy r) = r_result_purged_at r"
  "r_policy_json (apply_terminal_input_storage_policy r) = r_policy_json r"
  "r_idempotency_key (apply_terminal_input_storage_policy r) = r_idempotency_key r"
  "r_callback_attempt_count (apply_terminal_input_storage_policy r) = r_callback_attempt_count r"
  by (simp_all add: apply_terminal_input_storage_policy_def Let_def)

lemma schedule_callback_wf:
  "r_finished_at r \<noteq> None \<Longrightarrow> 0 \<le> r_callback_attempt_count r \<Longrightarrow> callback_wf (schedule_callback_delivery t r)"
  by (auto simp: schedule_callback_delivery_def callback_wf_def)

subsection \<open>Every write keeps the invariant\<close>

lemma new_run_wf:
  "c_status c = ''queued'' \<or> c_status c = ''running'' \<Longrightarrow> run_wf (new_run_record now db_now c)"
  by (elim disjE) (simp_all add: run_wf_defs new_run_record_def)

lemma running_unpurged: "run_wf r \<Longrightarrow> \<not> terminal_status (r_status r) \<Longrightarrow> r_result_purged_at r = None"
  by (auto simp: run_wf_def storage_wf_def)

lemma attempt_count_nonneg: "run_wf r \<Longrightarrow> 0 \<le> r_callback_attempt_count r"
  by (simp add: run_wf_def callback_wf_def)

lemma mark_run_succeeded_wf:
  assumes wf: "run_wf r" and live: "\<not> terminal_status (r_status r)"
  shows "run_wf (mark_run_succeeded t res p m i fb r)"
  unfolding run_wf_def
proof (intro conjI)
  show "lifecycle_wf (mark_run_succeeded t res p m i fb r)"
    by (simp add: mark_run_succeeded_def Let_def lifecycle_wf_def known_status_def terminal_status_def)
  show "storage_wf (mark_run_succeeded t res p m i fb r)"
    using running_unpurged [OF wf live]
    by (simp add: mark_run_succeeded_def Let_def storage_wf_def terminal_status_def)
  show "callback_wf (mark_run_succeeded t res p m i fb r)"
    using attempt_count_nonneg [OF wf]
    by (simp add: mark_run_succeeded_def Let_def schedule_callback_wf)
qed

lemma mark_run_failed_wf:
  assumes wf: "run_wf r" and live: "\<not> terminal_status (r_status r)"
  shows "run_wf (mark_run_failed t code msg p m i fb r)"
  unfolding run_wf_def
proof (intro conjI)
  show "lifecycle_wf (mark_run_failed t code msg p m i fb r)"
    by (simp add: mark_run_failed_def Let_def lifecycle_wf_def known_status_def terminal_status_def
        split: option.split)
  have "r_result_json r = None"
    using wf live by (auto simp: run_wf_def storage_wf_def terminal_status_def)
  then show "storage_wf (mark_run_failed t code msg p m i fb r)"
    using running_unpurged [OF wf live]
    by (simp add: mark_run_failed_def Let_def storage_wf_def terminal_status_def split: option.split)
  show "callback_wf (mark_run_failed t code msg p m i fb r)"
    using attempt_count_nonneg [OF wf]
    by (simp add: mark_run_failed_def Let_def schedule_callback_wf split: option.split)
qed

lemma mark_run_canceled_wf:
  assumes wf: "run_wf r" and live: "\<not> terminal_status (r_status r)"
  shows "run_wf (mark_run_canceled t msg r)"
  unfolding run_wf_def
proof (intro conjI)
  show "lifecycle_wf (mark_run_canceled t msg r)"
    by (simp add: mark_run_canceled_def Let_def lifecycle_wf_def known_status_def terminal_status_def)
  have "r_result_json r = None"
    using wf live by (auto simp: run_wf_def storage_wf_def terminal_status_def)
  then show "storage_wf (mark_run_canceled t msg r)"
    using running_unpurged [OF wf live]
    by (simp add: mark_run_canceled_def Let_def storage_wf_def terminal_status_def)
  show "callback_wf (mark_run_canceled t msg r)"
    using attempt_count_nonneg [OF wf]
    by (simp add: mark_run_canceled_def Let_def schedule_callback_wf)
qed

text \<open>A write outside a part of the invariant keeps that part.\<close>

lemma lifecycle_wf_cong:
  "r_status r' = r_status r \<Longrightarrow> r_finished_at r' = r_finished_at r \<Longrightarrow> r_canceled_at r' = r_canceled_at r
    \<Longrightarrow> r_cancel_requested_at r' = r_cancel_requested_at r
    \<Longrightarrow> r_processing_started_at r' = r_processing_started_at r \<Longrightarrow> lifecycle_wf r' = lifecycle_wf r"
  by (simp add: lifecycle_wf_def)

lemma storage_wf_cong:
  "r_status r' = r_status r \<Longrightarrow> r_execution_input_ciphertext r' = r_execution_input_ciphertext r
    \<Longrightarrow> r_result_json r' = r_result_json r \<Longrightarrow> r_input_json r' = r_input_json r
    \<Longrightarrow> r_retention_expires_at r' = r_retention_expires_at r
    \<Longrightarrow> r_result_purged_at r' = r_result_purged_at r \<Longrightarrow> storage_wf r' = storage_wf r"
  by (simp add: storage_wf_def)

lemma callback_wf_cong:
  "r_callback_status r' = r_callback_status r \<Longrightarrow> r_finished_at r' = r_finished_at r
    \<Longrightarrow> r_callback_next_attempt_at r' = r_callback_next_attempt_at r
    \<Longrightarrow> r_callback_delivered_at r' = r_callback_delivered_at r
    \<Longrightarrow> r_callback_last_attempt_at r' = r_callback_last_attempt_at r
    \<Longrightarrow> r_callback_attempt_count r' = r_callback_attempt_count r \<Longrightarrow> callback_wf r' = callback_wf r"
  by (simp add: callback_wf_def)

lemma request_run_cancel_wf: "run_wf r \<Longrightarrow> run_wf (request_run_cancel t r)"
proof -
  assume wf: "run_wf r"
  have "lifecycle_wf (request_run_cancel t r)"
    using wf by (simp add: run_wf_def lifecycle_wf_def request_run_cancel_def)
  moreover have "storage_wf (request_run_cancel t r) = storage_wf r"
    by (rule storage_wf_cong) (simp_all add: request_run_cancel_def)
  moreover have "callback_wf (request_run_cancel t r) = callback_wf r"
    by (rule callback_wf_cong) (simp_all add: request_run_cancel_def)
  ultimately show ?thesis using wf by (simp add: run_wf_def)
qed

lemma live_run_storage:
  assumes "run_wf r" and "\<not> terminal_status (r_status r)"
  shows "r_result_json r = None" "r_retention_expires_at r = None" "r_result_purged_at r = None"
    "r_finished_at r = None" "r_canceled_at r = None"
    "r_callback_status r = RUN_CALLBACK_STATUS_NOT_REQUESTED"
  using assms by (auto simp: run_wf_defs terminal_status_def)

lemma start_processing_wf:
  assumes wf: "run_wf r" and claim: "queued_claimable now r"
  shows "run_wf (start_processing now' r)"
proof -
  from claim have "\<not> terminal_status (r_status r)" by (simp add: queued_claimable_def)
  note live_run_storage [OF wf this]
  with wf show ?thesis by (simp add: run_wf_defs start_processing_def)
qed

lemma defer_run_until_wf:
  assumes wf: "run_wf r" and running: "r_status r = ''running''"
  shows "run_wf (defer_run_until t r)"
proof -
  from running have "\<not> terminal_status (r_status r)" by simp
  note live_run_storage [OF wf this]
  with wf show ?thesis by (simp add: run_wf_defs defer_run_until_def)
qed

lemma purge_run_wf: "run_wf r \<Longrightarrow> retention_due now r \<Longrightarrow> run_wf (purge_run now r)"
  by (auto simp: run_wf_defs purge_run_def retention_due_def sql_le_def split: option.splits)

text \<open>The four callback writes touch callback fields only.\<close>

lemma callback_write_frame:
  "lifecycle_wf (start_callback_dispatch t r) = lifecycle_wf r"
  "storage_wf (start_callback_dispatch t r) = storage_wf r"
  "lifecycle_wf (requeue_callback t r) = lifecycle_wf r"
  "storage_wf (requeue_callback t r) = storage_wf r"
  "lifecycle_wf (mark_callback_delivered t r) = lifecycle_wf r"
  "storage_wf (mark_callback_delivered t r) = storage_wf r"
  "lifecycle_wf (mark_callback_delivery_failed c m u r) = lifecycle_wf r"
  "storage_wf (mark_callback_delivery_failed c m u r) = storage_wf r"
  by (simp_all add: lifecycle_wf_def storage_wf_def start_callback_dispatch_def requeue_callback_def
      mark_callback_delivered_def mark_callback_delivery_failed_def)

lemma start_callback_dispatch_wf:
  assumes wf: "run_wf r" and fin: "r_finished_at r \<noteq> None" and claim: "callback_claimable r"
  shows "run_wf (start_callback_dispatch t r)"
proof -
  from wf claim have "r_callback_delivered_at r = None"
    by (auto simp: run_wf_def callback_wf_def callback_claimable_def)
  with wf fin have "callback_wf (start_callback_dispatch t r)"
    by (simp add: run_wf_def callback_wf_def start_callback_dispatch_def)
  with wf show ?thesis by (simp add: run_wf_def callback_write_frame)
qed

lemma requeue_callback_wf:
  assumes wf: "run_wf r" and lease: "lease_expired t r"
  shows "run_wf (requeue_callback now r)"
proof -
  from lease have "r_callback_status r = RUN_CALLBACK_STATUS_DISPATCHING" by (simp add: lease_expired_def)
  with wf have "callback_wf (requeue_callback now r)"
    by (auto simp: run_wf_def callback_wf_def requeue_callback_def)
  with wf show ?thesis by (simp add: run_wf_def callback_write_frame)
qed

lemma attempted_run:
  assumes "run_wf r" and "0 < r_callback_attempt_count r"
  shows "r_finished_at r \<noteq> None"
  using assms by (auto simp: run_wf_def callback_wf_def)

lemma mark_callback_delivered_wf:
  assumes wf: "run_wf r" and att: "0 < r_callback_attempt_count r"
  shows "run_wf (mark_callback_delivered t r)"
proof -
  have "callback_wf (mark_callback_delivered t r)"
    using attempted_run [OF wf att] att by (simp add: callback_wf_def mark_callback_delivered_def)
  with wf show ?thesis by (simp add: run_wf_def callback_write_frame)
qed

lemma mark_callback_delivery_failed_wf:
  assumes wf: "run_wf r" and att: "0 < r_callback_attempt_count r"
  shows "run_wf (mark_callback_delivery_failed c m t r)"
proof -
  have "callback_wf (mark_callback_delivery_failed c m t r)"
    using attempted_run [OF wf att] att by (simp add: callback_wf_def mark_callback_delivery_failed_def)
  with wf show ?thesis by (simp add: run_wf_def callback_write_frame)
qed

lemmas run_write_wf =
  mark_run_succeeded_wf mark_run_failed_wf mark_run_canceled_wf request_run_cancel_wf
  start_processing_wf defer_run_until_wf purge_run_wf start_callback_dispatch_wf
  requeue_callback_wf mark_callback_delivered_wf mark_callback_delivery_failed_wf

end
