(* ===== verification/RunClaims.thy ===== *)
theory RunClaims
  imports RunTransitions
begin

section \<open>Claims on the run table\<close>

text \<open>
  The run table as a whole: its invariant, the two conditional claims (a queued run by a worker, a
  finished run's callback by a dispatcher) as interpretations of the claim interface, the choice of
  the oldest runnable run, and the per-site bound on running media work.
\<close>

definition idempotency_unique :: "run_table \<Rightarrow> bool" where
  "idempotency_unique rows \<longleftrightarrow>
     (\<forall>r\<in>set rows. \<forall>q\<in>set rows.
        r_site_id r = r_site_id q \<and> r_idempotency_key r = r_idempotency_key q
        \<and> r_idempotency_key r \<noteq> None \<longrightarrow> r_run_id r = r_run_id q)"

definition table_wf :: "run_table \<Rightarrow> bool" where
  "table_wf rows \<longleftrightarrow>
     keys_distinct r_run_id rows \<and> idempotency_unique rows
     \<and> (\<forall>r\<in>set rows. run_wf r \<and> r_run_id r \<noteq> [])"

lemma table_wf_distinct: "table_wf rows \<Longrightarrow> keys_distinct r_run_id rows"
  by (simp add: table_wf_def)

lemma table_wf_row: "table_wf rows \<Longrightarrow> r \<in> set rows \<Longrightarrow> run_wf r \<and> r_run_id r \<noteq> []"
  by (simp add: table_wf_def)

lemma get_run_row_member: "get_run_row run_id rows = Some r \<Longrightarrow> r \<in> set rows \<and> r_run_id r = run_id"
  unfolding get_run_row_def by (rule row_get_Some)

text \<open>A conditional update that keeps keys, sites and row invariants keeps the table invariant.\<close>

lemma table_wf_update:
  assumes wf: "table_wf rows"
    and same: "\<And>r. r_run_id (f r) = r_run_id r" "\<And>r. r_site_id (f r) = r_site_id r"
      "\<And>r. r_idempotency_key (f r) = r_idempotency_key r"
    and row: "\<And>r. r \<in> set rows \<Longrightarrow> cond r \<Longrightarrow> run_wf (f r)"
  shows "table_wf (rows_update cond f rows)"
proof -
  have "keys_distinct r_run_id (rows_update cond f rows)"
    using wf same by (auto simp: table_wf_def)
  moreover have "idempotency_unique (rows_update cond f rows)"
    unfolding idempotency_unique_def
  proof (intro ballI impI)
    fix x y
    assume "x \<in> set (rows_update cond f rows)" "y \<in> set (rows_update cond f rows)"
      and eq: "r_site_id x = r_site_id y \<and> r_idempotency_key x = r_idempotency_key y \<and> r_idempotency_key x \<noteq> None"
    then obtain r q where rq: "r \<in> set rows" "q \<in> set rows"
        "x = (if cond r then f r else r)" "y = (if cond q then f q else q)"
      by (auto simp: in_rows_update)
    with eq same have "r_site_id r = r_site_id q" "r_idempotency_key r = r_idempotency_key q"
      "r_idempotency_key r \<noteq> None" by (auto split: if_splits)
    with wf rq(1,2) have "r_run_id r = r_run_id q"
      unfolding table_wf_def idempotency_unique_def by blast
    with rq same show "r_run_id x = r_run_id y" by (auto split: if_splits)
  qed
  moreover have "run_wf x \<and> r_run_id x \<noteq> []" if "x \<in> set (rows_update cond f rows)" for x
    using that wf row same by (auto simp: in_rows_update table_wf_def split: if_splits)
  ultimately show ?thesis by (simp add: table_wf_def)
qed

lemma save_run_is_update:
  assumes "keys_distinct r_run_id rows" and "get_run_row (r_run_id r) rows = Some r"
    and "r_run_id (f r) = r_run_id r"
  shows "save_run (f r) rows = rows_update (\<lambda>x. r_run_id x = r_run_id r) f rows"
proof -
  have "x = r" if "x \<in> set rows" "r_run_id x = r_run_id r" for x
    using that assms(1,2) row_get_unique [of r_run_id rows x] by (simp add: get_run_row_def)
  with assms(3) show ?thesis
    by (auto simp: save_run_def row_put_def rows_update_def)
qed

lemma table_wf_save:
  assumes wf: "table_wf rows" and get: "get_run_row (r_run_id r) rows = Some r"
    and same: "\<And>q. r_run_id (f q) = r_run_id q" "\<And>q. r_site_id (f q) = r_site_id q"
      "\<And>q. r_idempotency_key (f q) = r_idempotency_key q"
    and row: "run_wf (f r)"
  shows "table_wf (save_run (f r) rows)"
proof -
  note kd = table_wf_distinct [OF wf]
  have unique: "x = r" if "x \<in> set rows" "r_run_id x = r_run_id r" for x
    using that kd get row_get_unique [of r_run_id rows x] by (simp add: get_run_row_def)
  have "table_wf (rows_update (\<lambda>x. r_run_id x = r_run_id r) f rows)"
    by (rule table_wf_update [OF wf same]) (auto dest: unique simp: row)
  then show ?thesis using save_run_is_update [OF kd get] same(1) by simp
qed

subsection \<open>The claim interface on the code's updates\<close>

definition run_claim_guard :: "instant \<times> instant \<Rightarrow> run_record \<Rightarrow> bool" where
  "run_claim_guard t r = queued_claimable (fst t) r"

definition run_claim_effect :: "instant \<times> instant \<Rightarrow> run_record \<Rightarrow> run_record" where
  "run_claim_effect t r = start_processing (snd t) r"

definition callback_claim_guard :: "instant \<Rightarrow> run_record \<Rightarrow> bool" where
  "callback_claim_guard t r = callback_claimable r"

interpretation run_claim: conditional_claim r_run_id run_claim_guard run_claim_effect
  by unfold_locales
    (simp_all add: run_claim_guard_def run_claim_effect_def queued_claimable_def start_processing_def)

interpretation callback_claim: conditional_claim r_run_id callback_claim_guard start_callback_dispatch
  by unfold_locales
    (simp_all add: callback_claim_guard_def callback_claimable_def start_callback_dispatch_def)

lemma start_processing_frame [simp]:
  "r_run_id (start_processing t r) = r_run_id r" "r_site_id (start_processing t r) = r_site_id r"
  "r_idempotency_key (start_processing t r) = r_idempotency_key r"
  "r_execution_kind (start_processing t r) = r_execution_kind r"
  "r_status (start_processing t r) = ''running''"
  by (simp_all add: start_processing_def)

lemma start_callback_dispatch_frame [simp]:
  "r_run_id (start_callback_dispatch t r) = r_run_id r"
  "r_site_id (start_callback_dispatch t r) = r_site_id r"
  "r_idempotency_key (start_callback_dispatch t r) = r_idempotency_key r"
  "r_policy_json (start_callback_dispatch t r) = r_policy_json r"
  "r_finished_at (start_callback_dispatch t r) = r_finished_at r"
  by (simp_all add: start_callback_dispatch_def)

lemma filter_unique_key:
  assumes kd: "keys_distinct key rows" and key: "\<And>r. cond r \<Longrightarrow> key r = k"
  shows "filter cond rows =
    (case row_get key k rows of None \<Rightarrow> [] | Some r \<Rightarrow> if cond r then [r] else [])"
  using kd
proof (induction rows)
  case Nil
  then show ?case by (simp add: row_get_def)
next
  case (Cons a rows)
  then have IH: "filter cond rows =
      (case row_get key k rows of None \<Rightarrow> [] | Some r \<Rightarrow> if cond r then [r] else [])"
    and fresh: "key a \<notin> key ` set rows" by (auto simp: keys_distinct_def)
  show ?case
  proof (cases "key a = k")
    case True
    have "\<not> cond x" if "x \<in> set rows" for x
      using key [of x] fresh True that by (auto simp: image_iff)
    then have "filter cond rows = []" by (simp add: filter_empty_conv)
    with True show ?thesis by (simp add: row_get_def)
  next
    case False
    then have "\<not> cond a" using key by blast
    with False IH show ?thesis by (simp add: row_get_def)
  qed
qed

lemma claim_queued_run_cases:
  assumes kd: "keys_distinct r_run_id rows" and key: "\<And>r. cond r \<Longrightarrow> r_run_id r = run_id"
    and nonempty: "run_id \<noteq> []"
  shows "claim_queued_run cond now rows =
    (case get_run_row run_id rows of
       None \<Rightarrow> (None, rows)
     | Some r \<Rightarrow> if cond r then (Some (start_processing now r), rows_update cond (start_processing now) rows)
                else (None, rows))"
proof (cases "get_run_row run_id rows")
  case None
  then show ?thesis
    by (simp add: claim_queued_run_def filter_unique_key [OF kd key] get_run_row_def)
next
  case (Some r)
  then have id: "r_run_id r = run_id" by (simp add: get_run_row_member)
  have "get_run_row run_id (rows_update cond (start_processing now) rows) =
      map_option (\<lambda>r. if cond r then start_processing now r else r) (get_run_row run_id rows)"
    unfolding get_run_row_def by (rule row_get_rows_update) simp
  with Some id nonempty show ?thesis
    using filter_unique_key [OF kd, of cond run_id] key
    by (simp add: claim_queued_run_def get_run_row_def Let_def)
qed

lemma claim_run_if_queued_cases:
  assumes "keys_distinct r_run_id rows" and "run_id \<noteq> []"
  shows "claim_run_if_queued now now' run_id rows =
    (if run_claim.claim_wins (now, now') run_id rows
     then (map_option (start_processing now') (get_run_row run_id rows),
           run_claim.claim_rows (now, now') run_id rows)
     else (None, rows))"
proof -
  have wins: "run_claim.claim_wins (now, now') run_id rows \<longleftrightarrow>
      (\<exists>r. get_run_row run_id rows = Some r \<and> queued_claimable now r)"
    using row_get_unique [OF assms(1)] get_run_row_member [of run_id rows]
    by (auto simp: run_claim.claim_wins_def run_claim_guard_def get_run_row_def)
  have "run_claim_effect (now, now') = start_processing now'"
    by (rule ext) (simp add: run_claim_effect_def)
  then have rows: "run_claim.claim_rows (now, now') run_id rows =
      rows_update (\<lambda>r. r_run_id r = run_id \<and> queued_claimable now r) (start_processing now') rows"
    by (simp add: run_claim.claim_rows_def run_claim_guard_def)
  show ?thesis
    unfolding claim_run_if_queued_def wins rows
    by (subst claim_queued_run_cases [OF assms(1) _ assms(2)])
       (auto split: option.splits dest: get_run_row_member)
qed

lemma claim_rows_table_wf:
  "table_wf rows \<Longrightarrow> table_wf (run_claim.claim_rows (now, now') run_id rows)"
  unfolding run_claim.claim_rows_def
proof (rule table_wf_update)
  fix r assume "table_wf rows" "r \<in> set rows" "r_run_id r = run_id \<and> run_claim_guard (now, now') r"
  then show "run_wf (run_claim_effect (now, now') r)"
    using table_wf_row [of rows r] start_processing_wf [of r now]
    by (simp add: run_claim_guard_def run_claim_effect_def)
qed (simp_all add: run_claim_effect_def)

lemma claim_run_if_queued_table_wf:
  "table_wf rows \<Longrightarrow> run_id \<noteq> [] \<Longrightarrow> table_wf (snd (claim_run_if_queued now now' run_id rows))"
  by (simp add: claim_run_if_queued_cases table_wf_distinct claim_rows_table_wf)

subsection \<open>The oldest runnable run\<close>

lemma oldest_queued_run_Some:
  assumes "oldest_queued_run limit now rows = Some r"
  shows "r \<in> set rows" "r_status r = ''queued''" "runnable_filter limit now rows r"
    "q \<in> set rows \<Longrightarrow> r_status q = ''queued'' \<Longrightarrow> runnable_filter limit now rows q \<Longrightarrow>
       (r_started_at r, r_run_id r) \<le> (r_started_at q, r_run_id q)"
proof -
  let ?c = "\<lambda>r. r_status r = ''queued'' \<and> runnable_filter limit now rows r"
  let ?k = "\<lambda>r. (r_started_at r, r_run_id r)"
  from assms obtain rs where rs: "sort_key ?k (filter ?c rows) = r # rs"
    by (auto simp: oldest_queued_run_def split: list.splits)
  then have set: "set (r # rs) = set (filter ?c rows)" using set_sort [of ?k "filter ?c rows"] by (simp only:)
  then show "r \<in> set rows" "r_status r = ''queued''" "runnable_filter limit now rows r" by auto
  have "sorted (map ?k (r # rs))" using rs sorted_sort_key [of ?k "filter ?c rows"] by (simp only:)
  then have le: "\<forall>x\<in>set rs. ?k r \<le> ?k x" by (simp only: list.map sorted_simps(2)) force
  show "?k r \<le> ?k q" if "q \<in> set rows" "r_status q = ''queued''" "runnable_filter limit now rows q"
  proof -
    from that set have "q = r \<or> q \<in> set rs" by auto
    with le show ?thesis by (elim disjE) (simp only: order_refl, blast)
  qed
qed

lemma oldest_queued_run_None:
  "oldest_queued_run limit now rows = None \<longleftrightarrow>
     (\<forall>q\<in>set rows. r_status q = ''queued'' \<longrightarrow> \<not> runnable_filter limit now rows q)"
proof -
  let ?c = "\<lambda>r. r_status r = ''queued'' \<and> runnable_filter limit now rows r"
  let ?s = "sort_key (\<lambda>r. (r_started_at r, r_run_id r)) (filter ?c rows)"
  have "oldest_queued_run limit now rows = None \<longleftrightarrow> ?s = []"
    unfolding oldest_queued_run_def by (cases ?s) simp_all
  also have "\<dots> \<longleftrightarrow> filter ?c rows = []"
    by (simp only: set_empty [symmetric] set_sort)
  finally show ?thesis by (auto simp: filter_empty_conv)
qed

lemma runnable_is_claimable:
  "r_status r = ''queued'' \<Longrightarrow> runnable_filter limit now rows r \<Longrightarrow> queued_claimable now r"
  by (simp add: runnable_filter_def queued_claimable_def)

lemma claim_next_queued_run_cases:
  assumes wf: "table_wf rows"
  shows "claim_next_queued_run limit now now' rows =
    (case oldest_queued_run limit now rows of
       None \<Rightarrow> (None, rows)
     | Some r \<Rightarrow> (Some (start_processing now' r),
                 rows_update (\<lambda>q. r_run_id q = r_run_id r \<and> r_status q = ''queued''
                                  \<and> runnable_filter limit now rows q) (start_processing now') rows))"
proof (cases "oldest_queued_run limit now rows")
  case None
  then show ?thesis by (simp add: claim_next_queued_run_def)
next
  case (Some r)
  note old = oldest_queued_run_Some [OF Some]
  have get: "get_run_row (r_run_id r) rows = Some r"
    using row_get_unique [OF table_wf_distinct [OF wf] old(1)] by (simp add: get_run_row_def)
  have ne: "r_run_id r \<noteq> []" using table_wf_row [OF wf old(1)] by simp
  show ?thesis
    unfolding claim_next_queued_run_def Some option.case
    by (subst claim_queued_run_cases [OF table_wf_distinct [OF wf] _ ne]) (auto simp: get old)
qed

lemma claim_next_table_wf:
  assumes wf: "table_wf rows"
  shows "table_wf (snd (claim_next_queued_run limit now now' rows))"
proof (cases "oldest_queued_run limit now rows")
  case None
  with wf show ?thesis by (simp add: claim_next_queued_run_cases)
next
  case (Some r)
  have "table_wf (rows_update (\<lambda>q. r_run_id q = r_run_id r \<and> r_status q = ''queued''
      \<and> runnable_filter limit now rows q) (start_processing now') rows)"
    by (rule table_wf_update [OF wf])
       (auto intro: start_processing_wf runnable_is_claimable dest: table_wf_row [OF wf])
  with wf Some show ?thesis by (simp add: claim_next_queued_run_cases)
qed

subsection \<open>The bound on running media work\<close>

definition media_within :: "int \<Rightarrow> run_table \<Rightarrow> bool" where
  "media_within limit rows \<longleftrightarrow> (\<forall>site_id. count_running_media_derivative_runs site_id rows \<le> limit)"

text \<open>Starting one run adds at most one to its own site's count and nothing elsewhere.\<close>

lemma count_after_start:
  assumes kd: "keys_distinct r_run_id rows" and r: "r \<in> set rows" and cond: "\<And>q. cond q \<Longrightarrow> r_run_id q = r_run_id r"
  shows "count_running_media_derivative_runs site_id (rows_update cond (start_processing t) rows)
    \<le> count_running_media_derivative_runs site_id rows
      + (if r_site_id r = site_id \<and> r_execution_kind r = ''media_derivative'' then 1 else 0)"
proof -
  let ?m = "\<lambda>q. r_site_id q = site_id \<and> is_running_media_derivative q"
    and ?P = "r_site_id r = site_id \<and> r_execution_kind r = ''media_derivative''"
  have kd': "distinct (map r_run_id rows)" using kd by (simp add: keys_distinct_def)
  have other: "\<not> cond q" if "q \<in> set rows" "q \<noteq> r" for q
    using cond [of q] that r kd' by (auto simp: distinct_map inj_on_def)
  have "length (filter ?m (rows_update cond (start_processing t) rows))
      \<le> length (filter ?m rows) + length (filter (\<lambda>q. q = r \<and> ?P) rows)"
    using other
  proof (induction rows)
    case Nil
    then show ?case by (simp add: rows_update_def)
  next
    case (Cons a rows)
    then have IH: "length (filter ?m (rows_update cond (start_processing t) rows))
      \<le> length (filter ?m rows) + length (filter (\<lambda>q. q = r \<and> ?P) rows)"
      and a: "a \<noteq> r \<Longrightarrow> \<not> cond a" by auto
    show ?case
    proof (cases "cond a")
      case True
      with a have "a = r" by blast
      with IH True show ?thesis by (auto simp: rows_update_def is_running_media_derivative_def)
    next
      case False
      with IH show ?thesis by (auto simp: rows_update_def)
    qed
  qed
  moreover have "length (filter (\<lambda>q. q = r \<and> ?P) rows) \<le> (if ?P then 1 else 0)"
    using kd' by (intro length_filter_eq) (simp add: distinct_map)
  ultimately show ?thesis unfolding count_running_media_derivative_runs_def by (simp split: if_splits)
qed

lemma unsaturated_below:
  "0 < limit \<Longrightarrow> \<not> site_saturated limit rows site_id \<Longrightarrow> count_running_media_derivative_runs site_id rows < limit"
proof (rule ccontr)
  assume "0 < limit" "\<not> site_saturated limit rows site_id"
    and "\<not> count_running_media_derivative_runs site_id rows < limit"
  then have "0 < count_running_media_derivative_runs site_id rows"
    and no: "\<forall>r\<in>set rows. r_site_id r = site_id \<longrightarrow> \<not> is_running_media_derivative r"
    by (auto simp: site_saturated_def)
  then show False by (auto simp: count_running_media_derivative_runs_def filter_empty_conv)
qed

lemma claim_next_media_within:
  assumes wf: "table_wf rows" and within: "media_within limit rows" and pos: "0 < limit"
  shows "media_within limit (snd (claim_next_queued_run (Some limit) now now' rows))"
proof (cases "oldest_queued_run (Some limit) now rows")
  case None
  with wf within show ?thesis by (simp add: claim_next_queued_run_cases)
next
  case (Some r)
  note old = oldest_queued_run_Some [OF Some]
  let ?cond = "\<lambda>q. r_run_id q = r_run_id r \<and> r_status q = ''queued'' \<and> runnable_filter (Some limit) now rows q"
  have "count_running_media_derivative_runs s (rows_update ?cond (start_processing now') rows) \<le> limit" for s
  proof (cases "r_site_id r = s \<and> r_execution_kind r = ''media_derivative''")
    case True
    with old(3) pos have "\<not> site_saturated limit rows s" by (auto simp: runnable_filter_def)
    with pos have "count_running_media_derivative_runs s rows < limit" by (rule unsaturated_below)
    with True show ?thesis
      using count_after_start [OF table_wf_distinct [OF wf] old(1), of ?cond s now'] by simp
  next
    case False
    with within show ?thesis
      using count_after_start [OF table_wf_distinct [OF wf] old(1), of ?cond s now']
      by (auto simp: media_within_def split: if_splits intro: order_trans)
  qed
  with wf Some show ?thesis by (simp add: claim_next_queued_run_cases media_within_def)
qed

subsection \<open>Purging as one update\<close>

lemma rows_update_put:
  assumes kd: "keys_distinct key rows" and x: "x \<in> set rows" and same: "key (f x) = key x"
  shows "row_put key (f x) rows = rows_update (\<lambda>r. r = x) f rows"
proof -
  have "key r = key x \<longleftrightarrow> r = x" if "r \<in> set rows" for r
    using kd x that by (metis option.inject row_get_unique)
  then show ?thesis by (simp add: row_put_def rows_update_def same)
qed

lemma fold_put_is_update:
  assumes "keys_distinct key rows" and "set xs \<subseteq> set rows" and "distinct (map key xs)"
    and same: "\<And>x. key (f x) = key x"
  shows "fold (\<lambda>x t. row_put key (f x) t) xs rows = rows_update (\<lambda>r. r \<in> set xs) f rows"
  using assms(1-3)
proof (induction xs arbitrary: rows)
  case Nil
  then show ?case by (simp add: rows_update_def)
next
  case (Cons x xs)
  let ?rows = "rows_update (\<lambda>r. r = x) f rows"
  have put: "row_put key (f x) rows = ?rows"
    using Cons.prems same by (intro rows_update_put) auto
  have kd: "keys_distinct key ?rows" using Cons.prems(1) same by (auto intro: rows_update_distinct)
  have other: "y \<noteq> x \<and> y \<noteq> f x" if "y \<in> set xs" for y
    using that Cons.prems(3) same [of x] by (auto simp: image_iff)
  have "set xs \<subseteq> set ?rows"
  proof
    fix y assume "y \<in> set xs"
    with Cons.prems(2) other have "y \<in> set rows" "y \<noteq> x" by auto
    then show "y \<in> set ?rows" by (auto simp: in_rows_update)
  qed
  with Cons.IH [OF kd] Cons.prems(3)
  have "fold (\<lambda>x t. row_put key (f x) t) xs ?rows = rows_update (\<lambda>r. r \<in> set xs) f ?rows" by simp
  also have "\<dots> = rows_update (\<lambda>r. r \<in> set (x # xs)) f rows"
    using other by (auto simp: rows_update_def)
  finally show ?case using put by simp
qed

lemma expired_runs_subset:
  "r \<in> set (expired_runs now limit rows) \<Longrightarrow> r \<in> set rows \<and> retention_due now r"
  by (auto simp: expired_runs_def sql_limit_def dest!: in_set_takeD)

lemma expired_runs_distinct:
  assumes "keys_distinct r_run_id rows"
  shows "distinct (map r_run_id (expired_runs now limit rows))"
proof -
  have "distinct (map r_run_id (filter (retention_due now) rows))"
    using assms by (simp add: keys_distinct_def distinct_map_filter)
  then have "distinct (map r_run_id (sort_key (\<lambda>r. (asc_nulls_last (r_retention_expires_at r), r_run_id r))
      (filter (retention_due now) rows)))"
    by (simp add: distinct_map)
  then show ?thesis by (simp add: expired_runs_def sql_limit_def take_map [symmetric] distinct_take)
qed

lemma purge_frame [simp]:
  "r_run_id (purge_run t r) = r_run_id r" "r_site_id (purge_run t r) = r_site_id r"
  "r_idempotency_key (purge_run t r) = r_idempotency_key r"
  "r_callback_attempt_count (purge_run t r) = r_callback_attempt_count r"
  by (simp_all add: purge_run_def)

lemma purge_is_update:
  assumes "keys_distinct r_run_id rows"
  shows "purge_expired_run_results now limit rows =
    (int (length (expired_runs now limit rows)),
     rows_update (\<lambda>r. r \<in> set (expired_runs now limit rows)) (purge_run now) rows)"
  using fold_put_is_update [OF assms _ expired_runs_distinct [OF assms], of now limit "purge_run now"]
    expired_runs_subset
  by (auto simp: purge_expired_run_results_def Let_def save_run_def)

lemma purge_table_wf:
  assumes wf: "table_wf rows"
  shows "table_wf (snd (purge_expired_run_results now limit rows))"
  unfolding purge_is_update [OF table_wf_distinct [OF wf]] snd_conv
  by (rule table_wf_update [OF wf])
     (auto intro!: purge_run_wf dest: table_wf_row [OF wf] expired_runs_subset)

end
