(* ===== verification/ErrorTaxonomy.thy ===== *)
theory ErrorTaxonomy
  imports PyValues
begin

section \<open>Error taxonomy (app/core/error\_taxonomy.py)\<close>

text \<open>
  Every error code is classified by stage, by whether the same request may be retried and by
  whether the next routing candidate may be tried.  Known codes come from a table; unknown codes
  are classified by prefix.
\<close>

record taxonomy_entry =
  te_error_code :: string
  te_error_stage :: string
  te_retryable :: bool
  te_fallback_eligible :: bool

definition mk_entry :: "string \<Rightarrow> string \<Rightarrow> bool \<Rightarrow> bool \<Rightarrow> taxonomy_entry" where
  "mk_entry code stage retryable fallback =
     \<lparr>te_error_code = code, te_error_stage = stage, te_retryable = retryable,
      te_fallback_eligible = fallback\<rparr>"

definition error_taxonomy :: "(string \<times> taxonomy_entry) list" where
  "error_taxonomy = [
     (''provider.timeout'', mk_entry ''provider.timeout'' ''provider'' True True),
     (''provider.network_error'', mk_entry ''provider.network_error'' ''provider'' True True),
     (''provider.rate_limited'', mk_entry ''provider.rate_limited'' ''provider'' True True),
     (''provider.upstream_unavailable'', mk_entry ''provider.upstream_unavailable'' ''provider'' True True),
     (''provider.upstream_error'', mk_entry ''provider.upstream_error'' ''provider'' True True),
     (''provider.quota_exceeded'', mk_entry ''provider.quota_exceeded'' ''provider'' False True),
     (''provider.budget_exceeded'', mk_entry ''provider.budget_exceeded'' ''provider_budget'' False True),
     (''provider.budget_configuration_missing'', mk_entry ''provider.budget_configuration_missing'' ''provider_budget'' False False),
     (''provider.context_overflow'', mk_entry ''provider.context_overflow'' ''provider'' False True),
     (''provider.auth_invalid'', mk_entry ''provider.auth_invalid'' ''provider'' False True),
     (''provider.access_denied'', mk_entry ''provider.access_denied'' ''provider'' False True),
     (''provider.endpoint_not_found'', mk_entry ''provider.endpoint_not_found'' ''provider'' False True),
     (''provider.invalid_request'', mk_entry ''provider.invalid_request'' ''provider'' False False),
     (''provider.unsupported_operation'', mk_entry ''provider.unsupported_operation'' ''provider'' False False),
     (''provider.content_filtered'', mk_entry ''provider.content_filtered'' ''provider'' False False),
     (''provider.simulated_error'', mk_entry ''provider.simulated_error'' ''provider'' False True),
     (''runtime.provider_not_configured'', mk_entry ''runtime.provider_not_configured'' ''runtime'' False True),
     (''runtime.execute_failed'', mk_entry ''runtime.execute_failed'' ''runtime'' False False),
     (''runtime.stale_running_auto_failed'', mk_entry ''runtime.stale_running_auto_failed'' ''runtime'' False False),
     (''cloud_batch_runtime.item_invalid'', mk_entry ''cloud_batch_runtime.item_invalid'' ''runtime'' True False),
     (''cloud_batch_runtime.invalid_input'', mk_entry ''cloud_batch_runtime.invalid_input'' ''contract'' False False),
     (''cloud_batch_runtime.items_required'', mk_entry ''cloud_batch_runtime.items_required'' ''contract'' False False),
     (''cloud_batch_runtime.items_limit_exceeded'', mk_entry ''cloud_batch_runtime.items_limit_exceeded'' ''contract'' False False),
     (''cloud_batch_runtime.write_or_secret_field_forbidden'', mk_entry ''cloud_batch_runtime.write_or_secret_field_forbidden'' ''contract'' False False),
     (''commercial.batch_limit_exceeded'', mk_entry ''commercial.batch_limit_exceeded'' ''entitlement'' False False),
     (''commercial.quota_exceeded'', mk_entry ''commercial.quota_exceeded'' ''entitlement'' False False),
     (''routing.profile_not_found'', mk_entry ''routing.profile_not_found'' ''routing'' False False),
     (''routing.no_candidates'', mk_entry ''routing.no_candidates'' ''routing'' False False)]"

definition get_error_taxonomy :: "string option \<Rightarrow> taxonomy_entry" where
  "get_error_taxonomy error_code =
     (let code = or_empty error_code in
      if code = [] then mk_entry [] [] False False
      else case map_of error_taxonomy code of
        Some entry \<Rightarrow> entry
      | None \<Rightarrow>
          if starts_with ''provider.'' code then mk_entry code ''provider'' False True
          else if starts_with ''routing.'' code then mk_entry code ''routing'' False False
          else if starts_with ''auth.'' code then mk_entry code ''auth'' False False
          else if starts_with ''commercial.'' code then mk_entry code ''entitlement'' False False
          else if starts_with ''cloud_batch_runtime.'' code then mk_entry code ''runtime'' False False
          else if starts_with ''stats.'' code then mk_entry code ''stats'' False False
          else if starts_with ''health.'' code then mk_entry code ''health'' False False
          else mk_entry code ''runtime'' False False)"

lemmas taxonomy_simps = mk_entry_def taxonomy_entry.simps

text \<open>A table entry that may be retried is one of the five transient provider failures or an
  invalid batch item, so an unlisted code is never retryable.\<close>

lemma error_taxonomy_keys: "map_of error_taxonomy code = Some entry \<Longrightarrow> te_error_code entry = code"
  by (auto simp: error_taxonomy_def mk_entry_def split: if_splits)

lemma get_error_taxonomy_code: "te_error_code (get_error_taxonomy code) = or_empty code"
  by (auto simp: get_error_taxonomy_def Let_def mk_entry_def error_taxonomy_keys split: option.splits)

end
