(* ===== verification/RunProjection.thy ===== *)
theory RunProjection
  imports RunTransitions ErrorTaxonomy
begin

section \<open>Public projections of a run (app/domain/runtime/run\_projection.py)\<close>

text \<open>
  What the API shows of a run: its lifecycle with cancel, callback and retention detail, its task
  backend, its failure details and the run-state payload.  The projections read the stored policy
  defensively; a JSON object is built with the keys in the order of the source.
\<close>

record failure_details =
  fd_error_stage :: string
  fd_retryable :: bool
  fd_retry_exhausted :: bool

definition json_or_null :: "string option \<Rightarrow> json" where
  "json_or_null x = (case x of None \<Rightarrow> JNull | Some s \<Rightarrow> JStr s)"

definition CLOUD_BATCH_RUNTIME_ABILITIES :: "string list" where
  "CLOUD_BATCH_RUNTIME_ABILITIES =
     [''npcink-toolbox/analyze-nightly-content-batch'', ''npcink-cloud/analyze-nightly-content-batch'']"

definition serialize_timestamp :: "instant option \<Rightarrow> json" where
  "serialize_timestamp value = (case value of None \<Rightarrow> JNull | Some t \<Rightarrow> JStr (isoformat t))"

definition as_dict :: "json \<Rightarrow> json_dict" where
  "as_dict v = (case v of JObj kvs \<Rightarrow> kvs | _ \<Rightarrow> [])"

definition is_dict :: "json \<Rightarrow> bool" where
  "is_dict v = (case v of JObj _ \<Rightarrow> True | _ \<Rightarrow> False)"

subsection \<open>Policy readers\<close>

definition get_callback_target :: "json_dict \<Rightarrow> json_dict" where
  "get_callback_target policy = as_dict (py_get policy ''runtime_callback'')"

definition has_callback_target :: "json_dict \<Rightarrow> bool" where
  "has_callback_target policy \<longleftrightarrow> get_callback_target policy \<noteq> []"

definition is_task_backend_enabled :: "json_dict \<Rightarrow> bool" where
  "is_task_backend_enabled policy \<longleftrightarrow>
     is_dict (py_get policy ''task_backend'')
     \<and> py_truthy (py_get (as_dict (py_get policy ''task_backend'')) ''enabled'')"

definition get_queue_mode :: "string \<Rightarrow> json_dict \<Rightarrow> string" where
  "get_queue_mode execution_pattern policy =
     (if execution_pattern = ''whole_run_offload'' \<and> is_task_backend_enabled policy
      then ''queue_backed'' else ''inline'')"

definition get_callback_mode :: "json_dict \<Rightarrow> string" where
  "get_callback_mode policy =
     (case py_get policy ''task_backend'' of
        JObj task_backend \<Rightarrow> str_or_empty (py_get task_backend ''callback_mode'')
      | _ \<Rightarrow> [])"

definition supports_public_cancel :: "string \<Rightarrow> json_dict \<Rightarrow> bool" where
  "supports_public_cancel execution_pattern policy \<longleftrightarrow>
     get_queue_mode execution_pattern policy = ''queue_backed''"

definition public_execution_pattern :: "string \<Rightarrow> string" where
  "public_execution_pattern execution_pattern =
     (if execution_pattern = ''whole_run_offload'' then ''whole_run_offload'' else ''inline'')"

definition policy_nat :: "json_dict \<Rightarrow> string \<Rightarrow> int" where
  "policy_nat policy k = max 0 (coerce_int_default 0 (py_get policy k))"

subsection \<open>State summaries\<close>

definition is_run_result_expired :: "instant \<Rightarrow> run_record \<Rightarrow> bool" where
  "is_run_result_expired now run =
     (if r_result_purged_at run \<noteq> None then True
      else case r_retention_expires_at run of None \<Rightarrow> False | Some t \<Rightarrow> t \<le> now)"

definition get_retention_state :: "instant \<Rightarrow> run_record \<Rightarrow> int \<Rightarrow> string" where
  "get_retention_state now run retention_ttl =
     (if retention_ttl \<le> 0 then ''disabled''
      else if r_finished_at run = None then ''pending_terminal''
      else if is_run_result_expired now run then ''expired''
      else ''retained'')"

definition resolve_cancel_state :: "run_record \<Rightarrow> bool \<Rightarrow> string" where
  "resolve_cancel_state run supported =
     (if \<not> supported then ''not_available''
      else if r_status run = ''canceled'' then ''canceled''
      else if r_finished_at run \<noteq> None then ''closed''
      else if r_cancel_requested_at run \<noteq> None then ''requested''
      else ''available'')"

definition resolve_callback_dispatch_status :: "run_record \<Rightarrow> bool \<Rightarrow> string" where
  "resolve_callback_dispatch_status run callback_requested =
     (if \<not> callback_requested then RUN_CALLBACK_STATUS_NOT_REQUESTED
      else if r_finished_at run = None then ''pending_terminal''
      else (let callback_status = (if r_callback_status run = [] then RUN_CALLBACK_STATUS_NOT_REQUESTED
                                   else r_callback_status run)
            in if callback_status = RUN_CALLBACK_STATUS_NOT_REQUESTED then RUN_CALLBACK_STATUS_PENDING
               else if callback_status \<in> {RUN_CALLBACK_STATUS_PENDING, RUN_CALLBACK_STATUS_DISPATCHING,
                         RUN_CALLBACK_STATUS_DELIVERED, RUN_CALLBACK_STATUS_FAILED}
                    then callback_status
               else RUN_CALLBACK_STATUS_PENDING))"

definition lifecycle_phase :: "string \<Rightarrow> string" where
  "lifecycle_phase status =
     (if status = ''queued'' then ''queued''
      else if status = ''running'' then ''processing''
      else if status = ''succeeded'' then ''terminal''
      else if status = ''failed'' then ''terminal''
      else if status = ''canceled'' then ''terminal''
      else ''requested'')"

definition public_terminal_status :: "string \<Rightarrow> string" where
  "public_terminal_status status =
     (if status \<in> {''succeeded'', ''failed'', ''canceled''} then status else [])"

definition build_failure_details :: "run_record \<Rightarrow> provider_call list \<Rightarrow> failure_details" where
  "build_failure_details run provider_calls =
     (let error_taxonomy = get_error_taxonomy (r_error_code run);
          max_retries = policy_nat (run_policy run) ''max_retries'';
          retry_exhausted =
            (if r_status run = ''failed'' \<and> provider_calls \<noteq> []
                \<and> or_empty (pc_error_code (last provider_calls)) \<noteq> []
             then te_retryable error_taxonomy \<and> max_retries \<le> pc_retry_count (last provider_calls)
             else False)
      in \<lparr>fd_error_stage = te_error_stage error_taxonomy, fd_retryable = te_retryable error_taxonomy,
          fd_retry_exhausted = retry_exhausted\<rparr>)"

subsection \<open>Payloads\<close>

definition build_execution_context_payload :: "run_record \<Rightarrow> json" where
  "build_execution_context_payload run =
     (let storage_mode = py_get (run_policy run) ''storage_mode'' in
      JObj [(''skill_id'', JStr (or_empty (r_skill_id run))),
            (''workflow_id'', JStr (or_empty (r_workflow_id run))),
            (''contract_version'', JStr (or_empty (r_contract_version run))),
            (''ability_family'', JStr (if r_ability_family run = [] then ''text'' else r_ability_family run)),
            (''execution_tier'', JStr (r_execution_tier run)),
            (''execution_pattern'', JStr (public_execution_pattern (r_execution_pattern run))),
            (''data_classification'', JStr (r_data_classification run)),
            (''storage_mode'', JStr (if py_truthy storage_mode then py_str storage_mode
                                     else RUNTIME_STORAGE_MODE_RESULT_ONLY))])"

definition build_task_backend_payload_from_policy :: "json_dict \<Rightarrow> string \<Rightarrow> json" where
  "build_task_backend_payload_from_policy policy run_status =
     (let raw_task_backend = as_dict (py_get policy ''task_backend'');
          enabled = py_truthy (py_get raw_task_backend ''enabled'');
          callback_target = get_callback_target policy;
          timeout_seconds = policy_nat policy ''timeout_seconds'';
          retry_max = policy_nat policy ''retry_max'';
          retention_ttl = policy_nat policy ''retention_ttl''
      in if raw_task_backend = [] \<and> callback_target = [] \<and> timeout_seconds \<le> 0 \<and> retry_max \<le> 0
            \<and> retention_ttl \<le> 0
         then JObj []
         else JObj
           [(''enabled'', JBool enabled),
            (''mode'', JStr (str_or_empty (py_get raw_task_backend ''mode''))),
            (''callback_mode'', JStr (str_or_empty (py_get raw_task_backend ''callback_mode''))),
            (''polling_interval_sec'', JInt (policy_nat raw_task_backend ''polling_interval_sec'')),
            (''callback_url'', JStr []),
            (''timeout_seconds'', JInt timeout_seconds),
            (''retry_max'', JInt retry_max),
            (''retention_ttl'', JInt retention_ttl),
            (''status'', JStr
              (if run_status = ''queued'' then ''queued''
               else if run_status = ''running'' then ''running''
               else if run_status = ''succeeded'' then ''completed''
               else if run_status = ''failed'' then ''failed''
               else if run_status = ''canceled'' then ''canceled''
               else if enabled then ''queued'' else ''disabled''))])"

definition build_task_backend_payload :: "run_record \<Rightarrow> json" where
  "build_task_backend_payload run = build_task_backend_payload_from_policy (run_policy run) (r_status run)"

definition build_run_lifecycle :: "instant \<Rightarrow> run_record \<Rightarrow> json_dict" where
  "build_run_lifecycle now run =
     (let policy = run_policy run;
          callback_requested = has_callback_target policy;
          retention_ttl = policy_nat policy ''retention_ttl'';
          cancel_supported = supports_public_cancel (r_execution_pattern run) policy
      in [(''phase'', JStr (lifecycle_phase (r_status run))),
          (''queue_mode'', JStr (get_queue_mode (r_execution_pattern run) policy)),
          (''requested_at'', serialize_timestamp (Some (r_started_at run))),
          (''worker_eligible_at'', serialize_timestamp (r_worker_eligible_at run)),
          (''processing_started_at'', serialize_timestamp (r_processing_started_at run)),
          (''terminal_at'', serialize_timestamp (r_finished_at run)),
          (''terminal_status'', JStr (public_terminal_status (r_status run))),
          (''cancel'', JObj
            [(''supported'', JBool cancel_supported),
             (''state'', JStr (resolve_cancel_state run cancel_supported)),
             (''requested_at'', serialize_timestamp (r_cancel_requested_at run)),
             (''canceled_at'', serialize_timestamp (r_canceled_at run))]),
          (''callback'', JObj
            [(''requested'', JBool callback_requested),
             (''mode'', JStr (get_callback_mode policy)),
             (''url_present'', JBool callback_requested),
             (''dispatch_status'', JStr (resolve_callback_dispatch_status run callback_requested)),
             (''attempt_count'', JInt (max 0 (r_callback_attempt_count run))),
             (''last_attempt_at'', serialize_timestamp (r_callback_last_attempt_at run)),
             (''delivered_at'', serialize_timestamp (r_callback_delivered_at run)),
             (''next_attempt_at'', serialize_timestamp (r_callback_next_attempt_at run)),
             (''last_error_code'', JStr (or_empty (r_callback_last_error_code run)))]),
          (''retention'', JObj
            [(''ttl_seconds'', JInt retention_ttl),
             (''expires_at'', serialize_timestamp (r_retention_expires_at run)),
             (''state'', JStr (get_retention_state now run retention_ttl)),
             (''result_purged_at'', serialize_timestamp (r_result_purged_at run))])])"

definition build_planned_run_lifecycle :: "string \<Rightarrow> json_dict \<Rightarrow> string \<Rightarrow> json_dict" where
  "build_planned_run_lifecycle execution_pattern policy initial_phase =
     (let callback_requested = has_callback_target policy;
          retention_ttl = policy_nat policy ''retention_ttl'';
          cancel_supported = supports_public_cancel execution_pattern policy
      in [(''phase'', JStr ''requested''),
          (''next_phase'', JStr initial_phase),
          (''queue_mode'', JStr (get_queue_mode execution_pattern policy)),
          (''cancel'', JObj
            [(''supported'', JBool cancel_supported),
             (''state'', JStr (if cancel_supported then ''available'' else ''not_available'')),
             (''requested_at'', JNull), (''canceled_at'', JNull)]),
          (''callback'', JObj
            [(''requested'', JBool callback_requested),
             (''mode'', JStr (get_callback_mode policy)),
             (''url_present'', JBool callback_requested),
             (''dispatch_status'', JStr (if callback_requested then ''pending_terminal'' else ''not_requested'')),
             (''attempt_count'', JInt 0), (''last_attempt_at'', JNull), (''delivered_at'', JNull),
             (''next_attempt_at'', JNull), (''last_error_code'', JStr [])]),
          (''retention'', JObj
            [(''ttl_seconds'', JInt retention_ttl),
             (''state'', JStr (if retention_ttl > 0 then ''pending_terminal'' else ''disabled''))])])"

definition resolve_run_state_next_action :: "run_record \<Rightarrow> bool \<Rightarrow> json list \<Rightarrow> string" where
  "resolve_run_state_next_action run retryable failed_action_ids =
     (if r_status run = ''queued'' then ''poll_run_status''
      else if r_status run = ''running'' then ''wait_for_terminal_result''
      else if retryable then
        (if failed_action_ids \<noteq> [] then ''retry_failed_cloud_analysis''
         else ''resubmit_runtime_request_with_new_idempotency_key'')
      else if r_status run = ''failed'' then ''inspect_runtime_failure_detail''
      else if r_status run = ''canceled'' then ''resubmit_if_operator_still_needs_result''
      else ''review_result'')"

definition build_run_state_payload :: "instant \<Rightarrow> run_record \<Rightarrow> provider_call list \<Rightarrow> json" where
  "build_run_state_payload now run provider_calls =
     (let result = dict_or_empty (r_result_json run);
          result_state = as_dict (py_get result ''execution_state'');
          lifecycle = build_run_lifecycle now run;
          failure_details = build_failure_details run provider_calls;
          failed_provider_call = find (\<lambda>c. or_empty (pc_error_code c) \<noteq> []) (rev provider_calls);
          diagnostics = as_dict (py_get (run_policy run) ''runtime_diagnostics'');
          retry = py_get result_state ''retry'';
          retryable = (if is_dict retry then py_truthy (py_get (as_dict retry) ''retryable'')
                       else fd_retryable failure_details);
          failed_action_ids =
            (if is_dict retry
             then (case py_get (as_dict retry) ''failed_action_ids'' of JList ids \<Rightarrow> take 10 ids | _ \<Rightarrow> [])
             else [])
      in JObj
        [(''contract_version'', JStr ''cloud_run_state.v1''),
         (''state_machine'', JStr ''requested->queued->running->terminal''),
         (''phase'', py_get lifecycle ''phase''),
         (''status'', JStr (r_status run)),
         (''terminal_status'', py_get lifecycle ''terminal_status''),
         (''worker_phase'', JStr (str_or_empty (py_get result ''worker_phase''))),
         (''partial_success'', JBool (py_truthy (py_get result_state ''partial_success''))),
         (''retry'', JObj
           [(''retryable'', JBool retryable),
            (''retry_owner'', JStr (if retryable then ''cloud_runtime''
                                    else if r_status run = ''succeeded'' then ''not_needed''
                                    else ''operator_review'')),
            (''retry_exhausted'', JBool (fd_retry_exhausted failure_details)),
            (''failed_action_ids'', JList failed_action_ids),
            (''operator_next_action'', JStr (resolve_run_state_next_action run retryable failed_action_ids)),
            (''resubmit_requires_new_idempotency_key'', JBool retryable),
            (''retry_source'', JStr (if r_ability_name run \<in> set CLOUD_BATCH_RUNTIME_ABILITIES
                                     then ''resubmit_runtime_execute_payload'' else ''runtime_specific''))]),
         (''idempotency'', JObj
           [(''idempotency_key'', JStr (or_empty (r_idempotency_key run))),
            (''request_fingerprint'', JStr (or_empty (r_request_fingerprint run))),
            (''replay_safe'', JBool (or_empty (r_idempotency_key run) \<noteq> [])),
            (''canonical_truth'', JStr ''run_records'')]),
         (''error'', JObj
           [(''error_code'', JStr (or_empty (r_error_code run))),
            (''error_message'', JStr (or_empty (r_error_message run))),
            (''error_stage'', JStr (fd_error_stage failure_details)),
            (''provider_error_code'', JStr (case failed_provider_call of
                 None \<Rightarrow> [] | Some c \<Rightarrow> or_empty (pc_error_code c))),
            (''quality_contract_version'', JStr (str_or_empty (py_get diagnostics ''contract_version''))),
            (''quality_reason'', JStr (str_or_empty (py_get diagnostics ''output_quality_reason'')))]),
         (''observability'', JObj
           [(''trace_id'', JStr (r_trace_id run)),
            (''provider_call_count'', JInt (int (length provider_calls))),
            (''usage_meter_truth'', JStr ''usage_meter_events''),
            (''run_record_truth'', JStr ''run_records'')]),
         (''boundary'', JObj
           [(''cloud_role'', JStr ''runtime_detail''),
            (''cloud_scheduler_truth'', JBool False),
            (''direct_wordpress_write'', JBool False)])])"

subsection \<open>Lemmas\<close>

lemma cancel_supported_iff:
  "supports_public_cancel pattern policy \<longleftrightarrow> pattern = ''whole_run_offload'' \<and> is_task_backend_enabled policy"
  by (simp add: supports_public_cancel_def get_queue_mode_def)

lemma phase_terminal_iff: "lifecycle_phase st = ''terminal'' \<longleftrightarrow> terminal_status st"
  by (simp add: lifecycle_phase_def terminal_status_def)

lemma public_terminal_status_iff: "public_terminal_status st \<noteq> [] \<longleftrightarrow> terminal_status st"
  by (auto simp: public_terminal_status_def terminal_status_def)

lemma repo_target_implies_projected:
  assumes "repo_has_callback_target policy" and "py_get policy ''callback_url'' = JNull"
  shows "has_callback_target policy"
proof (cases "py_get policy ''runtime_callback''")
  case (JObj kvs)
  with assms have "kvs \<noteq> []"
    by (auto simp: repo_has_callback_target_def py_strip_def py_get_def)
  with JObj show ?thesis by (simp add: has_callback_target_def get_callback_target_def as_dict_def)
qed (use assms in \<open>simp_all add: repo_has_callback_target_def py_strip_def\<close>)

end
