(* ===== verification/RunIdentity.thy ===== *)
theory RunIdentity
  imports JsonText Hashes RunClaims RunProjection
begin

section \<open>Request identity and idempotent replay (app/domain/runtime/run\_lifecycle.py, models.py)\<close>

text \<open>
  A runtime request, its normalisation, its canonical JSON fingerprint, and the lookup that replays
  an earlier run for the same site and idempotency key.  \<open>routing_profile\<close> (the default policy of a
  routing profile, a row of the catalog) is an argument.
\<close>

subsection \<open>Python equality\<close>

text \<open>
  \<open>==\<close> on JSON-shaped values: numbers and booleans compare by value, dictionaries regardless of
  order.
\<close>

definition py_number :: "json \<Rightarrow> rat option" where
  "py_number v = (case v of JBool b \<Rightarrow> Some (if b then 1 else 0) | JInt i \<Rightarrow> Some (of_int i)
                          | JFloat r _ \<Rightarrow> Some r | _ \<Rightarrow> None)"

primrec py_eq :: "json \<Rightarrow> json \<Rightarrow> bool" where
  "py_eq JNull = (\<lambda>v. v = JNull)"
| "py_eq (JBool b) = (\<lambda>v. py_number v = Some (if b then 1 else 0))"
| "py_eq (JInt i) = (\<lambda>v. py_number v = Some (of_int i))"
| "py_eq (JFloat r txt) = (\<lambda>v. py_number v = Some r)"
| "py_eq (JStr s) = (\<lambda>v. v = JStr s)"
| "py_eq (JList xs) = (\<lambda>v. case v of
     JList ys \<Rightarrow> length xs = length ys \<and> list_all (\<lambda>(f, y). f y) (zip (map py_eq xs) ys)
   | _ \<Rightarrow> False)"
| "py_eq (JObj kvs) = (\<lambda>v. case v of
     JObj ys \<Rightarrow> length kvs = length ys
       \<and> list_all (\<lambda>(k, f). case map_of ys k of None \<Rightarrow> False | Some y \<Rightarrow> f y)
           (map (map_prod id py_eq) kvs)
   | _ \<Rightarrow> False)"

subsection \<open>Requests\<close>

record runtime_request =
  q_site_id :: string
  q_ability_name :: string
  q_channel :: string
  q_execution_kind :: string
  q_profile_id :: string
  q_input_payload :: json_dict
  q_canonical_run_id :: string
  q_ability_family :: string
  q_skill_id :: string
  q_workflow_id :: string
  q_contract_version :: string
  q_execution_tier :: string
  q_execution_pattern :: string
  q_data_classification :: string
  q_storage_mode :: string
  q_timeout_seconds :: int
  q_retry_max :: int
  q_retention_ttl :: int
  q_callback_url :: string
  q_task_backend :: json_dict
  q_policy :: json_dict
  q_idempotency_key :: "string option"
  q_trace_id :: "string option"

definition normalize_runtime_request_policy :: "json_dict \<Rightarrow> json_dict" where
  "normalize_runtime_request_policy raw_policy =
     (if map_of raw_policy ''allow_fallback'' \<noteq> None
      then [(''allow_fallback'', JBool (py_truthy (py_get raw_policy ''allow_fallback'')))] else [])"

definition normalize_runtime_task_backend :: "json_dict \<Rightarrow> json_dict" where
  "normalize_runtime_task_backend raw =
     (if map_of raw ''enabled'' \<noteq> None
      then [(''enabled'', JBool (py_truthy (py_get raw ''enabled'')))] else [])
     @ (if map_of raw ''mode'' \<noteq> None
        then [(''mode'', JStr (str_or_empty (py_get raw ''mode'')))] else [])
     @ (if map_of raw ''callback_mode'' \<noteq> None
        then [(''callback_mode'', JStr (str_or_empty (py_get raw ''callback_mode'')))] else [])
     @ (if map_of raw ''polling_interval_sec'' \<noteq> None
        then [(''polling_interval_sec'',
               JInt (max 0 (coerce_int_default 0 (py_get raw ''polling_interval_sec''))))] else [])"

definition RUNTIME_STORAGE_MODES :: "string list" where
  "RUNTIME_STORAGE_MODES = [RUNTIME_STORAGE_MODE_NO_STORE, RUNTIME_STORAGE_MODE_RESULT_ONLY,
     RUNTIME_STORAGE_MODE_FULL_STORE_WITH_TTL]"

text \<open>\<open>__post_init__\<close>\<close>

definition normalize_runtime_request :: "runtime_request \<Rightarrow> runtime_request" where
  "normalize_runtime_request q =
     (let normalized_storage_mode =
            py_strip (if q_storage_mode q = [] then RUNTIME_STORAGE_MODE_RESULT_ONLY else q_storage_mode q)
      in q\<lparr>q_task_backend := normalize_runtime_task_backend (q_task_backend q),
           q_policy := normalize_runtime_request_policy (q_policy q),
           q_storage_mode := (if normalized_storage_mode \<in> set RUNTIME_STORAGE_MODES
                              then normalized_storage_mode else RUNTIME_STORAGE_MODE_RESULT_ONLY)\<rparr>)"

subsection \<open>Fingerprints\<close>

definition identity_controls :: "bool \<Rightarrow> runtime_request \<Rightarrow> json_dict" where
  "identity_controls client_identity q =
     (if client_identity then
        [(''identity_version'', JInt 2),
         (''canonical_run_id'', JStr (q_canonical_run_id q)),
         (''storage_mode'', JStr (q_storage_mode q)),
         (''retention_ttl'', JInt (q_retention_ttl q)),
         (''timeout_seconds'', JInt (q_timeout_seconds q)),
         (''retry_max'', JInt (q_retry_max q)),
         (''task_backend'', JObj (q_task_backend q)),
         (''callback_url'', JStr (q_callback_url q))]
      else [])"

definition canonical_request_payload :: "runtime_request \<Rightarrow> json_dict \<Rightarrow> bool \<Rightarrow> json" where
  "canonical_request_payload q merged_policy client_identity =
     JObj ([(''site_id'', JStr (q_site_id q)),
            (''ability_name'', JStr (q_ability_name q)),
            (''ability_family'', JStr (q_ability_family q)),
            (''skill_id'', JStr (q_skill_id q)),
            (''workflow_id'', JStr (q_workflow_id q)),
            (''contract_version'', JStr (q_contract_version q)),
            (''channel'', JStr (q_channel q)),
            (''execution_kind'', JStr (q_execution_kind q)),
            (''execution_tier'', JStr (q_execution_tier q)),
            (''execution_pattern'', JStr (q_execution_pattern q)),
            (''data_classification'', JStr (q_data_classification q)),
            (''profile_id'', JStr (q_profile_id q)),
            (''input'', JObj (q_input_payload q)),
            (''policy'', JObj (if client_identity then q_policy q else merged_policy))]
           @ identity_controls client_identity q)"

definition build_request_fingerprint ::
    "runtime_request \<Rightarrow> json_dict \<Rightarrow> bool \<Rightarrow> string" where
  "build_request_fingerprint q merged_policy client_identity =
     sha256_hex (json_dumps (canonical_request_payload q merged_policy client_identity))"

definition build_media_derivative_request_fingerprint ::
    "string \<Rightarrow> json_dict \<Rightarrow> string \<Rightarrow> string \<Rightarrow> string" where
  "build_media_derivative_request_fingerprint site_id input_payload source_checksum watermark_checksum =
     sha256_hex (json_dumps (JObj
       [(''site_id'', JStr site_id),
        (''execution_kind'', JStr ''media_derivative''),
        (''input'', JObj input_payload),
        (''source_checksum'', JStr source_checksum),
        (''watermark_checksum'', JStr watermark_checksum)]))"

subsection \<open>Replay\<close>

text \<open>The errors of the run service; \<open>PythonTypeError\<close> is an uncaught \<open>TypeError\<close>.\<close>

datatype runtime_error =
    RuntimeIdempotencyConflictError string string
  | RuntimeRunNotFoundError string
  | RuntimeCancelNotAllowedError string string
  | RuntimeResultNotReadyError string string
  | RuntimeResultExpiredError string
  | RuntimeCallbackConfigurationError string string
  | PythonTypeError

text \<open>
  A run stored before identity version 2: its old hash is recomputed with its saved routing
  evidence, and its saved execution controls are compared with the request.
\<close>

fun add_routing_evidence :: "string list \<Rightarrow> json_dict \<Rightarrow> json_dict \<Rightarrow> json_dict option" where
  "add_routing_evidence [] policy legacy_policy = Some legacy_policy"
| "add_routing_evidence (k # ks) policy legacy_policy =
     (case map_of policy k of
        None \<Rightarrow> None
      | Some v \<Rightarrow> add_routing_evidence ks policy (py_set legacy_policy k v))"

definition dict_merge :: "json_dict \<Rightarrow> json_dict \<Rightarrow> json_dict" where
  "dict_merge a b = fold (\<lambda>(k, v) d. py_set d k v) b a"

definition request_controls :: "runtime_request \<Rightarrow> json_dict" where
  "request_controls q =
     [(''storage_mode'', JStr (q_storage_mode q)),
      (''timeout_seconds'', JInt (q_timeout_seconds q)),
      (''retry_max'', JInt (q_retry_max q)),
      (''retention_ttl'', JInt (q_retention_ttl q)),
      (''task_backend'', JObj (q_task_backend q))]"

definition legacy_request_matches ::
    "(string \<Rightarrow> json_dict option) \<Rightarrow> run_record \<Rightarrow> runtime_request \<Rightarrow> bool" where
  "legacy_request_matches routing_profile existing q =
     (let policy = run_policy existing in
      case py_get policy ''execution_contract'' of
        JObj contract \<Rightarrow>
          if list_ex (\<lambda>(k, v). \<not> py_eq v (py_get contract k)) (request_controls q) then False
          else if or_empty (r_canonical_run_id existing) \<noteq> q_canonical_run_id q \<or> q_callback_url q \<noteq> []
          then False
          else (case routing_profile (q_profile_id q) of
                  None \<Rightarrow> False
                | Some default_policy \<Rightarrow>
                    (case add_routing_evidence
                            [''routing_revision'', ''routing_candidates'', ''routing_explainability'']
                            policy (dict_merge default_policy (q_policy q)) of
                       None \<Rightarrow> False
                     | Some legacy_policy \<Rightarrow>
                         r_request_fingerprint existing =
                           Some (build_request_fingerprint q legacy_policy False)))
      | _ \<Rightarrow> False)"

definition get_idempotent_replay ::
    "(string \<Rightarrow> json_dict option) \<Rightarrow> string \<Rightarrow> string option \<Rightarrow> string
      \<Rightarrow> runtime_request option \<Rightarrow> run_table
      \<Rightarrow> (runtime_error, run_record option \<times> run_table) outcome" where
  "get_idempotent_replay routing_profile site_id idempotency_key request_fingerprint client_request rows =
     (let key = or_empty idempotency_key in
      if key = [] then Return (None, rows)
      else case get_run_by_idempotency site_id key rows of
        None \<Rightarrow> Return (None, rows)
      | Some existing \<Rightarrow>
          (let compare = (if r_request_fingerprint existing \<noteq> Some request_fingerprint
                          then Raise (RuntimeIdempotencyConflictError site_id key)
                          else Return (Some existing, rows))
           in case client_request of
             None \<Rightarrow> compare
           | Some q \<Rightarrow>
               if py_eq (JInt 2) (py_get (run_policy existing) ''request_identity_version'') then compare
               else if \<not> legacy_request_matches routing_profile existing q
               then Raise (RuntimeIdempotencyConflictError site_id key)
               else (let existing' = existing\<lparr>r_request_fingerprint := Some request_fingerprint,
                         r_policy_json := Some (JObj (py_set (run_policy existing)
                                             ''request_identity_version'' (JInt 2)))\<rparr>
                     in Return (Some existing', save_run existing' rows))))"

subsection \<open>Lemmas\<close>

lemma get_run_by_idempotency_Some:
  "get_run_by_idempotency site_id key rows = Some r \<Longrightarrow>
     r \<in> set rows \<and> r_site_id r = site_id \<and> r_idempotency_key r = Some key"
  by (auto simp: get_run_by_idempotency_def find_Some_iff)

lemma get_run_by_idempotency_None:
  "get_run_by_idempotency site_id key rows = None \<longleftrightarrow>
     (\<forall>r\<in>set rows. r_site_id r = site_id \<longrightarrow> r_idempotency_key r \<noteq> Some key)"
  by (auto simp: get_run_by_idempotency_def find_None_iff)

lemma create_run_Return:
  "create_run now db_now c rows = Return (run, rows') \<Longrightarrow>
     run = new_run_record now db_now c \<and> rows' = rows @ [run] \<and> get_run_row (c_run_id c) rows = None"
  by (auto simp: create_run_def Let_def split: if_splits option.splits)

lemma new_run_record_frame [simp]:
  "r_run_id (new_run_record now db_now c) = c_run_id c"
  "r_site_id (new_run_record now db_now c) = c_site_id c"
  "r_idempotency_key (new_run_record now db_now c) = c_idempotency_key c"
  "r_request_fingerprint (new_run_record now db_now c) = Some (c_request_fingerprint c)"
  "r_status (new_run_record now db_now c) = c_status c"
  "r_policy_json (new_run_record now db_now c) = Some (JObj (c_policy_json c))"
  by (simp_all add: new_run_record_def)

lemma create_run_key_fresh:
  "create_run now db_now c rows = Return (run, rows') \<Longrightarrow> c_idempotency_key c = Some key \<Longrightarrow>
     get_run_by_idempotency (c_site_id c) key rows = None"
  by (auto simp: create_run_def split: if_splits)

lemma idempotency_unique_snoc:
  assumes "idempotency_unique rows"
    and "\<And>q. q \<in> set rows \<Longrightarrow>
      \<not> (r_site_id q = r_site_id run \<and> r_idempotency_key q = r_idempotency_key run \<and> r_idempotency_key run \<noteq> None)"
  shows "idempotency_unique (rows @ [run])"
  unfolding idempotency_unique_def
proof (intro ballI impI)
  fix x y
  assume xy: "x \<in> set (rows @ [run])" "y \<in> set (rows @ [run])"
    and same: "r_site_id x = r_site_id y \<and> r_idempotency_key x = r_idempotency_key y \<and> r_idempotency_key x \<noteq> None"
  consider "x \<in> set rows" "y \<in> set rows" | "x \<in> set rows" "y = run" | "x = run" "y \<in> set rows" | "x = run" "y = run"
    using xy by auto
  then show "r_run_id x = r_run_id y"
  proof cases
    case 1
    then show ?thesis using assms(1) same unfolding idempotency_unique_def by blast
  next
    case 2
    then show ?thesis using assms(2) [of x] same by auto
  next
    case 3
    then show ?thesis using assms(2) [of y] same by auto
  qed simp
qed

lemma create_run_table_wf:
  assumes wf: "table_wf rows" and ok: "create_run now db_now c rows = Return (run, rows')"
    and st: "c_status c = ''queued'' \<or> c_status c = ''running''" and id: "c_run_id c \<noteq> []"
  shows "table_wf rows'"
proof -
  note r = create_run_Return [OF ok]
  have "keys_distinct r_run_id rows'"
    using r wf by (simp add: keys_distinct_append table_wf_def get_run_row_def)
  moreover have "idempotency_unique rows'"
  proof -
    have fresh: "\<not> (r_site_id q = c_site_id c \<and> r_idempotency_key q = c_idempotency_key c \<and> c_idempotency_key c \<noteq> None)"
      if "q \<in> set rows" for q
      using create_run_key_fresh [OF ok] that
      by (cases "c_idempotency_key c") (auto simp: get_run_by_idempotency_None)
    have old: "idempotency_unique rows" using wf by (simp add: table_wf_def)
    have "idempotency_unique (rows @ [run])"
      by (rule idempotency_unique_snoc [OF old]) (use fresh r in auto)
    then show ?thesis using r by simp
  qed
  ultimately show ?thesis using wf r new_run_wf [OF st] id by (auto simp: table_wf_def)
qed

end
