(* ===== verification/Secrets.thy ===== *)
theory Secrets
  imports RunIdentity
begin

section \<open>Envelope encryption (app/core/secrets.py)\<close>

text \<open>
  Secrets at rest are Fernet tokens inside an envelope \<open>family.version.key_id.token\<close>.  The Fernet key
  is derived with HKDF from a 32-byte root; family, version, purpose and key id enter the derivation,
  so that a token cannot be moved to another purpose.  HKDF and Fernet belong to the package
  \<open>cryptography\<close>: they are the record \<open>crypto\<close>, an argument of every definition that uses them, and
  \<open>fernet_documented\<close> states what the code relies on.
\<close>

record crypto =
  hkdf_sha256 :: "bytes \<Rightarrow> bytes \<Rightarrow> bytes \<Rightarrow> bytes"
  fernet_encrypt :: "string \<Rightarrow> bytes \<Rightarrow> string"
  fernet_decrypt :: "string \<Rightarrow> bytes \<Rightarrow> bytes option"

text \<open>HKDF gives the 32 bytes it is asked for, and under the Base64 text of 32 bytes a Fernet token is URL-safe
  text that opens to the plaintext.\<close>

definition fernet_documented :: "crypto \<Rightarrow> bool" where
  "fernet_documented lib \<longleftrightarrow>
     (\<forall>salt info root. length (hkdf_sha256 lib salt info root) = 32)
     \<and> (\<forall>key plaintext. length key = 32 \<longrightarrow>
          (let k = b64_encode key; token = fernet_encrypt lib k plaintext in
           token \<noteq> [] \<and> (\<forall>c\<in>set token. \<not> py_space c)
           \<and> fernet_decrypt lib k (utf8_encode token) = Some plaintext))"

datatype secret_error =
    RuntimeError string
  | SecretUnicodeDecodeError

record encryption_settings =
  es_runtime_data_encryption_secret :: "string option"
  es_runtime_data_encryption_key_id :: "string option"
  es_service_settings_secret :: "string option"
  es_service_settings_encryption_key_id :: "string option"

definition RUNTIME_DATA_ENVELOPE_FAMILY :: string where
  "RUNTIME_DATA_ENVELOPE_FAMILY = ''rde''"
definition RUNTIME_DATA_ENVELOPE_VERSION :: string where
  "RUNTIME_DATA_ENVELOPE_VERSION = ''v1''"
definition SERVICE_SECRET_ENVELOPE_FAMILY :: string where
  "SERVICE_SECRET_ENVELOPE_FAMILY = ''sse''"
definition SERVICE_SECRET_ENVELOPE_VERSION :: string where
  "SERVICE_SECRET_ENVELOPE_VERSION = ''v1''"

subsection \<open>Patterns\<close>

definition is_lower :: "char \<Rightarrow> bool" where
  "is_lower c = (let n = (of_char c :: nat) in 97 \<le> n \<and> n \<le> 122)"

definition is_alnum :: "char \<Rightarrow> bool" where
  "is_alnum c = (let n = (of_char c :: nat) in is_digit c \<or> (65 \<le> n \<and> n \<le> 90) \<or> is_lower c)"

definition is_token_char :: "char \<Rightarrow> bool" where
  "is_token_char c \<longleftrightarrow> is_alnum c \<or> c = CHR ''_'' \<or> c = CHR ''-''"

definition ENVELOPE_KEY_ID_PATTERN :: "string \<Rightarrow> bool" where
  "ENVELOPE_KEY_ID_PATTERN s \<longleftrightarrow> list_all is_token_char s \<and> 1 \<le> length s \<and> length s \<le> 64"

definition ENCRYPTION_PURPOSE_PATTERN :: "string \<Rightarrow> bool" where
  "ENCRYPTION_PURPOSE_PATTERN s \<longleftrightarrow>
     s \<noteq> [] \<and> is_alnum (hd s) \<and> list_all is_token_char (tl s) \<and> length (tl s) \<le> 127"

definition ENVELOPE_FAMILY_PATTERN :: "string \<Rightarrow> bool" where
  "ENVELOPE_FAMILY_PATTERN s \<longleftrightarrow>
     s \<noteq> [] \<and> is_lower (hd s)
     \<and> list_all (\<lambda>c. is_lower c \<or> is_digit c \<or> c = CHR ''_'' \<or> c = CHR ''-'') (tl s) \<and> length (tl s) \<le> 31"

definition ENVELOPE_VERSION_PATTERN :: "string \<Rightarrow> bool" where
  "ENVELOPE_VERSION_PATTERN s \<longleftrightarrow>
     2 \<le> length s \<and> hd s = CHR ''v'' \<and> is_digit (s ! 1) \<and> s ! 1 \<noteq> CHR ''0''
     \<and> list_all is_digit (drop 2 s) \<and> length (drop 2 s) \<le> 9"

definition CANONICAL_32_BYTE_ROOT_PATTERN :: "string \<Rightarrow> bool" where
  "CANONICAL_32_BYTE_ROOT_PATTERN s \<longleftrightarrow>
     length s = 44 \<and> list_all is_token_char (take 43 s) \<and> s ! 43 = CHR ''=''"

subsection \<open>Roots and key ids\<close>

definition resolve_encryption_key_id ::
    "string option \<Rightarrow> string \<Rightarrow> string \<Rightarrow> (secret_error, string) outcome" where
  "resolve_encryption_key_id raw_key_id missing_message invalid_message =
     (let key_id = or_empty raw_key_id in
      if key_id = [] then Raise (RuntimeError missing_message)
      else if key_id \<noteq> py_strip key_id \<or> \<not> ENVELOPE_KEY_ID_PATTERN key_id
      then Raise (RuntimeError invalid_message)
      else Return key_id)"

definition resolve_runtime_data_encryption_key_id :: "encryption_settings \<Rightarrow> (secret_error, string) outcome" where
  "resolve_runtime_data_encryption_key_id settings =
     resolve_encryption_key_id (es_runtime_data_encryption_key_id settings)
       ''runtime data encryption key id is not configured''
       ''runtime data encryption key id is invalid''"

definition resolve_service_settings_encryption_key_id :: "encryption_settings \<Rightarrow> (secret_error, string) outcome" where
  "resolve_service_settings_encryption_key_id settings =
     resolve_encryption_key_id (es_service_settings_encryption_key_id settings)
       ''service settings encryption key id is not configured''
       ''service settings encryption key id is invalid''"

fun resolve_encryption_secret :: "string option list \<Rightarrow> string \<Rightarrow> (secret_error, string) outcome" where
  "resolve_encryption_secret [] error_message = Raise (RuntimeError error_message)"
| "resolve_encryption_secret (candidate # candidates) error_message =
     (if py_strip (or_empty candidate) \<noteq> [] then Return (or_empty candidate)
      else resolve_encryption_secret candidates error_message)"

definition decode_encryption_root :: "string \<Rightarrow> string \<Rightarrow> (secret_error, bytes) outcome" where
  "decode_encryption_root root_secret root_name =
     (let malformed = Raise (RuntimeError
            (root_name @ '' must be canonical URL-safe Base64 encoding of exactly 32 bytes''))
      in if root_secret \<noteq> py_strip root_secret \<or> \<not> CANONICAL_32_BYTE_ROOT_PATTERN root_secret then malformed
         else (case b64_decode root_secret of
                 None \<Rightarrow> malformed
               | Some decoded \<Rightarrow>
                   if length decoded \<noteq> 32 \<or> b64_encode decoded \<noteq> root_secret then malformed
                   else Return decoded))"

definition resolve_encryption_root ::
    "string option list \<Rightarrow> string \<Rightarrow> string \<Rightarrow> (secret_error, string) outcome" where
  "resolve_encryption_root candidates error_message root_name =
     and_then (resolve_encryption_secret candidates error_message)
       (\<lambda>root_secret. and_then (decode_encryption_root root_secret root_name) (\<lambda>_. Return root_secret))"

definition resolve_runtime_data_encryption_secret :: "encryption_settings \<Rightarrow> (secret_error, string) outcome" where
  "resolve_runtime_data_encryption_secret settings =
     resolve_encryption_root [es_runtime_data_encryption_secret settings]
       ''runtime data encryption secret is not configured'' ''runtime data encryption secret''"

subsection \<open>Key derivation\<close>

definition validate_kdf_component :: "(string \<Rightarrow> bool) \<Rightarrow> string \<Rightarrow> string \<Rightarrow> (secret_error, string) outcome" where
  "validate_kdf_component pattern component value =
     (if value \<noteq> py_strip value \<or> \<not> pattern value
      then Raise (RuntimeError (''encryption '' @ component @ '' is invalid'')) else Return value)"

definition KDF_SALT :: bytes where
  "KDF_SALT = utf8_encode ''npcink-ai-cloud:fernet-envelope-kdf:v1''"

definition KDF_CONTEXT :: bytes where
  "KDF_CONTEXT = utf8_encode ''npcink-ai-cloud:fernet-envelope-context:v1''"

definition kdf_info :: "string \<Rightarrow> string \<Rightarrow> string \<Rightarrow> string \<Rightarrow> bytes" where
  "kdf_info family version purpose key_id =
     KDF_CONTEXT @ [0] @ utf8_encode (''family='' @ family) @ [0] @ utf8_encode (''version='' @ version)
     @ [0] @ utf8_encode (''purpose='' @ purpose) @ [0] @ utf8_encode (''key_id='' @ key_id)"

definition derive_fernet_key ::
    "crypto \<Rightarrow> string \<Rightarrow> string \<Rightarrow> string \<Rightarrow> string \<Rightarrow> string \<Rightarrow> string \<Rightarrow> (secret_error, bytes) outcome" where
  "derive_fernet_key lib root_secret family version purpose key_id root_name =
     and_then (decode_encryption_root root_secret root_name) (\<lambda>root.
     and_then (validate_kdf_component ENVELOPE_FAMILY_PATTERN ''family'' family) (\<lambda>family.
     and_then (validate_kdf_component ENVELOPE_VERSION_PATTERN ''version'' version) (\<lambda>version.
     and_then (validate_kdf_component ENCRYPTION_PURPOSE_PATTERN ''purpose'' purpose) (\<lambda>purpose.
     and_then (validate_kdf_component ENVELOPE_KEY_ID_PATTERN ''key id'' key_id) (\<lambda>key_id.
       Return (hkdf_sha256 lib KDF_SALT (kdf_info family version purpose key_id) root))))))"

definition build_fernet ::
    "crypto \<Rightarrow> string \<Rightarrow> string \<Rightarrow> string \<Rightarrow> string \<Rightarrow> string \<Rightarrow> string \<Rightarrow> (secret_error, string) outcome" where
  "build_fernet lib root_secret family version purpose key_id root_name =
     and_then (derive_fernet_key lib root_secret family version purpose key_id root_name)
       (\<lambda>derived_key. Return (b64_encode derived_key))"

subsection \<open>Envelopes\<close>

definition parse_envelope :: "string \<Rightarrow> string \<Rightarrow> string \<Rightarrow> (string \<times> string) option" where
  "parse_envelope token family version =
     (if token \<noteq> py_strip token then None
      else (case py_split_max CHR ''.'' 3 token of
              [actual_family, actual_version, key_id, fernet_token] \<Rightarrow>
                if actual_family \<noteq> family \<or> actual_version \<noteq> version
                   \<or> \<not> ENVELOPE_KEY_ID_PATTERN key_id \<or> fernet_token = []
                then None else Some (key_id, fernet_token)
            | _ \<Rightarrow> None))"

definition envelope :: "string \<Rightarrow> string \<Rightarrow> string \<Rightarrow> string \<Rightarrow> string" where
  "envelope family version key_id token = family @ ''.'' @ version @ ''.'' @ key_id @ ''.'' @ token"

definition encrypt_runtime_data_plaintext ::
    "crypto \<Rightarrow> bytes \<Rightarrow> string \<Rightarrow> encryption_settings \<Rightarrow> (secret_error, string) outcome" where
  "encrypt_runtime_data_plaintext lib plaintext purpose settings =
     and_then (resolve_runtime_data_encryption_secret settings) (\<lambda>secret.
     and_then (resolve_runtime_data_encryption_key_id settings) (\<lambda>key_id.
     and_then (build_fernet lib secret RUNTIME_DATA_ENVELOPE_FAMILY RUNTIME_DATA_ENVELOPE_VERSION purpose
                 key_id ''runtime data encryption secret'') (\<lambda>fernet.
       Return (envelope RUNTIME_DATA_ENVELOPE_FAMILY RUNTIME_DATA_ENVELOPE_VERSION key_id
                 (fernet_encrypt lib fernet plaintext)))))"

definition decrypt_runtime_data_plaintext ::
    "crypto \<Rightarrow> string \<Rightarrow> string \<Rightarrow> encryption_settings \<Rightarrow> string \<Rightarrow> (secret_error, bytes) outcome" where
  "decrypt_runtime_data_plaintext lib ciphertext purpose settings error_message =
     and_then (resolve_runtime_data_encryption_key_id settings) (\<lambda>expected_key_id.
       case parse_envelope ciphertext RUNTIME_DATA_ENVELOPE_FAMILY RUNTIME_DATA_ENVELOPE_VERSION of
         None \<Rightarrow> Raise (RuntimeError error_message)
       | Some (key_id, fernet_token) \<Rightarrow>
           if key_id \<noteq> expected_key_id then Raise (RuntimeError error_message)
           else and_then (resolve_runtime_data_encryption_secret settings) (\<lambda>secret.
                and_then (build_fernet lib secret RUNTIME_DATA_ENVELOPE_FAMILY RUNTIME_DATA_ENVELOPE_VERSION
                            purpose key_id ''runtime data encryption secret'') (\<lambda>fernet.
                  case fernet_decrypt lib fernet (utf8_encode fernet_token) of
                    None \<Rightarrow> Raise (RuntimeError error_message)
                  | Some plaintext \<Rightarrow> Return plaintext)))"

definition runtime_data_envelope_key_id :: "string option \<Rightarrow> string option" where
  "runtime_data_envelope_key_id ciphertext =
     map_option fst (parse_envelope (or_empty ciphertext) RUNTIME_DATA_ENVELOPE_FAMILY RUNTIME_DATA_ENVELOPE_VERSION)"

definition service_secret_envelope_key_id :: "string option \<Rightarrow> string option" where
  "service_secret_envelope_key_id ciphertext =
     map_option fst (parse_envelope (or_empty ciphertext) SERVICE_SECRET_ENVELOPE_FAMILY SERVICE_SECRET_ENVELOPE_VERSION)"

definition encrypt_service_secret_plaintext ::
    "crypto \<Rightarrow> bytes \<Rightarrow> string \<Rightarrow> encryption_settings \<Rightarrow> string \<Rightarrow> (secret_error, string) outcome" where
  "encrypt_service_secret_plaintext lib plaintext purpose settings missing_root_message =
     and_then (resolve_encryption_root [es_service_settings_secret settings] missing_root_message
                 ''service settings encryption secret'') (\<lambda>root_secret.
     and_then (resolve_service_settings_encryption_key_id settings) (\<lambda>key_id.
     and_then (build_fernet lib root_secret SERVICE_SECRET_ENVELOPE_FAMILY SERVICE_SECRET_ENVELOPE_VERSION
                 purpose key_id ''service settings encryption secret'') (\<lambda>fernet.
       Return (envelope SERVICE_SECRET_ENVELOPE_FAMILY SERVICE_SECRET_ENVELOPE_VERSION key_id
                 (fernet_encrypt lib fernet plaintext)))))"

definition decrypt_service_secret_plaintext ::
    "crypto \<Rightarrow> string \<Rightarrow> string \<Rightarrow> encryption_settings \<Rightarrow> string \<Rightarrow> string \<Rightarrow> (secret_error, bytes) outcome" where
  "decrypt_service_secret_plaintext lib ciphertext purpose settings missing_root_message error_message =
     and_then (resolve_service_settings_encryption_key_id settings) (\<lambda>expected_key_id.
       case parse_envelope ciphertext SERVICE_SECRET_ENVELOPE_FAMILY SERVICE_SECRET_ENVELOPE_VERSION of
         None \<Rightarrow> Raise (RuntimeError error_message)
       | Some (key_id, fernet_token) \<Rightarrow>
           if key_id \<noteq> expected_key_id then Raise (RuntimeError error_message)
           else and_then (resolve_encryption_root [es_service_settings_secret settings] missing_root_message
                            ''service settings encryption secret'') (\<lambda>root_secret.
                and_then (build_fernet lib root_secret SERVICE_SECRET_ENVELOPE_FAMILY SERVICE_SECRET_ENVELOPE_VERSION
                            purpose key_id ''service settings encryption secret'') (\<lambda>fernet.
                  case fernet_decrypt lib fernet (utf8_encode fernet_token) of
                    None \<Rightarrow> Raise (RuntimeError error_message)
                  | Some plaintext \<Rightarrow> Return plaintext)))"

subsection \<open>The secrets the service stores\<close>

definition decode_text :: "bytes \<Rightarrow> (secret_error, string) outcome" where
  "decode_text bs = (case utf8_decode bs of None \<Rightarrow> Raise SecretUnicodeDecodeError | Some s \<Rightarrow> Return s)"

definition encrypt_runtime_terminal_callback_secret ::
    "crypto \<Rightarrow> encryption_settings \<Rightarrow> string \<Rightarrow> (secret_error, string) outcome" where
  "encrypt_runtime_terminal_callback_secret lib settings secret =
     (if secret = [] then Return []
      else encrypt_runtime_data_plaintext lib (utf8_encode secret) ''runtime_terminal_callback_secret'' settings)"

definition decrypt_runtime_terminal_callback_secret ::
    "crypto \<Rightarrow> encryption_settings \<Rightarrow> string option \<Rightarrow> (secret_error, string) outcome" where
  "decrypt_runtime_terminal_callback_secret lib settings ciphertext =
     (let token = or_empty ciphertext in
      if py_strip token = [] then Return []
      else and_then (decrypt_runtime_data_plaintext lib token ''runtime_terminal_callback_secret'' settings
                       ''runtime terminal callback secret could not be decrypted'') decode_text)"

definition encrypt_site_api_signing_secret ::
    "crypto \<Rightarrow> encryption_settings \<Rightarrow> string \<Rightarrow> (secret_error, string) outcome" where
  "encrypt_site_api_signing_secret lib settings secret =
     (if secret = [] then Return []
      else encrypt_runtime_data_plaintext lib (utf8_encode secret) ''site_api_key_signing_secret'' settings)"

definition decrypt_site_api_signing_secret ::
    "crypto \<Rightarrow> encryption_settings \<Rightarrow> string option \<Rightarrow> (secret_error, string) outcome" where
  "decrypt_site_api_signing_secret lib settings ciphertext =
     (let token = or_empty ciphertext in
      if py_strip token = [] then Return []
      else and_then (decrypt_runtime_data_plaintext lib token ''site_api_key_signing_secret'' settings
                       ''site api signing secret could not be decrypted'') decode_text)"

text \<open>\<open>json_loads\<close> parses a text; \<open>None\<close> is its \<open>JSONDecodeError\<close>.\<close>

definition encrypt_addon_connection_payload ::
    "crypto \<Rightarrow> encryption_settings \<Rightarrow> json_dict \<Rightarrow> (secret_error, string) outcome" where
  "encrypt_addon_connection_payload lib settings payload =
     encrypt_runtime_data_plaintext lib (utf8_encode (json_dumps (JObj payload)))
       ''wordpress_addon_connection_payload'' settings"

definition decrypt_addon_connection_payload ::
    "crypto \<Rightarrow> (string \<Rightarrow> json option) \<Rightarrow> encryption_settings \<Rightarrow> string option \<Rightarrow> (secret_error, json_dict) outcome" where
  "decrypt_addon_connection_payload lib json_loads settings ciphertext =
     (let token = or_empty ciphertext in
      if py_strip token = [] then Return []
      else and_then (decrypt_runtime_data_plaintext lib token ''wordpress_addon_connection_payload'' settings
                       ''addon connection payload could not be decrypted'') (\<lambda>plaintext.
           and_then (decode_text plaintext) (\<lambda>decoded.
             case json_loads decoded of
               None \<Rightarrow> Raise (RuntimeError ''addon connection payload is not valid json'')
             | Some payload \<Rightarrow> Return (as_dict payload))))"

definition encrypt_runtime_execution_input ::
    "crypto \<Rightarrow> encryption_settings \<Rightarrow> json_dict \<Rightarrow> (secret_error, string) outcome" where
  "encrypt_runtime_execution_input lib settings input_payload =
     encrypt_runtime_data_plaintext lib (utf8_encode (json_dumps (JObj input_payload)))
       ''runtime_execution_input'' settings"

definition decrypt_runtime_execution_input ::
    "crypto \<Rightarrow> (string \<Rightarrow> json option) \<Rightarrow> encryption_settings \<Rightarrow> string option \<Rightarrow> (secret_error, json_dict) outcome" where
  "decrypt_runtime_execution_input lib json_loads settings ciphertext =
     (let token = or_empty ciphertext in
      if py_strip token = [] then Return []
      else and_then (decrypt_runtime_data_plaintext lib token ''runtime_execution_input'' settings
                       ''runtime execution input could not be decrypted'') (\<lambda>payload.
           and_then (decode_text payload) (\<lambda>text.
             case json_loads text of
               None \<Rightarrow> Raise (RuntimeError ''runtime execution input is not valid json'')
             | Some decoded \<Rightarrow> Return (as_dict decoded))))"

definition encrypt_portal_idempotency_response ::
    "crypto \<Rightarrow> encryption_settings \<Rightarrow> bytes \<Rightarrow> (secret_error, string) outcome" where
  "encrypt_portal_idempotency_response lib settings response_body =
     encrypt_runtime_data_plaintext lib response_body ''portal_idempotency_response'' settings"

definition decrypt_portal_idempotency_response ::
    "crypto \<Rightarrow> encryption_settings \<Rightarrow> string option \<Rightarrow> (secret_error, bytes) outcome" where
  "decrypt_portal_idempotency_response lib settings ciphertext =
     (let token = or_empty ciphertext in
      if py_strip token = [] then Raise (RuntimeError ''Portal idempotency response is missing'')
      else decrypt_runtime_data_plaintext lib token ''portal_idempotency_response'' settings
             ''Portal idempotency response could not be decrypted'')"

definition encrypt_provider_connection_secret ::
    "crypto \<Rightarrow> encryption_settings \<Rightarrow> string \<Rightarrow> (secret_error, string) outcome" where
  "encrypt_provider_connection_secret lib settings secret =
     (if secret = [] then Return []
      else encrypt_service_secret_plaintext lib (utf8_encode secret) ''provider_connection_secret'' settings
             ''provider connection secret is not configured'')"

definition decrypt_provider_connection_secret ::
    "crypto \<Rightarrow> encryption_settings \<Rightarrow> string option \<Rightarrow> (secret_error, string) outcome" where
  "decrypt_provider_connection_secret lib settings ciphertext =
     (let token = or_empty ciphertext in
      if py_strip token = [] then Return []
      else and_then (decrypt_service_secret_plaintext lib token ''provider_connection_secret'' settings
                       ''provider connection secret is not configured''
                       ''provider connection secret could not be decrypted'') decode_text)"

definition encrypt_service_setting_secret ::
    "crypto \<Rightarrow> encryption_settings \<Rightarrow> string \<Rightarrow> (secret_error, string) outcome" where
  "encrypt_service_setting_secret lib settings secret =
     (if secret = [] then Return []
      else encrypt_service_secret_plaintext lib (utf8_encode secret) ''service_setting_secret'' settings
             ''service setting secret is not configured'')"

definition decrypt_service_setting_secret ::
    "crypto \<Rightarrow> encryption_settings \<Rightarrow> string option \<Rightarrow> (secret_error, string) outcome" where
  "decrypt_service_setting_secret lib settings ciphertext =
     (let token = or_empty ciphertext in
      if py_strip token = [] then Return []
      else and_then (decrypt_service_secret_plaintext lib token ''service_setting_secret'' settings
                       ''service setting secret is not configured''
                       ''service setting secret could not be decrypted'') decode_text)"

definition PORTAL_TOTP_SEED_PURPOSE :: string where
  "PORTAL_TOTP_SEED_PURPOSE = ''portal_totp_seed''"

definition encrypt_portal_totp_seed ::
    "crypto \<Rightarrow> encryption_settings \<Rightarrow> bytes \<Rightarrow> (secret_error, string) outcome" where
  "encrypt_portal_totp_seed lib settings seed =
     (if seed = [] then Raise (RuntimeError ''Portal TOTP seed is missing'')
      else encrypt_runtime_data_plaintext lib seed PORTAL_TOTP_SEED_PURPOSE settings)"

definition decrypt_portal_totp_seed ::
    "crypto \<Rightarrow> encryption_settings \<Rightarrow> string option \<Rightarrow> (secret_error, bytes) outcome" where
  "decrypt_portal_totp_seed lib settings ciphertext =
     (let unavailable = ''Portal TOTP seed is unavailable'' in
      if or_empty ciphertext = [] then Raise (RuntimeError unavailable)
      else and_then (decrypt_runtime_data_plaintext lib (or_empty ciphertext) PORTAL_TOTP_SEED_PURPOSE settings
                       unavailable)
             (\<lambda>seed. if seed = [] then Raise (RuntimeError unavailable) else Return seed))"

subsection \<open>Lemmas\<close>

lemma token_char_facts: "is_token_char c \<Longrightarrow> c \<noteq> CHR ''.'' \<and> \<not> py_space c"
  by (auto simp: is_token_char_def is_alnum_def is_lower_def is_digit_def py_space_def Let_def)

lemma key_id_chars: "ENVELOPE_KEY_ID_PATTERN s \<Longrightarrow> c \<in> set s \<Longrightarrow> is_token_char c"
  by (auto simp: ENVELOPE_KEY_ID_PATTERN_def list_all_iff)

lemma py_split_max_last: "py_split_max sep 0 s = [s]"
  by simp

lemma parse_envelope_envelope:
  assumes fam: "\<forall>c\<in>set family. is_token_char c" and ver: "\<forall>c\<in>set version. is_token_char c"
    and key: "ENVELOPE_KEY_ID_PATTERN key_id" and tok: "token \<noteq> []" "\<forall>c\<in>set token. \<not> py_space c"
  shows "parse_envelope (envelope family version key_id token) family version = Some (key_id, token)"
proof -
  have dot: "CHR ''.'' \<notin> set family" "CHR ''.'' \<notin> set version" "CHR ''.'' \<notin> set key_id"
    using fam ver key_id_chars [OF key] token_char_facts by blast+
  have "\<not> py_space CHR ''.''" by (simp add: py_space_def)
  then have strip: "py_strip (envelope family version key_id token) = envelope family version key_id token"
    using fam ver key_id_chars [OF key] token_char_facts tok(2)
    by (intro py_strip_no_space) (auto simp: envelope_def)
  have "py_split_max CHR ''.'' 3 (envelope family version key_id token) = [family, version, key_id, token]"
    unfolding envelope_def numeral_3_eq_3
    by (simp only: append_Cons append_Nil py_split_max_append [OF dot(1)]
        py_split_max_append [OF dot(2)] py_split_max_append [OF dot(3)] py_split_max_last)
  with strip key tok(1) show ?thesis by (simp add: parse_envelope_def)
qed

lemma rde_chars:
  "\<forall>c\<in>set RUNTIME_DATA_ENVELOPE_FAMILY. is_token_char c"
  "\<forall>c\<in>set RUNTIME_DATA_ENVELOPE_VERSION. is_token_char c"
  by (simp_all add: RUNTIME_DATA_ENVELOPE_FAMILY_def RUNTIME_DATA_ENVELOPE_VERSION_def
      is_token_char_def is_alnum_def is_lower_def is_digit_def Let_def)

lemma sse_chars:
  "\<forall>c\<in>set SERVICE_SECRET_ENVELOPE_FAMILY. is_token_char c"
  "\<forall>c\<in>set SERVICE_SECRET_ENVELOPE_VERSION. is_token_char c"
  by (simp_all add: SERVICE_SECRET_ENVELOPE_FAMILY_def SERVICE_SECRET_ENVELOPE_VERSION_def
      is_token_char_def is_alnum_def is_lower_def is_digit_def Let_def)

lemma resolve_key_id_pattern:
  "resolve_encryption_key_id raw m i = Return key_id \<Longrightarrow> ENVELOPE_KEY_ID_PATTERN key_id"
  by (auto simp: resolve_encryption_key_id_def Let_def split: if_splits)

lemma build_fernet_b64:
  "build_fernet lib secret family version purpose key_id name = Return k \<Longrightarrow>
     \<exists>key. k = b64_encode key \<and> derive_fernet_key lib secret family version purpose key_id name = Return key"
  by (auto simp: build_fernet_def and_then_Return)

lemma fernet_documentedD:
  assumes "fernet_documented lib" and "k = b64_encode key" and "length key = 32"
  shows "fernet_encrypt lib k p \<noteq> []" "\<forall>c\<in>set (fernet_encrypt lib k p). \<not> py_space c"
    "fernet_decrypt lib k (utf8_encode (fernet_encrypt lib k p)) = Some p"
  using assms unfolding fernet_documented_def Let_def by blast+

text \<open>The keys the service derives have the length Fernet asks for.\<close>

lemma derived_key_length:
  assumes "fernet_documented lib"
    and "derive_fernet_key lib secret family version purpose key_id name = Return key"
  shows "length key = 32"
  using assms by (auto simp: derive_fernet_key_def and_then_Return fernet_documented_def)

lemma built_fernet_documented:
  assumes lib: "fernet_documented lib"
    and fernet: "build_fernet lib secret family version purpose key_id name = Return k"
  shows "fernet_encrypt lib k p \<noteq> []" "\<forall>c\<in>set (fernet_encrypt lib k p). \<not> py_space c"
    "fernet_decrypt lib k (utf8_encode (fernet_encrypt lib k p)) = Some p"
proof -
  obtain key where key: "k = b64_encode key" "derive_fernet_key lib secret family version purpose key_id name = Return key"
    using build_fernet_b64 [OF fernet] by blast
  note doc = fernet_documentedD [OF lib key(1) derived_key_length [OF lib key(2)]]
  show "fernet_encrypt lib k p \<noteq> []" "\<forall>c\<in>set (fernet_encrypt lib k p). \<not> py_space c"
    "fernet_decrypt lib k (utf8_encode (fernet_encrypt lib k p)) = Some p" by (fact doc)+
qed

lemma runtime_data_roundtrip:
  assumes lib: "fernet_documented lib"
    and enc: "encrypt_runtime_data_plaintext lib p purpose settings = Return token"
  shows "decrypt_runtime_data_plaintext lib token purpose settings msg = Return p"
proof -
  from enc obtain secret key_id k where parts:
      "resolve_runtime_data_encryption_secret settings = Return secret"
      "resolve_runtime_data_encryption_key_id settings = Return key_id"
      "build_fernet lib secret RUNTIME_DATA_ENVELOPE_FAMILY RUNTIME_DATA_ENVELOPE_VERSION purpose key_id
         ''runtime data encryption secret'' = Return k"
      "token = envelope RUNTIME_DATA_ENVELOPE_FAMILY RUNTIME_DATA_ENVELOPE_VERSION key_id (fernet_encrypt lib k p)"
    unfolding encrypt_runtime_data_plaintext_def by (auto simp: and_then_Return)
  note doc = built_fernet_documented [OF lib parts(3), of p]
  have "ENVELOPE_KEY_ID_PATTERN key_id"
    using parts(2) unfolding resolve_runtime_data_encryption_key_id_def by (rule resolve_key_id_pattern)
  note parse = parse_envelope_envelope [OF rde_chars this doc(1,2)]
  show ?thesis
    unfolding decrypt_runtime_data_plaintext_def
    by (simp add: parts parse doc(3))
qed

lemma service_secret_roundtrip:
  assumes lib: "fernet_documented lib"
    and enc: "encrypt_service_secret_plaintext lib p purpose settings missing = Return token"
  shows "decrypt_service_secret_plaintext lib token purpose settings missing msg = Return p"
proof -
  from enc obtain secret key_id k where parts:
      "resolve_encryption_root [es_service_settings_secret settings] missing
         ''service settings encryption secret'' = Return secret"
      "resolve_service_settings_encryption_key_id settings = Return key_id"
      "build_fernet lib secret SERVICE_SECRET_ENVELOPE_FAMILY SERVICE_SECRET_ENVELOPE_VERSION purpose key_id
         ''service settings encryption secret'' = Return k"
      "token = envelope SERVICE_SECRET_ENVELOPE_FAMILY SERVICE_SECRET_ENVELOPE_VERSION key_id (fernet_encrypt lib k p)"
    unfolding encrypt_service_secret_plaintext_def by (auto simp: and_then_Return)
  note doc = built_fernet_documented [OF lib parts(3), of p]
  have "ENVELOPE_KEY_ID_PATTERN key_id"
    using parts(2) unfolding resolve_service_settings_encryption_key_id_def by (rule resolve_key_id_pattern)
  note parse = parse_envelope_envelope [OF sse_chars this doc(1,2)]
  show ?thesis
    unfolding decrypt_service_secret_plaintext_def
    by (simp add: parts parse doc(3))
qed

subsection \<open>The derivation separates purposes\<close>

lemma append_sep_inject:
  assumes "x \<notin> set xs" "x \<notin> set xs'"
  shows "xs @ x # ys = xs' @ x # ys' \<longleftrightarrow> xs = xs' \<and> ys = ys'"
proof
  assume eq: "xs @ x # ys = xs' @ x # ys'"
  have tw: "takeWhile (\<lambda>z. z \<noteq> x) (zs @ x # us) = zs" if "x \<notin> set zs" for zs us
    using that by (induction zs) auto
  from eq have "xs = xs'" using tw [OF assms(1), of ys] tw [OF assms(2), of ys'] by simp
  with eq show "xs = xs' \<and> ys = ys'" by simp
qed simp

lemma utf8_encode_append: "utf8_encode (s @ t) = utf8_encode s @ utf8_encode t"
  by (simp add: utf8_encode_def)

lemma utf8_encode_inject: "utf8_encode s = utf8_encode t \<longleftrightarrow> s = t"
  by (metis option.inject utf8_decode_encode)

lemma utf8_no_zero:
  assumes "\<forall>c\<in>set s. (of_char c :: nat) \<noteq> 0 \<and> (of_char c :: nat) < 128"
  shows "0 \<notin> set (utf8_encode s)"
proof
  assume "0 \<in> set (utf8_encode s)"
  then obtain c where c: "c \<in> set s" "0 \<in> set (utf8_char c)" by (auto simp: utf8_encode_def)
  with assms have n: "(of_char c :: nat) \<noteq> 0" "(of_char c :: nat) < 128" by auto
  then have "utf8_char c = [of_nat (of_char c)]" by (simp add: utf8_char_def)
  with c(2) have "of_nat (of_char c) = (0 :: byte)" by auto
  then have "unat (of_nat (of_char c) :: byte) = 0" by simp
  with n unat_byte [of "of_char c"] show False by simp
qed

lemma token_char_ascii: "is_token_char c \<Longrightarrow> (of_char c :: nat) \<noteq> 0 \<and> (of_char c :: nat) < 128"
  by (auto simp: is_token_char_def is_alnum_def is_lower_def is_digit_def Let_def)

definition kdf_component :: "string \<Rightarrow> bool" where
  "kdf_component s \<longleftrightarrow> list_all is_token_char s"

lemma kdf_patterns:
  "ENVELOPE_FAMILY_PATTERN s \<Longrightarrow> kdf_component s"
  "ENCRYPTION_PURPOSE_PATTERN s \<Longrightarrow> kdf_component s"
  "ENVELOPE_KEY_ID_PATTERN s \<Longrightarrow> kdf_component s"
  "ENVELOPE_VERSION_PATTERN s \<Longrightarrow> kdf_component s"
proof -
  assume "ENVELOPE_FAMILY_PATTERN s"
  then show "kdf_component s"
    by (cases s) (auto simp: ENVELOPE_FAMILY_PATTERN_def kdf_component_def is_token_char_def is_alnum_def list_all_iff)
next
  assume "ENCRYPTION_PURPOSE_PATTERN s"
  then show "kdf_component s"
    by (cases s) (auto simp: ENCRYPTION_PURPOSE_PATTERN_def kdf_component_def is_token_char_def)
next
  assume "ENVELOPE_KEY_ID_PATTERN s"
  then show "kdf_component s" by (simp add: ENVELOPE_KEY_ID_PATTERN_def kdf_component_def)
next
  assume v: "ENVELOPE_VERSION_PATTERN s"
  then obtain a b t where s: "s = a # b # t"
    by (cases s; cases "tl s") (auto simp: ENVELOPE_VERSION_PATTERN_def)
  with v show "kdf_component s"
    by (auto simp: ENVELOPE_VERSION_PATTERN_def kdf_component_def is_token_char_def is_alnum_def
        is_lower_def list_all_iff Let_def)
qed

lemma kdf_no_zero:
  assumes "kdf_component s" and "prefix \<in> {''family='', ''version='', ''purpose='', ''key_id=''}"
  shows "0 \<notin> set (utf8_encode (prefix @ s))"
proof (rule utf8_no_zero, rule ballI)
  fix c assume "c \<in> set (prefix @ s)"
  then have "c \<in> set prefix \<or> is_token_char c" using assms(1) by (auto simp: kdf_component_def list_all_iff)
  then show "(of_char c :: nat) \<noteq> 0 \<and> (of_char c :: nat) < 128"
    using assms(2) token_char_ascii by auto
qed

lemma kdf_info_inject:
  assumes "kdf_component f" "kdf_component v" "kdf_component p" "kdf_component k"
    and "kdf_component f'" "kdf_component v'" "kdf_component p'" "kdf_component k'"
  shows "kdf_info f v p k = kdf_info f' v' p' k' \<longleftrightarrow> f = f' \<and> v = v' \<and> p = p' \<and> k = k'"
proof -
  have z: "0 \<notin> set (utf8_encode (''family='' @ f))" "0 \<notin> set (utf8_encode (''family='' @ f'))"
    "0 \<notin> set (utf8_encode (''version='' @ v))" "0 \<notin> set (utf8_encode (''version='' @ v'))"
    "0 \<notin> set (utf8_encode (''purpose='' @ p))" "0 \<notin> set (utf8_encode (''purpose='' @ p'))"
    using assms by (simp_all only: kdf_no_zero insert_iff simp_thms)
  have one: "[0] @ ys = 0 # ys" for ys :: bytes by simp
  show ?thesis
    unfolding kdf_info_def one same_append_eq list.inject
    by (simp only: append_sep_inject [OF z(1,2)] append_sep_inject [OF z(3,4)] append_sep_inject [OF z(5,6)]
        utf8_encode_inject same_append_eq simp_thms)
qed

lemma derive_fernet_key_Return:
  "derive_fernet_key lib secret f v p k name = Return key \<longleftrightarrow>
     (\<exists>rt. decode_encryption_root secret name = Return rt \<and> key = hkdf_sha256 lib KDF_SALT (kdf_info f v p k) rt)
     \<and> ENVELOPE_FAMILY_PATTERN f \<and> f = py_strip f \<and> ENVELOPE_VERSION_PATTERN v \<and> v = py_strip v
     \<and> ENCRYPTION_PURPOSE_PATTERN p \<and> p = py_strip p \<and> ENVELOPE_KEY_ID_PATTERN k \<and> k = py_strip k"
  unfolding derive_fernet_key_def and_then_Return validate_kdf_component_def by auto

text \<open>
  Keys derived from one root with different purposes, versions, families or key ids have different
  derivation inputs.
\<close>

lemma derived_infos_differ:
  assumes "derive_fernet_key lib secret f v p k name = Return key"
    and "derive_fernet_key lib secret f' v' p' k' name = Return key'"
    and "(f, v, p, k) \<noteq> (f', v', p', k')"
  shows "kdf_info f v p k \<noteq> kdf_info f' v' p' k'"
  using assms kdf_info_inject [of f v p k f' v' p' k'] kdf_patterns
  by (auto simp: derive_fernet_key_Return)

subsection \<open>Canonical roots\<close>

lemma b64_char_token: "i < 64 \<Longrightarrow> is_token_char (b64_char i)"
proof -
  assume i: "i < 64"
  have "char_of (45::nat) = CHR ''-''" "char_of (95::nat) = CHR ''_''" by code_simp+
  then have special: "i = 62 \<or> i = 63 \<Longrightarrow> is_token_char (b64_char i)"
    by (auto simp: b64_char_def is_token_char_def)
  from i consider "i < 62" | "i = 62 \<or> i = 63" by linarith
  then show "is_token_char (b64_char i)"
  proof cases
    case 1
    then show ?thesis
      by (auto simp: b64_char_def is_token_char_def is_alnum_def is_lower_def is_digit_def Let_def of_char_of)
  qed (rule special)
qed

lemma b64_encode_chars: "c \<in> set (b64_encode bs) \<Longrightarrow> is_token_char c \<or> c = CHR ''=''"
proof (induction bs rule: b64_encode.induct)
  case (2 x)
  then show ?case using b64_group(1,2) [of x] b64_char_token by auto
next
  case (3 x y)
  then show ?case using b64_group(1) [of x] b64_group(3) [of x y] b64_group(4) [of y] b64_char_token by auto
next
  case (4 x y z rest)
  then show ?case
    using b64_group(1) [of x] b64_group(3) [of x y] b64_group(5) [of y z] b64_group(6) [of z] b64_char_token by auto
qed simp

lemma b64_encode_one_pad:
  "length bs mod 3 = 2 \<Longrightarrow> \<exists>body. b64_encode bs = body @ ''='' \<and> (\<forall>c\<in>set body. is_token_char c)"
proof (induction bs rule: b64_encode.induct)
  case (3 x y)
  have "\<forall>c\<in>set (butlast (b64_encode [x, y])). is_token_char c"
    using b64_group(1) [of x] b64_group(3) [of x y] b64_group(4) [of y] by (simp add: b64_char_token)
  moreover have "b64_encode [x, y] = butlast (b64_encode [x, y]) @ ''=''" by simp
  ultimately show ?case by blast
next
  case (4 x y z rest)
  have "length (x # y # z # rest) mod 3 = length rest mod 3" by simp
  with 4 obtain body where body: "b64_encode rest = body @ ''=''" "\<forall>c\<in>set body. is_token_char c" by auto
  let ?group = "[b64_char (unat x div 4), b64_char (unat x mod 4 * 16 + unat y div 16),
    b64_char (unat y mod 16 * 4 + unat z div 64), b64_char (unat z mod 64)]"
  have "\<forall>c\<in>set ?group. is_token_char c"
    using b64_group(1) [of x] b64_group(3) [of x y] b64_group(5) [of y z] b64_group(6) [of z]
    by (simp add: b64_char_token)
  moreover have "b64_encode (x # y # z # rest) = (?group @ body) @ ''=''" using body by simp
  moreover have "\<forall>c\<in>set (?group @ body). is_token_char c"
    using calculation(1) body(2) unfolding set_append ball_Un by (rule conjI)
  ultimately show ?case by blast
qed simp_all

lemma b64_encode_inject: "b64_encode a = b64_encode b \<longleftrightarrow> a = b"
  by (metis b64_decode_encode option.inject)

lemma canonical_root_pattern:
  assumes "length bs = 32"
  shows "CANONICAL_32_BYTE_ROOT_PATTERN (b64_encode bs)" "py_strip (b64_encode bs) = b64_encode bs"
proof -
  from assms have "length bs mod 3 = 2" by simp
  from b64_encode_one_pad [OF this] obtain body where
    body: "b64_encode bs = body @ ''=''" "\<forall>c\<in>set body. is_token_char c" by blast
  moreover have "length (b64_encode bs) = 44" using assms by (simp add: length_b64_encode)
  ultimately show "CANONICAL_32_BYTE_ROOT_PATTERN (b64_encode bs)"
    by (simp add: CANONICAL_32_BYTE_ROOT_PATTERN_def list_all_iff nth_append)
  have "\<not> py_space CHR ''=''" by (simp add: py_space_def)
  with b64_encode_chars token_char_facts show "py_strip (b64_encode bs) = b64_encode bs"
    by (intro py_strip_no_space) blast
qed

lemma decode_root_iff:
  "decode_encryption_root root_secret root_name = Return decoded \<longleftrightarrow>
     length decoded = 32 \<and> root_secret = b64_encode decoded"
proof
  assume "decode_encryption_root root_secret root_name = Return decoded"
  then show "length decoded = 32 \<and> root_secret = b64_encode decoded"
    by (auto simp: decode_encryption_root_def Let_def split: if_splits option.splits)
next
  assume "length decoded = 32 \<and> root_secret = b64_encode decoded"
  with canonical_root_pattern [of decoded]
  show "decode_encryption_root root_secret root_name = Return decoded"
    by (simp add: decode_encryption_root_def b64_decode_encode)
qed

lemma strip_nonblank: "s \<noteq> [] \<Longrightarrow> \<not> py_space (hd s) \<Longrightarrow> py_strip s \<noteq> []"
  by (cases s) (auto simp: py_strip_def)

lemma envelope_not_blank:
  "py_strip (envelope RUNTIME_DATA_ENVELOPE_FAMILY v k t) \<noteq> []"
  "py_strip (envelope SERVICE_SECRET_ENVELOPE_FAMILY v k t) \<noteq> []"
  by (rule strip_nonblank; simp add: envelope_def RUNTIME_DATA_ENVELOPE_FAMILY_def
        SERVICE_SECRET_ENVELOPE_FAMILY_def py_space_def)+

lemma runtime_token_not_blank:
  "encrypt_runtime_data_plaintext lib p purpose settings = Return token \<Longrightarrow> py_strip token \<noteq> []"
  using envelope_not_blank(1) by (auto simp: encrypt_runtime_data_plaintext_def and_then_Return)

lemma runtime_token_strip:
  assumes lib: "fernet_documented lib"
    and enc: "encrypt_runtime_data_plaintext lib p purpose settings = Return token"
  shows "py_strip token = token"
proof -
  from enc obtain secret key_id k where parts:
      "resolve_runtime_data_encryption_key_id settings = Return key_id"
      "build_fernet lib secret RUNTIME_DATA_ENVELOPE_FAMILY RUNTIME_DATA_ENVELOPE_VERSION purpose key_id
         ''runtime data encryption secret'' = Return k"
      "token = envelope RUNTIME_DATA_ENVELOPE_FAMILY RUNTIME_DATA_ENVELOPE_VERSION key_id (fernet_encrypt lib k p)"
    unfolding encrypt_runtime_data_plaintext_def by (auto simp: and_then_Return)
  note doc = built_fernet_documented [OF lib parts(2), of p]
  have "ENVELOPE_KEY_ID_PATTERN key_id"
    using parts(1) unfolding resolve_runtime_data_encryption_key_id_def by (rule resolve_key_id_pattern)
  then have id: "\<not> py_space c" if "c \<in> set key_id" for c using key_id_chars token_char_facts that by blast
  have "\<not> py_space c" if "c \<in> set token" for c
    using that id doc(2)
    by (auto simp: parts(3) envelope_def RUNTIME_DATA_ENVELOPE_FAMILY_def RUNTIME_DATA_ENVELOPE_VERSION_def py_space_def)
  then show ?thesis by (intro py_strip_no_space) blast
qed

lemma service_token_not_blank:
  "encrypt_service_secret_plaintext lib p purpose settings missing = Return token \<Longrightarrow> py_strip token \<noteq> []"
  using envelope_not_blank(2) by (auto simp: encrypt_service_secret_plaintext_def and_then_Return)

lemma decode_text_encode [simp]: "decode_text (utf8_encode s) = Return s"
  by (simp add: decode_text_def utf8_decode_encode)

text \<open>A small stand-in for the crypto package that binds a token to its key, for the examples: the
  token is the key, a colon and the Base64 text of the plaintext; the derivation returns its info.\<close>

definition demo_crypto :: crypto where
  "demo_crypto =
     \<lparr>hkdf_sha256 = (\<lambda>salt info root. take 32 (drop 73 info @ replicate 32 0)),
      fernet_encrypt = (\<lambda>key plaintext. key @ '':'' @ b64_encode plaintext),
      fernet_decrypt = (\<lambda>key token. case utf8_decode token of
         None \<Rightarrow> None
       | Some text \<Rightarrow> if takeWhile (\<lambda>c. c \<noteq> CHR '':'') text = key
                     then b64_decode (tl (dropWhile (\<lambda>c. c \<noteq> CHR '':'') text)) else None)\<rparr>"

definition demo_settings :: encryption_settings where
  "demo_settings =
     \<lparr>es_runtime_data_encryption_secret = Some (b64_encode (replicate 32 7)),
      es_runtime_data_encryption_key_id = Some ''k1'',
      es_service_settings_secret = Some (b64_encode (replicate 32 9)),
      es_service_settings_encryption_key_id = Some ''k2''\<rparr>"

lemma no_colon: "CHR '':'' \<notin> set (b64_encode key)"
  using b64_encode_chars [of "CHR '':''" key]
  by (auto simp: is_token_char_def is_alnum_def is_lower_def is_digit_def Let_def)

lemma demo_decrypt:
  "fernet_decrypt demo_crypto (b64_encode key') (utf8_encode (fernet_encrypt demo_crypto (b64_encode key) p)) =
     (if key = key' then Some p else None)"
  by (simp add: demo_crypto_def utf8_decode_encode takeWhile_sep [OF no_colon] dropWhile_sep [OF no_colon]
      b64_decode_encode b64_encode_inject)

lemma demo_documented_with:
  assumes "\<And>salt info root. length (h salt info root) = 32"
  shows "fernet_documented (demo_crypto\<lparr>hkdf_sha256 := h\<rparr>)"
proof -
  have "\<not> py_space c" if "c \<in> set (fernet_encrypt demo_crypto (b64_encode key) p)" for c key p
  proof -
    have "\<not> py_space CHR '':''" "\<not> py_space CHR ''=''" by (simp_all add: py_space_def)
    with that show ?thesis
      using b64_encode_chars [of c key] b64_encode_chars [of c p] token_char_facts [of c]
      by (auto simp: demo_crypto_def)
  qed
  moreover have "fernet_encrypt demo_crypto (b64_encode key) p \<noteq> []" for key p
    by (simp add: demo_crypto_def)
  ultimately show ?thesis using assms by (simp add: fernet_documented_def Let_def demo_decrypt)
qed

lemma demo_documented: "fernet_documented demo_crypto"
proof -
  have "demo_crypto\<lparr>hkdf_sha256 := hkdf_sha256 demo_crypto\<rparr> = demo_crypto" by simp
  moreover have "fernet_documented (demo_crypto\<lparr>hkdf_sha256 := hkdf_sha256 demo_crypto\<rparr>)"
    by (rule demo_documented_with) (simp add: demo_crypto_def)
  ultimately show ?thesis by simp
qed

lemma blank_text: "py_strip [] = []"
  by (simp add: py_strip_def)

lemma text_secret_roundtrips:
  assumes lib: "fernet_documented lib"
  shows "encrypt_runtime_terminal_callback_secret lib settings secret = Return token \<Longrightarrow>
      decrypt_runtime_terminal_callback_secret lib settings (Some token) = Return secret"
    and "encrypt_site_api_signing_secret lib settings secret = Return token \<Longrightarrow>
      decrypt_site_api_signing_secret lib settings (Some token) = Return secret"
    and "encrypt_provider_connection_secret lib settings secret = Return token \<Longrightarrow>
      decrypt_provider_connection_secret lib settings (Some token) = Return secret"
    and "encrypt_service_setting_secret lib settings secret = Return token \<Longrightarrow>
      decrypt_service_setting_secret lib settings (Some token) = Return secret"
  using runtime_data_roundtrip [OF lib] service_secret_roundtrip [OF lib] runtime_token_not_blank service_token_not_blank
  by (auto simp: encrypt_runtime_terminal_callback_secret_def decrypt_runtime_terminal_callback_secret_def
      encrypt_site_api_signing_secret_def decrypt_site_api_signing_secret_def
      encrypt_provider_connection_secret_def decrypt_provider_connection_secret_def
      encrypt_service_setting_secret_def decrypt_service_setting_secret_def blank_text Let_def split: if_splits)

lemma payload_roundtrips:
  assumes lib: "fernet_documented lib" and json: "json_loads (json_dumps (JObj payload)) = Some (JObj payload')"
  shows "encrypt_addon_connection_payload lib settings payload = Return token \<Longrightarrow>
      decrypt_addon_connection_payload lib json_loads settings (Some token) = Return payload'"
    and "encrypt_runtime_execution_input lib settings payload = Return token \<Longrightarrow>
      decrypt_runtime_execution_input lib json_loads settings (Some token) = Return payload'"
  using json runtime_data_roundtrip [OF lib, of "utf8_encode (json_dumps (JObj payload))"] runtime_token_not_blank
  unfolding encrypt_addon_connection_payload_def encrypt_runtime_execution_input_def
  by (simp_all add: decrypt_addon_connection_payload_def decrypt_runtime_execution_input_def or_empty_def
      decode_text_def utf8_decode_encode as_dict_def Let_def del: json_text.simps)

lemma totp_seed_roundtrip:
  "fernet_documented lib \<Longrightarrow> encrypt_portal_totp_seed lib settings seed = Return token \<Longrightarrow>
     decrypt_portal_totp_seed lib settings (Some token) = Return seed"
  using runtime_data_roundtrip runtime_token_not_blank
  by (fastforce simp: encrypt_portal_totp_seed_def decrypt_portal_totp_seed_def py_strip_def Let_def
      split: if_splits)

lemma idempotency_response_roundtrip:
  "fernet_documented lib \<Longrightarrow> encrypt_portal_idempotency_response lib settings body = Return token \<Longrightarrow>
     decrypt_portal_idempotency_response lib settings (Some token) = Return body"
  using runtime_data_roundtrip runtime_token_not_blank
  by (fastforce simp: encrypt_portal_idempotency_response_def decrypt_portal_idempotency_response_def Let_def)

lemma demo_root: "decode_encryption_root (b64_encode (replicate 32 b)) name = Return (replicate 32 b)"
  by (simp add: decode_root_iff)

lemma demo_root_nonblank: "py_strip (b64_encode (replicate 32 b)) \<noteq> []"
proof -
  have "length (b64_encode (replicate 32 b)) = 44" by (simp add: length_b64_encode)
  then show ?thesis using canonical_root_pattern(2) [of "replicate 32 b"] by (metis length_replicate list.size(3) zero_neq_numeral)
qed

lemma token_text_strip: "list_all is_token_char s \<Longrightarrow> py_strip s = s"
  by (intro py_strip_no_space) (auto simp: list_all_iff dest: token_char_facts)

lemma pattern_strip:
  "ENVELOPE_FAMILY_PATTERN s \<or> ENCRYPTION_PURPOSE_PATTERN s \<or> ENVELOPE_KEY_ID_PATTERN s
     \<or> ENVELOPE_VERSION_PATTERN s \<Longrightarrow> py_strip s = s"
  using kdf_patterns token_text_strip by (auto simp: kdf_component_def)

lemma rde_patterns:
  "ENVELOPE_FAMILY_PATTERN RUNTIME_DATA_ENVELOPE_FAMILY" "ENVELOPE_VERSION_PATTERN RUNTIME_DATA_ENVELOPE_VERSION"
  "ENVELOPE_FAMILY_PATTERN SERVICE_SECRET_ENVELOPE_FAMILY" "ENVELOPE_VERSION_PATTERN SERVICE_SECRET_ENVELOPE_VERSION"
  by (simp_all add: ENVELOPE_FAMILY_PATTERN_def ENVELOPE_VERSION_PATTERN_def RUNTIME_DATA_ENVELOPE_FAMILY_def
      RUNTIME_DATA_ENVELOPE_VERSION_def SERVICE_SECRET_ENVELOPE_FAMILY_def SERVICE_SECRET_ENVELOPE_VERSION_def
      is_lower_def is_digit_def Let_def)

lemma demo_encrypts:
  assumes "ENCRYPTION_PURPOSE_PATTERN purpose"
  shows "\<exists>token. encrypt_runtime_data_plaintext lib p purpose demo_settings = Return token"
    "\<exists>token. encrypt_service_secret_plaintext lib p purpose demo_settings missing = Return token"
proof -
  have key: "ENVELOPE_KEY_ID_PATTERN ''k1''" "ENVELOPE_KEY_ID_PATTERN ''k2''"
    by (simp_all add: ENVELOPE_KEY_ID_PATTERN_def is_token_char_def is_alnum_def is_lower_def is_digit_def)
  have root: "resolve_encryption_root [Some (b64_encode (replicate 32 b))] m n
      = Return (b64_encode (replicate 32 b))" for b m n
    by (simp add: resolve_encryption_root_def demo_root demo_root_nonblank)
  note all = rde_patterns assms key
  have fernet: "\<exists>k. build_fernet lib (b64_encode (replicate 32 b)) f v purpose k' n = Return k"
    if "ENVELOPE_FAMILY_PATTERN f" "ENVELOPE_VERSION_PATTERN v" "ENVELOPE_KEY_ID_PATTERN k'" for b f v k' n
    using that assms pattern_strip
    by (simp add: build_fernet_def derive_fernet_key_def demo_root validate_kdf_component_def)
  show "\<exists>token. encrypt_runtime_data_plaintext lib p purpose demo_settings = Return token"
    using fernet [OF all(1,2) key(1), of 7 "''runtime data encryption secret''"] all pattern_strip
    by (elim exE) (auto simp: encrypt_runtime_data_plaintext_def resolve_runtime_data_encryption_secret_def
        resolve_runtime_data_encryption_key_id_def resolve_encryption_key_id_def demo_settings_def root)
  show "\<exists>token. encrypt_service_secret_plaintext lib p purpose demo_settings missing = Return token"
    using fernet [OF all(3,4) key(2), of 9 "''service settings encryption secret''"] all pattern_strip
    by (elim exE) (auto simp: encrypt_service_secret_plaintext_def
        resolve_service_settings_encryption_key_id_def resolve_encryption_key_id_def demo_settings_def root)
qed

lemma stored_purposes:
  "ENCRYPTION_PURPOSE_PATTERN ''runtime_terminal_callback_secret''"
  "ENCRYPTION_PURPOSE_PATTERN ''provider_connection_secret''"
  "ENCRYPTION_PURPOSE_PATTERN PORTAL_TOTP_SEED_PURPOSE"
  "ENCRYPTION_PURPOSE_PATTERN ''portal_idempotency_response''"
  "ENCRYPTION_PURPOSE_PATTERN ''site_api_key_signing_secret''"
  "ENCRYPTION_PURPOSE_PATTERN ''wordpress_addon_connection_payload''"
  "ENCRYPTION_PURPOSE_PATTERN ''runtime_execution_input''"
  "ENCRYPTION_PURPOSE_PATTERN ''service_setting_secret''"
  by (simp_all add: ENCRYPTION_PURPOSE_PATTERN_def PORTAL_TOTP_SEED_PURPOSE_def is_token_char_def
      is_alnum_def is_lower_def Let_def)

lemma purpose_mismatch_rejected:
  assumes enc: "encrypt_runtime_data_plaintext lib plaintext purpose settings = Return token"
    and lib: "fernet_documented lib"
    and purpose': "ENCRYPTION_PURPOSE_PATTERN purpose'" "purpose' \<noteq> purpose"
    and kdf: "\<And>key_id key.
      kdf_info RUNTIME_DATA_ENVELOPE_FAMILY RUNTIME_DATA_ENVELOPE_VERSION purpose key_id
        \<noteq> kdf_info RUNTIME_DATA_ENVELOPE_FAMILY RUNTIME_DATA_ENVELOPE_VERSION purpose' key_id \<Longrightarrow>
      hkdf_sha256 lib KDF_SALT (kdf_info RUNTIME_DATA_ENVELOPE_FAMILY RUNTIME_DATA_ENVELOPE_VERSION purpose key_id) key
        \<noteq> hkdf_sha256 lib KDF_SALT (kdf_info RUNTIME_DATA_ENVELOPE_FAMILY RUNTIME_DATA_ENVELOPE_VERSION purpose' key_id) key"
    and wrong_key: "\<And>k k'. k \<noteq> k' \<Longrightarrow>
      fernet_decrypt lib (b64_encode k') (utf8_encode (fernet_encrypt lib (b64_encode k) plaintext)) = None"
  shows "decrypt_runtime_data_plaintext lib token purpose' settings msg = Raise (RuntimeError msg)"
proof -
  let ?f = RUNTIME_DATA_ENVELOPE_FAMILY and ?v = RUNTIME_DATA_ENVELOPE_VERSION
    and ?n = "''runtime data encryption secret''"
  from enc obtain secret key_id k where parts:
      "resolve_runtime_data_encryption_secret settings = Return secret"
      "resolve_runtime_data_encryption_key_id settings = Return key_id"
      "build_fernet lib secret ?f ?v purpose key_id ?n = Return k"
      "token = envelope ?f ?v key_id (fernet_encrypt lib k plaintext)"
    unfolding encrypt_runtime_data_plaintext_def by (auto simp: and_then_Return)
  from build_fernet_b64 [OF parts(3)] obtain key where
    key: "k = b64_encode key" "derive_fernet_key lib secret ?f ?v purpose key_id ?n = Return key" by blast
  have pattern: "ENVELOPE_KEY_ID_PATTERN key_id"
    using parts(2) unfolding resolve_runtime_data_encryption_key_id_def by (rule resolve_key_id_pattern)
  note parse = parse_envelope_envelope [OF rde_chars pattern built_fernet_documented(1,2) [OF lib parts(3), of plaintext]]
  from key(2) obtain rt where rt: "decode_encryption_root secret ?n = Return rt"
      "key = hkdf_sha256 lib KDF_SALT (kdf_info ?f ?v purpose key_id) rt"
    by (auto simp: derive_fernet_key_Return)
  define key' where "key' = hkdf_sha256 lib KDF_SALT (kdf_info ?f ?v purpose' key_id) rt"
  have derive': "derive_fernet_key lib secret ?f ?v purpose' key_id ?n = Return key'"
    using key(2) rt(1) purpose'(1) pattern_strip [of purpose'] by (simp add: derive_fernet_key_Return key'_def)
  have "key \<noteq> key'"
    using kdf [of key_id rt] derived_infos_differ [OF key(2) derive'] purpose'(2) rt(2) key'_def by auto
  then show ?thesis
    unfolding decrypt_runtime_data_plaintext_def
    by (simp add: parts parse [unfolded key(1)] build_fernet_def derive' key(1) wrong_key)
qed

subsection \<open>Properties\<close>

text \<open>A root secret is accepted exactly when it is the URL-safe Base64 text of 32 bytes, so two
  accepted spellings never denote the same root and every 32-byte root has one.\<close>

theorem root_secret_canonical:
  "decode_encryption_root root_secret root_name = Return decoded \<longleftrightarrow>
     length decoded = 32 \<and> root_secret = b64_encode decoded"
  by (rule decode_root_iff)

text \<open>C17: What the service seals for storage it can open again.  With a crypto package that behaves as documented, each of
  the eight kinds of stored secret comes back from its own ciphertext under the same settings: terminal callback secrets,
  site API signing secrets, provider connection secrets and service setting secrets as the text they were (the empty
  secret included), portal responses and one-time password seeds as the bytes they were, and addon connection payloads
  and execution inputs as what the JSON parser reads from the text they were written as.\<close>

theorem stored_secret_roundtrip:
  assumes "fernet_documented lib" and "json_loads (json_dumps (JObj payload)) = Some (JObj payload')"
  shows "(encrypt_runtime_terminal_callback_secret lib settings secret = Return token
          \<longrightarrow> decrypt_runtime_terminal_callback_secret lib settings (Some token) = Return secret)
    \<and> (encrypt_site_api_signing_secret lib settings secret = Return token
          \<longrightarrow> decrypt_site_api_signing_secret lib settings (Some token) = Return secret)
    \<and> (encrypt_provider_connection_secret lib settings secret = Return token
          \<longrightarrow> decrypt_provider_connection_secret lib settings (Some token) = Return secret)
    \<and> (encrypt_service_setting_secret lib settings secret = Return token
          \<longrightarrow> decrypt_service_setting_secret lib settings (Some token) = Return secret)
    \<and> (encrypt_portal_idempotency_response lib settings body = Return token
          \<longrightarrow> decrypt_portal_idempotency_response lib settings (Some token) = Return body)
    \<and> (encrypt_portal_totp_seed lib settings body = Return token
          \<longrightarrow> decrypt_portal_totp_seed lib settings (Some token) = Return body)
    \<and> (encrypt_addon_connection_payload lib settings payload = Return token
          \<longrightarrow> decrypt_addon_connection_payload lib json_loads settings (Some token) = Return payload')
    \<and> (encrypt_runtime_execution_input lib settings payload = Return token
          \<longrightarrow> decrypt_runtime_execution_input lib json_loads settings (Some token) = Return payload')"
  using text_secret_roundtrips [OF assms(1)] payload_roundtrips [where json_loads = json_loads and payload = payload, OF assms] totp_seed_roundtrip [OF assms(1)]
    idempotency_response_roundtrip [OF assms(1)] by simp

theorem stored_secret_roundtrip_witness:
  "\<exists>a b c d. decrypt_site_api_signing_secret demo_crypto demo_settings (Some a) = Return ''s3cret''
     \<and> decrypt_service_setting_secret demo_crypto demo_settings (Some b) = Return ''s3cret''
     \<and> decrypt_portal_totp_seed demo_crypto demo_settings (Some c) = Return [1, 2, 3]
     \<and> decrypt_runtime_execution_input demo_crypto (\<lambda>_. Some (JObj [(''a'', JInt 1)])) demo_settings (Some d)
         = Return [(''a'', JInt 1)]"
proof -
  let ?json = "\<lambda>_. Some (JObj [(''a'', JInt 1)])" and ?payload = "[(''a'', JInt 1)]"
  obtain a b c d where
    "encrypt_site_api_signing_secret demo_crypto demo_settings ''s3cret'' = Return a"
    "encrypt_service_setting_secret demo_crypto demo_settings ''s3cret'' = Return b"
    "encrypt_portal_totp_seed demo_crypto demo_settings [1, 2, 3] = Return c"
    "encrypt_runtime_execution_input demo_crypto demo_settings ?payload = Return d"
    using demo_encrypts(1) [OF stored_purposes(5)] demo_encrypts(2) [OF stored_purposes(8)]
      demo_encrypts(1) [OF stored_purposes(3)] demo_encrypts(1) [OF stored_purposes(7)]
    unfolding encrypt_site_api_signing_secret_def encrypt_service_setting_secret_def encrypt_portal_totp_seed_def
      encrypt_runtime_execution_input_def by simp metis
  then show ?thesis
    using stored_secret_roundtrip [OF demo_documented, of ?json ?payload ?payload demo_settings "''s3cret''" _ "[1, 2, 3]"]
    by blast
qed

text \<open>Ciphertexts do not move between purposes: a token sealed for one purpose is refused when it is
  opened for another, as long as HKDF separates the two derivation inputs and Fernet refuses a token
  under a different key.  That the derivation inputs of two purposes always differ is proved, not
  assumed.\<close>

theorem purposes_are_separated:
  assumes "encrypt_runtime_data_plaintext lib plaintext purpose settings = Return token"
    and "fernet_documented lib"
    and "ENCRYPTION_PURPOSE_PATTERN purpose'" "purpose' \<noteq> purpose"
    and "\<And>key_id key.
      kdf_info RUNTIME_DATA_ENVELOPE_FAMILY RUNTIME_DATA_ENVELOPE_VERSION purpose key_id
        \<noteq> kdf_info RUNTIME_DATA_ENVELOPE_FAMILY RUNTIME_DATA_ENVELOPE_VERSION purpose' key_id \<Longrightarrow>
      hkdf_sha256 lib KDF_SALT (kdf_info RUNTIME_DATA_ENVELOPE_FAMILY RUNTIME_DATA_ENVELOPE_VERSION purpose key_id) key
        \<noteq> hkdf_sha256 lib KDF_SALT (kdf_info RUNTIME_DATA_ENVELOPE_FAMILY RUNTIME_DATA_ENVELOPE_VERSION purpose' key_id) key"
    and "\<And>k k'. k \<noteq> k' \<Longrightarrow>
      fernet_decrypt lib (b64_encode k') (utf8_encode (fernet_encrypt lib (b64_encode k) plaintext)) = None"
  shows "decrypt_runtime_data_plaintext lib token purpose' settings msg = Raise (RuntimeError msg)"
  using assms by (rule purpose_mismatch_rejected)

lemma demo_hkdf_purpose:
  "hkdf_sha256 demo_crypto KDF_SALT (kdf_info RUNTIME_DATA_ENVELOPE_FAMILY RUNTIME_DATA_ENVELOPE_VERSION purpose key_id) rt
     = take 32 (utf8_encode purpose @ [0] @ utf8_encode (''key_id='' @ key_id) @ replicate 32 0)"
proof -
  obtain front where front: "length front = 73"
    "kdf_info RUNTIME_DATA_ENVELOPE_FAMILY RUNTIME_DATA_ENVELOPE_VERSION purpose key_id =
       front @ utf8_encode purpose @ [0] @ utf8_encode (''key_id='' @ key_id)"
  proof
    let ?front = "KDF_CONTEXT @ [0] @ utf8_encode (''family='' @ RUNTIME_DATA_ENVELOPE_FAMILY) @ [0]
      @ utf8_encode (''version='' @ RUNTIME_DATA_ENVELOPE_VERSION) @ [0] @ utf8_encode ''purpose=''"
    show "length ?front = 73" by code_simp
    show "kdf_info RUNTIME_DATA_ENVELOPE_FAMILY RUNTIME_DATA_ENVELOPE_VERSION purpose key_id =
        ?front @ utf8_encode purpose @ [0] @ utf8_encode (''key_id='' @ key_id)"
      unfolding kdf_info_def utf8_encode_append [of "''purpose=''" purpose] by (simp only: append_assoc)
  qed
  moreover have "drop 73 (front @ xs) = xs" for xs using front(1) by simp
  ultimately show ?thesis by (simp only: demo_crypto_def crypto.simps append_assoc)
qed

theorem purposes_are_separated_witness:
  "\<exists>token. encrypt_runtime_data_plaintext demo_crypto [1, 2] PORTAL_TOTP_SEED_PURPOSE demo_settings = Return token
     \<and> decrypt_runtime_data_plaintext demo_crypto token ''portal_idempotency_response'' demo_settings ''no''
         = Raise (RuntimeError ''no'')"
proof -
  obtain token where "encrypt_runtime_data_plaintext demo_crypto [1, 2] PORTAL_TOTP_SEED_PURPOSE demo_settings = Return token"
    using demo_encrypts(1) stored_purposes(3) by blast
  moreover have "take 32 (utf8_encode PORTAL_TOTP_SEED_PURPOSE @ xs) \<noteq> take 32 (utf8_encode ''portal_idempotency_response'' @ ys)" for xs ys
    by (simp add: PORTAL_TOTP_SEED_PURPOSE_def utf8_encode_def utf8_char_def)
  moreover from purposes_are_separated [OF calculation(1) demo_documented stored_purposes(4)]
  have "decrypt_runtime_data_plaintext demo_crypto token ''portal_idempotency_response'' demo_settings ''no''
         = Raise (RuntimeError ''no'')"
    using calculation(2) by (simp add: demo_hkdf_purpose demo_decrypt PORTAL_TOTP_SEED_PURPOSE_def)
  ultimately show ?thesis by blast
qed

end
