(* ===== verification/AnalysisResult.thy ===== *)
theory AnalysisResult
  imports PyValues
begin

section \<open>Analysis envelope (app/domain/runtime/analysis\_result.py)\<close>

text \<open>
  Results of the analysis lane are wrapped so that a provider's text which claims to have written to
  WordPress is never shown as an applied write: it is marked for local approval and its raw text is
  withheld.  Phrases are compared as code points, because some are Chinese; the model's strings hold
  code points below 256.
\<close>

definition code_points :: "string \<Rightarrow> nat list" where
  "code_points s = map of_char s"

fun is_prefix :: "'a list \<Rightarrow> 'a list \<Rightarrow> bool" where
  "is_prefix [] ys = True"
| "is_prefix (x # xs) [] = False"
| "is_prefix (x # xs) (y # ys) = (x = y \<and> is_prefix xs ys)"

fun contains_sub :: "'a list \<Rightarrow> 'a list \<Rightarrow> bool" where
  "contains_sub needle [] = (needle = [])"
| "contains_sub needle (y # ys) = (is_prefix needle (y # ys) \<or> contains_sub needle ys)"

definition WRITE_COMPLETION_PHRASES :: "nat list list" where
  "WRITE_COMPLETION_PHRASES =
     map code_points [''written to wordpress'', ''changes applied'', ''product updated'', ''changes saved'',
       ''update completed'', ''write completed'']
     @ [[24050, 20889, 20837, 32, 119, 111, 111, 99, 111, 109, 109, 101, 114, 99, 101],
        [24050, 20889, 20837, 119, 111, 114, 100, 112, 114, 101, 115, 115],
        [24050, 25104, 21151, 26356, 26032],
        [24050, 25104, 21151, 20889, 20837]]"

definition WRITE_ABILITY_HINTS :: "string list" where
  "WRITE_ABILITY_HINTS =
     [''write'', ''update'', ''create'', ''delete'', ''apply'', ''modify'', ''publish'', ''optimize'']"

definition VALID_ANALYSIS_TYPES :: "string list" where
  "VALID_ANALYSIS_TYPES = [''report'', ''recommendation'', ''proposal_input'']"

definition write_completion_summary :: string where
  "write_completion_summary =
     ''Provider output contained write-completion language; local approval required.''"

definition detect_write_completion_language :: "string \<Rightarrow> bool" where
  "detect_write_completion_language text \<longleftrightarrow>
     list_ex (\<lambda>phrase. contains_sub phrase (code_points (py_lower text))) WRITE_COMPLETION_PHRASES"

definition ability_name_implies_mutation :: "string \<Rightarrow> bool" where
  "ability_name_implies_mutation ability_name \<longleftrightarrow>
     list_ex (\<lambda>hint. contains_sub hint (py_lower ability_name)) WRITE_ABILITY_HINTS"

definition extract_proposal_handoff :: "json_dict \<Rightarrow> json_dict" where
  "extract_proposal_handoff input_payload =
     concat (map (\<lambda>key. case map_of input_payload key of None \<Rightarrow> [] | Some v \<Rightarrow> [(key, v)])
       [''proposal_id'', ''correlation_id'', ''external_thread_id'', ''openclaw_thread_id''])"

definition sanitize_raw_result :: "json \<Rightarrow> json_dict" where
  "sanitize_raw_result result =
     (case result of
        JObj kvs \<Rightarrow> filter (\<lambda>(k, v). k \<noteq> ''output_text'' \<and> k \<noteq> ''messages'') kvs
      | _ \<Rightarrow> [])"

text \<open>\<open>str(d.get(key, ""))\<close>: a stored null is the text \<open>None\<close>.\<close>

definition get_text :: "json_dict \<Rightarrow> string \<Rightarrow> string" where
  "get_text d k = (case map_of d k of None \<Rightarrow> [] | Some v \<Rightarrow> py_str v)"

definition hashable :: "json \<Rightarrow> bool" where
  "hashable v = (case v of JList _ \<Rightarrow> False | JObj _ \<Rightarrow> False | _ \<Rightarrow> True)"

text \<open>Handing over what the request carries without overwriting what the provider set.\<close>

fun add_missing :: "json_dict \<Rightarrow> json_dict \<Rightarrow> json_dict" where
  "add_missing [] handoff = handoff"
| "add_missing ((k, v) # kvs) handoff =
     add_missing kvs (if map_of handoff k = None then py_set handoff k v else handoff)"

definition proposal_handoff_of :: "json_dict \<Rightarrow> json_dict \<Rightarrow> json_dict" where
  "proposal_handoff_of result input_payload =
     (case map_of result ''proposal_handoff'' of
        None \<Rightarrow> extract_proposal_handoff input_payload
      | Some existing \<Rightarrow> add_missing (extract_proposal_handoff input_payload)
                           (case existing of JObj kvs \<Rightarrow> kvs | _ \<Rightarrow> []))"

text \<open>The fields an approval-bound result is rewritten in.\<close>

definition withhold_write_claims :: "string \<Rightarrow> json_dict \<Rightarrow> json_dict" where
  "withhold_write_claims raw_text result =
     (let result = py_set result ''analysis_type'' (JStr ''proposal_input'');
          result = (if detect_write_completion_language raw_text
                    then py_set result ''summary'' (JStr write_completion_summary) else result)
      in case map_of result ''_cloud_raw_result'' of
           None \<Rightarrow> result
         | Some raw \<Rightarrow> py_set result ''_cloud_raw_result'' (JObj (sanitize_raw_result raw)))"

text \<open>\<open>None\<close> is the \<open>TypeError\<close> of looking a list or an object up in a set.\<close>

definition ensure_analysis_envelope_fields ::
    "json_dict \<Rightarrow> string \<Rightarrow> json_dict \<Rightarrow> json_dict option" where
  "ensure_analysis_envelope_fields result ability_name input_payload =
     (let raw_text = get_text result ''summary'';
          requires_local_approval =
            (py_truthy (py_get result ''requires_local_approval'')
             \<or> detect_write_completion_language raw_text \<or> ability_name_implies_mutation ability_name)
      in if \<not> hashable (py_get result ''analysis_type'') then None
         else
           (let result = (if py_get result ''analysis_type'' \<in> set (map JStr VALID_ANALYSIS_TYPES) then result
                          else py_set result ''analysis_type''
                                 (JStr (if requires_local_approval then ''proposal_input'' else ''report'')));
                result = py_set result ''requires_local_approval'' (JBool requires_local_approval);
                result = (if requires_local_approval then withhold_write_claims raw_text result else result)
            in Some (py_set result ''proposal_handoff'' (JObj (proposal_handoff_of result input_payload)))))"

definition build_analysis_result_envelope ::
    "json_dict \<Rightarrow> string \<Rightarrow> string \<Rightarrow> json_dict \<Rightarrow> json_dict option" where
  "build_analysis_result_envelope result ability_family ability_name input_payload =
     (if ability_family \<noteq> ''openclaw'' then Some result
      else if map_of result ''analysis_type'' \<noteq> None
      then ensure_analysis_envelope_fields result ability_name input_payload
      else
        (let raw_text = get_text result ''output_text'';
             requires_local_approval =
               (detect_write_completion_language raw_text \<or> ability_name_implies_mutation ability_name)
         in Some
           [(''analysis_type'', JStr (if requires_local_approval then ''proposal_input'' else ''report'')),
            (''summary'', JStr (if requires_local_approval then write_completion_summary
                                else take 2000 raw_text)),
            (''findings'', JList []),
            (''recommendations'', JList []),
            (''requires_local_approval'', JBool requires_local_approval),
            (''proposal_handoff'', JObj (extract_proposal_handoff input_payload)),
            (''_cloud_raw_result'', JObj (if requires_local_approval then sanitize_raw_result (JObj result)
                                          else result))]))"

subsection \<open>Lemmas\<close>

lemma map_of_py_set_other [simp]: "k \<noteq> k' \<Longrightarrow> map_of (py_set d k v) k' = map_of d k'"
  by (simp add: map_of_py_set)

lemma sanitize_no_text:
  "map_of (sanitize_raw_result v) ''output_text'' = None" "map_of (sanitize_raw_result v) ''messages'' = None"
  by (auto simp: sanitize_raw_result_def map_of_eq_None_iff split: json.split)

lemma is_prefix_take: "is_prefix p (take n s) \<Longrightarrow> is_prefix p s"
proof (induction p s arbitrary: n rule: is_prefix.induct)
  case (3 x xs y ys)
  then show ?case by (cases n) auto
qed simp_all

lemma contains_sub_take: "contains_sub p (take n s) \<Longrightarrow> contains_sub p s"
proof (induction p s arbitrary: n rule: contains_sub.induct)
  case (2 p y ys)
  show ?case
  proof (cases n)
    case 0
    with 2 show ?thesis by (simp add: is_prefix.simps(1))
  next
    case (Suc m)
    with 2 show ?thesis using is_prefix_take [of p n "y # ys"] by auto
  qed
qed simp

lemma detect_take: "detect_write_completion_language (take n s) \<Longrightarrow> detect_write_completion_language s"
  unfolding detect_write_completion_language_def py_lower_def code_points_def list_ex_iff take_map [symmetric]
  by (auto dest: contains_sub_take)

lemma py_set_present: "map_of d k = Some v \<Longrightarrow> py_set d k v = d"
  by (induction d k v rule: py_set.induct) auto

lemma py_get_map_of: "map_of d k = Some v \<Longrightarrow> py_get d k = v"
  by (simp add: py_get_def)

lemma add_missing_done: "\<forall>(k, v)\<in>set kvs. map_of handoff k \<noteq> None \<Longrightarrow> add_missing kvs handoff = handoff"
  by (induction kvs handoff rule: add_missing.induct) auto

lemma add_missing_keeps: "map_of handoff k = Some v \<Longrightarrow> map_of (add_missing kvs handoff) k = Some v"
proof (induction kvs handoff rule: add_missing.induct)
  case (2 k' v' kvs handoff)
  then show ?case by (cases "map_of handoff k'"; cases "k = k'") (auto simp: map_of_py_set)
qed simp

lemma add_missing_adds: "(k, v) \<in> set kvs \<Longrightarrow> map_of (add_missing kvs handoff) k \<noteq> None"
proof (induction kvs handoff rule: add_missing.induct)
  case (2 k' v' kvs handoff)
  show ?case
  proof (cases "(k, v) = (k', v')")
    case True
    then obtain w where "map_of (if map_of handoff k' = None then py_set handoff k' v' else handoff) k = Some w"
      by (cases "map_of handoff k'") (auto simp: map_of_py_set)
    from add_missing_keeps [OF this] show ?thesis by simp
  qed (use 2 in auto)
qed simp

lemma sanitize_idem: "sanitize_raw_result (JObj (sanitize_raw_result v)) = sanitize_raw_result v"
  by (auto simp: sanitize_raw_result_def split: json.split intro!: filter_cong)

text \<open>What an enveloped result looks like; \<open>b\<close> is its approval flag.\<close>

definition sealed :: "bool \<Rightarrow> string \<Rightarrow> json_dict \<Rightarrow> json_dict \<Rightarrow> bool" where
  "sealed b ability_name input_payload out \<longleftrightarrow>
     map_of out ''requires_local_approval'' = Some (JBool b)
     \<and> (b \<longrightarrow> map_of out ''analysis_type'' = Some (JStr ''proposal_input'')
            \<and> (detect_write_completion_language (get_text out ''summary'') \<longrightarrow>
                 map_of out ''summary'' = Some (JStr write_completion_summary))
            \<and> (case map_of out ''_cloud_raw_result'' of None \<Rightarrow> True
               | Some raw \<Rightarrow> raw = JObj (sanitize_raw_result raw)))
     \<and> (\<not> b \<longrightarrow> (case map_of out ''analysis_type'' of None \<Rightarrow> False
                 | Some t \<Rightarrow> t \<in> set (map JStr VALID_ANALYSIS_TYPES))
            \<and> \<not> detect_write_completion_language (get_text out ''summary'')
            \<and> \<not> ability_name_implies_mutation ability_name)
     \<and> (case map_of out ''proposal_handoff'' of
          Some (JObj handoff) \<Rightarrow> list_all (\<lambda>(k, v). map_of handoff k \<noteq> None) (extract_proposal_handoff input_payload)
        | _ \<Rightarrow> False)"

lemma handoff_complete:
  "list_all (\<lambda>(k, v). map_of (proposal_handoff_of result input_payload) k \<noteq> None)
     (extract_proposal_handoff input_payload)"
proof -
  have self: "map_of kvs k \<noteq> None" if "(k, v) \<in> set kvs" for kvs :: json_dict and k v
    using image_eqI [of k fst "(k, v)" "set kvs"] that by (simp add: map_of_eq_None_iff)
  show ?thesis
    using add_missing_adds self unfolding proposal_handoff_of_def list_all_iff
    by (fastforce split: option.split)
qed

lemma hashable_valid: "t \<in> set (map JStr VALID_ANALYSIS_TYPES) \<Longrightarrow> hashable t"
  by (auto simp: hashable_def)

lemma withhold_get:
  "map_of (withhold_write_claims raw d) k =
     (if k = ''analysis_type'' then Some (JStr ''proposal_input'')
      else if k = ''summary'' \<and> detect_write_completion_language raw then Some (JStr write_completion_summary)
      else if k = ''_cloud_raw_result'' then map_option (\<lambda>v. JObj (sanitize_raw_result v)) (map_of d k)
      else map_of d k)"
  by (simp add: withhold_write_claims_def Let_def map_of_py_set split: option.split)

lemma ensure_get:
  assumes "ensure_analysis_envelope_fields r ability_name input_payload = Some out"
  obtains d b where
    "b \<longleftrightarrow> py_truthy (py_get r ''requires_local_approval'')
       \<or> detect_write_completion_language (get_text r ''summary'') \<or> ability_name_implies_mutation ability_name"
    "d = (if b then withhold_write_claims (get_text r ''summary'') else id)
           (py_set (if py_get r ''analysis_type'' \<in> set (map JStr VALID_ANALYSIS_TYPES) then r
                    else py_set r ''analysis_type'' (JStr (if b then ''proposal_input'' else ''report'')))
              ''requires_local_approval'' (JBool b))"
    "out = py_set d ''proposal_handoff'' (JObj (proposal_handoff_of d input_payload))"
    "hashable (py_get r ''analysis_type'')"
  using assms unfolding ensure_analysis_envelope_fields_def Let_def
  by (simp split: if_splits)

lemma ensure_sealed:
  assumes out: "ensure_analysis_envelope_fields r ability_name input_payload = Some out"
  shows "sealed (py_truthy (py_get r ''requires_local_approval'')
      \<or> detect_write_completion_language (get_text r ''summary'') \<or> ability_name_implies_mutation ability_name)
    ability_name input_payload out"
  using out
proof (rule ensure_get)
  fix d b
  assume b: "b \<longleftrightarrow> py_truthy (py_get r ''requires_local_approval'')
       \<or> detect_write_completion_language (get_text r ''summary'') \<or> ability_name_implies_mutation ability_name"
    and d: "d = (if b then withhold_write_claims (get_text r ''summary'') else id)
           (py_set (if py_get r ''analysis_type'' \<in> set (map JStr VALID_ANALYSIS_TYPES) then r
                    else py_set r ''analysis_type'' (JStr (if b then ''proposal_input'' else ''report'')))
              ''requires_local_approval'' (JBool b))"
    and fin: "out = py_set d ''proposal_handoff'' (JObj (proposal_handoff_of d input_payload))"
  have valid: "\<not> b \<Longrightarrow> \<exists>t. map_of d ''analysis_type'' = Some t \<and> t \<in> set (map JStr VALID_ANALYSIS_TYPES)"
    using d by (cases "map_of r ''analysis_type''")
      (auto simp: map_of_py_set py_get_def VALID_ANALYSIS_TYPES_def)
  have other: "map_of out k = map_of d k" if "k \<noteq> ''proposal_handoff''" for k
    using fin that by (simp add: map_of_py_set)
  have read_text: "get_text out k = get_text d k" if "k \<noteq> ''proposal_handoff''" for k
    using other that by (simp add: get_text_def)
  have rest: "map_of d k = map_of r k" if "\<not> b" "k \<noteq> ''analysis_type''" "k \<noteq> ''requires_local_approval''" for k
    using d that by (simp add: map_of_py_set)
  have "sealed b ability_name input_payload out"
    unfolding sealed_def
  proof (intro conjI impI)
    show "map_of out ''requires_local_approval'' = Some (JBool b)"
      using d by (simp add: other withhold_get map_of_py_set)
    show "map_of out ''analysis_type'' = Some (JStr ''proposal_input'')" if b
      using d that by (simp add: other withhold_get)
    show "map_of out ''summary'' = Some (JStr write_completion_summary)"
      if b "detect_write_completion_language (get_text out ''summary'')"
      using d that by (auto simp: read_text other get_text_def withhold_get map_of_py_set split: if_splits)
    show "case map_of out ''_cloud_raw_result'' of None \<Rightarrow> True | Some raw \<Rightarrow> raw = JObj (sanitize_raw_result raw)" if b
      using d that by (simp add: other withhold_get map_of_py_set sanitize_idem split: option.split)
    show "case map_of out ''analysis_type'' of None \<Rightarrow> False | Some t \<Rightarrow> t \<in> set (map JStr VALID_ANALYSIS_TYPES)"
      if "\<not> b" using valid [OF that] by (auto simp: other)
    show "\<not> detect_write_completion_language (get_text out ''summary'')" if "\<not> b"
    proof -
      have "get_text d ''summary'' = get_text r ''summary''"
        using rest [OF that, of "''summary''"] by (simp add: get_text_def)
      with b that show ?thesis by (simp add: read_text)
    qed
    show "\<not> ability_name_implies_mutation ability_name" if "\<not> b" using b that by simp
    show "case map_of out ''proposal_handoff'' of
          Some (JObj handoff) \<Rightarrow> list_all (\<lambda>(k, v). map_of handoff k \<noteq> None) (extract_proposal_handoff input_payload)
        | _ \<Rightarrow> False"
      using fin handoff_complete by (simp add: map_of_py_set)
  qed
  then show ?thesis by (simp only: b)
qed

text \<open>A sealed result is a fixed point: enveloping it again changes nothing.\<close>

lemma sealed_fixed:
  assumes sealed: "sealed b ability_name input_payload out"
  shows "ensure_analysis_envelope_fields out ability_name input_payload = Some out"
proof -
  from sealed obtain handoff where
    flag: "map_of out ''requires_local_approval'' = Some (JBool b)"
    and handoff: "map_of out ''proposal_handoff'' = Some (JObj handoff)"
      "list_all (\<lambda>(k, v). map_of handoff k \<noteq> None) (extract_proposal_handoff input_payload)"
    by (auto simp: sealed_def split: option.splits json.splits)
  have same: "proposal_handoff_of out input_payload = handoff"
    using handoff by (auto simp: proposal_handoff_of_def list_all_iff intro: add_missing_done)
  note keep = py_set_present [OF flag] py_set_present [OF handoff(1)]
  show ?thesis
  proof (cases b)
    case True
    with sealed have at: "map_of out ''analysis_type'' = Some (JStr ''proposal_input'')"
      and summary: "detect_write_completion_language (get_text out ''summary'') \<Longrightarrow>
             map_of out ''summary'' = Some (JStr write_completion_summary)"
      and raw: "map_of out ''_cloud_raw_result'' = Some v \<Longrightarrow> JObj (sanitize_raw_result v) = v" for v
      by (auto simp: sealed_def)
    have "withhold_write_claims (get_text out ''summary'') out = out"
      using py_set_present [OF at] summary raw py_set_present
      by (auto simp: withhold_write_claims_def Let_def split: option.split)
    with True flag at show ?thesis
      using keep
      by (simp add: ensure_analysis_envelope_fields_def Let_def py_get_map_of hashable_def same
          VALID_ANALYSIS_TYPES_def)
  next
    case False
    with sealed obtain t where at: "map_of out ''analysis_type'' = Some t" "t \<in> set (map JStr VALID_ANALYSIS_TYPES)"
      and no: "\<not> detect_write_completion_language (get_text out ''summary'')"
        "\<not> ability_name_implies_mutation ability_name"
      by (auto simp: sealed_def split: option.splits)
    with False flag show ?thesis
      using hashable_valid [OF at(2)] keep
      by (simp add: ensure_analysis_envelope_fields_def Let_def py_get_map_of same)
  qed
qed

lemma detect_empty [simp]: "\<not> detect_write_completion_language []"
  by (simp add: detect_write_completion_language_def py_lower_def code_points_def WRITE_COMPLETION_PHRASES_def)

lemma build_sealed:
  assumes out: "build_analysis_result_envelope r ''openclaw'' ability_name input_payload = Some out"
  shows "\<exists>b. sealed b ability_name input_payload out \<and>
    (map_of r ''analysis_type'' = None \<longrightarrow>
       (b \<longleftrightarrow> detect_write_completion_language (get_text r ''output_text'') \<or> ability_name_implies_mutation ability_name))"
proof (cases "map_of r ''analysis_type''")
  case (Some t)
  with out have "ensure_analysis_envelope_fields r ability_name input_payload = Some out"
    by (simp add: build_analysis_result_envelope_def)
  note sealed = ensure_sealed [OF this]
  show ?thesis
    by (rule exI, rule conjI, rule sealed) (simp add: Some)
next
  case None
  define b where "b \<longleftrightarrow> detect_write_completion_language (get_text r ''output_text'') \<or> ability_name_implies_mutation ability_name"
  have fresh: "proposal_handoff_of [] input_payload = extract_proposal_handoff input_payload"
    by (simp add: proposal_handoff_of_def)
  let ?raw = "get_text r ''output_text''"
  let ?out = "\<lambda>b. [(''analysis_type'', JStr (if b then ''proposal_input'' else ''report'')),
            (''summary'', JStr (if b then write_completion_summary else take 2000 ?raw)),
            (''findings'', JList []), (''recommendations'', JList []),
            (''requires_local_approval'', JBool b),
            (''proposal_handoff'', JObj (extract_proposal_handoff input_payload)),
            (''_cloud_raw_result'', JObj (if b then sanitize_raw_result (JObj r) else r))]"
  have eq: "out = ?out b"
    using out None unfolding build_analysis_result_envelope_def b_def by (simp add: Let_def)
  have handoff: "list_all (\<lambda>(k, v). map_of (extract_proposal_handoff input_payload) k \<noteq> None)
      (extract_proposal_handoff input_payload)"
    using handoff_complete [of "[]" input_payload] by (simp only: fresh)
  have "sealed b ability_name input_payload out"
  proof (cases b)
    case True
    show ?thesis
      unfolding eq sealed_def using True handoff
      by (simp add: sanitize_idem)
  next
    case False
    then have "\<not> detect_write_completion_language (take 2000 ?raw)" "\<not> ability_name_implies_mutation ability_name"
      using detect_take [of 2000 ?raw] by (auto simp: b_def)
    with False handoff show ?thesis
      unfolding eq sealed_def by (simp add: get_text_def py_str_def VALID_ANALYSIS_TYPES_def)
  qed
  with b_def show ?thesis by (intro exI [of _ b]) simp
qed

lemma sealed_exposure:
  assumes "sealed b ability_name input_payload out" and b
  shows "map_of out ''analysis_type'' = Some (JStr ''proposal_input'')"
    "map_of out ''_cloud_raw_result'' = Some (JObj raw) \<Longrightarrow>
       map_of raw ''output_text'' = None \<and> map_of raw ''messages'' = None"
  using assms sanitize_no_text [of "JObj raw"] by (auto simp: sealed_def)

lemma build_has_type:
  "build_analysis_result_envelope r ''openclaw'' ability_name input_payload = Some out \<Longrightarrow>
     sealed b ability_name input_payload out \<Longrightarrow> map_of out ''analysis_type'' \<noteq> None"
  by (cases b) (auto simp: sealed_def split: option.splits)

text \<open>A structured result is judged by its summary alone: a write claim in any other field passes.\<close>

lemmas detect_eval =
  detect_write_completion_language_def py_lower_def py_lower_char_def code_points_def
  WRITE_COMPLETION_PHRASES_def Let_def char_of_def bit_Suc_0_iff

lemma structured_write_claim_passes:
  "build_analysis_result_envelope
     [(''analysis_type'', JStr ''report''), (''summary'', JStr ''ok''), (''output_text'', JStr ''changes applied'')]
     ''openclaw'' ''read'' [] =
   Some [(''analysis_type'', JStr ''report''), (''summary'', JStr ''ok''), (''output_text'', JStr ''changes applied''),
         (''requires_local_approval'', JBool False), (''proposal_handoff'', JObj [])]"
proof -
  have "\<not> detect_write_completion_language ''ok''" by (simp add: detect_eval)
  moreover have "\<not> ability_name_implies_mutation ''read''"
    by (simp add: ability_name_implies_mutation_def WRITE_ABILITY_HINTS_def detect_eval)
  ultimately show ?thesis
    by (simp add: build_analysis_result_envelope_def ensure_analysis_envelope_fields_def Let_def get_text_def
        py_str_def py_get_def hashable_def VALID_ANALYSIS_TYPES_def proposal_handoff_of_def
        extract_proposal_handoff_def)
qed

lemma plain_write_claim_detected: "detect_write_completion_language ''Changes applied.''"
  by (simp add: detect_eval)

subsection \<open>Properties\<close>

text \<open>In the analysis lane an approval flag is always present; when it is set the result is a proposal
  and its raw provider result carries neither \<open>output_text\<close> nor \<open>messages\<close>; when it is not set, the
  summary holds no write claim and the ability is not a mutating one; and free text that claims a
  write, or a mutating ability, always sets it.\<close>

theorem write_claims_need_approval:
  assumes "build_analysis_result_envelope result ''openclaw'' ability_name input_payload = Some out"
  shows "\<exists>b. map_of out ''requires_local_approval'' = Some (JBool b)
    \<and> (b \<longrightarrow> map_of out ''analysis_type'' = Some (JStr ''proposal_input'')
           \<and> (\<forall>raw. map_of out ''_cloud_raw_result'' = Some (JObj raw) \<longrightarrow>
                map_of raw ''output_text'' = None \<and> map_of raw ''messages'' = None))
    \<and> (\<not> b \<longrightarrow> \<not> detect_write_completion_language (get_text out ''summary'')
           \<and> \<not> ability_name_implies_mutation ability_name)
    \<and> (map_of result ''analysis_type'' = None
       \<and> (detect_write_completion_language (get_text result ''output_text'')
          \<or> ability_name_implies_mutation ability_name) \<longrightarrow> b)"
proof -
  from build_sealed [OF assms] obtain b where b: "sealed b ability_name input_payload out"
    "map_of result ''analysis_type'' = None \<longrightarrow>
       (b \<longleftrightarrow> detect_write_completion_language (get_text result ''output_text'') \<or> ability_name_implies_mutation ability_name)"
    by (elim exE conjE)
  show ?thesis
    by (rule exI [of _ b], insert b sealed_exposure [OF b(1)]) (simp add: sealed_def)
qed

theorem write_claims_need_approval_witness:
  "\<exists>out. build_analysis_result_envelope [(''output_text'', JStr ''Changes applied.'')] ''openclaw'' ''report'' [] = Some out
     \<and> map_of out ''requires_local_approval'' = Some (JBool True)"
proof -
  let ?r = "[(''output_text'', JStr ''Changes applied.'')]"
  obtain out where out: "build_analysis_result_envelope ?r ''openclaw'' ''report'' [] = Some out"
    by (simp add: build_analysis_result_envelope_def Let_def)
  have "detect_write_completion_language (get_text ?r ''output_text'')"
    using plain_write_claim_detected by (simp add: get_text_def py_str_def)
  with write_claims_need_approval [OF out] have "map_of out ''requires_local_approval'' = Some (JBool True)"
    by auto
  with out show ?thesis by blast
qed

text \<open>The envelope is idempotent: enveloping a result at write time and again at read time, as the
  service does, gives the same result as doing it once.\<close>

theorem envelope_idempotent:
  assumes "build_analysis_result_envelope result ability_family ability_name input_payload = Some out"
  shows "build_analysis_result_envelope out ability_family ability_name input_payload = Some out"
proof (cases "ability_family = ''openclaw''")
  case True
  with assms have out: "build_analysis_result_envelope result ''openclaw'' ability_name input_payload = Some out"
    by simp
  from build_sealed [OF out] obtain b where b: "sealed b ability_name input_payload out" by (elim exE conjE)
  have "map_of out ''analysis_type'' \<noteq> None" by (rule build_has_type [OF out b])
  with True sealed_fixed [OF b] show ?thesis by (simp add: build_analysis_result_envelope_def)
qed (simp add: build_analysis_result_envelope_def)

theorem envelope_idempotent_witness:
  "\<exists>out. build_analysis_result_envelope [(''output_text'', JStr ''hi'')] ''openclaw'' ''apply'' [] = Some out
     \<and> build_analysis_result_envelope out ''openclaw'' ''apply'' [] = Some out"
proof -
  obtain out where out: "build_analysis_result_envelope [(''output_text'', JStr ''hi'')] ''openclaw'' ''apply'' [] = Some out"
    by (simp add: build_analysis_result_envelope_def Let_def)
  from envelope_idempotent [OF out] out show ?thesis by blast
qed

end
