(* ===== verification/MediaProjection.thy ===== *)
theory MediaProjection
  imports PyValues
begin

section \<open>Media artifacts in results (app/domain/media\_artifacts/projection.py)\<close>

text \<open>
  A stored run result is a snapshot; before it leaves the service its media envelopes are projected:
  private delivery fields are removed, a media derivative is cut down to its public descriptor, and
  the artifacts of the other envelopes get their current state from the table \<open>media_artifacts\<close>.  The
  code edits a deep copy in place; the model rebuilds the value, each nested object on its own.
\<close>

record media_artifact =
  ma_artifact_id :: string
  ma_run_id :: string
  ma_site_id :: string
  ma_status :: string
  ma_expires_at :: instant
  ma_purged_at :: "instant option"

definition MEDIA_ARTIFACT_PROJECTION_MAX_IDS :: nat where
  "MEDIA_ARTIFACT_PROJECTION_MAX_IDS = 100"

definition MEDIA_UPLOAD_ENVELOPE :: "string \<times> string" where
  "MEDIA_UPLOAD_ENVELOPE = (''media_upload_artifact'', ''media_upload_result.v1'')"
definition MEDIA_DERIVATIVE_ENVELOPE :: "string \<times> string" where
  "MEDIA_DERIVATIVE_ENVELOPE = (''media_derivative_artifact'', ''media_derivative_result.v3'')"
definition IMAGE_GENERATION_ENVELOPE :: "string \<times> string" where
  "IMAGE_GENERATION_ENVELOPE = (''image_generation_artifacts'', ''image_generation_result.v1'')"
definition AUDIO_GENERATION_ENVELOPE :: "string \<times> string" where
  "AUDIO_GENERATION_ENVELOPE = (''audio_generation_candidates'', ''audio_generation_result.v1'')"

definition MEDIA_DERIVATIVE_PUBLIC_ARTIFACT_FIELDS :: "string list" where
  "MEDIA_DERIVATIVE_PUBLIC_ARTIFACT_FIELDS =
     [''artifact_id'', ''artifact_reference'', ''expires_at'', ''suggested_filename'', ''filename_basis'',
      ''mime_type'', ''format'', ''width'', ''height'', ''filesize_bytes'', ''checksum'',
      ''processing_warnings'', ''transform_facts'']"

definition PRIVATE_ARTIFACT_FIELDS :: "string list" where
  "PRIVATE_ARTIFACT_FIELDS =
     [''storage_key'', ''purge_attempt_count'', ''purge_last_attempt_at'', ''purge_next_attempt_at'',
      ''purge_last_error_code'', ''purge_claim_id'', ''purge_claim_expires_at'', ''url'', ''audio_url'',
      ''download_url'', ''authenticated_download_url'', ''subtitle_url'', ''public_download_token'',
      ''token'', ''b64_json'', ''base64'', ''data_url'']"

subsection \<open>Editing nested values\<close>

text \<open>Editing an object in place if the value is one, the elements of a list if it is one, and the value
  of a key if the key is present.\<close>

definition on_dict :: "(json_dict \<Rightarrow> json_dict) \<Rightarrow> json \<Rightarrow> json" where
  "on_dict f v = (case v of JObj kvs \<Rightarrow> JObj (f kvs) | _ \<Rightarrow> v)"

definition on_list :: "(json \<Rightarrow> json) \<Rightarrow> json \<Rightarrow> json" where
  "on_list f v = (case v of JList xs \<Rightarrow> JList (map f xs) | _ \<Rightarrow> v)"

definition on_key :: "string \<Rightarrow> (json \<Rightarrow> json) \<Rightarrow> json_dict \<Rightarrow> json_dict" where
  "on_key k f d = (case map_of d k of None \<Rightarrow> d | Some v \<Rightarrow> py_set d k (f v))"

definition strip_private_fields :: "json_dict \<Rightarrow> json_dict" where
  "strip_private_fields reference = filter (\<lambda>(k, v). k \<notin> set PRIVATE_ARTIFACT_FIELDS) reference"

definition strip_known_delivery_credentials :: "json_dict \<Rightarrow> json_dict" where
  "strip_known_delivery_credentials result =
     (let result = on_key ''artifact'' (on_dict strip_private_fields) result;
          result = on_key ''artifacts'' (on_list (on_dict strip_private_fields)) result;
          strip_item = on_dict (\<lambda>item. on_key ''artifact'' (on_dict strip_private_fields)
                                         (strip_private_fields item));
          result = on_key ''audios'' (on_list strip_item) result
      in on_key ''items'' (on_list strip_item) result)"

subsection \<open>Envelopes and references\<close>

definition envelope_kind :: "json_dict \<Rightarrow> string \<times> string" where
  "envelope_kind result =
     (str_or_empty (py_get result ''artifact_type''), str_or_empty (py_get result ''contract_version''))"

definition is_known_artifact_envelope :: "json_dict \<Rightarrow> bool" where
  "is_known_artifact_envelope result \<longleftrightarrow>
     envelope_kind result \<in> {MEDIA_UPLOAD_ENVELOPE, MEDIA_DERIVATIVE_ENVELOPE,
                             IMAGE_GENERATION_ENVELOPE, AUDIO_GENERATION_ENVELOPE}"

definition is_media_derivative_envelope :: "json_dict \<Rightarrow> bool" where
  "is_media_derivative_envelope result \<longleftrightarrow> envelope_kind result = MEDIA_DERIVATIVE_ENVELOPE"

definition freeze_media_derivative_artifact :: "json_dict \<Rightarrow> json_dict" where
  "freeze_media_derivative_artifact result =
     on_key ''artifact'' (on_dict (filter (\<lambda>(k, v). k \<in> set MEDIA_DERIVATIVE_PUBLIC_ARTIFACT_FIELDS))) result"

definition dicts_in :: "json list \<Rightarrow> json_dict list" where
  "dicts_in vs = concat (map (\<lambda>v. case v of JObj kvs \<Rightarrow> [kvs] | _ \<Rightarrow> []) vs)"

definition list_items :: "json \<Rightarrow> json list" where
  "list_items v = (case v of JList xs \<Rightarrow> xs | _ \<Rightarrow> [])"

definition nested_artifact_references :: "json list \<Rightarrow> json_dict list" where
  "nested_artifact_references items =
     concat (map (\<lambda>item. dicts_in [py_get item ''artifact'']) (dicts_in items))"

definition known_artifact_references :: "json_dict \<Rightarrow> json_dict list" where
  "known_artifact_references result =
     (if envelope_kind result \<in> {MEDIA_UPLOAD_ENVELOPE, MEDIA_DERIVATIVE_ENVELOPE}
      then dicts_in [py_get result ''artifact''] else [])
     @ (if envelope_kind result = IMAGE_GENERATION_ENVELOPE
        then dicts_in (list_items (py_get result ''artifacts'')) else [])
     @ (if envelope_kind result = AUDIO_GENERATION_ENVELOPE
        then nested_artifact_references (list_items (py_get result ''audios''))
             @ nested_artifact_references (list_items (py_get result ''items'')) else [])"

text \<open>The same references, each replaced by \<open>f\<close> of it: the loop over the references edits them in
  place.\<close>

definition map_artifact_references :: "(json_dict \<Rightarrow> json_dict) \<Rightarrow> json_dict \<Rightarrow> json_dict" where
  "map_artifact_references f result =
     (let kind = envelope_kind result;
          nested = on_list (on_dict (on_key ''artifact'' (on_dict f)))
      in if kind \<in> {MEDIA_UPLOAD_ENVELOPE, MEDIA_DERIVATIVE_ENVELOPE}
         then on_key ''artifact'' (on_dict f) result
         else if kind = IMAGE_GENERATION_ENVELOPE then on_key ''artifacts'' (on_list (on_dict f)) result
         else if kind = AUDIO_GENERATION_ENVELOPE
         then on_key ''items'' nested (on_key ''audios'' nested result)
         else result)"

definition artifact_id_of :: "json_dict \<Rightarrow> string" where
  "artifact_id_of reference =
     (case py_get reference ''artifact_id'' of JStr s \<Rightarrow> py_strip s | _ \<Rightarrow> [])"

fun bounded_unique_loop :: "json_dict list \<Rightarrow> string list \<Rightarrow> string list" where
  "bounded_unique_loop [] artifact_ids = artifact_ids"
| "bounded_unique_loop (reference # references) artifact_ids =
     (let artifact_id = artifact_id_of reference in
      if artifact_id = [] \<or> artifact_id \<in> set artifact_ids then bounded_unique_loop references artifact_ids
      else if MEDIA_ARTIFACT_PROJECTION_MAX_IDS \<le> length artifact_ids then artifact_ids
      else bounded_unique_loop references (artifact_ids @ [artifact_id]))"

definition bounded_unique_artifact_ids :: "json_dict list \<Rightarrow> string list" where
  "bounded_unique_artifact_ids references = bounded_unique_loop references []"

subsection \<open>Lifecycle overlay\<close>

definition current_artifact_status :: "instant \<Rightarrow> media_artifact \<Rightarrow> string" where
  "current_artifact_status now artifact =
     (if ma_purged_at artifact \<noteq> None \<or> ma_status artifact = ''purged'' then ''purged''
      else if ma_expires_at artifact \<le> now \<or> ma_status artifact = ''purge_pending'' then ''expired''
      else ma_status artifact)"

definition project_current_lifecycle :: "instant \<Rightarrow> media_artifact \<Rightarrow> json_dict \<Rightarrow> json_dict" where
  "project_current_lifecycle now artifact reference =
     (let reference = strip_private_fields reference;
          reference = py_set reference ''status'' (JStr (current_artifact_status now artifact));
          reference = py_set reference ''expires_at'' (JStr (isoformat (ma_expires_at artifact)))
      in py_set reference ''purged_at''
           (case ma_purged_at artifact of None \<Rightarrow> JNull | Some t \<Rightarrow> JStr (isoformat t)))"

definition project_unavailable :: "json_dict \<Rightarrow> json_dict" where
  "project_unavailable reference =
     (let reference = strip_private_fields reference;
          reference = py_set reference ''status'' (JStr ''unavailable'');
          reference = py_set reference ''expires_at'' JNull
      in py_set reference ''purged_at'' JNull)"

definition artifacts_by_id ::
    "string \<Rightarrow> string \<Rightarrow> string list \<Rightarrow> media_artifact list \<Rightarrow> media_artifact list" where
  "artifacts_by_id site_id run_id artifact_ids artifacts =
     filter (\<lambda>a. ma_site_id a = site_id \<and> ma_run_id a = run_id \<and> ma_artifact_id a \<in> set artifact_ids) artifacts"

definition project_reference :: "instant \<Rightarrow> media_artifact list \<Rightarrow> json_dict \<Rightarrow> json_dict" where
  "project_reference now by_id reference =
     (case row_get ma_artifact_id (artifact_id_of reference) by_id of
        None \<Rightarrow> project_unavailable reference
      | Some artifact \<Rightarrow> project_current_lifecycle now artifact reference)"

definition project_media_artifact_lifecycle ::
    "media_artifact list \<Rightarrow> instant \<Rightarrow> string \<Rightarrow> string \<Rightarrow> json_dict \<Rightarrow> json_dict" where
  "project_media_artifact_lifecycle artifacts now site_id run_id result =
     (if \<not> is_known_artifact_envelope result then result
      else (let projected = strip_known_delivery_credentials result in
            if is_media_derivative_envelope projected then freeze_media_derivative_artifact projected
            else (let references = known_artifact_references projected;
                      by_id = artifacts_by_id site_id run_id (bounded_unique_artifact_ids references) artifacts
                  in map_artifact_references (project_reference now by_id) projected)))"

subsection \<open>Lemmas\<close>

lemma on_null [simp]: "on_dict f JNull = JNull" "on_list g JNull = JNull"
  by (simp_all add: on_dict_def on_list_def)

lemma py_get_on_key:
  "f JNull = JNull \<Longrightarrow> py_get (on_key k f d) k' = (if k = k' then f (py_get d k') else py_get d k')"
  by (auto simp: on_key_def py_get_def map_of_py_set split: option.split)

lemma py_set_keys: "set (map fst (py_set d k v)) = insert k (set (map fst d))"
  by (induction d k v rule: py_set.induct) auto

lemma on_key_keys: "set (map fst (on_key k f d)) = set (map fst d)"
proof (cases "map_of d k")
  case (Some v)
  then have "k \<in> set (map fst d)" by (force dest: map_of_SomeD)
  with Some show ?thesis by (simp add: on_key_def py_set_keys insert_absorb del: set_map list.set_map)
qed (simp add: on_key_def)

lemma dicts_in_on_dict: "dicts_in (map (on_dict f) vs) = map f (dicts_in vs)"
  by (induction vs) (auto simp: dicts_in_def on_dict_def split: json.split)

lemma list_items_on_list: "list_items (on_list f v) = map f (list_items v)"
  by (cases v) (simp_all add: list_items_def on_list_def)

lemma nested_on_dict:
  "nested_artifact_references (map (on_dict (on_key ''artifact'' (on_dict f))) items)
     = map f (nested_artifact_references items)"
proof -
  have one: "dicts_in [py_get (on_key ''artifact'' (on_dict f) item) ''artifact''] =
      map f (dicts_in [py_get item ''artifact''])" for item
    using dicts_in_on_dict [of f "[py_get item ''artifact'']"] by (simp add: py_get_on_key)
  show ?thesis
    by (simp only: nested_artifact_references_def dicts_in_on_dict map_map comp_def one map_concat)
qed

lemma envelope_kind_on_key:
  "f JNull = JNull \<Longrightarrow> k \<noteq> ''artifact_type'' \<Longrightarrow> k \<noteq> ''contract_version'' \<Longrightarrow>
     envelope_kind (on_key k f d) = envelope_kind d"
  by (simp add: envelope_kind_def py_get_on_key)

lemma envelope_kind_strip [simp]: "envelope_kind (strip_known_delivery_credentials d) = envelope_kind d"
  by (simp add: strip_known_delivery_credentials_def Let_def envelope_kind_on_key)

lemma envelope_kind_map [simp]: "envelope_kind (map_artifact_references f d) = envelope_kind d"
  by (simp add: map_artifact_references_def Let_def envelope_kind_on_key)

lemma envelope_kinds_distinct [simp]:
  "IMAGE_GENERATION_ENVELOPE \<noteq> AUDIO_GENERATION_ENVELOPE"
  "IMAGE_GENERATION_ENVELOPE \<noteq> MEDIA_UPLOAD_ENVELOPE" "IMAGE_GENERATION_ENVELOPE \<noteq> MEDIA_DERIVATIVE_ENVELOPE"
  "AUDIO_GENERATION_ENVELOPE \<noteq> MEDIA_UPLOAD_ENVELOPE" "AUDIO_GENERATION_ENVELOPE \<noteq> MEDIA_DERIVATIVE_ENVELOPE"
  "AUDIO_GENERATION_ENVELOPE \<noteq> IMAGE_GENERATION_ENVELOPE" "MEDIA_UPLOAD_ENVELOPE \<noteq> MEDIA_DERIVATIVE_ENVELOPE"
  by (simp_all add: MEDIA_UPLOAD_ENVELOPE_def MEDIA_DERIVATIVE_ENVELOPE_def IMAGE_GENERATION_ENVELOPE_def
      AUDIO_GENERATION_ENVELOPE_def)

text \<open>The loop edits exactly the references it collected.\<close>

lemma references_map:
  "known_artifact_references (map_artifact_references f d) = map f (known_artifact_references d)"
proof -
  have lists: "dicts_in (list_items (on_list (on_dict f) v)) = map f (dicts_in (list_items v))" for v
    by (simp add: list_items_on_list dicts_in_on_dict)
  have nested: "nested_artifact_references (list_items (on_list (on_dict (on_key ''artifact'' (on_dict f))) v))
      = map f (nested_artifact_references (list_items v))" for v
    by (simp add: list_items_on_list nested_on_dict)
  have single: "dicts_in [on_dict f v] = map f (dicts_in [v])" for v
    using dicts_in_on_dict [of f "[v]"] by simp
  consider "envelope_kind d \<in> {MEDIA_UPLOAD_ENVELOPE, MEDIA_DERIVATIVE_ENVELOPE}"
    | "envelope_kind d = IMAGE_GENERATION_ENVELOPE" | "envelope_kind d = AUDIO_GENERATION_ENVELOPE"
    | "envelope_kind d \<notin> {MEDIA_UPLOAD_ENVELOPE, MEDIA_DERIVATIVE_ENVELOPE, IMAGE_GENERATION_ENVELOPE, AUDIO_GENERATION_ENVELOPE}"
    by blast
  then show ?thesis
  proof cases
    case 1
    then show ?thesis
      by (auto simp: known_artifact_references_def map_artifact_references_def Let_def
          envelope_kind_on_key py_get_on_key single)
  next
    case 2
    then show ?thesis
      by (simp add: known_artifact_references_def map_artifact_references_def Let_def
          envelope_kind_on_key py_get_on_key lists)
  next
    case 3
    then show ?thesis
      by (simp add: known_artifact_references_def map_artifact_references_def Let_def
          envelope_kind_on_key py_get_on_key nested)
  next
    case 4
    then show ?thesis
      by (simp add: known_artifact_references_def map_artifact_references_def Let_def)
  qed
qed

subsection \<open>What leaves the service carries no private field\<close>

definition public_fields_only :: "json_dict \<Rightarrow> bool" where
  "public_fields_only d \<longleftrightarrow> (\<forall>k\<in>set (map fst d). k \<notin> set PRIVATE_ARTIFACT_FIELDS)"

text \<open>Every object of an envelope that describes an artifact.\<close>

definition delivered_objects :: "json_dict \<Rightarrow> json_dict list" where
  "delivered_objects result =
     dicts_in [py_get result ''artifact''] @ dicts_in (list_items (py_get result ''artifacts''))
     @ concat (map (\<lambda>collection. dicts_in (list_items (py_get result collection))
                      @ nested_artifact_references (list_items (py_get result collection)))
                 [''audios'', ''items''])"

lemma strip_public [simp]: "public_fields_only (strip_private_fields d)"
  by (auto simp: public_fields_only_def strip_private_fields_def)

lemma on_key_public: "public_fields_only (on_key k f d) \<longleftrightarrow> public_fields_only d"
  by (simp only: public_fields_only_def on_key_keys)

lemma py_set_public:
  "k \<notin> set PRIVATE_ARTIFACT_FIELDS \<Longrightarrow> public_fields_only d \<Longrightarrow> public_fields_only (py_set d k v)"
  unfolding public_fields_only_def py_set_keys by blast

lemma project_reference_public: "public_fields_only (project_reference now by_id reference)"
  unfolding project_reference_def project_unavailable_def project_current_lifecycle_def Let_def
  by (auto intro!: py_set_public simp: PRIVATE_ARTIFACT_FIELDS_def split: option.split)

lemma delivered_objects_strip:
  "d \<in> set (delivered_objects (strip_known_delivery_credentials result)) \<Longrightarrow> public_fields_only d"
proof -
  assume d: "d \<in> set (delivered_objects (strip_known_delivery_credentials result))"
  let ?item = "\<lambda>item. on_key ''artifact'' (on_dict strip_private_fields) (strip_private_fields item)"
  have single: "dicts_in [on_dict f v] = map f (dicts_in [v])" for f v
    using dicts_in_on_dict [of f "[v]"] by simp
  have nested: "public_fields_only d"
    if "d \<in> set (nested_artifact_references (map (on_dict ?item) items))" for items d
    using that
    by (auto simp: nested_artifact_references_def dicts_in_on_dict py_get_on_key single)
  from d show ?thesis
    by (auto simp: delivered_objects_def strip_known_delivery_credentials_def Let_def py_get_on_key
        single list_items_on_list dicts_in_on_dict on_key_public dest: nested)
qed

lemma delivered_objects_map:
  assumes f: "\<And>d. public_fields_only (f d)"
    and all: "\<And>d. d \<in> set (delivered_objects result) \<Longrightarrow> public_fields_only d"
    and d: "d \<in> set (delivered_objects (map_artifact_references f result))"
  shows "public_fields_only d"
proof -
  have single: "dicts_in [on_dict f v] = map f (dicts_in [v])" for f v
    using dicts_in_on_dict [of f "[v]"] by simp
  have all': "d \<in> set (dicts_in [py_get result ''artifact'']) \<or> d \<in> set (dicts_in (list_items (py_get result ''artifacts'')))
      \<or> (\<exists>c\<in>{''audios'', ''items''}. d \<in> set (dicts_in (list_items (py_get result c)))
            \<or> d \<in> set (nested_artifact_references (list_items (py_get result c)))) \<Longrightarrow> public_fields_only d" for d
    using all [of d] by (auto simp: delivered_objects_def)
  from d show ?thesis
    unfolding map_artifact_references_def Let_def
    by (auto simp: delivered_objects_def py_get_on_key single list_items_on_list dicts_in_on_dict
        nested_on_dict on_key_public f all' split: if_splits)
qed

lemma delivered_objects_freeze:
  assumes all: "\<And>d. d \<in> set (delivered_objects result) \<Longrightarrow> public_fields_only d"
    and d: "d \<in> set (delivered_objects (freeze_media_derivative_artifact result))"
  shows "public_fields_only d"
proof -
  have single: "dicts_in [on_dict f v] = map f (dicts_in [v])" for f v
    using dicts_in_on_dict [of f "[v]"] by simp
  have keep: "public_fields_only d \<Longrightarrow> public_fields_only (filter P d)" for P d
    by (auto simp: public_fields_only_def)
  have "public_fields_only x" if "x \<in> set (dicts_in [py_get result ''artifact''])" for x
    using that by (intro all) (simp add: delivered_objects_def)
  with d show ?thesis
    by (auto simp: delivered_objects_def freeze_media_derivative_artifact_def py_get_on_key single
        intro: keep all)
qed

lemma project_objects_public:
  assumes "is_known_artifact_envelope result"
    and "d \<in> set (delivered_objects (project_media_artifact_lifecycle artifacts now site_id run_id result))"
  shows "public_fields_only d"
proof (cases "is_media_derivative_envelope (strip_known_delivery_credentials result)")
  case True
  with assms show ?thesis
    by (simp add: project_media_artifact_lifecycle_def Let_def)
       (rule delivered_objects_freeze [OF delivered_objects_strip])
next
  case False
  with assms show ?thesis
    by (simp add: project_media_artifact_lifecycle_def Let_def)
       (rule delivered_objects_map [OF project_reference_public delivered_objects_strip])
qed

text \<open>The status an overlay shows is never a live one for an artifact past its expiry.\<close>

lemma current_status_expired:
  "ma_expires_at artifact \<le> now \<or> ma_purged_at artifact \<noteq> None \<Longrightarrow>
     current_artifact_status now artifact = ''purged'' \<or> current_artifact_status now artifact = ''expired''"
  by (auto simp: current_artifact_status_def)

lemma project_reference_status:
  "py_get (project_reference now by_id reference) ''status'' =
     JStr (case row_get ma_artifact_id (artifact_id_of reference) by_id of
             None \<Rightarrow> ''unavailable'' | Some a \<Rightarrow> current_artifact_status now a)"
  by (simp add: project_reference_def project_unavailable_def project_current_lifecycle_def Let_def
      split: option.split)

lemma artifacts_by_id_owner:
  "row_get ma_artifact_id i (artifacts_by_id site_id run_id ids artifacts) = Some a \<Longrightarrow>
     a \<in> set artifacts \<and> ma_site_id a = site_id \<and> ma_run_id a = run_id \<and> ma_artifact_id a = i"
  by (auto dest!: row_get_Some simp: artifacts_by_id_def)

lemma bounded_unique_length:
  "length ids \<le> MEDIA_ARTIFACT_PROJECTION_MAX_IDS \<Longrightarrow>
     length (bounded_unique_loop references ids) \<le> MEDIA_ARTIFACT_PROJECTION_MAX_IDS"
  by (induction references ids rule: bounded_unique_loop.induct) (auto simp: Let_def)

lemma bounded_unique_distinct: "distinct ids \<Longrightarrow> distinct (bounded_unique_loop references ids)"
  by (induction references ids rule: bounded_unique_loop.induct) (auto simp: Let_def)

lemma projected_reference_live:
  assumes known: "is_known_artifact_envelope result" and other: "\<not> is_media_derivative_envelope result"
    and reference: "reference \<in> set (known_artifact_references
          (project_media_artifact_lifecycle artifacts now site_id run_id result))"
  shows "py_get reference ''status'' = JStr ''unavailable''
    \<or> (\<exists>a\<in>set artifacts. ma_site_id a = site_id \<and> ma_run_id a = run_id
          \<and> py_get reference ''status'' = JStr (current_artifact_status now a))"
proof -
  have "\<not> is_media_derivative_envelope (strip_known_delivery_credentials result)"
    using other by (simp add: is_media_derivative_envelope_def)
  with known reference obtain by_id q where
    by_id: "by_id = artifacts_by_id site_id run_id (bounded_unique_artifact_ids
        (known_artifact_references (strip_known_delivery_credentials result))) artifacts"
    and q: "reference = project_reference now by_id q"
    by (auto simp: project_media_artifact_lifecycle_def Let_def references_map)
  show ?thesis
  proof (cases "row_get ma_artifact_id (artifact_id_of q) by_id")
    case None
    then show ?thesis by (simp add: q project_reference_status)
  next
    case (Some a)
    then have "a \<in> set artifacts" "ma_site_id a = site_id" "ma_run_id a = run_id"
      using artifacts_by_id_owner by_id by blast+
    with Some show ?thesis by (auto simp: q project_reference_status)
  qed
qed

subsection \<open>Properties\<close>

lemma projection_keeps_other_keys:
  assumes "k \<notin> {''artifact'', ''artifacts'', ''audios'', ''items''}"
  shows "py_get (project_media_artifact_lifecycle artifacts now site_id run_id result) k = py_get result k"
proof -
  have strip: "py_get (strip_known_delivery_credentials d) k = py_get d k"
    and freeze: "py_get (freeze_media_derivative_artifact d) k = py_get d k"
    and overlay: "py_get (map_artifact_references f d) k = py_get d k" for d f
    using assms by (auto simp: strip_known_delivery_credentials_def freeze_media_derivative_artifact_def
        map_artifact_references_def Let_def py_get_on_key)
  show ?thesis by (simp add: project_media_artifact_lifecycle_def Let_def strip freeze overlay)
qed

lemma frozen_artifact_fields:
  assumes "is_media_derivative_envelope result"
    and "py_get (project_media_artifact_lifecycle artifacts now site_id run_id result) ''artifact'' = JObj d"
  shows "set (map fst d) \<subseteq> set MEDIA_DERIVATIVE_PUBLIC_ARTIFACT_FIELDS"
proof -
  have "is_known_artifact_envelope result"
    using assms(1) by (simp add: is_known_artifact_envelope_def is_media_derivative_envelope_def)
  with assms show ?thesis
    by (auto simp: project_media_artifact_lifecycle_def is_media_derivative_envelope_def Let_def
        freeze_media_derivative_artifact_def py_get_on_key on_dict_def split: json.splits)
qed

text \<open>C22: In a media envelope the service knows, the objects that describe artifacts (\<open>artifact\<close>, the members of
  \<open>artifacts\<close>, \<open>audios\<close> and \<open>items\<close>, and the \<open>artifact\<close> of an audio or item) leave it without storage keys, URLs, tokens,
  purge bookkeeping and inline bytes, whatever the stored result contains.  The artifact of a derivative shows nothing
  but its public descriptor; any other artifact reference shows \<open>unavailable\<close> or the present state of a row of the same
  site and run, which is never a live one past its deadline.  The projection goes no further: every other field of the
  envelope, and every result that is not such an envelope, passes through as it was stored.\<close>

theorem projection_removes_private_fields:
  assumes "result' = project_media_artifact_lifecycle artifacts now site_id run_id result"
  shows "(\<not> is_known_artifact_envelope result \<longrightarrow> result' = result)
    \<and> (\<forall>k. k \<notin> {''artifact'', ''artifacts'', ''audios'', ''items''} \<longrightarrow> py_get result' k = py_get result k)
    \<and> (is_known_artifact_envelope result \<longrightarrow>
         (\<forall>d\<in>set (delivered_objects result'). \<forall>k\<in>set PRIVATE_ARTIFACT_FIELDS. map_of d k = None))
    \<and> (is_media_derivative_envelope result \<longrightarrow>
         (\<forall>d. py_get result' ''artifact'' = JObj d \<longrightarrow> set (map fst d) \<subseteq> set MEDIA_DERIVATIVE_PUBLIC_ARTIFACT_FIELDS))
    \<and> (is_known_artifact_envelope result \<and> \<not> is_media_derivative_envelope result \<longrightarrow>
         (\<forall>reference\<in>set (known_artifact_references result'). \<exists>status. py_get reference ''status'' = JStr status \<and>
            (status = ''unavailable''
             \<or> (\<exists>a\<in>set artifacts. ma_site_id a = site_id \<and> ma_run_id a = run_id
                  \<and> status = current_artifact_status now a
                  \<and> (ma_expires_at a \<le> now \<or> ma_purged_at a \<noteq> None \<longrightarrow> status \<in> {''purged'', ''expired''})))))"
proof (intro conjI impI)
  assume "\<not> is_known_artifact_envelope result"
  then show "result' = result" by (simp add: assms project_media_artifact_lifecycle_def)
next
  show "\<forall>k. k \<notin> {''artifact'', ''artifacts'', ''audios'', ''items''} \<longrightarrow> py_get result' k = py_get result k"
    unfolding assms using projection_keeps_other_keys by blast
next
  assume "is_known_artifact_envelope result"
  from project_objects_public [OF this]
  show "\<forall>d\<in>set (delivered_objects result'). \<forall>k\<in>set PRIVATE_ARTIFACT_FIELDS. map_of d k = None"
    unfolding assms by (fastforce simp: public_fields_only_def map_of_eq_None_iff)
next
  assume "is_media_derivative_envelope result"
  then show "\<forall>d. py_get result' ''artifact'' = JObj d \<longrightarrow> set (map fst d) \<subseteq> set MEDIA_DERIVATIVE_PUBLIC_ARTIFACT_FIELDS"
    unfolding assms using frozen_artifact_fields by blast
next
  assume "is_known_artifact_envelope result \<and> \<not> is_media_derivative_envelope result"
  then show "\<forall>reference\<in>set (known_artifact_references result'). \<exists>status. py_get reference ''status'' = JStr status \<and>
      (status = ''unavailable'' \<or> (\<exists>a\<in>set artifacts. ma_site_id a = site_id \<and> ma_run_id a = run_id
          \<and> status = current_artifact_status now a
          \<and> (ma_expires_at a \<le> now \<or> ma_purged_at a \<noteq> None \<longrightarrow> status \<in> {''purged'', ''expired''})))"
    unfolding assms using projected_reference_live current_status_expired by blast
qed

definition demo_audio_result :: json_dict where
  "demo_audio_result =
     [(''artifact_type'', JStr ''audio_generation_candidates''),
      (''contract_version'', JStr ''audio_generation_result.v1''),
      (''audios'', JList [JObj [(''audio_url'', JStr ''https://x''), (''artifact'',
          JObj [(''artifact_id'', JStr ''a1''), (''storage_key'', JStr ''k'')])]])]"

theorem projection_removes_private_fields_witness:
  "map_of (project_reference 5 [] [(''artifact_id'', JStr ''a1'')]) ''storage_key'' = None
   \<and> py_get (project_media_artifact_lifecycle [] 5 ''site'' ''run'' demo_audio_result) ''contract_version''
       = JStr ''audio_generation_result.v1''"
proof -
  have known: "is_known_artifact_envelope demo_audio_result"
    by (simp add: is_known_artifact_envelope_def envelope_kind_def demo_audio_result_def py_get_def
        AUDIO_GENERATION_ENVELOPE_def)
  have obj: "project_reference 5 [] [(''artifact_id'', JStr ''a1'')] \<in>
      set (delivered_objects (project_media_artifact_lifecycle [] 5 ''site'' ''run'' demo_audio_result))"
    by code_simp
  have key: "''storage_key'' \<in> set PRIVATE_ARTIFACT_FIELDS" by (simp add: PRIVATE_ARTIFACT_FIELDS_def)
  have version: "py_get demo_audio_result ''contract_version'' = JStr ''audio_generation_result.v1''"
    by (simp add: demo_audio_result_def py_get_def)
  from projection_removes_private_fields [OF refl, of demo_audio_result "[]" 5 "''site''" "''run''"] known obj key version
  show ?thesis by simp
qed

end
