(* ===== verification/RunLifecycle.thy ===== *)
theory RunLifecycle
  imports RunIdentity AnalysisResult MediaProjection
begin

section \<open>Run lifecycle service (app/domain/runtime/run\_lifecycle.py)\<close>

text \<open>
  Durable creation, wake-up signals, claiming and executing queued runs, cancellation, results and
  retention.  The queue behind the wake-up signal is an interface with two implementations in the
  source, a deque and a Redis list; a signal is only a hint, the run table is the truth.  The claimed
  run's execution (\<open>claimed_run_executor\<close>, injected into the service) is an argument, and so is the injected result
  projector of \<open>get_run_result\<close>, whose default is \<open>project_media_artifact_lifecycle\<close>.
\<close>

subsection \<open>The wake-up queue\<close>

datatype runtime_queue_error = RuntimeQueueError string

text \<open>\<open>InMemoryRuntimeQueue\<close>: a deque; the timeout is ignored.\<close>

definition in_memory_publish :: "string \<Rightarrow> string list \<Rightarrow> (runtime_queue_error, string list) outcome" where
  "in_memory_publish run_id items = Return (items @ [run_id])"

definition in_memory_consume ::
    "int \<Rightarrow> string list \<Rightarrow> (runtime_queue_error, string option \<times> string list) outcome" where
  "in_memory_consume timeout_seconds items =
     (case items of [] \<Rightarrow> Return (None, []) | item # rest \<Rightarrow> Return (Some item, rest))"

text \<open>
  \<open>RedisRuntimeQueue\<close>: \<open>LPUSH\<close> at the head of the list, \<open>RPOP\<close> or \<open>BRPOP\<close> from its tail.  Whether the
  server answers is the first argument; a \<open>RedisError\<close> leaves the list alone.  A blocking pop that
  finds the list empty until its timeout returns nothing.
\<close>

definition redis_publish ::
    "string option \<Rightarrow> string \<Rightarrow> string list \<Rightarrow> (runtime_queue_error, string list) outcome" where
  "redis_publish redis_error run_id items =
     (case redis_error of
        Some message \<Rightarrow> Raise (RuntimeQueueError message)
      | None \<Rightarrow> Return (run_id # items))"

definition redis_consume ::
    "string option \<Rightarrow> int \<Rightarrow> string list \<Rightarrow> (runtime_queue_error, string option \<times> string list) outcome" where
  "redis_consume redis_error timeout_seconds items =
     (case redis_error of
        Some message \<Rightarrow> Raise (RuntimeQueueError message)
      | None \<Rightarrow> if items = [] then Return (None, []) else Return (Some (last items), butlast items))"

definition publish_queue_signal ::
    "(string \<Rightarrow> 'q \<Rightarrow> (runtime_queue_error, 'q) outcome) option \<Rightarrow> string \<Rightarrow> 'q \<Rightarrow> 'q" where
  "publish_queue_signal publish run_id queue =
     (case publish of
        None \<Rightarrow> queue
      | Some p \<Rightarrow> (case p run_id queue of Inl _ \<Rightarrow> queue | Inr queue' \<Rightarrow> queue'))"

definition consume_queue_signal ::
    "(int \<Rightarrow> 'q \<Rightarrow> (runtime_queue_error, string option \<times> 'q) outcome) option \<Rightarrow> int \<Rightarrow> 'q
      \<Rightarrow> string option \<times> 'q" where
  "consume_queue_signal consume timeout_seconds queue =
     (case consume of
        None \<Rightarrow> (None, queue)
      | Some c \<Rightarrow> (case c timeout_seconds queue of Inl _ \<Rightarrow> (None, queue) | Inr result \<Rightarrow> result))"

text \<open>The queue interface: a published signal is the next one a consumer of an empty queue gets, and
  signals come out in the order they were published.\<close>

locale wakeup_queue =
  fixes publish :: "string \<Rightarrow> 'q \<Rightarrow> (runtime_queue_error, 'q) outcome"
    and consume :: "int \<Rightarrow> 'q \<Rightarrow> (runtime_queue_error, string option \<times> 'q) outcome"
    and contents :: "'q \<Rightarrow> string list"
  assumes publish_appends: "publish run_id q = Inr q' \<Longrightarrow> contents q' = contents q @ [run_id]"
    and consume_first: "consume t q = Inr (x, q') \<Longrightarrow>
      (case contents q of [] \<Rightarrow> x = None \<and> contents q' = []
       | item # rest \<Rightarrow> x = Some item \<and> contents q' = rest)"
begin

lemma signal_roundtrip:
  "contents q = [] \<Longrightarrow> publish run_id q = Inr q' \<Longrightarrow> consume t q' = Inr (x, q'') \<Longrightarrow>
     x = Some run_id \<and> contents q'' = []"
  using consume_first [of t q' x q''] publish_appends [of run_id q q'] by auto

lemma consume_member:
  "consume t q = Inr (Some run_id, q') \<Longrightarrow> run_id \<in> set (contents q)"
  using consume_first [of t q "Some run_id" q'] by (auto split: list.splits)

end

interpretation in_memory: wakeup_queue in_memory_publish in_memory_consume "\<lambda>items. items"
  by unfold_locales (auto simp: in_memory_publish_def in_memory_consume_def split: list.splits)

interpretation redis: wakeup_queue "redis_publish err" "redis_consume err" rev for err
proof unfold_locales
  show "redis_publish err run_id q = Inr q' \<Longrightarrow> rev q' = rev q @ [run_id]" for run_id q q'
    by (auto simp: redis_publish_def split: option.splits)
  show "redis_consume err t q = Inr (x, q') \<Longrightarrow>
      (case rev q of [] \<Rightarrow> x = None \<and> rev q' = [] | item # rest \<Rightarrow> x = Some item \<and> rev q' = rest)" for t q x q'
    by (cases q rule: rev_cases) (auto simp: redis_consume_def split: option.splits)
qed

subsection \<open>Creation and worker processing\<close>

definition create_durable_run ::
    "instant \<Rightarrow> instant \<Rightarrow> run_command \<Rightarrow> run_table \<Rightarrow> (db_error, run_record \<times> run_table) outcome" where
  "create_durable_run now db_now command rows = create_run now db_now command rows"

definition cancel_if_requested :: "instant \<Rightarrow> string \<Rightarrow> run_table \<Rightarrow> bool \<times> run_table" where
  "cancel_if_requested now run_id rows =
     (case get_run_row run_id rows of
        None \<Rightarrow> (False, rows)
      | Some run \<Rightarrow>
          if r_cancel_requested_at run = None \<or> r_status run \<noteq> ''running'' then (False, rows)
          else (True, save_run (mark_run_canceled now ''run canceled before execution completed'' run) rows))"

text \<open>
  One pass of a worker: a signalled run is tried first unless its site already runs the allowed
  number of media derivatives, otherwise the oldest runnable run is claimed.  \<open>clk\<close> gives the clock
  reads in order.
\<close>

definition claim_for_worker ::
    "int \<Rightarrow> (nat \<Rightarrow> instant) \<Rightarrow> string option \<Rightarrow> run_table \<Rightarrow> run_record option \<times> run_table" where
  "claim_for_worker running_limit clk signaled_run_id rows =
     (let (run, rows) =
            (if or_empty signaled_run_id = [] then (None, rows)
             else (let run_id = or_empty signaled_run_id in
                   case get_run_row run_id rows of
                     Some candidate \<Rightarrow>
                       if r_execution_kind candidate = ''media_derivative''
                          \<and> running_limit \<le> count_running_media_derivative_runs (r_site_id candidate) rows
                       then (None, rows)
                       else claim_run_if_queued (clk 0) (clk 1) run_id rows
                   | None \<Rightarrow> claim_run_if_queued (clk 0) (clk 1) run_id rows))
      in case run of
           Some r \<Rightarrow> (Some r, rows)
         | None \<Rightarrow> claim_next_queued_run (Some running_limit) (clk 2) (clk 3) rows)"

definition process_single_queued_run ::
    "int \<Rightarrow> (run_record \<Rightarrow> run_table \<Rightarrow> run_record \<times> run_table) \<Rightarrow> (nat \<Rightarrow> instant) \<Rightarrow> string option
      \<Rightarrow> run_table \<Rightarrow> (string \<times> string \<times> string) option \<times> run_table" where
  "process_single_queued_run running_limit claimed_run_executor clk signaled_run_id rows =
     (case claim_for_worker running_limit clk signaled_run_id rows of
        (None, rows') \<Rightarrow> (None, rows')
      | (Some run, rows') \<Rightarrow>
          (let (run', rows'') = claimed_run_executor run rows' in
           (Some (r_run_id run', r_status run', r_trace_id run'), rows'')))"

text \<open>
  The drain loop: only the first consume may block.  \<open>signals i t\<close> is what the i-th consume with
  timeout \<open>t\<close> yields.
\<close>

fun process_queued_loop ::
    "nat \<Rightarrow> nat \<Rightarrow> int \<Rightarrow> int \<Rightarrow> (run_record \<Rightarrow> run_table \<Rightarrow> run_record \<times> run_table)
      \<Rightarrow> (nat \<Rightarrow> nat \<Rightarrow> instant) \<Rightarrow> (nat \<Rightarrow> int \<Rightarrow> string option) \<Rightarrow> run_table
      \<Rightarrow> (string \<times> string \<times> string) list \<times> run_table" where
  "process_queued_loop 0 i timeout limit executor clks signals rows = ([], rows)"
| "process_queued_loop (Suc n) i timeout limit executor clks signals rows =
     (case process_single_queued_run limit executor (clks i) (signals i timeout) rows of
        (None, rows') \<Rightarrow> ([], rows')
      | (Some result, rows') \<Rightarrow>
          (let (results, rows'') = process_queued_loop n (Suc i) 0 limit executor clks signals rows'
           in (result # results, rows'')))"

definition process_queued_runs ::
    "int \<Rightarrow> int \<Rightarrow> int \<Rightarrow> (run_record \<Rightarrow> run_table \<Rightarrow> run_record \<times> run_table)
      \<Rightarrow> (nat \<Rightarrow> nat \<Rightarrow> instant) \<Rightarrow> (nat \<Rightarrow> int \<Rightarrow> string option) \<Rightarrow> run_table
      \<Rightarrow> (string \<times> string \<times> string) list \<times> run_table" where
  "process_queued_runs max_runs timeout_seconds limit executor clks signals rows =
     process_queued_loop (nat (max 1 max_runs)) 0 (max 0 timeout_seconds) limit executor clks signals rows"

definition process_next_queued_run ::
    "int \<Rightarrow> int \<Rightarrow> (run_record \<Rightarrow> run_table \<Rightarrow> run_record \<times> run_table)
      \<Rightarrow> (nat \<Rightarrow> nat \<Rightarrow> instant) \<Rightarrow> (nat \<Rightarrow> int \<Rightarrow> string option) \<Rightarrow> run_table
      \<Rightarrow> (string \<times> string \<times> string) option \<times> run_table" where
  "process_next_queued_run timeout_seconds limit executor clks signals rows =
     (case process_queued_runs 1 timeout_seconds limit executor clks signals rows of
        ([], rows') \<Rightarrow> (None, rows')
      | (result # _, rows') \<Rightarrow> (Some result, rows'))"

text \<open>The limit the service is configured with.\<close>

definition configured_running_limit :: "int \<Rightarrow> int" where
  "configured_running_limit limit = max 1 limit"

subsection \<open>Public reads and cancellation\<close>

definition get_site_scoped_run ::
    "run_table \<Rightarrow> string \<Rightarrow> string option \<Rightarrow> (runtime_error, run_record) outcome" where
  "get_site_scoped_run rows run_id site_id =
     (case get_run_row run_id rows of
        None \<Rightarrow> Raise (RuntimeRunNotFoundError run_id)
      | Some run \<Rightarrow>
          if or_empty site_id \<noteq> [] \<and> r_site_id run \<noteq> or_empty site_id
          then Raise (RuntimeRunNotFoundError run_id) else Return run)"

definition list_provider_calls :: "string \<Rightarrow> provider_call list \<Rightarrow> provider_call list" where
  "list_provider_calls run_id calls = sort_key pc_id (filter (\<lambda>c. pc_run_id c = run_id) calls)"

definition get_run :: "instant \<Rightarrow> string \<Rightarrow> string option \<Rightarrow> provider_call list \<Rightarrow> run_table
    \<Rightarrow> (runtime_error, json) outcome" where
  "get_run now run_id site_id calls rows =
     (case get_site_scoped_run rows run_id site_id of
        Inl e \<Rightarrow> Raise e
      | Inr run \<Rightarrow>
          (let provider_calls = list_provider_calls run_id calls;
               failure_details = build_failure_details run provider_calls
           in Return (JObj
             [(''run_id'', JStr (r_run_id run)),
              (''canonical_run_id'', JStr (or_empty (r_canonical_run_id run))),
              (''site_id'', JStr (r_site_id run)),
              (''ability_name'', JStr (r_ability_name run)),
              (''skill_id'', JStr (or_empty (r_skill_id run))),
              (''workflow_id'', JStr (or_empty (r_workflow_id run))),
              (''contract_version'', JStr (or_empty (r_contract_version run))),
              (''channel'', JStr (r_channel run)),
              (''execution_kind'', JStr (r_execution_kind run)),
              (''execution_tier'', JStr (r_execution_tier run)),
              (''execution_pattern'', JStr (public_execution_pattern (r_execution_pattern run))),
              (''data_classification'', JStr (r_data_classification run)),
              (''profile_id'', JStr (r_profile_id run)),
              (''status'', JStr (r_status run)),
              (''idempotency_key'', json_or_null (r_idempotency_key run)),
              (''trace_id'', JStr (r_trace_id run)),
              (''provider_id'', json_or_null (r_selected_provider_id run)),
              (''model_id'', json_or_null (r_selected_model_id run)),
              (''instance_id'', json_or_null (r_selected_instance_id run)),
              (''fallback_used'', JBool (r_fallback_used run)),
              (''error_code'', json_or_null (r_error_code run)),
              (''error_message'', json_or_null (r_error_message run)),
              (''error_stage'', JStr (fd_error_stage failure_details)),
              (''retryable'', JBool (fd_retryable failure_details)),
              (''retry_exhausted'', JBool (fd_retry_exhausted failure_details)),
              (''started_at'', serialize_timestamp (Some (r_started_at run))),
              (''finished_at'', serialize_timestamp (r_finished_at run)),
              (''provider_call_count'', JInt (int (length provider_calls))),
              (''task_backend'', build_task_backend_payload run),
              (''run_lifecycle'', JObj (build_run_lifecycle now run))])))"

text \<open>A provider call as the result lists it; the text Python prints for the cost is an argument.\<close>

definition provider_call_payload :: "(rat \<Rightarrow> string) \<Rightarrow> provider_call \<Rightarrow> json" where
  "provider_call_payload float_text call =
     JObj [(''provider_id'', JStr (pc_provider_id call)),
           (''model_id'', JStr (pc_model_id call)),
           (''instance_id'', JStr (pc_instance_id call)),
           (''region'', JStr (pc_region call)),
           (''latency_ms'', JInt (pc_latency_ms call)),
           (''tokens_in'', JInt (pc_tokens_in call)),
           (''tokens_out'', JInt (pc_tokens_out call)),
           (''cost'', JFloat (pc_cost call) (float_text (pc_cost call))),
           (''retry_count'', JInt (pc_retry_count call)),
           (''fallback_used'', JBool (pc_fallback_used call)),
           (''error_code'', json_or_null (pc_error_code call)),
           (''error_stage'', JStr (te_error_stage (get_error_taxonomy (pc_error_code call)))),
           (''retryable'', JBool (te_retryable (get_error_taxonomy (pc_error_code call))))]"

definition default_result_projector ::
    "media_artifact list \<Rightarrow> instant \<Rightarrow> run_record \<Rightarrow> json_dict \<Rightarrow> json_dict" where
  "default_result_projector artifacts now run result =
     project_media_artifact_lifecycle artifacts now (r_site_id run) (r_run_id run) result"

definition get_run_result ::
    "(run_record \<Rightarrow> json_dict \<Rightarrow> json_dict) \<Rightarrow> (rat \<Rightarrow> string) \<Rightarrow> instant \<Rightarrow> string \<Rightarrow> string option
      \<Rightarrow> provider_call list \<Rightarrow> run_table \<Rightarrow> (runtime_error, json) outcome" where
  "get_run_result result_projector float_text now run_id site_id calls rows =
     (case get_site_scoped_run rows run_id site_id of
        Inl e \<Rightarrow> Raise e
      | Inr run \<Rightarrow>
          if is_run_result_expired now run then Raise (RuntimeResultExpiredError run_id)
          else if r_result_json run = None then Raise (RuntimeResultNotReadyError run_id (r_status run))
          else (let provider_calls = list_provider_calls run_id calls;
                    projected_result = result_projector run (dict_or_empty (r_result_json run))
                in case build_analysis_result_envelope projected_result
                          (if r_ability_family run = [] then ''text'' else r_ability_family run)
                          (r_ability_name run) (dict_or_empty (r_input_json run)) of
                     None \<Rightarrow> Raise PythonTypeError
                   | Some result \<Rightarrow> Return (JObj
                       [(''run_id'', JStr (r_run_id run)),
                        (''canonical_run_id'', JStr (or_empty (r_canonical_run_id run))),
                        (''status'', JStr (r_status run)),
                        (''execution_context'', build_execution_context_payload run),
                        (''task_backend'', build_task_backend_payload run),
                        (''run_lifecycle'', JObj (build_run_lifecycle now run)),
                        (''result'', JObj result),
                        (''provider_calls'', JList (map (provider_call_payload float_text) provider_calls))])))"

text \<open>The cancel command's transaction; the response is \<open>get_run\<close> on the committed table.\<close>

definition cancel_run_tx ::
    "instant \<Rightarrow> string \<Rightarrow> string option \<Rightarrow> run_table \<Rightarrow> (runtime_error, run_table) outcome" where
  "cancel_run_tx now run_id site_id rows =
     (case get_site_scoped_run rows run_id site_id of
        Inl e \<Rightarrow> Raise e
      | Inr run \<Rightarrow>
          if \<not> supports_public_cancel (r_execution_pattern run) (run_policy run)
          then Raise (RuntimeCancelNotAllowedError run_id (r_status run))
          else if r_status run = ''queued''
          then Return (save_run (mark_run_canceled now ''run canceled before worker claim'' run) rows)
          else if r_status run = ''running''
          then Return (save_run (request_run_cancel now run) rows)
          else if r_status run = ''canceled'' then Return rows
          else Raise (RuntimeCancelNotAllowedError run_id (r_status run)))"

definition cancel_run ::
    "instant \<Rightarrow> instant \<Rightarrow> string \<Rightarrow> string option \<Rightarrow> provider_call list \<Rightarrow> run_table
      \<Rightarrow> (runtime_error, json) outcome \<times> run_table" where
  "cancel_run now now' run_id site_id calls rows =
     (case cancel_run_tx now run_id site_id rows of
        Inl e \<Rightarrow> (Raise e, rows)
      | Inr rows' \<Rightarrow> (get_run now' run_id site_id calls rows', rows'))"

definition cleanup_expired_run_results :: "instant \<Rightarrow> int \<Rightarrow> run_table \<Rightarrow> int \<times> run_table" where
  "cleanup_expired_run_results now limit rows = purge_expired_run_results now limit rows"

subsection \<open>The worker's claim keeps the table and the media bound\<close>

lemma claim_for_worker_route:
  "claim_for_worker limit clk signal rows = claim_next_queued_run (Some limit) (clk 2) (clk 3) rows
   \<or> (signal \<noteq> None \<and> or_empty signal \<noteq> [] \<and>
      (\<forall>candidate. get_run_row (or_empty signal) rows = Some candidate \<longrightarrow>
         \<not> (r_execution_kind candidate = ''media_derivative''
            \<and> limit \<le> count_running_media_derivative_runs (r_site_id candidate) rows)) \<and>
      claim_for_worker limit clk signal rows =
        (case claim_run_if_queued (clk 0) (clk 1) (or_empty signal) rows of
           (Some r, rows') \<Rightarrow> (Some r, rows')
         | (None, rows') \<Rightarrow> claim_next_queued_run (Some limit) (clk 2) (clk 3) rows'))"
  by (cases signal) (auto simp: claim_for_worker_def Let_def split: option.split prod.split)

lemma claim_run_if_queued_loses:
  "table_wf rows \<Longrightarrow> run_id \<noteq> [] \<Longrightarrow> claim_run_if_queued now now' run_id rows = (None, rows') \<Longrightarrow> rows' = rows"
  using claim_run_if_queued_cases [OF table_wf_distinct, of rows run_id now now']
    run_claim.claim_wins_def [of "(now, now')" run_id rows] row_get_None [of r_run_id run_id rows]
  by (auto simp: get_run_row_def split: if_splits)

lemma claim_run_if_queued_media_within:
  assumes wf: "table_wf rows" and within: "media_within limit rows" and ne: "run_id \<noteq> []"
    and below: "\<And>c. get_run_row run_id rows = Some c \<Longrightarrow>
      \<not> (r_execution_kind c = ''media_derivative'' \<and> limit \<le> count_running_media_derivative_runs (r_site_id c) rows)"
  shows "media_within limit (snd (claim_run_if_queued now now' run_id rows))"
proof (cases "get_run_row run_id rows")
  case None
  then show ?thesis
    using within unfolding claim_run_if_queued_def
    by (subst claim_queued_run_cases [OF table_wf_distinct [OF wf] _ ne]) auto
next
  case (Some c)
  note c = get_run_row_member [OF Some]
  let ?cond = "\<lambda>r. r_run_id r = run_id \<and> queued_claimable now r"
  have "count_running_media_derivative_runs s (rows_update ?cond (start_processing now') rows) \<le> limit" for s
  proof -
    have "count_running_media_derivative_runs s (rows_update ?cond (start_processing now') rows)
        \<le> count_running_media_derivative_runs s rows
          + (if r_site_id c = s \<and> r_execution_kind c = ''media_derivative'' then 1 else 0)"
      using c by (intro count_after_start [OF table_wf_distinct [OF wf]]) auto
    moreover have "count_running_media_derivative_runs s rows \<le> limit"
      using within by (simp add: media_within_def)
    ultimately show ?thesis using below [OF Some] by (auto split: if_splits)
  qed
  with within show ?thesis
    unfolding claim_run_if_queued_def
    by (subst claim_queued_run_cases [OF table_wf_distinct [OF wf] _ ne])
       (auto simp: media_within_def split: option.split)
qed

lemma worker_claim_table_wf:
  assumes wf: "table_wf rows"
  shows "table_wf (snd (claim_for_worker limit clk signal rows))"
  using claim_for_worker_route [of limit clk signal rows]
proof
  assume "claim_for_worker limit clk signal rows = claim_next_queued_run (Some limit) (clk 2) (clk 3) rows"
  with wf show ?thesis by (simp add: claim_next_table_wf)
next
  assume route: "signal \<noteq> None \<and> or_empty signal \<noteq> [] \<and>
      (\<forall>candidate. get_run_row (or_empty signal) rows = Some candidate \<longrightarrow>
         \<not> (r_execution_kind candidate = ''media_derivative''
            \<and> limit \<le> count_running_media_derivative_runs (r_site_id candidate) rows)) \<and>
      claim_for_worker limit clk signal rows =
        (case claim_run_if_queued (clk 0) (clk 1) (or_empty signal) rows of
           (Some r, rows') \<Rightarrow> (Some r, rows')
         | (None, rows') \<Rightarrow> claim_next_queued_run (Some limit) (clk 2) (clk 3) rows')"
  then have "table_wf (snd (claim_run_if_queued (clk 0) (clk 1) (or_empty signal) rows))"
    using wf by (simp add: claim_run_if_queued_table_wf)
  with route show ?thesis
    by (auto simp: claim_next_table_wf split: option.split prod.split)
qed

lemma worker_claim_media_within:
  assumes wf: "table_wf rows" and within: "media_within limit rows" and pos: "0 < limit"
  shows "media_within limit (snd (claim_for_worker limit clk signal rows))"
  using claim_for_worker_route [of limit clk signal rows]
proof
  assume "claim_for_worker limit clk signal rows = claim_next_queued_run (Some limit) (clk 2) (clk 3) rows"
  with assms show ?thesis by (simp add: claim_next_media_within)
next
  assume route: "signal \<noteq> None \<and> or_empty signal \<noteq> [] \<and>
      (\<forall>candidate. get_run_row (or_empty signal) rows = Some candidate \<longrightarrow>
         \<not> (r_execution_kind candidate = ''media_derivative''
            \<and> limit \<le> count_running_media_derivative_runs (r_site_id candidate) rows)) \<and>
      claim_for_worker limit clk signal rows =
        (case claim_run_if_queued (clk 0) (clk 1) (or_empty signal) rows of
           (Some r, rows') \<Rightarrow> (Some r, rows')
         | (None, rows') \<Rightarrow> claim_next_queued_run (Some limit) (clk 2) (clk 3) rows')"
  let ?c = "claim_run_if_queued (clk 0) (clk 1) (or_empty signal) rows"
  have "media_within limit (snd ?c)"
    using route by (intro claim_run_if_queued_media_within [OF wf within]) auto
  moreover have "table_wf (snd ?c)" using route wf by (simp add: claim_run_if_queued_table_wf)
  ultimately show ?thesis
    using route pos by (auto simp: claim_next_media_within split: option.split prod.split)
qed

end
