(* ===== verification/CallbackDelivery.thy ===== *)
theory CallbackDelivery
  imports Secrets RunLifecycle
begin

section \<open>Callback delivery (app/domain/runtime/callback\_delivery.py)\<close>

text \<open>
  A finished run's callback is claimed, checked against the site's current registration, sent by the
  injected dispatcher and settled as delivered, pending with a retry time, or failed.  Claim, send and
  settlement are separate transactions, so a dispatcher may crash or hang in between; a lease recovers
  such a dispatch.  The dispatcher is an argument: it answers with a status code or raises
  \<open>RuntimeCallbackDispatchError\<close>.  A transaction that raises is rolled back.
\<close>

record site_row =
  s_site_id :: string
  s_metadata_json :: "json_dict option"

record registered_config =
  rc_enabled :: bool
  rc_callback_url :: string
  rc_key_id :: string
  rc_secret :: string
  rc_secret_error :: string
  rc_registration_id :: string

record callback_request =
  cr_run_id :: string
  cr_trace_id :: string
  cr_callback_url :: string
  cr_payload :: json_dict
  cr_site_id :: string
  cr_event :: string
  cr_key_id :: string
  cr_secret :: string
  cr_callback_id :: string

datatype dispatch_outcome =
    DispatchResult int
  | RuntimeCallbackDispatchError string string bool

datatype callback_error =
    Rejected runtime_error
  | SecretFailure secret_error

text \<open>The clock reads of one pass, in the order of the code.\<close>

record callback_clock =
  ck_due :: instant
  ck_claim :: instant
  ck_lifecycle :: instant
  ck_projection :: instant
  ck_attempt :: instant

definition RUNTIME_CALLBACK_EVENT :: string where
  "RUNTIME_CALLBACK_EVENT = ''runtime.run.terminal''"

subsection \<open>The site's registration\<close>

text \<open>\<open>a or b\<close>\<close>

definition py_or :: "json \<Rightarrow> json \<Rightarrow> json" where
  "py_or a b = (if py_truthy a then a else b)"

definition stripped :: "json \<Rightarrow> string" where
  "stripped v = py_strip (str_or_empty v)"

definition resolve_registered_callback_config ::
    "crypto \<Rightarrow> encryption_settings \<Rightarrow> site_row \<Rightarrow> (secret_error, registered_config) outcome" where
  "resolve_registered_callback_config lib settings site =
     (let metadata = (case s_metadata_json site of None \<Rightarrow> [] | Some d \<Rightarrow> d);
          callback = as_dict (py_get (as_dict (py_get metadata ''runtime_callbacks'')) ''terminal'');
          enabled_raw = (if py_get callback ''enabled'' = JNull
                         then py_get metadata ''runtime_terminal_callback_enabled''
                         else py_get callback ''enabled'');
          secret_ciphertext = stripped (py_get callback ''secret_ciphertext'');
          legacy_secret = stripped (py_or (py_get callback ''secret'')
                                      (py_get metadata ''runtime_terminal_callback_secret''));
          config = (\<lambda>secret secret_error.
            \<lparr>rc_enabled = (if enabled_raw = JNull then True else py_truthy enabled_raw),
             rc_callback_url = stripped (py_or (py_get callback ''callback_url'')
               (py_or (py_get callback ''url'') (py_get metadata ''runtime_terminal_callback_url''))),
             rc_key_id = stripped (py_or (py_get callback ''key_id'')
               (py_get metadata ''runtime_terminal_callback_key_id'')),
             rc_secret = py_strip secret, rc_secret_error = py_strip secret_error,
             rc_registration_id = stripped (py_or (py_get callback ''registration_id'')
               (py_or (py_get callback ''callback_id'')
                 (py_or (py_get metadata ''runtime_terminal_callback_registration_id'')
                    (py_get metadata ''runtime_terminal_callback_id''))))\<rparr>)
      in if secret_ciphertext \<noteq> []
         then (case decrypt_runtime_terminal_callback_secret lib settings (Some secret_ciphertext) of
                 Inr secret \<Rightarrow> Return (config secret [])
               | Inl (RuntimeError message) \<Rightarrow> Return (config [] message)
               | Inl SecretUnicodeDecodeError \<Rightarrow> Raise SecretUnicodeDecodeError)
         else if legacy_secret \<noteq> []
         then Return (config [] ''terminal callback secret must be re-saved as ciphertext before hosted callbacks can run'')
         else Return (config [] []))"

definition resolve_callback_target ::
    "crypto \<Rightarrow> encryption_settings \<Rightarrow> site_row \<Rightarrow> runtime_request \<Rightarrow> string
      \<Rightarrow> (callback_error, json_dict) outcome" where
  "resolve_callback_target lib settings site q callback_mode =
     (case resolve_registered_callback_config lib settings site of
        Inl e \<Rightarrow> Raise (SecretFailure e)
      | Inr registered \<Rightarrow>
          (let requires_callback = callback_mode \<in> {''polling_preferred'', ''terminal_callback_required''};
               required = (callback_mode = ''terminal_callback_required'');
               reject = (\<lambda>message. Raise (Rejected (RuntimeCallbackConfigurationError (q_site_id q) message)))
           in if q_callback_url q \<noteq> []
              then reject ''runtime callback_url overrides are not accepted; register runtime_callbacks.terminal on the site instead''
              else if \<not> requires_callback then Return []
              else if \<not> rc_enabled registered
              then (if required then reject ''terminal callback is disabled for the site'' else Return [])
              else if rc_secret_error registered \<noteq> [] then reject (rc_secret_error registered)
              else if rc_callback_url registered = [] \<or> rc_key_id registered = [] \<or> rc_secret registered = []
              then (if required
                    then reject ''terminal callback requires registered callback_url, key_id, and secret''
                    else Return [])
              else Return [(''source'', JStr ''site_registered''),
                           (''callback_url'', JStr (rc_callback_url registered)),
                           (''key_id'', JStr (rc_key_id registered)),
                           (''registration_id'', JStr (rc_registration_id registered)),
                           (''registered'', JBool True)]))"

subsection \<open>Claiming\<close>

definition delivery_callback_id :: "string \<Rightarrow> string \<Rightarrow> string" where
  "delivery_callback_id registration_id run_id =
     ''runtime_delivery_'' @ sha256_hex (registration_id @ ''|'' @ run_id @ ''|'' @ RUNTIME_CALLBACK_EVENT)"

definition mark_callback_config_invalid :: "string \<Rightarrow> run_record \<Rightarrow> run_record" where
  "mark_callback_config_invalid message run =
     mark_callback_delivery_failed ''runtime.callback_config_invalid'' message None run"

definition build_callback_payload ::
    "media_artifact list \<Rightarrow> callback_clock \<Rightarrow> run_record \<Rightarrow> json_dict" where
  "build_callback_payload artifacts clk run =
     [(''event'', JStr ''runtime.run.terminal''),
      (''run_id'', JStr (r_run_id run)),
      (''canonical_run_id'', JStr (or_empty (r_canonical_run_id run))),
      (''site_id'', JStr (r_site_id run)),
      (''trace_id'', JStr (r_trace_id run)),
      (''status'', JStr (r_status run)),
      (''error_code'', JStr (or_empty (r_error_code run))),
      (''error_message'', JStr (or_empty (r_error_message run))),
      (''execution_context'', build_execution_context_payload run),
      (''task_backend'', build_task_backend_payload run),
      (''run_lifecycle'', JObj (build_run_lifecycle (ck_lifecycle clk) run)),
      (''result'', JObj (default_result_projector artifacts (ck_projection clk) run
                           (dict_or_empty (r_result_json run))))]"

text \<open>What the checks after a claim decide: a refusal message, or the request to send.\<close>

definition validate_callback_claim ::
    "crypto \<Rightarrow> encryption_settings \<Rightarrow> site_row list \<Rightarrow> media_artifact list \<Rightarrow> callback_clock \<Rightarrow> run_record
      \<Rightarrow> (secret_error, string + callback_request) outcome" where
  "validate_callback_claim lib settings sites artifacts clk run =
     (let callback_target = get_callback_target (run_policy run);
          target = (\<lambda>k. str_or_empty (py_get callback_target k))
      in if target ''source'' \<noteq> ''site_registered''
         then Return (Inl ''persisted terminal callback target is not site-registered'')
         else case row_get s_site_id (r_site_id run) sites of
           None \<Rightarrow> Return (Inl ''registered terminal callback site is unavailable'')
         | Some site \<Rightarrow>
             and_then (resolve_registered_callback_config lib settings site) (\<lambda>registered.
               if \<not> rc_enabled registered \<or> rc_secret_error registered \<noteq> []
                  \<or> rc_callback_url registered = [] \<or> rc_key_id registered = []
                  \<or> rc_secret registered = [] \<or> rc_registration_id registered = []
               then Return (Inl ''terminal callback registration is disabled or incomplete'')
               else if target ''callback_url'' \<noteq> rc_callback_url registered
                  \<or> target ''key_id'' \<noteq> rc_key_id registered
                  \<or> target ''registration_id'' \<noteq> rc_registration_id registered
               then Return (Inl ''persisted terminal callback target no longer matches site registration'')
               else Return (Inr
                 \<lparr>cr_run_id = r_run_id run, cr_trace_id = r_trace_id run,
                  cr_callback_url = target ''callback_url'',
                  cr_payload = build_callback_payload artifacts clk run,
                  cr_site_id = r_site_id run, cr_event = RUNTIME_CALLBACK_EVENT,
                  cr_key_id = target ''key_id'', cr_secret = rc_secret registered,
                  cr_callback_id = delivery_callback_id (rc_registration_id registered) (r_run_id run)\<rparr>)))"

definition claim_next_pending_callback ::
    "crypto \<Rightarrow> encryption_settings \<Rightarrow> site_row list \<Rightarrow> media_artifact list \<Rightarrow> callback_clock \<Rightarrow> run_table
      \<Rightarrow> (secret_error, callback_request option \<times> run_table) outcome" where
  "claim_next_pending_callback lib settings sites artifacts clk rows =
     (case list_due_callback_run_ids 1 (ck_due clk) rows of
        [] \<Rightarrow> Return (None, rows)
      | run_id # _ \<Rightarrow>
          (case claim_callback_dispatch (ck_claim clk) run_id rows of
             (None, rows') \<Rightarrow> Return (None, rows')
           | (Some run, rows') \<Rightarrow>
               and_then (validate_callback_claim lib settings sites artifacts clk run) (\<lambda>verdict.
                 case verdict of
                   Inl message \<Rightarrow> Return (None, save_run (mark_callback_config_invalid message run) rows')
                 | Inr request \<Rightarrow> Return (Some request, rows'))))"

subsection \<open>Settlement\<close>

definition resolve_callback_retry_at ::
    "int \<Rightarrow> int \<Rightarrow> bool \<Rightarrow> instant \<Rightarrow> string \<Rightarrow> run_table \<Rightarrow> instant option" where
  "resolve_callback_retry_at max_attempts retry_backoff_seconds retryable attempted_at run_id rows =
     (case get_run_row run_id rows of
        None \<Rightarrow> None
      | Some run \<Rightarrow>
          if \<not> retryable \<or> max_attempts \<le> r_callback_attempt_count run then None
          else Some (attempted_at + seconds retry_backoff_seconds))"

definition settle_callback ::
    "instant \<Rightarrow> instant option \<Rightarrow> dispatch_outcome \<Rightarrow> string \<Rightarrow> run_table
      \<Rightarrow> json_dict option \<times> run_table" where
  "settle_callback attempted_at retry_at dispatched run_id rows =
     (case get_run_row run_id rows of
        None \<Rightarrow> (None, rows)
      | Some run \<Rightarrow>
          (case dispatched of
             RuntimeCallbackDispatchError error_code message retryable \<Rightarrow>
               (let run' = mark_callback_delivery_failed error_code message retry_at run in
                (Some [(''run_id'', JStr (r_run_id run')),
                       (''callback_status'', JStr (r_callback_status run')),
                       (''trace_id'', JStr (r_trace_id run'))], save_run run' rows))
           | DispatchResult status_code \<Rightarrow>
               (let run' = mark_callback_delivered attempted_at run in
                (Some [(''run_id'', JStr (r_run_id run')),
                       (''callback_status'', JStr (r_callback_status run')),
                       (''trace_id'', JStr (r_trace_id run')),
                       (''status_code'', JInt status_code)], save_run run' rows))))"

text \<open>The constructor clamps the service's bounds.\<close>

definition clamp_max_attempts :: "int \<Rightarrow> int" where
  "clamp_max_attempts n = max 1 n"

definition clamp_retry_backoff_seconds :: "int \<Rightarrow> int" where
  "clamp_retry_backoff_seconds n = max 0 n"

text \<open>One pass, with no other worker between its transactions; a secret failure leaves the pass with
  the claim rolled back.\<close>

definition dispatch_single_pending_callback ::
    "crypto \<Rightarrow> encryption_settings \<Rightarrow> int \<Rightarrow> int \<Rightarrow> (callback_request \<Rightarrow> dispatch_outcome)
      \<Rightarrow> site_row list \<Rightarrow> media_artifact list \<Rightarrow> callback_clock \<Rightarrow> run_table
      \<Rightarrow> (secret_error, json_dict option \<times> run_table) outcome" where
  "dispatch_single_pending_callback lib settings max_attempts backoff dispatcher sites artifacts clk rows =
     and_then (claim_next_pending_callback lib settings sites artifacts clk rows) (\<lambda>(request, rows').
       case request of
         None \<Rightarrow> Return (None, rows')
       | Some req \<Rightarrow>
           (let dispatched = dispatcher req;
                retry_at = (case dispatched of
                  RuntimeCallbackDispatchError _ _ retryable \<Rightarrow>
                    resolve_callback_retry_at max_attempts backoff retryable (ck_attempt clk) (cr_run_id req) rows'
                | DispatchResult _ \<Rightarrow> None)
            in Return (settle_callback (ck_attempt clk) retry_at dispatched (cr_run_id req) rows')))"

fun dispatch_callback_loop ::
    "nat \<Rightarrow> nat \<Rightarrow> (nat \<Rightarrow> run_table \<Rightarrow> (secret_error, json_dict option \<times> run_table) outcome)
      \<Rightarrow> run_table \<Rightarrow> (secret_error, json_dict list) outcome \<times> run_table" where
  "dispatch_callback_loop 0 i pass rows = (Return [], rows)"
| "dispatch_callback_loop (Suc n) i pass rows =
     (case pass i rows of
        Inl e \<Rightarrow> (Raise e, rows)
      | Inr (None, rows') \<Rightarrow> (Return [], rows')
      | Inr (Some result, rows') \<Rightarrow>
          (case dispatch_callback_loop n (Suc i) pass rows' of
             (Inl e, rows'') \<Rightarrow> (Raise e, rows'')
           | (Inr results, rows'') \<Rightarrow> (Return (result # results), rows'')))"

definition recover_stale_callback_dispatches ::
    "instant \<Rightarrow> int \<Rightarrow> run_table \<Rightarrow> run_record list \<times> run_table" where
  "recover_stale_callback_dispatches current_time limit rows =
     reclaim_stale_callback_dispatches current_time limit rows"

definition dispatch_pending_callbacks ::
    "crypto \<Rightarrow> encryption_settings \<Rightarrow> int \<Rightarrow> int \<Rightarrow> (nat \<Rightarrow> callback_request \<Rightarrow> dispatch_outcome) option
      \<Rightarrow> site_row list \<Rightarrow> media_artifact list \<Rightarrow> instant \<Rightarrow> (nat \<Rightarrow> callback_clock) \<Rightarrow> int \<Rightarrow> run_table
      \<Rightarrow> (secret_error, json_dict list) outcome \<times> run_table" where
  "dispatch_pending_callbacks lib settings max_attempts backoff dispatcher sites artifacts now clks max_callbacks rows =
     (case dispatcher of
        None \<Rightarrow> (Return [], rows)
      | Some dispatch \<Rightarrow>
          (let rows' = snd (recover_stale_callback_dispatches now (max 1 max_callbacks) rows)
           in dispatch_callback_loop (nat (max 1 max_callbacks)) 0
                (\<lambda>i. dispatch_single_pending_callback lib settings (clamp_max_attempts max_attempts)
                       (clamp_retry_backoff_seconds backoff) (dispatch i) sites artifacts (clks i))
                rows'))"

subsection \<open>Claims and due runs\<close>

lemma claim_callback_dispatch_cases:
  assumes kd: "keys_distinct r_run_id rows"
  shows "claim_callback_dispatch t run_id rows =
    (case get_run_row run_id rows of
       None \<Rightarrow> (None, rows)
     | Some r \<Rightarrow> if callback_claimable r
                then (Some (start_callback_dispatch t r), callback_claim.claim_rows t run_id rows)
                else (None, rows))"
proof -
  let ?cond = "\<lambda>r. r_run_id r = run_id \<and> callback_claimable r"
  have f: "filter ?cond rows = (case row_get r_run_id run_id rows of None \<Rightarrow> [] | Some r \<Rightarrow> if ?cond r then [r] else [])"
    by (rule filter_unique_key [OF kd]) simp
  have claim: "callback_claim.claim_rows t run_id rows = rows_update ?cond (start_callback_dispatch t) rows"
    by (simp add: callback_claim.claim_rows_def callback_claim_guard_def)
  show ?thesis
  proof (cases "get_run_row run_id rows")
    case None
    then have "rows_update ?cond (start_callback_dispatch t) rows = rows"
      by (intro rows_update_id) (auto simp: get_run_row_def row_get_None)
    with None f show ?thesis by (simp add: claim_callback_dispatch_def get_run_row_def)
  next
    case (Some r)
    then have r: "r \<in> set rows" "r_run_id r = run_id" by (auto dest: get_run_row_member)
    have get: "get_run_row run_id (callback_claim.claim_rows t run_id rows) =
        Some (if callback_claimable r then start_callback_dispatch t r else r)"
      using Some r callback_claim.claim_get [of run_id t run_id rows]
      by (simp add: get_run_row_def callback_claim_guard_def)
    have id: "rows_update ?cond (start_callback_dispatch t) rows = rows" if "\<not> callback_claimable r"
    proof (rule rows_update_id)
      fix q assume q: "q \<in> set rows"
      show "\<not> (r_run_id q = run_id \<and> callback_claimable q)"
        using row_get_unique [OF kd q] Some that by (auto simp: get_run_row_def)
    qed
    show ?thesis
      using Some r f get id claim by (simp add: claim_callback_dispatch_def get_run_row_def)
  qed
qed

lemma due_run:
  assumes "run_id \<in> set (list_due_callback_run_ids limit now rows)"
  shows "\<exists>r\<in>set rows. r_run_id r = run_id \<and> r_finished_at r \<noteq> None \<and> callback_claimable r
    \<and> repo_has_callback_target (run_policy r)
    \<and> (case r_callback_next_attempt_at r of None \<Rightarrow> True | Some t \<Rightarrow> t \<le> now)"
  using assms unfolding list_due_callback_run_ids_def Let_def
  by (auto simp: sql_limit_def dest!: in_set_takeD)

lemma callback_claim_table_wf:
  assumes wf: "table_wf rows"
    and fin: "\<And>r. get_run_row run_id rows = Some r \<Longrightarrow> callback_claimable r \<Longrightarrow> r_finished_at r \<noteq> None"
  shows "table_wf (callback_claim.claim_rows t run_id rows)"
  unfolding callback_claim.claim_rows_def callback_claim_guard_def
proof (rule table_wf_update [OF wf])
  fix r assume r: "r \<in> set rows" "r_run_id r = run_id \<and> callback_claimable r"
  with row_get_unique [OF table_wf_distinct [OF wf] r(1)] have "get_run_row run_id rows = Some r"
    by (simp add: get_run_row_def)
  with r fin table_wf_row [OF wf r(1)] show "run_wf (start_callback_dispatch t r)"
    by (intro start_callback_dispatch_wf) auto
qed simp_all

text \<open>Every outcome of a claim.\<close>

lemma claim_next_cases:
  assumes wf: "table_wf rows"
    and claim: "claim_next_pending_callback lib settings sites artifacts clk rows = Return (request, rows')"
  obtains (idle) "request = None" "rows' = rows"
  | (claimed) r where "r \<in> set rows" "r_finished_at r \<noteq> None" "callback_claimable r"
      "repo_has_callback_target (run_policy r)"
      "get_run_row (r_run_id r) rows = Some r"
      "r_run_id r \<in> set (list_due_callback_run_ids 1 (ck_due clk) rows)"
      "(\<exists>message. validate_callback_claim lib settings sites artifacts clk
             (start_callback_dispatch (ck_claim clk) r) = Return (Inl message) \<and> request = None
           \<and> rows' = save_run (mark_callback_config_invalid message (start_callback_dispatch (ck_claim clk) r))
                       (callback_claim.claim_rows (ck_claim clk) (r_run_id r) rows))
       \<or> (\<exists>req. validate_callback_claim lib settings sites artifacts clk
             (start_callback_dispatch (ck_claim clk) r) = Return (Inr req) \<and> request = Some req
           \<and> rows' = callback_claim.claim_rows (ck_claim clk) (r_run_id r) rows)"
proof (cases "list_due_callback_run_ids 1 (ck_due clk) rows")
  case Nil
  with claim show thesis by (intro idle) (simp_all add: claim_next_pending_callback_def)
next
  case (Cons run_id ids)
  then have mem: "run_id \<in> set (list_due_callback_run_ids 1 (ck_due clk) rows)" by simp
  from due_run [OF mem] obtain r where r: "r \<in> set rows" "r_run_id r = run_id"
    "r_finished_at r \<noteq> None" "callback_claimable r" "repo_has_callback_target (run_policy r)" by blast
  have get: "get_run_row run_id rows = Some r"
    using row_get_unique [OF table_wf_distinct [OF wf] r(1)] r(2) by (simp add: get_run_row_def)
  have step: "and_then (validate_callback_claim lib settings sites artifacts clk (start_callback_dispatch (ck_claim clk) r))
      (\<lambda>verdict. case verdict of
          Inl message \<Rightarrow> Return (None, save_run (mark_callback_config_invalid message
              (start_callback_dispatch (ck_claim clk) r)) (callback_claim.claim_rows (ck_claim clk) run_id rows))
        | Inr request \<Rightarrow> Return (Some request, callback_claim.claim_rows (ck_claim clk) run_id rows)) = Return (request, rows')"
    using claim Cons get r(4)
    by (simp add: claim_next_pending_callback_def claim_callback_dispatch_cases [OF table_wf_distinct [OF wf]])
  show thesis
  proof (rule claimed [OF r(1,3,4,5)])
    show "get_run_row (r_run_id r) rows = Some r" using get r(2) by simp
    show "r_run_id r \<in> set (list_due_callback_run_ids 1 (ck_due clk) rows)" using mem r(2) by simp
    show "(\<exists>message. validate_callback_claim lib settings sites artifacts clk
             (start_callback_dispatch (ck_claim clk) r) = Return (Inl message) \<and> request = None
           \<and> rows' = save_run (mark_callback_config_invalid message (start_callback_dispatch (ck_claim clk) r))
                       (callback_claim.claim_rows (ck_claim clk) (r_run_id r) rows))
       \<or> (\<exists>req. validate_callback_claim lib settings sites artifacts clk
             (start_callback_dispatch (ck_claim clk) r) = Return (Inr req) \<and> request = Some req
           \<and> rows' = callback_claim.claim_rows (ck_claim clk) (r_run_id r) rows)"
      using step r(2)
      by (cases "validate_callback_claim lib settings sites artifacts clk (start_callback_dispatch (ck_claim clk) r)")
         (auto split: sum.splits)
  qed
qed

subsection \<open>Every transaction keeps the table\<close>

lemma mark_invalid_frame [simp]:
  "r_run_id (mark_callback_config_invalid m r) = r_run_id r"
  "r_site_id (mark_callback_config_invalid m r) = r_site_id r"
  "r_idempotency_key (mark_callback_config_invalid m r) = r_idempotency_key r"
  "r_callback_attempt_count (mark_callback_config_invalid m r) = r_callback_attempt_count r"
  "r_callback_status (mark_callback_config_invalid m r) = RUN_CALLBACK_STATUS_FAILED"
  "r_callback_last_error_code (mark_callback_config_invalid m r) = Some ''runtime.callback_config_invalid''"
  by (simp_all add: mark_callback_config_invalid_def mark_callback_delivery_failed_def)

lemma callback_mark_frame [simp]:
  "r_run_id (mark_callback_delivered t r) = r_run_id r"
  "r_site_id (mark_callback_delivered t r) = r_site_id r"
  "r_idempotency_key (mark_callback_delivered t r) = r_idempotency_key r"
  "r_callback_attempt_count (mark_callback_delivered t r) = r_callback_attempt_count r"
  "r_run_id (mark_callback_delivery_failed c m u r) = r_run_id r"
  "r_site_id (mark_callback_delivery_failed c m u r) = r_site_id r"
  "r_idempotency_key (mark_callback_delivery_failed c m u r) = r_idempotency_key r"
  "r_callback_attempt_count (mark_callback_delivery_failed c m u r) = r_callback_attempt_count r"
  "r_run_id (requeue_callback t r) = r_run_id r"
  "r_site_id (requeue_callback t r) = r_site_id r"
  "r_idempotency_key (requeue_callback t r) = r_idempotency_key r"
  "r_callback_attempt_count (requeue_callback t r) = r_callback_attempt_count r"
  by (simp_all add: mark_callback_delivered_def mark_callback_delivery_failed_def requeue_callback_def)

lemma start_dispatch_attempts [simp]:
  "r_callback_attempt_count (start_callback_dispatch t r) = r_callback_attempt_count r + 1"
  "r_callback_status (start_callback_dispatch t r) = RUN_CALLBACK_STATUS_DISPATCHING"
  "r_callback_last_attempt_at (start_callback_dispatch t r) = Some t"
  by (simp_all add: start_callback_dispatch_def)

lemma callback_claim_get:
  "get_run_row run_id (callback_claim.claim_rows t k rows) =
     map_option (\<lambda>r. if r_run_id r = k \<and> callback_claimable r then start_callback_dispatch t r else r)
       (get_run_row run_id rows)"
  unfolding get_run_row_def callback_claim.claim_get by (simp add: callback_claim_guard_def)

lemma claim_pending_table_wf:
  assumes wf: "table_wf rows"
    and claim: "claim_next_pending_callback lib settings sites artifacts clk rows = Return (request, rows')"
  shows "table_wf rows'"
  using wf claim
proof (cases rule: claim_next_cases)
  case idle
  with wf show ?thesis by simp
next
  case (claimed r)
  let ?r = "start_callback_dispatch (ck_claim clk) r"
    and ?rows = "callback_claim.claim_rows (ck_claim clk) (r_run_id r) rows"
  have wf': "table_wf ?rows"
    by (rule callback_claim_table_wf [OF wf]) (use claimed in simp)
  have get: "get_run_row (r_run_id ?r) ?rows = Some ?r" using claimed by (simp add: callback_claim_get)
  have "run_wf ?r"
    using table_wf_row [OF wf claimed(1)] claimed by (intro start_callback_dispatch_wf) auto
  moreover have "0 < r_callback_attempt_count ?r"
    using attempt_count_nonneg table_wf_row [OF wf claimed(1)] by fastforce
  ultimately have "run_wf (mark_callback_config_invalid m ?r)" for m
    unfolding mark_callback_config_invalid_def by (rule mark_callback_delivery_failed_wf)
  then have "table_wf (save_run (mark_callback_config_invalid m ?r) ?rows)" for m
    by (intro table_wf_save [OF wf' get]) simp_all
  with claimed(7) wf' show ?thesis by auto
qed

lemma settle_table_wf:
  assumes wf: "table_wf rows" and att: "\<And>r. get_run_row run_id rows = Some r \<Longrightarrow> 0 < r_callback_attempt_count r"
  shows "table_wf (snd (settle_callback attempted_at retry_at dispatched run_id rows))"
proof (cases "get_run_row run_id rows")
  case None
  with wf show ?thesis by (simp add: settle_callback_def)
next
  case (Some r)
  note r = get_run_row_member [OF Some]
  have get: "get_run_row (r_run_id r) rows = Some r" using Some r by simp
  have wfr: "run_wf r" using table_wf_row [OF wf] r by simp
  have "table_wf (save_run (mark_callback_delivered attempted_at r) rows)"
    by (intro table_wf_save [OF wf get] mark_callback_delivered_wf wfr att [OF Some]) simp_all
  moreover have "table_wf (save_run (mark_callback_delivery_failed c m retry_at r) rows)" for c m
    by (intro table_wf_save [OF wf get] mark_callback_delivery_failed_wf wfr att [OF Some]) simp_all
  ultimately show ?thesis using Some by (simp add: settle_callback_def Let_def split: dispatch_outcome.split)
qed

lemma requeue_table_wf:
  "table_wf rows \<Longrightarrow>
     table_wf (rows_update (\<lambda>r. r_run_id r = k \<and> lease_expired t r) (requeue_callback now) rows)"
  by (rule table_wf_update) (auto intro: requeue_callback_wf dest: table_wf_row)

lemma reclaim_candidates_table_wf:
  "table_wf rows \<Longrightarrow> table_wf (snd (reclaim_candidates now before candidates rows))"
proof (induction now before candidates rows rule: reclaim_candidates.induct)
  case (2 now before candidate candidates rows)
  then show ?case
    using requeue_table_wf [of rows "r_run_id candidate" before now]
    by (auto simp: Let_def split: prod.split)
qed simp

lemma reclaim_table_wf:
  "table_wf rows \<Longrightarrow> table_wf (snd (recover_stale_callback_dispatches now limit rows))"
  by (simp add: recover_stale_callback_dispatches_def reclaim_stale_callback_dispatches_def Let_def
      reclaim_candidates_table_wf)

subsection \<open>Attempts are never forgotten\<close>

definition attempts_kept :: "run_table \<Rightarrow> run_table \<Rightarrow> bool" where
  "attempts_kept rows rows' \<longleftrightarrow>
     (\<forall>r\<in>set rows. \<exists>r'\<in>set rows'. r_run_id r' = r_run_id r
        \<and> r_callback_attempt_count r \<le> r_callback_attempt_count r')"

lemma attempts_kept_refl [simp]: "attempts_kept rows rows"
  by (auto simp: attempts_kept_def)

lemma attempts_kept_trans: "attempts_kept a b \<Longrightarrow> attempts_kept b c \<Longrightarrow> attempts_kept a c"
  unfolding attempts_kept_def by (metis order_trans)

lemma attempts_kept_update:
  assumes "\<And>r. r \<in> set rows \<Longrightarrow> cond r \<Longrightarrow>
    r_run_id (f r) = r_run_id r \<and> r_callback_attempt_count r \<le> r_callback_attempt_count (f r)"
  shows "attempts_kept rows (rows_update cond f rows)"
  unfolding attempts_kept_def
proof (rule ballI)
  fix r assume r: "r \<in> set rows"
  then have "(if cond r then f r else r) \<in> set (rows_update cond f rows)" by (auto simp: in_rows_update)
  with assms [OF r] show "\<exists>r'\<in>set (rows_update cond f rows). r_run_id r' = r_run_id r
      \<and> r_callback_attempt_count r \<le> r_callback_attempt_count r'"
    by (intro bexI [of _ "if cond r then f r else r"]) auto
qed

lemma attempts_kept_save:
  assumes kd: "keys_distinct r_run_id rows" and get: "get_run_row (r_run_id r) rows = Some r"
    and same: "r_run_id r' = r_run_id r" "r_callback_attempt_count r \<le> r_callback_attempt_count r'"
  shows "attempts_kept rows (save_run r' rows)"
  unfolding save_run_def row_put_def
proof (rule attempts_kept_update)
  fix q assume q: "q \<in> set rows" "r_run_id q = r_run_id r'"
  then have "q = r" using row_get_unique [OF kd q(1)] get same(1) by (simp add: get_run_row_def)
  with same show "r_run_id r' = r_run_id q \<and> r_callback_attempt_count q \<le> r_callback_attempt_count r'" by simp
qed

lemma attempts_kept_append [simp]: "attempts_kept rows (rows @ extra)"
  by (auto simp: attempts_kept_def)

lemma reclaim_candidates_attempts: "attempts_kept rows (snd (reclaim_candidates now before candidates rows))"
proof (induction now before candidates rows rule: reclaim_candidates.induct)
  case (2 now before candidate candidates rows)
  let ?rows = "rows_update (\<lambda>r. r_run_id r = r_run_id candidate \<and> lease_expired before r) (requeue_callback now) rows"
  have "attempts_kept rows ?rows" by (rule attempts_kept_update) simp
  with 2 [OF refl refl] show ?case
    by (auto simp: Let_def intro: attempts_kept_trans split: prod.split)
qed simp

end
