(* ===== verification/SecretHash.thy ===== *)
theory SecretHash
  imports Secrets
begin

section \<open>Stored secret hashes (app/core/security.py)\<close>

text \<open>
  API keys, login codes and TOTP recovery codes are stored as salted PBKDF2 hashes
  \<open>algorithm$iterations$salt$digest\<close>; hashes of the older form without a salt stay verifiable.  The
  random salt is an argument.  A stored iteration count above the range of a C \<open>int\<close>, which the service
  never writes, would make \<open>hashlib\<close> raise; this is not modelled.
\<close>

definition SECRET_HASH_ALGORITHM :: string where
  "SECRET_HASH_ALGORITHM = ''pbkdf2_sha256''"
definition SECRET_HASH_ITERATIONS :: nat where
  "SECRET_HASH_ITERATIONS = 210000"
definition SECRET_HASH_SALT :: bytes where
  "SECRET_HASH_SALT = utf8_encode ''npcink-ai-cloud-secret-hash-v2''"

definition derive_stable_secret_digest :: "string \<Rightarrow> string" where
  "derive_stable_secret_digest secret =
     SECRET_HASH_ALGORITHM @ ''$'' @ nat_text SECRET_HASH_ITERATIONS @ ''$''
     @ hexdigest (pbkdf2_hmac sha256 (utf8_encode secret) SECRET_HASH_SALT SECRET_HASH_ITERATIONS)"

text \<open>\<open>None\<close> is the \<open>ValueError\<close> of a short salt.\<close>

definition build_secret_hash :: "bytes \<Rightarrow> string \<Rightarrow> string option" where
  "build_secret_hash salt secret =
     (if length salt < 8 then None
      else Some (SECRET_HASH_ALGORITHM @ ''$'' @ nat_text SECRET_HASH_ITERATIONS @ ''$'' @ hexdigest salt @ ''$''
                 @ hexdigest (pbkdf2_hmac sha256 (utf8_encode secret) salt SECRET_HASH_ITERATIONS)))"

text \<open>\<open>bytes.fromhex\<close>: two hexadecimal digits per byte, ASCII white space between bytes.\<close>

definition hex_value :: "char \<Rightarrow> nat option" where
  "hex_value c = (let n = (of_char c :: nat) in
     if 48 \<le> n \<and> n \<le> 57 then Some (n - 48)
     else if 97 \<le> n \<and> n \<le> 102 then Some (n - 87)
     else if 65 \<le> n \<and> n \<le> 70 then Some (n - 55) else None)"

definition ascii_space :: "char \<Rightarrow> bool" where
  "ascii_space c = (let n = (of_char c :: nat) in (9 \<le> n \<and> n \<le> 13) \<or> n = 32)"

fun bytes_fromhex :: "string \<Rightarrow> bytes option" where
  "bytes_fromhex [] = Some []"
| "bytes_fromhex [c] = (if ascii_space c then Some [] else None)"
| "bytes_fromhex (c # d # cs) =
     (if ascii_space c then bytes_fromhex (d # cs)
      else case (hex_value c, hex_value d) of
             (Some h, Some l) \<Rightarrow> map_option (\<lambda>bs. of_nat (16 * h + l) # bs) (bytes_fromhex cs)
           | _ \<Rightarrow> None)"

definition verify_secret_hash :: "string \<Rightarrow> string \<Rightarrow> bool" where
  "verify_secret_hash secret stored_hash =
     (case py_split CHR ''$'' stored_hash of
        [algorithm, iterations_raw, salt_hex, digest] \<Rightarrow>
          algorithm = SECRET_HASH_ALGORITHM
          \<and> (case (int_of_text iterations_raw, bytes_fromhex salt_hex) of
               (Some iterations, Some salt_bytes) \<Rightarrow>
                 \<not> (iterations < 1 \<or> length salt_bytes < 8)
                 \<and> hexdigest (pbkdf2_hmac sha256 (utf8_encode secret) salt_bytes (nat iterations)) = digest
             | _ \<Rightarrow> False)
      | [algorithm, iterations_raw, digest] \<Rightarrow>
          algorithm = SECRET_HASH_ALGORITHM
          \<and> (case int_of_text iterations_raw of
               Some iterations \<Rightarrow>
                 \<not> iterations < 1
                 \<and> hexdigest (pbkdf2_hmac sha256 (utf8_encode secret) SECRET_HASH_SALT (nat iterations)) = digest
             | None \<Rightarrow> False)
      | _ \<Rightarrow> False)"

subsection \<open>Hexadecimal text\<close>

lemma hex_digit_cases: "n < 16 \<Longrightarrow> n \<in> {0,1,2,3,4,5,6,7,8,9,10,11,12,13,14,15::nat}"
  by (simp add: less_Suc_eq numeral_nat) 

lemma hex_value_digit: "n < 16 \<Longrightarrow> hex_value (hex_digit n) = Some n"
  by (drule hex_digit_cases) (auto simp: hex_value_def hex_digit_def)

lemma hex_digit_code: "n < 16 \<Longrightarrow> (of_char (hex_digit n) :: nat) = (if n < 10 then 48 + n else 87 + n)"
  by (drule hex_digit_cases) (auto simp: hex_digit_def)

lemma hex_digit_plain: "n < 16 \<Longrightarrow> \<not> ascii_space (hex_digit n) \<and> hex_digit n \<noteq> CHR ''$'' \<and> \<not> py_space (hex_digit n)"
proof -
  assume n: "n < 16"
  then have code: "(of_char (hex_digit n) :: nat) = (if n < 10 then 48 + n else 87 + n)" by (rule hex_digit_code)
  then have "hex_digit n \<noteq> CHR ''$''" by (cases "n < 10") auto
  with code n show ?thesis by (simp add: ascii_space_def py_space_def)
qed

lemma byte_nibbles: "unat (b :: byte) div 16 < 16 \<and> unat b mod 16 < 16"
proof -
  have "unat b < 2 ^ 8" using unsigned_less [of b] by simp
  then show ?thesis by simp
qed

lemma hexdigest_Nil [simp]: "hexdigest [] = []"
  by (simp add: hexdigest_def)

lemma hexdigest_Cons:
  "hexdigest (b # bs) = hex_digit (unat b div 16) # hex_digit (unat b mod 16) # hexdigest bs"
  by (simp add: hexdigest_def)

lemma length_hexdigest [simp]: "length (hexdigest bs) = 2 * length bs"
  by (induction bs) (simp_all add: hexdigest_Cons)

lemma bytes_fromhex_hexdigest: "bytes_fromhex (hexdigest bs) = Some bs"
proof (induction bs)
  case Nil
  then show ?case by simp
next
  case (Cons b bs)
  have "16 * (unat b div 16) + unat b mod 16 = unat b" by simp
  then have "of_nat (16 * (unat b div 16) + unat b mod 16) = b" by simp
  then show ?case
    using Cons byte_nibbles [of b] by (simp add: hexdigest_Cons hex_value_digit hex_digit_plain)
qed

lemma hexdigest_no_dollar: "CHR ''$'' \<notin> set (hexdigest bs)"
proof (induction bs)
  case (Cons b bs)
  then show ?case using byte_nibbles [of b] hex_digit_plain by (metis hexdigest_Cons set_ConsD)
qed simp

lemma hexdigest_inject: "hexdigest a = hexdigest b \<longleftrightarrow> a = b"
  by (metis option.inject bytes_fromhex_hexdigest)

lemma digit_not_dollar: "is_digit c \<Longrightarrow> c \<noteq> CHR ''$''"
  by (auto simp: is_digit_def)

lemma algorithm_no_dollar: "CHR ''$'' \<notin> set SECRET_HASH_ALGORITHM"
  by (simp add: SECRET_HASH_ALGORITHM_def)

lemma nat_text_no_dollar: "CHR ''$'' \<notin> set (nat_text n)"
  using nat_text_digits digit_not_dollar by blast

lemma py_split_step: "sep \<notin> set w \<Longrightarrow> py_split sep (w @ sep # s) = w # py_split sep s"
  by (induction w) auto

lemma stored_hash_fields:
  "py_split CHR ''$'' (SECRET_HASH_ALGORITHM @ ''$'' @ nat_text n @ ''$'' @ hexdigest salt @ ''$'' @ hexdigest d)
     = [SECRET_HASH_ALGORITHM, nat_text n, hexdigest salt, hexdigest d]"
  by (simp add: py_split_step algorithm_no_dollar nat_text_no_dollar hexdigest_no_dollar py_split_no_sep)

lemma stable_digest_fields:
  "py_split CHR ''$'' (SECRET_HASH_ALGORITHM @ ''$'' @ nat_text n @ ''$'' @ hexdigest d)
     = [SECRET_HASH_ALGORITHM, nat_text n, hexdigest d]"
  by (simp add: py_split_step algorithm_no_dollar nat_text_no_dollar hexdigest_no_dollar py_split_no_sep)

lemma iterations_parse:
  "int_of_text (nat_text SECRET_HASH_ITERATIONS) = Some (int SECRET_HASH_ITERATIONS)" "0 < SECRET_HASH_ITERATIONS"
  by (rule int_of_nat_text) (simp add: SECRET_HASH_ITERATIONS_def)

lemma built_hash_verifies:
  "build_secret_hash salt secret = Some stored \<Longrightarrow> verify_secret_hash secret stored"
  by (auto simp: build_secret_hash_def verify_secret_hash_def stored_hash_fields [unfolded append_Cons append_Nil]
      iterations_parse bytes_fromhex_hexdigest split: if_splits)

text \<open>A secret verifies against its own stored hash, whatever the salt; a stored hash accepts exactly the
  secrets whose derived key under the stored salt is the same; and a salt of fewer than eight bytes is
  refused when the hash is built.  The older, unsalted digests verify too.\<close>

theorem secret_hash_roundtrip:
  "(case build_secret_hash salt secret of
      None \<Rightarrow> length salt < 8
    | Some stored \<Rightarrow> 8 \<le> length salt \<and> verify_secret_hash secret stored
        \<and> (\<forall>other. verify_secret_hash other stored
             = (pbkdf2_hmac sha256 (utf8_encode other) salt SECRET_HASH_ITERATIONS
                = pbkdf2_hmac sha256 (utf8_encode secret) salt SECRET_HASH_ITERATIONS)))
   \<and> verify_secret_hash secret (derive_stable_secret_digest secret)"
  by (simp add: build_secret_hash_def derive_stable_secret_digest_def verify_secret_hash_def
      stored_hash_fields [unfolded append_Cons append_Nil] stable_digest_fields [unfolded append_Cons append_Nil]
      iterations_parse bytes_fromhex_hexdigest hexdigest_inject)

end
