(* ===== verification/RequestGuards.thy ===== *)
theory RequestGuards
  imports PyValues Hashes
begin

section \<open>Replay markers, rate limits and cooldowns (app/core/security.py)\<close>

text \<open>
  The guards shared by the signed public surface, the internal surface and the Portal: a replay marker
  is one row of \<open>replay_receipts\<close> per (scope kind, scope id, replay key), the rows also count requests
  for the short-window limits, and rejected requests leave rows in \<open>runtime_guard_events\<close> that the
  cooldown counts.  A function that raises leaves its transaction, which is rolled back, so only a
  returned table is ever stored.  The widths of text columns are not modelled.
\<close>

subsection \<open>Rows and errors\<close>

record replay_receipt =
  rr_scope_kind :: string
  rr_scope_id :: string
  rr_replay_key :: string
  rr_method :: string
  rr_path :: string
  rr_trace_id :: string
  rr_created_at :: instant
  rr_expires_at :: instant

type_synonym replay_table = "replay_receipt list"

record guard_event =
  ge_auth_surface :: string
  ge_scope_kind :: string
  ge_scope_id :: string
  ge_site_id :: "string option"
  ge_key_id :: "string option"
  ge_client_ref :: "string option"
  ge_event_code :: string
  ge_status_code :: int
  ge_method :: "string option"
  ge_path :: "string option"
  ge_trace_id :: "string option"
  ge_payload_json :: json_dict
  ge_created_at :: instant

type_synonym guard_table = "guard_event list"

record request_auth_error =
  ae_status_code :: int
  ae_error_code :: string
  ae_message :: string
  ae_retry_after_seconds :: int
  ae_data :: json_dict

definition RequestAuthError :: "int \<Rightarrow> string \<Rightarrow> string \<Rightarrow> request_auth_error" where
  "RequestAuthError status_code error_code message =
     \<lparr>ae_status_code = status_code, ae_error_code = error_code, ae_message = message,
      ae_retry_after_seconds = 0, ae_data = []\<rparr>"

definition PUBLIC_REPLAY_POLICY_METHOD_DEFAULT :: string where
  "PUBLIC_REPLAY_POLICY_METHOD_DEFAULT = ''method_default''"
definition PUBLIC_REPLAY_POLICY_MEDIA_PULL :: string where
  "PUBLIC_REPLAY_POLICY_MEDIA_PULL = ''media_pull''"
definition RUNTIME_GUARD_SURFACE_PUBLIC :: string where
  "RUNTIME_GUARD_SURFACE_PUBLIC = ''public''"
definition RUNTIME_GUARD_SURFACE_INTERNAL :: string where
  "RUNTIME_GUARD_SURFACE_INTERNAL = ''internal''"
definition REPLAY_SCOPE_INTERNAL_POST :: string where
  "REPLAY_SCOPE_INTERNAL_POST = ''internal_post_token''"
definition REPLAY_SCOPE_INTERNAL_POST_IP :: string where
  "REPLAY_SCOPE_INTERNAL_POST_IP = ''internal_post_ip''"
definition REPLAY_SCOPE_INTERNAL :: string where
  "REPLAY_SCOPE_INTERNAL = ''internal''"

text \<open>The site, key and address scopes of a replay policy.\<close>

definition public_scope_kinds :: "string \<Rightarrow> string \<times> string \<times> string" where
  "public_scope_kinds replay_policy =
     (if replay_policy = PUBLIC_REPLAY_POLICY_MEDIA_PULL
      then (''public_pull_site'', ''public_pull_key'', ''public_pull_ip'')
      else (''public_post_site'', ''public_post_key'', ''public_post_ip''))"

subsection \<open>Replay markers\<close>

definition resolve_replay_receipt_ttl_seconds :: "int \<Rightarrow> int" where
  "resolve_replay_receipt_ttl_seconds timestamp_tolerance_seconds = max 60 (timestamp_tolerance_seconds * 2)"

definition rr_marker :: "replay_receipt \<Rightarrow> string \<times> string \<times> string" where
  "rr_marker r = (rr_scope_kind r, rr_scope_id r, rr_replay_key r)"

definition replay_blocked :: request_auth_error where
  "replay_blocked = RequestAuthError 409 ''auth.replay_blocked''
     ''request replay marker has already been consumed''"

definition marker_row ::
    "string \<Rightarrow> string \<Rightarrow> string \<Rightarrow> string \<Rightarrow> string \<Rightarrow> string \<Rightarrow> instant \<Rightarrow> int \<Rightarrow> replay_receipt" where
  "marker_row scope_kind scope_id replay_key method path trace_id now ttl_seconds =
     \<lparr>rr_scope_kind = scope_kind, rr_scope_id = scope_id, rr_replay_key = replay_key,
      rr_method = ascii_upper method, rr_path = path, rr_trace_id = trace_id,
      rr_created_at = now, rr_expires_at = now + seconds (max 1 ttl_seconds)\<rparr>"

text \<open>
  The unique constraint of the table turns the insert of a marker that a concurrent transaction has
  committed since the select into the same error as a marker found unexpired.
\<close>

definition reserve_replay_receipt ::
    "string \<Rightarrow> string \<Rightarrow> string \<Rightarrow> string \<Rightarrow> string \<Rightarrow> string \<Rightarrow> instant \<Rightarrow> int \<Rightarrow> replay_table
      \<Rightarrow> (request_auth_error, replay_table) outcome" where
  "reserve_replay_receipt scope_kind scope_id replay_key method path trace_id now ttl_seconds rows =
     (let fresh = marker_row scope_kind scope_id replay_key method path trace_id now ttl_seconds
      in case row_get rr_marker (scope_kind, scope_id, replay_key) rows of
           None \<Rightarrow> Return (rows @ [fresh])
         | Some receipt \<Rightarrow>
             if now < rr_expires_at receipt then Raise replay_blocked
             else Return (row_put rr_marker fresh rows))"

subsection \<open>The short-window limit\<close>

text \<open>\<open>math.ceil\<close> of a duration in seconds.\<close>

definition ceil_seconds :: "instant \<Rightarrow> int" where
  "ceil_seconds d = - ((- d) div seconds 1)"

definition in_window :: "string \<Rightarrow> string \<Rightarrow> instant \<Rightarrow> replay_receipt \<Rightarrow> bool" where
  "in_window scope_kind scope_id window_start r \<longleftrightarrow>
     rr_scope_kind r = scope_kind \<and> rr_scope_id r = scope_id \<and> window_start \<le> rr_created_at r"

definition rate_limit_exceeded :: "int \<Rightarrow> request_auth_error" where
  "rate_limit_exceeded retry_after_seconds =
     (RequestAuthError 429 ''auth.rate_limit_exceeded''
        ''request rate limit exceeded for the current short window'')
     \<lparr>ae_retry_after_seconds := max 0 retry_after_seconds\<rparr>"

definition enforce_short_window_rate_limit ::
    "string \<Rightarrow> string \<Rightarrow> instant \<Rightarrow> int \<Rightarrow> int \<Rightarrow> replay_table \<Rightarrow> (request_auth_error, unit) outcome" where
  "enforce_short_window_rate_limit scope_kind scope_id now window_seconds max_requests rows =
     (if max_requests \<le> 0 \<or> window_seconds \<le> 0 \<or> scope_id = [] then Return ()
      else let window_start = now - seconds window_seconds;
               recent = filter (in_window scope_kind scope_id window_start) rows;
               recent_count = int (length recent)
           in if recent_count < max_requests then Return ()
              else let release_offset = max 0 (recent_count - max_requests)
                   in case drop (nat release_offset) (sort_key rr_created_at recent) of
                        [] \<Rightarrow> Return ()
                      | release # _ \<Rightarrow>
                          Raise (rate_limit_exceeded
                            (max 1 (ceil_seconds (rr_created_at release + seconds window_seconds - now)))))"

subsection \<open>Rejections and the cooldown\<close>

definition cooldown_exceeded :: request_auth_error where
  "cooldown_exceeded = RequestAuthError 429 ''auth.rate_limit_exceeded''
     ''request rate limit exceeded for the current cooldown window''"

definition recent_rejection :: "string \<Rightarrow> string \<Rightarrow> instant \<Rightarrow> guard_event \<Rightarrow> bool" where
  "recent_rejection scope_kind scope_id window_start e \<longleftrightarrow>
     ge_scope_kind e = scope_kind \<and> ge_scope_id e = scope_id \<and> window_start \<le> ge_created_at e"

definition enforce_guard_cooldown ::
    "string \<Rightarrow> string \<Rightarrow> instant \<Rightarrow> int \<Rightarrow> int \<Rightarrow> guard_table \<Rightarrow> (request_auth_error, unit) outcome" where
  "enforce_guard_cooldown scope_kind scope_id now window_seconds max_events events =
     (if max_events \<le> 0 \<or> window_seconds \<le> 0 \<or> scope_id = [] then Return ()
      else if int (length (filter (recent_rejection scope_kind scope_id (now - seconds window_seconds)) events))
              < max_events
      then Return () else Raise cooldown_exceeded)"

fun normalize_guard_scope_loop ::
    "(string \<times> string) list \<Rightarrow> (string \<times> string) list \<Rightarrow> (string \<times> string) list" where
  "normalize_guard_scope_loop seen [] = []"
| "normalize_guard_scope_loop seen ((scope_kind, scope_id) # pairs) =
     (let key = (scope_kind, py_strip scope_id)
      in if scope_kind = [] \<or> snd key = [] \<or> key \<in> set seen then normalize_guard_scope_loop seen pairs
         else key # normalize_guard_scope_loop (key # seen) pairs)"

definition normalize_guard_scope_pairs :: "(string \<times> string) list \<Rightarrow> (string \<times> string) list" where
  "normalize_guard_scope_pairs pairs = normalize_guard_scope_loop [] pairs"

definition build_runtime_guard_scope_pairs ::
    "string \<Rightarrow> string \<Rightarrow> string \<Rightarrow> string \<Rightarrow> string \<Rightarrow> (string \<times> string) list" where
  "build_runtime_guard_scope_pairs auth_surface site_id key_id client_ref replay_policy =
     (if auth_surface = RUNTIME_GUARD_SURFACE_INTERNAL
      then normalize_guard_scope_pairs
             [(REPLAY_SCOPE_INTERNAL_POST, REPLAY_SCOPE_INTERNAL), (REPLAY_SCOPE_INTERNAL_POST_IP, client_ref)]
      else case public_scope_kinds replay_policy of (site_kind, key_kind, ip_kind) \<Rightarrow>
             normalize_guard_scope_pairs [(site_kind, site_id), (key_kind, key_id), (ip_kind, client_ref)])"

text \<open>\<open>clk i\<close> is the clock read for event \<open>i\<close>.\<close>

definition record_runtime_guard_events ::
    "(nat \<Rightarrow> instant) \<Rightarrow> string \<Rightarrow> (string \<times> string) list \<Rightarrow> string \<Rightarrow> string \<Rightarrow> string \<Rightarrow> request_auth_error
      \<Rightarrow> string \<Rightarrow> string \<Rightarrow> string \<Rightarrow> json_dict \<Rightarrow> guard_table \<Rightarrow> guard_table" where
  "record_runtime_guard_events clk auth_surface scope_pairs site_id key_id client_ref error
       method path trace_id payload_json events =
     events @ map (\<lambda>(i, scope_kind, scope_id).
        \<lparr>ge_auth_surface = auth_surface, ge_scope_kind = scope_kind, ge_scope_id = scope_id,
         ge_site_id = none_if_empty site_id, ge_key_id = none_if_empty key_id,
         ge_client_ref = none_if_empty client_ref, ge_event_code = ae_error_code error,
         ge_status_code = ae_status_code error, ge_method = none_if_empty (ascii_upper method),
         ge_path = none_if_empty path, ge_trace_id = none_if_empty trace_id,
         ge_payload_json = payload_json, ge_created_at = clk i\<rparr>)
       (enumerate 0 (normalize_guard_scope_pairs scope_pairs))"

subsection \<open>Requests\<close>

text \<open>What the guards read of a FastAPI request.  Header names are case insensitive; the first value counts.\<close>

record http_request =
  hr_method :: string
  hr_path :: string
  hr_query :: string
  hr_headers :: "(string \<times> string) list"
  hr_body :: bytes
  hr_client_host :: "string option"

definition header :: "http_request \<Rightarrow> string \<Rightarrow> string" where
  "header request name =
     (case find (\<lambda>(k, v). py_lower k = py_lower name) (hr_headers request) of
        None \<Rightarrow> [] | Some (k, v) \<Rightarrow> v)"

definition resolve_client_scope_id :: "http_request \<Rightarrow> string" where
  "resolve_client_scope_id request = py_strip (or_empty (hr_client_host request))"

text \<open>The rejection is recorded in a transaction of its own; when that fails (\<open>stored\<close> is false) it is logged only.\<close>

definition record_runtime_guard_rejection ::
    "bool \<Rightarrow> (nat \<Rightarrow> instant) \<Rightarrow> http_request \<Rightarrow> string \<Rightarrow> request_auth_error \<Rightarrow> string \<Rightarrow> string \<Rightarrow> string
      \<Rightarrow> string option \<Rightarrow> string \<Rightarrow> guard_table \<Rightarrow> guard_table" where
  "record_runtime_guard_rejection stored clk request auth_surface error site_id key_id trace_id
       required_scope replay_policy events =
     (let client_ref = resolve_client_scope_id request;
          scope_pairs = build_runtime_guard_scope_pairs auth_surface site_id key_id client_ref replay_policy;
          payload_json =
            [(''message'', JStr (ae_message error)), (''required_scope'', JStr (or_empty required_scope)),
             (''has_query'', JBool (hr_query request \<noteq> [])),
             (''has_nonce'', JBool (py_strip (header request ''X-Npcink-Nonce'') \<noteq> [])),
             (''has_idempotency_key'', JBool (py_strip (header request ''Idempotency-Key'') \<noteq> []))]
      in if scope_pairs = [] \<or> \<not> stored then events
         else record_runtime_guard_events clk auth_surface scope_pairs site_id key_id client_ref error
                (hr_method request) (hr_path request) trace_id payload_json events)"

end
