(* ===== verification/RequestSigning.thy ===== *)
theory RequestSigning
  imports SecretHash RequestGuards
begin

section \<open>Signatures, timestamps and header checks (app/core/security.py)\<close>

subsection \<open>The signed text\<close>

record signed_fields =
  sf_method :: string
  sf_path :: string
  sf_query :: string
  sf_site_id :: string
  sf_key_id :: string
  sf_timestamp :: string
  sf_nonce :: string
  sf_idempotency_key :: string
  sf_traceparent :: string
  sf_body_digest :: string

abbreviation LF :: char where
  "LF \<equiv> CHR 0x0A"

definition build_canonical_request :: "signed_fields \<Rightarrow> string" where
  "build_canonical_request f =
     (let path_with_query = (if sf_query f = [] then sf_path f else sf_path f @ ''?'' @ sf_query f)
      in join_with [LF]
           [ascii_upper (sf_method f), path_with_query, sf_site_id f, sf_key_id f, sf_timestamp f,
            sf_nonce f, sf_idempotency_key f, sf_traceparent f, sf_body_digest f])"

definition build_body_digest :: "bytes \<Rightarrow> string" where
  "build_body_digest payload = hexdigest (sha256 payload)"

definition build_hmac_signature :: "string \<Rightarrow> string \<Rightarrow> string" where
  "build_hmac_signature signing_key canonical_request =
     hexdigest (hmac sha256 (utf8_encode signing_key) (utf8_encode canonical_request))"

text \<open>\<open>None\<close> is the \<open>TypeError\<close> with which \<open>hmac.compare_digest\<close> refuses a text that is not ASCII.\<close>

definition is_ascii :: "string \<Rightarrow> bool" where
  "is_ascii s = list_all (\<lambda>c. (of_char c :: nat) < 128) s"

definition compare_digest :: "string \<Rightarrow> string \<Rightarrow> bool option" where
  "compare_digest a b = (if is_ascii a \<and> is_ascii b then Some (a = b) else None)"

definition verify_hmac_signature :: "string \<Rightarrow> bytes \<Rightarrow> string \<Rightarrow> bool option" where
  "verify_hmac_signature secret payload signature =
     compare_digest (hexdigest (hmac sha256 (utf8_encode secret) payload)) signature"

definition extract_trace_id :: "string \<Rightarrow> string" where
  "extract_trace_id traceparent =
     (case py_split CHR ''-'' traceparent of
        [_, trace_id, _, _] \<Rightarrow> if length trace_id = 32 then trace_id else []
      | _ \<Rightarrow> [])"

definition normalize_signature :: "string \<Rightarrow> string" where
  "normalize_signature signature =
     (let normalized = py_strip signature
      in py_lower (if starts_with ''sha256='' normalized then drop 7 normalized else normalized))"

subsection \<open>Patterns and checks\<close>

definition is_hex_lower :: "char \<Rightarrow> bool" where
  "is_hex_lower c = (let n = (of_char c :: nat) in (48 \<le> n \<and> n \<le> 57) \<or> (97 \<le> n \<and> n \<le> 102))"

definition SHA256_HEX_PATTERN :: "string \<Rightarrow> bool" where
  "SHA256_HEX_PATTERN s \<longleftrightarrow> length s = 64 \<and> list_all is_hex_lower s"

definition is_marker_char :: "char \<Rightarrow> bool" where
  "is_marker_char c \<longleftrightarrow> is_token_char c \<or> c = CHR ''.'' \<or> c = CHR '':''"

definition IDEMPOTENCY_KEY_PATTERN :: "string \<Rightarrow> bool" where
  "IDEMPOTENCY_KEY_PATTERN s \<longleftrightarrow> 1 \<le> length s \<and> length s \<le> 128 \<and> list_all is_marker_char s"

definition NONCE_PATTERN :: "string \<Rightarrow> bool" where
  "NONCE_PATTERN s \<longleftrightarrow> 1 \<le> length s \<and> length s \<le> 128 \<and> list_all is_marker_char s"

definition invalid_signature :: request_auth_error where
  "invalid_signature = RequestAuthError 401 ''auth.invalid_signature'' ''request signature is invalid''"

definition validate_signature_format :: "string \<Rightarrow> (request_auth_error, unit) outcome" where
  "validate_signature_format signature =
     (if SHA256_HEX_PATTERN signature then Return () else Raise invalid_signature)"

definition require_header :: "http_request \<Rightarrow> string \<Rightarrow> string \<Rightarrow> (request_auth_error, string) outcome" where
  "require_header request header_name error_code =
     (let value = py_strip (header request header_name)
      in if value \<noteq> [] then Return value
         else Raise (RequestAuthError 401 error_code (header_name @ '' header is required'')))"

definition validate_idempotency_key :: "string \<Rightarrow> bool \<Rightarrow> (request_auth_error, unit) outcome" where
  "validate_idempotency_key key required =
     (if required \<and> key = []
      then Raise (RequestAuthError 401 ''auth.idempotency_required'' ''Idempotency-Key header is required'')
      else if key = [] then Return ()
      else if 128 < length key
      then Raise (RequestAuthError 400 ''auth.invalid_idempotency_key''
                    ''Idempotency-Key header exceeds the accepted length'')
      else if \<not> IDEMPOTENCY_KEY_PATTERN key
      then Raise (RequestAuthError 400 ''auth.invalid_idempotency_key''
                    ''Idempotency-Key header contains unsupported characters'')
      else Return ())"

definition validate_nonce :: "string \<Rightarrow> bool \<Rightarrow> (request_auth_error, unit) outcome" where
  "validate_nonce nonce required =
     (if required \<and> nonce = []
      then Raise (RequestAuthError 401 ''auth.nonce_required'' ''X-Npcink-Nonce header is required'')
      else if nonce = [] then Return ()
      else if 128 < length nonce
      then Raise (RequestAuthError 400 ''auth.invalid_nonce'' ''X-Npcink-Nonce header exceeds the accepted length'')
      else if \<not> NONCE_PATTERN nonce
      then Raise (RequestAuthError 400 ''auth.invalid_nonce''
                    ''X-Npcink-Nonce header contains unsupported characters'')
      else Return ())"

definition validate_payload_byte_size :: "int \<Rightarrow> int \<Rightarrow> (request_auth_error, unit) outcome" where
  "validate_payload_byte_size byte_size max_body_bytes =
     (if max_body_bytes < byte_size
      then Raise (RequestAuthError 413 ''auth.payload_too_large'' ''request payload exceeds the accepted size limit'')
      else if byte_size < 0
      then Raise (RequestAuthError 400 ''auth.invalid_body_digest'' ''prehashed request body byte size is invalid'')
      else Return ())"

definition validate_payload_size :: "bytes \<Rightarrow> int \<Rightarrow> (request_auth_error, unit) outcome" where
  "validate_payload_size body max_body_bytes = validate_payload_byte_size (int (length body)) max_body_bytes"

definition validate_prehashed_body_digest :: "string \<Rightarrow> (request_auth_error, unit) outcome" where
  "validate_prehashed_body_digest body_digest =
     (if SHA256_HEX_PATTERN body_digest then Return ()
      else Raise (RequestAuthError 400 ''auth.invalid_body_digest'' ''prehashed request body digest is invalid''))"

subsection \<open>Timestamps\<close>

text \<open>
  \<open>str.isdigit\<close> also holds of the superscripts, which \<open>int\<close> refuses; \<open>int\<close> refuses more than 4300 digits.
  \<open>datetime.fromtimestamp\<close> raises \<open>ValueError\<close> after the year 9999, but \<open>OSError\<close> or \<open>OverflowError\<close>
  once the year (a C \<open>int\<close>) or the \<open>time_t\<close> overflows.  \<open>fromisoformat\<close> with the shift to UTC is the
  argument \<open>fromiso\<close>.
\<close>

datatype timestamp_fault = TimestampValueError | TimestampOverflow

definition is_digit_like :: "char \<Rightarrow> bool" where
  "is_digit_like c \<longleftrightarrow> is_digit c \<or> (of_char c :: nat) \<in> {178, 179, 185}"

definition MAX_DATETIME_SECONDS :: int where
  "MAX_DATETIME_SECONDS = 253402300799"

definition MAX_GMTIME_SECONDS :: int where
  "MAX_GMTIME_SECONDS = 67768036191676799"

definition datetime_fromtimestamp :: "int \<Rightarrow> (timestamp_fault, instant) outcome" where
  "datetime_fromtimestamp t =
     (if t \<le> MAX_DATETIME_SECONDS then Return (seconds t)
      else if t \<le> MAX_GMTIME_SECONDS then Raise TimestampValueError
      else Raise TimestampOverflow)"

definition replace_Z :: "string \<Rightarrow> string" where
  "replace_Z s = concat (map (\<lambda>c. if c = CHR ''Z'' then ''+00:00'' else [c]) s)"

definition parse_request_timestamp ::
    "(string \<Rightarrow> (timestamp_fault, instant) outcome) \<Rightarrow> string \<Rightarrow> (timestamp_fault, instant) outcome" where
  "parse_request_timestamp fromiso timestamp =
     (let stripped = py_strip timestamp
      in if stripped \<noteq> [] \<and> list_all is_digit_like stripped
         then (if 4300 < length stripped then Raise TimestampValueError
               else case int_of_text stripped of
                      None \<Rightarrow> Raise TimestampValueError
                    | Some t \<Rightarrow> datetime_fromtimestamp t)
         else fromiso (replace_Z stripped))"

text \<open>What leaves the handler: a refusal, or an exception no \<open>except\<close> clause names.\<close>

datatype auth_fault = Rejected request_auth_error | Unhandled string

definition validate_timestamp ::
    "(string \<Rightarrow> (timestamp_fault, instant) outcome) \<Rightarrow> string \<Rightarrow> instant \<Rightarrow> int \<Rightarrow> (auth_fault, unit) outcome" where
  "validate_timestamp fromiso timestamp now tolerance_seconds =
     (case parse_request_timestamp fromiso timestamp of
        Inl TimestampValueError \<Rightarrow>
          Raise (Rejected (RequestAuthError 401 ''auth.invalid_timestamp'' ''X-Npcink-Timestamp header is invalid''))
      | Inl TimestampOverflow \<Rightarrow> Raise (Unhandled ''OverflowError'')
      | Inr parsed \<Rightarrow>
          if seconds tolerance_seconds < abs (now - parsed)
          then Raise (Rejected (RequestAuthError 401 ''auth.stale_timestamp''
                  ''X-Npcink-Timestamp header is outside the accepted time window''))
          else Return ())"

subsection \<open>What a signature covers\<close>

lemma join_with_Cons: "ws \<noteq> [] \<Longrightarrow> join_with sep (w # ws) = w @ sep @ join_with sep ws"
  by (cases ws) simp_all

lemma join_split_inject:
  assumes "list_all (\<lambda>w. sep \<notin> set w) ws" "list_all (\<lambda>w. sep \<notin> set w) vs" "ws \<noteq> []" "vs \<noteq> []"
    and "join_with [sep] ws = join_with [sep] vs"
  shows "ws = vs"
proof -
  have split: "py_split sep (join_with [sep] us) = us" if "list_all (\<lambda>w. sep \<notin> set w) us" "us \<noteq> []" for us
    using that
  proof (induction us rule: induct_list012)
    case (3 a b us)
    then show ?case by (simp add: py_split_step)
  qed (simp_all add: py_split_no_sep)
  have "ws = py_split sep (join_with [sep] ws)" using split [OF assms(1,3)] by (rule sym)
  also have "\<dots> = py_split sep (join_with [sep] vs)" by (simp only: assms(5))
  also have "\<dots> = vs" by (rule split [OF assms(2,4)])
  finally show ?thesis .
qed

definition one_line :: "signed_fields \<Rightarrow> bool" where
  "one_line f \<longleftrightarrow> list_all (\<lambda>w. LF \<notin> set w)
     [sf_method f, sf_path f, sf_query f, sf_site_id f, sf_key_id f, sf_timestamp f, sf_nonce f,
      sf_idempotency_key f, sf_traceparent f, sf_body_digest f]"

lemma upper_no_newline: "LF \<notin> set w \<Longrightarrow> LF \<notin> set (ascii_upper w)"
proof (induction w)
  case (Cons c w)
  let ?n = "of_char c :: nat"
  have "(if 97 \<le> ?n \<and> ?n \<le> 122 then char_of (?n - 32) else c) \<noteq> LF"
  proof (cases "97 \<le> ?n \<and> ?n \<le> 122")
    case True
    have "(?n - 32) mod 256 = ?n - 32" by (rule mod_less) (use of_char_less [of c] in linarith)
    then have "(of_char (char_of (?n - 32) :: char) :: nat) = ?n - 32" by (simp add: of_char_of)
    moreover have "(of_char LF :: nat) = 10" by simp
    moreover have "?n - 32 \<noteq> 10" using True by linarith
    ultimately have "char_of (?n - 32) \<noteq> LF" by metis
    with True show ?thesis by simp
  next
    case False
    then show ?thesis using Cons.prems by auto
  qed
  with Cons show ?case by (simp add: ascii_upper_def Let_def eq_commute)
qed (simp add: ascii_upper_def)

text \<open>The signed text determines every field it covers: when the fields hold no line feed (a request
  line and headers cannot) and the paths no question mark, two requests with the same canonical text
  have the same method up to case, path, query, site, key, timestamp, nonce, idempotency key,
  traceparent and body digest, so no part of a signed request can be moved into another.\<close>

theorem signature_covers_every_field:
  assumes "one_line f" and "one_line g" and "CHR ''?'' \<notin> set (sf_path f)" and "CHR ''?'' \<notin> set (sf_path g)"
    and "build_canonical_request f = build_canonical_request g"
  shows "f = g\<lparr>sf_method := sf_method f\<rparr> \<and> ascii_upper (sf_method f) = ascii_upper (sf_method g)"
proof -
  define target where "target h = (if sf_query h = [] then sf_path h else sf_path h @ ''?'' @ sf_query h)" for h :: signed_fields
  define parts where "parts h = [ascii_upper (sf_method h), target h, sf_site_id h, sf_key_id h, sf_timestamp h,
      sf_nonce h, sf_idempotency_key h, sf_traceparent h, sf_body_digest h]" for h :: signed_fields
  have canonical: "build_canonical_request h = join_with [LF] (parts h)" for h :: signed_fields
    by (simp add: build_canonical_request_def parts_def target_def)
  have plain: "list_all (\<lambda>w. LF \<notin> set w) (parts h)" if "one_line h" for h :: signed_fields
    using that upper_no_newline [of "sf_method h"] by (auto simp: one_line_def parts_def target_def)
  have "parts f = parts g"
    by (rule join_split_inject [OF plain [OF assms(1)] plain [OF assms(2)]])
       (use assms(5) canonical in \<open>simp_all add: parts_def\<close>)
  then have eqs: "ascii_upper (sf_method f) = ascii_upper (sf_method g)" "target f = target g"
    "sf_site_id f = sf_site_id g" "sf_key_id f = sf_key_id g" "sf_timestamp f = sf_timestamp g"
    "sf_nonce f = sf_nonce g" "sf_idempotency_key f = sf_idempotency_key g"
    "sf_traceparent f = sf_traceparent g" "sf_body_digest f = sf_body_digest g"
    by (simp_all add: parts_def)
  have no_mark: "CHR ''?'' \<notin> set (sf_path h) \<Longrightarrow>
      takeWhile (\<lambda>c. c \<noteq> CHR ''?'') (target h) = sf_path h
      \<and> dropWhile (\<lambda>c. c \<noteq> CHR ''?'') (target h) = (if sf_query h = [] then [] else CHR ''?'' # sf_query h)" for h :: signed_fields
    by (auto simp: target_def takeWhile_sep dropWhile_sep takeWhile_eq_all_conv dropWhile_eq_Nil_conv)
  have "sf_path f = sf_path g" "sf_query f = sf_query g"
    using no_mark [OF assms(3)] no_mark [OF assms(4)] eqs(2) by (auto split: if_splits)
  with eqs show ?thesis by simp
qed

definition demo_fields :: signed_fields where
  "demo_fields = \<lparr>sf_method = ''post'', sf_path = ''/v1/run'', sf_query = ''a=1'', sf_site_id = ''s1'', sf_key_id = ''k1'',
     sf_timestamp = ''5'', sf_nonce = ''n1'', sf_idempotency_key = ''i1'', sf_traceparent = ''t'', sf_body_digest = ''d''\<rparr>"

theorem signature_covers_every_field_witness:
  "build_canonical_request demo_fields \<noteq> build_canonical_request (demo_fields\<lparr>sf_query := ''a=2''\<rparr>)"
proof
  assume eq: "build_canonical_request demo_fields = build_canonical_request (demo_fields\<lparr>sf_query := ''a=2''\<rparr>)"
  have line: "one_line demo_fields" "one_line (demo_fields\<lparr>sf_query := ''a=2''\<rparr>)"
    by (simp_all add: one_line_def demo_fields_def)
  show False using signature_covers_every_field [OF line _ _ eq] by (simp add: demo_fields_def)
qed

end
