(* ===== verification/RequestAuth.thy ===== *)
theory RequestAuth
  imports RequestSigning
begin

section \<open>Request authorization (app/core/security.py, app/api/auth.py)\<close>

text \<open>
  A signed request of the public surface names its site, key, time, nonce and body digest; the handler
  checks the headers, then in one transaction the key, the site, the signature, the cooldown, the
  short-window limits and the replay markers, and marks the key as used.  The internal surface checks a
  static token instead of a signature.  Between the checks of a transaction and its writes to
  \<open>replay_receipts\<close> other transactions may commit to that table: \<open>race\<close> is what they do.  A refusal is
  recorded in a transaction of its own.  Clock reads are arguments; log lines are left out.
\<close>

subsection \<open>Sites and keys\<close>

record cloud_site =
  st_site_id :: string
  st_status :: string

record site_api_key =
  ak_key_id :: string
  ak_site_id :: string
  ak_signing_secret_ciphertext :: "string option"
  ak_scopes_json :: "json list option"
  ak_status :: string
  ak_expires_at :: "instant option"
  ak_revoked_at :: "instant option"
  ak_last_used_at :: "instant option"

record auth_db =
  ad_sites :: "cloud_site list"
  ad_keys :: "site_api_key list"
  ad_receipts :: replay_table
  ad_events :: guard_table

fun expand_scopes_loop :: "string list \<Rightarrow> json list \<Rightarrow> string list" where
  "expand_scopes_loop seen [] = []"
| "expand_scopes_loop seen (raw_scope # scopes) =
     (let scope = py_strip (str_or_empty raw_scope)
      in if scope = [] \<or> scope \<in> set seen then expand_scopes_loop seen scopes
         else scope # expand_scopes_loop (scope # seen) scopes)"

definition expand_api_key_scopes :: "json list option \<Rightarrow> string list" where
  "expand_api_key_scopes scopes = expand_scopes_loop [] (case scopes of None \<Rightarrow> [] | Some xs \<Rightarrow> xs)"

definition invalid_key :: request_auth_error where
  "invalid_key = RequestAuthError 401 ''auth.invalid_key'' ''API key is not authorized''"

definition site_inactive :: request_auth_error where
  "site_inactive = (RequestAuthError 403 ''auth.site_inactive'' ''site is bound but Cloud service is inactive'')
     \<lparr>ae_data := [(''recovery_contract'', JStr ''cloud_site_activation_recovery.v1''),
                  (''site_status'', JStr ''inactive''), (''activation_required'', JBool True),
                  (''action'', JStr ''activate_site'')]\<rparr>"

definition validate_site_and_key ::
    "cloud_site option \<Rightarrow> site_api_key option \<Rightarrow> string \<Rightarrow> string option \<Rightarrow> instant
      \<Rightarrow> (request_auth_error, site_api_key) outcome" where
  "validate_site_and_key site api_key site_id required_scope now =
     (case api_key of
        None \<Rightarrow> Raise invalid_key
      | Some k \<Rightarrow>
          if ak_site_id k \<noteq> site_id then Raise invalid_key
          else if ak_status k \<noteq> ''active'' \<or> ak_revoked_at k \<noteq> None \<or> sql_le (ak_expires_at k) now
          then Raise invalid_key
          else let scopes = expand_api_key_scopes (ak_scopes_json k)
          in if or_empty required_scope \<noteq> [] \<and> scopes \<noteq> [] \<and> or_empty required_scope \<notin> set scopes
          then Raise (RequestAuthError 403 ''auth.scope_denied'' ''API key scope does not permit this request'')
          else (case site of
                  None \<Rightarrow> Raise (RequestAuthError 401 ''auth.site_not_found'' ''site is not found'')
                | Some s \<Rightarrow>
                    if st_status s = ''archived''
                    then Raise (RequestAuthError 401 ''auth.site_not_found'' ''site is not found'')
                    else if st_status s = ''inactive'' then Raise site_inactive
                    else if st_status s = ''suspended''
                    then Raise (RequestAuthError 403 ''auth.site_suspended'' ''site Cloud service is suspended'')
                    else if st_status s \<noteq> ''active''
                    then Raise (RequestAuthError 403 ''auth.site_not_ready'' ''site Cloud service is not ready'')
                    else Return k))"

definition preflight_site_and_key ::
    "auth_db \<Rightarrow> string \<Rightarrow> string \<Rightarrow> string option \<Rightarrow> instant \<Rightarrow> (request_auth_error, site_api_key) outcome" where
  "preflight_site_and_key db site_id key_id required_scope now =
     validate_site_and_key (row_get st_site_id site_id (ad_sites db)) (row_get ak_key_id key_id (ad_keys db))
       site_id required_scope now"

definition rejected :: "(request_auth_error, 'a) outcome \<Rightarrow> (auth_fault, 'a) outcome" where
  "rejected r = (case r of Inl e \<Rightarrow> Raise (Rejected e) | Inr v \<Rightarrow> Return v)"

definition resolve_site_api_signing_secret ::
    "crypto \<Rightarrow> encryption_settings \<Rightarrow> site_api_key \<Rightarrow> (auth_fault, string) outcome" where
  "resolve_site_api_signing_secret lib settings k =
     (let unavailable = Rejected (RequestAuthError 401 ''auth.invalid_key'' ''site api signing secret is unavailable'')
      in case decrypt_site_api_signing_secret lib settings (ak_signing_secret_ciphertext k) of
           Inl (RuntimeError _) \<Rightarrow> Raise unavailable
         | Inl SecretUnicodeDecodeError \<Rightarrow> Raise (Unhandled ''UnicodeDecodeError'')
         | Inr secret \<Rightarrow> if secret = [] then Raise unavailable else Return secret)"

subsection \<open>Reading the headers\<close>

record auth_options =
  ao_require_idempotency :: bool
  ao_required_scope :: "string option"
  ao_max_body_bytes :: int
  ao_replay_policy :: string

record guard_limits =
  gl_timestamp_tolerance_seconds :: int
  gl_post_window_seconds :: int
  gl_post_max_per_site :: int
  gl_post_max_per_key :: int
  gl_post_max_per_ip :: int
  gl_cooldown_window_seconds :: int
  gl_max_rejects_per_site :: int
  gl_max_rejects_per_key :: int
  gl_max_rejects_per_ip :: int
  gl_pull_window_seconds :: int
  gl_pull_max_per_site :: int
  gl_pull_max_per_key :: int
  gl_pull_max_per_ip :: int

record request_auth_context =
  rc_site :: string
  rc_key :: string
  rc_trace_id :: string
  rc_traceparent :: string
  rc_nonce :: string
  rc_idempotency_key :: string
  rc_timestamp :: string
  rc_body_digest :: string

text \<open>The handler's local variables \<open>site_id\<close>, \<open>key_id\<close>, \<open>trace_id\<close> at the moment of a failure.\<close>

type_synonym progress = "string \<times> string \<times> string"

definition raised_at :: "progress \<Rightarrow> (auth_fault, 'a) outcome \<Rightarrow> (progress \<times> auth_fault, 'a) outcome" where
  "raised_at p r = (case r of Inl e \<Rightarrow> Raise (p, e) | Inr v \<Rightarrow> Return v)"

definition requires_nonce :: "http_request \<Rightarrow> string \<Rightarrow> bool" where
  "requires_nonce request replay_policy \<longleftrightarrow>
     ascii_upper (hr_method request) = ''POST'' \<or> replay_policy = PUBLIC_REPLAY_POLICY_MEDIA_PULL"

text \<open>The header part of the handler returns the context, its body digest still empty, and the signature.\<close>

definition read_signed_headers ::
    "(string \<Rightarrow> (timestamp_fault, instant) outcome) \<Rightarrow> int \<Rightarrow> auth_options \<Rightarrow> instant \<Rightarrow> http_request
      \<Rightarrow> (progress \<times> auth_fault, request_auth_context \<times> string) outcome" where
  "read_signed_headers fromiso tolerance opts preflight_now request =
     (let required = (\<lambda>p name code. raised_at p (rejected (require_header request name code)))
      in and_then (required ([], [], []) ''X-Npcink-Site-Id'' ''auth.site_id_required'') (\<lambda>site_id.
         and_then (required (site_id, [], []) ''X-Npcink-Key-Id'' ''auth.key_id_required'') (\<lambda>key_id.
         and_then (required (site_id, key_id, []) ''X-Npcink-Timestamp'' ''auth.timestamp_required'') (\<lambda>timestamp.
         and_then (required (site_id, key_id, []) ''traceparent'' ''auth.traceparent_required'') (\<lambda>traceparent.
         let trace_id = extract_trace_id traceparent; p = (site_id, key_id, trace_id);
             nonce = py_strip (header request ''X-Npcink-Nonce'');
             idempotency_key = py_strip (header request ''Idempotency-Key'')
         in if trace_id = []
            then Raise (p, Rejected (RequestAuthError 401 ''auth.invalid_traceparent'' ''traceparent header is invalid''))
            else if ao_replay_policy opts \<notin> {PUBLIC_REPLAY_POLICY_METHOD_DEFAULT, PUBLIC_REPLAY_POLICY_MEDIA_PULL}
            then Raise (p, Unhandled ''ValueError'')
            else and_then (raised_at p (rejected
                   (validate_nonce nonce (requires_nonce request (ao_replay_policy opts))))) (\<lambda>_.
                 and_then (raised_at p (rejected
                   (validate_idempotency_key idempotency_key (ao_require_idempotency opts)))) (\<lambda>_.
                 and_then (required p ''X-Npcink-Signature'' ''auth.signature_required'') (\<lambda>raw_signature.
                 let signature = normalize_signature raw_signature
                 in and_then (raised_at p (rejected (validate_signature_format signature))) (\<lambda>_.
                    and_then (raised_at p (validate_timestamp fromiso timestamp preflight_now tolerance)) (\<lambda>_.
                      Return (\<lparr>rc_site = site_id, rc_key = key_id, rc_trace_id = trace_id,
                               rc_traceparent = traceparent, rc_nonce = nonce,
                               rc_idempotency_key = idempotency_key, rc_timestamp = timestamp,
                               rc_body_digest = []\<rparr>, signature)))))))))))"

subsection \<open>The body\<close>

record prehashed_body =
  pb_sha256_hex :: string
  pb_byte_size :: int

text \<open>The body is the request's own, or comes with its digest from a loader, whose exceptions pass.\<close>

datatype body_source = RequestBody | BodyEvidence "(auth_fault, prehashed_body) outcome"

definition resolve_body_digest ::
    "auth_options \<Rightarrow> body_source \<Rightarrow> instant \<Rightarrow> http_request \<Rightarrow> request_auth_context \<Rightarrow> auth_db
      \<Rightarrow> (auth_fault, string) outcome" where
  "resolve_body_digest opts source preflight_now request ctx db =
     (case source of
        RequestBody \<Rightarrow>
          and_then (rejected (validate_payload_size (hr_body request) (ao_max_body_bytes opts))) (\<lambda>_.
            Return (build_body_digest (hr_body request)))
      | BodyEvidence loaded \<Rightarrow>
          and_then (rejected (preflight_site_and_key db (rc_site ctx) (rc_key ctx)
                                (ao_required_scope opts) preflight_now)) (\<lambda>_.
          and_then loaded (\<lambda>evidence.
          and_then (rejected (validate_payload_byte_size (pb_byte_size evidence) (ao_max_body_bytes opts))) (\<lambda>_.
          and_then (rejected (validate_prehashed_body_digest (pb_sha256_hex evidence))) (\<lambda>_.
            Return (pb_sha256_hex evidence))))))"

definition canonical_request_of :: "http_request \<Rightarrow> request_auth_context \<Rightarrow> string" where
  "canonical_request_of request ctx =
     build_canonical_request
       \<lparr>sf_method = hr_method request, sf_path = hr_path request, sf_query = hr_query request,
        sf_site_id = rc_site ctx, sf_key_id = rc_key ctx, sf_timestamp = rc_timestamp ctx,
        sf_nonce = rc_nonce ctx, sf_idempotency_key = rc_idempotency_key ctx,
        sf_traceparent = rc_traceparent ctx, sf_body_digest = rc_body_digest ctx\<rparr>"

subsection \<open>The guards of a transaction\<close>

type_synonym guarded_scope = "string \<times> string \<times> int"

fun all_pass :: "('a \<Rightarrow> ('e, unit) outcome) \<Rightarrow> 'a list \<Rightarrow> ('e, unit) outcome" where
  "all_pass check [] = Return ()"
| "all_pass check (x # xs) = and_then (check x) (\<lambda>_. all_pass check xs)"

fun reserve_markers ::
    "guarded_scope list \<Rightarrow> string \<Rightarrow> string \<Rightarrow> string \<Rightarrow> string \<Rightarrow> instant \<Rightarrow> int \<Rightarrow> replay_table
      \<Rightarrow> (request_auth_error, replay_table) outcome" where
  "reserve_markers [] replay_key method path trace_id now ttl rows = Return rows"
| "reserve_markers ((scope_kind, scope_id, _) # scopes) replay_key method path trace_id now ttl rows =
     (if scope_id = [] then reserve_markers scopes replay_key method path trace_id now ttl rows
      else and_then (reserve_replay_receipt scope_kind scope_id replay_key method path trace_id now ttl rows)
             (\<lambda>rows'. reserve_markers scopes replay_key method path trace_id now ttl rows'))"

text \<open>Cooldown, limits and markers of one transaction; a failure after \<open>race\<close> leaves what the others wrote.\<close>

definition pass_guards ::
    "(replay_table \<Rightarrow> replay_table) \<Rightarrow> guarded_scope list \<Rightarrow> int \<Rightarrow> guarded_scope list \<Rightarrow> int \<Rightarrow> string \<Rightarrow> string
      \<Rightarrow> string \<Rightarrow> string \<Rightarrow> instant \<Rightarrow> int \<Rightarrow> auth_db \<Rightarrow> (request_auth_error, auth_db) outcome \<times> auth_db" where
  "pass_guards race cooldown_scopes cooldown_window replay_scopes rate_window replay_key method path trace_id now ttl db =
     (case and_then (all_pass (\<lambda>(scope_kind, scope_id, max_events).
                enforce_guard_cooldown scope_kind scope_id now cooldown_window max_events (ad_events db)) cooldown_scopes)
             (\<lambda>_. all_pass (\<lambda>(scope_kind, scope_id, max_requests).
                enforce_short_window_rate_limit scope_kind scope_id now rate_window max_requests (ad_receipts db))
                replay_scopes) of
        Inl e \<Rightarrow> (Raise e, db)
      | Inr _ \<Rightarrow>
          (let db = db\<lparr>ad_receipts := race (ad_receipts db)\<rparr>
           in case reserve_markers replay_scopes replay_key method path trace_id now ttl (ad_receipts db) of
                Inl e \<Rightarrow> (Raise e, db)
              | Inr rows \<Rightarrow> (Return (db\<lparr>ad_receipts := rows\<rparr>), db)))"

definition public_scopes ::
    "guard_limits \<Rightarrow> string \<Rightarrow> string \<Rightarrow> string \<Rightarrow> string \<Rightarrow> guarded_scope list \<times> int \<times> guarded_scope list" where
  "public_scopes limits replay_policy site_id key_id client_scope_id =
     (case public_scope_kinds replay_policy of (site_kind, key_kind, ip_kind) \<Rightarrow>
        let pull = (replay_policy = PUBLIC_REPLAY_POLICY_MEDIA_PULL)
        in ([(site_kind, site_id, gl_max_rejects_per_site limits),
             (key_kind, key_id, gl_max_rejects_per_key limits),
             (ip_kind, client_scope_id, gl_max_rejects_per_ip limits)],
            (if pull then gl_pull_window_seconds limits else gl_post_window_seconds limits),
            [(site_kind, site_id, if pull then gl_pull_max_per_site limits else gl_post_max_per_site limits),
             (key_kind, key_id, if pull then gl_pull_max_per_key limits else gl_post_max_per_key limits),
             (ip_kind, client_scope_id, if pull then gl_pull_max_per_ip limits else gl_post_max_per_ip limits)]))"

definition authorize_site_credentials ::
    "crypto \<Rightarrow> encryption_settings \<Rightarrow> guard_limits \<Rightarrow> auth_options \<Rightarrow> (replay_table \<Rightarrow> replay_table) \<Rightarrow> instant
      \<Rightarrow> http_request \<Rightarrow> request_auth_context \<Rightarrow> string \<Rightarrow> auth_db \<Rightarrow> (auth_fault, unit) outcome \<times> auth_db" where
  "authorize_site_credentials lib settings limits opts race now request ctx signature db =
     (case and_then (rejected (preflight_site_and_key db (rc_site ctx) (rc_key ctx) (ao_required_scope opts) now))
             (\<lambda>authorized_key.
              and_then (resolve_site_api_signing_secret lib settings authorized_key) (\<lambda>signing_secret.
                case compare_digest (build_hmac_signature signing_secret (canonical_request_of request ctx)) signature of
                  None \<Rightarrow> Raise (Unhandled ''TypeError'')
                | Some same \<Rightarrow> if same then Return authorized_key else Raise (Rejected invalid_signature))) of
        Inl e \<Rightarrow> (Raise e, db)
      | Inr authorized_key \<Rightarrow>
          (let used = (\<lambda>db. db\<lparr>ad_keys := row_put ak_key_id (authorized_key\<lparr>ak_last_used_at := Some now\<rparr>) (ad_keys db)\<rparr>)
           in if \<not> requires_nonce request (ao_replay_policy opts) then (Return (), used db)
              else case public_scopes limits (ao_replay_policy opts) (rc_site ctx) (rc_key ctx)
                          (resolve_client_scope_id request) of
                (cooldown_scopes, rate_window, replay_scopes) \<Rightarrow>
                  (case pass_guards race cooldown_scopes (gl_cooldown_window_seconds limits) replay_scopes rate_window
                          (rc_nonce ctx) (hr_method request) (hr_path request) (rc_trace_id ctx) now
                          (resolve_replay_receipt_ttl_seconds (gl_timestamp_tolerance_seconds limits)) db of
                     (Inl e, db) \<Rightarrow> (Raise (Rejected e), db)
                   | (Inr db, _) \<Rightarrow> (Return (), used db))))"

subsection \<open>The public surface\<close>

record auth_clock =
  ac_preflight :: instant
  ac_now :: instant
  ac_events :: "nat \<Rightarrow> instant"
  ac_stored :: bool

definition authorize_request ::
    "crypto \<Rightarrow> encryption_settings \<Rightarrow> (string \<Rightarrow> (timestamp_fault, instant) outcome) \<Rightarrow> guard_limits \<Rightarrow> auth_options
      \<Rightarrow> body_source \<Rightarrow> (replay_table \<Rightarrow> replay_table) \<Rightarrow> auth_clock \<Rightarrow> http_request \<Rightarrow> auth_db
      \<Rightarrow> (auth_fault, request_auth_context) outcome \<times> auth_db" where
  "authorize_request lib settings fromiso limits opts source race clk request db =
     (let tolerance = gl_timestamp_tolerance_seconds limits;
          failed = (\<lambda>(site_id, key_id, trace_id) fault db.
            (Raise fault,
             case fault of
               Unhandled _ \<Rightarrow> db
             | Rejected error \<Rightarrow> db\<lparr>ad_events := record_runtime_guard_rejection (ac_stored clk) (ac_events clk) request
                   RUNTIME_GUARD_SURFACE_PUBLIC error site_id key_id trace_id (ao_required_scope opts)
                   (ao_replay_policy opts) (ad_events db)\<rparr>))
      in case read_signed_headers fromiso tolerance opts (ac_preflight clk) request of
           Inl (p, fault) \<Rightarrow> failed p fault db
         | Inr (headers, signature) \<Rightarrow>
             (let p = (rc_site headers, rc_key headers, rc_trace_id headers)
              in case and_then (resolve_body_digest opts source (ac_preflight clk) request headers db) (\<lambda>body_digest.
                        and_then (validate_timestamp fromiso (rc_timestamp headers) (ac_now clk) tolerance) (\<lambda>_.
                          Return (headers\<lparr>rc_body_digest := body_digest\<rparr>))) of
                   Inl fault \<Rightarrow> failed p fault db
                 | Inr ctx \<Rightarrow>
                     (case authorize_site_credentials lib settings limits opts race (ac_now clk) request ctx signature db of
                        (Inl fault, db) \<Rightarrow> failed p fault db
                      | (Inr _, db) \<Rightarrow> (Return ctx, db))))"

subsection \<open>The internal surface\<close>

text \<open>\<open>admin_session\<close> is the lookup of the admin session cookie, made when there is one.\<close>

record internal_limits =
  il_timestamp_tolerance_seconds :: int
  il_cooldown_window_seconds :: int
  il_max_rejects_per_token :: int
  il_max_rejects_per_ip :: int
  il_window_seconds :: int
  il_max_per_window :: int
  il_max_per_ip :: int

definition authorize_static_token_request ::
    "internal_limits \<Rightarrow> string option \<Rightarrow> (request_auth_error, string) outcome option \<Rightarrow> bool
      \<Rightarrow> (replay_table \<Rightarrow> replay_table) \<Rightarrow> auth_clock \<Rightarrow> http_request \<Rightarrow> auth_db
      \<Rightarrow> (auth_fault, string \<times> string) outcome \<times> auth_db" where
  "authorize_static_token_request limits expected_token admin_session require_idempotency race clk request db =
     (let provided_token = header request ''X-Npcink-Internal-Token'';
          trace_id = extract_trace_id (header request ''traceparent'');
          client_scope_id = resolve_client_scope_id request;
          idempotency_key = py_strip (header request ''Idempotency-Key'');
          refused = (\<lambda>error db. (Raise (Rejected error),
            db\<lparr>ad_events := record_runtime_guard_rejection (ac_stored clk) (ac_events clk) request
              RUNTIME_GUARD_SURFACE_INTERNAL error [] [] trace_id None PUBLIC_REPLAY_POLICY_METHOD_DEFAULT (ad_events db)\<rparr>))
      in if or_empty expected_token = []
         then (Raise (Rejected (RequestAuthError 503 ''auth.internal_not_configured'' ''internal auth is not configured'')), db)
         else if provided_token = []
         then refused (RequestAuthError 401 ''auth.internal_token_required'' ''missing internal auth token'') db
         else case compare_digest provided_token (or_empty expected_token) of
           None \<Rightarrow> (Raise (Unhandled ''TypeError''), db)
         | Some same \<Rightarrow>
             if \<not> same
             then refused (RequestAuthError 403 ''auth.internal_token_invalid'' ''invalid internal auth token'') db
             else case (case admin_session of
                          None \<Rightarrow> Return (''internal_token'', ''internal'')
                        | Some (Inl e) \<Rightarrow> Raise e
                        | Some (Inr principal_id) \<Rightarrow> Return (''platform_admin'', principal_id)) of
               Inl e \<Rightarrow> refused e db
             | Inr actor \<Rightarrow>
                 (case validate_idempotency_key idempotency_key require_idempotency of
                    Inl e \<Rightarrow> refused e db
                  | Inr _ \<Rightarrow>
                      if \<not> (ascii_upper (hr_method request) \<in> {''POST'', ''PUT'', ''PATCH'', ''DELETE''}
                             \<and> idempotency_key \<noteq> [])
                      then (Return actor, db)
                      else (case pass_guards race
                                [(REPLAY_SCOPE_INTERNAL_POST, REPLAY_SCOPE_INTERNAL, il_max_rejects_per_token limits),
                                 (REPLAY_SCOPE_INTERNAL_POST_IP, client_scope_id, il_max_rejects_per_ip limits)]
                                (il_cooldown_window_seconds limits)
                                [(REPLAY_SCOPE_INTERNAL_POST, REPLAY_SCOPE_INTERNAL, il_max_per_window limits),
                                 (REPLAY_SCOPE_INTERNAL_POST_IP, client_scope_id, il_max_per_ip limits)]
                                (il_window_seconds limits) idempotency_key (hr_method request) (hr_path request)
                                trace_id (ac_now clk)
                                (resolve_replay_receipt_ttl_seconds (il_timestamp_tolerance_seconds limits)) db of
                              (Inl e, db) \<Rightarrow> refused e db
                            | (Inr db, _) \<Rightarrow> (Return actor, db))))"

end
