(* ===== verification/PortalIdempotency.thy ===== *)
theory PortalIdempotency
  imports Secrets
begin

section \<open>Idempotent Portal mutations (app/domain/portal\_idempotency.py)\<close>

text \<open>
  A Portal mutation claims a receipt under (principal, idempotency key), executes, and completes the
  receipt with its encrypted response; a repetition replays the stored response.  The receipts are
  the table \<open>portal_mutation_idempotency_receipts\<close>.  Fresh identifiers and tokens (\<open>uuid4\<close>) and clock
  reads are arguments, and so are the JSON parser (\<open>json.loads\<close>, \<open>None\<close> for a decode error) and the
  database faults of each attempt.  Between a transaction's read and its write another transaction
  may commit; \<open>race\<close> is what it does to the table.
\<close>

subsection \<open>Data\<close>

record portal_receipt =
  pr_receipt_id :: string
  pr_principal_id :: string
  pr_idempotency_key :: string
  pr_request_method :: string
  pr_request_path :: string
  pr_request_fingerprint :: string
  pr_state :: string
  pr_claim_token :: "string option"
  pr_lease_expires_at :: "instant option"
  pr_response_status :: "int option"
  pr_response_body_ciphertext :: "string option"
  pr_retention_ttl_seconds :: int
  pr_expires_at :: instant
  pr_completed_at :: "instant option"
  pr_created_at :: instant
  pr_updated_at :: instant

type_synonym receipt_table = "portal_receipt list"

record portal_claim =
  pc_receipt_id :: string
  pc_principal_id :: string
  pc_idempotency_key :: string
  pc_request_fingerprint :: string
  pc_claim_token :: string
  pc_lease_expires_at :: instant

record portal_replay =
  pp_status_code :: int
  pp_body :: bytes

datatype portal_outcome = Claimed portal_claim | Replayed portal_replay

text \<open>\<open>PortalValueError\<close> is a \<open>ValueError\<close>, \<open>PortalSecretError\<close> an error of the encryption.\<close>

datatype portal_error =
    PortalIdempotencyError int string string
  | PortalValueError string
  | PortalSecretError secret_error
  | PortalDatabaseError

datatype db_fault = SqliteLocked | OtherOperationalError

definition PORTAL_IDEMPOTENCY_STATE_PROCESSING :: string where
  "PORTAL_IDEMPOTENCY_STATE_PROCESSING = ''processing''"
definition PORTAL_IDEMPOTENCY_STATE_COMPLETED :: string where
  "PORTAL_IDEMPOTENCY_STATE_COMPLETED = ''completed''"
definition PORTAL_IDEMPOTENCY_CLEANUP_BATCH_SIZE :: int where
  "PORTAL_IDEMPOTENCY_CLEANUP_BATCH_SIZE = 100"
definition CLAIM_RETRY_LIMIT :: nat where
  "CLAIM_RETRY_LIMIT = 4"

definition in_progress_error :: portal_error where
  "in_progress_error = PortalIdempotencyError 409 ''portal.idempotency_in_progress''
     ''A Portal request with this Idempotency-Key is still processing''"

subsection \<open>Keys and fingerprints\<close>

definition PORTAL_IDEMPOTENCY_KEY_PATTERN :: "string \<Rightarrow> bool" where
  "PORTAL_IDEMPOTENCY_KEY_PATTERN key \<longleftrightarrow>
     1 \<le> length key \<and> length key \<le> 128
     \<and> list_all (\<lambda>c. let n = (of_char c :: nat) in
         (65 \<le> n \<and> n \<le> 90) \<or> (97 \<le> n \<and> n \<le> 122) \<or> (48 \<le> n \<and> n \<le> 57)
         \<or> c = CHR ''.'' \<or> c = CHR ''_'' \<or> c = CHR '':'' \<or> c = CHR ''-'') key"

definition PORTAL_IDEMPOTENCY_FINGERPRINT_PATTERN :: "string \<Rightarrow> bool" where
  "PORTAL_IDEMPOTENCY_FINGERPRINT_PATTERN s \<longleftrightarrow>
     length s = 64
     \<and> list_all (\<lambda>c. let n = (of_char c :: nat) in (48 \<le> n \<and> n \<le> 57) \<or> (97 \<le> n \<and> n \<le> 102)) s"

definition validate_portal_idempotency_key :: "string option \<Rightarrow> (portal_error, string) outcome" where
  "validate_portal_idempotency_key value =
     (let key = or_empty value in
      if key = [] then Raise (PortalIdempotencyError 401 ''auth.idempotency_required''
                                ''Idempotency-Key header is required'')
      else if key \<noteq> py_strip key \<or> \<not> PORTAL_IDEMPOTENCY_KEY_PATTERN key
      then Raise (PortalIdempotencyError 400 ''auth.invalid_idempotency_key''
                    ''Idempotency-Key header contains unsupported characters'')
      else Return key)"

definition invalid_body_error :: portal_error where
  "invalid_body_error = PortalIdempotencyError 400 ''auth.invalid_idempotency_request''
     ''Portal mutation request body is not valid JSON''"

text \<open>A body is raw bytes or an already parsed value.  A parsed \<open>NaN\<close> or infinity is a \<open>JFloat\<close> whose text
  is Python's name of it, which \<open>allow_nan=False\<close> refuses.\<close>

datatype request_body = RawBody bytes | ParsedBody json

primrec has_nan :: "json \<Rightarrow> bool" where
  "has_nan JNull = False"
| "has_nan (JBool b) = False"
| "has_nan (JInt i) = False"
| "has_nan (JFloat r txt) = (txt \<in> {''NaN'', ''Infinity'', ''-Infinity''})"
| "has_nan (JStr s) = False"
| "has_nan (JList xs) = list_ex id (map has_nan xs)"
| "has_nan (JObj kvs) = list_ex snd (map (map_prod id has_nan) kvs)"

definition canonical_json_body_bytes ::
    "(bytes \<Rightarrow> json option) \<Rightarrow> request_body \<Rightarrow> (portal_error, bytes) outcome" where
  "canonical_json_body_bytes json_loads body =
     (let dump = (\<lambda>candidate. if has_nan candidate then Raise invalid_body_error
                              else Return (utf8_encode (json_text json_quote_raw candidate)))
      in case body of
           ParsedBody candidate \<Rightarrow> dump candidate
         | RawBody raw \<Rightarrow>
             if raw = [] then Return []
             else (case json_loads raw of
                     None \<Rightarrow> Raise invalid_body_error
                   | Some candidate \<Rightarrow> dump candidate))"

definition build_portal_request_fingerprint ::
    "(bytes \<Rightarrow> json option) \<Rightarrow> string \<Rightarrow> string \<Rightarrow> request_body \<Rightarrow> string \<Rightarrow> string
      \<Rightarrow> (portal_error, string) outcome" where
  "build_portal_request_fingerprint json_loads method route body query_string site_id =
     and_then (canonical_json_body_bytes json_loads body) (\<lambda>body_bytes.
       Return (hexdigest (sha256 (utf8_encode (json_dumps (JObj
         [(''body_sha256'', JStr (hexdigest (sha256 body_bytes))),
          (''method'', JStr (ascii_upper (py_strip method))),
          (''path'', JStr (py_strip route)),
          (''query'', JStr query_string),
          (''site_id'', JStr (py_strip site_id))]))))))"

definition build_portal_business_idempotency_key :: "string \<Rightarrow> string \<Rightarrow> (portal_error, string) outcome" where
  "build_portal_business_idempotency_key principal_id idempotency_key =
     (let principal = py_strip principal_id in
      if principal = [] then Raise (PortalValueError ''Portal principal is required for business idempotency'')
      else if idempotency_key = []
      then Raise (PortalValueError ''Portal idempotency key is required for business idempotency'')
      else Return (''portal:'' @ hexdigest (sha256 (utf8_encode (principal @ [char_of (0::nat)] @ idempotency_key)))))"

subsection \<open>Clean-up\<close>

definition receipt_expired :: "instant \<Rightarrow> portal_receipt \<Rightarrow> bool" where
  "receipt_expired now r \<longleftrightarrow> pr_state r = PORTAL_IDEMPOTENCY_STATE_COMPLETED \<and> pr_expires_at r \<le> now"

definition cleanup_expired_portal_mutation_receipts ::
    "instant \<Rightarrow> int \<Rightarrow> receipt_table \<Rightarrow> int \<times> receipt_table" where
  "cleanup_expired_portal_mutation_receipts now batch_size rows =
     (let limit = max 1 (min batch_size PORTAL_IDEMPOTENCY_CLEANUP_BATCH_SIZE);
          receipt_ids = map pr_receipt_id (sql_limit limit
            (sort_key (\<lambda>r. (pr_expires_at r, pr_receipt_id r)) (filter (receipt_expired now) rows)))
      in if receipt_ids = [] then (0, rows)
         else (int (length (filter (\<lambda>r. pr_receipt_id r \<in> set receipt_ids) rows)),
               filter (\<lambda>r. pr_receipt_id r \<notin> set receipt_ids) rows))"

subsection \<open>Claiming\<close>

text \<open>A processing receipt has a lease by the table's check constraint; without one the code would compare
  the present moment with the earlier \<open>now\<close>.\<close>

text \<open>The validated arguments of one claim attempt.\<close>

record claim_attempt =
  ca_receipt_id :: string
  ca_principal_id :: string
  ca_idempotency_key :: string
  ca_method :: string
  ca_route :: string
  ca_request_fingerprint :: string
  ca_claim_token :: string
  ca_lease_expires_at :: instant
  ca_expires_at :: instant
  ca_retention_ttl_seconds :: int
  ca_now :: instant

definition find_receipt :: "string \<Rightarrow> string \<Rightarrow> receipt_table \<Rightarrow> portal_receipt option" where
  "find_receipt principal_id idempotency_key rows =
     find (\<lambda>r. pr_principal_id r = principal_id \<and> pr_idempotency_key r = idempotency_key) rows"

definition new_receipt :: "claim_attempt \<Rightarrow> portal_receipt" where
  "new_receipt c =
     \<lparr>pr_receipt_id = ca_receipt_id c, pr_principal_id = ca_principal_id c,
      pr_idempotency_key = ca_idempotency_key c, pr_request_method = ca_method c,
      pr_request_path = ca_route c, pr_request_fingerprint = ca_request_fingerprint c,
      pr_state = PORTAL_IDEMPOTENCY_STATE_PROCESSING, pr_claim_token = Some (ca_claim_token c),
      pr_lease_expires_at = Some (ca_lease_expires_at c), pr_response_status = None,
      pr_response_body_ciphertext = None, pr_retention_ttl_seconds = ca_retention_ttl_seconds c,
      pr_expires_at = ca_expires_at c, pr_completed_at = None, pr_created_at = ca_now c,
      pr_updated_at = ca_now c\<rparr>"

definition claim_from_receipt :: "instant \<Rightarrow> portal_receipt \<Rightarrow> portal_claim" where
  "claim_from_receipt clock r =
     \<lparr>pc_receipt_id = pr_receipt_id r, pc_principal_id = pr_principal_id r,
      pc_idempotency_key = pr_idempotency_key r, pc_request_fingerprint = pr_request_fingerprint r,
      pc_claim_token = or_empty (pr_claim_token r),
      pc_lease_expires_at = (case pr_lease_expires_at r of None \<Rightarrow> clock | Some t \<Rightarrow> t)\<rparr>"

text \<open>The primary key, the unique constraint and the TTL check of the table.\<close>

definition insert_refused :: "portal_receipt \<Rightarrow> receipt_table \<Rightarrow> bool" where
  "insert_refused r rows \<longleftrightarrow>
     pr_retention_ttl_seconds r \<le> 0
     \<or> list_ex (\<lambda>q. pr_receipt_id q = pr_receipt_id r
          \<or> (pr_principal_id q = pr_principal_id r \<and> pr_idempotency_key q = pr_idempotency_key r)) rows"

definition claim_portal_mutation_once ::
    "crypto \<Rightarrow> encryption_settings \<Rightarrow> (receipt_table \<Rightarrow> receipt_table) \<Rightarrow> claim_attempt \<Rightarrow> receipt_table
      \<Rightarrow> (portal_error, portal_outcome option) outcome \<times> receipt_table" where
  "claim_portal_mutation_once lib settings race c rows =
     (case find_receipt (ca_principal_id c) (ca_idempotency_key c) rows of
        None \<Rightarrow>
          (let receipt = new_receipt c; rows = race rows in
           if insert_refused receipt rows then (Return None, rows)
           else (Return (Some (Claimed (claim_from_receipt (ca_now c) receipt))), rows @ [receipt]))
      | Some receipt \<Rightarrow>
          if pr_request_fingerprint receipt \<noteq> ca_request_fingerprint c
          then (Raise (PortalIdempotencyError 409 ''portal.idempotency_conflict''
                  ''Idempotency-Key was already used for a different Portal request''), rows)
          else if receipt_expired (ca_now c) receipt
          then (let rows = race rows;
                    gone = (\<lambda>r. pr_receipt_id r = pr_receipt_id receipt \<and> pr_expires_at r \<le> ca_now c)
                in if length (filter gone rows) \<noteq> 1 then (Return None, rows)
                   else (Return None, filter (\<lambda>r. \<not> gone r) rows))
          else if pr_state receipt = PORTAL_IDEMPOTENCY_STATE_COMPLETED
          then (case decrypt_portal_idempotency_response lib settings (pr_response_body_ciphertext receipt) of
                  Inr response_body \<Rightarrow>
                    (Return (Some (Replayed \<lparr>pp_status_code =
                        (case pr_response_status receipt of None \<Rightarrow> 500 | Some s \<Rightarrow> if s = 0 then 500 else s),
                        pp_body = response_body\<rparr>)), rows)
                | Inl (RuntimeError _) \<Rightarrow>
                    (Raise (PortalIdempotencyError 503 ''portal.idempotency_receipt_unavailable''
                       ''Portal idempotency receipt could not be read safely''), rows)
                | Inl e \<Rightarrow> (Raise (PortalSecretError e), rows))
          else if (case pr_lease_expires_at receipt of None \<Rightarrow> True | Some t \<Rightarrow> ca_now c < t)
          then (Raise in_progress_error, rows)
          else (Raise (PortalIdempotencyError 409 ''portal.idempotency_indeterminate''
                  ''The original Portal request may have completed and requires reconciliation''), rows))"

text \<open>The request of a mutation and its retry loop; \<open>ids i\<close> are the receipt id and the token of attempt \<open>i\<close>.\<close>

record mutation_request =
  mr_principal_id :: "string option"
  mr_idempotency_key :: "string option"
  mr_method :: string
  mr_route :: string
  mr_request_fingerprint :: string
  mr_lease_seconds :: int
  mr_ttl_seconds :: int

fun claim_attempts ::
    "nat \<Rightarrow> nat \<Rightarrow> (nat \<Rightarrow> db_fault option)
      \<Rightarrow> (nat \<Rightarrow> receipt_table \<Rightarrow> (portal_error, portal_outcome option) outcome \<times> receipt_table)
      \<Rightarrow> receipt_table \<Rightarrow> (portal_error, portal_outcome) outcome \<times> receipt_table" where
  "claim_attempts 0 i fault attempt rows = (Raise in_progress_error, rows)"
| "claim_attempts (Suc n) i fault attempt rows =
     (case fault i of
        Some OtherOperationalError \<Rightarrow> (Raise PortalDatabaseError, rows)
      | Some SqliteLocked \<Rightarrow> claim_attempts n (Suc i) fault attempt rows
      | None \<Rightarrow>
          (case attempt i rows of
             (Inl e, rows') \<Rightarrow> (Raise e, rows')
           | (Inr (Some outcome), rows') \<Rightarrow> (Return outcome, rows')
           | (Inr None, rows') \<Rightarrow> claim_attempts n (Suc i) fault attempt rows'))"

definition invalid_request_error :: "string \<Rightarrow> portal_error" where
  "invalid_request_error message = PortalIdempotencyError 400 ''auth.invalid_idempotency_request'' message"

definition claim_portal_mutation ::
    "crypto \<Rightarrow> encryption_settings \<Rightarrow> (nat \<Rightarrow> db_fault option) \<Rightarrow> (nat \<Rightarrow> receipt_table \<Rightarrow> receipt_table)
      \<Rightarrow> (nat \<Rightarrow> string \<times> string) \<Rightarrow> instant \<Rightarrow> mutation_request \<Rightarrow> receipt_table
      \<Rightarrow> (portal_error, portal_outcome) outcome \<times> receipt_table" where
  "claim_portal_mutation lib settings fault race ids now m rows =
     (case validate_portal_idempotency_key (mr_idempotency_key m) of
        Inl e \<Rightarrow> (Raise e, rows)
      | Inr key \<Rightarrow>
          (let principal = py_strip (or_empty (mr_principal_id m));
               fingerprint = py_lower (py_strip (mr_request_fingerprint m));
               method = ascii_upper (py_strip (mr_method m));
               route = py_strip (mr_route m)
           in if principal = []
              then (Raise (PortalIdempotencyError 401 ''auth.portal_session_invalid''
                      ''Portal principal is required''), rows)
              else if \<not> PORTAL_IDEMPOTENCY_FINGERPRINT_PATTERN fingerprint
              then (Raise (invalid_request_error ''Portal mutation request fingerprint is invalid''), rows)
              else if method = [] \<or> 16 < length method \<or> route = [] \<or> 512 < length route
              then (Raise (invalid_request_error ''Portal mutation request target is invalid''), rows)
              else if mr_lease_seconds m < 1 \<or> mr_ttl_seconds m \<le> mr_lease_seconds m
              then (Raise (PortalValueError ''Portal idempotency TTL must exceed the processing lease''), rows)
              else claim_attempts CLAIM_RETRY_LIMIT 0 fault
                     (\<lambda>i. claim_portal_mutation_once lib settings (race i)
                        \<lparr>ca_receipt_id = ''pidem_'' @ fst (ids i), ca_principal_id = principal,
                         ca_idempotency_key = key, ca_method = method, ca_route = route,
                         ca_request_fingerprint = fingerprint, ca_claim_token = snd (ids i),
                         ca_lease_expires_at = now + seconds (mr_lease_seconds m),
                         ca_expires_at = now + seconds (mr_ttl_seconds m),
                         ca_retention_ttl_seconds = mr_ttl_seconds m, ca_now = now\<rparr>)
                     (snd (cleanup_expired_portal_mutation_receipts now PORTAL_IDEMPOTENCY_CLEANUP_BATCH_SIZE rows))))"

subsection \<open>Release and completion\<close>

definition owns :: "portal_claim \<Rightarrow> portal_receipt \<Rightarrow> bool" where
  "owns claim r \<longleftrightarrow>
     pr_receipt_id r = pc_receipt_id claim \<and> pr_principal_id r = pc_principal_id claim
     \<and> pr_idempotency_key r = pc_idempotency_key claim
     \<and> pr_request_fingerprint r = pc_request_fingerprint claim
     \<and> pr_state r = PORTAL_IDEMPOTENCY_STATE_PROCESSING
     \<and> pr_claim_token r = Some (pc_claim_token claim)"

definition release_unexecuted_portal_mutation ::
    "portal_claim \<Rightarrow> receipt_table \<Rightarrow> (portal_error, unit) outcome \<times> receipt_table" where
  "release_unexecuted_portal_mutation claim rows =
     (if length (filter (owns claim) rows) \<noteq> 1
      then (Raise (PortalIdempotencyError 409 ''portal.idempotency_in_progress''
              ''Portal claim ownership changed''), rows)
      else (Return (), filter (\<lambda>r. \<not> owns claim r) rows))"

definition complete_receipt :: "instant \<Rightarrow> int \<Rightarrow> string \<Rightarrow> portal_receipt \<Rightarrow> portal_receipt" where
  "complete_receipt now status_code ciphertext r =
     r\<lparr>pr_state := PORTAL_IDEMPOTENCY_STATE_COMPLETED, pr_claim_token := None, pr_lease_expires_at := None,
       pr_response_status := Some status_code, pr_response_body_ciphertext := Some ciphertext,
       pr_expires_at := now + seconds (pr_retention_ttl_seconds r), pr_completed_at := Some now,
       pr_updated_at := now\<rparr>"

definition invalid_response_error :: "string \<Rightarrow> portal_error" where
  "invalid_response_error message = PortalIdempotencyError 500 ''portal.idempotency_response_invalid'' message"

definition complete_portal_mutation ::
    "crypto \<Rightarrow> encryption_settings \<Rightarrow> (bytes \<Rightarrow> json option) \<Rightarrow> instant \<Rightarrow> int \<Rightarrow> portal_claim \<Rightarrow> int \<Rightarrow> bytes
      \<Rightarrow> receipt_table \<Rightarrow> (portal_error, unit) outcome \<times> receipt_table" where
  "complete_portal_mutation lib settings json_loads now max_response_bytes claim status_code body rows =
     (if \<not> (100 \<le> status_code \<and> status_code \<le> 599)
      then (Raise (PortalValueError ''Portal idempotency response status must be between 100 and 599''), rows)
      else if body = [] then (Raise (invalid_response_error ''Portal mutation response must be bounded JSON''), rows)
      else case json_loads body of
        None \<Rightarrow> (Raise (invalid_response_error ''Portal mutation response is not valid JSON''), rows)
      | Some parsed \<Rightarrow>
          if parsed = JNull
          then (Raise (invalid_response_error ''Portal mutation response must be a non-null JSON value''), rows)
          else if max_response_bytes < int (length body)
          then (Raise (PortalIdempotencyError 500 ''portal.idempotency_response_too_large''
                  ''Portal mutation response exceeds the idempotency storage limit''), rows)
          else case encrypt_portal_idempotency_response lib settings body of
            Inl e \<Rightarrow> (Raise (PortalSecretError e), rows)
          | Inr ciphertext \<Rightarrow>
              (case row_get pr_receipt_id (pc_receipt_id claim) rows of
                 None \<Rightarrow> (Raise (PortalIdempotencyError 409 ''portal.idempotency_in_progress''
                            ''Portal idempotency claim is no longer available''), rows)
               | Some receipt \<Rightarrow>
                   if length (filter (owns claim) rows) \<noteq> 1
                   then (Raise (PortalIdempotencyError 409 ''portal.idempotency_in_progress''
                           ''Portal idempotency claim ownership changed before completion''), rows)
                   else (Return (), rows_update (owns claim) (complete_receipt now status_code ciphertext) rows)))"

end
