(* ===== verification/RequestDemo.thy ===== *)
theory RequestDemo
  imports RequestAuth
begin

section \<open>A signed request for the examples\<close>

text \<open>Facts about signature texts, and a site with one key whose signed request is accepted; the witnesses
  of the request theories use it.\<close>

subsection \<open>Signature texts\<close>

lemma length_hmac_sha256 [simp]: "length (hmac sha256 k m) = 32"
  by (simp add: hmac_def Let_def)

lemma hex_digit_lower: "n < 16 \<Longrightarrow> is_hex_lower (hex_digit n)"
  using hex_digit_code [of n] by (auto simp: is_hex_lower_def)

lemma hexdigest_lower: "list_all is_hex_lower (hexdigest bs)"
  by (induction bs) (simp_all add: hexdigest_Cons hex_digit_lower byte_nibbles)

lemma hex_lower_facts:
  "is_hex_lower c \<Longrightarrow> \<not> py_space c \<and> c \<noteq> CHR ''='' \<and> py_lower_char c = c \<and> (of_char c :: nat) < 128"
  by (auto simp: is_hex_lower_def py_space_def py_lower_char_def Let_def)

lemma hmac_signature_facts:
  "SHA256_HEX_PATTERN (build_hmac_signature k m)" "py_strip (build_hmac_signature k m) = build_hmac_signature k m"
  "build_hmac_signature k m \<noteq> []" "normalize_signature (build_hmac_signature k m) = build_hmac_signature k m"
  "is_ascii (build_hmac_signature k m)"
proof -
  let ?s = "build_hmac_signature k m"
  have hex: "list_all is_hex_lower ?s" and len: "length ?s = 64"
    by (simp_all add: build_hmac_signature_def hexdigest_lower)
  show strip: "py_strip ?s = ?s" using hex hex_lower_facts by (intro py_strip_no_space) (auto simp: list_all_iff)
  show "SHA256_HEX_PATTERN ?s" using hex len by (simp add: SHA256_HEX_PATTERN_def)
  show "?s \<noteq> []" using len by auto
  have "CHR ''='' \<notin> set ?s" using hex hex_lower_facts by (auto simp: list_all_iff)
  then have "CHR ''='' \<notin> set (take 7 ?s)" using in_set_takeD by fastforce
  moreover have "length ''sha256='' = (7::nat)" by simp
  ultimately have "\<not> starts_with ''sha256='' ?s" unfolding starts_with_def by (simp only:) auto
  moreover have "py_lower ?s = ?s" unfolding py_lower_def
    by (rule map_idI) (use hex hex_lower_facts in \<open>auto simp: list_all_iff\<close>)
  ultimately show "normalize_signature ?s = ?s" by (simp add: normalize_signature_def strip)
  show "is_ascii ?s" using hex hex_lower_facts by (auto simp: is_ascii_def list_all_iff)
qed

subsection \<open>The request\<close>

definition demo_traceparent :: string where
  "demo_traceparent = ''00-'' @ replicate 32 CHR ''a'' @ ''-b-01''"

definition signed_demo_request :: "string \<Rightarrow> http_request" where
  "signed_demo_request signature =
     \<lparr>hr_method = ''POST'', hr_path = ''/v1/runs'', hr_query = [],
      hr_headers = [(''X-Npcink-Site-Id'', ''s1''), (''X-Npcink-Key-Id'', ''k1''), (''X-Npcink-Timestamp'', ''5''),
        (''traceparent'', demo_traceparent), (''X-Npcink-Nonce'', ''n1''), (''X-Npcink-Signature'', signature)],
      hr_body = [], hr_client_host = None\<rparr>"

definition demo_context :: request_auth_context where
  "demo_context = \<lparr>rc_site = ''s1'', rc_key = ''k1'', rc_trace_id = replicate 32 CHR ''a'',
     rc_traceparent = demo_traceparent, rc_nonce = ''n1'', rc_idempotency_key = [], rc_timestamp = ''5'',
     rc_body_digest = build_body_digest []\<rparr>"

definition demo_signature :: string where
  "demo_signature = build_hmac_signature ''sk'' (canonical_request_of (signed_demo_request []) demo_context)"

definition demo_request :: http_request where
  "demo_request = signed_demo_request demo_signature"

definition demo_limits :: guard_limits where
  "demo_limits = \<lparr>gl_timestamp_tolerance_seconds = 300, gl_post_window_seconds = 60, gl_post_max_per_site = 2,
     gl_post_max_per_key = 2, gl_post_max_per_ip = 2, gl_cooldown_window_seconds = 60, gl_max_rejects_per_site = 2,
     gl_max_rejects_per_key = 2, gl_max_rejects_per_ip = 2, gl_pull_window_seconds = 60, gl_pull_max_per_site = 2,
     gl_pull_max_per_key = 2, gl_pull_max_per_ip = 2\<rparr>"

definition demo_options :: auth_options where
  "demo_options = \<lparr>ao_require_idempotency = False, ao_required_scope = None, ao_max_body_bytes = 100,
     ao_replay_policy = PUBLIC_REPLAY_POLICY_METHOD_DEFAULT\<rparr>"

definition demo_key_row :: "string \<Rightarrow> instant option \<Rightarrow> site_api_key" where
  "demo_key_row ciphertext used = \<lparr>ak_key_id = ''k1'', ak_site_id = ''s1'', ak_signing_secret_ciphertext = Some ciphertext,
     ak_scopes_json = None, ak_status = ''active'', ak_expires_at = None, ak_revoked_at = None, ak_last_used_at = used\<rparr>"

definition demo_db :: "string \<Rightarrow> instant option \<Rightarrow> replay_table \<Rightarrow> auth_db" where
  "demo_db ciphertext used rows = \<lparr>ad_sites = [\<lparr>st_site_id = ''s1'', st_status = ''active''\<rparr>],
     ad_keys = [demo_key_row ciphertext used], ad_receipts = rows, ad_events = []\<rparr>"

definition demo_auth_clock :: "instant \<Rightarrow> auth_clock" where
  "demo_auth_clock now = \<lparr>ac_preflight = now, ac_now = now, ac_events = (\<lambda>_. now), ac_stored = True\<rparr>"

lemma demo_header_names:
  "py_lower ''X-Npcink-Site-Id'' = ''x-npcink-site-id''" "py_lower ''X-Npcink-Key-Id'' = ''x-npcink-key-id''"
  "py_lower ''X-Npcink-Timestamp'' = ''x-npcink-timestamp''" "py_lower ''traceparent'' = ''traceparent''"
  "py_lower ''X-Npcink-Nonce'' = ''x-npcink-nonce''" "py_lower ''X-Npcink-Signature'' = ''x-npcink-signature''"
  "py_lower ''Idempotency-Key'' = ''idempotency-key''"
  by (simp_all add: py_lower_def py_lower_char_def Let_def char_of_def bit_Suc_0_iff)

lemma demo_headers:
  "header (signed_demo_request sg) ''X-Npcink-Site-Id'' = ''s1''" "header (signed_demo_request sg) ''X-Npcink-Key-Id'' = ''k1''"
  "header (signed_demo_request sg) ''X-Npcink-Timestamp'' = ''5''" "header (signed_demo_request sg) ''traceparent'' = demo_traceparent"
  "header (signed_demo_request sg) ''X-Npcink-Nonce'' = ''n1''" "header (signed_demo_request sg) ''X-Npcink-Signature'' = sg"
  "header (signed_demo_request sg) ''Idempotency-Key'' = []"
  by (simp_all add: header_def signed_demo_request_def demo_header_names)

lemma demo_trace: "extract_trace_id demo_traceparent = replicate 32 CHR ''a''" "py_strip demo_traceparent = demo_traceparent"
proof -
  have dash: "CHR ''-'' \<notin> set (replicate 32 CHR ''a'')" by simp
  have "py_split CHR ''-'' demo_traceparent = [''00'', replicate 32 CHR ''a'', ''b'', ''01'']"
    unfolding demo_traceparent_def
    using py_split_step [OF dash, of "''b-01''"] by simp
  then show "extract_trace_id demo_traceparent = replicate 32 CHR ''a''" by (simp add: extract_trace_id_def)
  show "py_strip demo_traceparent = demo_traceparent"
    by (rule py_strip_no_space) (auto simp: demo_traceparent_def py_space_def)
qed

lemma demo_parsed: "parse_request_timestamp fromiso ''5'' = Return (seconds 5)"
proof -
  have strip: "py_strip ''5'' = ''5''" by (rule py_strip_no_space) (simp add: py_space_def)
  have "int_of_text ''5'' = Some 5" by (simp add: int_of_text_def strip is_digit_def digit_value_def)
  then show ?thesis
    by (simp add: parse_request_timestamp_def strip is_digit_like_def is_digit_def datetime_fromtimestamp_def
        MAX_DATETIME_SECONDS_def)
qed

lemma demo_strips: "py_strip ''s1'' = ''s1''" "py_strip ''k1'' = ''k1''" "py_strip ''5'' = ''5''" "py_strip ''n1'' = ''n1''"
  "py_strip [] = []"
  by (intro py_strip_no_space; simp add: py_space_def)+

lemma demo_nonempty: "demo_traceparent \<noteq> []" "replicate 32 CHR ''a'' \<noteq> []"
  by (simp_all add: demo_traceparent_def)

lemma demo_read:
  assumes "\<bar>now - seconds 5\<bar> \<le> seconds 300"
  shows "read_signed_headers fromiso 300 demo_options now demo_request = Return (demo_context\<lparr>rc_body_digest := []\<rparr>, demo_signature)"
proof -
  have time: "validate_timestamp fromiso ''5'' now 300 = Return ()"
    using assms by (simp add: validate_timestamp_def demo_parsed)
  have nonce: "validate_nonce ''n1'' required = Return ()" for required
    by (simp add: validate_nonce_def NONCE_PATTERN_def is_marker_char_def is_token_char_def is_alnum_def is_lower_def is_digit_def)
  note facts = hmac_signature_facts [of "''sk''" "canonical_request_of (signed_demo_request []) demo_context", folded demo_signature_def]
  note headers = demo_headers [of demo_signature, folded demo_request_def] demo_strips demo_trace facts demo_nonempty
  have present: "require_header demo_request ''X-Npcink-Site-Id'' code = Return ''s1''"
    "require_header demo_request ''X-Npcink-Key-Id'' code = Return ''k1''"
    "require_header demo_request ''X-Npcink-Timestamp'' code = Return ''5''"
    "require_header demo_request ''traceparent'' code = Return demo_traceparent"
    "require_header demo_request ''X-Npcink-Signature'' code = Return demo_signature" for code
    by (simp_all add: require_header_def Let_def headers)
  show ?thesis
    unfolding read_signed_headers_def Let_def
    by (simp add: present headers demo_options_def nonce validate_idempotency_key_def time rejected_def raised_at_def
         validate_signature_format_def demo_context_def)
qed

subsection \<open>Its acceptance\<close>

definition demo_scopes :: "guarded_scope list" where
  "demo_scopes = [(''public_post_site'', ''s1'', 2), (''public_post_key'', ''k1'', 2), (''public_post_ip'', [], 2)]"

lemma demo_public_scopes:
  "public_scopes demo_limits PUBLIC_REPLAY_POLICY_METHOD_DEFAULT ''s1'' ''k1'' [] = (demo_scopes, 60, demo_scopes)"
  by (simp add: public_scopes_def public_scope_kinds_def demo_limits_def demo_scopes_def
      PUBLIC_REPLAY_POLICY_METHOD_DEFAULT_def PUBLIC_REPLAY_POLICY_MEDIA_PULL_def)

lemma demo_request_fields:
  "hr_method demo_request = ''POST''" "hr_path demo_request = ''/v1/runs''" "hr_body demo_request = []"
  "resolve_client_scope_id demo_request = []" "requires_nonce demo_request PUBLIC_REPLAY_POLICY_METHOD_DEFAULT"
  by (simp_all add: demo_request_def signed_demo_request_def resolve_client_scope_id_def demo_strips requires_nonce_def
      ascii_upper_def)

lemma demo_canonical: "canonical_request_of demo_request demo_context = canonical_request_of (signed_demo_request []) demo_context"
  by (simp add: canonical_request_of_def demo_request_def signed_demo_request_def)

lemma demo_accepted:
  assumes secret: "decrypt_site_api_signing_secret demo_crypto demo_settings (Some ciphertext) = Return ''sk''"
    and time: "\<bar>now - seconds 5\<bar> \<le> seconds 300"
    and limit: "all_pass (\<lambda>(kind, sid, m). enforce_short_window_rate_limit kind sid now 60 m rows) demo_scopes = Return ()"
    and reserve: "reserve_markers demo_scopes ''n1'' ''POST'' ''/v1/runs'' (replicate 32 CHR ''a'') now 600 (race rows) = Return rows'"
  shows "authorize_request demo_crypto demo_settings fromiso demo_limits demo_options RequestBody race (demo_auth_clock now)
    demo_request (demo_db ciphertext used rows) = (Return demo_context, demo_db ciphertext (Some now) rows')"
proof -
  have limits: "gl_timestamp_tolerance_seconds demo_limits = 300" "gl_cooldown_window_seconds demo_limits = 60"
    by (simp_all add: demo_limits_def)
  have opts: "ao_replay_policy demo_options = PUBLIC_REPLAY_POLICY_METHOD_DEFAULT" "ao_required_scope demo_options = None"
    by (simp_all add: demo_options_def)
  have clock: "ac_preflight (demo_auth_clock now) = now" "ac_now (demo_auth_clock now) = now" by (simp_all add: demo_auth_clock_def)
  have fields: "rc_site demo_context = ''s1''" "rc_key demo_context = ''k1''" "rc_nonce demo_context = ''n1''"
    "rc_trace_id demo_context = replicate 32 CHR ''a''" "rc_timestamp demo_context = ''5''"
    by (simp_all add: demo_context_def)
  have body: "resolve_body_digest demo_options RequestBody now demo_request h db = Return (build_body_digest [])" for h db
    by (simp add: resolve_body_digest_def demo_request_fields validate_payload_size_def validate_payload_byte_size_def
        demo_options_def rejected_def)
  have digest: "demo_context\<lparr>rc_body_digest := build_body_digest []\<rparr> = demo_context" by (simp add: demo_context_def)
  have valid: "validate_timestamp fromiso ''5'' now 300 = Return ()"
    using time by (simp add: validate_timestamp_def demo_parsed)
  have k: "preflight_site_and_key (demo_db ciphertext used rows) ''s1'' ''k1'' None now = Return (demo_key_row ciphertext used)"
    by (simp add: preflight_site_and_key_def demo_db_def row_get_def demo_key_row_def validate_site_and_key_def
        expand_api_key_scopes_def)
  have signing: "resolve_site_api_signing_secret demo_crypto demo_settings (demo_key_row ciphertext used) = Return ''sk''"
    by (simp add: resolve_site_api_signing_secret_def demo_key_row_def secret)
  have same: "compare_digest (build_hmac_signature ''sk'' (canonical_request_of demo_request demo_context)) demo_signature = Some True"
    by (simp add: demo_canonical compare_digest_def hmac_signature_facts flip: demo_signature_def)
       (simp add: demo_signature_def hmac_signature_facts)
  have cooldown: "all_pass (\<lambda>(kind, sid, m). enforce_guard_cooldown kind sid now 60 m []) demo_scopes = Return ()"
    by (simp add: demo_scopes_def enforce_guard_cooldown_def)
  have ttl: "resolve_replay_receipt_ttl_seconds 300 = 600" by (simp add: resolve_replay_receipt_ttl_seconds_def)
  have tables: "ad_events (demo_db ciphertext used rows) = []" "ad_receipts (demo_db ciphertext used rs) = rs"
    "demo_db ciphertext used rows\<lparr>ad_receipts := rs\<rparr> = demo_db ciphertext used rs" for rs rows
    by (simp_all add: demo_db_def)
  have pass: "pass_guards race demo_scopes 60 demo_scopes 60 ''n1'' ''POST'' ''/v1/runs'' (replicate 32 CHR ''a'') now 600
      (demo_db ciphertext used rows) = (Return (demo_db ciphertext used rows'), demo_db ciphertext used (race rows))"
    unfolding pass_guards_def Let_def tables cooldown and_then_simps limit sum.case reserve by simp
  have used: "demo_db ciphertext used rows'\<lparr>ad_keys := row_put ak_key_id (demo_key_row ciphertext used\<lparr>ak_last_used_at := Some now\<rparr>)
      (ad_keys (demo_db ciphertext used rows'))\<rparr> = demo_db ciphertext (Some now) rows'"
    by (simp add: demo_db_def demo_key_row_def row_put_def rows_update_def)
  have tx: "authorize_site_credentials demo_crypto demo_settings demo_limits demo_options race now demo_request demo_context
      demo_signature (demo_db ciphertext used rows) = (Return (), demo_db ciphertext (Some now) rows')"
    unfolding authorize_site_credentials_def fields opts k rejected_def sum.case and_then_simps signing same option.case
      demo_request_fields demo_public_scopes limits ttl
    by (simp add: demo_request_fields pass used)
  show ?thesis
    unfolding authorize_request_def Let_def limits clock demo_read [OF time] sum.case prod.case body and_then_simps
    by (simp add: fields valid digest tx)
qed

lemma demo_ciphertext:
  obtains ciphertext where "decrypt_site_api_signing_secret demo_crypto demo_settings (Some ciphertext) = Return ''sk''"
proof -
  have "ENCRYPTION_PURPOSE_PATTERN ''site_api_key_signing_secret''"
    by (simp add: ENCRYPTION_PURPOSE_PATTERN_def is_token_char_def is_alnum_def is_lower_def Let_def)
  from demo_encrypts(1) [OF this] obtain ciphertext where
    "encrypt_site_api_signing_secret demo_crypto demo_settings ''sk'' = Return ciphertext"
    by (auto simp: encrypt_site_api_signing_secret_def)
  then show ?thesis using text_secret_roundtrips(2) demo_documented that by blast
qed

lemma demo_limit_passes:
  assumes "\<forall>r\<in>set rows. rr_created_at r < now - seconds 60"
  shows "all_pass (\<lambda>(kind, sid, m). enforce_short_window_rate_limit kind sid now 60 m rows) demo_scopes = Return ()"
proof -
  have "filter (in_window kind sid (now - seconds 60)) rows = []" for kind sid
    using assms by (auto simp: filter_empty_conv in_window_def)
  then show ?thesis by (simp add: demo_scopes_def enforce_short_window_rate_limit_def)
qed

definition demo_markers :: "instant \<Rightarrow> replay_table" where
  "demo_markers now = [marker_row ''public_post_site'' ''s1'' ''n1'' ''POST'' ''/v1/runs'' (replicate 32 CHR ''a'') now 600,
     marker_row ''public_post_key'' ''k1'' ''n1'' ''POST'' ''/v1/runs'' (replicate 32 CHR ''a'') now 600]"

lemma demo_reserves:
  "reserve_markers demo_scopes ''n1'' ''POST'' ''/v1/runs'' (replicate 32 CHR ''a'') now 600 [] = Return (demo_markers now)"
  "before + seconds 600 \<le> now \<Longrightarrow>
     reserve_markers demo_scopes ''n1'' ''POST'' ''/v1/runs'' (replicate 32 CHR ''a'') now 600 (demo_markers before)
       = Return (demo_markers now)"
  by (simp_all add: demo_scopes_def reserve_replay_receipt_def row_get_def rr_marker_def marker_row_def demo_markers_def
      row_put_def rows_update_def)

lemma demo_first:
  "decrypt_site_api_signing_secret demo_crypto demo_settings (Some ciphertext) = Return ''sk'' \<Longrightarrow>
   \<bar>now - seconds 5\<bar> \<le> seconds 300 \<Longrightarrow>
   authorize_request demo_crypto demo_settings fromiso demo_limits demo_options RequestBody (\<lambda>rows. rows) (demo_auth_clock now)
     demo_request (demo_db ciphertext None []) = (Return demo_context, demo_db ciphertext (Some now) (demo_markers now))"
  by (rule demo_accepted) (simp_all add: demo_limit_passes demo_reserves)

end
