(* ===== verification/TotpCodec.thy ===== *)
theory TotpCodec
  imports RequestDemo
begin

section \<open>One-time passwords (app/domain/portal\_totp/codec.py)\<close>

text \<open>
  HOTP over HMAC-SHA-1, the matching of a six digit code against the three time steps around the present
  one, and the provisioning URI.  Errors are \<open>None\<close> where the code raises \<open>ValueError\<close>; the counter is
  below \<open>2 ^ 64\<close>, as \<open>struct.pack\<close> needs, for every time \<open>datetime\<close> can represent.
\<close>

definition zfill :: "nat \<Rightarrow> string \<Rightarrow> string" where
  "zfill n s = replicate (n - length s) CHR ''0'' @ s"

definition truncated_number :: "bytes \<Rightarrow> nat" where
  "truncated_number digest =
     (let offset = unat (last digest) mod 16
      in be_nat (take 4 (drop offset digest)) mod 2 ^ 31)"

definition hotp :: "bytes \<Rightarrow> int \<Rightarrow> nat \<Rightarrow> string option" where
  "hotp seed counter digits =
     (if seed = [] \<or> counter < 0 \<or> digits \<notin> {6, 8} then None
      else let digest = hmac sha1 seed (be_bytes 8 (nat counter))
           in Some (zfill digits (nat_text (truncated_number digest mod 10 ^ digits))))"

text \<open>\<open>Inl\<close> is the \<open>ValueError\<close> of \<open>hotp\<close> on an empty seed.\<close>

definition matched_counter :: "bytes \<Rightarrow> string \<Rightarrow> instant \<Rightarrow> (unit, int option) outcome" where
  "matched_counter seed code timestamp =
     (if \<not> (length code = 6 \<and> list_all is_digit code) \<or> timestamp < 0 then Return None
      else let step = timestamp div seconds 1 div 30;
               counters = [max 0 (step - 1)..step + 1]
           in if seed = [] then Raise ()
              else let matches = filter (\<lambda>c. hotp seed c 6 = Some code) counters
                   in Return (if matches = [] then None else Some (Max (set matches))))"

text \<open>\<open>urllib.parse.quote\<close> with no safe characters, and \<open>urlencode\<close>, which quotes a space as a plus sign.\<close>

definition hex_upper :: "nat \<Rightarrow> char" where
  "hex_upper n = char_of (if n < 10 then 48 + n else 55 + n)"

definition unreserved :: "char \<Rightarrow> bool" where
  "unreserved c \<longleftrightarrow> is_token_char c \<or> c = CHR ''.'' \<or> c = CHR ''~''"

definition quote_char :: "char \<Rightarrow> string" where
  "quote_char c =
     (if unreserved c then [c]
      else concat (map (\<lambda>b. [CHR ''%'', hex_upper (unat b div 16), hex_upper (unat b mod 16)]) (utf8_char c)))"

definition url_quote :: "string \<Rightarrow> string" where
  "url_quote s = concat (map quote_char s)"

definition url_quote_plus :: "string \<Rightarrow> string" where
  "url_quote_plus s = concat (map (\<lambda>c. if c = CHR '' '' then ''+'' else quote_char c) s)"

definition urlencode :: "(string \<times> string) list \<Rightarrow> string" where
  "urlencode pairs = join_with ''&'' (map (\<lambda>(k, v). url_quote_plus k @ ''='' @ url_quote_plus v) pairs)"

definition provisioning :: "bytes \<Rightarrow> string \<Rightarrow> string \<times> string" where
  "provisioning seed label =
     (let encoded = b32_encode_unpadded seed
      in (encoded, ''otpauth://totp/'' @ url_quote (''Npcink:'' @ label) @ ''?''
            @ urlencode [(''secret'', encoded), (''issuer'', ''Npcink''), (''algorithm'', ''SHA1''),
                         (''digits'', ''6''), (''period'', ''30'')]))"

subsection \<open>Codes have six digits\<close>

lemma length_nat_text: "n < 10 ^ k \<Longrightarrow> 0 < k \<Longrightarrow> length (nat_text n) \<le> k"
proof (induction k arbitrary: n)
  case (Suc k)
  show ?case
  proof (cases "n < 10")
    case True
    then show ?thesis by (subst nat_text.simps) simp
  next
    case False
    then have "k \<noteq> 0" using Suc.prems by (cases k) auto
    have "n div 10 < 10 ^ k" using Suc.prems by (simp add: less_mult_imp_div_less)
    with Suc.IH \<open>k \<noteq> 0\<close> have "length (nat_text (n div 10)) \<le> k" by simp
    then show ?thesis using False by (subst nat_text.simps) simp
  qed
qed simp

lemma hotp_shape:
  assumes "hotp seed counter digits = Some code"
  shows "length code = digits \<and> list_all is_digit code"
proof -
  let ?n = "truncated_number (hmac sha1 seed (be_bytes 8 (nat counter))) mod 10 ^ digits"
  from assms have code: "code = zfill digits (nat_text ?n)" and digits: "0 < digits"
    by (auto simp: hotp_def Let_def split: if_splits)
  have "length (nat_text ?n) \<le> digits" by (rule length_nat_text) (use digits in simp_all)
  moreover have "is_digit CHR ''0''" by (simp add: is_digit_def)
  ultimately show ?thesis
    using nat_text_digits by (auto simp: code zfill_def list_all_iff)
qed

text \<open>What a match is: a counter of the window around the present time step whose code this is, the largest such.\<close>

lemma matched_counter_iff:
  assumes "seed \<noteq> []" and "0 \<le> timestamp"
  shows "matched_counter seed code timestamp = Return (Some c) \<longleftrightarrow>
    0 \<le> c \<and> \<bar>c - timestamp div seconds 30\<bar> \<le> 1 \<and> hotp seed c 6 = Some code
    \<and> (\<forall>d. c < d \<and> d \<le> timestamp div seconds 30 + 1 \<longrightarrow> hotp seed d 6 \<noteq> Some code)"
proof -
  have step: "timestamp div seconds 1 div 30 = timestamp div seconds 30"
    by (simp add: seconds_def div_mult2_eq [symmetric] zdiv_zmult2_eq [symmetric])
  define s where "s = timestamp div seconds 30"
  let ?M = "filter (\<lambda>c. hotp seed c 6 = Some code) [max 0 (s - 1)..s + 1]"
  have in_M: "d \<in> set ?M \<longleftrightarrow> 0 \<le> d \<and> s - 1 \<le> d \<and> d \<le> s + 1 \<and> hotp seed d 6 = Some code" for d by auto
  have eval: "matched_counter seed code timestamp = Return (Some c) \<longleftrightarrow>
      length code = 6 \<and> list_all is_digit code \<and> ?M \<noteq> [] \<and> Max (set ?M) = c"
    using assms by (auto simp: matched_counter_def Let_def step s_def [symmetric])
  show ?thesis
  proof
    assume "matched_counter seed code timestamp = Return (Some c)"
    then have M: "?M \<noteq> []" "Max (set ?M) = c" using eval by auto
    then have "c \<in> set ?M" "\<forall>d\<in>set ?M. d \<le> c" by (metis List.finite_set Max_in set_empty, metis List.finite_set Max_ge)
    then show "0 \<le> c \<and> \<bar>c - timestamp div seconds 30\<bar> \<le> 1 \<and> hotp seed c 6 = Some code
        \<and> (\<forall>d. c < d \<and> d \<le> timestamp div seconds 30 + 1 \<longrightarrow> hotp seed d 6 \<noteq> Some code)"
      unfolding s_def [symmetric]
      using in_M by (auto simp: abs_le_iff) (metis in_M le_cases less_le_trans not_le order_trans)
  next
    assume right: "0 \<le> c \<and> \<bar>c - timestamp div seconds 30\<bar> \<le> 1 \<and> hotp seed c 6 = Some code
        \<and> (\<forall>d. c < d \<and> d \<le> timestamp div seconds 30 + 1 \<longrightarrow> hotp seed d 6 \<noteq> Some code)"
    note right' = right [folded s_def]
    have c: "c \<in> set ?M" using right' by auto
    moreover have "d \<le> c" if "d \<in> set ?M" for d
      using that right' unfolding in_M by (meson not_le)
    ultimately have "Max (set ?M) = c" by (intro Max_eqI List.finite_set)
    moreover have "?M \<noteq> []" using c by (metis empty_iff empty_set)
    ultimately show "matched_counter seed code timestamp = Return (Some c)"
      using eval right hotp_shape by blast
  qed
qed

lemma matched_counter_none:
  assumes "seed \<noteq> []" and "0 \<le> timestamp"
  shows "matched_counter seed code timestamp = Return None \<longleftrightarrow>
    (\<forall>c. 0 \<le> c \<and> \<bar>c - timestamp div seconds 30\<bar> \<le> 1 \<longrightarrow> hotp seed c 6 \<noteq> Some code)"
proof -
  have step: "timestamp div seconds 1 div 30 = timestamp div seconds 30"
    by (simp add: seconds_def div_mult2_eq [symmetric] zdiv_zmult2_eq [symmetric])
  define s where "s = timestamp div seconds 30"
  have window: "c \<in> set [max 0 (s - 1)..s + 1] \<longleftrightarrow> 0 \<le> c \<and> \<bar>c - s\<bar> \<le> 1" for c
    by (auto simp: abs_le_iff)
  have "matched_counter seed code timestamp = Return None \<longleftrightarrow>
      (\<forall>c. 0 \<le> c \<and> \<bar>c - s\<bar> \<le> 1 \<longrightarrow> hotp seed c 6 \<noteq> Some code)"
  proof (cases "length code = 6 \<and> list_all is_digit code")
    case True
    then have "matched_counter seed code timestamp = Return None \<longleftrightarrow>
        filter (\<lambda>c. hotp seed c 6 = Some code) [max 0 (s - 1)..s + 1] = []"
      using assms by (simp add: matched_counter_def Let_def step s_def [symmetric])
    then show ?thesis unfolding filter_empty_conv using window by blast
  next
    case False
    then have "hotp seed c 6 \<noteq> Some code" for c using hotp_shape by blast
    moreover from False have "matched_counter seed code timestamp = Return None" by (simp add: matched_counter_def)
    ultimately show ?thesis by blast
  qed
  then show ?thesis unfolding s_def .
qed

end
