(* ===== verification/PortalAccess.thy ===== *)
theory PortalAccess
  imports TotpCodec
begin

section \<open>Portal sessions (app/domain/portal\_sessions/service.py)\<close>

text \<open>
  The login registry: a session is a row bound to its principal's session version; revoking sets a time,
  and raising the principal's version invalidates all earlier sessions at once.  Every command runs in
  one transaction that holds the principal's row lock, so commands on one principal are atomic steps;
  a function that raises leaves the transaction, which is rolled back.  The accounts seen before the
  locks were taken, clock reads, random identifiers and \<open>jwt.encode\<close> are arguments.  Check constraints on
  literal columns are not modelled.
\<close>

subsection \<open>Rows\<close>

record principal =
  pn_principal_id :: string
  pn_email :: "string option"
  pn_status :: string
  pn_session_version :: int

record account_row =
  an_account_id :: string
  an_status :: string

record membership =
  mb_membership_id :: string
  mb_principal_id :: string
  mb_account_id :: string
  mb_status :: string

record portal_session =
  ps_session_id :: string
  ps_principal_id :: string
  ps_session_version :: int
  ps_created_at :: instant
  ps_absolute_expires_at :: instant
  ps_revoked_at :: "instant option"
  ps_revoke_reason :: "string option"
  ps_auth_method :: string
  ps_client_hint :: "string option"
  ps_factor_version :: "int option"
  ps_primary_authenticated_at :: "instant option"
  ps_second_factor_verified_at :: "instant option"
  ps_second_factor_method :: "string option"

record totp_factor =
  tf_principal_id :: string
  tf_factor_version :: int
  tf_state :: string
  tf_active_seed_ciphertext :: "string option"
  tf_enabled_at :: "instant option"
  tf_last_accepted_counter :: "int option"
  tf_recovery_generation :: int
  tf_pending_setup_id :: "string option"
  tf_pending_seed_ciphertext :: "string option"
  tf_pending_created_at :: "instant option"
  tf_pending_expires_at :: "instant option"
  tf_created_at :: instant
  tf_updated_at :: instant

record recovery_code =
  rv_code_id :: string
  rv_principal_id :: string
  rv_factor_version :: int
  rv_generation :: int
  rv_code_hash :: string
  rv_created_at :: instant
  rv_consumed_at :: "instant option"

record auth_challenge =
  ch_challenge_id :: string
  ch_principal_id :: string
  ch_credential_hash :: string
  ch_purpose :: string
  ch_primary_method :: string
  ch_primary_authenticated_at :: instant
  ch_bound_session_version :: int
  ch_bound_factor_version :: int
  ch_bound_recovery_generation :: int
  ch_bound_session_id :: "string option"
  ch_bound_session_expires_at :: "instant option"
  ch_created_at :: instant
  ch_expires_at :: instant
  ch_attempt_count :: int
  ch_attempt_limit :: int
  ch_consumed_at :: "instant option"

record oauth_state =
  os_provider :: string
  os_state_hash :: string
  os_status :: string
  os_metadata_json :: "json_dict option"
  os_expires_at :: instant
  os_consumed_at :: "instant option"

record portal_db =
  pd_principals :: "principal list"
  pd_accounts :: "account_row list"
  pd_memberships :: "membership list"
  pd_sessions :: "portal_session list"
  pd_factors :: "totp_factor list"
  pd_recovery_codes :: "recovery_code list"
  pd_challenges :: "auth_challenge list"
  pd_oauth_states :: "oauth_state list"

subsection \<open>Errors\<close>

record service_error =
  se_status_code :: int
  se_error_code :: string
  se_message :: string
  se_data :: json_dict

definition CommercialServiceError :: "int \<Rightarrow> string \<Rightarrow> string \<Rightarrow> service_error" where
  "CommercialServiceError status_code error_code message =
     \<lparr>se_status_code = status_code, se_error_code = error_code, se_message = message, se_data = []\<rparr>"

datatype access_fault =
    Refused service_error
  | AccessValueError string
  | AccessRuntimeError string
  | AccessIntegrityError

definition session_revoked :: "string \<Rightarrow> access_fault" where
  "session_revoked message = Refused (CommercialServiceError 403 ''auth.portal_session_revoked'' message)"

subsection \<open>Locks and validation\<close>

definition account_ids_of :: "string list \<Rightarrow> portal_db \<Rightarrow> string set" where
  "account_ids_of ids db = set (map mb_account_id (filter (\<lambda>m. mb_principal_id m \<in> set ids) (pd_memberships db)))"

definition lock_login_scopes ::
    "string set \<Rightarrow> string list \<Rightarrow> portal_db \<Rightarrow> (access_fault, (string \<times> principal option) list) outcome" where
  "lock_login_scopes discovered principal_ids db =
     (let ids = sort (remdups principal_ids)
      in if account_ids_of ids db \<noteq> discovered
         then Raise (Refused (CommercialServiceError 409 ''service.portal_login_scope_changed''
                ''portal account scope changed; retry''))
         else Return (map (\<lambda>pid. (pid, row_get pn_principal_id pid (pd_principals db))) ids))"

definition lock_login_scope :: "string set \<Rightarrow> string \<Rightarrow> portal_db \<Rightarrow> (access_fault, principal option) outcome" where
  "lock_login_scope discovered principal_id db =
     and_then (lock_login_scopes discovered [principal_id] db) (\<lambda>principals.
       Return (case map_of principals principal_id of None \<Rightarrow> None | Some p \<Rightarrow> p))"

record authenticated_session =
  id_principal_id :: string
  id_session_id :: string
  id_session_version :: int
  id_expires_at :: instant

definition owned_session :: "string \<Rightarrow> string \<Rightarrow> portal_db \<Rightarrow> portal_session option" where
  "owned_session principal_id session_id db =
     find (\<lambda>s. ps_session_id s = session_id \<and> ps_principal_id s = principal_id) (pd_sessions db)"

definition SECOND_FACTOR_METHODS :: "string option set" where
  "SECOND_FACTOR_METHODS = {Some ''totp'', Some ''recovery_code''}"

definition factor_satisfied :: "totp_factor option \<Rightarrow> portal_session \<Rightarrow> bool" where
  "factor_satisfied factor row =
     (case factor of
        None \<Rightarrow> True
      | Some f \<Rightarrow>
          tf_state f \<noteq> ''enabled''
          \<or> (ps_factor_version row = Some (tf_factor_version f) \<and> ps_primary_authenticated_at row \<noteq> None
             \<and> ps_second_factor_verified_at row \<noteq> None \<and> ps_second_factor_method row \<in> SECOND_FACTOR_METHODS))"

definition validate_registered_session ::
    "instant \<Rightarrow> authenticated_session \<Rightarrow> portal_db \<Rightarrow> (access_fault, portal_session) outcome" where
  "validate_registered_session now identity db =
     (case (row_get pn_principal_id (id_principal_id identity) (pd_principals db),
            owned_session (id_principal_id identity) (id_session_id identity) db) of
        (Some holder, Some row) \<Rightarrow>
          if pn_status holder \<noteq> ''active'' \<or> pn_session_version holder \<noteq> id_session_version identity
             \<or> ps_session_version row \<noteq> id_session_version identity \<or> ps_revoked_at row \<noteq> None
             \<or> ps_absolute_expires_at row \<le> now \<or> ps_absolute_expires_at row \<noteq> id_expires_at identity
          then Raise (session_revoked ''portal session is no longer valid'')
          else let factor = row_get tf_principal_id (id_principal_id identity) (pd_factors db)
          in if factor = None \<and> ps_factor_version row \<noteq> None
             then Raise (session_revoked ''factor state unavailable'')
             else if \<not> factor_satisfied factor row then Raise (session_revoked ''second factor required'')
             else Return row
      | _ \<Rightarrow> Raise (session_revoked ''portal session is no longer valid''))"

subsection \<open>Tokens\<close>

record jwt_settings =
  jw_secret :: "string option"
  jw_issuer :: "string option"
  jw_audience :: "string option"
  jw_ttl_seconds :: int

text \<open>\<open>int(value.timestamp())\<close>.\<close>

definition epoch_seconds :: "instant \<Rightarrow> int" where
  "epoch_seconds t = (if 0 \<le> t then t div seconds 1 else - ((- t) div seconds 1))"

definition PORTAL_SITE_ID_PATTERN :: "string \<Rightarrow> bool" where
  "PORTAL_SITE_ID_PATTERN s \<longleftrightarrow> 1 \<le> length s \<and> length s \<le> 191 \<and> list_all is_marker_char s"

definition portal_session_claims ::
    "jwt_settings \<Rightarrow> string \<Rightarrow> string \<Rightarrow> int \<Rightarrow> string \<Rightarrow> instant \<Rightarrow> instant \<Rightarrow> json_dict" where
  "portal_session_claims settings principal_id session_id session_version site_id now expiry =
     (let nonblank = (\<lambda>v fallback. if py_strip (or_empty v) = [] then fallback else py_strip (or_empty v))
      in [(''iss'', JStr (nonblank (jw_issuer settings) ''npcink-ai-cloud'')),
          (''aud'', JStr (nonblank (jw_audience settings) ''npcink-ai-cloud-portal'')),
          (''sub'', JStr principal_id), (''sid'', JStr session_id), (''purpose'', JStr ''portal_session''),
          (''session_version'', JInt session_version), (''iat'', JInt (epoch_seconds now)),
          (''exp'', JInt (epoch_seconds expiry))]
         @ (if site_id = [] then [] else [(''site_id'', JStr site_id)]))"

definition build_portal_session_token ::
    "(json_dict \<Rightarrow> string \<Rightarrow> string) \<Rightarrow> jwt_settings \<Rightarrow> string \<Rightarrow> string \<Rightarrow> int \<Rightarrow> string \<Rightarrow> instant \<Rightarrow> instant option
      \<Rightarrow> (access_fault, string) outcome" where
  "build_portal_session_token jwt_encode settings principal_id session_id session_version site_id now expires_at =
     (let expiry = (case expires_at of None \<Rightarrow> now + seconds (max 60 (jw_ttl_seconds settings)) | Some e \<Rightarrow> e)
      in if principal_id = [] \<or> principal_id \<noteq> py_strip principal_id
         then Raise (AccessValueError ''principal_id must be a non-empty canonical string'')
         else if session_id = [] \<or> session_id \<noteq> py_strip session_id
         then Raise (AccessValueError ''session_id must be a non-empty canonical string'')
         else if 64 < length session_id then Raise (AccessValueError ''session_id is too long'')
         else if session_version < 1 then Raise (AccessValueError ''session_version must be a positive integer'')
         else if site_id \<noteq> [] \<and> \<not> PORTAL_SITE_ID_PATTERN site_id
         then Raise (AccessValueError ''site_id must be a canonical portal site id'')
         else if epoch_seconds expiry \<le> epoch_seconds now
         then Raise (AccessValueError ''expires_at must be later than the token issue time and timezone-aware'')
         else if or_empty (jw_secret settings) = [] then Raise (AccessRuntimeError ''Portal auth is not configured.'')
         else Return (jwt_encode (portal_session_claims settings principal_id session_id session_version site_id now expiry)
                        (or_empty (jw_secret settings))))"

record issued_session =
  iss_token :: string
  iss_principal_id :: string
  iss_session_id :: string
  iss_session_version :: int
  iss_issued_at :: instant
  iss_expires_at :: instant

definition sign_session ::
    "(json_dict \<Rightarrow> string \<Rightarrow> string) \<Rightarrow> jwt_settings \<Rightarrow> principal \<Rightarrow> string \<Rightarrow> instant \<Rightarrow> string \<Rightarrow> instant
      \<Rightarrow> (access_fault, issued_session) outcome" where
  "sign_session jwt_encode settings holder sid expiry site_id now =
     and_then (build_portal_session_token jwt_encode settings (pn_principal_id holder) sid
                 (pn_session_version holder) site_id now (Some expiry)) (\<lambda>token.
       Return \<lparr>iss_token = token, iss_principal_id = pn_principal_id holder, iss_session_id = sid,
               iss_session_version = pn_session_version holder, iss_issued_at = now, iss_expires_at = expiry\<rparr>)"

subsection \<open>Issuing\<close>

text \<open>The row a verified login creates; \<open>factor\<close> is the enabled factor with its proof's time and method.\<close>

definition new_session ::
    "string \<Rightarrow> principal \<Rightarrow> instant \<Rightarrow> instant \<Rightarrow> string \<Rightarrow> instant \<Rightarrow> portal_session" where
  "new_session sid holder now expiry auth_method primary_at =
     \<lparr>ps_session_id = sid, ps_principal_id = pn_principal_id holder,
      ps_session_version = pn_session_version holder, ps_created_at = now, ps_absolute_expires_at = expiry,
      ps_revoked_at = None, ps_revoke_reason = None, ps_auth_method = auth_method, ps_client_hint = None,
      ps_factor_version = None, ps_primary_authenticated_at = Some primary_at,
      ps_second_factor_verified_at = None, ps_second_factor_method = None\<rparr>"

definition issue_verified_session ::
    "(json_dict \<Rightarrow> string \<Rightarrow> string) \<Rightarrow> jwt_settings \<Rightarrow> string \<Rightarrow> instant \<Rightarrow> principal \<Rightarrow> int \<Rightarrow> string \<Rightarrow> instant
      \<Rightarrow> instant option \<Rightarrow> totp_factor option \<Rightarrow> instant option \<Rightarrow> string option \<Rightarrow> portal_db
      \<Rightarrow> (access_fault, issued_session \<times> portal_db) outcome" where
  "issue_verified_session jwt_encode settings sid clock holder ttl_seconds auth_method primary_at expires_at
       factor second_at second_method db =
     (let now = drop_microseconds clock;
          expiry = (case expires_at of Some e \<Rightarrow> e | None \<Rightarrow> now + seconds (max 60 ttl_seconds));
          row = new_session sid holder now expiry auth_method primary_at
      in if row_get ps_session_id sid (pd_sessions db) \<noteq> None \<or> expiry \<le> now then Raise AccessIntegrityError
         else and_then (case factor of
                None \<Rightarrow> Return row
              | Some f \<Rightarrow>
                  if tf_state f \<noteq> ''enabled'' \<or> second_at = None \<or> second_method \<notin> SECOND_FACTOR_METHODS
                  then Raise (session_revoked ''invalid factor proof'')
                  else Return (row\<lparr>ps_factor_version := Some (tf_factor_version f),
                                   ps_second_factor_verified_at := second_at,
                                   ps_second_factor_method := second_method\<rparr>)) (\<lambda>row.
              and_then (sign_session jwt_encode settings holder sid expiry [] now) (\<lambda>issued.
                Return (issued, db\<lparr>pd_sessions := pd_sessions db @ [row]\<rparr>))))"

subsection \<open>Listing and revoking\<close>

definition active_session :: "string \<Rightarrow> instant \<Rightarrow> portal_db \<Rightarrow> portal_session \<Rightarrow> bool" where
  "active_session principal_id now db s \<longleftrightarrow>
     ps_principal_id s = principal_id
     \<and> (case row_get pn_principal_id (ps_principal_id s) (pd_principals db) of
          None \<Rightarrow> False
        | Some p \<Rightarrow> pn_status p = ''active'' \<and> ps_session_version s = pn_session_version p)
     \<and> ps_revoked_at s = None \<and> now < ps_absolute_expires_at s"

definition list_active ::
    "string \<Rightarrow> instant \<Rightarrow> int \<Rightarrow> int \<Rightarrow> portal_db \<Rightarrow> (access_fault, portal_session list) outcome" where
  "list_active principal_id now limit offset db =
     (if \<not> (1 \<le> limit \<and> limit \<le> 50) \<or> offset < 0 then Raise (AccessValueError ''invalid session pagination'')
      else Return (take (nat limit) (drop (nat offset)
             (rev (sort_key (\<lambda>s. (ps_created_at s, ps_session_id s)) (filter (active_session principal_id now db) (pd_sessions db)))))))"

definition count_active :: "string \<Rightarrow> instant \<Rightarrow> portal_db \<Rightarrow> int" where
  "count_active principal_id now db = int (length (filter (active_session principal_id now db) (pd_sessions db)))"

record session_projection =
  sp_session_id :: string
  sp_is_current :: bool
  sp_created_at :: instant
  sp_expires_at :: instant
  sp_auth_method :: string
  sp_client_hint :: "string option"

record session_page =
  sg_items :: "session_projection list"
  sg_total :: int
  sg_limit :: int
  sg_offset :: int

definition list_principal_sessions ::
    "string set \<Rightarrow> instant \<Rightarrow> instant \<Rightarrow> authenticated_session \<Rightarrow> int \<Rightarrow> int \<Rightarrow> portal_db
      \<Rightarrow> (access_fault, session_page) outcome" where
  "list_principal_sessions discovered validated_at now identity limit offset db =
     and_then (lock_login_scope discovered (id_principal_id identity) db) (\<lambda>_.
     and_then (validate_registered_session validated_at identity db) (\<lambda>_.
     and_then (list_active (id_principal_id identity) now limit offset db) (\<lambda>rows.
       Return \<lparr>sg_items = map (\<lambda>row. \<lparr>sp_session_id = ps_session_id row,
                 sp_is_current = (ps_session_id row = id_session_id identity), sp_created_at = ps_created_at row,
                 sp_expires_at = ps_absolute_expires_at row, sp_auth_method = ps_auth_method row,
                 sp_client_hint = ps_client_hint row\<rparr>) rows,
               sg_total = count_active (id_principal_id identity) now db, sg_limit = limit, sg_offset = offset\<rparr>)))"

definition revalidate_session_caller ::
    "string set \<Rightarrow> instant \<Rightarrow> authenticated_session \<Rightarrow> portal_db \<Rightarrow> (access_fault, unit) outcome" where
  "revalidate_session_caller discovered now identity db =
     and_then (lock_login_scope discovered (id_principal_id identity) db) (\<lambda>_.
     and_then (validate_registered_session now identity db) (\<lambda>_. Return ()))"

text \<open>Which of the locked rows a revocation takes: the target, or every other live session of the caller.\<close>

definition revocation_target :: "string option \<Rightarrow> authenticated_session \<Rightarrow> instant \<Rightarrow> portal_session \<Rightarrow> bool" where
  "revocation_target target_session_id identity now s \<longleftrightarrow>
     ps_principal_id s = id_principal_id identity \<and> ps_revoked_at s = None
     \<and> (case target_session_id of
          Some t \<Rightarrow> ps_session_id s = t
        | None \<Rightarrow> ps_session_id s \<noteq> id_session_id identity \<and> ps_session_version s = id_session_version identity
                  \<and> now < ps_absolute_expires_at s)"

definition revoke_principal_sessions ::
    "string set \<Rightarrow> instant \<Rightarrow> instant \<Rightarrow> authenticated_session \<Rightarrow> string option \<Rightarrow> portal_db
      \<Rightarrow> (access_fault, int \<times> bool) outcome \<times> portal_db" where
  "revoke_principal_sessions discovered validated_at now identity target_session_id db =
     (case and_then (lock_login_scope discovered (id_principal_id identity) db) (\<lambda>_.
           and_then (validate_registered_session validated_at identity db) (\<lambda>_.
             if target_session_id \<noteq> None
                \<and> \<not> list_ex (\<lambda>s. ps_principal_id s = id_principal_id identity \<and> Some (ps_session_id s) = target_session_id)
                      (pd_sessions db)
             then Raise (Refused (CommercialServiceError 404 ''portal.session_not_found'' ''session not found''))
             else Return ())) of
        Inl e \<Rightarrow> (Raise e, db)
      | Inr _ \<Rightarrow>
          (let taken = revocation_target target_session_id identity now;
               reason = (if or_empty target_session_id \<noteq> [] then ''self_revoke'' else ''revoke_others'')
           in (Return (int (length (filter taken (pd_sessions db))), target_session_id = Some (id_session_id identity)),
               db\<lparr>pd_sessions := rows_update taken
                    (\<lambda>s. s\<lparr>ps_revoked_at := Some now, ps_revoke_reason := Some reason\<rparr>) (pd_sessions db)\<rparr>)))"

end
