(* ===== verification/RuntimeReencryption.thy ===== *)
theory RuntimeReencryption
  imports CallbackDelivery RequestAuth PortalIdempotency PortalAccess
begin

section \<open>Exchanging the root of the stored secrets (app/domain/runtime/runtime\_data\_reencryption.py)\<close>

text \<open>
  A maintenance command brings every stored ciphertext under the active key.  It works on the rows of
  six tables, which a \<open>vault\<close> collects; a run of the command is one transaction.  The Alembic migration
  graph and the database inspector are arguments: which revisions there are, what the ancestors of
  one are, which tables and columns the database has.  Every error the command lets out is a
  \<open>RuntimeDataReencryptionError\<close>, represented by its message.
\<close>

subsection \<open>Data\<close>

text \<open>The columns of \<open>PortalOAuthState\<close> that the command reads and writes.\<close>

record addon_oauth_state =
  ao_state_id :: string
  ao_metadata_json :: "json_dict option"

record schema_view =
  sv_tables :: "string list"
  sv_columns :: "string \<Rightarrow> string list"
  sv_versions :: "string list"

record migration_graph =
  mg_known :: "string list"
  mg_ancestors :: "string \<Rightarrow> string list"

record vault =
  vl_site_api_keys :: "site_api_key list"
  vl_sites :: "site_row list"
  vl_oauth_states :: "addon_oauth_state list"
  vl_receipts :: "portal_receipt list"
  vl_runs :: "run_record list"
  vl_totp_factors :: "totp_factor list"
  vl_schema :: schema_view

definition SITE_API_KEY_PURPOSE :: string where "SITE_API_KEY_PURPOSE = ''site_api_key_signing_secret''"
definition RUNTIME_CALLBACK_PURPOSE :: string where "RUNTIME_CALLBACK_PURPOSE = ''runtime_terminal_callback_secret''"
definition ADDON_PAYLOAD_PURPOSE :: string where "ADDON_PAYLOAD_PURPOSE = ''wordpress_addon_connection_payload''"
definition PORTAL_IDEMPOTENCY_PURPOSE :: string where "PORTAL_IDEMPOTENCY_PURPOSE = ''portal_idempotency_response''"
definition RUN_INPUT_PURPOSE :: string where "RUN_INPUT_PURPOSE = ''runtime_execution_input''"

definition RUNTIME_DATA_KINDS :: "string list" where
  "RUNTIME_DATA_KINDS =
     [''site_api_key'', ''site_runtime_callback'', ''addon_connection_payload'', ''portal_idempotency_response'',
      ''runtime_execution_input'', ''portal_totp_active_seed'', ''portal_totp_pending_seed'']"

text \<open>The owner of a record is the row that its kind and identifier name.\<close>

record ciphertext_record =
  cx_kind :: string
  cx_identifier :: string
  cx_purpose :: string
  cx_ciphertext :: string

definition row_identifier :: "ciphertext_record \<Rightarrow> string" where
  "row_identifier r = cx_kind r @ '':'' @ cx_identifier r"

record legacy_runtime_data_key =
  lk_key_id :: string
  lk_root_secret :: string

record kind_counts =
  kc_total :: nat
  kc_legacy :: nat
  kc_current :: nat
  kc_would_migrate :: nat
  kc_migrated :: nat

record reencryption_report =
  rr_mode :: string
  rr_total :: nat
  rr_legacy :: nat
  rr_current :: nat
  rr_migrated :: nat
  rr_would_migrate :: nat
  rr_counts_by_kind :: "(string \<times> kind_counts) list"
  rr_row_identifiers :: "string list"

subsection \<open>The schema of the one-time password storage\<close>

definition TOTP_STORAGE_REVISION :: string where "TOTP_STORAGE_REVISION = ''20261024_0091''"

text \<open>The three models with their column keys.\<close>

definition totp_models :: "(string \<times> string list) list" where
  "totp_models =
     [(''portal_totp_factors'',
        [''principal_id'', ''factor_version'', ''state'', ''active_seed_ciphertext'', ''enabled_at'',
         ''last_accepted_counter'', ''recovery_generation'', ''pending_setup_id'', ''pending_seed_ciphertext'',
         ''pending_created_at'', ''pending_expires_at'', ''created_at'', ''updated_at'']),
      (''portal_recovery_codes'',
        [''code_id'', ''principal_id'', ''factor_version'', ''generation'', ''code_hash'', ''created_at'',
         ''consumed_at'']),
      (''portal_auth_challenges'',
        [''challenge_id'', ''principal_id'', ''credential_hash'', ''purpose'', ''primary_method'',
         ''primary_authenticated_at'', ''bound_session_version'', ''bound_factor_version'',
         ''bound_recovery_generation'', ''bound_session_id'', ''bound_session_expires_at'', ''created_at'',
         ''expires_at'', ''attempt_count'', ''attempt_limit'', ''consumed_at''])]"

definition evidence_columns :: "string list" where
  "evidence_columns =
     [''factor_version'', ''primary_authenticated_at'', ''second_factor_verified_at'', ''second_factor_method'']"

definition totp_schema_available :: "migration_graph \<Rightarrow> schema_view \<Rightarrow> (string, bool) outcome" where
  "totp_schema_available mg schema =
     (let tables = sv_tables schema;
          totp_tables = map fst totp_models;
          session_columns = (if ''portal_sessions'' \<in> set tables then sv_columns schema ''portal_sessions'' else []);
          complete = (list_all (\<lambda>t. t \<in> set tables) totp_tables
                      \<and> list_all (\<lambda>c. c \<in> set session_columns) evidence_columns
                      \<and> list_all (\<lambda>(t, columns). list_all (\<lambda>c. c \<in> set (sv_columns schema t)) columns) totp_models);
          versioned = (''alembic_version'' \<in> set tables);
          revisions = (if versioned then sv_versions schema else [])
      in if versioned \<and> (length revisions \<noteq> 1 \<or> hd revisions \<notin> set (mg_known mg))
         then Raise ''unknown runtime data schema revision''
         else if complete
         then (if revisions \<noteq> [] \<and> TOTP_STORAGE_REVISION \<notin> set (mg_ancestors mg (hd revisions))
               then Raise ''TOTP storage disagrees with schema revision'' else Return True)
         else if list_ex (\<lambda>t. t \<in> set tables) totp_tables \<or> list_ex (\<lambda>c. c \<in> set session_columns) evidence_columns
                 \<or> length revisions \<noteq> 1
         then Raise ''incomplete Portal TOTP storage schema''
         else if hd revisions \<notin> set (mg_ancestors mg TOTP_STORAGE_REVISION)
                 \<or> hd revisions = TOTP_STORAGE_REVISION
                 \<or> ''20260717_0068'' \<notin> set (mg_ancestors mg (hd revisions))
         then Raise ''missing Portal TOTP storage schema''
         else Return False)"

subsection \<open>Collecting\<close>

definition ciphertext_row :: "string \<Rightarrow> string \<Rightarrow> string \<Rightarrow> string \<Rightarrow> ciphertext_record list" where
  "ciphertext_row kind purpose identifier ciphertext =
     (if ciphertext = [] then []
      else [\<lparr>cx_kind = kind, cx_identifier = identifier, cx_purpose = purpose, cx_ciphertext = ciphertext\<rparr>])"

definition site_api_key_record :: "site_api_key \<Rightarrow> ciphertext_record list" where
  "site_api_key_record k =
     ciphertext_row ''site_api_key'' SITE_API_KEY_PURPOSE (ak_key_id k)
       (py_strip (or_empty (ak_signing_secret_ciphertext k)))"

definition metadata_of :: "json_dict option \<Rightarrow> json_dict" where
  "metadata_of m = (case m of None \<Rightarrow> [] | Some d \<Rightarrow> d)"

definition site_callback_record :: "site_row \<Rightarrow> ciphertext_record list" where
  "site_callback_record site =
     (let callbacks = as_dict (py_get (metadata_of (s_metadata_json site)) ''runtime_callbacks'');
          terminal = as_dict (py_get callbacks ''terminal'')
      in ciphertext_row ''site_runtime_callback'' RUNTIME_CALLBACK_PURPOSE (s_site_id site)
           (py_strip (str_or_empty (py_get terminal ''secret_ciphertext''))))"

definition oauth_state_record :: "addon_oauth_state \<Rightarrow> ciphertext_record list" where
  "oauth_state_record s =
     ciphertext_row ''addon_connection_payload'' ADDON_PAYLOAD_PURPOSE (ao_state_id s)
       (py_strip (str_or_empty (py_get (metadata_of (ao_metadata_json s)) ''payload_ciphertext'')))"

definition receipt_record :: "portal_receipt \<Rightarrow> ciphertext_record list" where
  "receipt_record r =
     ciphertext_row ''portal_idempotency_response'' PORTAL_IDEMPOTENCY_PURPOSE (pr_receipt_id r)
       (py_strip (or_empty (pr_response_body_ciphertext r)))"

definition run_input_record :: "run_record \<Rightarrow> ciphertext_record list" where
  "run_input_record r =
     ciphertext_row ''runtime_execution_input'' RUN_INPUT_PURPOSE (r_run_id r)
       (py_strip (or_empty (r_execution_input_ciphertext r)))"

text \<open>A seed that is there must be an envelope.\<close>

definition seed_record :: "string \<Rightarrow> string \<Rightarrow> string option \<Rightarrow> (string, ciphertext_record list) outcome" where
  "seed_record kind principal_id seed =
     (case seed of
        None \<Rightarrow> Return []
      | Some ciphertext \<Rightarrow>
          if ciphertext = [] \<or> \<not> starts_with ''rde.'' ciphertext
          then Raise ''invalid Portal TOTP seed envelope''
          else Return (ciphertext_row kind PORTAL_TOTP_SEED_PURPOSE principal_id ciphertext))"

definition factor_records :: "totp_factor \<Rightarrow> (string, ciphertext_record list) outcome" where
  "factor_records f =
     and_then (seed_record ''portal_totp_active_seed'' (tf_principal_id f) (tf_active_seed_ciphertext f)) (\<lambda>active.
     and_then (seed_record ''portal_totp_pending_seed'' (tf_principal_id f) (tf_pending_seed_ciphertext f)) (\<lambda>pending.
       Return (active @ pending)))"

fun collect_seeds :: "totp_factor list \<Rightarrow> (string, ciphertext_record list) outcome" where
  "collect_seeds [] = Return []"
| "collect_seeds (f # fs) =
     and_then (factor_records f) (\<lambda>xs. and_then (collect_seeds fs) (\<lambda>ys. Return (xs @ ys)))"

text \<open>\<open>SELECT ... ORDER BY\<close> the primary key, then one record per ciphertext.\<close>

definition table_records :: "('r \<Rightarrow> string) \<Rightarrow> ('r \<Rightarrow> ciphertext_record list) \<Rightarrow> 'r list \<Rightarrow> ciphertext_record list" where
  "table_records key recs rows = concat (map recs (sort_key key rows))"

definition collect_records :: "migration_graph \<Rightarrow> vault \<Rightarrow> (string, ciphertext_record list) outcome" where
  "collect_records mg v =
     and_then (totp_schema_available mg (vl_schema v)) (\<lambda>available.
     and_then (if available then collect_seeds (sort_key tf_principal_id (vl_totp_factors v)) else Return []) (\<lambda>seeds.
       Return (sort_key row_identifier
         (table_records ak_key_id site_api_key_record (vl_site_api_keys v)
          @ table_records s_site_id site_callback_record (vl_sites v)
          @ table_records ao_state_id oauth_state_record (vl_oauth_states v)
          @ table_records pr_receipt_id receipt_record (vl_receipts v)
          @ table_records r_run_id run_input_record (vl_runs v)
          @ seeds))))"

subsection \<open>Classifying\<close>

fun classify_loop :: "string \<Rightarrow> string list \<Rightarrow> ciphertext_record list
    \<Rightarrow> (string, ciphertext_record list \<times> ciphertext_record list) outcome" where
  "classify_loop expected allowed [] = Return ([], [])"
| "classify_loop expected allowed (r # rs) =
     (let envelope_key_id = runtime_data_envelope_key_id (Some (cx_ciphertext r)) in
      if envelope_key_id = Some expected
      then and_then (classify_loop expected allowed rs) (\<lambda>(legacy, current). Return (legacy, r # current))
      else if envelope_key_id \<in> Some ` set allowed \<or> \<not> starts_with ''rde.'' (cx_ciphertext r)
      then and_then (classify_loop expected allowed rs) (\<lambda>(legacy, current). Return (r # legacy, current))
      else Raise (''unsupported runtime data envelope for '' @ row_identifier r))"

definition active_key_id :: "encryption_settings \<Rightarrow> string" where
  "active_key_id settings = py_strip (or_empty (es_runtime_data_encryption_key_id settings))"

definition classify_records :: "encryption_settings \<Rightarrow> string list \<Rightarrow> ciphertext_record list
    \<Rightarrow> (string, ciphertext_record list \<times> ciphertext_record list) outcome" where
  "classify_records settings allowed records =
     (if active_key_id settings = [] then Raise ''runtime data encryption key id is not configured''
      else classify_loop (active_key_id settings) allowed records)"

subsection \<open>Decrypting\<close>

definition open_with :: "crypto \<Rightarrow> encryption_settings \<Rightarrow> ciphertext_record \<Rightarrow> (secret_error, bytes) outcome" where
  "open_with lib settings r =
     (if cx_purpose r = PORTAL_TOTP_SEED_PURPOSE
      then decrypt_portal_totp_seed lib settings (Some (cx_ciphertext r))
      else decrypt_runtime_data_plaintext lib (cx_ciphertext r) (cx_purpose r) settings
             ''runtime data ciphertext could not be decrypted'')"

definition decrypt_current :: "crypto \<Rightarrow> encryption_settings \<Rightarrow> ciphertext_record \<Rightarrow> (string, bytes) outcome" where
  "decrypt_current lib settings r =
     (case open_with lib settings r of
        Inl e \<Rightarrow> Raise (''current ciphertext could not be decrypted for '' @ row_identifier r)
      | Inr plaintext \<Rightarrow> Return plaintext)"

text \<open>The key of the scheme before HKDF: a digest of purpose and root.\<close>

definition build_legacy_fernet :: "string \<Rightarrow> string \<Rightarrow> string" where
  "build_legacy_fernet root_secret purpose = b64_encode (sha256 (utf8_encode (purpose @ '':'' @ root_secret)))"

definition legacy_failure :: "ciphertext_record \<Rightarrow> string" where
  "legacy_failure r = ''legacy ciphertext could not be decrypted for '' @ row_identifier r"

fun open_with_roots :: "crypto \<Rightarrow> ciphertext_record \<Rightarrow> string list \<Rightarrow> (string, bytes) outcome" where
  "open_with_roots lib r [] = Raise (legacy_failure r)"
| "open_with_roots lib r (root_secret # roots) =
     (case fernet_decrypt lib (build_legacy_fernet root_secret (cx_purpose r)) (utf8_encode (cx_ciphertext r)) of
        Some plaintext \<Rightarrow> Return plaintext
      | None \<Rightarrow> open_with_roots lib r roots)"

definition fernet_token_of :: "string \<Rightarrow> string" where
  "fernet_token_of ciphertext = last (py_split_max CHR ''.'' 3 ciphertext)"

definition decrypt_legacy :: "crypto \<Rightarrow> encryption_settings \<Rightarrow> string list \<Rightarrow> (string \<times> string) list
    \<Rightarrow> ciphertext_record \<Rightarrow> (string, bytes) outcome" where
  "decrypt_legacy lib settings roots key_map r =
     (if starts_with ''rde.'' (cx_ciphertext r)
      then
        (let envelope_key_id = runtime_data_envelope_key_id (Some (cx_ciphertext r)) in
         case map_of key_map (or_empty envelope_key_id) of
           None \<Rightarrow> Raise (''unsupported runtime data envelope for '' @ row_identifier r)
         | Some root_secret \<Rightarrow>
             if root_secret = [] then Raise (''unsupported runtime data envelope for '' @ row_identifier r)
             else if cx_purpose r = PORTAL_TOTP_SEED_PURPOSE
             then (case decrypt_portal_totp_seed lib
                          (settings\<lparr>es_runtime_data_encryption_key_id := envelope_key_id,
                                    es_runtime_data_encryption_secret := Some root_secret\<rparr>)
                          (Some (cx_ciphertext r)) of
                     Inl e \<Rightarrow> Raise (legacy_failure r)
                   | Inr plaintext \<Rightarrow> Return plaintext)
             else (case fernet_decrypt lib (build_legacy_fernet root_secret (cx_purpose r))
                          (utf8_encode (fernet_token_of (cx_ciphertext r))) of
                     None \<Rightarrow> Raise (legacy_failure r)
                   | Some plaintext \<Rightarrow> Return plaintext))
      else open_with_roots lib r roots)"

subsection \<open>Named old keys\<close>

fun normalize_legacy_envelope_keys :: "string \<Rightarrow> (string \<times> string) list \<Rightarrow> legacy_runtime_data_key list
    \<Rightarrow> (string, (string \<times> string) list) outcome" where
  "normalize_legacy_envelope_keys current_key_id normalized [] = Return normalized"
| "normalize_legacy_envelope_keys current_key_id normalized (k # ks) =
     (let key_id = py_strip (lk_key_id k); root_secret = py_strip (lk_root_secret k) in
      if \<not> ENVELOPE_KEY_ID_PATTERN key_id then Raise ''old runtime data key id is invalid''
      else if key_id = current_key_id then Raise ''old runtime data key id must differ from the active key id''
      else if root_secret = [] then Raise (''old runtime data root is missing for key id '' @ key_id)
      else if map_of normalized key_id \<noteq> None then Raise (''old runtime data key id is duplicated: '' @ key_id)
      else normalize_legacy_envelope_keys current_key_id (normalized @ [(key_id, root_secret)]) ks)"

fun normalize_allowed_legacy_envelope_key_ids :: "string \<Rightarrow> string list \<Rightarrow> (string, string list) outcome" where
  "normalize_allowed_legacy_envelope_key_ids current_key_id [] = Return []"
| "normalize_allowed_legacy_envelope_key_ids current_key_id (raw # raws) =
     (let key_id = py_strip raw in
      if \<not> ENVELOPE_KEY_ID_PATTERN key_id then Raise ''old runtime data key id is invalid''
      else if key_id = current_key_id then Raise ''old runtime data key id must differ from the active key id''
      else and_then (normalize_allowed_legacy_envelope_key_ids current_key_id raws) (\<lambda>ids. Return (key_id # ids)))"

subsection \<open>Writing back\<close>

definition set_terminal_ciphertext :: "string \<Rightarrow> json_dict option \<Rightarrow> json_dict option" where
  "set_terminal_ciphertext ciphertext metadata =
     (let d = metadata_of metadata;
          callbacks = as_dict (py_get d ''runtime_callbacks'');
          terminal = py_set (as_dict (py_get callbacks ''terminal'')) ''secret_ciphertext'' (JStr ciphertext)
      in Some (py_set d ''runtime_callbacks'' (JObj (py_set callbacks ''terminal'' (JObj terminal)))))"

definition update_row :: "('r \<Rightarrow> string) \<Rightarrow> string \<Rightarrow> ('r \<Rightarrow> 'r) \<Rightarrow> 'r list \<Rightarrow> 'r list" where
  "update_row key identifier f rows = rows_update (\<lambda>r. key r = identifier) f rows"

text \<open>A record that was collected has one of the seven kinds.\<close>

definition set_ciphertext :: "ciphertext_record \<Rightarrow> string \<Rightarrow> vault \<Rightarrow> (string, vault) outcome" where
  "set_ciphertext r ciphertext v =
     (let kind = cx_kind r; identifier = cx_identifier r in
      if kind = ''site_api_key''
      then Return (v\<lparr>vl_site_api_keys :=
             update_row ak_key_id identifier (\<lambda>k. k\<lparr>ak_signing_secret_ciphertext := Some ciphertext\<rparr>) (vl_site_api_keys v)\<rparr>)
      else if kind = ''site_runtime_callback''
      then Return (v\<lparr>vl_sites :=
             update_row s_site_id identifier
               (\<lambda>site. site\<lparr>s_metadata_json := set_terminal_ciphertext ciphertext (s_metadata_json site)\<rparr>) (vl_sites v)\<rparr>)
      else if kind = ''addon_connection_payload''
      then Return (v\<lparr>vl_oauth_states :=
             update_row ao_state_id identifier
               (\<lambda>s. s\<lparr>ao_metadata_json :=
                  Some (py_set (metadata_of (ao_metadata_json s)) ''payload_ciphertext'' (JStr ciphertext))\<rparr>)
               (vl_oauth_states v)\<rparr>)
      else if kind = ''portal_idempotency_response''
      then Return (v\<lparr>vl_receipts :=
             update_row pr_receipt_id identifier (\<lambda>p. p\<lparr>pr_response_body_ciphertext := Some ciphertext\<rparr>) (vl_receipts v)\<rparr>)
      else if kind = ''runtime_execution_input''
      then Return (v\<lparr>vl_runs :=
             update_row r_run_id identifier (\<lambda>p. p\<lparr>r_execution_input_ciphertext := Some ciphertext\<rparr>) (vl_runs v)\<rparr>)
      else if kind = ''portal_totp_active_seed''
      then Return (v\<lparr>vl_totp_factors :=
             update_row tf_principal_id identifier (\<lambda>f. f\<lparr>tf_active_seed_ciphertext := Some ciphertext\<rparr>) (vl_totp_factors v)\<rparr>)
      else if kind = ''portal_totp_pending_seed''
      then Return (v\<lparr>vl_totp_factors :=
             update_row tf_principal_id identifier (\<lambda>f. f\<lparr>tf_pending_seed_ciphertext := Some ciphertext\<rparr>) (vl_totp_factors v)\<rparr>)
      else Raise (''unsupported ciphertext record '' @ row_identifier r))"

subsection \<open>The report\<close>

definition count_kind :: "string \<Rightarrow> ciphertext_record list \<Rightarrow> nat" where
  "count_kind kind records = length (filter (\<lambda>r. cx_kind r = kind) records)"

definition build_counts_by_kind :: "string \<Rightarrow> ciphertext_record list \<Rightarrow> ciphertext_record list
    \<Rightarrow> ciphertext_record list \<Rightarrow> nat \<Rightarrow> (string \<times> kind_counts) list" where
  "build_counts_by_kind mode records legacy current migrated =
     map (\<lambda>kind. (kind,
       \<lparr>kc_total = count_kind kind records,
        kc_legacy = (if mode = ''apply'' then 0 else count_kind kind legacy),
        kc_current = count_kind kind current + (if mode = ''apply'' then count_kind kind legacy else 0),
        kc_would_migrate = count_kind kind legacy,
        kc_migrated = (if migrated \<noteq> 0 then count_kind kind legacy else 0)\<rparr>)) RUNTIME_DATA_KINDS"

definition build_report :: "string \<Rightarrow> ciphertext_record list \<Rightarrow> ciphertext_record list
    \<Rightarrow> ciphertext_record list \<Rightarrow> nat \<Rightarrow> reencryption_report" where
  "build_report mode records legacy current migrated =
     \<lparr>rr_mode = mode,
      rr_total = length records,
      rr_legacy = (if mode = ''apply'' then 0 else length legacy),
      rr_current = (if mode = ''apply'' then length current + length legacy else length current),
      rr_migrated = migrated,
      rr_would_migrate = length legacy,
      rr_counts_by_kind = build_counts_by_kind mode records legacy current migrated,
      rr_row_identifiers = map row_identifier records\<rparr>"

subsection \<open>The commands\<close>

definition inventory_runtime_data_ciphertexts :: "migration_graph \<Rightarrow> encryption_settings \<Rightarrow> string list
    \<Rightarrow> vault \<Rightarrow> (string, reencryption_report) outcome" where
  "inventory_runtime_data_ciphertexts mg settings allowed v =
     and_then (collect_records mg v) (\<lambda>records.
     and_then (normalize_allowed_legacy_envelope_key_ids (active_key_id settings) allowed) (\<lambda>ids.
     and_then (classify_records settings ids records) (\<lambda>(legacy, current).
       Return (build_report ''inventory'' records legacy current 0))))"

fun decrypt_all_current :: "crypto \<Rightarrow> encryption_settings \<Rightarrow> ciphertext_record list \<Rightarrow> (string, unit) outcome" where
  "decrypt_all_current lib settings [] = Return ()"
| "decrypt_all_current lib settings (r # rs) =
     and_then (decrypt_current lib settings r) (\<lambda>_. decrypt_all_current lib settings rs)"

definition verify_runtime_data_ciphertexts :: "crypto \<Rightarrow> migration_graph \<Rightarrow> encryption_settings
    \<Rightarrow> vault \<Rightarrow> (string, reencryption_report) outcome" where
  "verify_runtime_data_ciphertexts lib mg settings v =
     and_then (collect_records mg v) (\<lambda>records.
     and_then (classify_records settings [] records) (\<lambda>(legacy, current).
       if legacy \<noteq> []
       then Raise (''legacy runtime data ciphertext remains for '' @ join_with '', '' (map row_identifier legacy))
       else and_then (decrypt_all_current lib settings current) (\<lambda>_.
              Return (build_report ''verify'' records [] current 0))))"

text \<open>Any other exception inside the transaction becomes the one message.\<close>

definition reencryption_failed :: string where
  "reencryption_failed = ''runtime data re-encryption failed''"

definition replacement_for :: "crypto \<Rightarrow> encryption_settings \<Rightarrow> string list \<Rightarrow> (string \<times> string) list
    \<Rightarrow> ciphertext_record \<Rightarrow> (string, string) outcome" where
  "replacement_for lib settings roots key_map r =
     and_then (decrypt_legacy lib settings roots key_map r) (\<lambda>plaintext.
       case encrypt_runtime_data_plaintext lib plaintext (cx_purpose r) settings of
         Inl e \<Rightarrow> Raise reencryption_failed
       | Inr replacement \<Rightarrow>
           (case decrypt_runtime_data_plaintext lib replacement (cx_purpose r) settings
                   ''runtime data ciphertext could not be decrypted'' of
              Inl e \<Rightarrow> Raise reencryption_failed
            | Inr opened \<Rightarrow>
                if opened \<noteq> plaintext
                then Raise (''round-trip verification failed for '' @ row_identifier r)
                else Return replacement))"

fun replacements :: "crypto \<Rightarrow> encryption_settings \<Rightarrow> string list \<Rightarrow> (string \<times> string) list
    \<Rightarrow> ciphertext_record list \<Rightarrow> (string, (string \<times> string) list) outcome" where
  "replacements lib settings roots key_map [] = Return []"
| "replacements lib settings roots key_map (r # rs) =
     and_then (replacement_for lib settings roots key_map r) (\<lambda>replacement.
     and_then (replacements lib settings roots key_map rs) (\<lambda>others.
       Return ((row_identifier r, replacement) # others)))"

text \<open>The dictionary keeps the last entry of an identifier.\<close>

fun write_replacements :: "(string \<times> string) list \<Rightarrow> ciphertext_record list \<Rightarrow> vault \<Rightarrow> (string, vault) outcome" where
  "write_replacements replacement_by_identifier [] v = Return v"
| "write_replacements replacement_by_identifier (r # rs) v =
     (case map_of (rev replacement_by_identifier) (row_identifier r) of
        None \<Rightarrow> Raise reencryption_failed
      | Some ciphertext \<Rightarrow>
          and_then (set_ciphertext r ciphertext v) (write_replacements replacement_by_identifier rs))"

definition reencrypt_transaction :: "crypto \<Rightarrow> migration_graph \<Rightarrow> encryption_settings \<Rightarrow> string list
    \<Rightarrow> (string \<times> string) list \<Rightarrow> bool \<Rightarrow> vault \<Rightarrow> (string, reencryption_report \<times> vault) outcome" where
  "reencrypt_transaction lib mg settings roots key_map apply_changes v =
     and_then (collect_records mg v) (\<lambda>records.
     and_then (classify_records settings (map fst key_map) records) (\<lambda>(legacy, current).
     and_then (decrypt_all_current lib settings current) (\<lambda>_.
     and_then (replacements lib settings roots key_map legacy) (\<lambda>replacement_by_identifier.
     and_then (if apply_changes then write_replacements replacement_by_identifier legacy v else Return v) (\<lambda>v'.
       Return (build_report (if apply_changes then ''apply'' else ''dry-run'') records legacy current
                 (if apply_changes then length legacy else 0), v'))))))"

definition reencrypt_runtime_data :: "crypto \<Rightarrow> migration_graph \<Rightarrow> encryption_settings \<Rightarrow> string list
    \<Rightarrow> legacy_runtime_data_key list \<Rightarrow> bool \<Rightarrow> vault \<Rightarrow> (string, reencryption_report) outcome \<times> vault" where
  "reencrypt_runtime_data lib mg settings legacy_root_secrets legacy_envelope_keys apply_changes v =
     (let roots = filter (\<lambda>s. s \<noteq> []) (map py_strip legacy_root_secrets) in
      case and_then (normalize_legacy_envelope_keys (active_key_id settings) [] legacy_envelope_keys)
             (\<lambda>key_map. reencrypt_transaction lib mg settings roots key_map apply_changes v) of
        Inl e \<Rightarrow> (Raise e, v)
      | Inr (report, v') \<Rightarrow> (Return report, v'))"

definition dry_run_runtime_data_reencryption :: "crypto \<Rightarrow> migration_graph \<Rightarrow> encryption_settings \<Rightarrow> string list
    \<Rightarrow> legacy_runtime_data_key list \<Rightarrow> vault \<Rightarrow> (string, reencryption_report) outcome \<times> vault" where
  "dry_run_runtime_data_reencryption lib mg settings legacy_root_secrets legacy_envelope_keys v =
     reencrypt_runtime_data lib mg settings legacy_root_secrets legacy_envelope_keys False v"

definition apply_runtime_data_reencryption :: "crypto \<Rightarrow> migration_graph \<Rightarrow> encryption_settings \<Rightarrow> string list
    \<Rightarrow> bool \<Rightarrow> legacy_runtime_data_key list \<Rightarrow> vault \<Rightarrow> (string, reencryption_report) outcome \<times> vault" where
  "apply_runtime_data_reencryption lib mg settings legacy_root_secrets maintenance_confirmed legacy_envelope_keys v =
     (if \<not> maintenance_confirmed
      then (Raise ''apply requires an explicitly confirmed maintenance window'', v)
      else reencrypt_runtime_data lib mg settings legacy_root_secrets legacy_envelope_keys True v)"

end
