(* ===== verification/ReencryptionRuns.thy ===== *)
theory ReencryptionRuns
  imports RuntimeReencryption
begin

section \<open>What a re-encryption does to the stored records\<close>

text \<open>
  Writing a ciphertext back changes exactly the record it was read from.  This is shown once for a
  table whose rows yield records, and holds for each of the six tables.
\<close>

subsection \<open>Records and their slots\<close>

definition good_ciphertext :: "string \<Rightarrow> bool" where
  "good_ciphertext c = (c \<noteq> [] \<and> py_strip c = c \<and> starts_with ''rde.'' c)"

definition rewritten :: "string \<Rightarrow> string \<Rightarrow> string \<Rightarrow> ciphertext_record \<Rightarrow> ciphertext_record" where
  "rewritten kind identifier c y =
     (if cx_kind y = kind \<and> cx_identifier y = identifier then y\<lparr>cx_ciphertext := c\<rparr> else y)"

lemma rewritten_simps [simp]:
  "cx_kind (rewritten k i c y) = cx_kind y" "cx_identifier (rewritten k i c y) = cx_identifier y"
  "cx_purpose (rewritten k i c y) = cx_purpose y" "row_identifier (rewritten k i c y) = row_identifier y"
  by (simp_all add: rewritten_def row_identifier_def)

lemma insort_key_map: "(\<And>x. f (g x) = f x) \<Longrightarrow> insort_key f (g x) (map g ys) = map g (insort_key f x ys)"
  by (induction ys) auto

lemma sort_key_map: "(\<And>x. f (g x) = f x) \<Longrightarrow> sort_key f (map g xs) = map g (sort_key f xs)"
  by (induction xs) (simp_all add: insort_key_map)

lemma update_row_map: "update_row key i f rows = map (\<lambda>r. if key r = i then f r else r) rows"
  by (simp add: update_row_def rows_update_def)

subsection \<open>A table of ciphertexts\<close>

locale ciphertext_table =
  fixes key :: "'r \<Rightarrow> string"
    and recs :: "'r \<Rightarrow> ciphertext_record list"
    and kinds :: "string set"
    and put :: "string \<Rightarrow> string \<Rightarrow> 'r \<Rightarrow> 'r"
  assumes key_put: "key (put k c r) = key r"
    and recs_slot: "x \<in> set (recs r) \<Longrightarrow> cx_identifier x = key r \<and> cx_kind x \<in> kinds"
    and recs_put: "k \<in> cx_kind ` set (recs r) \<Longrightarrow> good_ciphertext c
      \<Longrightarrow> recs (put k c r) = map (rewritten k (key r) c) (recs r)"
    and recs_one: "x \<in> set (recs r) \<Longrightarrow> y \<in> set (recs r) \<Longrightarrow> cx_kind x = cx_kind y \<Longrightarrow> x = y"
begin

lemma table_unique:
  assumes "keys_distinct key rows" and "x \<in> set (table_records key recs rows)" and "y \<in> set (table_records key recs rows)"
    and "cx_kind x = cx_kind y" and "cx_identifier x = cx_identifier y"
  shows "x = y"
proof -
  obtain r1 r2 where r: "r1 \<in> set rows" "x \<in> set (recs r1)" "r2 \<in> set rows" "y \<in> set (recs r2)"
    using assms(2,3) by (auto simp: table_records_def)
  then have "r1 = r2" using keys_distinct_inj [OF assms(1)] recs_slot assms(5) by metis
  then show ?thesis using recs_one r assms(4) by blast
qed

lemma written_records:
  assumes distinct: "keys_distinct key rows"
    and slot: "(k, i) \<in> (\<lambda>y. (cx_kind y, cx_identifier y)) ` set (table_records key recs rows)"
    and good: "good_ciphertext c"
  shows "table_records key recs (update_row key i (put k c) rows) = map (rewritten k i c) (table_records key recs rows)"
proof -
  let ?g = "\<lambda>r. if key r = i then put k c r else r"
  obtain r0 y where r0: "r0 \<in> set rows" "y \<in> set (recs r0)" "cx_kind y = k" "cx_identifier y = i"
    using slot by (auto simp: table_records_def)
  have only: "r = r0" if "r \<in> set rows" "key r = i" for r
    using that r0 recs_slot [OF r0(2)] keys_distinct_inj [OF distinct] by (metis (no_types))
  have row: "recs (?g r) = map (rewritten k i c) (recs r)" if r: "r \<in> set rows" for r
  proof (cases "key r = i")
    case True
    then have "r = r0" using only r by blast
    then show ?thesis using True r0 recs_put [of k r c] good by auto
  next
    case False
    then have "map (rewritten k i c) (recs r) = map (\<lambda>x. x) (recs r)"
      by (intro map_cong refl) (auto simp: rewritten_def dest: recs_slot)
    then show ?thesis using False by simp
  qed
  have "sort_key key (update_row key i (put k c) rows) = map ?g (sort_key key rows)"
    unfolding update_row_map by (rule sort_key_map) (simp add: key_put)
  moreover have "map (\<lambda>r. recs (?g r)) (sort_key key rows) = map (\<lambda>r. map (rewritten k i c) (recs r)) (sort_key key rows)"
    by (rule map_cong [OF refl]) (rule row, simp)
  then have "concat (map (\<lambda>r. recs (?g r)) (sort_key key rows)) =
      map (rewritten k i c) (concat (map recs (sort_key key rows)))" by (simp only: map_concat map_map comp_def)
  ultimately show ?thesis by (simp add: table_records_def comp_def)
qed

lemma other_records: "k \<notin> kinds \<Longrightarrow> map (rewritten k i c) (table_records key recs rows) = table_records key recs rows"
  by (rule map_idI) (auto simp: table_records_def rewritten_def dest: recs_slot)

lemma updated_distinct: "keys_distinct key rows \<Longrightarrow> keys_distinct key (update_row key i (put k c) rows)"
  unfolding update_row_map keys_distinct_def by (simp add: comp_def if_distrib key_put cong: if_cong)

lemma table_slots: "y \<in> set (table_records key recs rows) \<Longrightarrow> cx_kind y \<in> kinds"
  by (auto simp: table_records_def dest: recs_slot)

end

subsection \<open>The six tables\<close>

definition put_key :: "string \<Rightarrow> string \<Rightarrow> site_api_key \<Rightarrow> site_api_key" where
  "put_key k c row = row\<lparr>ak_signing_secret_ciphertext := Some c\<rparr>"
definition put_site :: "string \<Rightarrow> string \<Rightarrow> site_row \<Rightarrow> site_row" where
  "put_site k c row = row\<lparr>s_metadata_json := set_terminal_ciphertext c (s_metadata_json row)\<rparr>"
definition put_state :: "string \<Rightarrow> string \<Rightarrow> addon_oauth_state \<Rightarrow> addon_oauth_state" where
  "put_state k c row = row\<lparr>ao_metadata_json := Some (py_set (metadata_of (ao_metadata_json row)) ''payload_ciphertext'' (JStr c))\<rparr>"
definition put_receipt :: "string \<Rightarrow> string \<Rightarrow> portal_receipt \<Rightarrow> portal_receipt" where
  "put_receipt k c row = row\<lparr>pr_response_body_ciphertext := Some c\<rparr>"
definition put_run :: "string \<Rightarrow> string \<Rightarrow> run_record \<Rightarrow> run_record" where
  "put_run k c row = row\<lparr>r_execution_input_ciphertext := Some c\<rparr>"
definition put_seed :: "string \<Rightarrow> string \<Rightarrow> totp_factor \<Rightarrow> totp_factor" where
  "put_seed k c row =
     (if k = ''portal_totp_active_seed'' then row\<lparr>tf_active_seed_ciphertext := Some c\<rparr>
      else row\<lparr>tf_pending_seed_ciphertext := Some c\<rparr>)"

lemma ciphertext_row_member [simp]:
  "x \<in> set (ciphertext_row kind purpose i c) \<longleftrightarrow>
     c \<noteq> [] \<and> x = \<lparr>cx_kind = kind, cx_identifier = i, cx_purpose = purpose, cx_ciphertext = c\<rparr>"
  by (auto simp: ciphertext_row_def)

lemma ciphertext_row_put:
  "k \<in> cx_kind ` set (ciphertext_row kind purpose i old) \<Longrightarrow> good_ciphertext c
     \<Longrightarrow> ciphertext_row kind purpose i c = map (rewritten k i c) (ciphertext_row kind purpose i old)"
  by (auto simp: ciphertext_row_def rewritten_def good_ciphertext_def split: if_splits)

lemma as_dict_obj [simp]: "as_dict (JObj d) = d"
  by (simp add: as_dict_def)

interpretation key_table: ciphertext_table ak_key_id site_api_key_record "{''site_api_key''}" put_key
  by unfold_locales
     (auto simp: put_key_def site_api_key_record_def good_ciphertext_def intro!: ciphertext_row_put)

interpretation site_table: ciphertext_table s_site_id site_callback_record "{''site_runtime_callback''}" put_site
  by unfold_locales
     (auto simp: put_site_def site_callback_record_def set_terminal_ciphertext_def metadata_of_def
        good_ciphertext_def Let_def intro!: ciphertext_row_put)

interpretation state_table: ciphertext_table ao_state_id oauth_state_record "{''addon_connection_payload''}" put_state
  by unfold_locales
     (auto simp: put_state_def oauth_state_record_def metadata_of_def good_ciphertext_def intro!: ciphertext_row_put)

interpretation receipt_table: ciphertext_table pr_receipt_id receipt_record "{''portal_idempotency_response''}" put_receipt
  by unfold_locales
     (auto simp: put_receipt_def receipt_record_def good_ciphertext_def intro!: ciphertext_row_put)

interpretation input_table: ciphertext_table r_run_id run_input_record "{''runtime_execution_input''}" put_run
  by unfold_locales
     (auto simp: put_run_def run_input_record_def good_ciphertext_def intro!: ciphertext_row_put)

subsection \<open>The seeds\<close>

definition seeds_of :: "totp_factor \<Rightarrow> ciphertext_record list" where
  "seeds_of f = (case factor_records f of Inl e \<Rightarrow> [] | Inr records \<Rightarrow> records)"

lemma seed_record_cases:
  "seed_record kind p seed = Return records \<Longrightarrow> records = ciphertext_row kind PORTAL_TOTP_SEED_PURPOSE p (or_empty seed)"
  by (auto simp: seed_record_def or_empty_def ciphertext_row_def split: option.splits if_splits)

lemma factor_records_cases:
  "factor_records f = Return records \<Longrightarrow> records =
     ciphertext_row ''portal_totp_active_seed'' PORTAL_TOTP_SEED_PURPOSE (tf_principal_id f) (or_empty (tf_active_seed_ciphertext f))
     @ ciphertext_row ''portal_totp_pending_seed'' PORTAL_TOTP_SEED_PURPOSE (tf_principal_id f) (or_empty (tf_pending_seed_ciphertext f))"
  by (auto simp: factor_records_def and_then_Return dest!: seed_record_cases)

lemma seed_record_good: "good_ciphertext c \<Longrightarrow> seed_record kind p (Some c) = Return (ciphertext_row kind PORTAL_TOTP_SEED_PURPOSE p c)"
  by (simp add: seed_record_def good_ciphertext_def)

lemma factor_records_put:
  assumes "factor_records f = Return records" and "good_ciphertext c"
    and "k \<in> cx_kind ` set records"
  shows "factor_records (put_seed k c f) = Return (map (rewritten k (tf_principal_id f) c) records)"
proof -
  note records = factor_records_cases [OF assms(1)]
  have parts: "seed_record ''portal_totp_active_seed'' (tf_principal_id f) (tf_active_seed_ciphertext f) =
      Return (ciphertext_row ''portal_totp_active_seed'' PORTAL_TOTP_SEED_PURPOSE (tf_principal_id f) (or_empty (tf_active_seed_ciphertext f)))"
    "seed_record ''portal_totp_pending_seed'' (tf_principal_id f) (tf_pending_seed_ciphertext f) =
      Return (ciphertext_row ''portal_totp_pending_seed'' PORTAL_TOTP_SEED_PURPOSE (tf_principal_id f) (or_empty (tf_pending_seed_ciphertext f)))"
    using assms(1) by (auto simp: factor_records_def and_then_Return dest: seed_record_cases)
  show ?thesis
    using assms(3) assms(2) unfolding records
    by (auto simp: factor_records_def put_seed_def seed_record_good parts ciphertext_row_def rewritten_def
        good_ciphertext_def split: if_splits)
qed

interpretation factor_table: ciphertext_table tf_principal_id seeds_of
  "{''portal_totp_active_seed'', ''portal_totp_pending_seed''}" put_seed
proof
  fix k c r
  show "tf_principal_id (put_seed k c r) = tf_principal_id r" by (simp add: put_seed_def)
  show "good_ciphertext c \<Longrightarrow> k \<in> cx_kind ` set (seeds_of r)
      \<Longrightarrow> seeds_of (put_seed k c r) = map (rewritten k (tf_principal_id r) c) (seeds_of r)"
    using factor_records_put [of r _ c k] by (auto simp: seeds_of_def split: sum.splits)
next
  fix x r
  show "x \<in> set (seeds_of r) \<Longrightarrow> cx_identifier x = tf_principal_id r
      \<and> cx_kind x \<in> {''portal_totp_active_seed'', ''portal_totp_pending_seed''}"
    by (cases "factor_records r") (auto simp: seeds_of_def dest!: factor_records_cases)
next
  fix x y r
  show "x \<in> set (seeds_of r) \<Longrightarrow> y \<in> set (seeds_of r) \<Longrightarrow> cx_kind x = cx_kind y \<Longrightarrow> x = y"
    by (cases "factor_records r") (auto simp: seeds_of_def dest!: factor_records_cases)
qed

lemma collect_seeds_Return:
  "collect_seeds fs = Return records \<longleftrightarrow>
     (\<forall>f\<in>set fs. \<exists>r. factor_records f = Return r) \<and> records = concat (map seeds_of fs)"
proof (induction fs arbitrary: records)
  case (Cons f fs)
  then show ?case by (cases "factor_records f"; cases "collect_seeds fs") (auto simp: seeds_of_def)
qed auto

lemma collect_seeds_put:
  assumes "collect_seeds (sort_key tf_principal_id fs) = Return records" and "keys_distinct tf_principal_id fs"
    and slot: "(k, i) \<in> (\<lambda>y. (cx_kind y, cx_identifier y)) ` set records" and good: "good_ciphertext c"
  shows "collect_seeds (sort_key tf_principal_id (update_row tf_principal_id i (put_seed k c) fs))
    = Return (map (rewritten k i c) records)"
proof -
  have all: "\<forall>f\<in>set fs. \<exists>r. factor_records f = Return r" and records: "records = table_records tf_principal_id seeds_of fs"
    using assms(1) by (simp_all add: collect_seeds_Return table_records_def)
  obtain f0 y where f0: "f0 \<in> set fs" "y \<in> set (seeds_of f0)" "cx_kind y = k" "cx_identifier y = i"
    using slot by (auto simp: records table_records_def)
  have "\<exists>r. factor_records f = Return r" if f: "f \<in> set (update_row tf_principal_id i (put_seed k c) fs)" for f
  proof -
    obtain g where g: "g \<in> set fs" "f = (if tf_principal_id g = i then put_seed k c g else g)"
      using f by (auto simp: update_row_map)
    show ?thesis
    proof (cases "tf_principal_id g = i")
      case True
      then have "g = f0"
        using f0 g(1) factor_table.recs_slot [OF f0(2)] keys_distinct_inj [OF assms(2)] by metis
      obtain r where r: "factor_records g = Return r" using all g(1) by blast
      then have "k \<in> cx_kind ` set r" using f0 \<open>g = f0\<close> by (auto simp: seeds_of_def)
      from factor_records_put [OF r good this] show ?thesis using g(2) True by auto
    qed (use all g in auto)
  qed
  moreover have "table_records tf_principal_id seeds_of (update_row tf_principal_id i (put_seed k c) fs)
      = map (rewritten k i c) records"
    unfolding records by (rule factor_table.written_records [OF assms(2) slot [unfolded records] good])
  ultimately show ?thesis by (simp add: collect_seeds_Return table_records_def)
qed

subsection \<open>The vault\<close>

text \<open>Primary keys.\<close>

definition vault_ok :: "vault \<Rightarrow> bool" where
  "vault_ok v =
     (keys_distinct ak_key_id (vl_site_api_keys v) \<and> keys_distinct s_site_id (vl_sites v)
      \<and> keys_distinct ao_state_id (vl_oauth_states v) \<and> keys_distinct pr_receipt_id (vl_receipts v)
      \<and> keys_distinct r_run_id (vl_runs v) \<and> keys_distinct tf_principal_id (vl_totp_factors v))"

definition slot :: "ciphertext_record \<Rightarrow> string \<times> string" where
  "slot y = (cx_kind y, cx_identifier y)"

definition plain_tables :: "vault \<Rightarrow> ciphertext_record list" where
  "plain_tables v =
     table_records ak_key_id site_api_key_record (vl_site_api_keys v)
     @ table_records s_site_id site_callback_record (vl_sites v)
     @ table_records ao_state_id oauth_state_record (vl_oauth_states v)
     @ table_records pr_receipt_id receipt_record (vl_receipts v)
     @ table_records r_run_id run_input_record (vl_runs v)"

lemma collect_records_Return:
  "collect_records mg v = Return records \<longleftrightarrow>
     (\<exists>available seeds. totp_schema_available mg (vl_schema v) = Return available
        \<and> (if available then collect_seeds (sort_key tf_principal_id (vl_totp_factors v)) else Return []) = Return seeds
        \<and> records = sort_key row_identifier (plain_tables v @ seeds))"
  by (auto simp: collect_records_def plain_tables_def and_then_Return)

lemma plain_kinds:
  "y \<in> set (table_records ak_key_id site_api_key_record ks) \<Longrightarrow> cx_kind y = ''site_api_key''"
  "y \<in> set (table_records s_site_id site_callback_record ss) \<Longrightarrow> cx_kind y = ''site_runtime_callback''"
  "y \<in> set (table_records ao_state_id oauth_state_record os) \<Longrightarrow> cx_kind y = ''addon_connection_payload''"
  "y \<in> set (table_records pr_receipt_id receipt_record rs) \<Longrightarrow> cx_kind y = ''portal_idempotency_response''"
  "y \<in> set (table_records r_run_id run_input_record rus) \<Longrightarrow> cx_kind y = ''runtime_execution_input''"
  using key_table.table_slots site_table.table_slots state_table.table_slots receipt_table.table_slots
    input_table.table_slots by blast+

lemma seed_kinds:
  assumes "(if available then collect_seeds (sort_key tf_principal_id fs) else Return []) = Return seeds" and "y \<in> set seeds"
  shows "cx_kind y \<in> {''portal_totp_active_seed'', ''portal_totp_pending_seed''}"
proof -
  have "y \<in> set (table_records tf_principal_id seeds_of fs)"
    using assms by (auto simp: collect_seeds_Return table_records_def split: if_splits)
  then show ?thesis by (rule factor_table.table_slots)
qed

lemma rewritten_other: "(\<And>y. y \<in> set ys \<Longrightarrow> cx_kind y \<noteq> k) \<Longrightarrow> map (rewritten k i c) ys = ys"
  by (rule map_idI) (simp add: rewritten_def)

text \<open>How a rewriting distributes over what is collected.\<close>

lemma collect_rewritten:
  assumes "totp_schema_available mg (vl_schema v') = Return available"
    and "(if available then collect_seeds (sort_key tf_principal_id (vl_totp_factors v')) else Return []) =
      Return (map (rewritten k i c) seeds)"
    and "plain_tables v' = map (rewritten k i c) (plain_tables v)"
  shows "collect_records mg v' = Return (map (rewritten k i c) (sort_key row_identifier (plain_tables v @ seeds)))"
  using assms sort_key_map [of row_identifier "rewritten k i c" "plain_tables v @ seeds"]
  by (simp add: collect_records_Return)

lemmas other_tables =
  key_table.other_records site_table.other_records state_table.other_records receipt_table.other_records
  input_table.other_records

lemma plain_slot_cases:
  assumes "slot r \<in> slot ` set (plain_tables v)"
  obtains (key) "cx_kind r = ''site_api_key''" "slot r \<in> slot ` set (table_records ak_key_id site_api_key_record (vl_site_api_keys v))"
  | (site) "cx_kind r = ''site_runtime_callback''" "slot r \<in> slot ` set (table_records s_site_id site_callback_record (vl_sites v))"
  | (state) "cx_kind r = ''addon_connection_payload''" "slot r \<in> slot ` set (table_records ao_state_id oauth_state_record (vl_oauth_states v))"
  | (receipt) "cx_kind r = ''portal_idempotency_response''" "slot r \<in> slot ` set (table_records pr_receipt_id receipt_record (vl_receipts v))"
  | (input) "cx_kind r = ''runtime_execution_input''" "slot r \<in> slot ` set (table_records r_run_id run_input_record (vl_runs v))"
proof -
  obtain y where y: "y \<in> set (plain_tables v)" "slot y = slot r" using assms by force
  then have kind: "cx_kind r = cx_kind y" by (simp add: slot_def)
  have "slot r \<in> slot ` set ys" if "y \<in> set ys" for ys using that y(2) by (metis imageI)
  with y(1) kind plain_kinds that show thesis by (simp add: plain_tables_def) metis
qed

lemma set_plain:
  assumes ok: "vault_ok v" and slot: "slot r \<in> slot ` set (plain_tables v)" and good: "good_ciphertext c"
  obtains v' where "set_ciphertext r c v = Return v'" "vault_ok v'" "vl_schema v' = vl_schema v"
    "vl_totp_factors v' = vl_totp_factors v"
    "plain_tables v' = map (rewritten (cx_kind r) (cx_identifier r) c) (plain_tables v)"
    "cx_kind r \<notin> {''portal_totp_active_seed'', ''portal_totp_pending_seed''}"
  using slot
proof (cases rule: plain_slot_cases)
  case key
  let ?v = "v\<lparr>vl_site_api_keys := update_row ak_key_id (cx_identifier r) (put_key (cx_kind r) c) (vl_site_api_keys v)\<rparr>"
  have "table_records ak_key_id site_api_key_record (vl_site_api_keys ?v) =
      map (rewritten (cx_kind r) (cx_identifier r) c) (table_records ak_key_id site_api_key_record (vl_site_api_keys v))"
    using key_table.written_records [of "vl_site_api_keys v" "cx_kind r" "cx_identifier r" c] ok good key
    by (simp add: vault_ok_def slot_def)
  moreover have "set_ciphertext r c v = Return ?v" using key(1) by (simp add: set_ciphertext_def put_key_def [abs_def])
  moreover have "vault_ok ?v" using ok key_table.updated_distinct by (simp add: vault_ok_def)
  ultimately show thesis using key(1) other_tables by (intro that [of ?v]) (simp_all add: plain_tables_def)
next
  case site
  let ?v = "v\<lparr>vl_sites := update_row s_site_id (cx_identifier r) (put_site (cx_kind r) c) (vl_sites v)\<rparr>"
  have "table_records s_site_id site_callback_record (vl_sites ?v) =
      map (rewritten (cx_kind r) (cx_identifier r) c) (table_records s_site_id site_callback_record (vl_sites v))"
    using site_table.written_records [of "vl_sites v" "cx_kind r" "cx_identifier r" c] ok good site
    by (simp add: vault_ok_def slot_def)
  moreover have "set_ciphertext r c v = Return ?v" using site(1) by (simp add: set_ciphertext_def put_site_def [abs_def])
  moreover have "vault_ok ?v" using ok site_table.updated_distinct by (simp add: vault_ok_def)
  ultimately show thesis using site(1) other_tables by (intro that [of ?v]) (simp_all add: plain_tables_def)
next
  case state
  let ?v = "v\<lparr>vl_oauth_states := update_row ao_state_id (cx_identifier r) (put_state (cx_kind r) c) (vl_oauth_states v)\<rparr>"
  have "table_records ao_state_id oauth_state_record (vl_oauth_states ?v) =
      map (rewritten (cx_kind r) (cx_identifier r) c) (table_records ao_state_id oauth_state_record (vl_oauth_states v))"
    using state_table.written_records [of "vl_oauth_states v" "cx_kind r" "cx_identifier r" c] ok good state
    by (simp add: vault_ok_def slot_def)
  moreover have "set_ciphertext r c v = Return ?v" using state(1) by (simp add: set_ciphertext_def put_state_def [abs_def])
  moreover have "vault_ok ?v" using ok state_table.updated_distinct by (simp add: vault_ok_def)
  ultimately show thesis using state(1) other_tables by (intro that [of ?v]) (simp_all add: plain_tables_def)
next
  case receipt
  let ?v = "v\<lparr>vl_receipts := update_row pr_receipt_id (cx_identifier r) (put_receipt (cx_kind r) c) (vl_receipts v)\<rparr>"
  have "table_records pr_receipt_id receipt_record (vl_receipts ?v) =
      map (rewritten (cx_kind r) (cx_identifier r) c) (table_records pr_receipt_id receipt_record (vl_receipts v))"
    using receipt_table.written_records [of "vl_receipts v" "cx_kind r" "cx_identifier r" c] ok good receipt
    by (simp add: vault_ok_def slot_def)
  moreover have "set_ciphertext r c v = Return ?v" using receipt(1) by (simp add: set_ciphertext_def put_receipt_def [abs_def])
  moreover have "vault_ok ?v" using ok receipt_table.updated_distinct by (simp add: vault_ok_def)
  ultimately show thesis using receipt(1) other_tables by (intro that [of ?v]) (simp_all add: plain_tables_def)
next
  case input
  let ?v = "v\<lparr>vl_runs := update_row r_run_id (cx_identifier r) (put_run (cx_kind r) c) (vl_runs v)\<rparr>"
  have "table_records r_run_id run_input_record (vl_runs ?v) =
      map (rewritten (cx_kind r) (cx_identifier r) c) (table_records r_run_id run_input_record (vl_runs v))"
    using input_table.written_records [of "vl_runs v" "cx_kind r" "cx_identifier r" c] ok good input
    by (simp add: vault_ok_def slot_def)
  moreover have "set_ciphertext r c v = Return ?v" using input(1) by (simp add: set_ciphertext_def put_run_def [abs_def])
  moreover have "vault_ok ?v" using ok input_table.updated_distinct by (simp add: vault_ok_def)
  ultimately show thesis using input(1) other_tables by (intro that [of ?v]) (simp_all add: plain_tables_def)
qed

lemma set_seed:
  assumes ok: "vault_ok v" and seeds: "collect_seeds (sort_key tf_principal_id (vl_totp_factors v)) = Return seeds"
    and slot: "slot r \<in> slot ` set seeds" and good: "good_ciphertext c"
  obtains v' where "set_ciphertext r c v = Return v'" "vault_ok v'" "vl_schema v' = vl_schema v"
    "collect_seeds (sort_key tf_principal_id (vl_totp_factors v')) =
       Return (map (rewritten (cx_kind r) (cx_identifier r) c) seeds)"
    "plain_tables v' = map (rewritten (cx_kind r) (cx_identifier r) c) (plain_tables v)"
proof -
  let ?v = "v\<lparr>vl_totp_factors := update_row tf_principal_id (cx_identifier r) (put_seed (cx_kind r) c) (vl_totp_factors v)\<rparr>"
  obtain y where "y \<in> set seeds" "cx_kind r = cx_kind y" using slot by (auto simp: slot_def)
  with seed_kinds [of True] seeds have kind: "cx_kind r \<in> {''portal_totp_active_seed'', ''portal_totp_pending_seed''}"
    by simp
  have "collect_seeds (sort_key tf_principal_id (vl_totp_factors ?v)) =
      Return (map (rewritten (cx_kind r) (cx_identifier r) c) seeds)"
    using collect_seeds_put [OF seeds, of "cx_kind r" "cx_identifier r" c] ok slot good by (simp add: vault_ok_def slot_def)
  moreover have "set_ciphertext r c v = Return ?v" using kind by (auto simp: set_ciphertext_def put_seed_def [abs_def])
  moreover have "vault_ok ?v" using ok factor_table.updated_distinct by (simp add: vault_ok_def)
  moreover have "plain_tables ?v = map (rewritten (cx_kind r) (cx_identifier r) c) (plain_tables v)"
    using kind other_tables by (auto simp: plain_tables_def)
  ultimately show thesis by (intro that [of ?v]) simp_all
qed

text \<open>Writing one ciphertext back changes one record and nothing else.\<close>

lemma set_ciphertext_collected:
  assumes records: "collect_records mg v = Return records" and ok: "vault_ok v"
    and slot: "slot r \<in> slot ` set records" and good: "good_ciphertext c"
  obtains v' where "set_ciphertext r c v = Return v'" "vault_ok v'"
    "collect_records mg v' = Return (map (rewritten (cx_kind r) (cx_identifier r) c) records)"
proof -
  obtain available seeds where parts: "totp_schema_available mg (vl_schema v) = Return available"
    "(if available then collect_seeds (sort_key tf_principal_id (vl_totp_factors v)) else Return []) = Return seeds"
    "records = sort_key row_identifier (plain_tables v @ seeds)"
    using records by (auto simp: collect_records_Return)
  have "slot r \<in> slot ` set (plain_tables v) \<or> slot r \<in> slot ` set seeds" using slot by (auto simp: parts(3))
  then show thesis
  proof
    assume "slot r \<in> slot ` set (plain_tables v)"
    from set_plain [OF ok this good] obtain v' where v': "set_ciphertext r c v = Return v'" "vault_ok v'"
      "vl_schema v' = vl_schema v" "vl_totp_factors v' = vl_totp_factors v"
      "plain_tables v' = map (rewritten (cx_kind r) (cx_identifier r) c) (plain_tables v)"
      "cx_kind r \<notin> {''portal_totp_active_seed'', ''portal_totp_pending_seed''}" .
    have "map (rewritten (cx_kind r) (cx_identifier r) c) seeds = seeds"
      by (rule rewritten_other) (drule seed_kinds [OF parts(2)], use v'(6) in metis)
    then have "collect_records mg v' = Return (map (rewritten (cx_kind r) (cx_identifier r) c) records)"
      unfolding parts(3) using v' parts
      by (intro collect_rewritten [where available = available]) (simp_all split: if_split_asm)
    with v' show thesis by (intro that)
  next
    assume seed: "slot r \<in> slot ` set seeds"
    then have available "collect_seeds (sort_key tf_principal_id (vl_totp_factors v)) = Return seeds"
      using parts(2) by (auto split: if_splits)
    from set_seed [OF ok this(2) seed good] obtain v' where v': "set_ciphertext r c v = Return v'" "vault_ok v'"
      "vl_schema v' = vl_schema v" "collect_seeds (sort_key tf_principal_id (vl_totp_factors v')) =
         Return (map (rewritten (cx_kind r) (cx_identifier r) c) seeds)"
      "plain_tables v' = map (rewritten (cx_kind r) (cx_identifier r) c) (plain_tables v)" .
    then have "collect_records mg v' = Return (map (rewritten (cx_kind r) (cx_identifier r) c) records)"
      unfolding parts(3) using parts \<open>available\<close> by (intro collect_rewritten [where available = available]) simp_all
    with v' show thesis by (intro that)
  qed
qed

lemma no_colon_kinds: "k \<in> set RUNTIME_DATA_KINDS \<Longrightarrow> CHR '':'' \<notin> set k"
  by (auto simp: RUNTIME_DATA_KINDS_def)

lemma row_identifier_slot:
  "cx_kind x \<in> set RUNTIME_DATA_KINDS \<Longrightarrow> cx_kind y \<in> set RUNTIME_DATA_KINDS
     \<Longrightarrow> row_identifier x = row_identifier y \<longleftrightarrow> slot x = slot y"
  using append_sep_inject [OF no_colon_kinds no_colon_kinds] by (simp add: row_identifier_def slot_def)

lemma plain_record_cases:
  assumes "y \<in> set (plain_tables v)"
  obtains (key) "cx_kind y = ''site_api_key''" "y \<in> set (table_records ak_key_id site_api_key_record (vl_site_api_keys v))"
  | (site) "cx_kind y = ''site_runtime_callback''" "y \<in> set (table_records s_site_id site_callback_record (vl_sites v))"
  | (state) "cx_kind y = ''addon_connection_payload''" "y \<in> set (table_records ao_state_id oauth_state_record (vl_oauth_states v))"
  | (receipt) "cx_kind y = ''portal_idempotency_response''" "y \<in> set (table_records pr_receipt_id receipt_record (vl_receipts v))"
  | (input) "cx_kind y = ''runtime_execution_input''" "y \<in> set (table_records r_run_id run_input_record (vl_runs v))"
  using assms plain_kinds by (auto simp: plain_tables_def)

lemma plain_unique:
  assumes "vault_ok v" and "x \<in> set (plain_tables v)" and "y \<in> set (plain_tables v)" and "slot x = slot y"
  shows "x = y"
proof -
  have same: "cx_kind x = cx_kind y" "cx_identifier x = cx_identifier y" using assms(4) by (simp_all add: slot_def)
  note tables = key_table.table_unique [OF _ _ _ same] site_table.table_unique [OF _ _ _ same]
    state_table.table_unique [OF _ _ _ same] receipt_table.table_unique [OF _ _ _ same]
    input_table.table_unique [OF _ _ _ same]
  show ?thesis
    using assms(2)
    by (cases rule: plain_record_cases; use assms(3) in \<open>cases rule: plain_record_cases\<close>)
       (use same assms(1) in \<open>auto simp: vault_ok_def intro: tables\<close>)
qed

lemma collected_unique:
  assumes "collect_records mg v = Return records" and ok: "vault_ok v"
    and x: "x \<in> set records" and y: "y \<in> set records" and same: "slot x = slot y"
  shows "x = y"
proof -
  obtain available seeds where parts:
    "(if available then collect_seeds (sort_key tf_principal_id (vl_totp_factors v)) else Return []) = Return seeds"
    "records = sort_key row_identifier (plain_tables v @ seeds)"
    using assms(1) by (auto simp: collect_records_Return)
  have kind: "cx_kind x = cx_kind y" "cx_identifier x = cx_identifier y" using same by (simp_all add: slot_def)
  have plain: "cx_kind z \<notin> {''portal_totp_active_seed'', ''portal_totp_pending_seed''}" if "z \<in> set (plain_tables v)" for z
    using that by (cases rule: plain_record_cases) simp_all
  have iff: "z \<in> set (plain_tables v) \<longleftrightarrow> cx_kind z \<notin> {''portal_totp_active_seed'', ''portal_totp_pending_seed''}"
    if "z \<in> set records" for z
    using that plain [of z] seed_kinds [OF parts(1), of z] unfolding parts(2) set_sort set_append by blast
  have "x \<in> set (plain_tables v) \<longleftrightarrow> y \<in> set (plain_tables v)"
    using iff [OF x] iff [OF y] kind(1) by simp
  then show ?thesis
  proof (cases "x \<in> set (plain_tables v)")
    case True
    then show ?thesis using plain_unique [OF ok _ _ same] \<open>x \<in> _ \<longleftrightarrow> y \<in> _\<close> by blast
  next
    case False
    then have seed: "x \<in> set seeds" "y \<in> set seeds"
      using x y \<open>x \<in> _ \<longleftrightarrow> y \<in> _\<close> by (auto simp: parts(2))
    then have "available" using parts(1) by (cases available) auto
    then have "seeds = table_records tf_principal_id seeds_of (vl_totp_factors v)"
      using parts(1) by (simp add: collect_seeds_Return table_records_def)
    then show ?thesis
      using factor_table.table_unique [OF _ _ _ kind, of "vl_totp_factors v"] seed ok by (simp add: vault_ok_def)
  qed
qed

lemma collected_kinds:
  assumes "collect_records mg v = Return records" and "y \<in> set records"
  shows "cx_kind y \<in> set RUNTIME_DATA_KINDS"
proof -
  obtain available seeds where parts:
    "(if available then collect_seeds (sort_key tf_principal_id (vl_totp_factors v)) else Return []) = Return seeds"
    "records = sort_key row_identifier (plain_tables v @ seeds)"
    using assms(1) by (auto simp: collect_records_Return)
  have "y \<in> set (plain_tables v) \<or> y \<in> set seeds" using assms(2) by (simp add: parts(2))
  then show ?thesis
  proof
    assume "y \<in> set (plain_tables v)"
    then show ?thesis by (cases rule: plain_record_cases) (simp_all add: RUNTIME_DATA_KINDS_def)
  qed (use seed_kinds [OF parts(1)] in \<open>auto simp: RUNTIME_DATA_KINDS_def\<close>)
qed

text \<open>A seed is always an envelope.\<close>

lemma collected_seed_envelope:
  assumes "collect_records mg v = Return records" and "y \<in> set records" and "cx_purpose y = PORTAL_TOTP_SEED_PURPOSE"
  shows "starts_with ''rde.'' (cx_ciphertext y)"
proof -
  obtain available seeds where parts:
    "(if available then collect_seeds (sort_key tf_principal_id (vl_totp_factors v)) else Return []) = Return seeds"
    "records = sort_key row_identifier (plain_tables v @ seeds)"
    using assms(1) by (auto simp: collect_records_Return)
  have "y \<notin> set (plain_tables v)"
    using assms(3)
    by (auto simp: plain_tables_def table_records_def site_api_key_record_def site_callback_record_def
        oauth_state_record_def receipt_record_def run_input_record_def SITE_API_KEY_PURPOSE_def
        RUNTIME_CALLBACK_PURPOSE_def ADDON_PAYLOAD_PURPOSE_def PORTAL_IDEMPOTENCY_PURPOSE_def
        RUN_INPUT_PURPOSE_def PORTAL_TOTP_SEED_PURPOSE_def Let_def)
  then have "y \<in> set seeds" using assms(2) by (simp add: parts(2))
  then have "collect_seeds (sort_key tf_principal_id (vl_totp_factors v)) = Return seeds"
    using parts(1) by (cases available) auto
  then have all: "\<forall>f\<in>set (vl_totp_factors v). \<exists>r. factor_records f = Return r"
    and "seeds = concat (map seeds_of (sort_key tf_principal_id (vl_totp_factors v)))"
    unfolding collect_seeds_Return by simp_all
  then obtain f where f: "f \<in> set (vl_totp_factors v)" "y \<in> set (seeds_of f)" using \<open>y \<in> set seeds\<close> by auto
  then obtain xs where xs: "factor_records f = Return xs" "y \<in> set xs" using all by (auto simp: seeds_of_def)
  have seed: "starts_with ''rde.'' (cx_ciphertext y)"
    if "seed_record kind p seed = Return xs" "y \<in> set xs" for kind p seed xs
    using that by (auto simp: seed_record_def split: option.splits if_splits)
  obtain active pending where
    "seed_record ''portal_totp_active_seed'' (tf_principal_id f) (tf_active_seed_ciphertext f) = Return active"
    "seed_record ''portal_totp_pending_seed'' (tf_principal_id f) (tf_pending_seed_ciphertext f) = Return pending"
    "xs = active @ pending"
    using xs(1) unfolding factor_records_def and_then_Return by blast
  with xs(2) seed show ?thesis by auto
qed

subsection \<open>Writing all replacements back\<close>

definition replaced :: "(string \<times> string) list \<Rightarrow> ciphertext_record list \<Rightarrow> ciphertext_record \<Rightarrow> ciphertext_record" where
  "replaced reps rs y =
     (if slot y \<in> slot ` set rs then y\<lparr>cx_ciphertext := the (map_of (rev reps) (row_identifier y))\<rparr> else y)"

lemma slot_rewritten [simp]: "slot (rewritten k i c y) = slot y"
  by (simp add: slot_def)

lemma slot_row_identifier: "slot x = slot y \<Longrightarrow> row_identifier x = row_identifier y"
  by (simp add: slot_def row_identifier_def)

lemma new_ciphertext [simp]:
  "slot (y\<lparr>cx_ciphertext := c\<rparr>) = slot y" "row_identifier (y\<lparr>cx_ciphertext := c\<rparr>) = row_identifier y"
  by (simp_all add: slot_def row_identifier_def)

lemma replaced_Cons:
  assumes "map_of (rev reps) (row_identifier r) = Some c"
  shows "replaced reps rs (rewritten (cx_kind r) (cx_identifier r) c y) = replaced reps (r # rs) y"
proof (cases "slot y = slot r")
  case True
  then have "rewritten (cx_kind r) (cx_identifier r) c y = y\<lparr>cx_ciphertext := c\<rparr>"
    by (simp add: rewritten_def slot_def)
  moreover have "map_of (rev reps) (row_identifier y) = Some c" using assms slot_row_identifier [OF True] by simp
  ultimately show ?thesis using True by (simp add: replaced_def)
next
  case False
  then have "rewritten (cx_kind r) (cx_identifier r) c y = y" by (auto simp: rewritten_def slot_def)
  then show ?thesis using False by (simp add: replaced_def)
qed

lemma write_replacements_collected:
  assumes "write_replacements reps rs v = Return v'" and "collect_records mg v = Return records" and "vault_ok v"
    and "slot ` set rs \<subseteq> slot ` set records"
    and "\<And>r c. r \<in> set rs \<Longrightarrow> map_of (rev reps) (row_identifier r) = Some c \<Longrightarrow> good_ciphertext c"
  shows "vault_ok v' \<and> collect_records mg v' = Return (map (replaced reps rs) records)"
  using assms
proof (induction rs arbitrary: v records)
  case Nil
  then show ?case by (simp add: replaced_def)
next
  case (Cons r rs)
  obtain c where c: "map_of (rev reps) (row_identifier r) = Some c"
    using Cons.prems(1) by (auto split: option.splits)
  have "slot r \<in> slot ` set records" using Cons.prems(4) by simp
  from set_ciphertext_collected [OF Cons.prems(2,3) this Cons.prems(5) [OF _ c]]
  obtain v1 where v1: "set_ciphertext r c v = Return v1" "vault_ok v1"
    "collect_records mg v1 = Return (map (rewritten (cx_kind r) (cx_identifier r) c) records)" by auto
  have rest: "write_replacements reps rs v1 = Return v'" using Cons.prems(1) c v1(1) by simp
  have "slot ` set rs \<subseteq> slot ` set (map (rewritten (cx_kind r) (cx_identifier r) c) records)"
    using Cons.prems(4) by (simp add: image_image)
  moreover have "good_ciphertext c'" if "r' \<in> set rs" "map_of (rev reps) (row_identifier r') = Some c'" for r' c'
    using Cons.prems(5) [of r' c'] that by simp
  ultimately have "vault_ok v' \<and> collect_records mg v' =
      Return (map (replaced reps rs) (map (rewritten (cx_kind r) (cx_identifier r) c) records))"
    by (rule Cons.IH [OF rest v1(3,2)])
  moreover have "map (replaced reps rs) (map (rewritten (cx_kind r) (cx_identifier r) c) records) =
      map (replaced reps (r # rs)) records" by (simp add: replaced_Cons [OF c])
  ultimately show ?case by simp
qed

end
