(* ===== verification/ReencryptionProperties.thy ===== *)
theory ReencryptionProperties
  imports ReencryptionRuns
begin

section \<open>Properties of the re-encryption of stored secrets\<close>

subsection \<open>Envelopes\<close>

lemma decrypt_envelope:
  assumes "decrypt_runtime_data_plaintext lib c purpose settings msg = Return p"
  shows "runtime_data_envelope_key_id (Some c) = Some (active_key_id settings)" "active_key_id settings \<noteq> []" "py_strip c = c"
proof -
  obtain key_id where key: "resolve_runtime_data_encryption_key_id settings = Return key_id"
    using assms by (auto simp: decrypt_runtime_data_plaintext_def and_then_Return)
  obtain token where token: "parse_envelope c RUNTIME_DATA_ENVELOPE_FAMILY RUNTIME_DATA_ENVELOPE_VERSION = Some (key_id, token)"
    using assms key by (auto simp: decrypt_runtime_data_plaintext_def and_then_Return split: option.splits if_splits)
  have "key_id \<noteq> [] \<and> active_key_id settings = key_id"
    using key by (auto simp: resolve_runtime_data_encryption_key_id_def resolve_encryption_key_id_def active_key_id_def
        Let_def split: if_splits)
  then show "runtime_data_envelope_key_id (Some c) = Some (active_key_id settings)" "active_key_id settings \<noteq> []"
    using token by (auto simp: runtime_data_envelope_key_id_def or_empty_def)
  show "py_strip c = c" using token by (auto simp: parse_envelope_def split: if_splits)
qed

lemma decrypt_message:
  "decrypt_runtime_data_plaintext lib c purpose settings msg = Return p
     \<Longrightarrow> decrypt_runtime_data_plaintext lib c purpose settings msg' = Return p"
  by (auto simp: decrypt_runtime_data_plaintext_def and_then_Return split: option.splits if_splits)

lemma encrypt_prefix:
  "encrypt_runtime_data_plaintext lib p purpose settings = Return c \<Longrightarrow> c \<noteq> [] \<and> starts_with ''rde.'' c"
  by (auto simp: encrypt_runtime_data_plaintext_def and_then_Return envelope_def RUNTIME_DATA_ENVELOPE_FAMILY_def
      starts_with_def)

lemma replacement_facts:
  assumes "replacement_for lib settings roots key_map r = Return c"
  obtains p where "decrypt_legacy lib settings roots key_map r = Return p"
    "decrypt_runtime_data_plaintext lib c (cx_purpose r) settings ''runtime data ciphertext could not be decrypted'' = Return p"
    "good_ciphertext c"
proof -
  let ?msg = "''runtime data ciphertext could not be decrypted''"
  obtain p where p: "decrypt_legacy lib settings roots key_map r = Return p"
    and rest: "(case encrypt_runtime_data_plaintext lib p (cx_purpose r) settings of
         Inl e \<Rightarrow> Raise reencryption_failed
       | Inr replacement \<Rightarrow>
           (case decrypt_runtime_data_plaintext lib replacement (cx_purpose r) settings ?msg of
              Inl e \<Rightarrow> Raise reencryption_failed
            | Inr opened \<Rightarrow>
                if opened \<noteq> p then Raise (''round-trip verification failed for '' @ row_identifier r)
                else Return replacement)) = Return c"
    using assms unfolding replacement_for_def and_then_Return by blast
  obtain c' where enc': "encrypt_runtime_data_plaintext lib p (cx_purpose r) settings = Return c'"
    using rest by (cases "encrypt_runtime_data_plaintext lib p (cx_purpose r) settings") auto
  then obtain p' where "decrypt_runtime_data_plaintext lib c' (cx_purpose r) settings ?msg = Return p'"
    using rest by (cases "decrypt_runtime_data_plaintext lib c' (cx_purpose r) settings ?msg") auto
  then have enc: "encrypt_runtime_data_plaintext lib p (cx_purpose r) settings = Return c"
    and dec: "decrypt_runtime_data_plaintext lib c (cx_purpose r) settings ?msg = Return p"
    using rest enc' by (simp_all split: if_splits)
  have "good_ciphertext c" using encrypt_prefix [OF enc] decrypt_envelope(3) [OF dec] by (simp add: good_ciphertext_def)
  with p dec show thesis by (rule that)
qed

lemma replacements_entries:
  "replacements lib settings roots key_map rs = Return reps \<Longrightarrow>
     fst ` set reps = row_identifier ` set rs
     \<and> (\<forall>(i, c)\<in>set reps. \<exists>r\<in>set rs. row_identifier r = i \<and> replacement_for lib settings roots key_map r = Return c)"
proof (induction rs arbitrary: reps)
  case (Cons r rs)
  then obtain c others where parts: "replacement_for lib settings roots key_map r = Return c"
    "replacements lib settings roots key_map rs = Return others" "reps = (row_identifier r, c) # others"
    by (auto simp: and_then_Return)
  with Cons.IH [OF parts(2)] show ?case by auto
qed simp

lemma replacement_lookup:
  assumes "replacements lib settings roots key_map rs = Return reps" and "r \<in> set rs"
  obtains c r' where "map_of (rev reps) (row_identifier r) = Some c" "r' \<in> set rs" "row_identifier r' = row_identifier r"
    "replacement_for lib settings roots key_map r' = Return c"
proof -
  note entries = replacements_entries [OF assms(1)]
  have "row_identifier r \<in> dom (map_of (rev reps))" using entries assms(2) by (simp add: dom_map_of_conv_image_fst)
  then obtain c where c: "map_of (rev reps) (row_identifier r) = Some c" by blast
  then have "(row_identifier r, c) \<in> set reps" by (auto dest: map_of_SomeD)
  with entries c show thesis by (auto intro: that)
qed

subsection \<open>Classification\<close>

lemma classify_loop_split:
  "classify_loop e allowed rs = Return (legacy, current) \<Longrightarrow>
     legacy = filter (\<lambda>r. runtime_data_envelope_key_id (Some (cx_ciphertext r)) \<noteq> Some e) rs
     \<and> current = filter (\<lambda>r. runtime_data_envelope_key_id (Some (cx_ciphertext r)) = Some e) rs"
  by (induction rs arbitrary: legacy current) (auto simp: and_then_Return Let_def split: if_splits)

lemma classify_current:
  "\<forall>r\<in>set rs. runtime_data_envelope_key_id (Some (cx_ciphertext r)) = Some e \<Longrightarrow> classify_loop e allowed rs = Return ([], rs)"
  by (induction rs) simp_all

lemma decrypt_all_current_Return:
  "decrypt_all_current lib settings rs = Return u \<longleftrightarrow> (\<forall>r\<in>set rs. \<exists>p. open_with lib settings r = Return p)"
  by (induction rs) (auto simp: and_then_Return decrypt_current_def split: sum.splits)

subsection \<open>What a transaction leaves behind\<close>

text \<open>What the command takes a record to hold: by the active key if its envelope names it, else by the old ones.\<close>

definition plaintext_of :: "crypto \<Rightarrow> encryption_settings \<Rightarrow> string list \<Rightarrow> (string \<times> string) list
    \<Rightarrow> ciphertext_record \<Rightarrow> (string, bytes) outcome" where
  "plaintext_of lib settings roots key_map r =
     (if runtime_data_envelope_key_id (Some (cx_ciphertext r)) = Some (active_key_id settings)
      then decrypt_current lib settings r else decrypt_legacy lib settings roots key_map r)"

text \<open>A legacy record and its replacement open to the same plaintext.\<close>

lemma replacement_opens:
  assumes "replacement_for lib settings roots key_map r = Return c"
    and "cx_purpose r = PORTAL_TOTP_SEED_PURPOSE \<Longrightarrow> starts_with ''rde.'' (cx_ciphertext r)"
  obtains p where "decrypt_legacy lib settings roots key_map r = Return p"
    "open_with lib settings (r\<lparr>cx_ciphertext := c\<rparr>) = Return p"
    "runtime_data_envelope_key_id (Some c) = Some (active_key_id settings)" "good_ciphertext c"
proof -
  from replacement_facts [OF assms(1)] obtain p where p: "decrypt_legacy lib settings roots key_map r = Return p"
    "decrypt_runtime_data_plaintext lib c (cx_purpose r) settings ''runtime data ciphertext could not be decrypted'' = Return p"
    "good_ciphertext c" .
  have "p \<noteq> []" if "cx_purpose r = PORTAL_TOTP_SEED_PURPOSE"
    using p(1) assms(2) [OF that] that
    by (auto simp: decrypt_legacy_def decrypt_portal_totp_seed_def and_then_Return Let_def
        split: option.splits if_splits sum.splits)
  then have "open_with lib settings (r\<lparr>cx_ciphertext := c\<rparr>) = Return p"
    using p(3) decrypt_message [OF p(2)]
    by (cases "cx_purpose r = PORTAL_TOTP_SEED_PURPOSE")
       (simp_all add: open_with_def decrypt_portal_totp_seed_def or_empty_def good_ciphertext_def Let_def)
  with p decrypt_envelope(1) [OF p(2)] show thesis by (intro that)
qed

lemma transaction_parts:
  assumes "reencrypt_transaction lib mg settings roots key_map apply_changes v = Return (report, v')"
  obtains records legacy current reps where "collect_records mg v = Return records"
    "classify_records settings (map fst key_map) records = Return (legacy, current)"
    "\<forall>r\<in>set current. \<exists>p. open_with lib settings r = Return p"
    "replacements lib settings roots key_map legacy = Return reps"
    "(if apply_changes then write_replacements reps legacy v else Return v) = Return v'"
    "report = build_report (if apply_changes then ''apply'' else ''dry-run'') records legacy current
                 (if apply_changes then length legacy else 0)"
proof -
  let ?rest = "\<lambda>records legacy current. and_then (decrypt_all_current lib settings current) (\<lambda>_.
     and_then (replacements lib settings roots key_map legacy) (\<lambda>reps.
     and_then (if apply_changes then write_replacements reps legacy v else Return v) (\<lambda>v'.
       Return (build_report (if apply_changes then ''apply'' else ''dry-run'') records legacy current
                 (if apply_changes then length legacy else 0), v'))))"
  obtain records classes where top: "collect_records mg v = Return records"
    "classify_records settings (map fst key_map) records = Return classes"
    "(case classes of (legacy, current) \<Rightarrow> ?rest records legacy current) = Return (report, v')"
    using assms unfolding reencrypt_transaction_def and_then_Return by blast
  obtain legacy current where classes: "classes = (legacy, current)" by fastforce
  obtain u reps w where "decrypt_all_current lib settings current = Return u"
    "replacements lib settings roots key_map legacy = Return reps"
    "(if apply_changes then write_replacements reps legacy v else Return v) = Return w"
    "(build_report (if apply_changes then ''apply'' else ''dry-run'') records legacy current
                 (if apply_changes then length legacy else 0), w) = (report, v')"
    using top(3) unfolding classes prod.case and_then_Return by (auto simp del: if_split)
  then show thesis
    using top(1,2) classes decrypt_all_current_Return [of lib settings current u]
    by (intro that [of records legacy current reps]) (simp_all del: if_split)
qed

lemma classified:
  assumes "classify_records settings allowed records = Return (legacy, current)"
  shows "active_key_id settings \<noteq> []"
    "legacy = filter (\<lambda>r. runtime_data_envelope_key_id (Some (cx_ciphertext r)) \<noteq> Some (active_key_id settings)) records"
    "current = filter (\<lambda>r. runtime_data_envelope_key_id (Some (cx_ciphertext r)) = Some (active_key_id settings)) records"
  using assms classify_loop_split by (auto simp: classify_records_def split: if_splits)

text \<open>The lookup by row identifier finds the record's own replacement.\<close>

lemma own_replacement:
  assumes records: "collect_records mg v = Return records" and ok: "vault_ok v"
    and reps: "replacements lib settings roots key_map legacy = Return reps" and sub: "set legacy \<subseteq> set records"
    and r: "r \<in> set legacy"
  obtains c where "map_of (rev reps) (row_identifier r) = Some c" "replacement_for lib settings roots key_map r = Return c"
proof -
  from replacement_lookup [OF reps r] obtain c r' where c: "map_of (rev reps) (row_identifier r) = Some c"
    "r' \<in> set legacy" "row_identifier r' = row_identifier r" "replacement_for lib settings roots key_map r' = Return c" .
  have "slot r' = slot r"
    using row_identifier_slot [OF collected_kinds [OF records] collected_kinds [OF records]] c(2,3) sub r by blast
  then have "r' = r" using collected_unique [OF records ok] c(2) sub r by blast
  with c show thesis by (intro that) simp_all
qed

lemma applied_records:
  assumes transaction: "reencrypt_transaction lib mg settings roots key_map True v = Return (report, v')" and ok: "vault_ok v"
  obtains records f where "collect_records mg v = Return records" "vault_ok v'" "collect_records mg v' = Return (map f records)"
    "\<And>r. row_identifier (f r) = row_identifier r \<and> cx_purpose (f r) = cx_purpose r"
    "\<And>r. r \<in> set records \<Longrightarrow> runtime_data_envelope_key_id (Some (cx_ciphertext (f r))) = Some (active_key_id settings)"
    "\<And>r. r \<in> set records \<Longrightarrow>
       \<exists>p. plaintext_of lib settings roots key_map r = Return p \<and> open_with lib settings (f r) = Return p"
    "active_key_id settings \<noteq> []" "rr_total report = length records"
proof -
  obtain records legacy current reps where parts:
    "collect_records mg v = Return records"
    "classify_records settings (map fst key_map) records = Return (legacy, current)"
    "\<forall>r\<in>set current. \<exists>p. open_with lib settings r = Return p"
    "replacements lib settings roots key_map legacy = Return reps"
    "write_replacements reps legacy v = Return v'"
    "report = build_report ''apply'' records legacy current (length legacy)"
    by (rule transaction_parts [OF transaction, unfolded if_True])
  note split = classified [OF parts(2)]
  have sub: "set legacy \<subseteq> set records" by (auto simp: split(2))
  note own = own_replacement [OF parts(1) ok parts(4) sub]
  have opens: "\<exists>c p. map_of (rev reps) (row_identifier r) = Some c \<and> decrypt_legacy lib settings roots key_map r = Return p
      \<and> open_with lib settings (r\<lparr>cx_ciphertext := c\<rparr>) = Return p
      \<and> runtime_data_envelope_key_id (Some c) = Some (active_key_id settings) \<and> good_ciphertext c"
    if r: "r \<in> set legacy" for r
  proof -
    from own [OF r] obtain c where c: "map_of (rev reps) (row_identifier r) = Some c"
      "replacement_for lib settings roots key_map r = Return c" .
    have seed: "starts_with ''rde.'' (cx_ciphertext r)" if "cx_purpose r = PORTAL_TOTP_SEED_PURPOSE"
      using collected_seed_envelope [OF parts(1) _ that] sub r by blast
    obtain p where "decrypt_legacy lib settings roots key_map r = Return p"
      "open_with lib settings (r\<lparr>cx_ciphertext := c\<rparr>) = Return p"
      "runtime_data_envelope_key_id (Some c) = Some (active_key_id settings)" "good_ciphertext c"
      by (rule replacement_opens [OF c(2) seed])
    with c(1) show ?thesis by (intro exI [of _ c] exI [of _ p]) simp
  qed
  have "vault_ok v' \<and> collect_records mg v' = Return (map (replaced reps legacy) records)"
    using write_replacements_collected [OF parts(5,1) ok] opens sub by (metis image_mono option.inject)
  moreover have "row_identifier (replaced reps legacy r) = row_identifier r \<and> cx_purpose (replaced reps legacy r) = cx_purpose r" for r
    by (simp add: replaced_def)
  moreover have "runtime_data_envelope_key_id (Some (cx_ciphertext (replaced reps legacy r))) = Some (active_key_id settings)
      \<and> (\<exists>p. plaintext_of lib settings roots key_map r = Return p \<and> open_with lib settings (replaced reps legacy r) = Return p)"
    if r: "r \<in> set records" for r
  proof (cases "r \<in> set legacy")
    case True
    then have "replaced reps legacy r = r\<lparr>cx_ciphertext := the (map_of (rev reps) (row_identifier r))\<rparr>"
      by (simp add: replaced_def)
    with opens [OF True] show ?thesis using True by (auto simp: plaintext_of_def split(2))
  next
    case False
    then have "slot r \<notin> slot ` set legacy" using collected_unique [OF parts(1) ok r] sub by auto
    then have "replaced reps legacy r = r" by (simp add: replaced_def)
    moreover have "r \<in> set current" using False r by (simp add: split(2,3))
    ultimately show ?thesis using parts(3) by (auto simp: plaintext_of_def split(3) decrypt_current_def)
  qed
  ultimately show thesis using parts(1,6) split(1) by (intro that [of records "replaced reps legacy"]) (auto simp: build_report_def)
qed

text \<open>A successful command: its normalised arguments and its transaction.\<close>

lemma apply_parts:
  assumes "apply_runtime_data_reencryption lib mg settings secrets confirmed keys v = (Return report, v')"
  obtains key_map where "normalize_legacy_envelope_keys (active_key_id settings) [] keys = Return key_map"
    "reencrypt_transaction lib mg settings (filter (\<lambda>s. s \<noteq> []) (map py_strip secrets)) key_map True v = Return (report, v')"
  using assms by (auto simp: apply_runtime_data_reencryption_def reencrypt_runtime_data_def and_then_Return Let_def
      split: if_splits sum.splits)

subsection \<open>An example\<close>

text \<open>A site key still encrypted with the scheme before HKDF, in a database that is not yet versioned for
  one-time passwords.\<close>

definition demo_graph :: migration_graph where
  "demo_graph = \<lparr>mg_known = [''20260717_0068''], mg_ancestors = (\<lambda>r. [''20260717_0068''])\<rparr>"

definition demo_key :: "string \<Rightarrow> site_api_key" where
  "demo_key ciphertext = \<lparr>ak_key_id = ''key1'', ak_site_id = ''s1'', ak_signing_secret_ciphertext = Some ciphertext,
     ak_scopes_json = None, ak_status = ''active'', ak_expires_at = None, ak_revoked_at = None, ak_last_used_at = None\<rparr>"

definition demo_vault :: "string \<Rightarrow> vault" where
  "demo_vault ciphertext = \<lparr>vl_site_api_keys = [demo_key ciphertext], vl_sites = [], vl_oauth_states = [],
     vl_receipts = [], vl_runs = [], vl_totp_factors = [],
     vl_schema = \<lparr>sv_tables = [''alembic_version''], sv_columns = (\<lambda>t. []), sv_versions = [''20260717_0068'']\<rparr>\<rparr>"

definition demo_old_root :: string where
  "demo_old_root = ''old root''"

definition demo_old_ciphertext :: string where
  "demo_old_ciphertext = fernet_encrypt demo_crypto (build_legacy_fernet demo_old_root SITE_API_KEY_PURPOSE) [1, 2, 3]"

lemma demo_schema: "totp_schema_available demo_graph (vl_schema (demo_vault c)) = Return False"
  by (simp add: totp_schema_available_def demo_graph_def demo_vault_def totp_models_def evidence_columns_def
      TOTP_STORAGE_REVISION_def Let_def)

lemma demo_collected:
  assumes "c \<noteq> []" and "py_strip c = c"
  shows "collect_records demo_graph (demo_vault c) =
    Return [\<lparr>cx_kind = ''site_api_key'', cx_identifier = ''key1'', cx_purpose = SITE_API_KEY_PURPOSE, cx_ciphertext = c\<rparr>]"
  using assms unfolding collect_records_def demo_schema
  by (simp add: demo_vault_def table_records_def site_api_key_record_def demo_key_def ciphertext_row_def)

lemma demo_vault_ok: "vault_ok (demo_vault c)"
  by (simp add: vault_ok_def demo_vault_def keys_distinct_def)

lemma demo_old_chars: "x \<in> set demo_old_ciphertext \<Longrightarrow> \<not> py_space x \<and> x \<noteq> CHR ''.''"
proof -
  have "\<not> py_space CHR '':''" "\<not> py_space CHR ''=''" by (simp_all add: py_space_def)
  then show "x \<in> set demo_old_ciphertext \<Longrightarrow> \<not> py_space x \<and> x \<noteq> CHR ''.''"
    using b64_encode_chars [of x "sha256 (utf8_encode (SITE_API_KEY_PURPOSE @ '':'' @ demo_old_root))"]
      b64_encode_chars [of x "[1, 2, 3]"] token_char_facts [of x]
    by (auto simp: demo_old_ciphertext_def demo_crypto_def build_legacy_fernet_def)
qed

lemma py_split_max_none: "sep \<notin> set s \<Longrightarrow> py_split_max sep n s = [s]"
  by (cases n) simp_all

lemma demo_old_raw:
  "demo_old_ciphertext \<noteq> []" "py_strip demo_old_ciphertext = demo_old_ciphertext"
  "\<not> starts_with ''rde.'' demo_old_ciphertext" "runtime_data_envelope_key_id (Some demo_old_ciphertext) = None"
proof -
  show "demo_old_ciphertext \<noteq> []" by (simp add: demo_old_ciphertext_def demo_crypto_def)
  show "py_strip demo_old_ciphertext = demo_old_ciphertext" using demo_old_chars by (intro py_strip_no_space) blast
  show "\<not> starts_with ''rde.'' demo_old_ciphertext"
  proof
    assume "starts_with ''rde.'' demo_old_ciphertext"
    then have "take (length ''rde.'') demo_old_ciphertext = ''rde.''" by (simp only: starts_with_def)
    then have "CHR ''.'' \<in> set (take (length ''rde.'') demo_old_ciphertext)" by simp
    then have "CHR ''.'' \<in> set demo_old_ciphertext" by (rule in_set_takeD)
    then show False using demo_old_chars by blast
  qed
  have "py_split_max CHR ''.'' 3 demo_old_ciphertext = [demo_old_ciphertext]"
    using demo_old_chars by (intro py_split_max_none) blast
  then show "runtime_data_envelope_key_id (Some demo_old_ciphertext) = None"
    by (simp add: runtime_data_envelope_key_id_def parse_envelope_def or_empty_def)
qed

lemma demo_active_key: "active_key_id demo_settings = ''k1''"
proof -
  have "ENVELOPE_KEY_ID_PATTERN ''k1''"
    by (simp add: ENVELOPE_KEY_ID_PATTERN_def is_token_char_def is_alnum_def is_lower_def is_digit_def)
  then show ?thesis using pattern_strip by (simp add: active_key_id_def demo_settings_def or_empty_def)
qed

lemma site_purpose: "ENCRYPTION_PURPOSE_PATTERN SITE_API_KEY_PURPOSE" "SITE_API_KEY_PURPOSE \<noteq> PORTAL_TOTP_SEED_PURPOSE"
  by (simp_all add: ENCRYPTION_PURPOSE_PATTERN_def SITE_API_KEY_PURPOSE_def PORTAL_TOTP_SEED_PURPOSE_def
      is_token_char_def is_alnum_def is_lower_def is_digit_def)

text \<open>The command, with the old root named, succeeds on the example.\<close>

lemma demo_applies:
  obtains report v' where "apply_runtime_data_reencryption demo_crypto demo_graph demo_settings [demo_old_root] True []
     (demo_vault demo_old_ciphertext) = (Return report, v')"
proof -
  let ?r = "\<lparr>cx_kind = ''site_api_key'', cx_identifier = ''key1'', cx_purpose = SITE_API_KEY_PURPOSE,
    cx_ciphertext = demo_old_ciphertext\<rparr>"
  obtain token where token: "encrypt_runtime_data_plaintext demo_crypto [1, 2, 3] SITE_API_KEY_PURPOSE demo_settings = Return token"
    using demo_encrypts(1) [OF site_purpose(1)] by blast
  have root: "py_strip demo_old_root = demo_old_root" "demo_old_root \<noteq> []"
    by (simp_all add: demo_old_root_def py_strip_def py_space_def)
  have "decrypt_legacy demo_crypto demo_settings [demo_old_root] [] ?r = Return [1, 2, 3]"
    using demo_old_raw(3) demo_decrypt
    by (simp add: decrypt_legacy_def build_legacy_fernet_def demo_old_ciphertext_def)
  then have "replacement_for demo_crypto demo_settings [demo_old_root] [] ?r = Return token"
    using token runtime_data_roundtrip [OF demo_documented token] by (simp add: replacement_for_def)
  moreover have "collect_records demo_graph (demo_vault demo_old_ciphertext) = Return [?r]"
    by (rule demo_collected [OF demo_old_raw(1,2)])
  moreover have "classify_records demo_settings [] [?r] = Return ([?r], [])"
    using demo_old_raw by (simp add: classify_records_def demo_active_key Let_def)
  ultimately show thesis
    using that root
    by (simp add: apply_runtime_data_reencryption_def reencrypt_runtime_data_def reencrypt_transaction_def set_ciphertext_def)
qed

subsection \<open>The promises\<close>

text \<open>C18: Re-encryption loses no secret.  After a successful apply the command finds the same records, in the same
  order and for the same purposes; each of them opens under the active key alone, and to the plaintext that the
  keys given to the command opened it to before.  This holds for any HKDF and Fernet: the command checks every
  round trip itself.\<close>

theorem reencryption_keeps_plaintexts:
  assumes "vault_ok v"
    and "apply_runtime_data_reencryption lib mg settings secrets confirmed keys v = (Return report, v')"
  shows "\<exists>key_map records records'.
     normalize_legacy_envelope_keys (active_key_id settings) [] keys = Return key_map
     \<and> collect_records mg v = Return records \<and> collect_records mg v' = Return records'
     \<and> list_all2 (\<lambda>r r'. row_identifier r' = row_identifier r \<and> cx_purpose r' = cx_purpose r
          \<and> (\<exists>plaintext. plaintext_of lib settings (filter (\<lambda>s. s \<noteq> []) (map py_strip secrets)) key_map r = Return plaintext
               \<and> open_with lib settings r' = Return plaintext)) records records'"
proof -
  obtain key_map where key_map: "normalize_legacy_envelope_keys (active_key_id settings) [] keys = Return key_map"
    "reencrypt_transaction lib mg settings (filter (\<lambda>s. s \<noteq> []) (map py_strip secrets)) key_map True v = Return (report, v')"
    by (rule apply_parts [OF assms(2)])
  show ?thesis
  proof (rule applied_records [OF key_map(2) assms(1)])
    fix records f
    assume f: "collect_records mg v = Return records" "collect_records mg v' = Return (map f records)"
      "\<And>r. row_identifier (f r) = row_identifier r \<and> cx_purpose (f r) = cx_purpose r"
      "\<And>r. r \<in> set records \<Longrightarrow> \<exists>p. plaintext_of lib settings (filter (\<lambda>s. s \<noteq> []) (map py_strip secrets)) key_map r = Return p
         \<and> open_with lib settings (f r) = Return p"
    then have "list_all2 (\<lambda>r r'. row_identifier r' = row_identifier r \<and> cx_purpose r' = cx_purpose r
          \<and> (\<exists>plaintext. plaintext_of lib settings (filter (\<lambda>s. s \<noteq> []) (map py_strip secrets)) key_map r = Return plaintext
               \<and> open_with lib settings r' = Return plaintext)) records (map f records)"
      by (simp add: list_all2_conv_all_nth)
    with f key_map(1) show ?thesis by blast
  qed
qed

theorem reencryption_keeps_plaintexts_witness:
  "\<exists>report v' r' plaintext. apply_runtime_data_reencryption demo_crypto demo_graph demo_settings [demo_old_root] True []
       (demo_vault demo_old_ciphertext) = (Return report, v')
     \<and> collect_records demo_graph v' = Return [r'] \<and> row_identifier r' = ''site_api_key:key1''
     \<and> open_with demo_crypto demo_settings r' = Return plaintext"
proof -
  obtain report v' where run: "apply_runtime_data_reencryption demo_crypto demo_graph demo_settings [demo_old_root] True []
     (demo_vault demo_old_ciphertext) = (Return report, v')" by (rule demo_applies)
  from reencryption_keeps_plaintexts [OF demo_vault_ok run] demo_collected [OF demo_old_raw(1,2)] run
  show ?thesis by (auto simp: list_all2_Cons1 row_identifier_def)
qed

text \<open>C19: Apply reaches a fixed point.  After a successful apply the separate verification accepts the vault and counts
  the same number of records, and every further apply, with whatever old keys it accepts, succeeds, migrates
  nothing and changes nothing.\<close>

theorem applied_vault_is_settled:
  assumes "vault_ok v"
    and "apply_runtime_data_reencryption lib mg settings secrets confirmed keys v = (Return report, v')"
    and "normalize_legacy_envelope_keys (active_key_id settings) [] keys' = Return key_map'"
  shows "(\<exists>verified. verify_runtime_data_ciphertexts lib mg settings v' = Return verified
           \<and> rr_total verified = rr_total report)
     \<and> (\<exists>again. apply_runtime_data_reencryption lib mg settings secrets' True keys' v' = (Return again, v')
           \<and> rr_migrated again = 0)"
proof -
  obtain key_map where key_map: "reencrypt_transaction lib mg settings (filter (\<lambda>s. s \<noteq> []) (map py_strip secrets)) key_map True v
      = Return (report, v')"
    by (rule apply_parts [OF assms(2)])
  show ?thesis
  proof (rule applied_records [OF key_map assms(1)])
    fix records f
    assume f: "collect_records mg v' = Return (map f records)" "active_key_id settings \<noteq> []" "rr_total report = length records"
      "\<And>r. r \<in> set records \<Longrightarrow> runtime_data_envelope_key_id (Some (cx_ciphertext (f r))) = Some (active_key_id settings)"
      "\<And>r. r \<in> set records \<Longrightarrow> \<exists>p. plaintext_of lib settings (filter (\<lambda>s. s \<noteq> []) (map py_strip secrets)) key_map r = Return p
         \<and> open_with lib settings (f r) = Return p"
    have classes: "classify_records settings allowed (map f records) = Return ([], map f records)" for allowed
      using f(2,4) by (simp add: classify_records_def classify_current)
    have opens: "decrypt_all_current lib settings (map f records) = Return ()"
      using f(5) by (fastforce simp: decrypt_all_current_Return)
    have "verify_runtime_data_ciphertexts lib mg settings v' = Return (build_report ''verify'' (map f records) [] (map f records) 0)"
      by (simp add: verify_runtime_data_ciphertexts_def f(1) classes opens)
    moreover have "apply_runtime_data_reencryption lib mg settings secrets' True keys' v' =
        (Return (build_report ''apply'' (map f records) [] (map f records) 0), v')"
      by (simp add: apply_runtime_data_reencryption_def reencrypt_runtime_data_def reencrypt_transaction_def assms(3)
          f(1) classes opens)
    ultimately show ?thesis using f(3) by (simp add: build_report_def)
  qed
qed

theorem applied_vault_is_settled_witness:
  "\<exists>report v' verified. apply_runtime_data_reencryption demo_crypto demo_graph demo_settings [demo_old_root] True []
       (demo_vault demo_old_ciphertext) = (Return report, v')
     \<and> verify_runtime_data_ciphertexts demo_crypto demo_graph demo_settings v' = Return verified"
proof -
  obtain report v' where run: "apply_runtime_data_reencryption demo_crypto demo_graph demo_settings [demo_old_root] True []
     (demo_vault demo_old_ciphertext) = (Return report, v')" by (rule demo_applies)
  have "normalize_legacy_envelope_keys (active_key_id demo_settings) [] [] = Return []" by simp
  from applied_vault_is_settled [OF demo_vault_ok run this] run show ?thesis by blast
qed

lemma write_replacements_total:
  assumes "collect_records mg v = Return records" and "vault_ok v" and "slot ` set rs \<subseteq> slot ` set records"
    and "\<And>r. r \<in> set rs \<Longrightarrow> \<exists>c. map_of (rev reps) (row_identifier r) = Some c \<and> good_ciphertext c"
  shows "\<exists>v'. write_replacements reps rs v = Return v'"
  using assms
proof (induction rs arbitrary: v records)
  case (Cons r rs)
  obtain c where c: "map_of (rev reps) (row_identifier r) = Some c" "good_ciphertext c"
    using Cons.prems(4) [of r] by auto
  have "slot r \<in> slot ` set records" using Cons.prems(3) by simp
  from set_ciphertext_collected [OF Cons.prems(1,2) this c(2)]
  obtain v1 where v1: "set_ciphertext r c v = Return v1" "vault_ok v1"
    "collect_records mg v1 = Return (map (rewritten (cx_kind r) (cx_identifier r) c) records)" by auto
  have "slot ` set rs \<subseteq> slot ` set (map (rewritten (cx_kind r) (cx_identifier r) c) records)"
    using Cons.prems(3) by (simp add: image_image)
  from Cons.IH [OF v1(3,2) this] Cons.prems(4) show ?case using c(1) v1(1) by simp
qed simp

lemma transaction_same_error:
  assumes "reencrypt_transaction lib mg settings roots key_map False v = Raise e"
  shows "reencrypt_transaction lib mg settings roots key_map True v = Raise e"
proof (cases "collect_records mg v")
  case collected: (Inr records)
  show ?thesis
  proof (cases "classify_records settings (map fst key_map) records")
    case classes: (Inr lc)
    obtain legacy current where lc: "lc = (legacy, current)" by fastforce
    show ?thesis
      using assms collected classes lc
      by (cases "decrypt_all_current lib settings current"; cases "replacements lib settings roots key_map legacy")
         (simp_all add: reencrypt_transaction_def)
  qed (use assms collected in \<open>simp add: reencrypt_transaction_def\<close>)
qed (use assms in \<open>simp add: reencrypt_transaction_def\<close>)

lemma dry_run_transaction:
  assumes dry: "reencrypt_transaction lib mg settings roots key_map False v = Return (dry, w)" and ok: "vault_ok v"
  obtains report v' where "w = v" "reencrypt_transaction lib mg settings roots key_map True v = Return (report, v')"
    "rr_migrated report = rr_would_migrate dry" "rr_row_identifiers report = rr_row_identifiers dry"
proof -
  obtain records legacy current reps where parts: "collect_records mg v = Return records"
    "classify_records settings (map fst key_map) records = Return (legacy, current)"
    "\<forall>r\<in>set current. \<exists>p. open_with lib settings r = Return p"
    "replacements lib settings roots key_map legacy = Return reps" "v = w"
    "dry = build_report ''dry-run'' records legacy current 0"
    by (rule transaction_parts [OF dry, unfolded if_False sum.inject])
  have sub: "set legacy \<subseteq> set records" by (auto simp: classified(2) [OF parts(2)])
  have "\<exists>c. map_of (rev reps) (row_identifier r) = Some c \<and> good_ciphertext c" if r: "r \<in> set legacy" for r
  proof -
    obtain c where c: "map_of (rev reps) (row_identifier r) = Some c" "replacement_for lib settings roots key_map r = Return c"
      by (rule own_replacement [OF parts(1) ok parts(4) sub r])
    have "good_ciphertext c" by (rule replacement_facts [OF c(2)])
    with c(1) show ?thesis by blast
  qed
  then obtain v' where v': "write_replacements reps legacy v = Return v'"
    using write_replacements_total [OF parts(1) ok] sub by (metis image_mono)
  have opens: "decrypt_all_current lib settings current = Return ()" using parts(3) by (simp add: decrypt_all_current_Return)
  have "reencrypt_transaction lib mg settings roots key_map True v =
      Return (build_report ''apply'' records legacy current (length legacy), v')"
    by (simp add: reencrypt_transaction_def parts(1,2,4) opens v')
  then show thesis by (rule that [rotated]) (use parts(5,6) in \<open>simp_all add: build_report_def\<close>)
qed

text \<open>C20: The dry run tells exactly what apply will do.  It never changes the vault; where it fails, apply fails with the
  same error and changes nothing; where it succeeds, apply succeeds on the same records and migrates as many as
  the dry run announced.\<close>

theorem dry_run_predicts_apply:
  assumes "vault_ok v"
  shows "snd (dry_run_runtime_data_reencryption lib mg settings secrets keys v) = v
     \<and> (case fst (dry_run_runtime_data_reencryption lib mg settings secrets keys v) of
          Inl e \<Rightarrow> apply_runtime_data_reencryption lib mg settings secrets True keys v = (Raise e, v)
        | Inr dry \<Rightarrow> (\<exists>report v'. apply_runtime_data_reencryption lib mg settings secrets True keys v = (Return report, v')
             \<and> rr_migrated report = rr_would_migrate dry \<and> rr_row_identifiers report = rr_row_identifiers dry))"
proof (cases "normalize_legacy_envelope_keys (active_key_id settings) [] keys")
  case (Inl e)
  then show ?thesis
    by (simp add: dry_run_runtime_data_reencryption_def apply_runtime_data_reencryption_def reencrypt_runtime_data_def)
next
  case keys: (Inr key_map)
  let ?roots = "filter (\<lambda>s. s \<noteq> []) (map py_strip secrets)"
  show ?thesis
  proof (cases "reencrypt_transaction lib mg settings ?roots key_map False v")
    case (Inl e)
    with transaction_same_error [OF Inl] keys show ?thesis
      by (simp add: dry_run_runtime_data_reencryption_def apply_runtime_data_reencryption_def reencrypt_runtime_data_def)
  next
    case (Inr result)
    obtain dry w where dry: "reencrypt_transaction lib mg settings ?roots key_map False v = Return (dry, w)"
      using Inr by (cases result) simp
    obtain report v' where "w = v" "reencrypt_transaction lib mg settings ?roots key_map True v = Return (report, v')"
      "rr_migrated report = rr_would_migrate dry" "rr_row_identifiers report = rr_row_identifiers dry"
      by (rule dry_run_transaction [OF dry assms])
    with keys dry show ?thesis
      by (simp add: dry_run_runtime_data_reencryption_def apply_runtime_data_reencryption_def reencrypt_runtime_data_def)
  qed
qed

theorem dry_run_predicts_apply_witness:
  "\<exists>dry report v'. dry_run_runtime_data_reencryption demo_crypto demo_graph demo_settings [demo_old_root] []
       (demo_vault demo_old_ciphertext) = (Return dry, demo_vault demo_old_ciphertext)
     \<and> apply_runtime_data_reencryption demo_crypto demo_graph demo_settings [demo_old_root] True []
         (demo_vault demo_old_ciphertext) = (Return report, v')
     \<and> rr_migrated report = rr_would_migrate dry"
proof -
  obtain report v' where run: "apply_runtime_data_reencryption demo_crypto demo_graph demo_settings [demo_old_root] True []
     (demo_vault demo_old_ciphertext) = (Return report, v')" by (rule demo_applies)
  obtain reply w where dry: "dry_run_runtime_data_reencryption demo_crypto demo_graph demo_settings [demo_old_root] []
       (demo_vault demo_old_ciphertext) = (reply, w)" by fastforce
  from dry_run_predicts_apply [OF demo_vault_ok [of demo_old_ciphertext], of demo_crypto demo_graph demo_settings "[demo_old_root]" "[]"]
  show ?thesis using run dry by (cases reply) auto
qed

subsection \<open>Rotating from one HKDF key to the next\<close>

text \<open>Fernet tokens are authenticated: another key refuses them.\<close>

definition fernet_authentic :: "crypto \<Rightarrow> bool" where
  "fernet_authentic lib =
     (\<forall>key key' plaintext. length key = 32 \<longrightarrow> length key' = 32 \<longrightarrow> key \<noteq> key' \<longrightarrow>
        fernet_decrypt lib (b64_encode key') (utf8_encode (fernet_encrypt lib (b64_encode key) plaintext)) = None)"

lemma parse_envelope_last: "parse_envelope c family version = Some (key_id, token) \<Longrightarrow> fernet_token_of c = token"
  by (auto simp: parse_envelope_def fernet_token_of_def split: if_splits list.splits)

lemma replacements_all:
  "replacements lib settings roots key_map rs = Return reps \<Longrightarrow> r \<in> set rs
     \<Longrightarrow> \<exists>c. replacement_for lib settings roots key_map r = Return c"
  by (induction rs arbitrary: reps) (auto simp: and_then_Return)

lemma apply_keeps_on_error:
  "apply_runtime_data_reencryption lib mg settings secrets confirmed keys v = (Raise e, v') \<Longrightarrow> v' = v"
  by (auto simp: apply_runtime_data_reencryption_def reencrypt_runtime_data_def Let_def split: if_splits sum.splits)

lemma root_text: "decode_encryption_root secret name = Return bs \<Longrightarrow> py_strip secret = secret \<and> secret \<noteq> []"
  by (auto simp: decode_encryption_root_def CANONICAL_32_BYTE_ROOT_PATTERN_def Let_def split: if_splits option.splits)

text \<open>What an envelope of the current scheme is made of.\<close>

lemma envelope_parts:
  assumes lib: "fernet_documented lib"
    and enc: "encrypt_runtime_data_plaintext lib plaintext purpose
      (settings\<lparr>es_runtime_data_encryption_key_id := Some old_id, es_runtime_data_encryption_secret := Some old_root\<rparr>) = Return c"
  obtains key where "derive_fernet_key lib old_root RUNTIME_DATA_ENVELOPE_FAMILY RUNTIME_DATA_ENVELOPE_VERSION purpose old_id
      ''runtime data encryption secret'' = Return key"
    "parse_envelope c RUNTIME_DATA_ENVELOPE_FAMILY RUNTIME_DATA_ENVELOPE_VERSION =
       Some (old_id, fernet_encrypt lib (b64_encode key) plaintext)"
    "ENVELOPE_KEY_ID_PATTERN old_id" "py_strip old_root = old_root" "old_root \<noteq> []"
proof -
  let ?old = "settings\<lparr>es_runtime_data_encryption_key_id := Some old_id, es_runtime_data_encryption_secret := Some old_root\<rparr>"
  from enc obtain secret key_id k where parts:
      "resolve_runtime_data_encryption_secret ?old = Return secret"
      "resolve_runtime_data_encryption_key_id ?old = Return key_id"
      "build_fernet lib secret RUNTIME_DATA_ENVELOPE_FAMILY RUNTIME_DATA_ENVELOPE_VERSION purpose key_id
         ''runtime data encryption secret'' = Return k"
      "c = envelope RUNTIME_DATA_ENVELOPE_FAMILY RUNTIME_DATA_ENVELOPE_VERSION key_id (fernet_encrypt lib k plaintext)"
    unfolding encrypt_runtime_data_plaintext_def by (auto simp: and_then_Return)
  have secret: "secret = old_root" using parts(1)
    by (auto simp: resolve_runtime_data_encryption_secret_def resolve_encryption_root_def and_then_Return or_empty_def split: if_splits)
  have key_id: "key_id = old_id" using parts(2)
    by (auto simp: resolve_runtime_data_encryption_key_id_def resolve_encryption_key_id_def or_empty_def Let_def split: if_splits)
  from build_fernet_b64 [OF parts(3)] obtain key where key: "k = b64_encode key"
    "derive_fernet_key lib secret RUNTIME_DATA_ENVELOPE_FAMILY RUNTIME_DATA_ENVELOPE_VERSION purpose key_id
      ''runtime data encryption secret'' = Return key" by blast
  have id: "ENVELOPE_KEY_ID_PATTERN key_id"
    using parts(2) unfolding resolve_runtime_data_encryption_key_id_def by (rule resolve_key_id_pattern)
  obtain bs where "decode_encryption_root secret ''runtime data encryption secret'' = Return bs"
    using key(2) by (auto simp: derive_fernet_key_def and_then_Return)
  note root = root_text [OF this] and doc = built_fernet_documented [OF lib parts(3), of plaintext]
  note parse = parse_envelope_envelope [OF rde_chars id doc(1,2)]
  show thesis
    using that [of key] key parse id root unfolding secret key_id parts(4) by simp
qed

lemma hkdf_envelope_refused:
  assumes lib: "fernet_documented lib" "fernet_authentic lib"
    and enc: "encrypt_runtime_data_plaintext lib plaintext (cx_purpose r)
      (settings\<lparr>es_runtime_data_encryption_key_id := Some old_id, es_runtime_data_encryption_secret := Some old_root\<rparr>)
        = Return (cx_ciphertext r)"
    and hkdf: "\<And>key. derive_fernet_key lib old_root RUNTIME_DATA_ENVELOPE_FAMILY RUNTIME_DATA_ENVELOPE_VERSION (cx_purpose r)
        old_id ''runtime data encryption secret'' = Return key
        \<Longrightarrow> key \<noteq> sha256 (utf8_encode (cx_purpose r @ '':'' @ old_root))"
    and purpose: "cx_purpose r \<noteq> PORTAL_TOTP_SEED_PURPOSE"
  shows "decrypt_legacy lib settings roots [(old_id, old_root)] r = Raise (legacy_failure r)"
proof -
  obtain key where key: "derive_fernet_key lib old_root RUNTIME_DATA_ENVELOPE_FAMILY RUNTIME_DATA_ENVELOPE_VERSION
      (cx_purpose r) old_id ''runtime data encryption secret'' = Return key"
    "parse_envelope (cx_ciphertext r) RUNTIME_DATA_ENVELOPE_FAMILY RUNTIME_DATA_ENVELOPE_VERSION =
       Some (old_id, fernet_encrypt lib (b64_encode key) plaintext)" "old_root \<noteq> []"
    by (rule envelope_parts [OF lib(1) enc])
  have "fernet_decrypt lib (build_legacy_fernet old_root (cx_purpose r))
      (utf8_encode (fernet_token_of (cx_ciphertext r))) = None"
    using lib(2) hkdf [OF key(1)] derived_key_length [OF lib(1) key(1)] parse_envelope_last [OF key(2)]
    by (simp add: fernet_authentic_def build_legacy_fernet_def)
  moreover have "runtime_data_envelope_key_id (Some (cx_ciphertext r)) = Some old_id"
    using key(2) by (simp add: runtime_data_envelope_key_id_def or_empty_def)
  ultimately show ?thesis
    using encrypt_prefix [OF enc] key(3) purpose by (simp add: decrypt_legacy_def or_empty_def)
qed

text \<open>C21: The command cannot rotate from one key of the current scheme to the next.  A stored secret other than a
  one-time password seed that was encrypted by the service itself under an old key id and root does not open when
  exactly this id and root are given to the command: it derives the old key with the digest of the scheme before
  HKDF.  Every apply then fails and leaves the vault as it was.\<close>

theorem hkdf_rotation_is_refused:
  assumes lib: "fernet_documented lib" "fernet_authentic lib"
    and stored: "collect_records mg v = Return records" "r \<in> set records" "cx_purpose r \<noteq> PORTAL_TOTP_SEED_PURPOSE"
    and enc: "encrypt_runtime_data_plaintext lib plaintext (cx_purpose r)
      (settings\<lparr>es_runtime_data_encryption_key_id := Some old_id, es_runtime_data_encryption_secret := Some old_root\<rparr>)
        = Return (cx_ciphertext r)"
    and hkdf: "\<And>key. derive_fernet_key lib old_root RUNTIME_DATA_ENVELOPE_FAMILY RUNTIME_DATA_ENVELOPE_VERSION (cx_purpose r)
        old_id ''runtime data encryption secret'' = Return key
        \<Longrightarrow> key \<noteq> sha256 (utf8_encode (cx_purpose r @ '':'' @ old_root))"
  shows "\<exists>e. apply_runtime_data_reencryption lib mg settings secrets confirmed
      [\<lparr>lk_key_id = old_id, lk_root_secret = old_root\<rparr>] v = (Raise e, v)"
proof -
  let ?keys = "[\<lparr>lk_key_id = old_id, lk_root_secret = old_root\<rparr>]"
  obtain reply v' where run: "apply_runtime_data_reencryption lib mg settings secrets confirmed ?keys v = (reply, v')" by fastforce
  obtain key where key: "parse_envelope (cx_ciphertext r) RUNTIME_DATA_ENVELOPE_FAMILY RUNTIME_DATA_ENVELOPE_VERSION =
       Some (old_id, fernet_encrypt lib (b64_encode key) plaintext)" "ENVELOPE_KEY_ID_PATTERN old_id"
    "py_strip old_root = old_root" "old_root \<noteq> []" by (rule envelope_parts [OF lib(1) enc])
  have "reply \<noteq> Return report" for report
  proof
    assume reply: "reply = Return report"
    obtain key_map where key_map: "normalize_legacy_envelope_keys (active_key_id settings) [] ?keys = Return key_map"
      and transaction: "reencrypt_transaction lib mg settings (filter (\<lambda>s. s \<noteq> []) (map py_strip secrets)) key_map True v = Return (report, v')"
      by (rule apply_parts [OF run [unfolded reply]])
    have map: "key_map = [(old_id, old_root)]" and other: "old_id \<noteq> active_key_id settings"
      using key_map key(2-4) pattern_strip [of old_id] by (auto simp: Let_def split: if_splits)
    obtain records' legacy current reps where parts: "collect_records mg v = Return records'"
      "classify_records settings (map fst key_map) records' = Return (legacy, current)"
      "replacements lib settings (filter (\<lambda>s. s \<noteq> []) (map py_strip secrets)) key_map legacy = Return reps"
      by (rule transaction_parts [OF transaction])
    have "runtime_data_envelope_key_id (Some (cx_ciphertext r)) = Some old_id"
      using key(1) by (simp add: runtime_data_envelope_key_id_def or_empty_def)
    then have "r \<in> set legacy" using stored(1,2) parts(1) other by (simp add: classified(2) [OF parts(2)])
    from replacements_all [OF parts(3) this] obtain c where
      "replacement_for lib settings (filter (\<lambda>s. s \<noteq> []) (map py_strip secrets)) key_map r = Return c" by blast
    then show False
      using hkdf_envelope_refused [OF lib enc hkdf stored(3)] by (simp add: replacement_for_def map)
  qed
  then obtain e where "reply = Raise e" by (cases reply) auto
  with run apply_keeps_on_error show ?thesis by blast
qed

text \<open>A derivation for the example: it never gives the legacy digest of this purpose and root.\<close>

definition demo_hkdf :: "bytes \<Rightarrow> bytes \<Rightarrow> bytes \<Rightarrow> bytes" where
  "demo_hkdf salt info rt = map (\<lambda>b. b + 1) (sha256 (utf8_encode (SITE_API_KEY_PURPOSE @ '':'' @ b64_encode rt)))"

definition demo_hkdf_crypto :: crypto where
  "demo_hkdf_crypto = demo_crypto\<lparr>hkdf_sha256 := demo_hkdf\<rparr>"

lemma demo_hkdf_crypto_documented: "fernet_documented demo_hkdf_crypto"
  unfolding demo_hkdf_crypto_def by (rule demo_documented_with) (simp add: demo_hkdf_def)

lemma demo_hkdf_crypto_authentic: "fernet_authentic demo_hkdf_crypto"
  by (simp add: fernet_authentic_def demo_hkdf_crypto_def demo_decrypt)

lemma demo_hkdf_differs:
  "derive_fernet_key demo_hkdf_crypto (b64_encode rt) RUNTIME_DATA_ENVELOPE_FAMILY RUNTIME_DATA_ENVELOPE_VERSION purpose old_id name
     = Return key \<Longrightarrow> key \<noteq> sha256 (utf8_encode (SITE_API_KEY_PURPOSE @ '':'' @ b64_encode rt))"
proof
  assume derived: "derive_fernet_key demo_hkdf_crypto (b64_encode rt) RUNTIME_DATA_ENVELOPE_FAMILY
      RUNTIME_DATA_ENVELOPE_VERSION purpose old_id name = Return key"
    and same: "key = sha256 (utf8_encode (SITE_API_KEY_PURPOSE @ '':'' @ b64_encode rt))"
  obtain bs where "decode_encryption_root (b64_encode rt) name = Return bs" "key = demo_hkdf KDF_SALT
      (kdf_info RUNTIME_DATA_ENVELOPE_FAMILY RUNTIME_DATA_ENVELOPE_VERSION purpose old_id) bs"
    using derived by (auto simp: derive_fernet_key_Return demo_hkdf_crypto_def)
  then have "key = map (\<lambda>b. b + 1) key" by (simp add: decode_root_iff b64_encode_inject demo_hkdf_def same)
  moreover have "length key = 32" by (simp add: same)
  ultimately show False by (cases key) auto
qed

theorem hkdf_rotation_is_refused_witness:
  "\<exists>c e. encrypt_runtime_data_plaintext demo_hkdf_crypto [1, 2, 3] SITE_API_KEY_PURPOSE demo_settings = Return c
     \<and> apply_runtime_data_reencryption demo_hkdf_crypto demo_graph
          (demo_settings\<lparr>es_runtime_data_encryption_key_id := Some ''k3'',
             es_runtime_data_encryption_secret := Some (b64_encode (replicate 32 8))\<rparr>) [] True
          [\<lparr>lk_key_id = ''k1'', lk_root_secret = b64_encode (replicate 32 7)\<rparr>] (demo_vault c) = (Raise e, demo_vault c)"
proof -
  let ?new = "demo_settings\<lparr>es_runtime_data_encryption_key_id := Some ''k3'',
             es_runtime_data_encryption_secret := Some (b64_encode (replicate 32 8))\<rparr>"
  obtain c where c: "encrypt_runtime_data_plaintext demo_hkdf_crypto [1, 2, 3] SITE_API_KEY_PURPOSE demo_settings = Return c"
    using demo_encrypts(1) [OF site_purpose(1)] by blast
  let ?r = "\<lparr>cx_kind = ''site_api_key'', cx_identifier = ''key1'', cx_purpose = SITE_API_KEY_PURPOSE, cx_ciphertext = c\<rparr>"
  have old: "?new\<lparr>es_runtime_data_encryption_key_id := Some ''k1'',
      es_runtime_data_encryption_secret := Some (b64_encode (replicate 32 7))\<rparr> = demo_settings"
    by (simp add: demo_settings_def)
  have collected: "collect_records demo_graph (demo_vault c) = Return [?r]"
    using encrypt_prefix [OF c] runtime_token_strip [OF demo_hkdf_crypto_documented c] by (intro demo_collected) simp_all
  have "\<exists>e. apply_runtime_data_reencryption demo_hkdf_crypto demo_graph ?new [] True
      [\<lparr>lk_key_id = ''k1'', lk_root_secret = b64_encode (replicate 32 7)\<rparr>] (demo_vault c) = (Raise e, demo_vault c)"
    by (rule hkdf_rotation_is_refused [OF demo_hkdf_crypto_documented demo_hkdf_crypto_authentic collected, where r = ?r])
       (use c old site_purpose(2) in \<open>auto dest: demo_hkdf_differs\<close>)
  with c show ?thesis by blast
qed

end
