(* ===== verification/ProviderUsage.thy ===== *)
theory ProviderUsage
  imports JsonText Hashes AnalysisResult
begin

section \<open>Provider usage, cost and context estimates (app/adapters/providers/compatibility.py)\<close>

text \<open>
  What the runtime reads off a provider's usage report, what a call costs, how many tokens a request
  needs, and which upstream failures mean that a request was too long.  Money is a rational number;
  \<open>round(x, 6)\<close> rounds half to even.  Payloads are JSON values, so the estimates for raw bytes and
  for values that cannot be serialised have no counterpart here.
\<close>

subsection \<open>Numbers\<close>

text \<open>\<open>round(x)\<close> and \<open>round(x, 6)\<close>: ties go to the even neighbour.\<close>

definition round_half_even :: "rat \<Rightarrow> int" where
  "round_half_even r =
     (let f = \<lfloor>r\<rfloor>; d = r - of_int f in
      if d < 1 / 2 then f else if 1 / 2 < d then f + 1 else if even f then f else f + 1)"

definition round6 :: "rat \<Rightarrow> rat" where
  "round6 r = of_int (round_half_even (r * 1000000)) / 1000000"

definition nonnegative_int :: "json \<Rightarrow> int" where
  "nonnegative_int value =
     (case value of
        JInt i \<Rightarrow> max 0 i
      | JFloat r _ \<Rightarrow> max 0 (rat_trunc r)
      | JStr s \<Rightarrow> (case int_of_text s of Some i \<Rightarrow> max 0 i | None \<Rightarrow> 0)
      | _ \<Rightarrow> 0)"

fun first_nonnegative_int :: "json list \<Rightarrow> int" where
  "first_nonnegative_int [] = 0"
| "first_nonnegative_int (value # values') =
     (let normalized = nonnegative_int value in
      if 0 < normalized then normalized else first_nonnegative_int values')"

fun nested_value :: "json \<Rightarrow> string list \<Rightarrow> json" where
  "nested_value current [] = current"
| "nested_value (JObj d) (key # path) = nested_value (py_get d key) path"
| "nested_value current (key # path) = JNull"

subsection \<open>Usage reports\<close>

record provider_usage =
  u_total_input_tokens :: int
  u_output_tokens :: int
  u_uncached_input_tokens :: int
  u_cache_read_tokens :: int
  u_cache_write_tokens :: int
  u_reasoning_tokens :: int

definition total_tokens :: "provider_usage \<Rightarrow> int" where
  "total_tokens usage = u_total_input_tokens usage + u_output_tokens usage"

text \<open>The input side of an OpenAI report: the reported total against the reported categories.\<close>

definition balance_input_tokens :: "int \<Rightarrow> int \<Rightarrow> int \<Rightarrow> int \<Rightarrow> int \<times> int" where
  "balance_input_tokens whole cache_read cache_write cache_miss =
     (let uncached = (if 0 < cache_miss then cache_miss else max 0 (whole - cache_read - cache_write));
          categorized = uncached + cache_read + cache_write
      in if whole \<le> 0 then (categorized, uncached)
         else if categorized < whole then (whole, uncached + (whole - categorized))
         else if whole < categorized then (categorized, uncached)
         else (whole, uncached))"

definition normalize_openai_usage :: "json option \<Rightarrow> string \<Rightarrow> string \<Rightarrow> provider_usage" where
  "normalize_openai_usage usage input_field output_field =
     (let payload = dict_or_empty usage;
          details_field = (if input_field = ''input_tokens'' then ''input_tokens_details''
                           else ''prompt_tokens_details'');
          details = dict_or_empty (Some (py_get payload details_field));
          cache_read = first_nonnegative_int
            [py_get details ''cached_tokens'', py_get payload ''prompt_cache_hit_tokens'',
             py_get payload ''cache_hit_tokens'', py_get payload ''input_cache_hit_tokens''];
          cache_write = first_nonnegative_int
            [py_get details ''cache_write_tokens'', py_get payload ''cache_write_tokens'',
             py_get payload ''cache_creation_input_tokens''];
          cache_miss = first_nonnegative_int
            [py_get payload ''prompt_cache_miss_tokens'', py_get payload ''cache_miss_tokens'',
             py_get payload ''input_cache_miss_tokens''];
          (whole, uncached) = balance_input_tokens (nonnegative_int (py_get payload input_field))
                                cache_read cache_write cache_miss;
          output_details =
            (case py_get payload ''output_tokens_details'' of
               JObj d \<Rightarrow> d
             | _ \<Rightarrow> dict_or_empty (Some (py_get payload ''completion_tokens_details'')))
      in \<lparr>u_total_input_tokens = whole,
          u_output_tokens = nonnegative_int (py_get payload output_field),
          u_uncached_input_tokens = uncached,
          u_cache_read_tokens = cache_read,
          u_cache_write_tokens = cache_write,
          u_reasoning_tokens = nonnegative_int (py_get output_details ''reasoning_tokens'')\<rparr>)"

definition normalize_anthropic_usage :: "json option \<Rightarrow> provider_usage" where
  "normalize_anthropic_usage usage =
     (let payload = dict_or_empty usage;
          uncached = nonnegative_int (py_get payload ''input_tokens'');
          cache_read = nonnegative_int (py_get payload ''cache_read_input_tokens'');
          cache_write = nonnegative_int (py_get payload ''cache_creation_input_tokens'')
      in \<lparr>u_total_input_tokens = uncached + cache_read + cache_write,
          u_output_tokens = nonnegative_int (py_get payload ''output_tokens''),
          u_uncached_input_tokens = uncached,
          u_cache_read_tokens = cache_read,
          u_cache_write_tokens = cache_write,
          u_reasoning_tokens =
            nonnegative_int (nested_value (JObj payload) [''output_tokens_details'', ''thinking_tokens''])\<rparr>)"

subsection \<open>Cost\<close>

text \<open>\<open>rate or 0.0\<close>\<close>

definition rate_or_zero :: "rat option \<Rightarrow> rat" where
  "rate_or_zero rate = (case rate of None \<Rightarrow> 0 | Some r \<Rightarrow> r)"

definition estimate_token_cost ::
    "provider_usage \<Rightarrow> rat option \<Rightarrow> rat option \<Rightarrow> rat option \<Rightarrow> rat option \<Rightarrow> rat \<times> string" where
  "estimate_token_cost usage price_input price_output price_cache_read price_cache_write =
     (if price_input = None \<and> price_output = None \<and> price_cache_read = None \<and> price_cache_write = None
      then (0, ''unpriced'')
      else
        (let cache_read_rate = (if price_cache_read \<noteq> None then price_cache_read else price_input);
             cache_write_rate = (if price_cache_write \<noteq> None then price_cache_write else price_input);
             missing_required_rate =
               (0 < u_uncached_input_tokens usage \<and> price_input = None
                \<or> 0 < u_output_tokens usage \<and> price_output = None
                \<or> 0 < u_cache_read_tokens usage \<and> cache_read_rate = None
                \<or> 0 < u_cache_write_tokens usage \<and> cache_write_rate = None);
             used_conservative_cache_rate =
               (0 < u_cache_read_tokens usage \<and> price_cache_read = None \<and> price_input \<noteq> None
                \<or> 0 < u_cache_write_tokens usage \<and> price_cache_write = None \<and> price_input \<noteq> None);
             total_cost =
               (rate_or_zero price_input * of_int (u_uncached_input_tokens usage)
                + rate_or_zero cache_read_rate * of_int (u_cache_read_tokens usage)
                + rate_or_zero cache_write_rate * of_int (u_cache_write_tokens usage)
                + rate_or_zero price_output * of_int (u_output_tokens usage)) / 1000000;
             mode = (if missing_required_rate then ''partial_rates''
                     else if used_conservative_cache_rate then ''conservative_input_rate''
                     else if 0 < u_cache_read_tokens usage \<or> 0 < u_cache_write_tokens usage
                     then ''cache_rates'' else ''standard_rates'')
         in (round6 total_cost, mode)))"

subsection \<open>Token estimates\<close>

definition ESTIMATED_IMAGE_TOKENS :: int where "ESTIMATED_IMAGE_TOKENS = 1200"
definition DEFAULT_OUTPUT_TOKEN_BUDGET :: int where "DEFAULT_OUTPUT_TOKEN_BUDGET = 1024"

text \<open>\<open>math.ceil(n / d)\<close> on non-negative integers below the precision of a float.\<close>

definition ceil_div :: "int \<Rightarrow> int \<Rightarrow> int" where
  "ceil_div n d = (n + d - 1) div d"

definition text_tokens :: "string \<Rightarrow> int" where
  "text_tokens s =
     (let ascii = int (length (filter (\<lambda>c. (of_char c :: nat) < 128) s)) in
      ceil_div ascii 4 + (int (length s) - ascii))"

definition estimate_text_tokens :: "json \<Rightarrow> int" where
  "estimate_text_tokens v = (case v of JStr s \<Rightarrow> text_tokens s | _ \<Rightarrow> 0)"

text \<open>\<open>json.dumps(value, ensure_ascii=False, separators=(",", ":"), sort_keys=True)\<close>\<close>

definition safe_json_dumps :: "json \<Rightarrow> string" where
  "safe_json_dumps = json_text json_quote_raw"

definition image_types :: "string list" where
  "image_types = [''image'', ''image_url'', ''input_image'', ''input_file'']"

definition image_keys :: "string list" where
  "image_keys = [''b64_json'', ''base64'', ''image_base64'', ''image_data'', ''image_url'']"

fun estimate_content_tokens :: "json \<Rightarrow> int" where
  "estimate_content_tokens (JStr s) = text_tokens s"
| "estimate_content_tokens (JList xs) = sum_list (map estimate_content_tokens xs)"
| "estimate_content_tokens (JObj d) =
     (if py_lower (str_or_empty (py_get d ''type'')) \<in> set image_types
         \<or> list_ex (\<lambda>key. map_of d key \<noteq> None) image_keys
      then ESTIMATED_IMAGE_TOKENS
           + (case map_of (map (\<lambda>(k, v). (k, estimate_content_tokens v)) d) ''text'' of
                None \<Rightarrow> 0 | Some n \<Rightarrow> n)
      else sum_list (map (\<lambda>(k, v). if k \<in> {''metadata'', ''role'', ''type''} then 0
                                  else estimate_content_tokens v) d))"
| "estimate_content_tokens JNull = 0"
| "estimate_content_tokens v = text_tokens (py_str v)"

definition estimate_message_tokens :: "json \<Rightarrow> int" where
  "estimate_message_tokens message =
     (case message of
        JObj d \<Rightarrow>
          4 + estimate_content_tokens (py_get d ''content'')
          + (case map_of d ''name'' of Some (JStr s) \<Rightarrow> text_tokens s | _ \<Rightarrow> 0)
          + (case py_get d ''tool_calls'' of
               JList xs \<Rightarrow> text_tokens (safe_json_dumps (JList xs)) | _ \<Rightarrow> 0)
      | _ \<Rightarrow> 0)"

text \<open>\<open>options.update(params)\<close>, then the keys of the payload that \<open>params\<close> does not set.\<close>

definition merged_request_options :: "json_dict \<Rightarrow> json_dict" where
  "merged_request_options input_payload =
     fold (\<lambda>(key, value) options.
             if key \<noteq> ''params'' \<and> map_of options key = None then py_set options key value else options)
       input_payload
       (fold (\<lambda>(key, value) options. py_set options key value)
          (dict_or_empty (Some (py_get input_payload ''params''))) [])"

definition estimate_provider_input_tokens :: "json_dict \<Rightarrow> string \<Rightarrow> int" where
  "estimate_provider_input_tokens input_payload endpoint_variant =
     (let options = merged_request_options input_payload;
          messages = py_get options ''messages'';
          main = (if endpoint_variant \<in> {''responses'', ''embeddings''} \<and> map_of options ''input'' \<noteq> None
                  then estimate_content_tokens (py_get options ''input'')
                  else case messages of
                    JList (m # ms) \<Rightarrow> sum_list (map estimate_message_tokens (m # ms)) + 2
                  | _ \<Rightarrow>
                      if map_of options ''input'' \<noteq> None
                      then estimate_content_tokens (py_get options ''input'')
                      else if map_of options ''text'' \<noteq> None
                      then estimate_content_tokens (py_get options ''text'')
                      else estimate_content_tokens (py_get options ''prompt''));
          system = (case messages of JList _ \<Rightarrow> 0
                    | _ \<Rightarrow> estimate_content_tokens (py_get options ''system''));
          tools = (case py_get options ''tools'' of
                     JList (t # ts) \<Rightarrow> text_tokens (safe_json_dumps (JList (t # ts)))
                   | _ \<Rightarrow> 0)
      in max 0 (main + system + tools))"

definition estimate_output_token_budget :: "json_dict \<Rightarrow> string \<Rightarrow> int" where
  "estimate_output_token_budget input_payload execution_kind =
     (if execution_kind = ''embedding'' then 0
      else
        (let options = merged_request_options input_payload;
             value = first_nonnegative_int
               (map (py_get options) [''max_output_tokens'', ''max_completion_tokens'', ''max_tokens''])
         in if 0 < value then value else DEFAULT_OUTPUT_TOKEN_BUDGET))"

subsection \<open>The context budget\<close>

record context_budget =
  cb_context_window :: int
  cb_estimated_input_tokens :: int
  cb_requested_output_tokens :: int
  cb_safety_margin_tokens :: int

definition estimated_total_tokens :: "context_budget \<Rightarrow> int" where
  "estimated_total_tokens b =
     cb_estimated_input_tokens b + cb_requested_output_tokens b + cb_safety_margin_tokens b"

definition fits :: "context_budget \<Rightarrow> bool" where
  "fits b = (estimated_total_tokens b \<le> cb_context_window b)"

definition budget_usage_context :: "context_budget \<Rightarrow> json_dict" where
  "budget_usage_context b =
     [(''context_preflight'', JStr (if fits b then ''accepted'' else ''rejected'')),
      (''estimated_input_tokens'', JInt (cb_estimated_input_tokens b)),
      (''requested_output_tokens'', JInt (cb_requested_output_tokens b)),
      (''context_safety_margin_tokens'', JInt (cb_safety_margin_tokens b)),
      (''estimated_total_tokens'', JInt (estimated_total_tokens b)),
      (''context_window'', JInt (cb_context_window b))]"

text \<open>The code computes \<open>ceil(context_window * 0.02)\<close> in floating point; below the cap of 2048 tokens
  it agrees with the exact quotient for every window.\<close>

definition assess_context_budget ::
    "json_dict \<Rightarrow> int option \<Rightarrow> string \<Rightarrow> string \<Rightarrow> context_budget option" where
  "assess_context_budget input_payload context_window execution_kind endpoint_variant =
     (case context_window of
        None \<Rightarrow> None
      | Some window \<Rightarrow>
          if window \<le> 0 then None
          else if execution_kind \<notin> {''text'', ''vision'', ''embedding''} then None
          else Some
            \<lparr>cb_context_window = window,
             cb_estimated_input_tokens = estimate_provider_input_tokens input_payload endpoint_variant,
             cb_requested_output_tokens = estimate_output_token_budget input_payload execution_kind,
             cb_safety_margin_tokens =
               min 2048 (min (max 16 (ceil_div window 50)) (max 16 (window div 4)))\<rparr>)"

subsection \<open>The prompt cache key\<close>

definition PROMPT_CACHE_KEY_VERSION :: string where "PROMPT_CACHE_KEY_VERSION = ''npcink-pc-v1''"

definition WORDPRESS_SCENE_MARKER :: string where
  "WORDPRESS_SCENE_MARKER = [CHR 0x0A, CHR 0x0A] @ ''Scene input:'' @ [CHR 0x0A]"

text \<open>\<open>s.split(marker, 1)[0]\<close>\<close>

fun before_marker :: "string \<Rightarrow> string \<Rightarrow> string" where
  "before_marker marker [] = []"
| "before_marker marker (c # cs) =
     (if is_prefix marker (c # cs) then [] else c # before_marker marker cs)"

definition fragment_of :: "json \<Rightarrow> string list" where
  "fragment_of v = (case v of JStr s \<Rightarrow> (if py_strip s \<noteq> [] then [py_strip s] else []) | _ \<Rightarrow> [])"

text \<open>The role of a message is compared as a text; Python refuses to look up a list or a dictionary.\<close>

definition message_fragments :: "json \<Rightarrow> string list" where
  "message_fragments message =
     (case message of
        JObj d \<Rightarrow>
          if py_get d ''role'' \<notin> {JStr ''system'', JStr ''developer''} then []
          else (case py_get d ''content'' of
                  JList blocks \<Rightarrow>
                    concat (map (\<lambda>block. case block of
                        JObj b \<Rightarrow> fragment_of (if py_truthy (py_get b ''text'') then py_get b ''text''
                                               else py_get b ''content'')
                      | _ \<Rightarrow> []) blocks)
                | content \<Rightarrow> fragment_of content)
      | _ \<Rightarrow> [])"

definition stable_prompt_prefix :: "json_dict \<Rightarrow> string" where
  "stable_prompt_prefix input_payload =
     (let explicit_input = py_get input_payload ''input'';
          messages = (case py_get input_payload ''messages'' of
                        JList ms \<Rightarrow> ms
                      | _ \<Rightarrow> (case explicit_input of JList ms \<Rightarrow> ms | _ \<Rightarrow> []));
          fragments = fragment_of (py_get input_payload ''system'') @ concat (map message_fragments messages);
          joined = join_with [CHR 0x0A, CHR 0x0A] fragments
      in case explicit_input of
           JStr s \<Rightarrow> if contains_sub WORDPRESS_SCENE_MARKER s
                     then py_strip (before_marker WORDPRESS_SCENE_MARKER s) else joined
         | _ \<Rightarrow> joined)"

definition build_prompt_cache_key ::
    "string \<Rightarrow> string \<Rightarrow> string \<Rightarrow> string \<Rightarrow> string \<Rightarrow> json_dict \<Rightarrow> string" where
  "build_prompt_cache_key site_id profile_id model_id ability_name contract_version input_payload =
     (let stable_prefix = stable_prompt_prefix input_payload in
      if site_id = [] \<or> length stable_prefix < 32 then []
      else PROMPT_CACHE_KEY_VERSION @ ''-''
           @ take 48 (sha256_hex (join_with [CHR 0x1F]
               [site_id, profile_id, model_id, ability_name, contract_version, sha256_hex stable_prefix])))"

subsection \<open>Upstream failures that mean a request was too long\<close>

text \<open>
  The patterns are searched without regard to case.  Each is a finite choice of literals separated by
  \<open>.*\<close>, which does not cross a line break; \<open>gapped ls s\<close> says that the literals \<open>ls\<close> occur in \<open>s\<close> in
  this order on one line, the first of them at the start of \<open>s\<close>.
\<close>

fun gap_to :: "(string \<Rightarrow> bool) \<Rightarrow> string \<Rightarrow> bool" where
  "gap_to P [] = P []"
| "gap_to P (c # cs) = (P (c # cs) \<or> c \<noteq> CHR 0x0A \<and> gap_to P cs)"

fun gapped :: "string list \<Rightarrow> string \<Rightarrow> bool" where
  "gapped [] s = True"
| "gapped [l] s = is_prefix l s"
| "gapped (l # ls) s = (is_prefix l s \<and> gap_to (gapped ls) (drop (length l) s))"

fun searched :: "(string \<Rightarrow> bool) \<Rightarrow> string \<Rightarrow> bool" where
  "searched P [] = P []"
| "searched P (c # cs) = (P (c # cs) \<or> searched P cs)"

definition pattern_found :: "string list list \<Rightarrow> string \<Rightarrow> bool" where
  "pattern_found alternatives s = list_ex (\<lambda>ls. searched (gapped ls) (py_lower s)) alternatives"

definition CONTEXT_OVERFLOW_ERROR_TYPES :: "string list" where
  "CONTEXT_OVERFLOW_ERROR_TYPES =
     [''context_length_exceeded'', ''model_context_window_exceeded'', ''request_too_large'']"

definition CONTEXT_OVERFLOW_PATTERNS :: "string list list" where
  "CONTEXT_OVERFLOW_PATTERNS =
     [[''prompt is too long''],
      [''request_too_large''], [''request too_large''], [''request_too large''], [''request too large''],
      [''exceeds context window''], [''exceeds the context window''],
      [''exceeds maximum context length''],
      [''exceeds models maximum context length''], [''exceeds model'' @ [CHR 0x27] @ ''s maximum context length''],
      [''exceeds the maximum context length''],
      [''exceeds the models maximum context length''],
      [''exceeds the model'' @ [CHR 0x27] @ ''s maximum context length''],
      [''input length '', '' exceeds '', '' context length''],
      [''input token count '', '' exceeds the maximum''],
      [''maximum prompt length is''],
      [''reduce the length of the messages''],
      [''longer than the models context length''],
      [''longer than the model'' @ [CHR 0x27] @ ''s context length''],
      [''exceeds the available context size''],
      [''greater than the context length''],
      [''context window exceeds limit''],
      [''context_length_exceeded''], [''context length_exceeded''], [''context_length exceeded''],
      [''context length exceeded''],
      [''too many tokens''],
      [''token limit exceeded''],
      [''range of input length should be'']]"

definition NON_OVERFLOW_PATTERNS :: "string list list" where
  "NON_OVERFLOW_PATTERNS = [[''rate limit''], [''too many requests''], [''throttl'']]"

definition PAYLOAD_TOO_LARGE_PATTERNS :: "string list list" where
  "PAYLOAD_TOO_LARGE_PATTERNS =
     [[''request'', ''too large''], [''request'', ''maximum size''],
      [''payload'', ''too large''], [''payload'', ''maximum size''],
      [''request_too_large''], [''request too_large''], [''request_too large''], [''request too large'']]"

text \<open>\<open>message\<close> and \<open>error_type\<close> are the texts \<open>str(value or "")\<close>.\<close>

definition is_context_overflow_error :: "string \<Rightarrow> string \<Rightarrow> int option \<Rightarrow> bool" where
  "is_context_overflow_error message error_type status_code =
     (if status_code = Some 429 then False
      else
        (let normalized_type = py_lower (py_strip error_type);
             combined = py_strip (normalized_type @ '' '' @ py_strip message)
         in if pattern_found NON_OVERFLOW_PATTERNS combined then False
            else if normalized_type \<in> set CONTEXT_OVERFLOW_ERROR_TYPES then True
            else if status_code \<noteq> None \<and> status_code \<notin> {Some 400, Some 413, Some 422} then False
            else if status_code = Some 413 \<and> pattern_found PAYLOAD_TOO_LARGE_PATTERNS combined then True
            else pattern_found CONTEXT_OVERFLOW_PATTERNS combined))"

definition normalize_provider_error_code :: "string \<Rightarrow> string \<Rightarrow> string \<Rightarrow> int option \<Rightarrow> string" where
  "normalize_provider_error_code default_error_code message error_type status_code =
     (if is_context_overflow_error message error_type status_code
      then ''provider.context_overflow'' else default_error_code)"

lemma overflow_example:
  "normalize_provider_error_code ''provider.invalid_request''
     ''This model'' [] (Some 400) = ''provider.invalid_request''"
  "normalize_provider_error_code ''provider.invalid_request''
     ''Input length 9000 EXCEEDS the context length'' [] (Some 400) = ''provider.context_overflow''"
  by code_simp+

subsection \<open>Lemmas\<close>

lemma nonnegative_int_nonneg [simp]: "0 \<le> nonnegative_int v"
  by (simp add: nonnegative_int_def split: json.splits option.splits)

lemma first_nonnegative_int_nonneg [simp]: "0 \<le> first_nonnegative_int vs"
  by (induction vs) (simp_all add: Let_def)

text \<open>The categories of a normalised report always add up to its total.\<close>

lemma balance_input_tokens_sum:
  assumes "balance_input_tokens whole cache_read cache_write cache_miss = (whole', uncached)"
  shows "whole' = uncached + cache_read + cache_write"
  using assms unfolding balance_input_tokens_def Let_def by (auto split: if_split_asm)

lemma openai_usage_balanced:
  "u_total_input_tokens (normalize_openai_usage usage input_field output_field) =
     u_uncached_input_tokens (normalize_openai_usage usage input_field output_field)
     + u_cache_read_tokens (normalize_openai_usage usage input_field output_field)
     + u_cache_write_tokens (normalize_openai_usage usage input_field output_field)"
  unfolding normalize_openai_usage_def Let_def case_prod_unfold provider_usage.simps
  by (rule balance_input_tokens_sum [OF prod.collapse [symmetric]])

text \<open>Rounding to six digits moves a value by at most half a millionth.\<close>

lemma round_half_even_error: "\<bar>of_int (round_half_even r) - r\<bar> \<le> 1 / 2"
proof -
  define d where "d = r - of_int \<lfloor>r\<rfloor>"
  have "0 \<le> d" "d < 1" unfolding d_def by linarith+
  moreover have "of_int \<lfloor>r\<rfloor> - r = - d" "of_int (\<lfloor>r\<rfloor> + 1) - r = 1 - d" by (simp_all add: d_def)
  ultimately show ?thesis by (simp add: round_half_even_def Let_def d_def [symmetric])
qed

lemma round6_error: "\<bar>round6 r - r\<bar> \<le> 1 / 2000000"
proof -
  have "\<bar>of_int (round_half_even (r * 1000000)) - r * 1000000\<bar> \<le> 1 / 2"
    by (rule round_half_even_error)
  then show ?thesis by (auto simp: round6_def abs_le_iff field_simps)
qed

lemma round_half_even_int [simp]: "round_half_even (of_int i) = i"
  by (simp add: round_half_even_def)

lemma round6_idem [simp]: "round6 (round6 r) = round6 r"
  by (simp add: round6_def)

lemma round_half_even_nonneg: "0 \<le> r \<Longrightarrow> 0 \<le> round_half_even r"
  by (auto simp: round_half_even_def Let_def)

lemma round6_nonneg [simp]: "0 \<le> r \<Longrightarrow> 0 \<le> round6 r"
  by (simp add: round6_def round_half_even_nonneg)

lemma text_tokens_nonneg: "0 \<le> text_tokens s"
proof -
  have "length (filter (\<lambda>c. (of_char c :: nat) < 128) s) \<le> length s" by (rule length_filter_le)
  then show ?thesis by (simp add: text_tokens_def Let_def ceil_div_def)
qed

lemma rate_or_zero_nonneg: "(\<And>r. rate = Some r \<Longrightarrow> 0 \<le> r) \<Longrightarrow> 0 \<le> rate_or_zero rate"
  by (simp add: rate_or_zero_def split: option.splits)

end
