(* ===== verification/ProviderCalls.thy ===== *)
theory ProviderCalls
  imports ProviderUsage ErrorTaxonomy
begin

section \<open>Provider requests, results and errors (app/adapters/providers/base.py)\<close>

text \<open>
  What the runtime hands to a provider adapter and what comes back.  Adapters themselves talk to
  external services and are arguments of the model.
\<close>

definition IMAGE_GENERATION_PROVIDER_ERROR_MESSAGE :: string where
  "IMAGE_GENERATION_PROVIDER_ERROR_MESSAGE = ''image generation provider request failed''"
definition VISION_PROVIDER_ERROR_MESSAGE :: string where
  "VISION_PROVIDER_ERROR_MESSAGE = ''vision provider request failed''"

record provider_request =
  pq_run_id :: string
  pq_site_id :: string
  pq_ability_name :: string
  pq_profile_id :: string
  pq_execution_kind :: string
  pq_model_id :: string
  pq_instance_id :: string
  pq_endpoint_variant :: string
  pq_trace_id :: string
  pq_input_payload :: json_dict
  pq_policy :: json_dict
  pq_timeout_ms :: int
  pq_contract_version :: string
  pq_context_window :: "int option"
  pq_price_input :: "rat option"
  pq_price_output :: "rat option"
  pq_price_cache_read :: "rat option"
  pq_price_cache_write :: "rat option"
  pq_retry_count :: int

text \<open>Bytes are lists of characters.\<close>

record media_candidate =
  mc_index :: int
  mc_content_bytes :: "string option"
  mc_source_url :: "string option"
  mc_image_output_hosts :: "string list"
  mc_provider_connection_id :: string
  mc_claimed_mime_type :: string
  mc_revised_prompt :: string
  mc_claimed_width :: "int option"
  mc_claimed_height :: "int option"

text \<open>The checks of \<open>__post_init__\<close>; a message is the \<open>ValueError\<close>.\<close>

definition media_candidate_error :: "media_candidate \<Rightarrow> string option" where
  "media_candidate_error m =
     (if mc_index m < 1 then Some ''provider media candidate index must be positive''
      else if (case mc_source_url m of None \<Rightarrow> False | Some url \<Rightarrow> url = [] \<or> url \<noteq> py_strip url)
      then Some ''provider media candidate source_url must be a normalized string''
      else if (mc_content_bytes m \<noteq> None) = (mc_source_url m \<noteq> None)
      then Some ''provider media candidate must contain exactly one transient source''
      else if list_ex (\<lambda>host. host = []) (mc_image_output_hosts m)
      then Some ''provider media candidate image_output_hosts must be exact hosts''
      else None)"

record provider_result =
  x_output :: json_dict
  x_latency_ms :: int
  x_tokens_in :: int
  x_tokens_out :: int
  x_cost :: rat
  x_finish_reason :: string
  x_media_candidates :: "media_candidate list"
  x_uncached_input_tokens :: "int option"
  x_cache_read_tokens :: int
  x_cache_write_tokens :: int
  x_reasoning_tokens :: int
  x_cost_estimate_mode :: string
  x_cache_affinity_applied :: "bool option"

text \<open>An unpriced or partial estimate is no proof that a call was free.  Costs are rationals, so the
  test for infinities and NaN has no counterpart.\<close>

definition known_provider_cost_usd :: "rat \<Rightarrow> string \<Rightarrow> rat option" where
  "known_provider_cost_usd cost mode =
     (if cost < 0 then None
      else if mode \<in> {''unpriced'', ''partial_rates''} \<or> (mode = [] \<and> cost = 0) then None
      else Some cost)"

definition budget_cost_usd :: "provider_result \<Rightarrow> rat option" where
  "budget_cost_usd result = known_provider_cost_usd (x_cost result) (x_cost_estimate_mode result)"

text \<open>The text Python prints for a ratio is an argument.\<close>

definition result_usage_context :: "(rat \<Rightarrow> string) \<Rightarrow> provider_result \<Rightarrow> json_dict" where
  "result_usage_context float_text result =
     (let total_input = max 0 (x_tokens_in result);
          cache_read = max 0 (x_cache_read_tokens result);
          cache_write = max 0 (x_cache_write_tokens result);
          uncached = (case x_uncached_input_tokens result of
                        Some n \<Rightarrow> max 0 n
                      | None \<Rightarrow> max 0 (total_input - cache_read - cache_write));
          has_cache_evidence = (0 < cache_read \<or> 0 < cache_write);
          reasoning = max 0 (x_reasoning_tokens result);
          ratio = round6 (of_int (min cache_read total_input) / of_int total_input)
      in (if x_uncached_input_tokens result \<noteq> None \<or> has_cache_evidence
          then [(''input_tokens_uncached'', JInt uncached), (''cache_read_tokens'', JInt cache_read),
                (''cache_write_tokens'', JInt cache_write)] else [])
         @ (if 0 < reasoning then [(''reasoning_tokens'', JInt reasoning)] else [])
         @ (if has_cache_evidence \<and> 0 < total_input
            then [(''cache_hit_ratio'', JFloat ratio (float_text ratio))] else [])
         @ (if x_cost_estimate_mode result \<noteq> []
            then [(''cost_estimate_mode'', JStr (x_cost_estimate_mode result))] else [])
         @ (case x_cache_affinity_applied result of
              None \<Rightarrow> [] | Some b \<Rightarrow> [(''cache_affinity_applied'', JBool b)]))"

record provider_error =
  pe_error_code :: string
  pe_message :: string
  pe_retryable :: bool
  pe_tokens_in :: int
  pe_tokens_out :: int
  pe_cost :: rat
  pe_usage_context :: "json_dict option"

definition provider_execution_error ::
    "string \<Rightarrow> string \<Rightarrow> bool option \<Rightarrow> int \<Rightarrow> int \<Rightarrow> rat \<Rightarrow> json_dict option \<Rightarrow> provider_error" where
  "provider_execution_error error_code message retryable tokens_in tokens_out cost usage_context =
     \<lparr>pe_error_code = error_code,
      pe_message = message,
      pe_retryable = (case retryable of
                        None \<Rightarrow> te_retryable (get_error_taxonomy (Some error_code))
                      | Some b \<Rightarrow> b),
      pe_tokens_in = max 0 tokens_in,
      pe_tokens_out = max 0 tokens_out,
      pe_cost = max 0 cost,
      pe_usage_context = usage_context\<rparr>"

text \<open>
  An exception that leaves a call: a provider error, which the runtime handles, or any other Python
  exception, by its class.
\<close>

datatype call_fault = ProviderFault provider_error | PyFault string

lemma known_cost_nonneg: "known_provider_cost_usd cost mode = Some c \<Longrightarrow> c = cost \<and> 0 \<le> c"
  by (simp add: known_provider_cost_usd_def split: if_splits)

lemma provider_execution_error_nonneg [simp]:
  "0 \<le> pe_cost (provider_execution_error code message retryable tokens_in tokens_out cost usage_context)"
  by (simp add: provider_execution_error_def)

end
