(* ===== verification/ProviderBudget.thy ===== *)
theory ProviderBudget
  imports ProviderCalls RunStore Hashes
begin

section \<open>The spend fuse for provider calls (app/domain/runtime/provider\_budget.py)\<close>

text \<open>
  Before a provider is called, \<open>claim_before_dispatch\<close> reserves the estimated cost against the daily
  and the monthly counter of the provider's account; after the call \<open>reconcile\<close> replaces the
  reservation by the actual cost.  The code locks every counter it reads, so each call is one atomic
  step on the tables.  Money is a rational number; texts that Python's \<open>float\<close> reads as infinity or
  NaN are outside the model (the admin API accepts bounded numbers only).
\<close>

subsection \<open>Rows\<close>

record service_setting =
  ss_enabled :: bool
  ss_config_json :: "json option"

record provider_connection =
  pcn_connection_id :: string
  pcn_display_name :: string
  pcn_enabled :: bool
  pcn_config_json :: "json option"
  pcn_metadata_json :: "json option"

record budget_counter =
  bc_scope_key :: string
  bc_provider_id :: string
  bc_account_class :: string
  bc_period_kind :: string
  bc_period_start_at :: instant
  bc_period_end_at :: instant
  bc_limit_cost_usd :: rat
  bc_reserved_cost_usd :: rat
  bc_warning_emitted :: bool

record budget_claim =
  bl_claim_id :: string
  bl_dispatch_key :: string
  bl_scope_key :: string
  bl_run_id :: string
  bl_account_id :: "string option"
  bl_provider_id :: string
  bl_account_class :: string
  bl_period_kind :: string
  bl_reserved_cost_usd :: rat
  bl_actual_cost_usd :: "rat option"
  bl_status :: string
  bl_reconciled_at :: "instant option"

record budget_db =
  bd_setting :: "service_setting option"
  bd_connections :: "provider_connection list"
  bd_counters :: "budget_counter list"
  bd_claims :: "budget_claim list"

record claim_receipt =
  cr_claim_ids :: "string list"
  cr_estimated_cost_usd :: rat
  cr_warning :: bool

definition DEFAULT_CONSERVATIVE_UNPRICED_COST_USD :: rat where
  "DEFAULT_CONSERVATIVE_UNPRICED_COST_USD = 5 / 100"
definition DEFAULT_WARNING_RATIO :: rat where
  "DEFAULT_WARNING_RATIO = 8 / 10"

subsection \<open>\<open>float(value)\<close>\<close>

text \<open>A run of digits with single underscores between them: its value after \<open>acc\<close>, the number of
  digits and what follows.\<close>

fun take_digits :: "nat \<Rightarrow> nat \<Rightarrow> bool \<Rightarrow> string \<Rightarrow> nat \<times> nat \<times> string" where
  "take_digits acc n prev [] = (acc, n, [])"
| "take_digits acc n prev (c # cs) =
     (if is_digit c then take_digits (10 * acc + digit_value c) (Suc n) True cs
      else if c = CHR ''_'' \<and> prev \<and> cs \<noteq> [] \<and> is_digit (hd cs) then take_digits acc n False cs
      else (acc, n, c # cs))"

definition split_sign :: "string \<Rightarrow> bool \<times> string" where
  "split_sign s = (case s of
       c # cs \<Rightarrow> if c = CHR ''-'' then (True, cs) else if c = CHR ''+'' then (False, cs) else (False, s)
     | [] \<Rightarrow> (False, []))"

text \<open>What may follow the digits of a float literal: nothing or an exponent.\<close>

definition float_exponent :: "string \<Rightarrow> int option" where
  "float_exponent s = (case s of
       [] \<Rightarrow> Some 0
     | c # cs \<Rightarrow>
         if c \<noteq> CHR ''e'' \<and> c \<noteq> CHR ''E'' then None
         else (let (negative, body) = split_sign cs; (e, n, rest) = take_digits 0 0 False body in
               if n = 0 \<or> rest \<noteq> [] then None
               else Some (if negative then - int e else int e)))"

definition float_of_text :: "string \<Rightarrow> rat option" where
  "float_of_text s =
     (let (negative, body) = split_sign (py_strip s);
          (whole, n, rest) = take_digits 0 0 False body;
          (digits, k, rest') = (case rest of
              c # cs \<Rightarrow> if c = CHR ''.'' then take_digits whole 0 False cs else (whole, 0, rest)
            | [] \<Rightarrow> (whole, 0, rest))
      in if n + k = 0 then None
         else case float_exponent rest' of
           None \<Rightarrow> None
         | Some e \<Rightarrow>
             (let v = of_nat digits / 10 ^ k * (if e < 0 then 1 / 10 ^ nat (- e) else 10 ^ nat e)
              in Some (if negative then - v else v)))"

text \<open>\<open>float(value)\<close>; the left value is the exception's class.\<close>

definition py_float :: "json \<Rightarrow> (string, rat) outcome" where
  "py_float value =
     (case value of
        JBool b \<Rightarrow> Return (if b then 1 else 0)
      | JInt i \<Rightarrow> Return (of_int i)
      | JFloat r _ \<Rightarrow> Return r
      | JStr s \<Rightarrow> (case float_of_text s of Some r \<Rightarrow> Return r | None \<Rightarrow> Raise ''ValueError'')
      | _ \<Rightarrow> Raise ''TypeError'')"

text \<open>\<open>int(value)\<close>\<close>

definition py_int :: "json \<Rightarrow> (string, int) outcome" where
  "py_int value =
     (case value of
        JBool b \<Rightarrow> Return (if b then 1 else 0)
      | JInt i \<Rightarrow> Return i
      | JFloat r _ \<Rightarrow> Return (rat_trunc r)
      | JStr s \<Rightarrow> (case int_of_text s of Some i \<Rightarrow> Return i | None \<Rightarrow> Raise ''ValueError'')
      | _ \<Rightarrow> Raise ''TypeError'')"

text \<open>\<open>max(0.0, float(str(value or 0.0)))\<close>, 0 where that raises; \<open>float\<close> reads the text of a number
  back as that number.\<close>

definition positive_float :: "json \<Rightarrow> rat" where
  "positive_float value =
     (case value of
        JInt i \<Rightarrow> max 0 (of_int i)
      | JFloat r _ \<Rightarrow> max 0 r
      | JStr s \<Rightarrow> (case float_of_text s of Some r \<Rightarrow> max 0 r | None \<Rightarrow> 0)
      | _ \<Rightarrow> 0)"

definition warning_ratio :: "json_dict \<Rightarrow> rat" where
  "warning_ratio config =
     (let v = py_get config ''warning_ratio'' in
      if \<not> py_truthy v then min 1 (max (1 / 100) DEFAULT_WARNING_RATIO)
      else case py_float v of
        Inr r \<Rightarrow> min 1 (max (1 / 100) r)
      | Inl _ \<Rightarrow> DEFAULT_WARNING_RATIO)"

lemmas float_text_eval =
  float_of_text_def float_exponent_def split_sign_def py_strip_def py_space_def is_digit_def digit_value_def Let_def

lemma float_of_text_examples:
  "float_of_text ''12.50'' = Some (25 / 2)" "float_of_text '' -1_0e-1 '' = Some (- 1)"
  "float_of_text ''.'' = None" "float_of_text ''1__0'' = None"
  by (simp_all add: float_text_eval)

subsection \<open>Keys and periods\<close>

definition stable_id :: "string \<Rightarrow> string" where
  "stable_id value = take 32 (sha256_hex value)"

definition dispatch_key_of :: "run_record \<Rightarrow> string \<Rightarrow> string \<Rightarrow> int \<Rightarrow> string" where
  "dispatch_key_of run provider_id model_id retry_count =
     r_run_id run @ '':'' @ provider_id @ '':'' @ model_id @ '':'' @ int_text retry_count"

definition scope_key_of :: "string \<Rightarrow> string \<Rightarrow> string \<Rightarrow> instant \<Rightarrow> string" where
  "scope_key_of provider_id account_class period_kind period_start =
     provider_id @ '':'' @ account_class @ '':'' @ period_kind @ '':'' @ isoformat period_start"

text \<open>The day number of a proleptic Gregorian date, the inverse of \<open>civil_from_days\<close>.\<close>

definition days_from_civil :: "int \<Rightarrow> int \<Rightarrow> int \<Rightarrow> int" where
  "days_from_civil y m d =
     (let y' = (if m \<le> 2 then y - 1 else y);
          era = y' div 400;
          yoe = y' mod 400;
          doy = (153 * ((m + 9) mod 12) + 2) div 5 + d - 1;
          doe = yoe * 365 + yoe div 4 - yoe div 100 + doy
      in era * 146097 + doe - 719468)"

definition midnight :: "int \<Rightarrow> instant" where
  "midnight day = seconds (day * 86400)"

text \<open>The two periods of an instant with the limit of each.\<close>

definition budget_periods :: "instant \<Rightarrow> rat \<Rightarrow> rat \<Rightarrow> (string \<times> instant \<times> instant \<times> rat) list" where
  "budget_periods now daily_limit monthly_limit =
     (let day = now div seconds 86400;
          (year, month, _) = civil_from_days day
      in [(''day'', midnight day, midnight (day + 1), daily_limit),
          (''month'', midnight (days_from_civil year month 1),
           (if month = 12 then midnight (days_from_civil (year + 1) 1 1)
            else midnight (days_from_civil year (month + 1) 1)), monthly_limit)])"

lemma calendar_examples:
  "civil_from_days 20453 = (2025, 12, 31)" "days_from_civil 2025 12 1 = 20423"
  "days_from_civil 2026 1 1 = 20454"
  by code_simp+

lemma budget_periods_example:
  "budget_periods (seconds 1767182400) d m =
     [(''day'', seconds 1767139200, seconds 1767225600, d),
      (''month'', seconds 1764547200, seconds 1767225600, m)]"
  by (simp add: budget_periods_def calendar_examples midnight_def seconds_def)

subsection \<open>Policy and estimate\<close>

definition dict_value :: "json \<Rightarrow> json_dict option" where
  "dict_value v = (case v of JObj d \<Rightarrow> Some d | _ \<Rightarrow> None)"

definition resolve_policy :: "budget_db \<Rightarrow> json_dict \<Rightarrow> string \<Rightarrow> json_dict option" where
  "resolve_policy db config provider_id =
     (let provider_policy =
            (case py_get config ''providers'' of JObj providers \<Rightarrow> py_get providers provider_id | _ \<Rightarrow> JNull)
      in case dict_value provider_policy of
           Some policy \<Rightarrow> Some policy
         | None \<Rightarrow>
             (case row_get pcn_connection_id provider_id (bd_connections db) of
                None \<Rightarrow> None
              | Some row \<Rightarrow>
                  (case dict_value (py_get (dict_or_empty (pcn_metadata_json row)) ''spend_budget'') of
                     Some policy \<Rightarrow> Some policy
                   | None \<Rightarrow> dict_value (py_get (dict_or_empty (pcn_config_json row)) ''spend_budget''))))"

text \<open>\<open>json.dumps(payload, ensure_ascii=False)\<close> with Python's default separators.\<close>

primrec json_spaced :: "json \<Rightarrow> string" where
  "json_spaced JNull = ''null''"
| "json_spaced (JBool b) = (if b then ''true'' else ''false'')"
| "json_spaced (JInt i) = int_text i"
| "json_spaced (JFloat r txt) = txt"
| "json_spaced (JStr s) = json_quote_raw s"
| "json_spaced (JList xs) = ''['' @ join_with '', '' (map json_spaced xs) @ '']''"
| "json_spaced (JObj kvs) =
     ''{'' @ join_with '', '' (map (\<lambda>(k, t). json_quote_raw k @ '': '' @ t) (map (map_prod id json_spaced) kvs)) @ ''}''"

definition estimate_dispatch_cost :: "provider_request \<Rightarrow> json_dict \<Rightarrow> (string, rat) outcome" where
  "estimate_dispatch_cost request config =
     (let input_tokens = max 1 (int (length (json_spaced (JObj (pq_input_payload request)))) div 4);
          max_output = py_get (pq_policy request) ''max_output_tokens''
      in and_then (if py_truthy max_output then py_int max_output else Return 1024) (\<lambda>n.
         (let output_tokens = max 1 n;
              (total_cost, mode) = estimate_token_cost
                \<lparr>u_total_input_tokens = input_tokens, u_output_tokens = output_tokens,
                 u_uncached_input_tokens = input_tokens, u_cache_read_tokens = 0,
                 u_cache_write_tokens = 0, u_reasoning_tokens = 0\<rparr>
                (pq_price_input request) (pq_price_output request)
                (pq_price_cache_read request) (pq_price_cache_write request);
              unpriced = py_get config ''conservative_unpriced_cost_usd''
          in if 0 < total_cost then Return (round6 total_cost)
             else and_then (if py_truthy unpriced then py_float unpriced
                            else Return DEFAULT_CONSERVATIVE_UNPRICED_COST_USD)
                    (\<lambda>r. Return (max (1 / 1000000) r)))))"

subsection \<open>Claiming\<close>

definition budget_configuration_missing :: "string \<Rightarrow> call_fault" where
  "budget_configuration_missing message =
     ProviderFault (provider_execution_error ''provider.budget_configuration_missing'' message (Some False) 0 0 0 None)"

definition budget_exceeded :: "string \<Rightarrow> call_fault" where
  "budget_exceeded provider_id =
     ProviderFault (provider_execution_error ''provider.budget_exceeded''
       (''provider spend budget exhausted for '' @ provider_id) (Some False) 0 0 0 None)"

text \<open>\<open>bool(config.get(key, True))\<close>\<close>

definition flag_or_true :: "json_dict \<Rightarrow> string \<Rightarrow> bool" where
  "flag_or_true config key = (case map_of config key of None \<Rightarrow> True | Some v \<Rightarrow> py_truthy v)"

definition account_class_of :: "json_dict \<Rightarrow> string" where
  "account_class_of policy =
     (let s = py_strip (str_or_empty (py_get policy ''account_class'')) in if s = [] then ''paid'' else s)"

text \<open>\<open>INSERT ... ON CONFLICT DO NOTHING\<close>\<close>

definition ensure_counter :: "budget_counter \<Rightarrow> budget_counter list \<Rightarrow> budget_counter list" where
  "ensure_counter row counters =
     (if row_get bc_scope_key (bc_scope_key row) counters = None then counters @ [row] else counters)"

definition new_counter :: "string \<Rightarrow> string \<Rightarrow> string \<Rightarrow> instant \<Rightarrow> instant \<Rightarrow> rat \<Rightarrow> budget_counter" where
  "new_counter provider_id account_class kind from till limit =
     \<lparr>bc_scope_key = scope_key_of provider_id account_class kind from,
      bc_provider_id = provider_id, bc_account_class = account_class, bc_period_kind = kind,
      bc_period_start_at = from, bc_period_end_at = till,
      bc_limit_cost_usd = limit, bc_reserved_cost_usd = 0, bc_warning_emitted = False\<rparr>"

text \<open>The counters of the periods that have a limit, created where they are missing and locked, with
  the current limit; a row that was just ensured is always found.\<close>

fun open_counters :: "string \<Rightarrow> string \<Rightarrow> (string \<times> instant \<times> instant \<times> rat) list
    \<Rightarrow> budget_counter list \<Rightarrow> string list \<times> budget_counter list" where
  "open_counters provider_id account_class [] counters = ([], counters)"
| "open_counters provider_id account_class ((kind, from, till, limit) # periods) counters =
     (if limit \<le> 0 then open_counters provider_id account_class periods counters
      else
        (let row = new_counter provider_id account_class kind from till limit;
             key = bc_scope_key row;
             (keys, counters') = open_counters provider_id account_class periods
               (rows_update (\<lambda>c. bc_scope_key c = key) (\<lambda>c. c\<lparr>bc_limit_cost_usd := limit\<rparr>)
                  (ensure_counter row counters))
         in (key # keys, counters')))"

definition exhausted :: "rat \<Rightarrow> budget_counter \<Rightarrow> bool" where
  "exhausted estimated counter = (bc_limit_cost_usd counter < bc_reserved_cost_usd counter + estimated)"

definition counter_rows :: "string list \<Rightarrow> budget_counter list \<Rightarrow> budget_counter list" where
  "counter_rows keys counters = concat (map (\<lambda>key.
     case row_get bc_scope_key key counters of None \<Rightarrow> [] | Some c \<Rightarrow> [c]) keys)"

definition charged :: "rat \<Rightarrow> budget_counter \<Rightarrow> budget_counter" where
  "charged estimated c = c\<lparr>bc_reserved_cost_usd := round6 (bc_reserved_cost_usd c + estimated)\<rparr>"

definition reaches :: "rat \<Rightarrow> budget_counter \<Rightarrow> bool" where
  "reaches ratio c = (ratio \<le> bc_reserved_cost_usd c / max (bc_limit_cost_usd c) (1 / 1000000000))"

text \<open>The loop over the counters: once one of them reaches the warning ratio, it and every later one
  is marked.\<close>

fun charge_counters :: "rat \<Rightarrow> rat \<Rightarrow> bool \<Rightarrow> budget_counter list \<Rightarrow> bool \<times> budget_counter list" where
  "charge_counters estimated ratio warning [] = (warning, [])"
| "charge_counters estimated ratio warning (c # cs) =
     (let c' = charged estimated c;
          warning' = (warning \<or> reaches ratio c');
          (result, cs') = charge_counters estimated ratio warning' cs
      in (result, c'\<lparr>bc_warning_emitted := bc_warning_emitted c' \<or> warning'\<rparr> # cs'))"

definition new_claim :: "string \<Rightarrow> run_record \<Rightarrow> string \<Rightarrow> string \<Rightarrow> rat \<Rightarrow> budget_counter \<Rightarrow> budget_claim" where
  "new_claim dispatch_key run provider_id account_class estimated counter =
     (let key = dispatch_key @ '':'' @ bc_period_kind counter in
      \<lparr>bl_claim_id = ''pclaim_'' @ stable_id key,
       bl_dispatch_key = key,
       bl_scope_key = bc_scope_key counter,
       bl_run_id = r_run_id run,
       bl_account_id = r_account_id run,
       bl_provider_id = provider_id,
       bl_account_class = account_class,
       bl_period_kind = bc_period_kind counter,
       bl_reserved_cost_usd = estimated,
       bl_actual_cost_usd = None,
       bl_status = ''claimed'',
       bl_reconciled_at = None\<rparr>)"

definition existing_claims :: "string \<Rightarrow> budget_claim list \<Rightarrow> budget_claim list" where
  "existing_claims dispatch_key claims =
     sort_key bl_claim_id (filter (\<lambda>c. bl_dispatch_key c \<in> {dispatch_key @ '':day'', dispatch_key @ '':month''}) claims)"

text \<open>Writing the claims; the primary key and the unique dispatch key are checked by the flush, whose
  failure rolls the transaction back.\<close>

definition insert_claims :: "budget_claim list \<Rightarrow> budget_claim list \<Rightarrow> budget_claim list option" where
  "insert_claims new claims =
     (if distinct (map bl_claim_id (claims @ new)) \<and> distinct (map bl_dispatch_key (claims @ new))
      then Some (claims @ new) else None)"

text \<open>The part after the look-up of earlier claims.\<close>

definition claim_counters :: "instant \<Rightarrow> run_record \<Rightarrow> string \<Rightarrow> string \<Rightarrow> string \<Rightarrow> rat \<Rightarrow> rat \<Rightarrow> rat \<Rightarrow> rat
    \<Rightarrow> budget_db \<Rightarrow> (call_fault, claim_receipt option) outcome \<times> budget_db" where
  "claim_counters now run provider_id account_class dispatch_key daily_limit monthly_limit ratio estimated db =
     (let (keys, counters) = open_counters provider_id account_class
                               (budget_periods now daily_limit monthly_limit) (bd_counters db);
          db' = db\<lparr>bd_counters := counters\<rparr>;
          opened = counter_rows keys counters
      in if list_ex (exhausted estimated) opened
         then (Raise (budget_exceeded provider_id), db')
         else
           (let (warning, charged_rows) = charge_counters estimated ratio False opened;
                new = map (new_claim dispatch_key run provider_id account_class estimated) charged_rows
            in case insert_claims new (bd_claims db) of
                 None \<Rightarrow> (Raise (PyFault ''IntegrityError''), db)
               | Some claims \<Rightarrow>
                   (Return (Some \<lparr>cr_claim_ids = map bl_claim_id new,
                                  cr_estimated_cost_usd = estimated,
                                  cr_warning = warning\<rparr>),
                    db\<lparr>bd_counters := fold (row_put bc_scope_key) charged_rows counters,
                       bd_claims := claims\<rparr>)))"

text \<open>What limits a provider's calls: nothing, or the account class with the two limits and the
  configuration they come from.\<close>

definition spend_limits :: "string \<Rightarrow> budget_db \<Rightarrow> (call_fault, (json_dict \<times> string \<times> rat \<times> rat) option) outcome" where
  "spend_limits provider_id db =
     (case bd_setting db of
        None \<Rightarrow> Return None
      | Some row \<Rightarrow>
          if \<not> ss_enabled row then Return None
          else
            (let config = dict_or_empty (ss_config_json row) in
             case resolve_policy db config provider_id of
               None \<Rightarrow>
                 if flag_or_true config ''require_provider_configuration''
                 then Raise (budget_configuration_missing
                         (''provider spend budget is not configured for '' @ provider_id))
                 else Return None
             | Some policy \<Rightarrow>
                 (let account_class = account_class_of policy;
                      daily_limit = positive_float (py_get policy ''daily_usd'');
                      monthly_limit = positive_float (py_get policy ''monthly_usd'')
                  in if account_class = ''paid'' \<and> (daily_limit \<le> 0 \<or> monthly_limit \<le> 0)
                     then Raise (budget_configuration_missing
                             (''paid provider account '' @ provider_id @ '' has no daily/monthly spend budget''))
                     else if daily_limit \<le> 0 \<and> monthly_limit \<le> 0 then Return None
                     else Return (Some (config, account_class, daily_limit, monthly_limit)))))"

definition claim_before_dispatch :: "instant \<Rightarrow> run_record \<Rightarrow> string \<Rightarrow> string \<Rightarrow> provider_request
    \<Rightarrow> budget_db \<Rightarrow> (call_fault, claim_receipt option) outcome \<times> budget_db" where
  "claim_before_dispatch now run provider_id model_id request db =
     (case spend_limits provider_id db of
        Inl fault \<Rightarrow> (Raise fault, db)
      | Inr None \<Rightarrow> (Return None, db)
      | Inr (Some (config, account_class, daily_limit, monthly_limit)) \<Rightarrow>
          (case estimate_dispatch_cost request config of
             Inl fault \<Rightarrow> (Raise (PyFault fault), db)
           | Inr estimated \<Rightarrow>
               (let dispatch_key = dispatch_key_of run provider_id model_id (pq_retry_count request);
                    existing = existing_claims dispatch_key (bd_claims db)
                in if existing \<noteq> []
                   then (Return (Some \<lparr>cr_claim_ids = map bl_claim_id existing,
                                       cr_estimated_cost_usd = Max (set (map bl_reserved_cost_usd existing)),
                                       cr_warning = False\<rparr>), db)
                   else claim_counters now run provider_id account_class dispatch_key
                          daily_limit monthly_limit (warning_ratio config) estimated db)))"

subsection \<open>Reconciling\<close>

definition reconciled_claim :: "instant \<Rightarrow> rat \<Rightarrow> budget_claim \<Rightarrow> budget_claim" where
  "reconciled_claim now actual claim =
     claim\<lparr>bl_actual_cost_usd := Some (round6 actual), bl_status := ''reconciled'', bl_reconciled_at := Some now\<rparr>"

definition settled_counter :: "rat \<Rightarrow> rat \<Rightarrow> budget_counter \<Rightarrow> budget_counter" where
  "settled_counter reserved actual counter =
     counter\<lparr>bc_reserved_cost_usd := round6 (max 0 (bc_reserved_cost_usd counter - max 0 reserved + actual))\<rparr>"

definition reconcile_claim :: "instant \<Rightarrow> rat option \<Rightarrow> string \<Rightarrow> budget_db \<Rightarrow> budget_db" where
  "reconcile_claim now actual_cost_usd claim_id db =
     (case row_get bl_claim_id claim_id (bd_claims db) of
        None \<Rightarrow> db
      | Some claim \<Rightarrow>
          if bl_status claim = ''reconciled'' then db
          else
            (let actual = (case actual_cost_usd of None \<Rightarrow> bl_reserved_cost_usd claim | Some c \<Rightarrow> max 0 c) in
             db\<lparr>bd_counters :=
                  (case row_get bc_scope_key (bl_scope_key claim) (bd_counters db) of
                     None \<Rightarrow> bd_counters db
                   | Some counter \<Rightarrow>
                       row_put bc_scope_key (settled_counter (bl_reserved_cost_usd claim) actual counter)
                         (bd_counters db)),
                bd_claims := row_put bl_claim_id (reconciled_claim now actual claim) (bd_claims db)\<rparr>))"

definition reconcile :: "instant \<Rightarrow> string list \<Rightarrow> rat option \<Rightarrow> budget_db \<Rightarrow> budget_db" where
  "reconcile now claim_ids actual_cost_usd db = fold (reconcile_claim now actual_cost_usd) claim_ids db"

end
