(* ===== verification/ProviderLedger.thy ===== *)
theory ProviderLedger
  imports ProviderBudget
begin

section \<open>The counters account for the claims\<close>

text \<open>
  The invariant of the spend fuse: every counter holds what its claims reserve or have cost, up to the
  rounding of each write, and every operation keeps it.
\<close>

subsection \<open>The invariant\<close>

text \<open>What a claim stands for: its actual cost once it is known, its reservation before.\<close>

definition claim_charge :: "budget_claim \<Rightarrow> rat" where
  "claim_charge claim = (case bl_actual_cost_usd claim of None \<Rightarrow> bl_reserved_cost_usd claim | Some a \<Rightarrow> a)"

definition scope_total :: "string \<Rightarrow> budget_claim list \<Rightarrow> rat" where
  "scope_total key claims = sum_list (map claim_charge (filter (\<lambda>c. bl_scope_key c = key) claims))"

text \<open>The number of roundings behind a claim: one for the reservation, two more for the settlement.\<close>

definition claim_roundings :: "budget_claim \<Rightarrow> rat" where
  "claim_roundings claim = (if bl_status claim = ''reconciled'' then 3 else 1)"

definition scope_roundings :: "string \<Rightarrow> budget_claim list \<Rightarrow> rat" where
  "scope_roundings key claims = sum_list (map claim_roundings (filter (\<lambda>c. bl_scope_key c = key) claims))"

definition counter_ok :: "budget_claim list \<Rightarrow> budget_counter \<Rightarrow> bool" where
  "counter_ok claims counter =
     (0 \<le> bc_reserved_cost_usd counter
      \<and> \<bar>bc_reserved_cost_usd counter - scope_total (bc_scope_key counter) claims\<bar>
          \<le> scope_roundings (bc_scope_key counter) claims / 2000000)"

definition claim_ok :: "budget_claim \<Rightarrow> bool" where
  "claim_ok claim = (0 \<le> bl_reserved_cost_usd claim \<and> 0 \<le> claim_charge claim
     \<and> (bl_status claim = ''reconciled'' \<longleftrightarrow> bl_actual_cost_usd claim \<noteq> None))"

definition ledger_ok :: "budget_claim list \<Rightarrow> budget_counter list \<Rightarrow> bool" where
  "ledger_ok claims counters =
     (keys_distinct bc_scope_key counters
      \<and> (\<forall>claim\<in>set claims. bl_scope_key claim \<in> bc_scope_key ` set counters)
      \<and> (\<forall>counter\<in>set counters. counter_ok claims counter))"

definition budget_inv :: "budget_db \<Rightarrow> bool" where
  "budget_inv db =
     (keys_distinct bl_claim_id (bd_claims db)
      \<and> keys_distinct bl_dispatch_key (bd_claims db)
      \<and> (\<forall>claim\<in>set (bd_claims db). claim_ok claim)
      \<and> ledger_ok (bd_claims db) (bd_counters db))"

subsection \<open>Opening counters\<close>

lemma scope_none: "(\<And>c. c \<in> set claims \<Longrightarrow> bl_scope_key c \<noteq> key) \<Longrightarrow> filter (\<lambda>c. bl_scope_key c = key) claims = []"
  by (simp add: filter_empty_conv)

lemma ensure_counter_ledger:
  assumes "ledger_ok claims counters" and "bc_reserved_cost_usd row = 0"
  shows "ledger_ok claims (ensure_counter row counters)"
proof (cases "row_get bc_scope_key (bc_scope_key row) counters")
  case None
  then have fresh: "bc_scope_key row \<notin> bc_scope_key ` set counters" by (auto simp: row_get_None)
  with assms(1) have "filter (\<lambda>c. bl_scope_key c = bc_scope_key row) claims = []"
    by (intro scope_none) (metis ledger_ok_def)
  then have "counter_ok claims row"
    using assms(2) by (simp add: counter_ok_def scope_total_def scope_roundings_def)
  with assms(1) None fresh show ?thesis
    by (auto simp: ledger_ok_def ensure_counter_def keys_distinct_def)
next
  case (Some r)
  with assms(1) show ?thesis by (simp add: ensure_counter_def)
qed

lemma rows_update_image:
  assumes "\<And>r. key (f r) = key r"
  shows "key ` set (rows_update cond f rows) = key ` set rows"
  using rows_update_keys [of cond key f rows] assms by (metis list.set_map)

lemma set_limit_ledger:
  assumes "ledger_ok claims counters"
  shows "ledger_ok claims (rows_update (\<lambda>c. bc_scope_key c = key) (\<lambda>c. c\<lparr>bc_limit_cost_usd := limit\<rparr>) counters)"
proof -
  have same: "counter_ok claims (c\<lparr>bc_limit_cost_usd := limit\<rparr>) = counter_ok claims c" for c
    by (simp add: counter_ok_def)
  have "keys_distinct bc_scope_key counters" using assms by (simp add: ledger_ok_def)
  then have "keys_distinct bc_scope_key
      (rows_update (\<lambda>c. bc_scope_key c = key) (\<lambda>c. c\<lparr>bc_limit_cost_usd := limit\<rparr>) counters)"
    by (rule rows_update_distinct) simp
  with assms show ?thesis
    by (auto simp: ledger_ok_def rows_update_image in_rows_update same)
qed

lemma ensure_counter_image:
  "bc_scope_key ` set (ensure_counter row counters) = insert (bc_scope_key row) (bc_scope_key ` set counters)"
  by (auto simp: ensure_counter_def row_get_None image_iff dest: row_get_Some)
     (metis option.exhaust row_get_None row_get_Some)

text \<open>Opening keeps the invariant, loses no counter, and names the counters it opened.\<close>

lemma open_counters_keys:
  "fst (open_counters provider_id account_class periods counters) =
     map (\<lambda>(kind, start, _). scope_key_of provider_id account_class kind start)
       (filter (\<lambda>(_, _, _, limit). 0 < limit) periods)"
  by (induction provider_id account_class periods counters rule: open_counters.induct)
     (auto simp: new_counter_def Let_def not_less split: prod.splits)

lemma open_counters_spec:
  assumes "open_counters provider_id account_class periods counters = (keys, counters')"
    and "ledger_ok claims counters"
  shows "ledger_ok claims counters' \<and> bc_scope_key ` set counters \<subseteq> bc_scope_key ` set counters'
    \<and> set keys \<subseteq> bc_scope_key ` set counters'"
  using assms
proof (induction provider_id account_class periods counters arbitrary: keys counters'
    rule: open_counters.induct)
  case (2 provider_id account_class kind start till limit periods counters)
  show ?case
  proof (cases "limit \<le> 0")
    case True
    have eq: "open_counters provider_id account_class periods counters = (keys, counters')"
      using 2(3) True by simp
    show ?thesis by (rule 2(1) [OF True eq 2(4)])
  next
    case False
    define row where "row = new_counter provider_id account_class kind start till limit"
    define opened where "opened = rows_update (\<lambda>c. bc_scope_key c = bc_scope_key row)
      (\<lambda>c. c\<lparr>bc_limit_cost_usd := limit\<rparr>) (ensure_counter row counters)"
    obtain keys' where rest: "open_counters provider_id account_class periods opened = (keys', counters')"
      and keys: "keys = bc_scope_key row # keys'"
      using 2(3) False by (auto simp: row_def opened_def Let_def split: prod.splits)
    have "ledger_ok claims opened"
      unfolding opened_def
      by (intro set_limit_ledger ensure_counter_ledger 2(4)) (simp add: row_def new_counter_def)
    then have IH: "ledger_ok claims counters' \<and> bc_scope_key ` set opened \<subseteq> bc_scope_key ` set counters'
        \<and> set keys' \<subseteq> bc_scope_key ` set counters'"
      using 2(2) [OF False row_def refl, folded opened_def, OF rest] by blast
    have "bc_scope_key ` set opened = insert (bc_scope_key row) (bc_scope_key ` set counters)"
      by (simp add: opened_def rows_update_image ensure_counter_image)
    with IH keys show ?thesis by auto
  qed
qed simp

subsection \<open>Charging\<close>

lemma charge_counters_rows:
  "list_all2 (\<lambda>c c'. \<exists>e. c' = (charged estimated c)\<lparr>bc_warning_emitted := e\<rparr>) cs
     (snd (charge_counters estimated ratio warning cs))"
  by (induction estimated ratio warning cs rule: charge_counters.induct)
     (auto simp: Let_def split: prod.splits)

lemma list_all2_in: "list_all2 P xs ys \<Longrightarrow> y \<in> set ys \<Longrightarrow> \<exists>x\<in>set xs. P x y"
  by (induction rule: list_all2_induct) auto

lemma map_key_row_put: "map key (row_put key r rows) = map key rows"
  by (auto simp: row_put_def rows_update_def)

lemma map_key_fold_put: "map key (fold (row_put key) rs rows) = map key rows"
  by (induction rs arbitrary: rows) (simp_all add: map_key_row_put)

lemma in_fold_put:
  assumes "x \<in> set (fold (row_put key) rs rows)"
  shows "x \<in> set rs \<or> x \<in> set rows \<and> key x \<notin> key ` set rs"
  using assms
proof (induction rs arbitrary: rows)
  case (Cons r rs)
  then have "x \<in> set rs \<or> x \<in> set (row_put key r rows) \<and> key x \<notin> key ` set rs" by simp
  then show ?case using in_row_put [of x key r rows] by auto
qed simp

lemma filter_key_single:
  "keys_distinct key rows \<Longrightarrow> x \<in> set rows \<Longrightarrow> filter (\<lambda>r. key r = key x) rows = [x]"
  by (induction rows) (auto simp: keys_distinct_def filter_empty_conv, metis imageI)

lemma counter_rows_spec:
  assumes "set keys \<subseteq> bc_scope_key ` set counters"
  shows "map bc_scope_key (counter_rows keys counters) = keys \<and> set (counter_rows keys counters) \<subseteq> set counters"
  using assms
proof (induction keys)
  case (Cons key keys)
  then obtain c where c: "row_get bc_scope_key key counters = Some c"
    by (cases "row_get bc_scope_key key counters") (auto simp: row_get_None)
  then show ?case using Cons row_get_Some [OF c] by (auto simp: counter_rows_def)
qed (simp add: counter_rows_def)

lemma new_claims_in_scope:
  assumes "keys_distinct bc_scope_key rows"
  shows "filter (\<lambda>claim. bl_scope_key claim = key) (map (new_claim dispatch_key run provider_id account_class estimated) rows) =
     (case row_get bc_scope_key key rows of None \<Rightarrow> [] | Some c \<Rightarrow> [new_claim dispatch_key run provider_id account_class estimated c])"
proof (cases "row_get bc_scope_key key rows")
  case None
  then have "\<forall>r\<in>set rows. bc_scope_key r \<noteq> key" by (simp add: row_get_None)
  with None show ?thesis by (auto simp: filter_empty_conv new_claim_def Let_def)
next
  case (Some c)
  have "bl_scope_key (new_claim dispatch_key run provider_id account_class estimated r) = bc_scope_key r" for r
    by (simp add: new_claim_def Let_def)
  with Some row_get_Some [OF Some] filter_key_single [OF assms, of c] show ?thesis
    by (simp add: filter_map o_def)
qed

lemma new_claim_charge [simp]:
  "claim_charge (new_claim dispatch_key run provider_id account_class estimated c) = estimated"
  "claim_roundings (new_claim dispatch_key run provider_id account_class estimated c) = 1"
  "bl_scope_key (new_claim dispatch_key run provider_id account_class estimated c) = bc_scope_key c"
  by (simp_all add: claim_charge_def claim_roundings_def new_claim_def Let_def)

lemma drift_step:
  fixes c :: rat
  assumes "\<bar>c - t\<bar> \<le> n / 2000000" and "\<bar>r - (c + e)\<bar> \<le> m / 2000000"
  shows "\<bar>r - (t + e)\<bar> \<le> (n + m) / 2000000"
  using assms unfolding add_divide_distrib by linarith

lemma charged_counter_ok:
  assumes "counter_ok claims c" and "0 \<le> estimated"
    and "filter (\<lambda>claim. bl_scope_key claim = bc_scope_key c) new = [claim]"
    and "claim_charge claim = estimated" and "claim_roundings claim = 1"
  shows "counter_ok (claims @ new) ((charged estimated c)\<lparr>bc_warning_emitted := e\<rparr>)"
proof -
  let ?key = "bc_scope_key c" and ?reserved = "bc_reserved_cost_usd c"
  have totals: "scope_total ?key (claims @ new) = scope_total ?key claims + estimated"
    "scope_roundings ?key (claims @ new) = scope_roundings ?key claims + 1"
    using assms(3-5) by (simp_all add: scope_total_def scope_roundings_def)
  have ok: "0 \<le> ?reserved" "\<bar>?reserved - scope_total ?key claims\<bar> \<le> scope_roundings ?key claims / 2000000"
    using assms(1) by (simp_all add: counter_ok_def)
  have "\<bar>round6 (?reserved + estimated) - (scope_total ?key claims + estimated)\<bar>
      \<le> (scope_roundings ?key claims + 1) / 2000000"
    by (rule drift_step [OF ok(2)]) (rule round6_error)
  moreover have "0 \<le> round6 (?reserved + estimated)" using ok(1) assms(2) by simp
  ultimately show ?thesis by (simp add: counter_ok_def charged_def totals)
qed

text \<open>Charging the opened counters and recording one claim for each keeps the invariant.\<close>

lemma charge_ledger:
  assumes ledger: "ledger_ok claims counters" and keys: "set keys \<subseteq> bc_scope_key ` set counters" "distinct keys"
    and estimated: "0 \<le> estimated"
    and charged: "charge_counters estimated ratio warning (counter_rows keys counters) = (w, rows)"
  shows "ledger_ok (claims @ map (new_claim dispatch_key run provider_id account_class estimated) rows)
           (fold (row_put bc_scope_key) rows counters)"
proof -
  let ?opened = "counter_rows keys counters" and ?new = "map (new_claim dispatch_key run provider_id account_class estimated) rows"
  have opened: "map bc_scope_key ?opened = keys" "set ?opened \<subseteq> set counters"
    using counter_rows_spec [OF keys(1)] by auto
  have rel: "list_all2 (\<lambda>c c'. \<exists>e. c' = (charged estimated c)\<lparr>bc_warning_emitted := e\<rparr>) ?opened rows"
    using charge_counters_rows [of estimated ?opened ratio warning] charged by simp
  then have "map bc_scope_key rows = map bc_scope_key ?opened"
    by (induction rule: list_all2_induct) (auto simp: charged_def)
  with opened(1) have same: "map bc_scope_key rows = keys" by simp
  have distinct: "keys_distinct bc_scope_key rows" using keys(2) same by (simp add: keys_distinct_def)
  have images: "bc_scope_key ` set (fold (row_put bc_scope_key) rows counters) = bc_scope_key ` set counters"
    using map_key_fold_put [of bc_scope_key rows counters] by (metis list.set_map)
  have charged_ok: "counter_ok (claims @ ?new) r" if r: "r \<in> set rows" for r
  proof -
    from rel r obtain c e where c: "c \<in> set ?opened" and r': "r = (charged estimated c)\<lparr>bc_warning_emitted := e\<rparr>"
      by (auto dest: list_all2_in)
    have key: "bc_scope_key c = bc_scope_key r" by (simp add: r' charged_def)
    have "row_get bc_scope_key (bc_scope_key r) rows = Some r" by (rule row_get_unique [OF distinct r])
    then have "filter (\<lambda>claim. bl_scope_key claim = bc_scope_key c) ?new = [new_claim dispatch_key run provider_id account_class estimated r]"
      unfolding key new_claims_in_scope [OF distinct] by simp
    moreover have "counter_ok claims c" using ledger c opened(2) by (auto simp: ledger_ok_def)
    ultimately show ?thesis unfolding r' by (intro charged_counter_ok estimated) auto
  qed
  have other_ok: "counter_ok (claims @ ?new) r" if r: "r \<in> set counters" "bc_scope_key r \<notin> bc_scope_key ` set rows" for r
  proof -
    have "row_get bc_scope_key (bc_scope_key r) rows = None" using r(2) by (force simp: row_get_None image_iff)
    then have "filter (\<lambda>claim. bl_scope_key claim = bc_scope_key r) ?new = []"
      by (simp add: new_claims_in_scope [OF distinct])
    moreover have "counter_ok claims r" using ledger r(1) by (simp add: ledger_ok_def)
    ultimately show ?thesis by (simp add: counter_ok_def scope_total_def scope_roundings_def)
  qed
  have "keys_distinct bc_scope_key (fold (row_put bc_scope_key) rows counters)"
    using ledger by (simp add: ledger_ok_def keys_distinct_def map_key_fold_put)
  moreover have "bl_scope_key claim \<in> bc_scope_key ` set counters" if "claim \<in> set (claims @ ?new)" for claim
  proof (cases "claim \<in> set claims")
    case True
    then show ?thesis using ledger by (simp add: ledger_ok_def)
  next
    case False
    with that obtain r where "r \<in> set rows" "claim = new_claim dispatch_key run provider_id account_class estimated r" by auto
    then have "bl_scope_key claim \<in> set keys" using same by auto
    then show ?thesis using keys(1) by blast
  qed
  moreover have "counter_ok (claims @ ?new) c" if "c \<in> set (fold (row_put bc_scope_key) rows counters)" for c
    using in_fold_put [OF that] charged_ok other_ok by blast
  ultimately show ?thesis unfolding ledger_ok_def images by blast
qed

subsection \<open>The commands\<close>

lemma estimate_positive:
  assumes "estimate_dispatch_cost request config = Return estimated"
  shows "0 < estimated"
  using assms
  by (auto simp: estimate_dispatch_cost_def Let_def and_then_Return estimate_token_cost_def split: if_splits prod.splits)

lemma budget_keys_distinct:
  "distinct (fst (open_counters provider_id account_class (budget_periods now daily_limit monthly_limit) counters))"
  by (auto simp: open_counters_keys budget_periods_def Let_def scope_key_of_def split: prod.splits)

lemma claim_counters_keeps_inv:
  assumes inv: "budget_inv db" and estimated: "0 \<le> estimated"
  shows "budget_inv (snd (claim_counters now run provider_id account_class dispatch_key daily_limit monthly_limit
                            ratio estimated db))"
proof -
  obtain keys counters where opened: "open_counters provider_id account_class
      (budget_periods now daily_limit monthly_limit) (bd_counters db) = (keys, counters)" by fastforce
  obtain w rows where charged: "charge_counters estimated ratio False (counter_rows keys counters) = (w, rows)"
    by fastforce
  have ledger: "ledger_ok (bd_claims db) (bd_counters db)" using inv by (simp add: budget_inv_def)
  have spec: "ledger_ok (bd_claims db) counters" "set keys \<subseteq> bc_scope_key ` set counters"
    using open_counters_spec [OF opened ledger] by blast+
  have keys: "distinct keys"
    using budget_keys_distinct [of provider_id account_class now daily_limit monthly_limit "bd_counters db"] opened by simp
  have inv': "budget_inv (db\<lparr>bd_counters := counters\<rparr>)" using inv spec(1) by (simp add: budget_inv_def)
  have new: "claim_ok (new_claim dispatch_key run provider_id account_class estimated c)" for c
    using estimated by (simp add: claim_ok_def claim_charge_def new_claim_def Let_def)
  show ?thesis
  proof (cases "list_ex (exhausted estimated) (counter_rows keys counters)")
    case True
    then show ?thesis using inv' by (simp add: claim_counters_def opened)
  next
    case False
    show ?thesis
    proof (cases "insert_claims (map (new_claim dispatch_key run provider_id account_class estimated) rows) (bd_claims db)")
      case None
      then show ?thesis using inv False by (simp add: claim_counters_def opened charged Let_def)
    next
      case (Some claims)
      then have claims: "claims = bd_claims db @ map (new_claim dispatch_key run provider_id account_class estimated) rows"
        and distinct: "keys_distinct bl_claim_id claims" "keys_distinct bl_dispatch_key claims"
        by (auto simp: insert_claims_def keys_distinct_def split: if_splits)
      have "ledger_ok claims (fold (row_put bc_scope_key) rows counters)"
        unfolding claims by (rule charge_ledger [OF spec(1) spec(2) keys estimated charged])
      moreover have "\<forall>claim\<in>set claims. claim_ok claim" using inv new by (auto simp: claims budget_inv_def)
      ultimately show ?thesis
        using Some False distinct by (simp add: claim_counters_def opened charged Let_def budget_inv_def)
    qed
  qed
qed

text \<open>A claim either leaves the tables alone or goes through the counters.\<close>

lemma claim_cases:
  obtains (unchanged) "snd (claim_before_dispatch now run provider_id model_id request db) = db"
  | (counters) config account_class daily_limit monthly_limit estimated where
      "spend_limits provider_id db = Return (Some (config, account_class, daily_limit, monthly_limit))"
      "estimate_dispatch_cost request config = Return estimated"
      "existing_claims (dispatch_key_of run provider_id model_id (pq_retry_count request)) (bd_claims db) = []"
      "claim_before_dispatch now run provider_id model_id request db =
         claim_counters now run provider_id account_class
           (dispatch_key_of run provider_id model_id (pq_retry_count request)) daily_limit monthly_limit
           (warning_ratio config) estimated db"
proof (cases "spend_limits provider_id db")
  case (Inl fault)
  then show thesis by (intro unchanged) (simp add: claim_before_dispatch_def)
next
  case (Inr limits)
  show thesis
  proof (cases limits)
    case None
    then show thesis using Inr by (intro unchanged) (simp add: claim_before_dispatch_def)
  next
    case (Some limit)
    obtain config account_class daily_limit monthly_limit
      where limit: "limit = (config, account_class, daily_limit, monthly_limit)" by (metis prod.exhaust)
    show thesis
      using Inr Some limit unchanged counters
      by (cases "estimate_dispatch_cost request config")
         (fastforce simp: claim_before_dispatch_def Let_def)+
  qed
qed

lemma claim_keeps_inv:
  assumes "budget_inv db"
  shows "budget_inv (snd (claim_before_dispatch now run provider_id model_id request db))"
proof (rule claim_cases [of now run provider_id model_id request db])
  fix config account_class daily_limit monthly_limit estimated
  assume "estimate_dispatch_cost request config = Return estimated"
    and "claim_before_dispatch now run provider_id model_id request db =
      claim_counters now run provider_id account_class
        (dispatch_key_of run provider_id model_id (pq_retry_count request)) daily_limit monthly_limit
        (warning_ratio config) estimated db"
  then show ?thesis using claim_counters_keeps_inv [OF assms] estimate_positive by (simp add: less_imp_le)
qed (simp add: assms)

lemma map_row_put:
  assumes "keys_distinct key rows" and "r \<in> set rows" and "key r' = key r" and "f r' = f r"
  shows "map f (row_put key r' rows) = map f rows"
  using keys_distinct_inj [OF assms(1) _ assms(2)] assms(3,4)
  by (auto simp: row_put_def rows_update_def)

lemma row_put_fresh: "key r' \<notin> key ` set rows \<Longrightarrow> row_put key r' rows = rows"
  unfolding row_put_def by (rule rows_update_id) (metis imageI)

lemma row_put_Cons:
  "row_put key r' (x # rows) = (if key x = key r' then r' else x) # row_put key r' rows"
  by (simp add: row_put_def rows_update_def)

lemma sum_filter_put:
  fixes f :: "'r \<Rightarrow> rat"
  assumes "keys_distinct key rows" and "r \<in> set rows" and "key r' = key r"
  shows "sum_list (map f (filter P (row_put key r' rows))) =
     sum_list (map f (filter P rows)) - (if P r then f r else 0) + (if P r' then f r' else 0)"
  using assms
proof (induction rows)
  case (Cons x rows)
  have fresh: "key x \<notin> key ` set rows" using Cons.prems(1) by (simp add: keys_distinct_def)
  show ?case
  proof (cases "x = r")
    case True
    then have "row_put key r' rows = rows" using fresh Cons.prems(3) by (intro row_put_fresh) simp
    then show ?thesis using True Cons.prems(3) by (simp add: row_put_Cons)
  next
    case False
    then have r: "r \<in> set rows" using Cons.prems(2) by simp
    then have "key x \<noteq> key r" using fresh by (metis imageI)
    then show ?thesis
      using Cons.IH [OF _ r Cons.prems(3)] Cons.prems(1,3) by (simp add: row_put_Cons keys_distinct_def)
  qed
qed simp

lemma member_le_sum:
  fixes f :: "'r \<Rightarrow> rat"
  shows "x \<in> set xs \<Longrightarrow> \<forall>y\<in>set xs. 0 \<le> f y \<Longrightarrow> f x \<le> sum_list (map f xs)"
proof (induction xs)
  case (Cons y ys)
  have "0 \<le> sum_list (map f ys)" using Cons.prems(2) by (intro sum_list_nonneg) auto
  then show ?case using Cons by auto
qed simp

lemma charge_le_total:
  assumes "\<forall>claim\<in>set claims. claim_ok claim" and "claim \<in> set claims"
  shows "claim_charge claim \<le> scope_total (bl_scope_key claim) claims"
  unfolding scope_total_def
  by (rule member_le_sum) (use assms in \<open>auto simp: claim_ok_def\<close>)

lemma reconcile_drift:
  fixes c :: rat
  assumes drift: "\<bar>c - t\<bar> \<le> n / 2000000" and "reserved \<le> t" and "0 \<le> reserved" and "0 \<le> actual"
  shows "\<bar>round6 (max 0 (c - max 0 reserved + actual)) - (t - reserved + round6 actual)\<bar> \<le> (n + 2) / 2000000"
proof -
  define x where "x = max 0 (c - max 0 reserved + actual)"
  have "\<bar>x - (t - reserved + actual)\<bar> \<le> \<bar>c - t\<bar>" using assms(2-4) by (auto simp: x_def max_def abs_if)
  moreover have "\<bar>round6 x - x\<bar> \<le> 1 / 2000000" "\<bar>round6 actual - actual\<bar> \<le> 1 / 2000000"
    by (rule round6_error)+
  ultimately show ?thesis using drift unfolding x_def [symmetric] add_divide_distrib by linarith
qed

lemma reconciled_claim_simps [simp]:
  "bl_claim_id (reconciled_claim now actual claim) = bl_claim_id claim"
  "bl_dispatch_key (reconciled_claim now actual claim) = bl_dispatch_key claim"
  "bl_scope_key (reconciled_claim now actual claim) = bl_scope_key claim"
  "claim_charge (reconciled_claim now actual claim) = round6 actual"
  "claim_roundings (reconciled_claim now actual claim) = 3"
  by (simp_all add: reconciled_claim_def claim_charge_def claim_roundings_def)

text \<open>Settling one claim replaces its reservation by its cost, in the claim and in the counter.\<close>

lemma settle_ledger:
  assumes ledger: "ledger_ok claims counters" and claims: "keys_distinct bl_claim_id claims"
      "\<forall>claim\<in>set claims. claim_ok claim"
    and claim: "claim \<in> set claims" "bl_status claim \<noteq> ''reconciled''" and actual: "0 \<le> actual"
    and counter: "row_get bc_scope_key (bl_scope_key claim) counters = Some counter"
  shows "ledger_ok (row_put bl_claim_id (reconciled_claim now actual claim) claims)
           (row_put bc_scope_key (settled_counter (bl_reserved_cost_usd claim) actual counter) counters)"
proof -
  let ?claims = "row_put bl_claim_id (reconciled_claim now actual claim) claims"
  let ?counter = "settled_counter (bl_reserved_cost_usd claim) actual counter"
  have c: "counter \<in> set counters" "bc_scope_key counter = bl_scope_key claim" using row_get_Some [OF counter] by simp_all
  have key: "bc_scope_key ?counter = bc_scope_key counter" by (simp add: settled_counter_def)
  have ok: "0 \<le> bl_reserved_cost_usd claim" "claim_charge claim = bl_reserved_cost_usd claim" "claim_roundings claim = 1"
    using claims(2) claim by (auto simp: claim_ok_def claim_charge_def claim_roundings_def)
  have total: "scope_total k ?claims = scope_total k claims
      - (if bl_scope_key claim = k then bl_reserved_cost_usd claim else 0) + (if bl_scope_key claim = k then round6 actual else 0)" for k
    unfolding scope_total_def using sum_filter_put [OF claims(1) claim(1), of "reconciled_claim now actual claim"] ok by simp
  have roundings: "scope_roundings k ?claims = scope_roundings k claims + (if bl_scope_key claim = k then 2 else 0)" for k
    unfolding scope_roundings_def using sum_filter_put [OF claims(1) claim(1), of "reconciled_claim now actual claim"] ok by simp
  have "counter_ok claims counter" using ledger c(1) by (simp add: ledger_ok_def)
  then have drift: "\<bar>bc_reserved_cost_usd counter - scope_total (bl_scope_key claim) claims\<bar>
      \<le> scope_roundings (bl_scope_key claim) claims / 2000000"
    by (simp add: counter_ok_def c(2))
  have settled: "counter_ok ?claims ?counter"
    using reconcile_drift [OF drift _ ok(1) actual] charge_le_total [OF claims(2) claim(1)] ok(2)
    by (simp add: counter_ok_def total roundings settled_counter_def c(2))
  have others: "counter_ok ?claims x" if "x \<in> set counters" "bc_scope_key x \<noteq> bl_scope_key claim" for x
    using ledger that by (simp add: counter_ok_def total roundings ledger_ok_def)
  have images: "bc_scope_key ` set (row_put bc_scope_key ?counter counters) = bc_scope_key ` set counters"
    using map_key_row_put [of bc_scope_key ?counter counters] by (metis list.set_map)
  have "bl_scope_key x \<in> bc_scope_key ` set counters" if "x \<in> set ?claims" for x
    using in_row_put [OF that] ledger claim(1) by (auto simp: ledger_ok_def)
  moreover have "counter_ok ?claims x" if "x \<in> set (row_put bc_scope_key ?counter counters)" for x
    using in_row_put [OF that] settled others by (auto simp: key c(2))
  ultimately show ?thesis using ledger row_put_distinct [of bc_scope_key counters ?counter]
    by (simp add: ledger_ok_def images)
qed

lemma reconcile_claim_keeps_inv:
  assumes inv: "budget_inv db"
  shows "budget_inv (reconcile_claim now actual_cost_usd claim_id db)"
proof (cases "row_get bl_claim_id claim_id (bd_claims db)")
  case None
  then show ?thesis using inv by (simp add: reconcile_claim_def)
next
  case (Some claim)
  have claim: "claim \<in> set (bd_claims db)" using row_get_Some [OF Some] by simp
  have parts: "ledger_ok (bd_claims db) (bd_counters db)" "keys_distinct bl_claim_id (bd_claims db)"
      "keys_distinct bl_dispatch_key (bd_claims db)" "\<forall>claim\<in>set (bd_claims db). claim_ok claim"
    using inv by (simp_all add: budget_inv_def)
  show ?thesis
  proof (cases "bl_status claim = ''reconciled''")
    case True
    then show ?thesis using inv Some by (simp add: reconcile_claim_def)
  next
    case False
    define actual where "actual = (case actual_cost_usd of None \<Rightarrow> bl_reserved_cost_usd claim | Some c \<Rightarrow> max 0 c)"
    have actual: "0 \<le> actual" using parts(4) claim by (auto simp: actual_def claim_ok_def split: option.splits)
    obtain counter where counter: "row_get bc_scope_key (bl_scope_key claim) (bd_counters db) = Some counter"
      using parts(1) claim
      by (cases "row_get bc_scope_key (bl_scope_key claim) (bd_counters db)") (force simp: ledger_ok_def row_get_None)+
    let ?claims = "row_put bl_claim_id (reconciled_claim now actual claim) (bd_claims db)"
    have "claim_ok (reconciled_claim now actual claim)"
      using parts(4) [rule_format, OF claim] actual round6_nonneg [OF actual]
      by (simp add: claim_ok_def reconciled_claim_def claim_charge_def)
    then have "\<forall>c\<in>set ?claims. claim_ok c" using parts(4) by (auto dest: in_row_put)
    moreover have "map bl_dispatch_key ?claims = map bl_dispatch_key (bd_claims db)"
      by (rule map_row_put [OF parts(2) claim]) simp_all
    moreover have "reconcile_claim now actual_cost_usd claim_id db =
        db\<lparr>bd_counters := row_put bc_scope_key (settled_counter (bl_reserved_cost_usd claim) actual counter)
              (bd_counters db), bd_claims := ?claims\<rparr>"
      using Some False counter by (simp add: reconcile_claim_def actual_def [symmetric] Let_def)
    moreover note settle_ledger [OF parts(1,2,4) claim False actual counter]
    moreover have "keys_distinct bl_claim_id ?claims" using parts(2) by (rule row_put_distinct)
    ultimately show ?thesis using parts(3) by (simp add: budget_inv_def keys_distinct_def)
  qed
qed

lemma reconcile_keeps_inv: "budget_inv db \<Longrightarrow> budget_inv (reconcile now claim_ids actual_cost_usd db)"
  unfolding reconcile_def by (induction claim_ids arbitrary: db) (simp_all add: reconcile_claim_keeps_inv)

subsection \<open>The spend fuse as a shared system\<close>

text \<open>Any session may claim, settle or reconfigure at any time.\<close>

inductive budget_step :: "budget_db \<Rightarrow> budget_db \<Rightarrow> bool" where
  claim: "budget_step db (snd (claim_before_dispatch now run provider_id model_id request db))"
| settle: "budget_step db (reconcile now claim_ids actual_cost_usd db)"
| configure: "budget_step db (db\<lparr>bd_setting := setting, bd_connections := connections\<rparr>)"

inductive_cases budget_stepE: "budget_step db db'"

definition budget_init :: "budget_db \<Rightarrow> bool" where
  "budget_init db = (bd_counters db = [] \<and> bd_claims db = [])"

interpretation spend: invariant_system budget_init budget_step budget_inv
proof
  fix db
  assume "budget_init db"
  then show "budget_inv db" by (simp add: budget_init_def budget_inv_def ledger_ok_def keys_distinct_def)
next
  fix db db'
  assume inv: "budget_inv db" and "budget_step db db'"
  then show "budget_inv db'"
  proof (elim budget_stepE)
    fix setting connections
    assume "db' = db\<lparr>bd_setting := setting, bd_connections := connections\<rparr>"
    with inv show ?thesis by (simp add: budget_inv_def)
  qed (simp_all add: inv claim_keeps_inv reconcile_keeps_inv)
qed

subsection \<open>A fresh claim stays within the limits\<close>

lemma open_counters_limits:
  assumes "open_counters provider_id account_class periods counters = (keys, counters')"
    and "\<forall>c\<in>set counters. bc_scope_key c \<in> K \<longrightarrow> bc_limit_cost_usd c \<in> L"
  shows "\<forall>c\<in>set counters'. bc_scope_key c \<in> K \<union> set keys
           \<longrightarrow> bc_limit_cost_usd c \<in> L \<union> (\<lambda>(_, _, _, limit). limit) ` set periods"
  using assms
proof (induction provider_id account_class periods counters arbitrary: keys counters' K L
    rule: open_counters.induct)
  case (2 provider_id account_class kind start till limit periods counters)
  show ?case
  proof (cases "limit \<le> 0")
    case True
    have eq: "open_counters provider_id account_class periods counters = (keys, counters')"
      using 2(3) True by simp
    show ?thesis using 2(1) [OF True eq 2(4)] by auto
  next
    case False
    define row where "row = new_counter provider_id account_class kind start till limit"
    define opened where "opened = rows_update (\<lambda>c. bc_scope_key c = bc_scope_key row)
      (\<lambda>c. c\<lparr>bc_limit_cost_usd := limit\<rparr>) (ensure_counter row counters)"
    obtain keys' where rest: "open_counters provider_id account_class periods opened = (keys', counters')"
      and keys: "keys = bc_scope_key row # keys'"
      using 2(3) False by (auto simp: row_def opened_def Let_def split: prod.splits)
    have "bc_limit_cost_usd c \<in> insert limit L" if c: "c \<in> set opened" "bc_scope_key c \<in> insert (bc_scope_key row) K" for c
    proof -
      obtain r where r: "r \<in> set (ensure_counter row counters)"
          "c = (if bc_scope_key r = bc_scope_key row then r\<lparr>bc_limit_cost_usd := limit\<rparr> else r)"
        using c(1) by (auto simp: opened_def in_rows_update)
      show ?thesis
      proof (cases "bc_scope_key r = bc_scope_key row")
        case False
        then have "r \<in> set counters" "c = r" using r by (auto simp: ensure_counter_def split: if_splits)
        then show ?thesis using 2(4) c(2) False by auto
      qed (simp add: r(2))
    qed
    then have "\<forall>c\<in>set opened. bc_scope_key c \<in> insert (bc_scope_key row) K \<longrightarrow> bc_limit_cost_usd c \<in> insert limit L"
      by blast
    from 2(2) [OF False row_def refl, folded opened_def, OF rest this]
    show ?thesis by (simp add: keys Un_insert_left insert_commute)
  qed
qed auto

lemma budget_periods_limits:
  "(\<lambda>(_, _, _, limit). limit) ` set (budget_periods now daily_limit monthly_limit) = {daily_limit, monthly_limit}"
  by (cases "civil_from_days (now div seconds 86400)") (simp add: budget_periods_def Let_def insert_commute)

lemma fold_put_other: "y \<in> set rows \<Longrightarrow> key y \<notin> key ` set rs \<Longrightarrow> y \<in> set (fold (row_put key) rs rows)"
proof (induction rs arbitrary: rows)
  case (Cons r rs)
  then have "y \<in> set (row_put key r rows)" by (force simp: row_put_def in_rows_update)
  with Cons show ?case by simp
qed simp

lemma fold_put_member:
  "r \<in> set rs \<Longrightarrow> keys_distinct key rs \<Longrightarrow> key r \<in> key ` set rows \<Longrightarrow> r \<in> set (fold (row_put key) rs rows)"
proof (induction rs arbitrary: rows)
  case (Cons x rs)
  have images: "key ` set (row_put key x rows) = key ` set rows"
    using map_key_row_put [of key x rows] by (metis list.set_map)
  show ?case
  proof (cases "r = x")
    case True
    then have "x \<in> set (row_put key x rows)" using Cons.prems(3) by (force simp: row_put_def in_rows_update)
    then show ?thesis using True Cons.prems(2) by (simp add: fold_put_other keys_distinct_def)
  next
    case False
    then show ?thesis using Cons images by (simp add: keys_distinct_def)
  qed
qed simp

lemma charge_counters_charged:
  assumes "charge_counters estimated ratio w cs = (w', rows)" and "r \<in> set rows"
  obtains c e where "c \<in> set cs" "r = (charged estimated c)\<lparr>bc_warning_emitted := e\<rparr>"
  using charge_counters_rows [of estimated cs ratio w] assms by (auto dest: list_all2_in)

text \<open>Every counter a fresh claim charges ends within its limit, up to the rounding of one write, and the
  limit is the one configured now.\<close>

lemma claim_counters_limit:
  assumes claim: "claim_counters now run provider_id account_class dispatch_key daily_limit monthly_limit ratio
                    estimated db = (Return (Some receipt), db')"
    and ledger: "ledger_ok claims (bd_counters db)" and id: "claim_id \<in> set (cr_claim_ids receipt)"
  shows "\<exists>claim\<in>set (bd_claims db'). bl_claim_id claim = claim_id \<and> bl_reserved_cost_usd claim = estimated
     \<and> (\<exists>c\<in>set (bd_counters db'). bc_scope_key c = bl_scope_key claim
          \<and> bc_limit_cost_usd c \<in> {daily_limit, monthly_limit}
          \<and> bc_reserved_cost_usd c \<le> bc_limit_cost_usd c + 1 / 2000000)"
proof -
  obtain keys counters where opened: "open_counters provider_id account_class
      (budget_periods now daily_limit monthly_limit) (bd_counters db) = (keys, counters)" by fastforce
  obtain w rows where charges: "charge_counters estimated ratio False (counter_rows keys counters) = (w, rows)" by fastforce
  have keys: "set keys \<subseteq> bc_scope_key ` set counters" using open_counters_spec [OF opened ledger] by blast
  note rows = counter_rows_spec [OF keys]
  have limits: "\<forall>c\<in>set counters. bc_scope_key c \<in> set keys \<longrightarrow> bc_limit_cost_usd c \<in> {daily_limit, monthly_limit}"
    using open_counters_limits [OF opened, of "{}" "{}"] by (simp add: budget_periods_limits)
  have fits: "\<not> list_ex (exhausted estimated) (counter_rows keys counters)"
    and receipt: "cr_claim_ids receipt = map bl_claim_id (map (new_claim dispatch_key run provider_id account_class estimated) rows)"
    and claims: "bd_claims db' = bd_claims db @ map (new_claim dispatch_key run provider_id account_class estimated) rows"
    and counters': "bd_counters db' = fold (row_put bc_scope_key) rows counters"
    using claim by (auto simp: claim_counters_def opened charges Let_def insert_claims_def split: if_splits option.splits)
  obtain r where r: "r \<in> set rows" "claim_id = bl_claim_id (new_claim dispatch_key run provider_id account_class estimated r)"
    using id by (auto simp: receipt)
  obtain c e where c: "c \<in> set (counter_rows keys counters)" "r = (charged estimated c)\<lparr>bc_warning_emitted := e\<rparr>"
    by (rule charge_counters_charged [OF charges r(1)])
  have "bc_scope_key c \<in> set keys" using rows c(1) by (metis imageI list.set_map)
  then have limit: "bc_limit_cost_usd r \<in> {daily_limit, monthly_limit}"
    using limits rows c by (auto simp: charged_def)
  have "bc_reserved_cost_usd c + estimated \<le> bc_limit_cost_usd c"
    using fits c(1) by (auto simp: list_ex_iff exhausted_def not_less)
  moreover have "\<bar>round6 (bc_reserved_cost_usd c + estimated) - (bc_reserved_cost_usd c + estimated)\<bar> \<le> 1 / 2000000"
    by (rule round6_error)
  ultimately have "round6 (bc_reserved_cost_usd c + estimated) \<le> bc_limit_cost_usd c + 1 / 2000000" by linarith
  then have within: "bc_reserved_cost_usd r \<le> bc_limit_cost_usd r + 1 / 2000000"
    by (simp add: c(2) charged_def)
  have "list_all2 (\<lambda>c c'. \<exists>e. c' = (charged estimated c)\<lparr>bc_warning_emitted := e\<rparr>) (counter_rows keys counters) rows"
    using charge_counters_rows [of estimated "counter_rows keys counters" ratio False] charges by simp
  then have "map bc_scope_key rows = map bc_scope_key (counter_rows keys counters)"
    by (induction rule: list_all2_induct) (auto simp: charged_def)
  moreover have "distinct keys"
    using budget_keys_distinct [of provider_id account_class now daily_limit monthly_limit "bd_counters db"] opened by simp
  ultimately have "keys_distinct bc_scope_key rows" "bc_scope_key r \<in> bc_scope_key ` set counters"
    using rows keys r(1) by (auto simp: keys_distinct_def)
  then have "r \<in> set (bd_counters db')" unfolding counters' using r(1) by (intro fold_put_member) simp_all
  moreover have "new_claim dispatch_key run provider_id account_class estimated r \<in> set (bd_claims db')" using r(1) by (simp add: claims)
  ultimately show ?thesis
    using limit within r(2) by (intro bexI [of _ "new_claim dispatch_key run provider_id account_class estimated r"] conjI bexI [of _ r])
      (simp_all add: new_claim_def Let_def)
qed

end
