(* ===== verification/ProviderExecution.thy ===== *)
theory ProviderExecution
  imports RunLifecycle ProviderLedger
begin

section \<open>Executing a run against its candidates (app/domain/runtime/provider\_execution.py)\<close>

text \<open>
  A run has a list of routing candidates.  Each candidate is tried up to \<open>max_retries + 1\<close> times; a
  failure is retried, passed on to the next candidate, or ends the run, as its error and the taxonomy
  say.  Every request passes the spend fuse and the context check first, and the session commits before
  it leaves.

  The collaborators of the service are arguments: the provider adapters, the input preprocessor, the
  output preparer and the output finalizer.  While a request is out, other sessions may commit changes
  to the runs and to the spend tables; \<open>env_others n\<close> is what they do during the \<open>n\<close>-th request.  The calls
  of the usage recorder and the requests handed to adapters are kept as logs.
\<close>

subsection \<open>Data\<close>

record candidate =
  cd_provider_id :: string
  cd_model_id :: string
  cd_instance_id :: string
  cd_endpoint_variant :: string
  cd_region :: string
  cd_context_window :: "int option"
  cd_price_input :: "rat option"
  cd_price_output :: "rat option"
  cd_price_cache_read :: "rat option"
  cd_price_cache_write :: "rat option"

record output_decision =
  od_accepted :: bool
  od_output :: json_dict
  od_error_code :: string
  od_error_message :: string
  od_usage_context :: json_dict

record evidence_command =
  ev_provider_id :: string
  ev_model_id :: string
  ev_instance_id :: string
  ev_region :: string
  ev_latency_ms :: int
  ev_tokens_in :: int
  ev_tokens_out :: int
  ev_cost :: rat
  ev_retry_count :: int
  ev_fallback_used :: bool
  ev_error_code :: "string option"
  ev_budget_claim_ids :: "string list"

text \<open>A request handed to an adapter: to whom, what, the reply, and the spend tables as committed when
  it left.\<close>

record sent_request =
  sr_provider_id :: string
  sr_request :: provider_request
  sr_reply :: "(call_fault, provider_result) outcome"
  sr_budget :: budget_db

record stored =
  st_runs :: run_table
  st_calls :: "provider_call list"
  st_budget :: budget_db
  st_usage :: "(provider_call \<times> json_dict option) list"

text \<open>The session's view, what it last committed, the number of clock reads and the requests sent.\<close>

record exec_state =
  es_now :: stored
  es_committed :: stored
  es_ticks :: nat
  es_sent :: "sent_request list"

text \<open>The reply of an adapter may depend on how many requests were sent before.\<close>

record environment =
  env_clock :: "nat \<Rightarrow> instant"
  env_providers :: "string \<Rightarrow> (nat \<Rightarrow> provider_request \<Rightarrow> (call_fault, provider_result) outcome) option"
  env_others :: "nat \<Rightarrow> run_table \<times> budget_db \<Rightarrow> run_table \<times> budget_db"
  env_budget_guard :: bool
  env_preprocess :: "json_dict \<Rightarrow> json_dict \<Rightarrow> stored \<Rightarrow> json_dict \<times> stored"
  env_prepare :: "json_dict \<Rightarrow> json_dict \<Rightarrow> stored \<Rightarrow> output_decision \<times> stored"
  env_finalize :: "json_dict \<Rightarrow> json_dict \<Rightarrow> media_candidate list \<Rightarrow> json_dict \<Rightarrow> stored
      \<Rightarrow> (string \<times> string, json_dict) outcome \<times> stored"
  env_float_text :: "rat \<Rightarrow> string"

subsection \<open>The session\<close>

definition read_clock :: "environment \<Rightarrow> exec_state \<Rightarrow> instant \<times> exec_state" where
  "read_clock env st = (env_clock env (es_ticks st), st\<lparr>es_ticks := Suc (es_ticks st)\<rparr>)"

definition on_stored :: "(stored \<Rightarrow> stored) \<Rightarrow> exec_state \<Rightarrow> exec_state" where
  "on_stored f st = st\<lparr>es_now := f (es_now st)\<rparr>"

definition commit :: "exec_state \<Rightarrow> exec_state" where
  "commit st = st\<lparr>es_committed := es_now st\<rparr>"

text \<open>An exception that leaves the service ends the session without a commit.\<close>

definition rollback :: "exec_state \<Rightarrow> exec_state" where
  "rollback st = st\<lparr>es_now := es_committed st\<rparr>"

definition current_run :: "run_record \<Rightarrow> exec_state \<Rightarrow> run_record" where
  "current_run run st = (case get_run_row (r_run_id run) (st_runs (es_now st)) of None \<Rightarrow> run | Some r \<Rightarrow> r)"

definition write_run :: "run_record \<Rightarrow> (run_record \<Rightarrow> run_record) \<Rightarrow> exec_state \<Rightarrow> exec_state" where
  "write_run run f st =
     on_stored (\<lambda>s. s\<lparr>st_runs := rows_update (\<lambda>r. r_run_id r = r_run_id run) f (st_runs s)\<rparr>) st"

subsection \<open>The run controller (run\_lifecycle.py)\<close>

definition check_cancel :: "environment \<Rightarrow> run_record \<Rightarrow> exec_state \<Rightarrow> bool \<times> exec_state" where
  "check_cancel env run st =
     (let (canceled, runs) = cancel_if_requested (env_clock env (es_ticks st)) (r_run_id run) (st_runs (es_now st))
      in (canceled, (on_stored (\<lambda>s. s\<lparr>st_runs := runs\<rparr>) st)
                      \<lparr>es_ticks := (if canceled then Suc (es_ticks st) else es_ticks st)\<rparr>))"

definition fail_run :: "environment \<Rightarrow> run_record \<Rightarrow> string \<Rightarrow> string \<Rightarrow> string option \<Rightarrow> string option
    \<Rightarrow> string option \<Rightarrow> bool option \<Rightarrow> exec_state \<Rightarrow> exec_state" where
  "fail_run env run error_code error_message provider_id model_id instance_id fallback_used st =
     (let (now, st) = read_clock env st in
      write_run run (mark_run_failed now error_code error_message provider_id model_id instance_id fallback_used) st)"

definition succeed_run :: "environment \<Rightarrow> run_record \<Rightarrow> json_dict \<Rightarrow> string \<Rightarrow> string \<Rightarrow> string \<Rightarrow> bool
    \<Rightarrow> exec_state \<Rightarrow> exec_state" where
  "succeed_run env run result_json provider_id model_id instance_id fallback_used st =
     (let (now, st) = read_clock env st in
      write_run run (mark_run_succeeded now result_json provider_id model_id instance_id fallback_used) st)"

subsection \<open>Evidence of a call\<close>

text \<open>\<open>RuntimeRepository.record_provider_call\<close>; the database numbers the rows and dates them.\<close>

definition next_call_id :: "provider_call list \<Rightarrow> int" where
  "next_call_id calls = 1 + fold max (map pc_id calls) 0"

definition new_provider_call :: "instant \<Rightarrow> int \<Rightarrow> string \<Rightarrow> evidence_command \<Rightarrow> provider_call" where
  "new_provider_call now call_id run_id c =
     \<lparr>pc_id = call_id, pc_run_id = run_id, pc_provider_id = ev_provider_id c, pc_model_id = ev_model_id c,
      pc_instance_id = ev_instance_id c, pc_region = ev_region c, pc_latency_ms = ev_latency_ms c,
      pc_tokens_in = ev_tokens_in c, pc_tokens_out = ev_tokens_out c, pc_cost = ev_cost c,
      pc_retry_count = ev_retry_count c, pc_fallback_used = ev_fallback_used c,
      pc_error_code = ev_error_code c, pc_created_at = now\<rparr>"

definition unknown_cost_codes :: "string list" where
  "unknown_cost_codes =
     [''provider.timeout'', ''provider.network_error'', ''provider.upstream_error'', ''provider.upstream_unavailable'']"

definition evidence_cost :: "evidence_command \<Rightarrow> json_dict option \<Rightarrow> rat option" where
  "evidence_cost c usage_context =
     (if or_empty (ev_error_code c) \<in> set unknown_cost_codes then None
      else known_provider_cost_usd (ev_cost c)
             (str_or_empty (py_get (case usage_context of None \<Rightarrow> [] | Some d \<Rightarrow> d) ''cost_estimate_mode'')))"

definition record_provider_call ::
    "environment \<Rightarrow> run_record \<Rightarrow> evidence_command \<Rightarrow> json_dict option \<Rightarrow> exec_state \<Rightarrow> exec_state" where
  "record_provider_call env run c usage_context st =
     (let (now, st) = read_clock env st;
          st = on_stored (\<lambda>s.
                 (let call = new_provider_call now (next_call_id (st_calls s)) (r_run_id run) c in
                  s\<lparr>st_calls := st_calls s @ [call], st_usage := st_usage s @ [(call, usage_context)]\<rparr>)) st
      in if env_budget_guard env \<and> ev_budget_claim_ids c \<noteq> []
         then (let (now, st) = read_clock env st in
               on_stored (\<lambda>s. s\<lparr>st_budget :=
                 reconcile now (ev_budget_claim_ids c) (evidence_cost c usage_context) (st_budget s)\<rparr>) st)
         else st)"

definition record_attempt_error ::
    "environment \<Rightarrow> run_record \<Rightarrow> candidate \<Rightarrow> int \<Rightarrow> bool \<Rightarrow> int \<Rightarrow> provider_error \<Rightarrow> string list
      \<Rightarrow> exec_state \<Rightarrow> exec_state" where
  "record_attempt_error env run cand retry_count fallback_used timeout_ms error claim_ids st =
     record_provider_call env run
       \<lparr>ev_provider_id = cd_provider_id cand, ev_model_id = cd_model_id cand,
        ev_instance_id = cd_instance_id cand, ev_region = cd_region cand,
        ev_latency_ms = (if pe_error_code error = ''provider.timeout'' then timeout_ms else 0),
        ev_tokens_in = max 0 (pe_tokens_in error), ev_tokens_out = max 0 (pe_tokens_out error),
        ev_cost = max 0 (pe_cost error), ev_retry_count = retry_count, ev_fallback_used = fallback_used,
        ev_error_code = Some (pe_error_code error), ev_budget_claim_ids = claim_ids\<rparr>
       (pe_usage_context error) st"

definition record_attempt_result ::
    "environment \<Rightarrow> run_record \<Rightarrow> candidate \<Rightarrow> int \<Rightarrow> bool \<Rightarrow> provider_result \<Rightarrow> string option
      \<Rightarrow> json_dict option \<Rightarrow> json_dict option \<Rightarrow> string list \<Rightarrow> exec_state \<Rightarrow> exec_state" where
  "record_attempt_result env run cand retry_count fallback_used result error_code preflight output_context claim_ids st =
     record_provider_call env run
       \<lparr>ev_provider_id = cd_provider_id cand, ev_model_id = cd_model_id cand,
        ev_instance_id = cd_instance_id cand, ev_region = cd_region cand,
        ev_latency_ms = x_latency_ms result, ev_tokens_in = x_tokens_in result,
        ev_tokens_out = x_tokens_out result, ev_cost = x_cost result,
        ev_retry_count = retry_count, ev_fallback_used = fallback_used,
        ev_error_code = error_code, ev_budget_claim_ids = claim_ids\<rparr>
       (Some (dict_merge (dict_merge (case preflight of None \<Rightarrow> [] | Some d \<Rightarrow> d)
                            (result_usage_context (env_float_text env) result))
                (case output_context of None \<Rightarrow> [] | Some d \<Rightarrow> d))) st"

subsection \<open>Checks and messages\<close>

definition ARTICLE_REVIEW_ABILITY :: string where
  "ARTICLE_REVIEW_ABILITY = ''npcink-toolbox/review-article''"

definition context_overflow :: "context_budget \<Rightarrow> provider_error" where
  "context_overflow b = provider_execution_error ''provider.context_overflow''
     ''estimated context requirement exceeds the selected model budget'' (Some False) 0 0 0
     (Some (budget_usage_context b))"

definition enforce_context_budget :: "provider_request \<Rightarrow> (provider_error, json_dict option) outcome" where
  "enforce_context_budget request =
     (case assess_context_budget (pq_input_payload request) (pq_context_window request)
             (pq_execution_kind request) (pq_endpoint_variant request) of
        None \<Rightarrow> Return None
      | Some b \<Rightarrow> if fits b then Return (Some (budget_usage_context b)) else Raise (context_overflow b))"

definition sanitize_review_error :: "run_record \<Rightarrow> provider_error \<Rightarrow> provider_error" where
  "sanitize_review_error run error =
     (if r_ability_name run = ARTICLE_REVIEW_ABILITY
      then error\<lparr>pe_message := ''article review provider request failed'', pe_usage_context := Some []\<rparr>
      else error)"

definition safe_error_message :: "run_record \<Rightarrow> string \<Rightarrow> string" where
  "safe_error_message run message =
     (if str_or_empty (py_get (run_policy run) ''storage_mode'') = ''no_store''
         \<or> r_data_classification run \<in> {''pii'', ''secret''}
      then ''runtime execution failed'' else message)"

definition attempt_error_message :: "run_record \<Rightarrow> string \<Rightarrow> string" where
  "attempt_error_message run message =
     (if r_execution_kind run = ''image_generation'' then IMAGE_GENERATION_PROVIDER_ERROR_MESSAGE
      else if r_execution_kind run = ''vision'' then VISION_PROVIDER_ERROR_MESSAGE
      else safe_error_message run message)"

text \<open>The error as it is recorded: what the context check found, overridden by the provider's own
  evidence.\<close>

definition with_preflight :: "json_dict option \<Rightarrow> provider_error \<Rightarrow> provider_error" where
  "with_preflight preflight error =
     (case preflight of
        Some d \<Rightarrow>
          if d = [] then error
          else error\<lparr>pe_usage_context :=
                 Some (dict_merge d (case pe_usage_context error of None \<Rightarrow> [] | Some u \<Rightarrow> u))\<rparr>
      | None \<Rightarrow> error)"

definition build_provider_request ::
    "run_record \<Rightarrow> json_dict \<Rightarrow> json_dict \<Rightarrow> int \<Rightarrow> candidate \<Rightarrow> int \<Rightarrow> provider_request" where
  "build_provider_request run input_payload policy timeout_ms cand retry_count =
     \<lparr>pq_run_id = r_run_id run, pq_site_id = r_site_id run, pq_ability_name = r_ability_name run,
      pq_profile_id = r_profile_id run, pq_execution_kind = r_execution_kind run,
      pq_model_id = cd_model_id cand, pq_instance_id = cd_instance_id cand,
      pq_endpoint_variant = cd_endpoint_variant cand, pq_trace_id = r_trace_id run,
      pq_input_payload = input_payload, pq_policy = policy, pq_timeout_ms = timeout_ms,
      pq_contract_version = or_empty (r_contract_version run),
      pq_context_window = cd_context_window cand,
      pq_price_input = cd_price_input cand, pq_price_output = cd_price_output cand,
      pq_price_cache_read = cd_price_cache_read cand, pq_price_cache_write = cd_price_cache_write cand,
      pq_retry_count = retry_count\<rparr>"

subsection \<open>Sending a request\<close>

text \<open>The spend fuse in front of a request; without a guard nothing is claimed.\<close>

definition claim_dispatch :: "environment \<Rightarrow> run_record \<Rightarrow> string \<Rightarrow> provider_request \<Rightarrow> exec_state
    \<Rightarrow> (call_fault, string list) outcome \<times> exec_state" where
  "claim_dispatch env run provider_id request st =
     (if \<not> env_budget_guard env then (Return [], st)
      else
        (let (now, st) = read_clock env st;
             (reply, budget) = claim_before_dispatch now run provider_id (pq_model_id request) request
                                 (st_budget (es_now st));
             st = on_stored (\<lambda>s. s\<lparr>st_budget := budget\<rparr>) st
         in case reply of
              Inl fault \<Rightarrow> (Raise fault, st)
            | Inr None \<Rightarrow> (Return [], st)
            | Inr (Some receipt) \<Rightarrow> (Return (cr_claim_ids receipt), st)))"

text \<open>Commit, hand the request over, and find what others committed meanwhile.\<close>

definition others_commit :: "environment \<Rightarrow> nat \<Rightarrow> exec_state \<Rightarrow> exec_state" where
  "others_commit env n st =
     commit (on_stored (\<lambda>s. (let (runs, budget) = env_others env n (st_runs s, st_budget s) in
                              s\<lparr>st_runs := runs, st_budget := budget\<rparr>)) st)"

definition dispatch :: "environment \<Rightarrow> (nat \<Rightarrow> provider_request \<Rightarrow> (call_fault, provider_result) outcome)
    \<Rightarrow> string \<Rightarrow> provider_request \<Rightarrow> exec_state \<Rightarrow> (call_fault, provider_result) outcome \<times> exec_state" where
  "dispatch env adapter provider_id request st =
     (let st = commit st;
          n = length (es_sent st);
          reply = adapter n request;
          st = st\<lparr>es_sent := es_sent st @
                   [\<lparr>sr_provider_id = provider_id, sr_request = request, sr_reply = reply,
                     sr_budget = st_budget (es_committed st)\<rparr>]\<rparr>
      in (reply, others_commit env n st))"

text \<open>A direct call outside the candidate chain; session and run are given together or not at all.\<close>

definition execute_provider :: "environment \<Rightarrow> (nat \<Rightarrow> provider_request \<Rightarrow> (call_fault, provider_result) outcome)
    \<Rightarrow> run_record option \<Rightarrow> string \<Rightarrow> provider_request \<Rightarrow> exec_state
    \<Rightarrow> (call_fault, provider_result) outcome \<times> exec_state" where
  "execute_provider env adapter session_run provider_id request st =
     (case session_run of
        None \<Rightarrow>
          if env_budget_guard env
          then (Raise (budget_configuration_missing
                  ''provider budget guard requires session and run for direct dispatch''), st)
          else (let reply = adapter (length (es_sent st)) request in
                (reply, st\<lparr>es_sent := es_sent st @
                   [\<lparr>sr_provider_id = provider_id, sr_request = request, sr_reply = reply,
                     sr_budget = st_budget (es_committed st)\<rparr>]\<rparr>))
      | Some run \<Rightarrow>
          (case claim_dispatch env run provider_id request st of
             (Inl fault, st) \<Rightarrow> (Raise fault, st)
           | (Inr claim_ids, st) \<Rightarrow>
               (let (reply, st) = dispatch env adapter provider_id request st;
                    settle = (\<lambda>cost st. if env_budget_guard env \<and> claim_ids \<noteq> []
                       then (let (now, st) = read_clock env st in
                             on_stored (\<lambda>s. s\<lparr>st_budget := reconcile now claim_ids cost (st_budget s)\<rparr>) st)
                       else st)
                in case reply of
                     Inl (ProviderFault e) \<Rightarrow> (Raise (ProviderFault e), settle None st)
                   | Inl (PyFault x) \<Rightarrow> (Raise (PyFault x), st)
                   | Inr result \<Rightarrow> (Return result, settle (budget_cost_usd result) st))))"

subsection \<open>One attempt\<close>

datatype attempt_step =
    Finished
  | NextRetry
  | NextCandidate
  | Escaped string

record last_attempt =
  la_error_code :: string
  la_error_message :: string
  la_fallback_used :: bool
  la_provider_id :: string
  la_model_id :: string
  la_instance_id :: string

record chain_settings =
  ch_policy :: json_dict
  ch_input_payload :: json_dict
  ch_allow_fallback :: bool
  ch_max_retries :: int
  ch_timeout_ms :: int

definition fallback_eligible :: "string \<Rightarrow> bool" where
  "fallback_eligible error_code = te_fallback_eligible (get_error_taxonomy (Some error_code))"

definition taxonomy_retryable :: "string \<Rightarrow> bool" where
  "taxonomy_retryable error_code = te_retryable (get_error_taxonomy (Some error_code))"

text \<open>Break to the next candidate or fail the run.\<close>

definition give_up_candidate :: "environment \<Rightarrow> run_record \<Rightarrow> candidate \<Rightarrow> bool \<Rightarrow> bool \<Rightarrow> last_attempt
    \<Rightarrow> exec_state \<Rightarrow> attempt_step \<times> last_attempt \<times> exec_state" where
  "give_up_candidate env run cand fallback_used try_next last_try st =
     (if try_next then (NextCandidate, last_try, st)
      else (Finished, last_try,
            fail_run env run (la_error_code last_try) (la_error_message last_try)
              (Some (cd_provider_id cand)) (Some (cd_model_id cand)) (Some (cd_instance_id cand))
              (Some fallback_used) st))"

text \<open>A provider error inside the \<open>try\<close> block: the context check or the adapter.\<close>

definition handle_error :: "environment \<Rightarrow> chain_settings \<Rightarrow> run_record \<Rightarrow> candidate \<Rightarrow> bool \<Rightarrow> int \<Rightarrow> string list
    \<Rightarrow> json_dict option \<Rightarrow> provider_error \<Rightarrow> last_attempt \<Rightarrow> exec_state \<Rightarrow> attempt_step \<times> last_attempt \<times> exec_state" where
  "handle_error env cfg run cand fallback_used retry_count claim_ids preflight error last_try st =
     (let error = sanitize_review_error run (with_preflight preflight error);
          st = record_attempt_error env run cand retry_count fallback_used (ch_timeout_ms cfg) error claim_ids st;
          code = pe_error_code error;
          last_try = last_try\<lparr>la_error_code := code,
                        la_error_message := attempt_error_message (current_run run st) (pe_message error)\<rparr>
      in if retry_count < ch_max_retries cfg \<and> pe_retryable error \<and> taxonomy_retryable code
         then (NextRetry, last_try, st)
         else give_up_candidate env run cand fallback_used
                (ch_allow_fallback cfg \<and> fallback_eligible code) last_try st)"

text \<open>A reply of the provider.\<close>

definition handle_result :: "environment \<Rightarrow> chain_settings \<Rightarrow> run_record \<Rightarrow> candidate \<Rightarrow> bool \<Rightarrow> int \<Rightarrow> string list
    \<Rightarrow> json_dict option \<Rightarrow> provider_result \<Rightarrow> last_attempt \<Rightarrow> exec_state \<Rightarrow> attempt_step \<times> last_attempt \<times> exec_state" where
  "handle_result env cfg run cand fallback_used retry_count claim_ids preflight result last_try st =
     (let (decision, stored) = env_prepare env (ch_input_payload cfg) (x_output result) (es_now st);
          st = on_stored (\<lambda>_. stored) st
      in if \<not> od_accepted decision
         then
           (let last_try = last_try\<lparr>la_error_code := od_error_code decision,
                             la_error_message := safe_error_message (current_run run st) (od_error_message decision)\<rparr>;
                st = record_attempt_result env run cand retry_count fallback_used result
                       (Some (od_error_code decision)) preflight (Some (od_usage_context decision)) claim_ids st
            in if retry_count < ch_max_retries cfg then (NextRetry, last_try, st)
               else give_up_candidate env run cand fallback_used (ch_allow_fallback cfg) last_try st)
         else
           (let st = record_attempt_result env run cand retry_count fallback_used result None preflight None claim_ids st;
                (reply, stored) = env_finalize env (ch_input_payload cfg) (od_output decision)
                                    (x_media_candidates result) (ch_policy cfg) (es_now st);
                st = on_stored (\<lambda>_. stored) st
            in case reply of
                 Inl (code, message) \<Rightarrow>
                   (Finished, last_try,
                    fail_run env run code (safe_error_message (current_run run st) message)
                      (Some (cd_provider_id cand)) (Some (cd_model_id cand)) (Some (cd_instance_id cand))
                      (Some fallback_used) st)
               | Inr durable_result \<Rightarrow>
                   (Finished, last_try,
                    succeed_run env run durable_result (cd_provider_id cand) (cd_model_id cand)
                      (cd_instance_id cand) fallback_used st)))"

text \<open>Send the admitted request and handle what comes back.\<close>

definition call_provider :: "environment \<Rightarrow> chain_settings \<Rightarrow> run_record \<Rightarrow> candidate
    \<Rightarrow> (nat \<Rightarrow> provider_request \<Rightarrow> (call_fault, provider_result) outcome) \<Rightarrow> bool \<Rightarrow> int \<Rightarrow> provider_request
    \<Rightarrow> string list \<Rightarrow> last_attempt \<Rightarrow> exec_state \<Rightarrow> attempt_step \<times> last_attempt \<times> exec_state" where
  "call_provider env cfg run cand adapter fallback_used retry_count request claim_ids last_try st =
     (case enforce_context_budget request of
        Inl error \<Rightarrow> handle_error env cfg run cand fallback_used retry_count claim_ids None error last_try st
      | Inr preflight \<Rightarrow>
          (let (reply, st) = dispatch env adapter (cd_provider_id cand) request st in
           case reply of
             Inl (ProviderFault error) \<Rightarrow>
               handle_error env cfg run cand fallback_used retry_count claim_ids preflight error last_try st
           | Inl (PyFault x) \<Rightarrow> (Escaped x, last_try, rollback st)
           | Inr result \<Rightarrow>
               handle_result env cfg run cand fallback_used retry_count claim_ids preflight result last_try st))"

definition run_attempt :: "environment \<Rightarrow> chain_settings \<Rightarrow> run_record \<Rightarrow> candidate \<Rightarrow> bool \<Rightarrow> int
    \<Rightarrow> last_attempt \<Rightarrow> exec_state \<Rightarrow> attempt_step \<times> last_attempt \<times> exec_state" where
  "run_attempt env cfg run cand fallback_used retry_count last_try st =
     (case check_cancel env run st of
        (True, st) \<Rightarrow> (Finished, last_try, st)
      | (False, st) \<Rightarrow>
          (let last_try = last_try\<lparr>la_fallback_used := fallback_used, la_provider_id := cd_provider_id cand,
                            la_model_id := cd_model_id cand, la_instance_id := cd_instance_id cand\<rparr>
           in case env_providers env (cd_provider_id cand) of
                None \<Rightarrow>
                  (let last_try = last_try\<lparr>la_error_code := ''runtime.provider_not_configured'',
                         la_error_message := ''provider adapter is not configured for '' @ cd_provider_id cand\<rparr>
                   in give_up_candidate env run cand fallback_used
                        (ch_allow_fallback cfg \<and> fallback_eligible ''runtime.provider_not_configured'') last_try st)
              | Some adapter \<Rightarrow>
                  (let request = build_provider_request run (ch_input_payload cfg) (ch_policy cfg)
                                   (ch_timeout_ms cfg) cand retry_count
                   in case claim_dispatch env run (cd_provider_id cand) request st of
                        (Inl (ProviderFault error), st) \<Rightarrow>
                          (let error = sanitize_review_error run error;
                               last_try = last_try\<lparr>la_error_code := pe_error_code error,
                                 la_error_message := safe_error_message (current_run run st) (pe_message error)\<rparr>
                           in give_up_candidate env run cand fallback_used
                                (ch_allow_fallback cfg \<and> fallback_eligible (pe_error_code error)) last_try st)
                      | (Inl (PyFault x), st) \<Rightarrow> (Escaped x, last_try, rollback st)
                      | (Inr claim_ids, st) \<Rightarrow>
                          call_provider env cfg run cand adapter fallback_used retry_count request claim_ids last_try st)))"

subsection \<open>The candidate chain\<close>

text \<open>\<open>for retry_count in range(max_retries + 1)\<close>: the first argument counts the rounds that are left.  The
  last round never asks for another, so the loop always ends by a return or a break.\<close>

fun retry_loop :: "nat \<Rightarrow> environment \<Rightarrow> chain_settings \<Rightarrow> run_record \<Rightarrow> candidate \<Rightarrow> bool \<Rightarrow> int
    \<Rightarrow> last_attempt \<Rightarrow> exec_state \<Rightarrow> attempt_step \<times> last_attempt \<times> exec_state" where
  "retry_loop 0 env cfg run cand fallback_used retry_count last_try st = (NextCandidate, last_try, st)"
| "retry_loop (Suc n) env cfg run cand fallback_used retry_count last_try st =
     (case run_attempt env cfg run cand fallback_used retry_count last_try st of
        (NextRetry, last_try, st) \<Rightarrow>
          retry_loop n env cfg run cand fallback_used (retry_count + 1) last_try st
      | result \<Rightarrow> result)"

definition fail_chain :: "environment \<Rightarrow> run_record \<Rightarrow> last_attempt \<Rightarrow> exec_state \<Rightarrow> exec_state" where
  "fail_chain env run last_try st =
     fail_run env run (la_error_code last_try) (la_error_message last_try)
       (none_if_empty (la_provider_id last_try)) (none_if_empty (la_model_id last_try))
       (none_if_empty (la_instance_id last_try)) (Some (la_fallback_used last_try)) st"

fun candidate_loop :: "environment \<Rightarrow> chain_settings \<Rightarrow> run_record \<Rightarrow> candidate list \<Rightarrow> bool
    \<Rightarrow> last_attempt \<Rightarrow> exec_state \<Rightarrow> string option \<times> exec_state" where
  "candidate_loop env cfg run [] fallback_used last_try st = (None, fail_chain env run last_try st)"
| "candidate_loop env cfg run (cand # candidates) fallback_used last_try st =
     (case retry_loop (nat (ch_max_retries cfg + 1)) env cfg run cand fallback_used 0 last_try st of
        (Finished, last_try, st) \<Rightarrow> (None, st)
      | (Escaped x, last_try, st) \<Rightarrow> (Some x, st)
      | (_, last_try, st) \<Rightarrow>
          if \<not> ch_allow_fallback cfg then (None, fail_chain env run last_try st)
          else candidate_loop env cfg run candidates True last_try st)"

definition first_attempt :: last_attempt where
  "first_attempt = \<lparr>la_error_code = ''runtime.execute_failed'', la_error_message = ''runtime execution failed'',
     la_fallback_used = False, la_provider_id = [], la_model_id = [], la_instance_id = []\<rparr>"

definition settings_of_policy :: "json_dict \<Rightarrow> json_dict \<Rightarrow> chain_settings" where
  "settings_of_policy policy input_payload =
     \<lparr>ch_policy = policy, ch_input_payload = input_payload,
      ch_allow_fallback = flag_or_true policy ''allow_fallback'',
      ch_max_retries = max 0 (coerce_int_default 0 (py_get policy ''max_retries'')),
      ch_timeout_ms = max 1 (coerce_int_default 30000 (py_get policy ''timeout_ms''))\<rparr>"

text \<open>\<open>Some x\<close> is an exception of class \<open>x\<close> that leaves the service.\<close>

definition execute_candidate_chain :: "environment \<Rightarrow> run_record \<Rightarrow> candidate list \<Rightarrow> json_dict
    \<Rightarrow> exec_state \<Rightarrow> string option \<times> exec_state" where
  "execute_candidate_chain env run candidates input_payload st =
     (let policy = run_policy run;
          (input_payload, stored) = env_preprocess env input_payload policy (es_now st);
          st = on_stored (\<lambda>_. stored) st
      in if r_status (current_run run st) = ''failed'' then (None, st)
         else case check_cancel env run st of
           (True, st) \<Rightarrow> (None, st)
         | (False, st) \<Rightarrow>
             candidate_loop env (settings_of_policy policy input_payload) run candidates False first_attempt st)"

end
