(* ===== verification/ProviderRuns.thy ===== *)
theory ProviderRuns
  imports ProviderExecution
begin

section \<open>Runs of the candidate chain\<close>

text \<open>
  What one attempt does to the log of sent requests, to the run and to the spend tables, and how the
  attempts of a chain add up.
\<close>

subsection \<open>What the steps leave alone\<close>

lemma session_simps [simp]:
  "es_sent (on_stored f st) = es_sent st" "es_sent (commit st) = es_sent st" "es_sent (rollback st) = es_sent st"
  "es_now (on_stored f st) = f (es_now st)" "es_now (commit st) = es_now st"
  "es_committed (on_stored f st) = es_committed st" "es_committed (commit st) = es_now st"
  "es_now (rollback st) = es_committed st" "es_committed (rollback st) = es_committed st"
  by (simp_all add: on_stored_def commit_def rollback_def)

lemma read_clock_simps [simp]:
  "es_now (snd (read_clock env st)) = es_now st" "es_sent (snd (read_clock env st)) = es_sent st"
  "es_committed (snd (read_clock env st)) = es_committed st"
  by (simp_all add: read_clock_def)

lemma check_cancel_sent: "check_cancel env run st = (b, st') \<Longrightarrow> es_sent st' = es_sent st"
  by (auto simp: check_cancel_def Let_def split: prod.splits)

lemma fail_run_sent [simp]: "es_sent (fail_run env run code message p m i f st) = es_sent st"
  by (simp add: fail_run_def write_run_def read_clock_def)

lemma succeed_run_sent [simp]: "es_sent (succeed_run env run result p m i f st) = es_sent st"
  by (simp add: succeed_run_def write_run_def read_clock_def)

lemma record_provider_call_sent [simp]: "es_sent (record_provider_call env run c ctx st) = es_sent st"
  by (simp add: record_provider_call_def read_clock_def Let_def)

lemma record_attempt_sent [simp]:
  "es_sent (record_attempt_error env run cand k f t e ids st) = es_sent st"
  "es_sent (record_attempt_result env run cand k f r code pre ctx ids st) = es_sent st"
  by (simp_all add: record_attempt_error_def record_attempt_result_def)

lemma claim_dispatch_sent: "claim_dispatch env run p request st = (r, st') \<Longrightarrow> es_sent st' = es_sent st"
  by (auto simp: claim_dispatch_def read_clock_def Let_def split: if_splits prod.splits sum.splits option.splits)

lemma dispatch_sent:
  assumes "dispatch env adapter p request st = (reply, st')"
  shows "es_sent st' = es_sent st @ [\<lparr>sr_provider_id = p, sr_request = request, sr_reply = reply,
                                     sr_budget = st_budget (es_now st)\<rparr>]"
  using assms by (auto simp: dispatch_def others_commit_def Let_def)

lemma give_up_candidate_step:
  "give_up_candidate env run cand f b last_try st = (step, last', st')
     \<Longrightarrow> es_sent st' = es_sent st \<and> step \<noteq> NextRetry \<and> (step = NextCandidate \<longrightarrow> b)"
  by (auto simp: give_up_candidate_def split: if_splits)

subsection \<open>When another request may follow\<close>

definition same_target :: "sent_request \<Rightarrow> sent_request \<Rightarrow> bool" where
  "same_target a b =
     (sr_provider_id a = sr_provider_id b \<and> pq_model_id (sr_request a) = pq_model_id (sr_request b)
      \<and> pq_instance_id (sr_request a) = pq_instance_id (sr_request b))"

text \<open>The failure, or the unusable output, allows another try of the same candidate.\<close>

definition retry_allowed :: "sent_request \<Rightarrow> bool" where
  "retry_allowed a =
     (case sr_reply a of
        Inl (ProviderFault e) \<Rightarrow> pe_retryable e \<and> taxonomy_retryable (pe_error_code e)
      | Inl (PyFault x) \<Rightarrow> False
      | Inr result \<Rightarrow> True)"

definition fallback_allowed :: "bool \<Rightarrow> sent_request \<Rightarrow> bool" where
  "fallback_allowed allow_fallback a =
     (allow_fallback
      \<and> (case sr_reply a of
           Inl (ProviderFault e) \<Rightarrow> fallback_eligible (pe_error_code e) \<or> retry_allowed a
         | Inl (PyFault x) \<Rightarrow> False
         | Inr result \<Rightarrow> True))"

definition may_follow :: "bool \<Rightarrow> sent_request \<Rightarrow> sent_request \<Rightarrow> bool" where
  "may_follow allow_fallback a b =
     (retry_allowed a \<and> same_target a b \<and> pq_retry_count (sr_request b) = pq_retry_count (sr_request a) + 1
      \<or> fallback_allowed allow_fallback a \<and> pq_retry_count (sr_request b) = 0)"

text \<open>A request of this candidate in round \<open>k\<close>.\<close>

definition request_of :: "candidate \<Rightarrow> int \<Rightarrow> sent_request \<Rightarrow> bool" where
  "request_of cand k a =
     (sr_provider_id a = cd_provider_id cand \<and> pq_model_id (sr_request a) = cd_model_id cand
      \<and> pq_instance_id (sr_request a) = cd_instance_id cand \<and> pq_retry_count (sr_request a) = k)"

text \<open>What a step says about the request it sent.\<close>

definition step_allows :: "chain_settings \<Rightarrow> int \<Rightarrow> attempt_step \<Rightarrow> sent_request \<Rightarrow> bool" where
  "step_allows cfg k step a =
     (case step of
        NextRetry \<Rightarrow> retry_allowed a \<and> k < ch_max_retries cfg
      | NextCandidate \<Rightarrow> fallback_allowed (ch_allow_fallback cfg) a
      | _ \<Rightarrow> True)"

lemma error_kept [simp]:
  "pe_error_code (sanitize_review_error run (with_preflight pre e)) = pe_error_code e"
  "pe_retryable (sanitize_review_error run (with_preflight pre e)) = pe_retryable e"
  by (simp_all add: sanitize_review_error_def with_preflight_def split: option.splits)

lemma handle_error_step:
  assumes "handle_error env cfg run cand f k ids pre e last_try st = (step, last', st')"
  shows "es_sent st' = es_sent st"
    and "step = NextRetry \<Longrightarrow> k < ch_max_retries cfg \<and> pe_retryable e \<and> taxonomy_retryable (pe_error_code e)"
    and "step = NextCandidate \<Longrightarrow> ch_allow_fallback cfg \<and> fallback_eligible (pe_error_code e)"
    and "step \<noteq> Escaped x"
  using assms by (auto simp: handle_error_def give_up_candidate_def Let_def split: if_splits)

lemma handle_result_step:
  assumes "handle_result env cfg run cand f k ids pre result last_try st = (step, last', st')"
  shows "es_sent st' = es_sent st"
    and "step = NextRetry \<Longrightarrow> k < ch_max_retries cfg"
    and "step = NextCandidate \<Longrightarrow> ch_allow_fallback cfg"
    and "step \<noteq> Escaped x"
  using assms by (auto simp: handle_result_def give_up_candidate_def Let_def split: if_splits prod.splits sum.splits)

definition step_log :: "chain_settings \<Rightarrow> candidate \<Rightarrow> int \<Rightarrow> attempt_step \<Rightarrow> sent_request list \<Rightarrow> bool" where
  "step_log cfg cand k step new =
     (new = [] \<and> step \<noteq> NextRetry \<and> (step = NextCandidate \<longrightarrow> ch_allow_fallback cfg) \<or> (\<exists>e. new = [e] \<and> request_of cand k e \<and> step_allows cfg k step e))"

lemma context_error_final: "enforce_context_budget request = Raise e \<Longrightarrow> \<not> pe_retryable e"
  by (auto simp: enforce_context_budget_def context_overflow_def provider_execution_error_def
      split: option.splits if_splits)

lemma build_request_target:
  "pq_model_id (build_provider_request run payload policy t cand k) = cd_model_id cand"
  "pq_instance_id (build_provider_request run payload policy t cand k) = cd_instance_id cand"
  "pq_retry_count (build_provider_request run payload policy t cand k) = k"
  by (simp_all add: build_provider_request_def)

lemma call_provider_log:
  assumes call: "call_provider env cfg run cand adapter f k request ids last_try st = (step, last', st')"
    and request: "request = build_provider_request run payload policy t cand k"
  shows "\<exists>new. es_sent st' = es_sent st @ new \<and> step_log cfg cand k step new"
proof (cases "enforce_context_budget request")
  case (Inl e)
  then have handled: "handle_error env cfg run cand f k ids None e last_try st = (step, last', st')"
    using call by (simp add: call_provider_def)
  have "step \<noteq> NextRetry" using handle_error_step(2) [OF handled] context_error_final [OF Inl] by blast
  then show ?thesis using handle_error_step(1,3) [OF handled] by (auto simp: step_log_def)
next
  case (Inr pre)
  obtain reply st1 where sent: "dispatch env adapter (cd_provider_id cand) request st = (reply, st1)" by fastforce
  define e where "e = \<lparr>sr_provider_id = cd_provider_id cand, sr_request = request, sr_reply = reply,
                       sr_budget = st_budget (es_now st)\<rparr>"
  have log: "es_sent st1 = es_sent st @ [e]" using dispatch_sent [OF sent] by (simp add: e_def)
  have req: "request_of cand k e" by (simp add: request_of_def e_def request build_request_target)
  have "es_sent st' = es_sent st1 \<and> step_allows cfg k step e"
  proof (cases reply)
    case (Inl fault)
    show ?thesis
    proof (cases fault)
      case (ProviderFault err)
      then have handled: "handle_error env cfg run cand f k ids pre err last_try st1 = (step, last', st')"
        using call Inr sent Inl by (simp add: call_provider_def)
      show ?thesis using handle_error_step [OF handled] Inl ProviderFault
        by (cases step) (auto simp: step_allows_def retry_allowed_def fallback_allowed_def e_def)
    next
      case (PyFault x)
      then show ?thesis using call Inr sent Inl by (auto simp: call_provider_def step_allows_def)
    qed
  next
    case (Inr result)
    then have handled: "handle_result env cfg run cand f k ids pre result last_try st1 = (step, last', st')"
      using call \<open>enforce_context_budget request = Inr pre\<close> sent by (simp add: call_provider_def)
    show ?thesis using handle_result_step [OF handled] Inr
      by (cases step) (auto simp: step_allows_def retry_allowed_def fallback_allowed_def e_def)
  qed
  then show ?thesis using log req by (auto simp: step_log_def)
qed

lemma nothing_sent_log:
  "es_sent st' = es_sent st \<and> step \<noteq> NextRetry \<and> (step = NextCandidate \<longrightarrow> ch_allow_fallback cfg)
     \<Longrightarrow> \<exists>new. es_sent st' = es_sent st @ new \<and> step_log cfg cand k step new"
  by (auto simp: step_log_def)

text \<open>One attempt sends at most one request, and asks for a retry only after one.\<close>

lemma run_attempt_log:
  assumes "run_attempt env cfg run cand f k last_try st = (step, last', st')"
  shows "\<exists>new. es_sent st' = es_sent st @ new \<and> step_log cfg cand k step new"
proof -
  obtain canceled st1 where check: "check_cancel env run st = (canceled, st1)" by fastforce
  note sent1 = check_cancel_sent [OF check]
  show ?thesis
  proof (cases canceled)
    case True
    with assms check sent1 show ?thesis by (auto simp: run_attempt_def step_log_def)
  next
    case False
    show ?thesis
    proof (cases "env_providers env (cd_provider_id cand)")
      case None
      then obtain last'' b where "give_up_candidate env run cand f (ch_allow_fallback cfg \<and> b) last'' st1 = (step, last', st')"
        using assms check False by (auto simp: run_attempt_def Let_def)
      from give_up_candidate_step [OF this] have "es_sent st' = es_sent st \<and> step \<noteq> NextRetry \<and> (step = NextCandidate \<longrightarrow> ch_allow_fallback cfg)"
        using sent1 by simp
      then show ?thesis by (rule nothing_sent_log)
    next
      case (Some adapter)
      let ?request = "build_provider_request run (ch_input_payload cfg) (ch_policy cfg) (ch_timeout_ms cfg) cand k"
      obtain reply st2 where claim: "claim_dispatch env run (cd_provider_id cand) ?request st1 = (reply, st2)"
        by fastforce
      note sent2 = claim_dispatch_sent [OF claim]
      show ?thesis
      proof (cases reply)
        case (Inl fault)
        show ?thesis
        proof (cases fault)
          case (ProviderFault e)
          then obtain last'' b where
            "give_up_candidate env run cand f (ch_allow_fallback cfg \<and> b) last'' st2 = (step, last', st')"
            using assms check False Some claim Inl by (auto simp: run_attempt_def Let_def)
          from give_up_candidate_step [OF this]
          have "es_sent st' = es_sent st \<and> step \<noteq> NextRetry \<and> (step = NextCandidate \<longrightarrow> ch_allow_fallback cfg)"
            using sent1 sent2 by simp
          then show ?thesis by (rule nothing_sent_log)
        next
          case (PyFault x)
          then have "step = Escaped x \<and> st' = rollback st2"
            using assms check False Some claim Inl by (simp add: run_attempt_def Let_def)
          then have "es_sent st' = es_sent st \<and> step \<noteq> NextRetry \<and> (step = NextCandidate \<longrightarrow> ch_allow_fallback cfg)"
            using sent1 sent2 by simp
          then show ?thesis by (rule nothing_sent_log)
        qed
      next
        case (Inr ids)
        then obtain last'' where "call_provider env cfg run cand adapter f k ?request ids last'' st2 = (step, last', st')"
          using assms check False Some claim by (auto simp: run_attempt_def Let_def)
        from call_provider_log [OF this refl] show ?thesis using sent1 sent2 by simp
      qed
    qed
  qed
qed

subsection \<open>The loop over the rounds of a candidate\<close>

text \<open>The requests of one candidate: round after round from \<open>k\<close> on, each allowed by the one before; what
  the last of them allows is what the loop asks for.\<close>

definition round_log :: "chain_settings \<Rightarrow> candidate \<Rightarrow> int \<Rightarrow> attempt_step \<Rightarrow> sent_request list \<Rightarrow> bool" where
  "round_log cfg cand k step new =
     (successively (may_follow (ch_allow_fallback cfg)) new
      \<and> (new \<noteq> [] \<longrightarrow> request_of cand k (hd new))
      \<and> (\<forall>e\<in>set new. \<exists>j\<ge>k. request_of cand j e)
      \<and> (step = NextCandidate \<longrightarrow>
           ch_allow_fallback cfg \<and> (new \<noteq> [] \<longrightarrow> fallback_allowed (ch_allow_fallback cfg) (last new))))"

lemma retry_then_fallback: "b \<Longrightarrow> retry_allowed a \<Longrightarrow> fallback_allowed b a"
  by (auto simp: retry_allowed_def fallback_allowed_def split: sum.splits call_fault.splits)

lemma fallback_flag: "fallback_allowed b a \<Longrightarrow> b"
  by (simp add: fallback_allowed_def)

lemma round_log_Cons:
  assumes "round_log cfg cand (k + 1) step new" and "request_of cand k e" and "retry_allowed e"
  shows "round_log cfg cand k step (e # new)"
proof -
  have "may_follow (ch_allow_fallback cfg) e (hd new)" if "new \<noteq> []"
    using assms that by (auto simp: round_log_def may_follow_def same_target_def request_of_def)
  moreover have "\<exists>j\<ge>k. request_of cand j x" if x: "x \<in> set (e # new)" for x
  proof (cases "x = e")
    case False
    then obtain j where "j \<ge> k + 1" "request_of cand j x" using x assms(1) by (auto simp: round_log_def)
    then show ?thesis by (intro exI [of _ j]) simp
  qed (use assms(2) in auto)
  ultimately show ?thesis
    using assms by (auto simp: round_log_def successively_Cons retry_then_fallback)
qed

lemma retry_loop_log:
  assumes "retry_loop n env cfg run cand f k last_try st = (step, last', st')"
    and "int n + k = ch_max_retries cfg + 1" and "0 < n"
  shows "\<exists>new. es_sent st' = es_sent st @ new \<and> length new \<le> n \<and> round_log cfg cand k step new"
  using assms
proof (induction n arbitrary: k last_try st)
  case (Suc n)
  obtain step1 last1 st1 where attempt: "run_attempt env cfg run cand f k last_try st = (step1, last1, st1)"
    by (metis prod.exhaust)
  obtain new1 where new1: "es_sent st1 = es_sent st @ new1" "step_log cfg cand k step1 new1"
    using run_attempt_log [OF attempt] by blast
  show ?case
  proof (cases "step1 = NextRetry")
    case True
    then obtain e where e: "new1 = [e]" "request_of cand k e" "retry_allowed e" "k < ch_max_retries cfg"
      using new1(2) by (auto simp: step_log_def step_allows_def)
    have rest: "retry_loop n env cfg run cand f (k + 1) last1 st1 = (step, last', st')"
      using Suc.prems(1) attempt True by simp
    obtain new2 where new2: "es_sent st' = es_sent st1 @ new2" "length new2 \<le> n" "round_log cfg cand (k + 1) step new2"
      using Suc.IH [OF rest] Suc.prems(2) e(4) by auto
    then show ?thesis using new1(1) e(1) round_log_Cons [OF new2(3) e(2,3)]
      by (intro exI [of _ "e # new2"]) simp
  next
    case False
    then have "step = step1" "st' = st1"
      using Suc.prems(1) attempt by (cases step1; simp)+
    then show ?thesis using new1
      by (auto simp: step_log_def step_allows_def round_log_def dest: fallback_flag intro!: exI [of _ new1])
  qed
qed simp

lemma retry_loop_no_retry: "retry_loop n env cfg run cand f k last_try st = (step, last', st') \<Longrightarrow> step \<noteq> NextRetry"
  by (induction n env cfg run cand f k last_try st rule: retry_loop.induct)
     (auto split: prod.splits attempt_step.splits)

subsection \<open>The loop over the candidates\<close>

definition chain_log :: "bool \<Rightarrow> sent_request list \<Rightarrow> bool" where
  "chain_log allow_fallback new =
     (successively (may_follow allow_fallback) new
      \<and> (new \<noteq> [] \<longrightarrow> pq_retry_count (sr_request (hd new)) = 0))"

lemma round_then_chain:
  assumes "round_log cfg cand 0 NextCandidate new1" and "chain_log (ch_allow_fallback cfg) new2"
  shows "chain_log (ch_allow_fallback cfg) (new1 @ new2)"
proof (cases "new1 = [] \<or> new2 = []")
  case True
  then show ?thesis using assms by (auto simp: chain_log_def round_log_def request_of_def)
next
  case False
  then have "may_follow (ch_allow_fallback cfg) (last new1) (hd new2)"
    using assms by (auto simp: chain_log_def round_log_def may_follow_def)
  then show ?thesis
    using assms False by (auto simp: chain_log_def round_log_def request_of_def successively_append_iff)
qed

lemma round_is_chain: "round_log cfg cand 0 step new \<Longrightarrow> chain_log (ch_allow_fallback cfg) new"
  by (auto simp: chain_log_def round_log_def request_of_def)

lemma fail_chain_sent [simp]: "es_sent (fail_chain env run last_try st) = es_sent st"
  by (simp add: fail_chain_def)

lemma candidate_loop_log:
  assumes "candidate_loop env cfg run cands f last_try st = (fault, st')" and "0 \<le> ch_max_retries cfg"
  shows "\<exists>new. es_sent st' = es_sent st @ new \<and> length new \<le> length cands * nat (ch_max_retries cfg + 1)
           \<and> chain_log (ch_allow_fallback cfg) new"
  using assms(1)
proof (induction cands arbitrary: f last_try st)
  case Nil
  then show ?case by (auto simp: chain_log_def)
next
  case (Cons cand cands)
  let ?n = "nat (ch_max_retries cfg + 1)"
  obtain step last1 st1 where loop: "retry_loop ?n env cfg run cand f 0 last_try st = (step, last1, st1)"
    by (metis prod.exhaust)
  obtain new1 where new1: "es_sent st1 = es_sent st @ new1" "length new1 \<le> ?n" "round_log cfg cand 0 step new1"
    using retry_loop_log [OF loop] assms(2) by auto
  show ?case
  proof (cases "es_sent st' = es_sent st1")
    case True
    then show ?thesis using new1 round_is_chain [OF new1(3)] by (intro exI [of _ new1]) auto
  next
    case False
    have step: "step = NextCandidate"
      using Cons.prems loop False retry_loop_no_retry [OF loop] by (cases step) auto
    then have rest: "candidate_loop env cfg run cands True last1 st1 = (fault, st')"
      using Cons.prems loop False by (auto split: if_splits)
    obtain new2 where new2: "es_sent st' = es_sent st1 @ new2" "length new2 \<le> length cands * ?n"
        "chain_log (ch_allow_fallback cfg) new2"
      using Cons.IH [OF rest] by auto
    show ?thesis using new1 new2 round_then_chain [OF new1(3) [unfolded step] new2(3)]
      by (intro exI [of _ "new1 @ new2"]) simp
  qed
qed

subsection \<open>What a claim leaves alone\<close>

lemma resolve_policy_cong:
  assumes "bd_connections db' = bd_connections db"
  shows "resolve_policy db' = resolve_policy db"
  by (intro ext) (unfold resolve_policy_def assms, rule refl)

lemma spend_limits_cong:
  assumes "bd_setting db' = bd_setting db" and "bd_connections db' = bd_connections db"
  shows "spend_limits p db' = spend_limits p db"
  unfolding spend_limits_def assms(1) resolve_policy_cong [OF assms(2)] ..

lemma claim_counters_frame:
  "bd_setting (snd (claim_counters now run p cls key d m ratio est db)) = bd_setting db"
  "bd_connections (snd (claim_counters now run p cls key d m ratio est db)) = bd_connections db"
  by (auto simp: claim_counters_def Let_def split: prod.splits if_splits option.splits)

lemma claim_policy_frame:
  "spend_limits q (snd (claim_before_dispatch now run p model request db)) = spend_limits q db"
  by (rule spend_limits_cong; rule claim_cases [of now run p model request db])
     (simp_all add: claim_counters_frame)

end
