(* ===== verification/ProviderSettling.thy ===== *)
theory ProviderSettling
  imports ProviderRuns
begin

section \<open>The candidate chain settles its run\<close>

text \<open>
  Every way out of the chain that is not an exception leaves the run finished, whatever the providers
  answer and whatever other sessions commit meanwhile, as long as nobody deletes the run; and the spend
  tables keep their invariant.
\<close>

subsection \<open>The collaborators keep what they are given\<close>

definition stored_ok :: "string \<Rightarrow> stored \<Rightarrow> bool" where
  "stored_ok run_id s = (get_run_row run_id (st_runs s) \<noteq> None \<and> budget_inv (st_budget s))"

definition after_others :: "environment \<Rightarrow> nat \<Rightarrow> stored \<Rightarrow> stored" where
  "after_others env n s =
     (let (runs, budget) = env_others env n (st_runs s, st_budget s) in s\<lparr>st_runs := runs, st_budget := budget\<rparr>)"

definition env_ok :: "environment \<Rightarrow> string \<Rightarrow> bool" where
  "env_ok env run_id =
     ((\<forall>n s. stored_ok run_id s \<longrightarrow> stored_ok run_id (after_others env n s))
      \<and> (\<forall>p d s. stored_ok run_id s \<longrightarrow> stored_ok run_id (snd (env_preprocess env p d s)))
      \<and> (\<forall>p d s. stored_ok run_id s \<longrightarrow> stored_ok run_id (snd (env_prepare env p d s)))
      \<and> (\<forall>p d m q s. stored_ok run_id s \<longrightarrow> stored_ok run_id (snd (env_finalize env p d m q s))))"

definition exec_ok :: "string \<Rightarrow> exec_state \<Rightarrow> bool" where
  "exec_ok run_id st = (stored_ok run_id (es_now st) \<and> stored_ok run_id (es_committed st))"

definition settled :: "string \<Rightarrow> exec_state \<Rightarrow> bool" where
  "settled run_id st =
     (\<exists>r. get_run_row run_id (st_runs (es_now st)) = Some r \<and> terminal_status (r_status r) \<and> r_finished_at r \<noteq> None)"

lemma exec_ok_on_stored: "exec_ok run_id st \<Longrightarrow> stored_ok run_id (f (es_now st)) \<Longrightarrow> exec_ok run_id (on_stored f st)"
  by (simp add: exec_ok_def)

lemma exec_ok_ticks [simp]:
  "exec_ok run_id (st\<lparr>es_ticks := n\<rparr>) = exec_ok run_id st" "exec_ok run_id (st\<lparr>es_sent := l\<rparr>) = exec_ok run_id st"
  "settled run_id (st\<lparr>es_ticks := n\<rparr>) = settled run_id st"
  by (simp_all add: exec_ok_def settled_def)

lemma exec_ok_commit: "exec_ok run_id st \<Longrightarrow> exec_ok run_id (commit st)"
  by (simp add: exec_ok_def)

lemma exec_ok_rollback: "exec_ok run_id st \<Longrightarrow> exec_ok run_id (rollback st)"
  by (simp add: exec_ok_def)

subsection \<open>Writing the run\<close>

lemma failed_facts:
  "r_run_id (mark_run_failed t code message p m i f r) = r_run_id r"
  "r_status (mark_run_failed t code message p m i f r) = ''failed''"
  "r_finished_at (mark_run_failed t code message p m i f r) = Some t"
  by (simp_all add: mark_run_failed_def Let_def split: option.splits)

lemma succeeded_facts:
  "r_run_id (mark_run_succeeded t result p m i f r) = r_run_id r"
  "r_status (mark_run_succeeded t result p m i f r) = ''succeeded''"
  "r_finished_at (mark_run_succeeded t result p m i f r) = Some t"
  by (simp_all add: mark_run_succeeded_def Let_def)

lemma canceled_facts:
  "r_run_id (mark_run_canceled t message r) = r_run_id r"
  "r_status (mark_run_canceled t message r) = ''canceled''"
  "r_finished_at (mark_run_canceled t message r) = Some t"
  by (simp_all add: mark_run_canceled_def Let_def)

lemma write_run_row:
  assumes "\<And>r. r_run_id (f r) = r_run_id r"
  shows "get_run_row (r_run_id run) (st_runs (es_now (write_run run f st))) =
     map_option f (get_run_row (r_run_id run) (st_runs (es_now st)))"
proof -
  let ?rows = "st_runs (es_now st)" and ?id = "r_run_id run"
  have "get_run_row ?id (st_runs (es_now (write_run run f st))) =
      map_option (\<lambda>r. if r_run_id r = ?id then f r else r) (get_run_row ?id ?rows)"
    using row_get_rows_update [of "\<lambda>r. r_run_id r = ?id" r_run_id f ?id ?rows] assms
    by (simp add: write_run_def get_run_row_def)
  then show ?thesis by (cases "get_run_row ?id ?rows") (auto dest: get_run_row_member)
qed

lemma write_run_settles:
  assumes "exec_ok (r_run_id run) st" and "\<And>r. r_run_id (f r) = r_run_id r"
    and "\<And>r. terminal_status (r_status (f r))" and "\<And>r. r_finished_at (f r) \<noteq> None"
  shows "exec_ok (r_run_id run) (write_run run f st) \<and> settled (r_run_id run) (write_run run f st)"
proof -
  obtain r where r: "get_run_row (r_run_id run) (st_runs (es_now st)) = Some r"
    using assms(1) by (auto simp: exec_ok_def stored_ok_def)
  have "get_run_row (r_run_id run) (st_runs (es_now (write_run run f st))) = Some (f r)"
    using write_run_row [OF assms(2), of run st] r by simp
  moreover have "st_budget (es_now (write_run run f st)) = st_budget (es_now st)"
    "es_committed (write_run run f st) = es_committed st"
    by (simp_all add: write_run_def)
  ultimately show ?thesis using assms(1,3,4) by (auto simp: exec_ok_def stored_ok_def settled_def)
qed

lemma read_clock_ok: "exec_ok run_id st \<Longrightarrow> exec_ok run_id (snd (read_clock env st))"
  by (simp add: read_clock_def)

lemma fail_run_settles:
  assumes "exec_ok (r_run_id run) st"
  shows "exec_ok (r_run_id run) (fail_run env run code message p m i f st)
    \<and> settled (r_run_id run) (fail_run env run code message p m i f st)"
  using write_run_settles [OF read_clock_ok [OF assms, of env],
      of "mark_run_failed (fst (read_clock env st)) code message p m i f"]
  by (simp add: fail_run_def case_prod_unfold Let_def failed_facts)

lemma succeed_run_settles:
  assumes "exec_ok (r_run_id run) st"
  shows "exec_ok (r_run_id run) (succeed_run env run result p m i f st)
    \<and> settled (r_run_id run) (succeed_run env run result p m i f st)"
  using write_run_settles [OF read_clock_ok [OF assms, of env],
      of "mark_run_succeeded (fst (read_clock env st)) result p m i f"]
  by (simp add: succeed_run_def case_prod_unfold Let_def succeeded_facts)

lemma check_cancel_ok:
  assumes "check_cancel env run st = (canceled, st')" and "exec_ok (r_run_id run) st"
  shows "exec_ok (r_run_id run) st' \<and> (canceled \<longrightarrow> settled (r_run_id run) st')"
proof -
  obtain r where r: "get_run_row (r_run_id run) (st_runs (es_now st)) = Some r"
    using assms(2) by (auto simp: exec_ok_def stored_ok_def)
  show ?thesis
  proof (cases "r_cancel_requested_at r = None \<or> r_status r \<noteq> ''running''")
    case True
    then show ?thesis using assms r by (auto simp: check_cancel_def cancel_if_requested_def exec_ok_def)
  next
    case False
    define r' where "r' = mark_run_canceled (env_clock env (es_ticks st)) ''run canceled before execution completed'' r"
    have id: "r_run_id r' = r_run_id run" using get_run_row_member [OF r] by (simp add: r'_def canceled_facts)
    have row: "get_run_row (r_run_id run) (save_run r' (st_runs (es_now st))) = Some r'"
      using row_get_put_same [of r_run_id r' "st_runs (es_now st)"] r by (simp add: get_run_row_def save_run_def id)
    have "terminal_status (r_status r')" "r_finished_at r' \<noteq> None" by (simp_all add: r'_def canceled_facts)
    then show ?thesis using assms r False row
      by (auto simp: check_cancel_def cancel_if_requested_def exec_ok_def stored_ok_def settled_def r'_def)
  qed
qed

subsection \<open>The other steps\<close>

lemma record_provider_call_ok:
  "exec_ok run_id st \<Longrightarrow> exec_ok run_id (record_provider_call env run c ctx st)"
  by (auto simp: record_provider_call_def read_clock_def Let_def exec_ok_def stored_ok_def reconcile_keeps_inv)

lemma record_attempt_ok:
  "exec_ok run_id st \<Longrightarrow> exec_ok run_id (record_attempt_error env run cand k f t e ids st)"
  "exec_ok run_id st \<Longrightarrow> exec_ok run_id (record_attempt_result env run cand k f r code pre ctx ids st)"
  by (simp_all add: record_attempt_error_def record_attempt_result_def record_provider_call_ok)

lemma claim_dispatch_ok:
  assumes "claim_dispatch env run p request st = (reply, st')" and "exec_ok run_id st"
  shows "exec_ok run_id st'"
proof (cases "env_budget_guard env")
  case True
  define now where "now = env_clock env (es_ticks st)"
  have "es_now st' = (es_now st)\<lparr>st_budget :=
      snd (claim_before_dispatch now run p (pq_model_id request) request (st_budget (es_now st)))\<rparr>
      \<and> es_committed st' = es_committed st"
    using assms(1) True
    by (auto simp: claim_dispatch_def read_clock_def now_def Let_def split: prod.splits sum.splits option.splits)
  then show ?thesis using assms(2) by (auto simp: exec_ok_def stored_ok_def claim_keeps_inv)
qed (use assms in \<open>simp add: claim_dispatch_def\<close>)

lemma dispatch_ok:
  assumes "dispatch env adapter p request st = (reply, st')" and "exec_ok run_id st" and "env_ok env run_id"
  shows "exec_ok run_id st'"
proof -
  have "stored_ok run_id (after_others env (length (es_sent st)) (es_now st))"
    using assms(2,3) by (simp add: env_ok_def exec_ok_def)
  then show ?thesis
    using assms(1) by (auto simp: dispatch_def others_commit_def after_others_def Let_def exec_ok_def commit_def on_stored_def)
qed

subsection \<open>Attempts\<close>

definition step_ok :: "string \<Rightarrow> attempt_step \<Rightarrow> exec_state \<Rightarrow> bool" where
  "step_ok run_id step st = (exec_ok run_id st \<and> (step = Finished \<longrightarrow> settled run_id st))"

lemma give_up_candidate_ok:
  assumes "give_up_candidate env run cand f b last_try st = (step, last', st')" and "exec_ok (r_run_id run) st"
  shows "step_ok (r_run_id run) step st'"
  using assms fail_run_settles [OF assms(2)]
  by (auto simp: give_up_candidate_def step_ok_def split: if_splits)

lemma handle_error_ok:
  assumes "handle_error env cfg run cand f k ids pre e last_try st = (step, last', st')" and "exec_ok (r_run_id run) st"
  shows "step_ok (r_run_id run) step st'"
proof -
  let ?e = "sanitize_review_error run (with_preflight pre e)"
  let ?st = "record_attempt_error env run cand k f (ch_timeout_ms cfg) ?e ids st"
  have ok: "exec_ok (r_run_id run) ?st" using assms(2) by (rule record_attempt_ok)
  show ?thesis
  proof (cases "k < ch_max_retries cfg \<and> pe_retryable e \<and> taxonomy_retryable (pe_error_code e)")
    case True
    then show ?thesis using assms(1) ok by (auto simp: handle_error_def Let_def step_ok_def)
  next
    case False
    then obtain last'' b where "give_up_candidate env run cand f b last'' ?st = (step, last', st')"
      using assms(1) by (auto simp: handle_error_def Let_def)
    from give_up_candidate_ok [OF this ok] show ?thesis .
  qed
qed

lemma exec_ok_callback: "exec_ok run_id st \<Longrightarrow> stored_ok run_id s \<Longrightarrow> exec_ok run_id (on_stored (\<lambda>_. s) st)"
  by (simp add: exec_ok_def)

lemma handle_result_ok:
  assumes handled: "handle_result env cfg run cand f k ids pre result last_try st = (step, last', st')"
    and ok: "exec_ok (r_run_id run) st" and env: "env_ok env (r_run_id run)"
  shows "step_ok (r_run_id run) step st'"
proof -
  obtain decision stored where prepared: "env_prepare env (ch_input_payload cfg) (x_output result) (es_now st) = (decision, stored)"
    by fastforce
  define st1 where "st1 = on_stored (\<lambda>_. stored) st"
  have "stored_ok (r_run_id run) stored"
    using env ok prepared unfolding env_ok_def exec_ok_def by (metis snd_conv)
  then have ok1: "exec_ok (r_run_id run) st1" unfolding st1_def by (rule exec_ok_callback [OF ok])
  show ?thesis
  proof (cases "od_accepted decision")
    case False
    define st2 where "st2 = record_attempt_result env run cand k f result (Some (od_error_code decision)) pre
      (Some (od_usage_context decision)) ids st1"
    have ok2: "exec_ok (r_run_id run) st2" unfolding st2_def using ok1 by (rule record_attempt_ok)
    show ?thesis
    proof (cases "k < ch_max_retries cfg")
      case True
      then have "step = NextRetry" "st' = st2"
        using handled prepared False by (simp_all add: handle_result_def Let_def st1_def st2_def)
      then show ?thesis using ok2 by (simp add: step_ok_def)
    next
      case no_retry: False
      then obtain last'' b where "give_up_candidate env run cand f b last'' st2 = (step, last', st')"
        using handled prepared False by (auto simp: handle_result_def Let_def st1_def st2_def)
      from give_up_candidate_ok [OF this ok2] show ?thesis .
    qed
  next
    case True
    define st2 where "st2 = record_attempt_result env run cand k f result None pre None ids st1"
    have ok2: "exec_ok (r_run_id run) st2" unfolding st2_def using ok1 by (rule record_attempt_ok)
    obtain reply stored' where final: "env_finalize env (ch_input_payload cfg) (od_output decision)
        (x_media_candidates result) (ch_policy cfg) (es_now st2) = (reply, stored')" by fastforce
    define st3 where "st3 = on_stored (\<lambda>_. stored') st2"
    have "stored_ok (r_run_id run) stored'"
      using env ok2 final unfolding env_ok_def exec_ok_def by (metis snd_conv)
    then have ok3: "exec_ok (r_run_id run) st3" unfolding st3_def by (rule exec_ok_callback [OF ok2])
    show ?thesis
      using handled prepared True final fail_run_settles [OF ok3] succeed_run_settles [OF ok3]
      by (cases reply) (auto simp: handle_result_def Let_def st1_def st2_def st3_def step_ok_def)
  qed
qed

lemma call_provider_ok:
  assumes call: "call_provider env cfg run cand adapter f k request ids last_try st = (step, last', st')"
    and ok: "exec_ok (r_run_id run) st" and env: "env_ok env (r_run_id run)"
  shows "step_ok (r_run_id run) step st'"
proof (cases "enforce_context_budget request")
  case (Inl e)
  then have handled: "handle_error env cfg run cand f k ids None e last_try st = (step, last', st')"
    using call by (simp add: call_provider_def)
  show ?thesis by (rule handle_error_ok [OF handled ok])
next
  case (Inr pre)
  obtain reply st1 where sent: "dispatch env adapter (cd_provider_id cand) request st = (reply, st1)" by fastforce
  note ok1 = dispatch_ok [OF sent ok env]
  consider (error) e where "reply = Inl (ProviderFault e)" "handle_error env cfg run cand f k ids pre e last_try st1 = (step, last', st')"
    | (fault) x where "step = Escaped x" "st' = rollback st1"
    | (result) result where "handle_result env cfg run cand f k ids pre result last_try st1 = (step, last', st')"
    using call Inr sent by (cases reply) (auto simp: call_provider_def split: call_fault.splits)
  then show ?thesis
  proof cases
    case error
    show ?thesis by (rule handle_error_ok [OF error(2) ok1])
  next
    case fault
    then show ?thesis using exec_ok_rollback [OF ok1] by (simp add: step_ok_def)
  next
    case result
    show ?thesis by (rule handle_result_ok [OF result ok1 env])
  qed
qed

lemma run_attempt_ok:
  assumes attempt: "run_attempt env cfg run cand f k last_try st = (step, last', st')"
    and ok: "exec_ok (r_run_id run) st" and env: "env_ok env (r_run_id run)"
  shows "step_ok (r_run_id run) step st'"
proof -
  obtain canceled st1 where check: "check_cancel env run st = (canceled, st1)" by fastforce
  note ok1 = check_cancel_ok [OF check ok]
  show ?thesis
  proof (cases canceled)
    case True
    then have "st' = st1" using attempt check by (simp add: run_attempt_def)
    then show ?thesis using True ok1 by (simp add: step_ok_def)
  next
    case False
    show ?thesis
    proof (cases "env_providers env (cd_provider_id cand)")
      case None
      then obtain last'' b where give_up: "give_up_candidate env run cand f b last'' st1 = (step, last', st')"
        using attempt check False by (auto simp: run_attempt_def Let_def)
      show ?thesis by (rule give_up_candidate_ok [OF give_up conjunct1 [OF ok1]])
    next
      case (Some adapter)
      let ?request = "build_provider_request run (ch_input_payload cfg) (ch_policy cfg) (ch_timeout_ms cfg) cand k"
      obtain reply st2 where claim: "claim_dispatch env run (cd_provider_id cand) ?request st1 = (reply, st2)"
        by fastforce
      note ok2 = claim_dispatch_ok [OF claim conjunct1 [OF ok1]]
      consider (refused) last'' b where "give_up_candidate env run cand f b last'' st2 = (step, last', st')"
        | (fault) x where "step = Escaped x" "st' = rollback st2"
        | (claimed) ids last'' where "reply = Return ids"
            "call_provider env cfg run cand adapter f k ?request ids last'' st2 = (step, last', st')"
        using attempt check False Some claim
        by (cases reply) (auto simp: run_attempt_def Let_def split: call_fault.splits)
      then show ?thesis
      proof cases
        case refused
        show ?thesis by (rule give_up_candidate_ok [OF refused ok2])
      next
        case fault
        then show ?thesis using exec_ok_rollback [OF ok2] by (simp add: step_ok_def)
      next
        case claimed
        show ?thesis by (rule call_provider_ok [OF claimed(2) ok2 env])
      qed
    qed
  qed
qed

subsection \<open>The loops\<close>

lemma retry_loop_ok:
  assumes "retry_loop n env cfg run cand f k last_try st = (step, last', st')"
    and "exec_ok (r_run_id run) st" and env: "env_ok env (r_run_id run)"
  shows "step_ok (r_run_id run) step st'"
  using assms(1,2)
proof (induction n arbitrary: k last_try st)
  case 0
  then show ?case by (auto simp: step_ok_def)
next
  case (Suc n)
  obtain step1 last1 st1 where attempt: "run_attempt env cfg run cand f k last_try st = (step1, last1, st1)"
    by (metis prod.exhaust)
  note done1 = run_attempt_ok [OF attempt Suc.prems(2) env]
  show ?case
  proof (cases "step1 = NextRetry")
    case True
    then have rest: "retry_loop n env cfg run cand f (k + 1) last1 st1 = (step, last', st')"
      using Suc.prems(1) attempt by simp
    have "exec_ok (r_run_id run) st1" using done1 by (simp add: step_ok_def)
    from Suc.IH [OF rest this] show ?thesis .
  next
    case False
    then have "step = step1" "st' = st1" using Suc.prems(1) attempt by (cases step1; simp)+
    then show ?thesis using done1 by simp
  qed
qed

lemma fail_chain_settles:
  assumes "exec_ok (r_run_id run) st"
  shows "exec_ok (r_run_id run) (fail_chain env run last_try st) \<and> settled (r_run_id run) (fail_chain env run last_try st)"
  unfolding fail_chain_def by (rule fail_run_settles [OF assms])

lemma candidate_loop_ok:
  assumes "candidate_loop env cfg run cands f last_try st = (fault, st')"
    and "exec_ok (r_run_id run) st" and env: "env_ok env (r_run_id run)"
  shows "exec_ok (r_run_id run) st' \<and> (fault = None \<longrightarrow> settled (r_run_id run) st')"
  using assms(1,2)
proof (induction cands arbitrary: f last_try st)
  case Nil
  then show ?case using fail_chain_settles [OF Nil(2)] by auto
next
  case (Cons cand cands)
  let ?n = "nat (ch_max_retries cfg + 1)"
  obtain step last1 st1 where loop: "retry_loop ?n env cfg run cand f 0 last_try st = (step, last1, st1)"
    by (metis prod.exhaust)
  have done1: "step_ok (r_run_id run) step st1" by (rule retry_loop_ok [OF loop Cons.prems(2) env])
  have ok1: "exec_ok (r_run_id run) st1" using done1 by (simp add: step_ok_def)
  consider (over) "step = Finished" "fault = None" "st' = st1"
    | (fault) x where "step = Escaped x" "fault = Some x" "st' = st1"
    | (failed) "fault = None" "st' = fail_chain env run last1 st1"
    | (again) "candidate_loop env cfg run cands True last1 st1 = (fault, st')"
    using Cons.prems(1) [unfolded candidate_loop.simps loop prod.case]
    by (cases step; cases "ch_allow_fallback cfg") (simp_all split: attempt_step.splits)
  then show ?case
  proof cases
    case again
    from Cons.IH [OF again ok1] show ?thesis .
  next
    case failed
    then show ?thesis using fail_chain_settles [OF ok1] by simp
  qed (use done1 ok1 in \<open>auto simp: step_ok_def\<close>)
qed

text \<open>The preprocessor may already have failed the run.\<close>

lemma chain_ok:
  assumes chain: "execute_candidate_chain env run cands payload st = (fault, st')"
    and ok: "exec_ok (r_run_id run) st" and env: "env_ok env (r_run_id run)"
  shows "exec_ok (r_run_id run) st'
    \<and> (fault = None \<longrightarrow> (\<exists>r. get_run_row (r_run_id run) (st_runs (es_now st')) = Some r \<and> terminal_status (r_status r)))"
proof -
  obtain payload' stored where pre: "env_preprocess env payload (run_policy run) (es_now st) = (payload', stored)"
    by fastforce
  define st1 where "st1 = on_stored (\<lambda>_. stored) st"
  have "stored_ok (r_run_id run) stored" using env ok pre unfolding env_ok_def exec_ok_def by (metis snd_conv)
  then have ok1: "exec_ok (r_run_id run) st1" unfolding st1_def by (rule exec_ok_callback [OF ok])
  obtain r where r: "get_run_row (r_run_id run) (st_runs (es_now st1)) = Some r"
    using ok1 by (auto simp: exec_ok_def stored_ok_def)
  have run: "current_run run st1 = r" using r by (simp add: current_run_def)
  have unfolded: "(if r_status r = ''failed'' then (None, st1)
      else case check_cancel env run st1 of
             (True, st) \<Rightarrow> (None, st)
           | (False, st) \<Rightarrow>
               candidate_loop env (settings_of_policy (run_policy run) payload') run cands False first_attempt st)
      = (fault, st')"
    using chain unfolding execute_candidate_chain_def pre Let_def prod.case st1_def [symmetric] run .
  show ?thesis
  proof (cases "r_status r = ''failed''")
    case True
    then have "st' = st1" using unfolded by simp
    then show ?thesis using ok1 r True by simp
  next
    case False
    obtain canceled st2 where check: "check_cancel env run st1 = (canceled, st2)" by fastforce
    note ok2 = check_cancel_ok [OF check ok1]
    show ?thesis
    proof (cases canceled)
      case True
      then have "st' = st2 \<and> fault = None"
        using unfolded False check by simp
      then show ?thesis using ok2 True by (auto simp: settled_def)
    next
      case not_canceled: False
      then have "candidate_loop env (settings_of_policy (run_policy run) payload') run cands False first_attempt st2 = (fault, st')"
        using unfolded False check by simp
      from candidate_loop_ok [OF this conjunct1 [OF ok2] env] show ?thesis
        by (auto simp: settled_def)
    qed
  qed
qed

lemma chain_log_bounded:
  assumes chain: "execute_candidate_chain env run cands payload st = (fault, st')"
  shows "\<exists>new. es_sent st' = es_sent st @ new
    \<and> length new \<le> length cands * nat (max 0 (coerce_int_default 0 (py_get (run_policy run) ''max_retries'')) + 1)
    \<and> chain_log (flag_or_true (run_policy run) ''allow_fallback'') new"
proof -
  obtain payload' stored where pre: "env_preprocess env payload (run_policy run) (es_now st) = (payload', stored)"
    by fastforce
  define st1 where "st1 = on_stored (\<lambda>_. stored) st"
  obtain canceled st2 where check: "check_cancel env run st1 = (canceled, st2)" by fastforce
  have sent: "es_sent st1 = es_sent st" "es_sent st2 = es_sent st"
    using check_cancel_sent [OF check] by (simp_all add: st1_def)
  let ?cfg = "settings_of_policy (run_policy run) payload'"
  have cfg: "ch_max_retries ?cfg = max 0 (coerce_int_default 0 (py_get (run_policy run) ''max_retries''))"
    "ch_allow_fallback ?cfg = flag_or_true (run_policy run) ''allow_fallback''"
    by (simp_all add: settings_of_policy_def)
  consider "es_sent st' = es_sent st" | "candidate_loop env ?cfg run cands False first_attempt st2 = (fault, st')"
    using chain [unfolded execute_candidate_chain_def pre Let_def prod.case, folded st1_def, unfolded check] sent
    by (cases canceled) (auto split: if_splits)
  then show ?thesis
  proof cases
    case 1
    then show ?thesis by (intro exI [of _ "[]"]) (simp add: chain_log_def)
  next
    case 2
    from candidate_loop_log [OF this] show ?thesis by (simp add: cfg sent)
  qed
qed

subsection \<open>When no exception escapes\<close>

definition only_provider_errors :: "environment \<Rightarrow> bool" where
  "only_provider_errors env =
     (\<forall>p adapter n request x. env_providers env p = Some adapter \<longrightarrow> adapter n request \<noteq> Raise (PyFault x))"

lemma give_up_no_escape: "give_up_candidate env run cand f b last_try st = (step, last', st') \<Longrightarrow> step \<noteq> Escaped x"
  by (auto simp: give_up_candidate_def split: if_splits)

lemma run_attempt_no_escape:
  assumes attempt: "run_attempt env cfg run cand f k last_try st = (step, last', st')"
    and env: "only_provider_errors env" "\<not> env_budget_guard env"
  shows "step \<noteq> Escaped x"
proof -
  obtain canceled st1 where check: "check_cancel env run st = (canceled, st1)" by fastforce
  let ?request = "build_provider_request run (ch_input_payload cfg) (ch_policy cfg) (ch_timeout_ms cfg) cand k"
  consider "step = Finished"
    | last'' b where "give_up_candidate env run cand f b last'' st1 = (step, last', st')"
    | adapter last'' where "env_providers env (cd_provider_id cand) = Some adapter"
        "call_provider env cfg run cand adapter f k ?request [] last'' st1 = (step, last', st')"
    using attempt check env(2)
    by (cases canceled; cases "env_providers env (cd_provider_id cand)")
       (auto simp: run_attempt_def claim_dispatch_def Let_def)
  then show ?thesis
  proof cases
    case 2
    then show ?thesis by (rule give_up_no_escape)
  next
    case (3 adapter last'')
    show ?thesis
    proof (cases "enforce_context_budget ?request")
      case (Inl e)
      then show ?thesis using 3(2) by (simp add: call_provider_def handle_error_step(4))
    next
      case (Inr pre)
      obtain reply st2 where sent: "dispatch env adapter (cd_provider_id cand) ?request st1 = (reply, st2)" by fastforce
      have "reply \<noteq> Raise (PyFault y)" for y
        using sent env(1) 3(1) by (auto simp: dispatch_def only_provider_errors_def Let_def)
      then consider e where "handle_error env cfg run cand f k [] pre e last'' st2 = (step, last', st')"
        | result where "handle_result env cfg run cand f k [] pre result last'' st2 = (step, last', st')"
        using 3(2) Inr sent by (cases reply) (auto simp: call_provider_def split: call_fault.splits)
      then show ?thesis
      proof cases
        case 1
        then show ?thesis by (rule handle_error_step(4))
      next
        case 2
        then show ?thesis by (rule handle_result_step(4))
      qed
    qed
  qed simp
qed

lemma retry_loop_no_escape:
  assumes "retry_loop n env cfg run cand f k last_try st = (step, last', st')"
    and "only_provider_errors env" "\<not> env_budget_guard env"
  shows "step \<noteq> Escaped x"
  using assms(1)
proof (induction n arbitrary: k last_try st)
  case (Suc n)
  obtain step1 last1 st1 where attempt: "run_attempt env cfg run cand f k last_try st = (step1, last1, st1)"
    by (metis prod.exhaust)
  show ?case
    using Suc.prems Suc.IH attempt run_attempt_no_escape [OF attempt assms(2,3)] by (cases step1) auto
qed simp

lemma candidate_loop_no_escape:
  assumes "only_provider_errors env" "\<not> env_budget_guard env"
  shows "fst (candidate_loop env cfg run cands f last_try st) = None"
proof (induction cands arbitrary: f last_try st)
  case (Cons cand cands)
  obtain step last1 st1 where loop: "retry_loop (nat (ch_max_retries cfg + 1)) env cfg run cand f 0 last_try st
      = (step, last1, st1)" by (metis prod.exhaust)
  show ?case using Cons.IH loop retry_loop_no_escape [OF loop assms] by (cases step) auto
qed simp

lemma chain_no_escape:
  assumes "only_provider_errors env" "\<not> env_budget_guard env"
  shows "fst (execute_candidate_chain env run cands payload st) = None"
  using candidate_loop_no_escape [OF assms]
  by (auto simp: execute_candidate_chain_def Let_def split: prod.splits bool.splits)

end
