(* ===== verification/ProviderReservations.thy ===== *)
theory ProviderReservations
  imports ProviderSettling
begin

section \<open>Reservations behind the requests of a run\<close>

text \<open>
  What the fuse reserves for a request that is dispatched for the first time, why the later requests of a
  chain find their dispatch keys unused, and what settling a claim at an unknown cost leaves behind.
\<close>

subsection \<open>Settling at an unknown cost\<close>

lemma reconcile_unknown_claims:
  assumes "budget_inv db"
  shows "row_get bl_claim_id k (bd_claims (reconcile_claim now None claim_id db)) =
    map_option (\<lambda>claim. if k = claim_id \<and> bl_status claim \<noteq> ''reconciled''
                        then reconciled_claim now (bl_reserved_cost_usd claim) claim else claim)
      (row_get bl_claim_id k (bd_claims db))"
proof (cases "row_get bl_claim_id claim_id (bd_claims db)")
  case None
  then show ?thesis by (cases "row_get bl_claim_id k (bd_claims db)") (auto simp: reconcile_claim_def)
next
  case (Some claim)
  have id: "bl_claim_id claim = claim_id" using row_get_Some [OF Some] by simp
  have put: "row_get bl_claim_id k (row_put bl_claim_id (reconciled_claim now a claim) (bd_claims db)) =
      (if k = claim_id then Some (reconciled_claim now a claim) else row_get bl_claim_id k (bd_claims db))" for a
    using row_get_put_same [of bl_claim_id "reconciled_claim now a claim" "bd_claims db",
        unfolded reconciled_claim_simps(1) id]
      row_get_put_other [of k bl_claim_id "reconciled_claim now a claim" "bd_claims db"] Some id by auto
  show ?thesis
  proof (cases "k = claim_id")
    case True
    then show ?thesis using Some by (simp add: reconcile_claim_def Let_def put [unfolded True])
  next
    case False
    then show ?thesis using Some
      by (cases "row_get bl_claim_id k (bd_claims db)") (simp_all add: reconcile_claim_def Let_def put)
  qed
qed

lemma settled_at_reservation:
  assumes "0 \<le> reserved" and "0 \<le> bc_reserved_cost_usd c"
  shows "bc_reserved_cost_usd (settled_counter reserved reserved c) = round6 (bc_reserved_cost_usd c)"
  using assms by (simp add: settled_counter_def max_def)

text \<open>The counters keep what they hold, up to one rounding.\<close>

lemma reconcile_unknown_counters:
  assumes inv: "budget_inv db" and c: "row_get bc_scope_key key (bd_counters db) = Some c"
  shows "\<exists>c'. row_get bc_scope_key key (bd_counters (reconcile_claim now None claim_id db)) = Some c'
    \<and> bc_reserved_cost_usd c' \<in> {bc_reserved_cost_usd c, round6 (bc_reserved_cost_usd c)}"
proof (cases "row_get bl_claim_id claim_id (bd_claims db)")
  case None
  then show ?thesis using c by (simp add: reconcile_claim_def)
next
  case (Some claim)
  have claim: "claim \<in> set (bd_claims db)" using row_get_Some [OF Some] by simp
  show ?thesis
  proof (cases "bl_status claim = ''reconciled'' \<or> key \<noteq> bl_scope_key claim")
    case True
    have "row_get bc_scope_key key (row_put bc_scope_key (settled_counter r a x) rows) = row_get bc_scope_key key rows"
      if "bc_scope_key x \<noteq> key" for r a x rows
      using that row_get_put_other [of key bc_scope_key "settled_counter r a x" rows] by (simp add: settled_counter_def)
    then show ?thesis using True Some c
      by (cases "row_get bc_scope_key (bl_scope_key claim) (bd_counters db)")
         (auto simp: reconcile_claim_def Let_def dest: row_get_Some)
  next
    case False
    have "0 \<le> bl_reserved_cost_usd claim" using inv claim by (auto simp: budget_inv_def claim_ok_def)
    moreover have "0 \<le> bc_reserved_cost_usd c" "bc_scope_key c = key"
      using inv row_get_Some [OF c] by (auto simp: budget_inv_def ledger_ok_def counter_ok_def)
    ultimately have "bc_reserved_cost_usd (settled_counter (bl_reserved_cost_usd claim) (bl_reserved_cost_usd claim) c)
        = round6 (bc_reserved_cost_usd c)" by (simp add: settled_at_reservation)
    moreover have "row_get bc_scope_key key (row_put bc_scope_key (settled_counter r a c) (bd_counters db))
        = Some (settled_counter r a c)" for r a
      using row_get_put_same [of bc_scope_key "settled_counter r a c" "bd_counters db"] c \<open>bc_scope_key c = key\<close>
      by (simp add: settled_counter_def)
    ultimately show ?thesis using False Some c by (simp add: reconcile_claim_def Let_def)
  qed
qed

lemma reconcile_unknown:
  assumes "budget_inv db"
  shows "row_get bl_claim_id k (bd_claims (reconcile now claim_ids None db)) =
      map_option (\<lambda>claim. if k \<in> set claim_ids \<and> bl_status claim \<noteq> ''reconciled''
                          then reconciled_claim now (bl_reserved_cost_usd claim) claim else claim)
        (row_get bl_claim_id k (bd_claims db))"
    and "row_get bc_scope_key key (bd_counters db) = Some c \<Longrightarrow>
      \<exists>c'. row_get bc_scope_key key (bd_counters (reconcile now claim_ids None db)) = Some c'
        \<and> bc_reserved_cost_usd c' \<in> {bc_reserved_cost_usd c, round6 (bc_reserved_cost_usd c)}"
  using assms
proof (induction claim_ids arbitrary: db c)
  case Nil
  {
    case 1
    then show ?case by (cases "row_get bl_claim_id k (bd_claims db)") (simp_all add: reconcile_def)
  next
    case 2
    then show ?case by (simp add: reconcile_def)
  }
next
  case (Cons id ids)
  have rest: "reconcile now (id # ids) None db = reconcile now ids None (reconcile_claim now None id db)" for db
    by (simp add: reconcile_def)
  {
    case 1
    note inv = reconcile_claim_keeps_inv [OF 1, of now None id]
    show ?case unfolding rest Cons.IH(1) [OF inv] reconcile_unknown_claims [OF 1]
      by (cases "row_get bl_claim_id k (bd_claims db)") (auto simp: reconciled_claim_def)
  next
    case 2
    note inv = reconcile_claim_keeps_inv [OF 2(2), of now None id]
    obtain c' where c': "row_get bc_scope_key key (bd_counters (reconcile_claim now None id db)) = Some c'"
        "bc_reserved_cost_usd c' \<in> {bc_reserved_cost_usd c, round6 (bc_reserved_cost_usd c)}"
      using reconcile_unknown_counters [OF 2(2,1)] by blast
    from Cons.IH(2) [OF c'(1) inv] c'(2) show ?case unfolding rest by auto
  }
qed

text \<open>What the context check leaves behind when it refuses a request.\<close>

lemma refused_context_settles:
  assumes refused: "enforce_context_budget request = Raise error" and guard: "env_budget_guard env"
    and ids: "claim_ids \<noteq> []"
    and call: "call_provider env cfg run cand adapter f k request claim_ids last_try st = (step, last', st')"
  shows "es_sent st' = es_sent st \<and> step \<noteq> NextRetry
    \<and> (\<exists>later. st_budget (es_now st') = reconcile later claim_ids None (st_budget (es_now st)))"
proof -
  obtain b where error: "error = context_overflow b"
    using refused by (auto simp: enforce_context_budget_def split: option.splits if_splits)
  let ?error = "sanitize_review_error run error"
  have cost: "max 0 (pe_cost ?error) = 0" "pe_error_code ?error = ''provider.context_overflow''"
    "py_get (case pe_usage_context ?error of None \<Rightarrow> [] | Some d \<Rightarrow> d) ''cost_estimate_mode'' = JNull"
    by (simp_all add: error context_overflow_def provider_execution_error_def sanitize_review_error_def
        budget_usage_context_def py_get_def)
  have handled: "handle_error env cfg run cand f k claim_ids None error last_try st = (step, last', st')"
    using call refused by (simp add: call_provider_def)
  have settled: "\<exists>later. st_budget (es_now (record_attempt_error env run cand k f t ?error claim_ids st)) =
      reconcile later claim_ids None (st_budget (es_now st))" for t
    using guard ids cost by (simp add: record_attempt_error_def record_provider_call_def evidence_cost_def or_empty_def
        unknown_cost_codes_def str_or_empty_def known_provider_cost_usd_def read_clock_def on_stored_def Let_def) blast
  have "st_budget (es_now st') = st_budget (es_now (record_attempt_error env run cand k f (ch_timeout_ms cfg) ?error claim_ids st))"
    using handled by (auto simp: handle_error_def give_up_candidate_def with_preflight_def fail_run_def write_run_def
        read_clock_def Let_def split: if_splits)
  then show ?thesis
    using settled handle_error_step(1,2) [OF handled] context_error_final [OF refused] by auto
qed

subsection \<open>Dispatch keys that nobody used\<close>

definition unclaimed :: "string set \<Rightarrow> budget_db \<Rightarrow> bool" where
  "unclaimed keys db =
     ((\<forall>key\<in>keys. existing_claims key (bd_claims db) = [])
      \<and> (\<forall>c\<in>set (bd_counters db). bc_period_kind c \<in> {''day'', ''month''}))"

text \<open>The dispatch keys of a chain: one for each candidate and each of its rounds.\<close>

definition attempt_keys :: "run_record \<Rightarrow> candidate list \<Rightarrow> int \<Rightarrow> string list" where
  "attempt_keys run cands max_retries =
     concat (map (\<lambda>cand. map (dispatch_key_of run (cd_provider_id cand) (cd_model_id cand)) [0..max_retries]) cands)"

definition keeps_unclaimed :: "string set \<Rightarrow> (stored \<Rightarrow> stored) \<Rightarrow> bool" where
  "keeps_unclaimed keys f =
     (\<forall>K s. K \<subseteq> keys \<longrightarrow> unclaimed K (st_budget s) \<longrightarrow> unclaimed K (st_budget (f s)))"

text \<open>Neither other sessions nor the collaborators claim under these keys.\<close>

definition keys_private :: "environment \<Rightarrow> string set \<Rightarrow> bool" where
  "keys_private env keys =
     ((\<forall>n. keeps_unclaimed keys (after_others env n))
      \<and> (\<forall>p d. keeps_unclaimed keys (\<lambda>s. snd (env_preprocess env p d s)))
      \<and> (\<forall>p d. keeps_unclaimed keys (\<lambda>s. snd (env_prepare env p d s)))
      \<and> (\<forall>p d m q. keeps_unclaimed keys (\<lambda>s. snd (env_finalize env p d m q s))))"

lemma existing_claims_empty:
  "existing_claims key claims = [] \<longleftrightarrow> (\<forall>c\<in>set claims. bl_dispatch_key c \<notin> {key @ '':day'', key @ '':month''})"
  by (auto simp: existing_claims_def filter_empty_conv simp flip: set_empty2)

lemma key_kinds_apart [simp]: "a @ '':day'' \<noteq> b @ '':month''" "a @ '':month'' \<noteq> b @ '':day''"
proof -
  have "last (x @ '':day'') \<noteq> last (y @ '':month'')" for x y :: string by simp
  then show "a @ '':day'' \<noteq> b @ '':month''" "a @ '':month'' \<noteq> b @ '':day''" by metis+
qed

lemma unclaimed_mono: "unclaimed K db \<Longrightarrow> K' \<subseteq> K \<Longrightarrow> unclaimed K' db"
  by (auto simp: unclaimed_def)

lemma open_counters_kinds:
  assumes "open_counters provider_id account_class periods counters = (keys, counters')"
    and "\<forall>c\<in>set counters. bc_period_kind c \<in> D" and "\<forall>(kind, _)\<in>set periods. kind \<in> D"
  shows "\<forall>c\<in>set counters'. bc_period_kind c \<in> D"
  using assms
proof (induction provider_id account_class periods counters arbitrary: keys counters' rule: open_counters.induct)
  case (2 provider_id account_class kind start till limit periods counters)
  show ?case
  proof (cases "limit \<le> 0")
    case True
    have eq: "open_counters provider_id account_class periods counters = (keys, counters')"
      using 2(3) True by simp
    show ?thesis using 2(1) [OF True eq 2(4)] 2(5) by auto
  next
    case False
    define row where "row = new_counter provider_id account_class kind start till limit"
    define opened where "opened = rows_update (\<lambda>c. bc_scope_key c = bc_scope_key row)
      (\<lambda>c. c\<lparr>bc_limit_cost_usd := limit\<rparr>) (ensure_counter row counters)"
    obtain keys' where rest: "open_counters provider_id account_class periods opened = (keys', counters')"
      using 2(3) False by (auto simp: row_def opened_def Let_def split: prod.splits)
    have "bc_period_kind row \<in> D" using 2(5) by (simp add: row_def new_counter_def)
    then have "\<forall>c\<in>set opened. bc_period_kind c \<in> D"
      using 2(4) by (auto simp: opened_def in_rows_update ensure_counter_def split: if_splits)
    from 2(2) [OF False row_def refl, folded opened_def, OF rest this] 2(5) show ?thesis by auto
  qed
qed auto

lemma budget_periods_kinds: "\<forall>(kind, _)\<in>set (budget_periods now d m). kind \<in> {''day'', ''month''}"
  by (auto simp: budget_periods_def Let_def split: prod.splits)

text \<open>What a first claim writes.\<close>

lemma claim_counters_writes:
  assumes claim: "claim_counters now run p cls key d m ratio est db = (Return (Some receipt), db')"
    and ledger: "ledger_ok claims (bd_counters db)"
    and kinds: "\<forall>c\<in>set (bd_counters db). bc_period_kind c \<in> {''day'', ''month''}"
  obtains rows where "bd_claims db' = bd_claims db @ map (new_claim key run p cls est) rows"
    "map bc_scope_key rows = map (\<lambda>(kind, start, _). scope_key_of p cls kind start)
        (filter (\<lambda>(_, _, _, limit). 0 < limit) (budget_periods now d m))"
    "\<forall>c\<in>set rows. bc_period_kind c \<in> {''day'', ''month''}"
    "\<forall>c\<in>set (bd_counters db'). bc_period_kind c \<in> {''day'', ''month''}"
proof -
  obtain keys counters where opened: "open_counters p cls (budget_periods now d m) (bd_counters db) = (keys, counters)"
    by fastforce
  obtain w rows where charged: "charge_counters est ratio False (counter_rows keys counters) = (w, rows)" by fastforce
  have kinds': "\<forall>c\<in>set counters. bc_period_kind c \<in> {''day'', ''month''}"
    by (rule open_counters_kinds [OF opened kinds budget_periods_kinds])
  have keys: "set keys \<subseteq> bc_scope_key ` set counters" using open_counters_spec [OF opened ledger] by blast
  note found = counter_rows_spec [OF keys]
  have pointwise: "list_all2 (\<lambda>c c'. \<exists>e. c' = (charged est c)\<lparr>bc_warning_emitted := e\<rparr>) (counter_rows keys counters) rows"
    using charge_counters_rows [of est "counter_rows keys counters" ratio False] charged by simp
  then have scopes: "map bc_scope_key rows = map bc_scope_key (counter_rows keys counters)"
    by (induction rule: list_all2_induct) (auto simp: charged_def)
  have rows: "\<forall>c\<in>set rows. bc_period_kind c \<in> {''day'', ''month''}"
    using list_all2_in [OF pointwise] found kinds' by (fastforce simp: charged_def)
  have done': "bd_claims db' = bd_claims db @ map (new_claim key run p cls est) rows"
    "bd_counters db' = fold (row_put bc_scope_key) rows counters"
    using claim by (auto simp: claim_counters_def opened charged Let_def insert_claims_def split: if_splits option.splits)
  have "\<forall>c\<in>set (bd_counters db'). bc_period_kind c \<in> {''day'', ''month''}"
    unfolding done'(2) using in_fold_put [of _ bc_scope_key rows counters] rows kinds' by blast
  from that [OF done'(1) _ rows this] show thesis
    using open_counters_keys [of p cls "budget_periods now d m" "bd_counters db"] opened scopes found by simp
qed


text \<open>A claim uses up its own dispatch key and no other.\<close>

lemma claim_keeps_unclaimed:
  assumes "unclaimed K db" and inv: "budget_inv db"
  shows "unclaimed (K - {dispatch_key_of run p model (pq_retry_count request)})
           (snd (claim_before_dispatch now run p model request db))"
proof (rule claim_cases [of now run p model request db])
  assume "snd (claim_before_dispatch now run p model request db) = db"
  then show ?thesis using assms(1) by (simp add: unclaimed_def)
next
  fix config cls d m est
  let ?key = "dispatch_key_of run p model (pq_retry_count request)"
  assume claim: "claim_before_dispatch now run p model request db =
      claim_counters now run p cls ?key d m (warning_ratio config) est db"
  have kinds: "\<forall>c\<in>set (bd_counters db). bc_period_kind c \<in> {''day'', ''month''}"
    using assms(1) by (simp add: unclaimed_def)
  have ledger: "ledger_ok (bd_claims db) (bd_counters db)" using inv by (simp add: budget_inv_def)
  obtain reply db' where result: "claim_counters now run p cls ?key d m (warning_ratio config) est db = (reply, db')"
    by fastforce
  show ?thesis
  proof (cases "\<exists>receipt. reply = Return (Some receipt)")
    case True
    then obtain receipt where "claim_counters now run p cls ?key d m (warning_ratio config) est db
        = (Return (Some receipt), db')" using result by auto
    then obtain rows where rows: "bd_claims db' = bd_claims db @ map (new_claim ?key run p cls est) rows"
      "\<forall>c\<in>set rows. bc_period_kind c \<in> {''day'', ''month''}"
      "\<forall>c\<in>set (bd_counters db'). bc_period_kind c \<in> {''day'', ''month''}"
      using claim_counters_writes [OF _ ledger kinds] by blast
    have "existing_claims key (bd_claims db') = []" if "key \<in> K" "key \<noteq> ?key" for key
      using assms(1) that rows(2)
      by (auto simp: unclaimed_def existing_claims_empty rows(1) new_claim_def Let_def)
    then show ?thesis using rows(3) claim result by (simp add: unclaimed_def)
  next
    case False
    obtain keys counters where opened: "open_counters p cls (budget_periods now d m) (bd_counters db) = (keys, counters)"
      by fastforce
    have "bd_claims db' = bd_claims db" "bd_counters db' \<in> {bd_counters db, counters}"
    proof -
      obtain w rows where charged: "charge_counters est (warning_ratio config) False (counter_rows keys counters) = (w, rows)"
        by fastforce
      have "db' = snd (if list_ex (exhausted est) (counter_rows keys counters)
          then (Raise (budget_exceeded p), db\<lparr>bd_counters := counters\<rparr>) else (Raise (PyFault ''IntegrityError'') :: (call_fault, claim_receipt option) outcome, db))"
        using result False
        by (cases "list_ex (exhausted est) (counter_rows keys counters)";
            cases "insert_claims (map (new_claim ?key run p cls est) rows) (bd_claims db)")
           (auto simp: claim_counters_def opened charged Let_def)
      then show "bd_claims db' = bd_claims db" "bd_counters db' \<in> {bd_counters db, counters}"
        by (cases "list_ex (exhausted est) (counter_rows keys counters)"; simp)+
    qed
    then have "bd_claims db' = bd_claims db \<and> (\<forall>c\<in>set (bd_counters db'). bc_period_kind c \<in> {''day'', ''month''})"
      using kinds open_counters_kinds [OF opened kinds budget_periods_kinds] by (elim insertE emptyE) simp_all
    then show ?thesis using assms(1) claim result by (simp add: unclaimed_def)
  qed
qed

lemma reconcile_claim_keeps_unclaimed:
  assumes "unclaimed K db" and inv: "budget_inv db"
  shows "unclaimed K (reconcile_claim now cost claim_id db)"
proof (cases "row_get bl_claim_id claim_id (bd_claims db)")
  case None
  then show ?thesis using assms(1) by (simp add: reconcile_claim_def)
next
  case (Some claim)
  have "map bl_dispatch_key (row_put bl_claim_id (reconciled_claim now a claim) (bd_claims db)) =
      map bl_dispatch_key (bd_claims db)" for a
    using inv row_get_Some [OF Some] by (intro map_row_put) (simp_all add: budget_inv_def)
  then have keys: "bl_dispatch_key ` set (row_put bl_claim_id (reconciled_claim now a claim) (bd_claims db)) =
      bl_dispatch_key ` set (bd_claims db)" for a by (metis list.set_map)
  have "bc_period_kind c \<in> {''day'', ''month''}" if "row_get bc_scope_key key (bd_counters db) = Some counter"
    "c \<in> set (row_put bc_scope_key (settled_counter r a counter) (bd_counters db))" for c key counter r a
    using in_row_put [OF that(2)] row_get_Some [OF that(1)] assms(1)
    by (auto simp: unclaimed_def settled_counter_def)
  moreover have "existing_claims key claims = [] \<longleftrightarrow> bl_dispatch_key ` set claims \<inter> {key @ '':day'', key @ '':month''} = {}"
    for key claims unfolding existing_claims_empty by (simp add: image_iff) metis
  ultimately show ?thesis
    using assms(1) Some by (auto simp: reconcile_claim_def Let_def unclaimed_def keys split: option.splits)
qed

lemma reconcile_keeps_unclaimed:
  "unclaimed K db \<Longrightarrow> budget_inv db \<Longrightarrow> unclaimed K (reconcile now claim_ids cost db)"
  unfolding reconcile_def
  by (induction claim_ids arbitrary: db) (simp_all add: reconcile_claim_keeps_unclaimed reconcile_claim_keeps_inv)


subsection \<open>The request about to leave\<close>

text \<open>
  The tables hold, for every period the provider has a limit for, an open reservation that was made for
  exactly this dispatch, of this request's estimated cost; \<open>now\<close> is when the fuse looked.  A provider the
  administrator set no limit for needs none, and one whose limits cannot be read is not asked at all.
\<close>

definition reserved :: "run_record \<Rightarrow> string \<Rightarrow> provider_request \<Rightarrow> instant \<Rightarrow> budget_db \<Rightarrow> bool" where
  "reserved run provider_id request now db =
     (case spend_limits provider_id db of
        Inl fault \<Rightarrow> False
      | Inr None \<Rightarrow> True
      | Inr (Some (config, account_class, daily_limit, monthly_limit)) \<Rightarrow>
          (case estimate_dispatch_cost request config of
             Inl fault \<Rightarrow> False
           | Inr estimated \<Rightarrow>
               (\<forall>(kind, from, till, limit)\<in>set (budget_periods now daily_limit monthly_limit). 0 < limit \<longrightarrow>
                  (\<exists>claim\<in>set (bd_claims db).
                     bl_dispatch_key claim \<in>
                       (\<lambda>kind. dispatch_key_of run provider_id (pq_model_id request) (pq_retry_count request) @ '':'' @ kind)
                         ` {''day'', ''month''}
                     \<and> bl_scope_key claim = scope_key_of provider_id account_class kind from
                     \<and> bl_run_id claim = r_run_id run \<and> bl_provider_id claim = provider_id
                     \<and> bl_status claim = ''claimed'' \<and> bl_actual_cost_usd claim = None
                     \<and> bl_reserved_cost_usd claim = estimated))))"

lemma first_claim_reserves:
  assumes claim: "claim_before_dispatch now run p model request db = (Return r, db')"
    and inv: "budget_inv db" and fresh: "unclaimed K db" "dispatch_key_of run p model (pq_retry_count request) \<in> K"
    and model: "model = pq_model_id request"
  shows "reserved run p request now db'"
proof -
  have same: "spend_limits p db' = spend_limits p db" using claim_policy_frame [of p now run p model request db] claim by simp
  have none: "existing_claims (dispatch_key_of run p model (pq_retry_count request)) (bd_claims db) = []"
    using fresh by (simp add: unclaimed_def)
  obtain limits where limits: "spend_limits p db = Return limits"
    using claim by (cases "spend_limits p db") (auto simp: claim_before_dispatch_def)
  show ?thesis
  proof (cases limits)
    case None
    then show ?thesis using same limits by (simp add: reserved_def)
  next
    case (Some limit)
    obtain config cls d m where limit: "limit = (config, cls, d, m)" by (metis prod.exhaust)
    obtain est where est: "estimate_dispatch_cost request config = Return est"
      using claim limits Some limit by (cases "estimate_dispatch_cost request config") (auto simp: claim_before_dispatch_def)
    have counters: "claim_counters now run p cls (dispatch_key_of run p model (pq_retry_count request)) d m
        (warning_ratio config) est db = (Return r, db')"
      using claim limits Some limit est none by (simp add: claim_before_dispatch_def)
    then obtain receipt where "r = Some receipt"
      by (auto simp: claim_counters_def Let_def split: prod.splits if_splits option.splits)
    then obtain rows where rows: "bd_claims db' = bd_claims db @ map (new_claim (dispatch_key_of run p model (pq_retry_count request)) run p cls est) rows"
      "map bc_scope_key rows = map (\<lambda>(kind, start, _). scope_key_of p cls kind start)
         (filter (\<lambda>(_, _, _, limit). 0 < limit) (budget_periods now d m))"
      "\<forall>c\<in>set rows. bc_period_kind c \<in> {''day'', ''month''}"
      using claim_counters_writes [OF counters [unfolded \<open>r = Some receipt\<close>]] inv fresh(1)
      by (metis budget_inv_def unclaimed_def)
    have "\<exists>claim\<in>set (bd_claims db').
          bl_dispatch_key claim \<in> (\<lambda>kind. dispatch_key_of run p (pq_model_id request) (pq_retry_count request) @ '':'' @ kind) ` {''day'', ''month''}
          \<and> bl_scope_key claim = scope_key_of p cls kind from \<and> bl_run_id claim = r_run_id run \<and> bl_provider_id claim = p
          \<and> bl_status claim = ''claimed'' \<and> bl_actual_cost_usd claim = None \<and> bl_reserved_cost_usd claim = est"
      if "(kind, from, till, x) \<in> set (budget_periods now d m)" "0 < x" for kind "from" till x
    proof -
      have "scope_key_of p cls kind from \<in> set (map bc_scope_key rows)"
        unfolding rows(2) using that by force
      then obtain c where c: "c \<in> set rows" "bc_scope_key c = scope_key_of p cls kind from" by auto
      then show ?thesis using rows(3)
        by (intro bexI [of _ "new_claim (dispatch_key_of run p model (pq_retry_count request)) run p cls est c"])
           (auto simp: rows(1) new_claim_def Let_def model)
    qed
    then show ?thesis unfolding reserved_def same limits Some limit sum.case option.case prod.case est by blast
  qed
qed


subsection \<open>The session leaves the other keys alone\<close>

definition clear :: "string set \<Rightarrow> exec_state \<Rightarrow> bool" where
  "clear K st = unclaimed K (st_budget (es_now st))"

lemma exec_ok_budget: "exec_ok run_id st \<Longrightarrow> budget_inv (st_budget (es_now st))"
  by (simp add: exec_ok_def stored_ok_def)

lemma clear_runs [simp]:
  "clear K (fail_run env run code message p m i f st) = clear K st"
  "clear K (succeed_run env run result p' m' i' f' st) = clear K st"
  by (simp_all add: clear_def fail_run_def succeed_run_def write_run_def read_clock_def)

lemma clear_check_cancel: "check_cancel env run st = (b, st') \<Longrightarrow> clear K st' = clear K st"
  by (auto simp: check_cancel_def clear_def on_stored_def Let_def split: prod.splits)

lemma clear_give_up: "give_up_candidate env run cand f b last_try st = (step, last', st') \<Longrightarrow> clear K st' = clear K st"
  by (auto simp: give_up_candidate_def split: if_splits)

lemma clear_record:
  assumes "clear K st" and "exec_ok run_id st"
  shows "clear K (record_attempt_error env run cand k f t e ids st)"
    and "clear K (record_attempt_result env run cand k f r code pre ctx ids st)"
proof -
  have "clear K (record_provider_call env run c ctx st)" for c ctx
    using assms reconcile_keeps_unclaimed [OF _ exec_ok_budget [OF assms(2)]]
    by (simp add: record_provider_call_def read_clock_def clear_def Let_def)
  then show "clear K (record_attempt_error env run cand k f t e ids st)"
    "clear K (record_attempt_result env run cand k f r code pre ctx ids st)"
    by (simp_all add: record_attempt_error_def record_attempt_result_def)
qed

lemma clear_collaborators:
  assumes "keys_private env keys" and "K \<subseteq> keys" and "clear K st"
  shows "unclaimed K (st_budget (snd (env_prepare env p d (es_now st))))"
    and "unclaimed K (st_budget (snd (env_preprocess env p d (es_now st))))"
    and "unclaimed K (st_budget (snd (env_finalize env p d m q (es_now st))))"
    and "unclaimed K (st_budget (after_others env n (es_now st)))"
  using assms by (auto simp: keys_private_def keeps_unclaimed_def clear_def)

lemma clear_handle_error:
  assumes "handle_error env cfg run cand f k ids pre e last_try st = (step, last', st')"
    and "clear K st" and "exec_ok run_id st"
  shows "clear K st'"
  using assms(1) clear_record(1) [OF assms(2,3)]
  by (auto simp: handle_error_def give_up_candidate_def Let_def split: if_splits)

lemma clear_handle_result:
  assumes handled: "handle_result env cfg run cand f k ids pre result last_try st = (step, last', st')"
    and clear: "clear K st" and ok: "exec_ok (r_run_id run) st" and env: "env_ok env (r_run_id run)"
    and own: "keys_private env keys" "K \<subseteq> keys"
  shows "clear K st'"
proof -
  obtain decision stored where prepared: "env_prepare env (ch_input_payload cfg) (x_output result) (es_now st) = (decision, stored)"
    by fastforce
  define st1 where "st1 = on_stored (\<lambda>_. stored) st"
  have "stored_ok (r_run_id run) stored"
    using env ok prepared unfolding env_ok_def exec_ok_def by (metis snd_conv)
  then have ok1: "exec_ok (r_run_id run) st1" unfolding st1_def by (rule exec_ok_callback [OF ok])
  have clear1: "clear K st1"
    using clear_collaborators(1) [OF own clear, of "ch_input_payload cfg" "x_output result"] prepared
    by (simp add: clear_def st1_def)
  show ?thesis
  proof (cases "od_accepted decision")
    case False
    define st2 where "st2 = record_attempt_result env run cand k f result (Some (od_error_code decision)) pre
      (Some (od_usage_context decision)) ids st1"
    have clear2: "clear K st2" unfolding st2_def by (rule clear_record [OF clear1 ok1])
    consider "st' = st2" | last'' b where "give_up_candidate env run cand f b last'' st2 = (step, last', st')"
      using handled prepared False
      by (cases "k < ch_max_retries cfg") (auto simp: handle_result_def Let_def st1_def st2_def)
    then show ?thesis using clear2 by cases (simp_all add: clear_give_up)
  next
    case True
    define st2 where "st2 = record_attempt_result env run cand k f result None pre None ids st1"
    have clear2: "clear K st2" unfolding st2_def by (rule clear_record [OF clear1 ok1])
    obtain reply stored' where final: "env_finalize env (ch_input_payload cfg) (od_output decision)
        (x_media_candidates result) (ch_policy cfg) (es_now st2) = (reply, stored')" by fastforce
    have "clear K (on_stored (\<lambda>_. stored') st2)"
      using clear_collaborators(3) [OF own clear2, of "ch_input_payload cfg" "od_output decision"
          "x_media_candidates result" "ch_policy cfg"] final
      by (simp add: clear_def)
    then show ?thesis
      using handled prepared True final
      by (cases reply) (auto simp: handle_result_def Let_def st1_def st2_def)
  qed
qed

lemma clear_claim_dispatch:
  assumes claim: "claim_dispatch env run p request st = (reply, st')" and "clear K st" and "exec_ok run_id st"
  shows "clear (K - {dispatch_key_of run p (pq_model_id request) (pq_retry_count request)}) st'"
proof (cases "env_budget_guard env")
  case True
  define now where "now = env_clock env (es_ticks st)"
  have "st_budget (es_now st') =
      snd (claim_before_dispatch now run p (pq_model_id request) request (st_budget (es_now st)))"
    using claim True
    by (auto simp: claim_dispatch_def read_clock_def now_def Let_def split: prod.splits sum.splits option.splits)
  then show ?thesis
    using claim_keeps_unclaimed [OF assms(2) [unfolded clear_def] exec_ok_budget [OF assms(3)]] by (simp add: clear_def)
next
  case False
  then have "st' = st" using claim by (simp add: claim_dispatch_def)
  then show ?thesis using assms(2) unclaimed_mono by (auto simp: clear_def)
qed

lemma clear_dispatch:
  assumes "dispatch env adapter p request st = (reply, st')" and "clear K st"
    and "keys_private env keys" and "K \<subseteq> keys"
  shows "clear K st'"
  using assms(1) clear_collaborators(4) [OF assms(3,4,2), of "length (es_sent st)"]
  by (auto simp: dispatch_def others_commit_def after_others_def clear_def commit_def on_stored_def Let_def
      split: prod.splits)

text \<open>A claim that succeeds leaves its reservation behind.\<close>

lemma claim_dispatch_reserves:
  assumes claim: "claim_dispatch env run p request st = (Return ids, st')" and guard: "env_budget_guard env"
    and "exec_ok run_id st" and "clear K st" and "dispatch_key_of run p (pq_model_id request) (pq_retry_count request) \<in> K"
  shows "\<exists>n. reserved run p request (env_clock env n) (st_budget (es_now st'))"
proof -
  define now where "now = env_clock env (es_ticks st)"
  obtain r db where result: "claim_before_dispatch now run p (pq_model_id request) request (st_budget (es_now st)) = (r, db)"
    by fastforce
  have db: "st_budget (es_now st') = db" and "\<exists>receipt. r = Return receipt"
    using claim guard result
    by (auto simp: claim_dispatch_def read_clock_def now_def Let_def split: prod.splits sum.splits option.splits)
  then obtain receipt where "r = Return receipt" by blast
  from first_claim_reserves [OF result [unfolded this] exec_ok_budget [OF assms(3)] assms(4) [unfolded clear_def] assms(5) refl]
  show ?thesis unfolding db now_def by blast
qed


subsection \<open>Attempts and loops\<close>

definition new_reserved :: "environment \<Rightarrow> run_record \<Rightarrow> exec_state \<Rightarrow> exec_state \<Rightarrow> bool" where
  "new_reserved env run st st' =
     (\<forall>e\<in>set (es_sent st') - set (es_sent st). \<exists>n.
        reserved run (sr_provider_id e) (sr_request e) (env_clock env n) (sr_budget e))"

lemma new_reserved_refl: "es_sent st' = es_sent st \<Longrightarrow> new_reserved env run st st'"
  by (simp add: new_reserved_def)

lemma new_reserved_trans:
  "new_reserved env run st st1 \<Longrightarrow> new_reserved env run st1 st2 \<Longrightarrow> new_reserved env run st st2"
  by (auto simp: new_reserved_def)

definition attempt_key :: "run_record \<Rightarrow> candidate \<Rightarrow> int \<Rightarrow> string" where
  "attempt_key run cand k = dispatch_key_of run (cd_provider_id cand) (cd_model_id cand) k"

lemma call_provider_reserves:
  assumes call: "call_provider env cfg run cand adapter f k request ids last_try st = (step, last', st')"
    and ok: "exec_ok (r_run_id run) st" and env: "env_ok env (r_run_id run)"
    and own: "keys_private env keys" "K \<subseteq> keys" and clear: "clear K st"
    and held: "\<exists>n. reserved run (cd_provider_id cand) request (env_clock env n) (st_budget (es_now st))"
  shows "new_reserved env run st st' \<and> ((\<forall>x. step \<noteq> Escaped x) \<longrightarrow> clear K st')"
proof (cases "enforce_context_budget request")
  case (Inl e)
  then have handled: "handle_error env cfg run cand f k ids None e last_try st = (step, last', st')"
    using call by (simp add: call_provider_def)
  show ?thesis using clear_handle_error [OF handled clear ok] handle_error_step(1) [OF handled]
    by (simp add: new_reserved_refl)
next
  case (Inr pre)
  obtain reply st1 where sent: "dispatch env adapter (cd_provider_id cand) request st = (reply, st1)" by fastforce
  have ok1: "exec_ok (r_run_id run) st1" by (rule dispatch_ok [OF sent ok env])
  have clear1: "clear K st1" by (rule clear_dispatch [OF sent clear own])
  have new: "new_reserved env run st st1" using held by (auto simp: new_reserved_def dispatch_sent [OF sent])
  consider (error) e where "handle_error env cfg run cand f k ids pre e last_try st1 = (step, last', st')"
    | (fault) x where "step = Escaped x" "st' = rollback st1"
    | (result) result where "handle_result env cfg run cand f k ids pre result last_try st1 = (step, last', st')"
    using call Inr sent by (cases reply) (auto simp: call_provider_def split: call_fault.splits)
  then show ?thesis
  proof cases
    case error
    show ?thesis using clear_handle_error [OF error clear1 ok1] handle_error_step(1) [OF error] new
      by (simp add: new_reserved_def)
  next
    case fault
    then show ?thesis using new by (simp add: new_reserved_def)
  next
    case result
    show ?thesis using clear_handle_result [OF result clear1 ok1 env own] handle_result_step(1) [OF result] new
      by (simp add: new_reserved_def)
  qed
qed

lemma run_attempt_reserves:
  assumes attempt: "run_attempt env cfg run cand f k last_try st = (step, last', st')"
    and guard: "env_budget_guard env" and ok: "exec_ok (r_run_id run) st" and env: "env_ok env (r_run_id run)"
    and own: "keys_private env keys" "insert (attempt_key run cand k) K \<subseteq> keys"
    and clear: "clear (insert (attempt_key run cand k) K) st" and apart: "attempt_key run cand k \<notin> K"
  shows "new_reserved env run st st' \<and> ((\<forall>x. step \<noteq> Escaped x) \<longrightarrow> clear K st')"
proof -
  have weaker: "clear K st'' " if "clear (insert (attempt_key run cand k) K) st''" for st''
    using that by (auto simp: clear_def intro: unclaimed_mono)
  obtain canceled st1 where check: "check_cancel env run st = (canceled, st1)" by fastforce
  note sent1 = check_cancel_sent [OF check] and ok1 = check_cancel_ok [OF check ok]
  have clear1: "clear (insert (attempt_key run cand k) K) st1" using clear_check_cancel [OF check] clear by simp
  show ?thesis
  proof (cases canceled)
    case True
    then have "st' = st1" using attempt check by (simp add: run_attempt_def)
    then show ?thesis using sent1 weaker [OF clear1] by (simp add: new_reserved_refl)
  next
    case False
    show ?thesis
    proof (cases "env_providers env (cd_provider_id cand)")
      case None
      then obtain last'' b where give_up: "give_up_candidate env run cand f b last'' st1 = (step, last', st')"
        using attempt check False by (auto simp: run_attempt_def Let_def)
      show ?thesis using clear_give_up [OF give_up] give_up_candidate_step [OF give_up] sent1 weaker [OF clear1]
        by (simp add: new_reserved_refl)
    next
      case (Some adapter)
      let ?request = "build_provider_request run (ch_input_payload cfg) (ch_policy cfg) (ch_timeout_ms cfg) cand k"
      have key: "dispatch_key_of run (cd_provider_id cand) (pq_model_id ?request) (pq_retry_count ?request)
          = attempt_key run cand k" by (simp add: attempt_key_def build_request_target)
      obtain reply st2 where claim: "claim_dispatch env run (cd_provider_id cand) ?request st1 = (reply, st2)"
        by fastforce
      note sent2 = claim_dispatch_sent [OF claim] and ok2 = claim_dispatch_ok [OF claim conjunct1 [OF ok1]]
      have clear2: "clear K st2"
        using clear_claim_dispatch [OF claim clear1 conjunct1 [OF ok1]] apart by (simp add: key)
      consider (refused) last'' b where "give_up_candidate env run cand f b last'' st2 = (step, last', st')"
        | (fault) x where "step = Escaped x" "st' = rollback st2"
        | (claimed) ids last'' where "reply = Return ids"
            "call_provider env cfg run cand adapter f k ?request ids last'' st2 = (step, last', st')"
        using attempt check False Some claim
        by (cases reply) (auto simp: run_attempt_def Let_def split: call_fault.splits)
      then show ?thesis
      proof cases
        case refused
        show ?thesis using clear_give_up [OF refused] give_up_candidate_step [OF refused] sent1 sent2 clear2
          by (simp add: new_reserved_refl)
      next
        case fault
        then show ?thesis using sent1 sent2 by (simp add: new_reserved_refl)
      next
        case claimed
        have held: "\<exists>n. reserved run (cd_provider_id cand) ?request (env_clock env n) (st_budget (es_now st2))"
          by (rule claim_dispatch_reserves [OF claim [unfolded claimed(1)] guard conjunct1 [OF ok1] clear1])
             (simp only: key insertI1)
        have "K \<subseteq> keys" using own(2) by simp
        from call_provider_reserves [OF claimed(2) ok2 env own(1) this clear2 held] sent1 sent2
        show ?thesis by (simp add: new_reserved_def)
      qed
    qed
  qed
qed

lemma retry_loop_reserves:
  assumes "retry_loop n env cfg run cand f k last_try st = (step, last', st')"
    and guard: "env_budget_guard env" and "exec_ok (r_run_id run) st" and env: "env_ok env (r_run_id run)"
    and own: "keys_private env keys" and "attempt_key run cand ` {k..m} \<union> K \<subseteq> keys"
    and "clear (attempt_key run cand ` {k..m} \<union> K) st"
    and "inj_on (attempt_key run cand) {k..m}" and "attempt_key run cand ` {k..m} \<inter> K = {}"
    and "int n + k \<le> m + 1"
  shows "new_reserved env run st st' \<and> ((\<forall>x. step \<noteq> Escaped x) \<longrightarrow> clear K st')"
  using assms(1,3,6-10)
proof (induction n arbitrary: k last_try st)
  case 0
  then show ?case by (auto simp: new_reserved_refl clear_def intro: unclaimed_mono)
next
  case (Suc n)
  let ?rest = "attempt_key run cand ` {k + 1..m} \<union> K"
  have split: "{k..m} = insert k {k + 1..m}" using Suc.prems(7) by auto
  have keys: "attempt_key run cand ` {k..m} \<union> K = insert (attempt_key run cand k) ?rest"
    by (simp add: split)
  have apart: "attempt_key run cand k \<notin> ?rest"
    using Suc.prems(5,6) unfolding split by (auto simp: inj_on_def)
  obtain step1 last1 st1 where attempt: "run_attempt env cfg run cand f k last_try st = (step1, last1, st1)"
    by (metis prod.exhaust)
  note done1 = run_attempt_reserves [OF attempt guard Suc.prems(2) env own Suc.prems(3) [unfolded keys]
      Suc.prems(4) [unfolded keys] apart]
  show ?case
  proof (cases "step1 = NextRetry")
    case True
    then have rest: "retry_loop n env cfg run cand f (k + 1) last1 st1 = (step, last', st')"
      using Suc.prems(1) attempt by simp
    have "exec_ok (r_run_id run) st1" using run_attempt_ok [OF attempt Suc.prems(2) env] by (simp add: step_ok_def)
    moreover have "clear ?rest st1" using done1 True by simp
    moreover have "?rest \<subseteq> keys" "inj_on (attempt_key run cand) {k + 1..m}" "attempt_key run cand ` {k + 1..m} \<inter> K = {}"
      using Suc.prems(3,5,6) unfolding split by (auto simp: inj_on_def)
    ultimately show ?thesis
      using Suc.IH [OF rest] Suc.prems(7) done1 new_reserved_trans by (metis (no_types, lifting) add.commute add.left_commute of_nat_Suc)
  next
    case False
    then have "step = step1" "st' = st1" using Suc.prems(1) attempt by (cases step1; simp)+
    then show ?thesis using done1 by (auto simp: clear_def intro: unclaimed_mono)
  qed
qed

lemma clear_fail_chain [simp]: "clear K (fail_chain env run last_try st) = clear K st"
  by (simp add: fail_chain_def)

lemma attempt_keys_Cons:
  "attempt_keys run (cand # cands) m = map (attempt_key run cand) [0..m] @ attempt_keys run cands m"
  by (simp add: attempt_keys_def attempt_key_def comp_def cong: map_cong)

lemma candidate_loop_reserves:
  assumes "candidate_loop env cfg run cands f last_try st = (fault, st')"
    and guard: "env_budget_guard env" and "exec_ok (r_run_id run) st" and env: "env_ok env (r_run_id run)"
    and own: "keys_private env keys" and "set (attempt_keys run cands (ch_max_retries cfg)) \<subseteq> keys"
    and "clear (set (attempt_keys run cands (ch_max_retries cfg))) st"
    and "distinct (attempt_keys run cands (ch_max_retries cfg))" and rounds: "0 \<le> ch_max_retries cfg"
  shows "new_reserved env run st st'"
  using assms(1,3,6-8)
proof (induction cands arbitrary: f last_try st)
  case Nil
  then show ?case by (auto simp: new_reserved_refl)
next
  case (Cons cand cands)
  let ?n = "nat (ch_max_retries cfg + 1)" and ?K = "set (attempt_keys run cands (ch_max_retries cfg))"
  have keys: "set (attempt_keys run (cand # cands) (ch_max_retries cfg)) =
      attempt_key run cand ` {0..ch_max_retries cfg} \<union> ?K" by (simp add: attempt_keys_Cons)
  have apart: "inj_on (attempt_key run cand) {0..ch_max_retries cfg}"
    "attempt_key run cand ` {0..ch_max_retries cfg} \<inter> ?K = {}" "distinct (attempt_keys run cands (ch_max_retries cfg))"
    using Cons.prems(5) by (auto simp: attempt_keys_Cons distinct_map)
  obtain step last1 st1 where loop: "retry_loop ?n env cfg run cand f 0 last_try st = (step, last1, st1)"
    by (metis prod.exhaust)
  have loop': "new_reserved env run st st1 \<and> ((\<forall>x. step \<noteq> Escaped x) \<longrightarrow> clear ?K st1)"
    by (rule retry_loop_reserves [OF loop guard Cons.prems(2) env own Cons.prems(3) [unfolded keys]
          Cons.prems(4) [unfolded keys] apart(1,2)]) (use rounds in simp)
  have ok1: "exec_ok (r_run_id run) st1" using retry_loop_ok [OF loop Cons.prems(2) env] by (simp add: step_ok_def)
  have cases': "es_sent st' = es_sent st1
      \<or> (\<forall>x. step \<noteq> Escaped x) \<and> candidate_loop env cfg run cands True last1 st1 = (fault, st')"
    using Cons.prems(1) [unfolded candidate_loop.simps loop prod.case]
    by (cases step; cases "ch_allow_fallback cfg") (auto split: attempt_step.splits)
  have sub: "?K \<subseteq> keys" using Cons.prems(3) by (simp add: keys)
  from cases' show ?case
  proof
    assume "es_sent st' = es_sent st1"
    then show ?thesis using loop' by (simp add: new_reserved_def)
  next
    assume "(\<forall>x. step \<noteq> Escaped x) \<and> candidate_loop env cfg run cands True last1 st1 = (fault, st')"
    then have again: "candidate_loop env cfg run cands True last1 st1 = (fault, st')" and free: "clear ?K st1"
      using loop' by simp_all
    have "new_reserved env run st1 st'" by (rule Cons.IH [OF again ok1 sub free apart(3)])
    then show ?thesis using loop' new_reserved_trans by blast
  qed
qed

lemma chain_reserves:
  assumes chain: "execute_candidate_chain env run cands payload st = (fault, st')"
    and guard: "env_budget_guard env" and ok: "exec_ok (r_run_id run) st" and env: "env_ok env (r_run_id run)"
    and keys: "keys = attempt_keys run cands (max 0 (coerce_int_default 0 (py_get (run_policy run) ''max_retries'')))"
    and own: "keys_private env (set keys)" "distinct keys" "unclaimed (set keys) (st_budget (es_now st))"
  shows "new_reserved env run st st'"
proof -
  obtain payload' stored where pre: "env_preprocess env payload (run_policy run) (es_now st) = (payload', stored)"
    by fastforce
  define st1 where "st1 = on_stored (\<lambda>_. stored) st"
  have "stored_ok (r_run_id run) stored" using env ok pre unfolding env_ok_def exec_ok_def by (metis snd_conv)
  then have ok1: "exec_ok (r_run_id run) st1" unfolding st1_def by (rule exec_ok_callback [OF ok])
  have clear1: "clear (set keys) st1"
    using clear_collaborators(2) [OF own(1) subset_refl own(3) [folded clear_def], of payload "run_policy run"] pre
    by (simp add: clear_def st1_def)
  obtain canceled st2 where check: "check_cancel env run st1 = (canceled, st2)" by fastforce
  have sent: "es_sent st1 = es_sent st" "es_sent st2 = es_sent st"
    using check_cancel_sent [OF check] by (simp_all add: st1_def)
  have ok2: "exec_ok (r_run_id run) st2" using check_cancel_ok [OF check ok1] by blast
  have clear2: "clear (set keys) st2" using clear_check_cancel [OF check] clear1 by simp
  let ?cfg = "settings_of_policy (run_policy run) payload'"
  have cfg: "attempt_keys run cands (ch_max_retries ?cfg) = keys" "0 \<le> ch_max_retries ?cfg"
    by (simp_all add: settings_of_policy_def keys)
  consider "es_sent st' = es_sent st" | "candidate_loop env ?cfg run cands False first_attempt st2 = (fault, st')"
    using chain [unfolded execute_candidate_chain_def pre Let_def prod.case, folded st1_def, unfolded check] sent
    by (cases canceled) (auto split: if_splits)
  then show ?thesis
  proof cases
    case 1
    then show ?thesis by (rule new_reserved_refl)
  next
    case 2
    have "new_reserved env run st2 st'"
      by (rule candidate_loop_reserves [OF 2 guard ok2 env own(1)]) (use cfg own(2) clear2 in simp_all)
    then show ?thesis by (simp add: new_reserved_def sent)
  qed
qed

end
