(* ===== verification/RuntimeSystem.thy ===== *)
theory RuntimeSystem
  imports CallbackDelivery
begin

section \<open>The runtime as a shared system\<close>

text \<open>
  The API, the workers, the callback dispatchers and the cleanup job share the run table.  One step is
  one committed transaction; dispatches in flight are the requests a dispatcher has claimed and not
  yet settled.  A finishing write (success, failure, cancellation, deferral) is made by the executor of
  a claimed or inline run, which the model places on a run that is not terminal.
\<close>

record system_state =
  sy_rows :: run_table
  sy_inflight :: "string list"

definition system_init :: "system_state \<Rightarrow> bool" where
  "system_init st \<longleftrightarrow> sy_rows st = [] \<and> sy_inflight st = []"

text \<open>What an executor may write to the run it executes.\<close>

datatype finish =
    Succeed json_dict string string string bool
  | Fail string string "string option" "string option" "string option" "bool option"
  | Cancel string
  | Defer instant

fun apply_finish :: "finish \<Rightarrow> instant \<Rightarrow> run_record \<Rightarrow> run_record" where
  "apply_finish (Succeed result p m i fb) t run = mark_run_succeeded t result p m i fb run"
| "apply_finish (Fail code message p m i fb) t run = mark_run_failed t code message p m i fb run"
| "apply_finish (Cancel message) t run = mark_run_canceled t message run"
| "apply_finish (Defer eligible_at) t run = defer_run_until eligible_at run"

inductive system_step :: "system_state \<Rightarrow> system_state \<Rightarrow> bool" where
  create: "create_durable_run now db_now c (sy_rows st) = Return (run, rows') \<Longrightarrow> c_run_id c \<noteq> [] \<Longrightarrow>
    c_status c = ''queued'' \<or> c_status c = ''running'' \<Longrightarrow>
    system_step st (st\<lparr>sy_rows := rows'\<rparr>)"
| replay: "get_idempotent_replay routing site key fingerprint request (sy_rows st) = Return (run, rows') \<Longrightarrow>
    system_step st (st\<lparr>sy_rows := rows'\<rparr>)"
| worker: "system_step st (st\<lparr>sy_rows := snd (claim_for_worker limit clk signal (sy_rows st))\<rparr>)"
| finish: "get_run_row run_id (sy_rows st) = Some run \<Longrightarrow> r_status run = ''running'' \<Longrightarrow>
    system_step st (st\<lparr>sy_rows := save_run (apply_finish f t run) (sy_rows st)\<rparr>)"
| check_cancel: "system_step st (st\<lparr>sy_rows := snd (cancel_if_requested now run_id (sy_rows st))\<rparr>)"
| cancel: "cancel_run_tx now run_id site (sy_rows st) = Return rows' \<Longrightarrow>
    system_step st (st\<lparr>sy_rows := rows'\<rparr>)"
| cleanup: "system_step st (st\<lparr>sy_rows := snd (cleanup_expired_run_results now n (sy_rows st))\<rparr>)"
| claim_callback: "claim_next_pending_callback lib settings sites artifacts clk (sy_rows st) = Return (request, rows') \<Longrightarrow>
    system_step st (st\<lparr>sy_rows := rows',
      sy_inflight := (case request of None \<Rightarrow> sy_inflight st | Some req \<Rightarrow> cr_run_id req # sy_inflight st)\<rparr>)"
| settle: "run_id \<in> set (sy_inflight st) \<Longrightarrow>
    system_step st (st\<lparr>sy_rows := snd (settle_callback t retry_at dispatched run_id (sy_rows st)),
      sy_inflight := remove1 run_id (sy_inflight st)\<rparr>)"
| crash: "system_step st (st\<lparr>sy_inflight := remove1 run_id (sy_inflight st)\<rparr>)"
| recover: "system_step st (st\<lparr>sy_rows := snd (recover_stale_callback_dispatches now n (sy_rows st))\<rparr>)"

text \<open>The table is well-formed, and a dispatch in flight belongs to a run whose attempt was counted.\<close>

definition system_inv :: "system_state \<Rightarrow> bool" where
  "system_inv st \<longleftrightarrow> table_wf (sy_rows st)
     \<and> (\<forall>run_id\<in>set (sy_inflight st). \<exists>r\<in>set (sy_rows st).
          r_run_id r = run_id \<and> 0 < r_callback_attempt_count r)"

subsection \<open>Each transaction keeps the table well-formed and the attempts\<close>

lemma finish_frame:
  "r_run_id (apply_finish f t r) = r_run_id r" "r_site_id (apply_finish f t r) = r_site_id r"
  "r_idempotency_key (apply_finish f t r) = r_idempotency_key r"
  "r_callback_attempt_count (apply_finish f t r) = r_callback_attempt_count r"
  by (cases f; simp add: mark_run_succeeded_def mark_run_failed_def mark_run_canceled_def
      defer_run_until_def Let_def split: option.split)+

lemma finish_wf:
  assumes wf: "run_wf r" and running: "r_status r = ''running''"
  shows "run_wf (apply_finish f t r)"
proof -
  have live: "\<not> terminal_status (r_status r)" using running by simp
  show ?thesis
    by (cases f) (simp_all add: mark_run_succeeded_wf [OF wf live] mark_run_failed_wf [OF wf live]
        mark_run_canceled_wf [OF wf live] defer_run_until_wf [OF wf running])
qed

lemma save_keeps:
  assumes wf: "table_wf rows" and get: "get_run_row run_id rows = Some r"
    and same: "\<And>q. r_run_id (f q) = r_run_id q" "\<And>q. r_site_id (f q) = r_site_id q"
      "\<And>q. r_idempotency_key (f q) = r_idempotency_key q"
      "\<And>q. r_callback_attempt_count (f q) = r_callback_attempt_count q"
    and row: "run_wf r \<Longrightarrow> run_wf (f r)"
  shows "table_wf (save_run (f r) rows) \<and> attempts_kept rows (save_run (f r) rows)"
proof
  note r = get_run_row_member [OF get]
  have get': "get_run_row (r_run_id r) rows = Some r" using get r by simp
  show "table_wf (save_run (f r) rows)"
    using table_wf_row [OF wf conjunct1 [OF r]] row same by (intro table_wf_save [OF wf get']) auto
  show "attempts_kept rows (save_run (f r) rows)"
    by (rule attempts_kept_save [OF table_wf_distinct [OF wf] get']) (simp_all add: same)
qed

lemma canceled_frame:
  "r_run_id (mark_run_canceled t m r) = r_run_id r" "r_site_id (mark_run_canceled t m r) = r_site_id r"
  "r_idempotency_key (mark_run_canceled t m r) = r_idempotency_key r"
  "r_callback_attempt_count (mark_run_canceled t m r) = r_callback_attempt_count r"
  using finish_frame [of "Cancel m" t r] by simp_all

lemma request_cancel_frame:
  "r_run_id (request_run_cancel t r) = r_run_id r" "r_site_id (request_run_cancel t r) = r_site_id r"
  "r_idempotency_key (request_run_cancel t r) = r_idempotency_key r"
  "r_callback_attempt_count (request_run_cancel t r) = r_callback_attempt_count r"
  by (simp_all add: request_run_cancel_def)

lemma check_cancel_keeps:
  assumes wf: "table_wf rows"
  shows "table_wf (snd (cancel_if_requested now run_id rows)) \<and> attempts_kept rows (snd (cancel_if_requested now run_id rows))"
proof (cases "get_run_row run_id rows")
  case (Some r)
  have "r_status r = ''running'' \<Longrightarrow>
      table_wf (save_run (mark_run_canceled now ''run canceled before execution completed'' r) rows)
      \<and> attempts_kept rows (save_run (mark_run_canceled now ''run canceled before execution completed'' r) rows)"
    by (rule save_keeps [OF wf Some]) (simp_all add: canceled_frame mark_run_canceled_wf)
  with wf Some show ?thesis by (simp add: cancel_if_requested_def)
qed (use wf in \<open>simp add: cancel_if_requested_def\<close>)

lemma cancel_keeps:
  assumes wf: "table_wf rows" and ok: "cancel_run_tx now run_id site rows = Return rows'"
  shows "table_wf rows' \<and> attempts_kept rows rows'"
proof -
  from ok obtain r where get: "get_run_row run_id rows = Some r"
    and cases: "(r_status r = ''queued'' \<and> rows' = save_run (mark_run_canceled now ''run canceled before worker claim'' r) rows)
      \<or> (r_status r = ''running'' \<and> rows' = save_run (request_run_cancel now r) rows) \<or> rows' = rows"
    by (auto simp: cancel_run_tx_def get_site_scoped_run_def split: option.splits if_splits)
  have "r_status r = ''queued'' \<Longrightarrow>
      table_wf (save_run (mark_run_canceled now ''run canceled before worker claim'' r) rows)
      \<and> attempts_kept rows (save_run (mark_run_canceled now ''run canceled before worker claim'' r) rows)"
    by (rule save_keeps [OF wf get]) (simp_all add: canceled_frame mark_run_canceled_wf)
  moreover have "table_wf (save_run (request_run_cancel now r) rows) \<and> attempts_kept rows (save_run (request_run_cancel now r) rows)"
    by (rule save_keeps [OF wf get]) (simp_all add: request_cancel_frame request_run_cancel_wf)
  ultimately show ?thesis using cases wf by auto
qed

lemma replay_keeps:
  assumes wf: "table_wf rows"
    and ok: "get_idempotent_replay routing site key fingerprint request rows = Return (run, rows')"
  shows "table_wf rows' \<and> attempts_kept rows rows'"
proof -
  have "rows' = rows \<or> (\<exists>r. get_run_by_idempotency site (or_empty key) rows = Some r \<and>
    rows' = save_run (r\<lparr>r_request_fingerprint := Some fingerprint,
       r_policy_json := Some (JObj (py_set (run_policy r) ''request_identity_version'' (JInt 2)))\<rparr>) rows)"
  proof (cases "or_empty key = [] \<or> get_run_by_idempotency site (or_empty key) rows = None")
    case True
    with ok show ?thesis by (auto simp: get_idempotent_replay_def Let_def split: if_splits)
  next
    case False
    then obtain r where r: "get_run_by_idempotency site (or_empty key) rows = Some r" "or_empty key \<noteq> []" by auto
    show ?thesis
    proof (cases request)
      case None
      with ok r show ?thesis by (simp add: get_idempotent_replay_def Let_def split: if_splits)
    next
      case (Some q)
      with ok r show ?thesis by (simp add: get_idempotent_replay_def Let_def split: if_splits)
    qed
  qed
  then consider "rows' = rows" | r where "get_run_by_idempotency site (or_empty key) rows = Some r"
    "rows' = save_run (r\<lparr>r_request_fingerprint := Some fingerprint,
       r_policy_json := Some (JObj (py_set (run_policy r) ''request_identity_version'' (JInt 2)))\<rparr>) rows" by blast
  then show ?thesis
  proof cases
    case 2
    let ?f = "\<lambda>r. r\<lparr>r_request_fingerprint := Some fingerprint,
       r_policy_json := Some (JObj (py_set (run_policy r) ''request_identity_version'' (JInt 2)))\<rparr>"
    have "r \<in> set rows" using get_run_by_idempotency_Some [OF 2(1)] by simp
    then have get: "get_run_row (r_run_id r) rows = Some r"
      using row_get_unique [OF table_wf_distinct [OF wf]] by (simp add: get_run_row_def)
    have "table_wf (save_run (?f r) rows) \<and> attempts_kept rows (save_run (?f r) rows)"
    proof (rule save_keeps [OF wf get])
      have "lifecycle_wf (?f r) = lifecycle_wf r" by (rule lifecycle_wf_cong) simp_all
      moreover have "storage_wf (?f r) = storage_wf r" by (rule storage_wf_cong) simp_all
      moreover have "callback_wf (?f r) = callback_wf r" by (rule callback_wf_cong) simp_all
      ultimately show "run_wf r \<Longrightarrow> run_wf (?f r)" by (simp add: run_wf_def)
    qed simp_all
    with 2 show ?thesis by simp
  qed (use wf in simp)
qed

lemma start_processing_attempts [simp]:
  "r_callback_attempt_count (start_processing t r) = r_callback_attempt_count r"
  by (simp add: start_processing_def)

lemma claim_queued_attempts: "attempts_kept rows (snd (claim_queued_run cond now rows))"
proof -
  have "attempts_kept rows (rows_update cond (start_processing now) rows)"
    by (rule attempts_kept_update) simp
  then show ?thesis by (simp add: claim_queued_run_def Let_def split: list.split)
qed

lemma claim_next_attempts: "attempts_kept rows (snd (claim_next_queued_run limit now now' rows))"
  by (simp add: claim_next_queued_run_def claim_queued_attempts split: option.split)

lemma worker_keeps:
  assumes wf: "table_wf rows"
  shows "table_wf (snd (claim_for_worker limit clk signal rows)) \<and> attempts_kept rows (snd (claim_for_worker limit clk signal rows))"
proof
  show "table_wf (snd (claim_for_worker limit clk signal rows))" by (rule worker_claim_table_wf [OF wf])
  let ?c = "claim_run_if_queued (clk 0) (clk 1) (or_empty signal) rows"
  have first: "attempts_kept rows (snd ?c)" by (simp add: claim_run_if_queued_def claim_queued_attempts)
  have "attempts_kept rows (snd (claim_next_queued_run (Some limit) (clk 2) (clk 3) (snd ?c)))"
    by (rule attempts_kept_trans [OF first claim_next_attempts])
  with first show "attempts_kept rows (snd (claim_for_worker limit clk signal rows))"
    using claim_for_worker_route [of limit clk signal rows] claim_next_attempts
    by (auto split: option.splits prod.splits)
qed

lemma cleanup_keeps:
  assumes wf: "table_wf rows"
  shows "table_wf (snd (cleanup_expired_run_results now n rows)) \<and> attempts_kept rows (snd (cleanup_expired_run_results now n rows))"
proof
  show "table_wf (snd (cleanup_expired_run_results now n rows))"
    unfolding cleanup_expired_run_results_def by (rule purge_table_wf [OF wf])
  show "attempts_kept rows (snd (cleanup_expired_run_results now n rows))"
    unfolding cleanup_expired_run_results_def purge_is_update [OF table_wf_distinct [OF wf]] snd_conv
    by (rule attempts_kept_update) simp
qed

lemma callback_claim_attempts: "attempts_kept rows (callback_claim.claim_rows t k rows)"
  unfolding callback_claim.claim_rows_def by (rule attempts_kept_update) simp

lemma claim_pending_attempts:
  assumes wf: "table_wf rows"
    and claim: "claim_next_pending_callback lib settings sites artifacts clk rows = Return (request, rows')"
  shows "attempts_kept rows rows'"
  using wf claim
proof (cases rule: claim_next_cases)
  case (claimed r)
  let ?r = "start_callback_dispatch (ck_claim clk) r"
    and ?rows = "callback_claim.claim_rows (ck_claim clk) (r_run_id r) rows"
  have kd: "keys_distinct r_run_id ?rows"
    using table_wf_distinct [OF wf] by (rule callback_claim.claim_distinct)
  have get: "get_run_row (r_run_id ?r) ?rows = Some ?r" using claimed by (simp add: callback_claim_get)
  have "attempts_kept ?rows (save_run (mark_callback_config_invalid m ?r) ?rows)" for m
    by (rule attempts_kept_save [OF kd get]) simp_all
  note attempts_kept_trans [OF callback_claim_attempts this]
  with claimed(7) callback_claim_attempts show ?thesis by auto
qed simp

text \<open>The request of a claim belongs to the run whose attempt was just counted.\<close>

lemma validate_request_id:
  "validate_callback_claim lib settings sites artifacts clk run = Return (Inr req) \<Longrightarrow> cr_run_id req = r_run_id run"
  by (auto simp: validate_callback_claim_def Let_def and_then_Return split: option.splits if_splits)

lemma claimed_attempt:
  assumes wf: "table_wf rows"
    and claim: "claim_next_pending_callback lib settings sites artifacts clk rows = Return (Some req, rows')"
  shows "\<exists>r\<in>set rows'. r_run_id r = cr_run_id req \<and> 0 < r_callback_attempt_count r"
  using wf claim
proof (cases rule: claim_next_cases)
  case (claimed r)
  let ?r = "start_callback_dispatch (ck_claim clk) r"
  from claimed(7) have rows': "rows' = callback_claim.claim_rows (ck_claim clk) (r_run_id r) rows"
    and id: "cr_run_id req = r_run_id r" by (auto dest: validate_request_id)
  have "get_run_row (r_run_id r) rows' = Some ?r" using claimed by (simp add: rows' callback_claim_get)
  then have "?r \<in> set rows'" by (auto dest: get_run_row_member)
  moreover have "0 \<le> r_callback_attempt_count r"
    using table_wf_row [OF wf claimed(1)] attempt_count_nonneg by blast
  ultimately show ?thesis using id by (intro bexI [of _ ?r]) simp_all
qed simp

lemma settle_attempts:
  assumes wf: "table_wf rows"
  shows "attempts_kept rows (snd (settle_callback t retry_at dispatched run_id rows))"
proof (cases "get_run_row run_id rows")
  case (Some r)
  then have "get_run_row (r_run_id r) rows = Some r" by (simp add: get_run_row_member)
  note save = attempts_kept_save [OF table_wf_distinct [OF wf] this]
  have "attempts_kept rows (save_run (mark_callback_delivered t r) rows)"
    "attempts_kept rows (save_run (mark_callback_delivery_failed c m retry_at r) rows)" for c m
    by (rule save; simp)+
  with Some show ?thesis by (simp add: settle_callback_def Let_def split: dispatch_outcome.split)
qed (simp add: settle_callback_def)

subsection \<open>The invariant of the system\<close>

lemma system_inv_kept:
  assumes inv: "system_inv st" and rows: "table_wf rows' \<and> attempts_kept (sy_rows st) rows'"
    and inflight: "\<And>run_id. run_id \<in> set inflight \<Longrightarrow> run_id \<in> set (sy_inflight st)
      \<or> (\<exists>r\<in>set rows'. r_run_id r = run_id \<and> 0 < r_callback_attempt_count r)"
  shows "system_inv (st\<lparr>sy_rows := rows', sy_inflight := inflight\<rparr>)"
proof -
  have "\<exists>r'\<in>set rows'. r_run_id r' = run_id \<and> 0 < r_callback_attempt_count r'"
    if "run_id \<in> set (sy_inflight st)" for run_id
  proof -
    from inv that obtain r where r: "r \<in> set (sy_rows st)" "r_run_id r = run_id" "0 < r_callback_attempt_count r"
      unfolding system_inv_def by blast
    with rows obtain r' where "r' \<in> set rows'" "r_run_id r' = r_run_id r"
      "r_callback_attempt_count r \<le> r_callback_attempt_count r'" unfolding attempts_kept_def by blast
    with r show ?thesis by (intro bexI [of _ r']) auto
  qed
  with inflight rows show ?thesis by (auto simp: system_inv_def)
qed

lemma system_inv_rows:
  assumes "system_inv st" and "table_wf rows' \<and> attempts_kept (sy_rows st) rows'"
  shows "system_inv (st\<lparr>sy_rows := rows'\<rparr>)"
  using system_inv_kept [OF assms, of "sy_inflight st"] by simp

lemma system_inv_step:
  assumes inv: "system_inv st" and step: "system_step st st'"
  shows "system_inv st'"
proof -
  have wf: "table_wf (sy_rows st)" using inv by (simp add: system_inv_def)
  from step show ?thesis
  proof (cases rule: system_step.cases)
    case (create now db_now c run rows')
    note r = create_run_Return [OF create(2) [unfolded create_durable_run_def]]
    have "table_wf rows'"
      by (rule create_run_table_wf [OF wf create(2) [unfolded create_durable_run_def] create(4) create(3)])
    with r create(1) show ?thesis by (simp add: system_inv_rows [OF inv])
  next
    case (replay routing site key fingerprint request run rows')
    with replay_keeps [OF wf replay(2)] show ?thesis by (simp add: system_inv_rows [OF inv])
  next
    case (worker limit clk signal)
    with worker_keeps [OF wf] show ?thesis by (simp add: system_inv_rows [OF inv])
  next
    case (finish run_id run f t)
    have "table_wf (save_run (apply_finish f t run) (sy_rows st))
        \<and> attempts_kept (sy_rows st) (save_run (apply_finish f t run) (sy_rows st))"
      by (rule save_keeps [OF wf finish(2)]) (simp_all add: finish_frame finish_wf [OF _ finish(3)])
    with finish(1) show ?thesis by (simp add: system_inv_rows [OF inv])
  next
    case (check_cancel now run_id)
    with check_cancel_keeps [OF wf] show ?thesis by (simp add: system_inv_rows [OF inv])
  next
    case (cancel now run_id site rows')
    with cancel_keeps [OF wf cancel(2)] show ?thesis by (simp add: system_inv_rows [OF inv])
  next
    case (cleanup now n)
    with cleanup_keeps [OF wf] show ?thesis by (simp add: system_inv_rows [OF inv])
  next
    case (claim_callback lib settings sites artifacts clk request rows')
    have rows: "table_wf rows' \<and> attempts_kept (sy_rows st) rows'"
      using claim_pending_table_wf [OF wf claim_callback(2)] claim_pending_attempts [OF wf claim_callback(2)] by simp
    show ?thesis
      unfolding claim_callback(1)
      by (rule system_inv_kept [OF inv rows])
         (use claimed_attempt [OF wf] claim_callback(2) in \<open>auto split: option.splits\<close>)
  next
    case (settle run_id t retry_at dispatched)
    from inv settle(2) obtain r where r: "r \<in> set (sy_rows st)" "r_run_id r = run_id" "0 < r_callback_attempt_count r"
      unfolding system_inv_def by blast
    have "get_run_row run_id (sy_rows st) = Some r"
      using row_get_unique [OF table_wf_distinct [OF wf] r(1)] r(2) by (simp add: get_run_row_def)
    with r(3) have "table_wf (snd (settle_callback t retry_at dispatched run_id (sy_rows st)))"
      by (intro settle_table_wf [OF wf]) simp
    with settle_attempts [OF wf] show ?thesis
      unfolding settle(1) by (intro system_inv_kept [OF inv]) (auto dest: notin_set_remove1 set_remove1_subset [THEN subsetD])
  next
    case (crash run_id)
    have "set (remove1 run_id (sy_inflight st)) \<subseteq> set (sy_inflight st)" by (rule set_remove1_subset)
    with inv crash show ?thesis by (auto simp: system_inv_def)
  next
    case (recover now n)
    have "attempts_kept (sy_rows st) (snd (recover_stale_callback_dispatches now n (sy_rows st)))"
      by (simp add: recover_stale_callback_dispatches_def reclaim_stale_callback_dispatches_def Let_def
          reclaim_candidates_attempts)
    with reclaim_table_wf [OF wf] recover show ?thesis by (simp add: system_inv_rows [OF inv])
  qed
qed

lemma system_inv_init: "system_init st \<Longrightarrow> system_inv st"
  by (simp add: system_init_def system_inv_def table_wf_def keys_distinct_def idempotency_unique_def)

interpretation runtime: invariant_system system_init system_step system_inv
  by unfold_locales (auto intro: system_inv_init system_inv_step)

end
