(* ===== verification/RunQueries.thy ===== *)
theory RunQueries
  imports RunTransitions
begin

section \<open>Read queries over runs (app/adapters/repositories/runtime\_repository.py)\<close>

text \<open>
  Backlog, stale-run and diagnostic listings, and the diagnostics summary with its counts, oldest
  timestamps and grouped failure counts.  A group-by lists its groups in order of first appearance
  before the ORDER BY, so groups that tie keep that order.
\<close>

definition site_filter :: "string option \<Rightarrow> run_record \<Rightarrow> bool" where
  "site_filter site_id r \<longleftrightarrow> or_empty site_id = [] \<or> r_site_id r = or_empty site_id"

definition count_runs :: "(run_record \<Rightarrow> bool) \<Rightarrow> run_table \<Rightarrow> int" where
  "count_runs filters rows = int (length (filter filters rows))"

definition min_timestamp :: "(run_record \<Rightarrow> bool) \<Rightarrow> (run_record \<Rightarrow> instant option) \<Rightarrow> run_table \<Rightarrow> instant option" where
  "min_timestamp filters column rows = sql_min (map column (filter filters rows))"

definition max_timestamp :: "(run_record \<Rightarrow> bool) \<Rightarrow> (run_record \<Rightarrow> instant option) \<Rightarrow> run_table \<Rightarrow> instant option" where
  "max_timestamp filters column rows = sql_max (map column (filter filters rows))"

text \<open>\<open>isoformat().replace("+00:00", "Z")\<close>: the offset occurs once, at the end.\<close>

definition repo_serialize_timestamp :: "instant option \<Rightarrow> json" where
  "repo_serialize_timestamp value =
     (case value of None \<Rightarrow> JNull
      | Some t \<Rightarrow> JStr (take (length (isoformat t) - 6) (isoformat t) @ ''Z''))"

definition group_rows :: "('r \<Rightarrow> 'k) \<Rightarrow> 'r list \<Rightarrow> ('k \<times> 'r list) list" where
  "group_rows key rows = map (\<lambda>k. (k, filter (\<lambda>r. key r = k) rows)) (remdups (map key rows))"

definition summarize_media_derivative_queue_pressure :: "string \<Rightarrow> run_table \<Rightarrow> int \<times> int" where
  "summarize_media_derivative_queue_pressure site_id rows =
     (let in_site = (\<lambda>r. r_site_id r = site_id \<and> r_execution_kind r = ''media_derivative'')
      in (count_runs (\<lambda>r. in_site r \<and> r_status r = ''queued'') rows,
          count_runs (\<lambda>r. in_site r \<and> r_status r = ''running'') rows))"

definition list_runtime_backlog_runs :: "string option \<Rightarrow> run_table \<Rightarrow> run_table" where
  "list_runtime_backlog_runs site_id rows =
     sort_key (\<lambda>r. (r_status r, (r_started_at r, asc_nulls_last (r_processing_started_at r))))
       (filter (\<lambda>r. (r_status r = ''queued'' \<or> r_status r = ''running'') \<and> site_filter site_id r) rows)"

definition list_stale_inline_running_runs :: "instant \<Rightarrow> string option \<Rightarrow> int \<Rightarrow> run_table \<Rightarrow> run_table" where
  "list_stale_inline_running_runs processing_started_before site_id limit rows =
     sql_limit (max 1 limit)
       (sort_key (\<lambda>r. (asc_nulls_last (r_processing_started_at r), r_started_at r))
          (filter (\<lambda>r. r_status r = ''running'' \<and> r_execution_pattern r = ''inline''
                       \<and> sql_le (r_processing_started_at r) processing_started_before
                       \<and> site_filter site_id r) rows))"

subsection \<open>Filters of the diagnostics summary\<close>

definition RUNTIME_DIAGNOSTIC_QUEUED_STALE_AFTER_SECONDS :: int where
  "RUNTIME_DIAGNOSTIC_QUEUED_STALE_AFTER_SECONDS = 300"
definition RUNTIME_DIAGNOSTIC_RUNNING_STALE_AFTER_SECONDS :: int where
  "RUNTIME_DIAGNOSTIC_RUNNING_STALE_AFTER_SECONDS = 900"
definition RUNTIME_DIAGNOSTIC_CANCEL_STUCK_AFTER_SECONDS :: int where
  "RUNTIME_DIAGNOSTIC_CANCEL_STUCK_AFTER_SECONDS = 300"
definition RUNTIME_DIAGNOSTIC_CALLBACK_OVERDUE_AFTER_SECONDS :: int where
  "RUNTIME_DIAGNOSTIC_CALLBACK_OVERDUE_AFTER_SECONDS = 300"
definition RUNTIME_DIAGNOSTIC_CALLBACK_DISPATCHING_STALE_AFTER_SECONDS :: int where
  "RUNTIME_DIAGNOSTIC_CALLBACK_DISPATCHING_STALE_AFTER_SECONDS = 300"

definition is_queued :: "string option \<Rightarrow> run_record \<Rightarrow> bool" where
  "is_queued site_id r \<longleftrightarrow> r_status r = ''queued'' \<and> site_filter site_id r"
definition is_running :: "string option \<Rightarrow> run_record \<Rightarrow> bool" where
  "is_running site_id r \<longleftrightarrow> r_status r = ''running'' \<and> site_filter site_id r"
definition is_cancel_requested :: "string option \<Rightarrow> run_record \<Rightarrow> bool" where
  "is_cancel_requested site_id r \<longleftrightarrow>
     r_cancel_requested_at r \<noteq> None \<and> (r_status r = ''queued'' \<or> r_status r = ''running'')
     \<and> site_filter site_id r"
definition is_callback_in :: "string \<Rightarrow> string option \<Rightarrow> run_record \<Rightarrow> bool" where
  "is_callback_in callback_status site_id r \<longleftrightarrow>
     r_finished_at r \<noteq> None \<and> r_callback_status r = callback_status \<and> callback_url_set r
     \<and> site_filter site_id r"
definition is_callback_due :: "instant \<Rightarrow> string option \<Rightarrow> run_record \<Rightarrow> bool" where
  "is_callback_due now site_id r \<longleftrightarrow>
     is_callback_in RUN_CALLBACK_STATUS_PENDING site_id r \<and> sql_le (r_callback_next_attempt_at r) now"
definition is_retention_due :: "instant \<Rightarrow> string option \<Rightarrow> run_record \<Rightarrow> bool" where
  "is_retention_due now site_id r \<longleftrightarrow>
     sql_le (r_retention_expires_at r) now \<and> r_result_purged_at r = None
     \<and> r_result_json r \<noteq> None \<and> site_filter site_id r"

subsection \<open>Failure summaries\<close>

definition has_error :: "string option \<Rightarrow> bool" where
  "has_error code \<longleftrightarrow> code \<noteq> None \<and> code \<noteq> Some []"

text \<open>The run joined to a provider call; a call without a run row drops out of the join.\<close>

definition joined_calls :: "instant \<Rightarrow> string option \<Rightarrow> run_table \<Rightarrow> provider_call list \<Rightarrow> provider_call list" where
  "joined_calls recent_window_start site_id rows calls =
     filter (\<lambda>c. has_error (pc_error_code c) \<and> recent_window_start \<le> pc_created_at c
                 \<and> (case get_run_row (pc_run_id c) rows of
                      None \<Rightarrow> False | Some r \<Rightarrow> site_filter site_id r)) calls"

definition count_provider_error_calls :: "instant \<Rightarrow> string option \<Rightarrow> run_table \<Rightarrow> provider_call list \<Rightarrow> int" where
  "count_provider_error_calls recent_window_start site_id rows calls =
     int (length (joined_calls recent_window_start site_id rows calls))"

definition summarize_recent_failure_error_codes :: "instant \<Rightarrow> string option \<Rightarrow> int \<Rightarrow> run_table \<Rightarrow> json" where
  "summarize_recent_failure_error_codes recent_window_start site_id limit rows =
     (let failed = filter (\<lambda>r. r_status r = ''failed'' \<and> sql_ge (r_finished_at r) recent_window_start
                               \<and> has_error (r_error_code r) \<and> site_filter site_id r) rows;
          groups = map (\<lambda>(code, rs). (code, int (length rs), sql_max (map r_finished_at rs)))
                     (group_rows r_error_code failed);
          ordered = sort_key (\<lambda>(code, n, last). (- n, desc_nulls_first last)) groups
      in JList (map (\<lambda>(code, n, last).
            JObj [(''error_code'', JStr (or_empty code)), (''count'', JInt n),
                  (''last_seen_at'', repo_serialize_timestamp last)]) (sql_limit limit ordered)))"

definition summarize_recent_provider_errors ::
    "instant \<Rightarrow> string option \<Rightarrow> int \<Rightarrow> run_table \<Rightarrow> provider_call list \<Rightarrow> json" where
  "summarize_recent_provider_errors recent_window_start site_id limit rows calls =
     (let groups = map (\<lambda>((provider, code), cs). (provider, code, int (length cs),
                         sql_max (map (\<lambda>c. Some (pc_created_at c)) cs)))
                     (group_rows (\<lambda>c. (pc_provider_id c, pc_error_code c))
                        (joined_calls recent_window_start site_id rows calls));
          ordered = sort_key (\<lambda>(provider, code, n, last). (- n, desc_nulls_first last)) groups
      in JList (map (\<lambda>(provider, code, n, last).
            JObj [(''provider_id'', JStr provider), (''error_code'', JStr (or_empty code)),
                  (''count'', JInt n), (''last_seen_at'', repo_serialize_timestamp last)])
            (sql_limit limit ordered)))"

subsection \<open>The diagnostics summary\<close>

definition get_runtime_diagnostics_summary ::
    "string option \<Rightarrow> instant \<Rightarrow> instant option \<Rightarrow> run_table \<Rightarrow> provider_call list \<Rightarrow> json" where
  "get_runtime_diagnostics_summary site_id now recent_since rows calls =
     (let recent_window_start = (case recent_since of None \<Rightarrow> now - seconds 3600 | Some t \<Rightarrow> t);
          queued_filters = is_queued site_id;
          running_filters = is_running site_id;
          cancel_requested_filters = is_cancel_requested site_id;
          callback_pending_filters = is_callback_in RUN_CALLBACK_STATUS_PENDING site_id;
          callback_due_filters = is_callback_due now site_id;
          callback_failed_filters = is_callback_in RUN_CALLBACK_STATUS_FAILED site_id;
          callback_dispatching_filters = is_callback_in RUN_CALLBACK_STATUS_DISPATCHING site_id;
          callback_dispatching_recoverable_filters =
            (\<lambda>r. callback_dispatching_filters r
                 \<and> sql_le (r_callback_last_attempt_at r)
                     (now - seconds RUNTIME_DIAGNOSTIC_CALLBACK_DISPATCHING_STALE_AFTER_SECONDS));
          callback_delivered_recent_filters =
            (\<lambda>r. r_callback_status r = RUN_CALLBACK_STATUS_DELIVERED
                 \<and> sql_ge (r_callback_delivered_at r) recent_window_start
                 \<and> callback_url_set r \<and> site_filter site_id r);
          retention_due_filters = is_retention_due now site_id;
          retention_purged_recent_filters =
            (\<lambda>r. sql_ge (r_result_purged_at r) recent_window_start \<and> site_filter site_id r);
          failed_recent_filters =
            (\<lambda>r. r_status r = ''failed'' \<and> sql_ge (r_finished_at r) recent_window_start
                 \<and> site_filter site_id r);
          canceled_recent_filters =
            (\<lambda>r. r_status r = ''canceled'' \<and> sql_ge (r_canceled_at r) recent_window_start
                 \<and> site_filter site_id r);
          count = (\<lambda>fs. JInt (count_runs fs rows));
          oldest = (\<lambda>fs column. repo_serialize_timestamp (min_timestamp fs column rows))
      in JObj
        [(''queue'', JObj
           [(''queued_runs'', count queued_filters),
            (''queued_oldest_requested_at'', oldest queued_filters (\<lambda>r. Some (r_started_at r))),
            (''running_runs'', count running_filters),
            (''running_oldest_processing_started_at'', oldest running_filters r_processing_started_at)]),
         (''cancel'', JObj
           [(''active_requests'', count cancel_requested_filters),
            (''oldest_requested_at'', oldest cancel_requested_filters r_cancel_requested_at),
            (''canceled_recent'', count canceled_recent_filters)]),
         (''callback'', JObj
           [(''pending'', count callback_pending_filters),
            (''due_now'', count callback_due_filters),
            (''dispatching'', count callback_dispatching_filters),
            (''recoverable_dispatching'', count callback_dispatching_recoverable_filters),
            (''failed'', count callback_failed_filters),
            (''delivered_recent'', count callback_delivered_recent_filters),
            (''oldest_due_at'', oldest callback_due_filters r_callback_next_attempt_at),
            (''dispatching_oldest_last_attempt_at'', oldest callback_dispatching_filters r_callback_last_attempt_at)]),
         (''retention'', JObj
           [(''due_purge'', count retention_due_filters),
            (''oldest_due_expires_at'', oldest retention_due_filters r_retention_expires_at),
            (''purged_recent'', count retention_purged_recent_filters)]),
         (''failures'', JObj
           [(''failed_recent'', count failed_recent_filters),
            (''last_failed_at'', repo_serialize_timestamp (max_timestamp failed_recent_filters r_finished_at rows)),
            (''top_error_codes'', summarize_recent_failure_error_codes recent_window_start site_id 5 rows),
            (''provider_error_calls_recent'', JInt (count_provider_error_calls recent_window_start site_id rows calls)),
            (''top_provider_errors'', summarize_recent_provider_errors recent_window_start site_id 5 rows calls)])])"

subsection \<open>The diagnostic listing of one issue kind\<close>

definition list_runtime_diagnostic_runs :: "string \<Rightarrow> string option \<Rightarrow> int \<Rightarrow> instant \<Rightarrow> run_table \<Rightarrow> run_table" where
  "list_runtime_diagnostic_runs issue_kind site_id limit now rows =
     (let queued_stale_before = now - seconds RUNTIME_DIAGNOSTIC_QUEUED_STALE_AFTER_SECONDS;
          running_stale_before = now - seconds RUNTIME_DIAGNOSTIC_RUNNING_STALE_AFTER_SECONDS;
          cancel_stuck_before = now - seconds RUNTIME_DIAGNOSTIC_CANCEL_STUCK_AFTER_SECONDS;
          callback_overdue_before = now - seconds RUNTIME_DIAGNOSTIC_CALLBACK_OVERDUE_AFTER_SECONDS;
          select = (\<lambda>cond order. sql_limit (max 1 limit) (sort_key order (filter cond rows)));
          asc = asc_nulls_last; desc = desc_nulls_first;
          started = (\<lambda>r. asc (Some (r_started_at r)))
      in
        if issue_kind = ''queued'' then
          select (is_queued site_id) (\<lambda>r. (started r, (0, 0)))
        else if issue_kind = ''queued_stale'' then
          select (\<lambda>r. r_status r = ''queued'' \<and> r_started_at r \<le> queued_stale_before
                      \<and> worker_eligible now r \<and> site_filter site_id r)
            (\<lambda>r. (started r, (0, 0)))
        else if issue_kind = ''running'' then
          select (is_running site_id) (\<lambda>r. (asc (r_processing_started_at r), started r))
        else if issue_kind = ''running_stale'' then
          select (\<lambda>r. r_status r = ''running'' \<and> sql_le (r_processing_started_at r) running_stale_before
                      \<and> site_filter site_id r)
            (\<lambda>r. (asc (r_processing_started_at r), started r))
        else if issue_kind = ''cancel_requested'' then
          select (is_cancel_requested site_id) (\<lambda>r. (asc (r_cancel_requested_at r), started r))
        else if issue_kind = ''cancel_stuck'' then
          select (\<lambda>r. sql_le (r_cancel_requested_at r) cancel_stuck_before
                      \<and> (r_status r = ''queued'' \<or> r_status r = ''running'') \<and> site_filter site_id r)
            (\<lambda>r. (asc (r_cancel_requested_at r), started r))
        else if issue_kind = ''callback_due'' then
          select (is_callback_due now site_id)
            (\<lambda>r. (asc (r_callback_next_attempt_at r), asc (r_finished_at r)))
        else if issue_kind = ''callback_overdue'' then
          select (\<lambda>r. is_callback_in RUN_CALLBACK_STATUS_PENDING site_id r
                      \<and> sql_le (r_callback_next_attempt_at r) callback_overdue_before)
            (\<lambda>r. (asc (r_callback_next_attempt_at r), asc (r_finished_at r)))
        else if issue_kind = ''callback_failed'' then
          select (is_callback_in RUN_CALLBACK_STATUS_FAILED site_id)
            (\<lambda>r. (desc (r_callback_last_attempt_at r), desc (r_finished_at r)))
        else if issue_kind = ''callback_dispatching'' then
          select (is_callback_in RUN_CALLBACK_STATUS_DISPATCHING site_id)
            (\<lambda>r. (asc (r_callback_last_attempt_at r), asc (r_finished_at r)))
        else if issue_kind = ''canceled_recent'' then
          select (\<lambda>r. r_status r = ''canceled'' \<and> r_canceled_at r \<noteq> None \<and> site_filter site_id r)
            (\<lambda>r. (desc (r_canceled_at r), desc (Some (r_started_at r))))
        else if issue_kind = ''retention_due'' then
          select (is_retention_due now site_id)
            (\<lambda>r. (asc (r_retention_expires_at r), asc (r_finished_at r)))
        else [])"

subsection \<open>Lemmas\<close>

lemma length_sql_limit:
  assumes "0 \<le> n"
  shows "int (length (sql_limit n rows)) = min n (int (length rows))"
proof -
  have "int (min (length rows) (nat n)) = min (int (length rows)) (int (nat n))"
    by (rule of_nat_min)
  with assms show ?thesis by (simp add: sql_limit_def min.commute)
qed

lemma length_select:
  "int (length (sql_limit (max 1 limit) (sort_key key (filter cond rows)))) = min (max 1 limit) (count_runs cond rows)"
  using length_sql_limit [of "max 1 limit" "sort_key key (filter cond rows)"]
  by (simp only: count_runs_def length_sort max.coboundedI1 zero_le_one)

lemma sql_limit_subset: "r \<in> set (sql_limit n rows) \<Longrightarrow> r \<in> set rows"
  by (auto simp: sql_limit_def dest: in_set_takeD)

lemma group_rows_total: "sum_list (map (\<lambda>(k, rs). length rs) (group_rows key rows)) = length rows"
proof -
  have "sum_list (map (\<lambda>k. length (filter (\<lambda>r. key r = k) rows)) (remdups (map key rows))) =
      (\<Sum>k\<in>set (map key rows). length (filter (\<lambda>r. key r = k) rows))"
    by (simp add: sum_list_distinct_conv_sum_set)
  also have "\<dots> = length rows"
  proof -
    have "(\<Sum>k\<in>K. length (filter (\<lambda>r. key r = k) rows)) = length rows"
      if "finite K" "key ` set rows \<subseteq> K" for K
      using that
    proof (induction rows)
      case Nil
      then show ?case by simp
    next
      case (Cons a rows)
      have "(\<Sum>k\<in>K. length (filter (\<lambda>r. key r = k) (a # rows))) =
          (\<Sum>k\<in>K. (if key a = k then 1 else 0) + length (filter (\<lambda>r. key r = k) rows))"
        by (intro sum.cong) auto
      also have "\<dots> = 1 + length rows"
        using Cons by (simp add: sum.distrib sum.delta')
      finally show ?case by simp
    qed
    then show ?thesis by simp
  qed
  finally show ?thesis by (simp add: group_rows_def comp_def)
qed

end
