(* ===== verification/RunProperties.thy ===== *)
theory RunProperties
  imports RuntimeSystem RunQueries
begin

section \<open>Properties of runs\<close>

text \<open>
  What the run store, the workers, the queue, the replay lookup and the public reads guarantee, each
  stated on the operations themselves, with the example rows their witnesses use.
\<close>

subsection \<open>Example rows\<close>

definition demo_command :: "string \<Rightarrow> run_command" where
  "demo_command run_id =
     \<lparr>c_run_id = run_id, c_site_id = ''s1'', c_account_id = None, c_subscription_id = None,
      c_plan_version_id = None, c_ability_name = ''a'', c_ability_family = ''text'', c_skill_id = [],
      c_workflow_id = [], c_contract_version = [], c_channel = ''api'', c_execution_kind = ''text'',
      c_execution_tier = ''cloud'', c_execution_pattern = ''whole_run_offload'',
      c_data_classification = ''public'', c_profile_id = ''p'', c_canonical_run_id = None,
      c_status = ''queued'', c_idempotency_key = Some ''k1'', c_request_fingerprint = ''f1'',
      c_trace_id = ''t1'', c_input_json = [], c_execution_input_ciphertext = Some ''x'',
      c_policy_json = [(''request_identity_version'', JInt 2), (''storage_mode'', JStr ''result_only''),
                       (''retention_ttl'', JInt 60), (''task_backend'', JObj [(''enabled'', JBool True)])],
      c_selected_provider_id = None, c_selected_model_id = None, c_selected_instance_id = None,
      c_worker_eligible_at = None\<rparr>"

definition demo_run :: run_record where
  "demo_run = new_run_record 1 1 (demo_command ''r1'')"

lemma demo_run_fields [simp]:
  "r_run_id demo_run = ''r1''" "r_site_id demo_run = ''s1''" "r_status demo_run = ''queued''"
  "r_idempotency_key demo_run = Some ''k1''" "r_worker_eligible_at demo_run = None"
  "r_execution_kind demo_run = ''text''" "r_started_at demo_run = 1"
  "r_retention_expires_at demo_run = None" "r_result_json demo_run = None"
  "r_finished_at demo_run = None" "r_callback_attempt_count demo_run = 0"
  by (simp_all add: demo_run_def new_run_record_def demo_command_def)

lemma demo_run_wf: "run_wf demo_run"
  unfolding demo_run_def by (rule new_run_wf) (simp add: demo_command_def)

lemma single_table_wf: "run_wf r \<Longrightarrow> r_run_id r \<noteq> [] \<Longrightarrow> table_wf [r]"
  by (simp add: table_wf_def keys_distinct_def idempotency_unique_def)

lemma demo_table_wf: "table_wf [demo_run]"
  by (rule single_table_wf [OF demo_run_wf]) simp

lemma demo_get: "get_run_row ''r1'' [demo_run] = Some demo_run"
  by (simp add: get_run_row_def row_get_def)

subsection \<open>Claiming\<close>

lemma claim_if_queued_wins:
  assumes "table_wf rows" and "run_id \<noteq> []" and "fst (claim_run_if_queued now now' run_id rows) \<noteq> None"
  shows "run_claim.claim_wins (now, now') run_id rows"
    "snd (claim_run_if_queued now now' run_id rows) = run_claim.claim_rows (now, now') run_id rows"
  using assms by (auto simp: claim_run_if_queued_cases table_wf_distinct split: if_splits)

text \<open>C2: Of any number of workers that try to claim the same queued run, at most one gets it: once a
  claim has succeeded, a later claim of that run, at whatever time, returns nothing and leaves the
  table as the winner left it.\<close>

theorem queued_run_has_one_winner:
  assumes "table_wf rows" and "run_id \<noteq> []"
    and "fst (claim_run_if_queued now now' run_id rows) \<noteq> None"
  shows "claim_run_if_queued later later' run_id (snd (claim_run_if_queued now now' run_id rows))
    = (None, snd (claim_run_if_queued now now' run_id rows))"
proof -
  note won = claim_if_queued_wins [OF assms]
  have "keys_distinct r_run_id (run_claim.claim_rows (now, now') run_id rows)"
    by (rule run_claim.claim_distinct [OF table_wf_distinct [OF assms(1)]])
  with run_claim.claim_single_winner [OF table_wf_distinct [OF assms(1)] won(1)] assms(2)
  show ?thesis by (simp add: won(2) claim_run_if_queued_cases)
qed

theorem queued_run_has_one_winner_witness:
  "fst (claim_run_if_queued 5 6 ''r1'' (snd (claim_run_if_queued 2 3 ''r1'' [demo_run]))) = None"
proof -
  have "run_claim.claim_wins (2, 3) ''r1'' [demo_run]"
    by (simp add: run_claim.claim_wins_def run_claim_guard_def queued_claimable_def worker_eligible_def)
  then have "fst (claim_run_if_queued 2 3 ''r1'' [demo_run]) \<noteq> None"
    by (simp add: claim_run_if_queued_cases table_wf_distinct [OF demo_table_wf] demo_get)
  from queued_run_has_one_winner [OF demo_table_wf _ this] show ?thesis by simp
qed

text \<open>C3: The oldest runnable run is the one claimed: the worker gets a queued run that is eligible and
  not held back by its site's media limit, no runnable run is older (ties broken by id), and only that
  run changes, to running; a worker gets nothing only when no run is runnable.\<close>

theorem oldest_runnable_run_is_claimed:
  assumes "table_wf rows"
  shows "case claim_next_queued_run limit now now' rows of
      (None, rows') \<Rightarrow> rows' = rows
        \<and> (\<forall>q\<in>set rows. r_status q = ''queued'' \<longrightarrow> \<not> runnable_filter limit now rows q)
    | (Some claimed, rows') \<Rightarrow>
        (\<exists>r\<in>set rows. r_status r = ''queued'' \<and> runnable_filter limit now rows r
           \<and> claimed = start_processing now' r
           \<and> (\<forall>q\<in>set rows. r_status q = ''queued'' \<and> runnable_filter limit now rows q \<longrightarrow>
                (r_started_at r, r_run_id r) \<le> (r_started_at q, r_run_id q))
           \<and> rows' = rows_update (\<lambda>q. q = r) (start_processing now') rows)"
proof (cases "oldest_queued_run limit now rows")
  case None
  note quiet = iffD1 [OF oldest_queued_run_None None]
  show ?thesis
    using quiet by (simp add: claim_next_queued_run_cases [OF assms] None)
next
  case (Some r)
  note old = oldest_queued_run_Some [OF Some]
  have same: "(r_run_id q = r_run_id r \<and> r_status q = ''queued'' \<and> runnable_filter limit now rows q) = (q = r)"
    if "q \<in> set rows" for q
  proof
    assume "r_run_id q = r_run_id r \<and> r_status q = ''queued'' \<and> runnable_filter limit now rows q"
    then have id: "r_run_id q = r_run_id r" by (rule conjunct1)
    have "Some q = row_get r_run_id (r_run_id q) rows"
      by (rule row_get_unique [OF table_wf_distinct [OF assms] that, symmetric])
    also have "\<dots> = Some r"
      unfolding id by (rule row_get_unique [OF table_wf_distinct [OF assms] old(1)])
    finally show "q = r" by (simp only: option.inject)
  next
    assume q: "q = r"
    show "r_run_id q = r_run_id r \<and> r_status q = ''queued'' \<and> runnable_filter limit now rows q"
      unfolding q by (intro conjI refl old(2,3))
  qed
  have "rows_update (\<lambda>q. r_run_id q = r_run_id r \<and> r_status q = ''queued'' \<and> runnable_filter limit now rows q)
      (start_processing now') rows = rows_update (\<lambda>q. q = r) (start_processing now') rows"
    unfolding rows_update_def by (rule map_cong [OF refl]) (simp only: same)
  then have eq: "claim_next_queued_run limit now now' rows =
      (Some (start_processing now' r), rows_update (\<lambda>q. q = r) (start_processing now') rows)"
    by (simp add: claim_next_queued_run_cases [OF assms] Some)
  show ?thesis
    unfolding eq prod.case option.case
    by (intro bexI [of _ r] conjI refl old(1-3)) (use old(4) in blast)
qed

theorem oldest_runnable_run_is_claimed_witness:
  "fst (claim_next_queued_run None 2 3 [demo_run]) = Some (start_processing 3 demo_run)"
  using oldest_runnable_run_is_claimed [OF demo_table_wf, of None 2 3]
  by (auto simp: runnable_filter_def worker_eligible_def split: prod.splits option.splits)

text \<open>A worker's claim keeps every site within its bound of running media derivatives, whether the
  run comes from a wake-up signal or from the queue.\<close>

theorem worker_claim_keeps_media_bound:
  assumes "table_wf rows" and "media_within limit rows" and "0 < limit"
  shows "media_within limit (snd (claim_for_worker limit clk signal rows))"
  using assms by (rule worker_claim_media_within)

theorem worker_claim_keeps_media_bound_witness:
  "media_within 1 (snd (claim_for_worker 1 (\<lambda>i. int i) (Some ''r1'') [demo_run]))"
proof -
  have "media_within 1 [demo_run]"
    by (simp add: media_within_def count_running_media_derivative_runs_def is_running_media_derivative_def)
  then show ?thesis by (intro worker_claim_keeps_media_bound [OF demo_table_wf]) simp_all
qed

subsection \<open>Finishing\<close>

definition sheds_input :: "run_record \<Rightarrow> bool" where
  "sheds_input run \<longleftrightarrow> get_storage_mode (run_policy run)
     \<in> {RUNTIME_STORAGE_MODE_NO_STORE, RUNTIME_STORAGE_MODE_RESULT_ONLY}"

definition retention_deadline :: "run_record \<Rightarrow> instant \<Rightarrow> instant option" where
  "retention_deadline run t =
     (let ttl = coerce_int (py_get (run_policy run) ''retention_ttl'') in
      if ttl \<le> 0 then None else Some (t + seconds ttl))"

lemma resolve_retention: "resolve_retention_expires_at run t = retention_deadline run t"
  by (simp add: resolve_retention_expires_at_def retention_deadline_def Let_def)

lemma run_policy_cong: "r_policy_json a = r_policy_json b \<Longrightarrow> run_policy a = run_policy b"
  by (simp add: run_policy_def)

text \<open>The shape all three finishing writes share.\<close>

definition finished_like :: "run_record \<Rightarrow> instant \<Rightarrow> run_record \<Rightarrow> bool" where
  "finished_like run t done \<longleftrightarrow>
     r_execution_input_ciphertext done = None
     \<and> r_finished_at done = Some t
     \<and> r_input_json done = (if sheds_input run then Some (JObj []) else r_input_json run)
     \<and> r_retention_expires_at done = retention_deadline run t
     \<and> r_callback_last_error_code done = None
     \<and> (if repo_has_callback_target (run_policy run)
        then r_callback_status done = RUN_CALLBACK_STATUS_PENDING \<and> r_callback_next_attempt_at done = Some t
        else r_callback_status done = RUN_CALLBACK_STATUS_NOT_REQUESTED \<and> r_callback_next_attempt_at done = None)"

lemma finishing_tail:
  assumes "r_policy_json run' = r_policy_json run" "r_input_json run' = r_input_json run"
    and "r_finished_at run' = Some t" "r_execution_input_ciphertext run' = None"
    and "r_retention_expires_at run' = retention_deadline run t"
  shows "finished_like run t (schedule_callback_delivery t (apply_terminal_input_storage_policy run'))"
proof -
  have policy: "run_policy run' = run_policy run" by (rule run_policy_cong) (rule assms(1))
  have stored: "run_policy (apply_terminal_input_storage_policy run') = run_policy run"
    by (rule run_policy_cong) (simp add: assms(1))
  show ?thesis
    using assms policy stored
    by (simp add: finished_like_def schedule_callback_delivery_def apply_terminal_input_storage_policy_def
        sheds_input_def Let_def)
qed

lemma finish_shape:
  assumes "\<forall>u. f \<noteq> Defer u"
  shows "finished_like run t (apply_finish f t run)"
proof (cases f)
  case Succeed
  show ?thesis
    unfolding Succeed apply_finish.simps mark_run_succeeded_def Let_def
    by (rule finishing_tail) (simp_all add: resolve_retention retention_deadline_def run_policy_def)
next
  case Fail
  show ?thesis
    unfolding Fail apply_finish.simps mark_run_failed_def Let_def
    by (rule finishing_tail) (simp_all add: resolve_retention retention_deadline_def run_policy_def split: option.split)
next
  case Cancel
  show ?thesis
    unfolding Cancel apply_finish.simps mark_run_canceled_def Let_def
    by (rule finishing_tail) (simp_all add: resolve_retention retention_deadline_def run_policy_def)
qed (use assms in simp)

text \<open>C15: However a run ends, it keeps no encrypted execution input; under the storage modes
  \<open>no_store\<close> and \<open>result_only\<close> its input is emptied and otherwise kept; its result is due for purging
  the policy's time after the end, or never; and its callback is pending from that moment exactly when
  the policy names a callback URL.\<close>

theorem finished_run_obeys_policy:
  assumes "\<forall>u. f \<noteq> Defer u"
  shows "r_execution_input_ciphertext (apply_finish f t run) = None
    \<and> r_input_json (apply_finish f t run) =
        (if get_storage_mode (run_policy run) \<in> {RUNTIME_STORAGE_MODE_NO_STORE, RUNTIME_STORAGE_MODE_RESULT_ONLY}
         then Some (JObj []) else r_input_json run)
    \<and> r_retention_expires_at (apply_finish f t run) =
        (let ttl = coerce_int (py_get (run_policy run) ''retention_ttl'') in
         if ttl \<le> 0 then None else Some (t + seconds ttl))
    \<and> (r_callback_status (apply_finish f t run) = RUN_CALLBACK_STATUS_PENDING
         \<longleftrightarrow> repo_has_callback_target (run_policy run))
    \<and> r_callback_next_attempt_at (apply_finish f t run) =
        (if repo_has_callback_target (run_policy run) then Some t else None)"
  using finish_shape [OF assms, of run t]
  by (auto simp: finished_like_def sheds_input_def retention_deadline_def)

theorem finished_run_obeys_policy_witness:
  "r_input_json (apply_finish (Cancel ''stop'') 9 demo_run) = Some (JObj [])
   \<and> r_retention_expires_at (apply_finish (Cancel ''stop'') 9 demo_run) = Some (9 + seconds 60)"
  using finished_run_obeys_policy [of "Cancel ''stop''" 9 demo_run]
  by (simp add: demo_run_def new_run_record_def demo_command_def run_policy_def dict_or_empty_def py_get_def
      get_storage_mode_def Let_def coerce_int_def coerce_int_default_def
      RUNTIME_STORAGE_MODE_FULL_STORE_WITH_TTL_def RUNTIME_STORAGE_MODE_RESULT_ONLY_def
      RUNTIME_STORAGE_MODE_NO_STORE_def)

subsection \<open>Retention\<close>

lemma count_due_after_purge:
  assumes sub: "\<And>r. r \<in> E \<Longrightarrow> r \<in> set rows \<and> retention_due now r"
  shows "length (filter (retention_due later) (rows_update (\<lambda>r. r \<in> E) (purge_run now) rows))
    = length (filter (\<lambda>r. retention_due later r \<and> r \<notin> E) rows)"
proof -
  have "\<not> retention_due later (purge_run now r)" for r
    by (simp add: retention_due_def purge_run_def)
  then show ?thesis by (induction rows) (auto simp: rows_update_def)
qed

lemma length_partition: "length (filter P xs) = length (filter (\<lambda>x. P x \<and> Q x) xs) + length (filter (\<lambda>x. P x \<and> \<not> Q x) xs)"
  by (induction xs) auto

lemma sorted_prefix_least:
  fixes k :: "'r \<Rightarrow> 'o :: linorder"
  assumes x: "x \<in> set (take n (sort_key k xs))" and y: "y \<in> set xs" "y \<notin> set (take n (sort_key k xs))"
  shows "k x \<le> k y"
proof -
  let ?s = "sort_key k xs"
  have "y \<in> set ?s" using y(1) by simp
  then have "y \<in> set (take n ?s) \<or> y \<in> set (drop n ?s)" by (metis Un_iff append_take_drop_id set_append)
  with y(2) have drop: "y \<in> set (drop n ?s)" by blast
  have "sorted (map k (take n ?s) @ map k (drop n ?s))"
    by (simp only: map_append [symmetric] append_take_drop_id sorted_sort_key)
  then show ?thesis using x drop by (auto simp: sorted_append)
qed

lemma pair_le_fst: "(a, b) \<le> (c, d) \<Longrightarrow> a \<le> c" for a c :: "'a :: linorder" and b d :: "'b :: linorder"
  by (auto simp: less_eq_prod_def)

lemma expired_first:
  assumes "r \<in> set (expired_runs now limit rows)" "q \<in> set rows" "retention_due now q"
    "q \<notin> set (expired_runs now limit rows)"
  shows "asc_nulls_last (r_retention_expires_at r) \<le> asc_nulls_last (r_retention_expires_at q)"
proof (rule pair_le_fst)
  show "(asc_nulls_last (r_retention_expires_at r), r_run_id r) \<le> (asc_nulls_last (r_retention_expires_at q), r_run_id q)"
    using assms unfolding expired_runs_def sql_limit_def
    by (intro sorted_prefix_least [where k = "\<lambda>r. (asc_nulls_last (r_retention_expires_at r), r_run_id r)"]) auto
qed

lemma purge_exact:
  assumes "table_wf rows" and "purge_expired_run_results now limit rows = (n, rows')"
  shows "n = min (max 1 limit) (count_expired_run_results now rows)"
    and "count_expired_run_results now rows' = count_expired_run_results now rows - n"
    and "rows' = rows_update (\<lambda>r. r \<in> set (expired_runs now limit rows)) (purge_run now) rows"
proof -
  note purge = purge_is_update [OF table_wf_distinct [OF assms(1)], of now limit]
  let ?E = "expired_runs now limit rows"
  show rows': "rows' = rows_update (\<lambda>r. r \<in> set ?E) (purge_run now) rows" using purge assms(2) by simp
  have "n = int (length ?E)" using purge assms(2) by simp
  then show n: "n = min (max 1 limit) (count_expired_run_results now rows)"
    by (simp add: expired_runs_def count_expired_run_results_def length_select [unfolded count_runs_def])
  have distinct: "distinct rows" using table_wf_distinct [OF assms(1)]
    by (simp add: keys_distinct_def distinct_map)
  have dE: "distinct ?E" using expired_runs_distinct [OF table_wf_distinct [OF assms(1)]]
    by (simp add: distinct_map)
  have "length (filter (\<lambda>r. retention_due now r \<and> r \<in> set ?E) rows) = card {r \<in> set rows. retention_due now r \<and> r \<in> set ?E}"
    using distinct_card [of "filter (\<lambda>r. retention_due now r \<and> r \<in> set ?E) rows"] distinct by simp
  also have "{r \<in> set rows. retention_due now r \<and> r \<in> set ?E} = set ?E" using expired_runs_subset by blast
  also have "card (set ?E) = length ?E" by (rule distinct_card [OF dE])
  finally have E: "length (filter (\<lambda>r. retention_due now r \<and> r \<in> set ?E) rows) = length ?E" .
  have sub: "\<And>r. r \<in> set ?E \<Longrightarrow> r \<in> set rows \<and> retention_due now r" by (rule expired_runs_subset)
  have "length (filter (retention_due now) rows') = length (filter (\<lambda>r. retention_due now r \<and> r \<notin> set ?E) rows)"
    unfolding rows' by (rule count_due_after_purge [OF sub])
  with E length_partition [of "retention_due now" rows "\<lambda>r. r \<in> set ?E"] \<open>n = int (length ?E)\<close>
  show "count_expired_run_results now rows' = count_expired_run_results now rows - n"
    by (simp add: count_expired_run_results_def)
qed

text \<open>A purge erases result, input and ciphertext of as many due runs as its limit allows and reports
  exactly that number, takes those with the earliest deadlines, leaves every other row as it was, and
  the number still due drops by exactly the number reported.\<close>

theorem purge_is_exact:
  assumes "table_wf rows" and "purge_expired_run_results now limit rows = (n, rows')"
  shows "n = min (max 1 limit) (count_expired_run_results now rows)
    \<and> count_expired_run_results now rows' = count_expired_run_results now rows - n
    \<and> rows' = rows_update (\<lambda>r. r \<in> set (expired_runs now limit rows)) (purge_run now) rows
    \<and> (\<forall>r\<in>set (expired_runs now limit rows). retention_due now r
         \<and> (\<forall>q\<in>set rows. retention_due now q \<and> q \<notin> set (expired_runs now limit rows) \<longrightarrow>
              asc_nulls_last (r_retention_expires_at r) \<le> asc_nulls_last (r_retention_expires_at q)))"
  using purge_exact [OF assms] expired_runs_subset expired_first by blast

definition demo_expired_run :: run_record where
  "demo_expired_run = apply_finish (Cancel ''stop'') 9 (start_processing 5 demo_run)"

lemma demo_expired_table: "table_wf [demo_expired_run]"
proof (rule single_table_wf)
  have "run_wf (start_processing 5 demo_run)"
    by (rule start_processing_wf [OF demo_run_wf, of 5]) (simp add: queued_claimable_def worker_eligible_def)
  then show "run_wf demo_expired_run"
    unfolding demo_expired_run_def by (rule finish_wf) simp
  show "r_run_id demo_expired_run \<noteq> []" by (simp add: demo_expired_run_def canceled_frame)
qed

theorem purge_is_exact_witness:
  "fst (purge_expired_run_results (9 + seconds 61) 3 [demo_expired_run])
     = min 3 (count_expired_run_results (9 + seconds 61) [demo_expired_run])"
  using purge_is_exact [OF demo_expired_table, of "9 + seconds 61" 3] by (cases "purge_expired_run_results (9 + seconds 61) 3 [demo_expired_run]") simp

end
