(* ===== verification/ProviderProperties.thy ===== *)
theory ProviderProperties
  imports ProviderReservations RunProperties
begin

section \<open>Properties of provider execution and of the spend fuse\<close>

subsection \<open>An example\<close>

text \<open>
  Two candidates of one provider: the first instance times out in every round, the second answers.
\<close>

definition demo_candidate :: "string \<Rightarrow> candidate" where
  "demo_candidate instance_id =
     \<lparr>cd_provider_id = ''openai'', cd_model_id = ''m'', cd_instance_id = instance_id,
      cd_endpoint_variant = ''chat'', cd_region = ''eu'', cd_context_window = None,
      cd_price_input = None, cd_price_output = None, cd_price_cache_read = None, cd_price_cache_write = None\<rparr>"

definition demo_answer :: provider_result where
  "demo_answer = \<lparr>x_output = [(''output_text'', JStr ''ok'')], x_latency_ms = 5, x_tokens_in = 1, x_tokens_out = 1,
     x_cost = 0, x_finish_reason = ''stop'', x_media_candidates = [], x_uncached_input_tokens = None,
     x_cache_read_tokens = 0, x_cache_write_tokens = 0, x_reasoning_tokens = 0,
     x_cost_estimate_mode = [], x_cache_affinity_applied = None\<rparr>"

definition demo_timeout :: provider_error where
  "demo_timeout = \<lparr>pe_error_code = ''provider.timeout'', pe_message = ''timeout'', pe_retryable = True,
     pe_tokens_in = 0, pe_tokens_out = 0, pe_cost = 0, pe_usage_context = None\<rparr>"

definition demo_adapter :: "nat \<Rightarrow> provider_request \<Rightarrow> (call_fault, provider_result) outcome" where
  "demo_adapter n request =
     (if pq_instance_id request = ''slow'' then Raise (ProviderFault demo_timeout) else Return demo_answer)"

definition demo_environment :: "bool \<Rightarrow> environment" where
  "demo_environment guard =
     \<lparr>env_clock = (\<lambda>n. seconds 1767182400 + int n), env_providers = (\<lambda>p. if p = ''openai'' then Some demo_adapter else None),
      env_others = (\<lambda>n s. s), env_budget_guard = guard,
      env_preprocess = (\<lambda>payload policy s. (payload, s)),
      env_prepare = (\<lambda>payload output s.
        (\<lparr>od_accepted = True, od_output = output, od_error_code = [], od_error_message = [], od_usage_context = []\<rparr>, s)),
      env_finalize = (\<lambda>payload output media policy s. (Return output, s)),
      env_float_text = (\<lambda>r. [])\<rparr>"

lemma demo_environment_ok: "env_ok (demo_environment guard) run_id"
  by (simp add: env_ok_def demo_environment_def after_others_def stored_ok_def)

definition demo_exec_run :: run_record where
  "demo_exec_run = demo_run\<lparr>r_status := ''running'', r_policy_json := Some (JObj [(''max_retries'', JInt 1)])\<rparr>"

definition demo_stored :: "budget_db \<Rightarrow> stored" where
  "demo_stored budget = \<lparr>st_runs = [demo_exec_run], st_calls = [], st_budget = budget, st_usage = []\<rparr>"

definition demo_state :: "budget_db \<Rightarrow> exec_state" where
  "demo_state budget = \<lparr>es_now = demo_stored budget, es_committed = demo_stored budget, es_ticks = 0, es_sent = []\<rparr>"

definition demo_no_budget :: budget_db where
  "demo_no_budget = \<lparr>bd_setting = None, bd_connections = [], bd_counters = [], bd_claims = []\<rparr>"

definition demo_chain :: "string option \<times> exec_state" where
  "demo_chain = execute_candidate_chain (demo_environment False) demo_exec_run
     [demo_candidate ''slow'', demo_candidate ''fast''] [] (demo_state demo_no_budget)"

text \<open>A free account with one dollar a day and no monthly limit.\<close>

definition demo_budget :: budget_db where
  "demo_budget = \<lparr>bd_setting = Some \<lparr>ss_enabled = True,
       ss_config_json = Some (JObj [(''providers'', JObj [(''openai'',
         JObj [(''account_class'', JStr ''free''), (''daily_usd'', JInt 1)])])])\<rparr>,
     bd_connections = [], bd_counters = [], bd_claims = []\<rparr>"

definition demo_provider_request :: provider_request where
  "demo_provider_request = build_provider_request demo_exec_run [] (run_policy demo_exec_run) 30000 (demo_candidate ''fast'') 0"

definition demo_claim_result :: "(call_fault, claim_receipt option) outcome \<times> budget_db" where
  "demo_claim_result = claim_before_dispatch (seconds 1767182400) demo_exec_run ''openai'' ''m'' demo_provider_request demo_budget"

lemma demo_limits: "spend_limits ''openai'' demo_budget =
    Return (Some ([(''providers'', JObj [(''openai'', JObj [(''account_class'', JStr ''free''), (''daily_usd'', JInt 1)])])],
      ''free'', 1, 0))"
  by (simp add: spend_limits_def demo_budget_def dict_or_empty_def resolve_policy_def py_get_def dict_value_def
      account_class_of_def str_or_empty_def py_str_def py_strip_def py_space_def positive_float_def Let_def)

definition demo_cost :: rat where
  "demo_cost = 5 / 100"

lemma demo_estimate: "estimate_dispatch_cost demo_provider_request
    [(''providers'', JObj [(''openai'', JObj [(''account_class'', JStr ''free''), (''daily_usd'', JInt 1)])])] = Return demo_cost"
  by (simp add: estimate_dispatch_cost_def demo_provider_request_def build_provider_request_def demo_candidate_def
      demo_exec_run_def run_policy_def dict_or_empty_def py_get_def estimate_token_cost_def DEFAULT_CONSERVATIVE_UNPRICED_COST_USD_def demo_cost_def Let_def)

lemma demo_budget_inv: "budget_inv demo_budget" "budget_inv demo_no_budget"
  by (simp_all add: demo_budget_def demo_no_budget_def budget_inv_def ledger_ok_def keys_distinct_def)

lemma demo_key: "dispatch_key_of demo_exec_run ''openai'' ''m'' (pq_retry_count demo_provider_request) = ''r1:openai:m:0''"
proof -
  have "int_text 0 = ''0''" by code_simp
  then show ?thesis
    by (simp add: dispatch_key_of_def demo_exec_run_def demo_provider_request_def build_provider_request_def)
qed

definition demo_counter :: budget_counter where
  "demo_counter = new_counter ''openai'' ''free'' ''day'' (seconds 1767139200) (seconds 1767225600) 1"

lemma demo_open: "open_counters ''openai'' ''free'' (budget_periods (seconds 1767182400) 1 0) [] =
    ([bc_scope_key demo_counter], [demo_counter])"
  by (simp add: budget_periods_example demo_counter_def ensure_counter_def row_get_def rows_update_def new_counter_def Let_def)

lemma demo_charged: "bc_reserved_cost_usd (charged demo_cost demo_counter) = demo_cost"
  by (simp add: charged_def demo_counter_def new_counter_def round6_def round_half_even_def demo_cost_def)

lemma demo_not_exhausted: "\<not> exhausted demo_cost demo_counter"
  by (simp add: exhausted_def demo_counter_def new_counter_def demo_cost_def)

lemma demo_claim_counters:
  obtains receipt c where
    "claim_counters (seconds 1767182400) demo_exec_run ''openai'' ''free'' key 1 0 ratio demo_cost demo_budget =
       (Return (Some receipt), demo_budget\<lparr>bd_counters := [c], bd_claims := [new_claim key demo_exec_run ''openai'' ''free'' demo_cost c]\<rparr>)"
    "cr_claim_ids receipt = [bl_claim_id (new_claim key demo_exec_run ''openai'' ''free'' demo_cost c)]"
    "bc_reserved_cost_usd c = demo_cost" "bc_limit_cost_usd c = 1"
proof -
  obtain w rows where charge: "charge_counters demo_cost ratio False [demo_counter] = (w, rows)" by fastforce
  then obtain c where c: "rows = [c]" "bc_scope_key c = bc_scope_key demo_counter"
      "bc_reserved_cost_usd c = demo_cost" "bc_limit_cost_usd c = 1"
    using demo_charged by (auto simp: Let_def charged_def demo_counter_def new_counter_def)
  have counters: "bd_counters demo_budget = []" "bd_claims demo_budget = []" by (simp_all add: demo_budget_def)
  have "claim_counters (seconds 1767182400) demo_exec_run ''openai'' ''free'' key 1 0 ratio demo_cost demo_budget =
      (Return (Some \<lparr>cr_claim_ids = [bl_claim_id (new_claim key demo_exec_run ''openai'' ''free'' demo_cost c)],
                 cr_estimated_cost_usd = demo_cost, cr_warning = w\<rparr>),
       demo_budget\<lparr>bd_counters := [c], bd_claims := [new_claim key demo_exec_run ''openai'' ''free'' demo_cost c]\<rparr>)"
    using demo_not_exhausted
    by (simp add: claim_counters_def counters demo_open counter_rows_def row_get_def row_put_def rows_update_def
        insert_claims_def Let_def c charge [unfolded c(1)] del: charge_counters.simps)
  from that [OF this _ c(3) c(4)] show thesis by simp
qed

lemma demo_spend_claim:
  obtains receipt claim c where "demo_claim_result = (Return (Some receipt), demo_budget\<lparr>bd_counters := [c], bd_claims := [claim]\<rparr>)"
    "cr_claim_ids receipt = [bl_claim_id claim]" "bc_reserved_cost_usd c = demo_cost" "bc_limit_cost_usd c = 1"
proof -
  have none: "existing_claims key (bd_claims demo_budget) = []" for key
    by (simp add: existing_claims_def demo_budget_def)
  show thesis
    by (rule demo_claim_counters [of "''r1:openai:m:0''"], rule that)
       (simp_all add: demo_claim_result_def claim_before_dispatch_def demo_limits demo_estimate demo_key none)
qed

lemma demo_exec_ok: "budget_inv budget \<Longrightarrow> exec_ok (r_run_id demo_exec_run) (demo_state budget)"
  by (simp add: exec_ok_def stored_ok_def demo_state_def demo_stored_def get_run_row_def row_get_def)

lemma demo_no_escape: "only_provider_errors (demo_environment False)" "\<not> env_budget_guard (demo_environment False)"
  by (auto simp: only_provider_errors_def demo_environment_def demo_adapter_def split: if_splits)

text \<open>The same run with the fuse and one candidate.\<close>

definition demo_guarded_chain :: "string option \<times> exec_state" where
  "demo_guarded_chain = execute_candidate_chain (demo_environment True) demo_exec_run
     [demo_candidate ''fast''] [] (demo_state demo_budget)"

lemma demo_settings: "settings_of_policy (run_policy demo_exec_run) [] =
    \<lparr>ch_policy = run_policy demo_exec_run, ch_input_payload = [], ch_allow_fallback = True, ch_max_retries = 1, ch_timeout_ms = 30000\<rparr>"
  by (simp add: settings_of_policy_def demo_exec_run_def run_policy_def dict_or_empty_def py_get_def flag_or_true_def
      coerce_int_default_def)

lemma demo_no_cancel: "check_cancel env demo_exec_run (demo_state budget) = (False, demo_state budget)"
  by (simp add: check_cancel_def cancel_if_requested_def demo_state_def demo_stored_def get_run_row_def row_get_def
      demo_exec_run_def demo_run_def new_run_record_def demo_command_def on_stored_def)

lemma demo_claim_dispatch:
  obtains ids st' where "claim_dispatch (demo_environment True) demo_exec_run ''openai'' demo_provider_request
    (demo_state demo_budget) = (Return ids, st')"
proof -
  have model: "pq_model_id demo_provider_request = ''m''"
    by (simp add: demo_provider_request_def build_provider_request_def demo_candidate_def)
  obtain receipt db where claim: "demo_claim_result = (Return (Some receipt), db)" by (rule demo_spend_claim)
  have "claim_before_dispatch (env_clock (demo_environment True) (es_ticks (demo_state demo_budget))) demo_exec_run
      ''openai'' ''m'' demo_provider_request (st_budget (es_now (demo_state demo_budget))) = demo_claim_result"
    by (simp add: demo_claim_result_def demo_environment_def demo_state_def demo_stored_def)
  then have "claim_dispatch (demo_environment True) demo_exec_run ''openai'' demo_provider_request (demo_state demo_budget)
      = (Return (cr_claim_ids receipt), on_stored (\<lambda>s. s\<lparr>st_budget := db\<rparr>) ((demo_state demo_budget)\<lparr>es_ticks := 1\<rparr>))"
    by (simp add: claim_dispatch_def demo_environment_def read_clock_def model claim Let_def demo_state_def)
  then show thesis by (rule that)
qed

lemma demo_attempt_sends:
  assumes attempt: "run_attempt (demo_environment True) (settings_of_policy (run_policy demo_exec_run) []) demo_exec_run
      (demo_candidate ''fast'') False 0 last_try (demo_state demo_budget) = (step, last', st')"
  shows "es_sent st' \<noteq> []"
proof -
  let ?env = "demo_environment True" and ?cand = "demo_candidate ''fast''"
  let ?cfg = "settings_of_policy (run_policy demo_exec_run) []"
  have request: "build_provider_request demo_exec_run (ch_input_payload ?cfg) (ch_policy ?cfg) (ch_timeout_ms ?cfg) ?cand 0
      = demo_provider_request" by (simp add: demo_settings demo_provider_request_def)
  have cand: "cd_provider_id ?cand = ''openai''" by (simp add: demo_candidate_def)
  have adapter: "env_providers ?env ''openai'' = Some demo_adapter" by (simp add: demo_environment_def)
  obtain ids st1 where claim: "claim_dispatch ?env demo_exec_run ''openai'' demo_provider_request (demo_state demo_budget)
      = (Return ids, st1)" by (rule demo_claim_dispatch)
  obtain last'' where call: "call_provider ?env ?cfg demo_exec_run ?cand demo_adapter False 0 demo_provider_request ids
      last'' st1 = (step, last', st')"
    using attempt by (simp add: run_attempt_def demo_no_cancel cand adapter request claim Let_def)
  have fits: "enforce_context_budget demo_provider_request = Return None"
    by (simp add: enforce_context_budget_def assess_context_budget_def demo_provider_request_def
        build_provider_request_def demo_candidate_def)
  have answer: "demo_adapter n demo_provider_request = Return demo_answer" for n
    by (simp add: demo_adapter_def demo_provider_request_def build_provider_request_def demo_candidate_def)
  obtain reply st2 where sent: "dispatch ?env demo_adapter ''openai'' demo_provider_request st1 = (reply, st2)" by fastforce
  then have reply: "reply = Return demo_answer" by (auto simp: dispatch_def Let_def answer)
  have "handle_result ?env ?cfg demo_exec_run ?cand False 0 ids None demo_answer last'' st2 = (step, last', st')"
    using call by (simp add: call_provider_def fits cand sent reply)
  from handle_result_step(1) [OF this] dispatch_sent [OF sent] show ?thesis by simp
qed

lemma demo_sent:
  obtains e where "e \<in> set (es_sent (snd demo_guarded_chain))"
proof -
  let ?env = "demo_environment True" and ?cand = "demo_candidate ''fast''"
  let ?cfg = "settings_of_policy (run_policy demo_exec_run) []"
  obtain step1 last1 st1 where attempt: "run_attempt ?env ?cfg demo_exec_run ?cand False 0 first_attempt
      (demo_state demo_budget) = (step1, last1, st1)" by (metis prod.exhaust)
  note some = demo_attempt_sends [OF attempt]
  obtain step2 last2 st2 where rest: "retry_loop 1 ?env ?cfg demo_exec_run ?cand False 1 last1 st1 = (step2, last2, st2)"
    by (metis prod.exhaust)
  have some2: "es_sent st2 \<noteq> []" using retry_loop_log [OF rest] some by (auto simp: demo_settings)
  have rounds: "nat (ch_max_retries ?cfg + 1) = Suc (Suc 0)" by (simp add: demo_settings)
  have "\<exists>step' last' st'. retry_loop (Suc (Suc 0)) ?env ?cfg demo_exec_run ?cand False 0 first_attempt
      (demo_state demo_budget) = (step', last', st') \<and> es_sent st' \<noteq> []"
    using some some2 rest by (cases step1) (simp_all add: attempt del: retry_loop.simps(1))
  then obtain step' last' st' where loop: "retry_loop (Suc (Suc 0)) ?env ?cfg demo_exec_run ?cand False 0 first_attempt
      (demo_state demo_budget) = (step', last', st')" "es_sent st' \<noteq> []" by blast
  have "r_status (current_run demo_exec_run (demo_state demo_budget)) = ''running''"
    by (simp add: current_run_def demo_state_def demo_stored_def get_run_row_def row_get_def demo_exec_run_def)
  moreover have "on_stored (\<lambda>_. es_now st) st = st" for st by (simp add: on_stored_def)
  ultimately have unfolded: "demo_guarded_chain = candidate_loop ?env ?cfg demo_exec_run [?cand] False first_attempt (demo_state demo_budget)"
    by (simp add: demo_guarded_chain_def execute_candidate_chain_def demo_environment_def [THEN arg_cong, of env_preprocess]
        demo_no_cancel Let_def)
  have "es_sent (snd demo_guarded_chain) = es_sent st'"
    unfolding unfolded by (cases step') (auto simp: rounds loop(1) simp del: retry_loop.simps)
  then have "es_sent (snd demo_guarded_chain) \<noteq> []" using loop(2) by simp
  then show thesis using that by (cases "es_sent (snd demo_guarded_chain)") auto
qed

subsection \<open>The chain ends with a finished run\<close>

text \<open>C6: Executing a run's candidates always comes to an end: at most one request for each candidate and each of
  its \<open>max_retries + 1\<close> rounds is sent, and unless an exception other than a provider error escapes, the run is
  then in a terminal status, whatever the providers answer and whatever other sessions commit while a request is
  out, as long as nobody deletes the run.  The spend tables keep their invariant in every case.\<close>

theorem chain_settles_run:
  assumes "exec_ok (r_run_id run) st" and "env_ok env (r_run_id run)"
    and "execute_candidate_chain env run cands payload st = (fault, st')"
  shows "length (es_sent st') - length (es_sent st)
           \<le> length cands * nat (max 0 (coerce_int_default 0 (py_get (run_policy run) ''max_retries'')) + 1)
         \<and> (\<exists>r. get_run_row (r_run_id run) (st_runs (es_now st')) = Some r
               \<and> (terminal_status (r_status r) \<or> fault \<noteq> None))
         \<and> budget_inv (st_budget (es_now st'))
         \<and> (fault = None \<or> env_budget_guard env \<or> \<not> only_provider_errors env)"
proof -
  note done_ok = chain_ok [OF assms(3,1,2)]
  obtain new where new: "es_sent st' = es_sent st @ new"
    "length new \<le> length cands * nat (max 0 (coerce_int_default 0 (py_get (run_policy run) ''max_retries'')) + 1)"
    using chain_log_bounded [OF assms(3)] by blast
  have stored: "get_run_row (r_run_id run) (st_runs (es_now st')) \<noteq> None" "budget_inv (st_budget (es_now st'))"
    using done_ok by (simp_all add: exec_ok_def stored_ok_def)
  have "fault = None \<or> env_budget_guard env \<or> \<not> only_provider_errors env"
    using chain_no_escape [of env run cands payload st] assms(3) by (cases "env_budget_guard env") auto
  then show ?thesis using new stored done_ok by (cases fault) auto
qed

theorem chain_settles_run_witness:
  "length (es_sent (snd demo_chain)) \<le> 4
   \<and> (\<exists>r. get_run_row ''r1'' (st_runs (es_now (snd demo_chain))) = Some r \<and> terminal_status (r_status r))"
proof -
  obtain fault st' where chain: "demo_chain = (fault, st')" by fastforce
  have "fault = None"
    using chain_no_escape [OF demo_no_escape, of demo_exec_run] chain by (metis demo_chain_def fst_conv)
  moreover have "coerce_int_default 0 (py_get (run_policy demo_exec_run) ''max_retries'') = 1"
    by (simp add: demo_exec_run_def run_policy_def dict_or_empty_def py_get_def coerce_int_default_def)
  ultimately show ?thesis
    using chain_settles_run [OF demo_exec_ok [OF demo_budget_inv(2)] demo_environment_ok chain [unfolded demo_chain_def]]
    by (auto simp: chain demo_state_def demo_exec_run_def)
qed

subsection \<open>When another request is sent\<close>

text \<open>C7: The chain never hammers a provider.  After the first request of a run, each further request is either a
  retry of the same provider, model and instance with the next retry count, and then the reply before it was a
  retryable error whose taxonomy entry allows a retry, or an unusable output; or it is the first request to
  another candidate, and then the policy allows a fallback and the reply before it was an error that the taxonomy
  passes on or retries, or an unusable output.  The order is that of the requests as they left, whatever was
  answered.\<close>

theorem retry_discipline:
  "\<exists>new. es_sent (snd (execute_candidate_chain env run cands payload st)) = es_sent st @ new
     \<and> successively (may_follow (flag_or_true (run_policy run) ''allow_fallback'')) new
     \<and> (case new of [] \<Rightarrow> True | a # _ \<Rightarrow> pq_retry_count (sr_request a) = 0)"
proof -
  obtain fault st' where chain: "execute_candidate_chain env run cands payload st = (fault, st')" by fastforce
  from chain_log_bounded [OF this] show ?thesis
    by (auto simp: chain chain_log_def split: list.splits)
qed

subsection \<open>The spend fuse\<close>

text \<open>C8: With the fuse installed no request leaves without its own reservation.  Take a run whose attempts have
  different dispatch keys, none of which was claimed before, and let nobody else claim under them.  Then for every
  request of the chain, in the spend tables that were committed before it left: for each daily or monthly limit of
  its provider there is an open claim, made for exactly this dispatch in that period, that reserves the estimated
  cost of this request.  A request to a provider the administrator set no limit for may leave without one, and no
  request leaves to a provider whose limits are required and missing.  What happens under a key that was used
  before is C11.\<close>

theorem requests_are_admitted:
  assumes "exec_ok (r_run_id run) st" and "env_ok env (r_run_id run)" and "env_budget_guard env"
    and "keys = attempt_keys run cands (max 0 (coerce_int_default 0 (py_get (run_policy run) ''max_retries'')))"
    and "distinct keys" and "unclaimed (set keys) (st_budget (es_now st))" and "keys_private env (set keys)"
    and "execute_candidate_chain env run cands payload st = (fault, st')"
    and "e \<in> set (es_sent st') - set (es_sent st)"
  shows "\<exists>n. reserved run (sr_provider_id e) (sr_request e) (env_clock env n) (sr_budget e)"
  using chain_reserves [OF assms(8,3,1,2,4,7,5,6)] assms(9) by (simp add: new_reserved_def)

lemma demo_keys: "attempt_keys demo_exec_run [demo_candidate ''fast'']
    (max 0 (coerce_int_default 0 (py_get (run_policy demo_exec_run) ''max_retries''))) = [''r1:openai:m:0'', ''r1:openai:m:1'']"
proof -
  have "int_text 0 = ''0''" "int_text 1 = ''1''" by code_simp+
  moreover have "coerce_int_default 0 (py_get (run_policy demo_exec_run) ''max_retries'') = 1"
    by (simp add: demo_exec_run_def run_policy_def dict_or_empty_def py_get_def coerce_int_default_def)
  moreover have "[0..1] = [0, 1 :: int]" by (simp add: upto_rec1)
  ultimately show ?thesis by (simp add: attempt_keys_def dispatch_key_of_def demo_candidate_def demo_exec_run_def)
qed

theorem requests_are_admitted_witness:
  "\<exists>e\<in>set (es_sent (snd demo_guarded_chain)). \<exists>n.
     reserved demo_exec_run (sr_provider_id e) (sr_request e) (env_clock (demo_environment True) n) (sr_budget e)"
proof -
  obtain e where e: "e \<in> set (es_sent (snd demo_guarded_chain))" by (rule demo_sent)
  obtain fault st' where chain: "execute_candidate_chain (demo_environment True) demo_exec_run [demo_candidate ''fast''] []
      (demo_state demo_budget) = (fault, st')" by fastforce
  have guard: "env_budget_guard (demo_environment True)" and sent: "es_sent (demo_state demo_budget) = []"
    by (simp_all add: demo_environment_def demo_state_def)
  have own: "keys_private (demo_environment True) keys" for keys
    by (simp add: keys_private_def keeps_unclaimed_def demo_environment_def after_others_def)
  have new: "unclaimed keys (st_budget (es_now (demo_state demo_budget)))" for keys
    by (simp add: unclaimed_def existing_claims_def demo_state_def demo_stored_def demo_budget_def)
  have mine: "e \<in> set (es_sent st') - set (es_sent (demo_state demo_budget))"
    using e chain by (simp add: demo_guarded_chain_def sent)
  have distinct: "distinct [''r1:openai:m:0'', ''r1:openai:m:1'']" by simp
  from requests_are_admitted [OF demo_exec_ok [OF demo_budget_inv(1)] demo_environment_ok guard demo_keys [symmetric]
      distinct new own chain mine] e
  show ?thesis by blast
qed

text \<open>C9: However the sessions claim, settle and reconfigure, each counter of the spend fuse stands for exactly the
  claims made against it: what it holds is never negative and is the sum, over its claims, of the actual cost once
  that is known and the reservation before, up to half a millionth for each rounding.\<close>

theorem spend_counters_account_for_claims:
  assumes "budget_init db" and "budget_step\<^sup>*\<^sup>* db db'" and "c \<in> set (bd_counters db')"
  shows "0 \<le> bc_reserved_cost_usd c
    \<and> \<bar>bc_reserved_cost_usd c - scope_total (bc_scope_key c) (bd_claims db')\<bar>
        \<le> scope_roundings (bc_scope_key c) (bd_claims db') / 2000000"
  using spend.inv_run [OF assms(1,2)] assms(3) by (auto simp: budget_inv_def ledger_ok_def counter_ok_def)

theorem spend_counters_account_for_claims_witness:
  "\<exists>c\<in>set (bd_counters (snd demo_claim_result)). bc_reserved_cost_usd c = demo_cost
    \<and> \<bar>bc_reserved_cost_usd c - scope_total (bc_scope_key c) (bd_claims (snd demo_claim_result))\<bar>
        \<le> scope_roundings (bc_scope_key c) (bd_claims (snd demo_claim_result)) / 2000000"
proof -
  obtain receipt claim c where r: "demo_claim_result = (Return (Some receipt), demo_budget\<lparr>bd_counters := [c], bd_claims := [claim]\<rparr>)"
    "bc_reserved_cost_usd c = demo_cost" by (rule demo_spend_claim)
  have "budget_init demo_budget" by (simp add: budget_init_def demo_budget_def)
  moreover have "budget_step demo_budget (snd demo_claim_result)"
    unfolding demo_claim_result_def by (rule budget_step.claim)
  moreover have "c \<in> set (bd_counters (snd demo_claim_result))" by (simp add: r)
  ultimately show ?thesis
    using spend_counters_account_for_claims [of demo_budget "snd demo_claim_result" c] r(2)
    by (intro bexI [of _ c]) auto
qed

text \<open>C10: A new reservation never passes a limit.  When a dispatch that was not claimed before is admitted, each of its
  claims reserves the estimated cost, and the counter it stands against then holds at most its limit, the current
  daily or monthly limit of the account, but for the half millionth of the last rounding.\<close>

theorem claim_respects_limits:
  assumes "budget_inv db"
    and "spend_limits provider_id db = Return (Some (config, account_class, daily_limit, monthly_limit))"
    and "existing_claims (dispatch_key_of run provider_id model_id (pq_retry_count request)) (bd_claims db) = []"
    and "estimate_dispatch_cost request config = Return estimated"
    and "claim_before_dispatch now run provider_id model_id request db = (Return (Some receipt), db')"
    and "claim_id \<in> set (cr_claim_ids receipt)"
  shows "\<exists>claim\<in>set (bd_claims db'). bl_claim_id claim = claim_id \<and> bl_reserved_cost_usd claim = estimated
     \<and> (\<exists>c\<in>set (bd_counters db'). bc_scope_key c = bl_scope_key claim
          \<and> bc_limit_cost_usd c \<in> {daily_limit, monthly_limit}
          \<and> bc_reserved_cost_usd c \<le> bc_limit_cost_usd c + 1 / 2000000)"
proof (rule claim_counters_limit)
  show "claim_counters now run provider_id account_class
      (dispatch_key_of run provider_id model_id (pq_retry_count request)) daily_limit monthly_limit
      (warning_ratio config) estimated db = (Return (Some receipt), db')"
    using assms(2-5) by (simp add: claim_before_dispatch_def)
  show "ledger_ok (bd_claims db) (bd_counters db)" using assms(1) by (simp add: budget_inv_def)
qed (rule assms(6))

theorem claim_respects_limits_witness:
  "\<exists>claim\<in>set (bd_claims (snd demo_claim_result)). bl_reserved_cost_usd claim = demo_cost
     \<and> (\<exists>c\<in>set (bd_counters (snd demo_claim_result)). bc_scope_key c = bl_scope_key claim
          \<and> bc_reserved_cost_usd c \<le> bc_limit_cost_usd c + 1 / 2000000)"
proof -
  obtain receipt claim c where r: "demo_claim_result = (Return (Some receipt), demo_budget\<lparr>bd_counters := [c], bd_claims := [claim]\<rparr>)"
    "cr_claim_ids receipt = [bl_claim_id claim]" by (rule demo_spend_claim)
  have none: "existing_claims key (bd_claims demo_budget) = []" for key
    by (simp add: existing_claims_def demo_budget_def)
  have id: "bl_claim_id claim \<in> set (cr_claim_ids receipt)" by (simp add: r)
  from claim_respects_limits [OF demo_budget_inv(1) demo_limits none demo_estimate r(1) [unfolded demo_claim_result_def] id]
  show ?thesis by (auto simp: r)
qed

text \<open>C11: A dispatch key is metered once.  The key names the run, the provider, the model and the retry count, not the
  instance: when its claims have been settled, another dispatch under the same key (the next candidate of the
  chain, if it is another instance of the same model) is admitted however exhausted the counters are, reserves
  nothing, and whatever it costs is never charged.\<close>

theorem repeated_dispatch_is_not_metered:
  assumes "budget_inv db"
    and "spend_limits provider_id db = Return (Some limits)"
    and "estimate_dispatch_cost request (fst limits) = Return estimated"
    and "existing_claims (dispatch_key_of run provider_id model_id (pq_retry_count request)) (bd_claims db) \<noteq> []"
    and "\<And>claim. claim \<in> set (existing_claims (dispatch_key_of run provider_id model_id (pq_retry_count request))
        (bd_claims db)) \<Longrightarrow> bl_status claim = ''reconciled''"
  shows "\<exists>receipt. claim_before_dispatch now run provider_id model_id request db = (Return (Some receipt), db)
     \<and> cr_claim_ids receipt \<noteq> [] \<and> reconcile later (cr_claim_ids receipt) cost db = db"
proof -
  obtain config account_class daily_limit monthly_limit where limits: "limits = (config, account_class, daily_limit, monthly_limit)"
    by (metis prod.exhaust)
  let ?existing = "existing_claims (dispatch_key_of run provider_id model_id (pq_retry_count request)) (bd_claims db)"
  have "reconcile_claim later cost (bl_claim_id claim) db = db" if "claim \<in> set ?existing" for claim
  proof -
    have "claim \<in> set (bd_claims db)" using that by (simp add: existing_claims_def)
    then have "row_get bl_claim_id (bl_claim_id claim) (bd_claims db) = Some claim"
      using assms(1) by (simp add: budget_inv_def row_get_unique)
    then show ?thesis using assms(5) [OF that] by (simp add: reconcile_claim_def)
  qed
  then have "set rows \<subseteq> set ?existing \<Longrightarrow> reconcile later (map bl_claim_id rows) cost db = db" for rows
    unfolding reconcile_def by (induction rows) simp_all
  then show ?thesis using assms(2-4) by (auto simp: claim_before_dispatch_def limits Let_def)
qed

text \<open>The dollar of the day is spent by one settled dispatch.\<close>

definition demo_spent :: budget_db where
  "demo_spent = demo_budget\<lparr>bd_counters := [demo_counter\<lparr>bc_reserved_cost_usd := 1\<rparr>],
     bd_claims := [reconciled_claim 0 1 (new_claim ''r1:openai:m:0'' demo_exec_run ''openai'' ''free'' demo_cost demo_counter)]\<rparr>"

lemma demo_spent_inv: "budget_inv demo_spent"
proof -
  have "round6 1 = 1" by (simp add: round6_def round_half_even_def)
  moreover have "claim_ok (reconciled_claim 0 1 (new_claim ''r1:openai:m:0'' demo_exec_run ''openai'' ''free'' demo_cost demo_counter))"
    by (simp add: claim_ok_def claim_charge_def reconciled_claim_def new_claim_def Let_def demo_cost_def)
  ultimately show ?thesis
    by (simp add: demo_spent_def budget_inv_def ledger_ok_def keys_distinct_def counter_ok_def scope_total_def
        scope_roundings_def claim_roundings_def claim_charge_def reconciled_claim_def new_claim_def Let_def)
qed

theorem repeated_dispatch_is_not_metered_witness:
  "list_all (exhausted demo_cost) (bd_counters demo_spent)
   \<and> (\<exists>receipt. claim_before_dispatch 0 demo_exec_run ''openai'' ''m'' demo_provider_request demo_spent
            = (Return (Some receipt), demo_spent)
        \<and> reconcile 9 (cr_claim_ids receipt) (Some 1) demo_spent = demo_spent)"
proof -
  have limits: "spend_limits ''openai'' demo_spent = spend_limits ''openai'' demo_budget"
    by (rule spend_limits_cong) (simp_all add: demo_spent_def)
  have existing: "existing_claims ''r1:openai:m:0'' (bd_claims demo_spent) = bd_claims demo_spent"
    "bd_claims demo_spent \<noteq> []" "\<And>claim. claim \<in> set (bd_claims demo_spent) \<Longrightarrow> bl_status claim = ''reconciled''"
    by (simp_all add: demo_spent_def existing_claims_def reconciled_claim_def new_claim_def demo_counter_def
        new_counter_def Let_def)
  have "list_all (exhausted demo_cost) (bd_counters demo_spent)"
    by (simp add: demo_spent_def exhausted_def demo_counter_def new_counter_def demo_cost_def)
  moreover have "\<exists>receipt. claim_before_dispatch 0 demo_exec_run ''openai'' ''m'' demo_provider_request demo_spent
      = (Return (Some receipt), demo_spent) \<and> cr_claim_ids receipt \<noteq> []
      \<and> reconcile 9 (cr_claim_ids receipt) (Some 1) demo_spent = demo_spent"
    by (rule repeated_dispatch_is_not_metered [OF demo_spent_inv limits [unfolded demo_limits]])
       (simp_all add: demo_estimate demo_key existing)
  ultimately show ?thesis by blast
qed

lemma demo_window:
  "\<exists>error. enforce_context_budget (demo_provider_request\<lparr>pq_context_window := Some 1\<rparr>) = Raise error"
proof -
  have "pq_execution_kind demo_provider_request = ''text''" "pq_input_payload demo_provider_request = []"
    by (simp_all add: demo_provider_request_def build_provider_request_def demo_exec_run_def)
  moreover have "0 \<le> estimate_provider_input_tokens [] variant" for variant
    by (simp add: estimate_provider_input_tokens_def Let_def)
  moreover have "0 \<le> estimate_output_token_budget [] ''text''"
    by (simp add: estimate_output_token_budget_def DEFAULT_OUTPUT_TOKEN_BUDGET_def Let_def)
  ultimately show ?thesis
    by (simp add: enforce_context_budget_def assess_context_budget_def fits_def estimated_total_tokens_def not_le
        add_pos_nonneg)
qed

text \<open>C12: A request that the context check refuses is charged all the same.  The reservation is made before the check,
  and the error the check raises carries no cost and no pricing evidence.  So although nothing is sent and the request is
  not retried, every open claim of the dispatch ends as reconciled, with the full reserved amount as its actual cost,
  and the counter it stands against keeps what it holds, up to the rounding to six digits that every write does.\<close>

theorem refused_context_is_charged:
  assumes "enforce_context_budget request = Raise error" and "env_budget_guard env"
    and "budget_inv (st_budget (es_now st))"
    and "call_provider env cfg run cand adapter f k request claim_ids last_try st = (step, last', st')"
    and "row_get bl_claim_id claim_id (bd_claims (st_budget (es_now st))) = Some claim"
    and "claim_id \<in> set claim_ids" and "bl_status claim \<noteq> ''reconciled''"
    and "row_get bc_scope_key (bl_scope_key claim) (bd_counters (st_budget (es_now st))) = Some counter"
  shows "es_sent st' = es_sent st \<and> step \<noteq> NextRetry
    \<and> (\<exists>claim'. row_get bl_claim_id claim_id (bd_claims (st_budget (es_now st'))) = Some claim'
         \<and> bl_status claim' = ''reconciled''
         \<and> bl_actual_cost_usd claim' = Some (round6 (bl_reserved_cost_usd claim)))
    \<and> (\<exists>counter'. row_get bc_scope_key (bl_scope_key claim) (bd_counters (st_budget (es_now st'))) = Some counter'
         \<and> bc_reserved_cost_usd counter' \<in> {bc_reserved_cost_usd counter, round6 (bc_reserved_cost_usd counter)})"
proof -
  have "claim_ids \<noteq> []" using assms(6) by auto
  note settles = refused_context_settles [OF assms(1,2) this assms(4)]
  then obtain later where after: "st_budget (es_now st') = reconcile later claim_ids None (st_budget (es_now st))" by blast
  show ?thesis
    using settles reconcile_unknown(1) [OF assms(3), of claim_id later claim_ids]
      reconcile_unknown(2) [OF assms(3,8), of later claim_ids] assms(5-7)
    by (simp add: after reconciled_claim_def)
qed

theorem refused_context_is_charged_witness:
  "\<exists>error claim ids last' st' step.
     enforce_context_budget (demo_provider_request\<lparr>pq_context_window := Some 1\<rparr>) = Raise error
   \<and> call_provider (demo_environment True) (settings_of_policy (run_policy demo_exec_run) []) demo_exec_run
       (demo_candidate ''fast'') demo_adapter False 0 (demo_provider_request\<lparr>pq_context_window := Some 1\<rparr>) ids
       first_attempt (demo_state (snd demo_claim_result)) = (step, last', st')
   \<and> bd_claims (snd demo_claim_result) = [claim] \<and> bl_reserved_cost_usd claim = demo_cost
   \<and> es_sent st' = []
   \<and> (\<exists>claim'. row_get bl_claim_id (bl_claim_id claim) (bd_claims (st_budget (es_now st'))) = Some claim'
        \<and> bl_actual_cost_usd claim' = Some (round6 demo_cost))"
proof -
  let ?request = "demo_provider_request\<lparr>pq_context_window := Some 1\<rparr>"
  obtain error where refused: "enforce_context_budget ?request = Raise error" using demo_window by blast
  obtain receipt c where claimed: "demo_claim_result =
      (Return (Some receipt), demo_budget\<lparr>bd_counters := [c],
         bd_claims := [new_claim ''r1:openai:m:0'' demo_exec_run ''openai'' ''free'' demo_cost c]\<rparr>)"
  proof (rule demo_claim_counters [of "''r1:openai:m:0''"], rule that)
    have none: "existing_claims key (bd_claims demo_budget) = []" for key
      by (simp add: existing_claims_def demo_budget_def)
    fix receipt c
    assume "claim_counters (seconds 1767182400) demo_exec_run ''openai'' ''free'' ''r1:openai:m:0'' 1 0
        (warning_ratio [(''providers'', JObj [(''openai'', JObj [(''account_class'', JStr ''free''), (''daily_usd'', JInt 1)])])])
        demo_cost demo_budget =
      (Return (Some receipt), demo_budget\<lparr>bd_counters := [c],
         bd_claims := [new_claim ''r1:openai:m:0'' demo_exec_run ''openai'' ''free'' demo_cost c]\<rparr>)"
    then show "demo_claim_result = (Return (Some receipt), demo_budget\<lparr>bd_counters := [c],
         bd_claims := [new_claim ''r1:openai:m:0'' demo_exec_run ''openai'' ''free'' demo_cost c]\<rparr>)"
      by (simp add: demo_claim_result_def claim_before_dispatch_def demo_limits demo_estimate demo_key none)
  qed
  define claim where "claim = new_claim ''r1:openai:m:0'' demo_exec_run ''openai'' ''free'' demo_cost c"
  have claim: "bl_reserved_cost_usd claim = demo_cost" "bl_status claim \<noteq> ''reconciled''" "bl_scope_key claim = bc_scope_key c"
    by (simp_all add: claim_def new_claim_def Let_def)
  have tables: "bd_claims (snd demo_claim_result) = [claim]" "bd_counters (snd demo_claim_result) = [c]"
    by (simp_all add: claimed claim_def)
  have guard: "env_budget_guard (demo_environment True)" by (simp add: demo_environment_def)
  have inv: "budget_inv (st_budget (es_now (demo_state (snd demo_claim_result))))"
    using claim_keeps_inv [OF demo_budget_inv(1)] by (simp add: demo_state_def demo_stored_def demo_claim_result_def)
  obtain step last' st' where call: "call_provider (demo_environment True) (settings_of_policy (run_policy demo_exec_run) [])
      demo_exec_run (demo_candidate ''fast'') demo_adapter False 0 ?request [bl_claim_id claim] first_attempt
      (demo_state (snd demo_claim_result)) = (step, last', st')" by (metis prod.exhaust)
  have rows: "row_get bl_claim_id (bl_claim_id claim) (bd_claims (st_budget (es_now (demo_state (snd demo_claim_result))))) = Some claim"
    "row_get bc_scope_key (bl_scope_key claim) (bd_counters (st_budget (es_now (demo_state (snd demo_claim_result))))) = Some c"
    by (simp_all add: demo_state_def demo_stored_def tables row_get_def claim(3))
  have "bl_claim_id claim \<in> set [bl_claim_id claim]" by simp
  from refused_context_is_charged [OF refused guard inv call rows(1) this claim(2) rows(2)]
  have "es_sent st' = []" "\<exists>claim'. row_get bl_claim_id (bl_claim_id claim) (bd_claims (st_budget (es_now st'))) = Some claim'
        \<and> bl_actual_cost_usd claim' = Some (round6 demo_cost)"
    by (auto simp: demo_state_def claim(1))
  then show ?thesis using refused call tables(1) claim(1) by blast
qed

end
