(* ===== verification/RequestProperties.thy ===== *)
theory RequestProperties
  imports RunProperties
begin

section \<open>Properties of requests, replays and public reads\<close>

text \<open>
  Idempotent creation and replay, the fingerprint's independence of key order, cancellation, results,
  the drain loop, the wake-up queue, the diagnostics summary and the public projections.
\<close>

subsection \<open>Idempotency\<close>

lemma find_append_fresh: "find P xs = None \<Longrightarrow> find P (xs @ [y]) = (if P y then Some y else None)"
  by (induction xs) (auto split: if_splits)

lemma created_is_found:
  assumes ok: "create_run now db_now c rows = Return (run, rows')" and key: "c_idempotency_key c = Some key"
  shows "get_run_by_idempotency (c_site_id c) key rows' = Some run"
proof -
  note r = create_run_Return [OF ok]
  show ?thesis
    using create_run_key_fresh [OF ok key] r key
    unfolding get_run_by_idempotency_def by (simp add: find_append_fresh)
qed

lemma stored_version2: "py_get (c_policy_json c) ''request_identity_version'' = JInt 2 \<Longrightarrow>
    py_eq (JInt 2) (py_get (run_policy (new_run_record now db_now c)) ''request_identity_version'')"
  by (simp add: run_policy_def dict_or_empty_def py_number_def)

text \<open>C13: Creating a run is idempotent: asking again with the same site, key and fingerprint returns the
  very run that was created and leaves the table alone; the same key with another fingerprint is a
  conflict; and creating a second run under the same key is refused by the store.\<close>

theorem created_run_is_replayed:
  assumes "create_run now db_now c rows = Return (run, rows')"
    and "c_idempotency_key c = Some key" and "key \<noteq> []"
    and "py_get (c_policy_json c) ''request_identity_version'' = JInt 2"
  shows "get_idempotent_replay routing (c_site_id c) (Some key) fingerprint request rows' =
      (if fingerprint = c_request_fingerprint c then Return (Some run, rows')
       else Raise (RuntimeIdempotencyConflictError (c_site_id c) key))
    \<and> create_run later db_later (c'\<lparr>c_site_id := c_site_id c, c_idempotency_key := Some key\<rparr>) rows'
        = Raise IntegrityError"
  using created_is_found [OF assms(1,2)] create_run_Return [OF assms(1)] stored_version2 [OF assms(4)] assms(3)
  by (auto simp: get_idempotent_replay_def create_run_def Let_def split: option.split)

lemma demo_created: "create_run 1 1 (demo_command ''r1'') [] = Return (demo_run, [demo_run])"
  by (simp add: create_run_def demo_run_def demo_command_def get_run_row_def row_get_def
      get_run_by_idempotency_def Let_def)

theorem created_run_is_replayed_witness:
  "\<exists>rows'. create_run 1 1 (demo_command ''r1'') [] = Return (demo_run, rows')
     \<and> get_idempotent_replay (\<lambda>_. None) ''s1'' (Some ''k1'') ''f1'' None rows' = Return (Some demo_run, rows')"
proof -
  note ok = demo_created
  have "get_idempotent_replay (\<lambda>_. None) ''s1'' (Some ''k1'') ''f1'' None [demo_run] = Return (Some demo_run, [demo_run])"
    using created_run_is_replayed [OF ok, of "''k1''" "\<lambda>_. None" "''f1''" None]
    by (simp add: demo_command_def py_get_def)
  with ok show ?thesis by blast
qed

lemma routing_evidence_lookup:
  "add_routing_evidence ks policy legacy = Some legacy' \<Longrightarrow>
     set ks \<subseteq> dom (map_of policy)
     \<and> map_of legacy' = (\<lambda>k. if k \<in> set ks then map_of policy k else map_of legacy k)"
proof (induction ks arbitrary: legacy)
  case (Cons k ks)
  then obtain v where v: "map_of policy k = Some v" "add_routing_evidence ks policy (py_set legacy k v) = Some legacy'"
    by (auto split: option.splits)
  from Cons.IH [OF v(2)] v(1) show ?case by (auto simp: map_of_py_set)
qed simp

lemma replay_cases:
  assumes "get_idempotent_replay routing site_id (Some key) fingerprint request rows = Return (Some run, rows')"
  obtains (current) "get_run_by_idempotency site_id key rows = Some run" "rows' = rows"
      "r_request_fingerprint run = Some fingerprint"
  | (legacy) r q where "get_run_by_idempotency site_id key rows = Some r" "request = Some q"
      "\<not> py_eq (JInt 2) (py_get (run_policy r) ''request_identity_version'')" "legacy_request_matches routing r q"
      "run = r\<lparr>r_request_fingerprint := Some fingerprint,
         r_policy_json := Some (JObj (py_set (run_policy r) ''request_identity_version'' (JInt 2)))\<rparr>"
      "rows' = save_run run rows"
proof -
  from assms have ne: "key \<noteq> []" by (auto simp: get_idempotent_replay_def)
  with assms obtain r where r: "get_run_by_idempotency site_id key rows = Some r"
    by (auto simp: get_idempotent_replay_def split: option.splits)
  show thesis
  proof (cases "request = None \<or> py_eq (JInt 2) (py_get (run_policy r) ''request_identity_version'')")
    case True
    with assms ne r have "(if r_request_fingerprint r \<noteq> Some fingerprint then Raise (RuntimeIdempotencyConflictError site_id key)
        else Return (Some r, rows)) = Return (Some run, rows')"
      by (cases request) (simp_all add: get_idempotent_replay_def Let_def del: py_eq.simps)
    with r show ?thesis by (intro current) (auto split: if_splits)
  next
    case False
    then obtain q where q: "request = Some q" by auto
    with False assms ne r have "legacy_request_matches routing r q
        \<and> (let r' = r\<lparr>r_request_fingerprint := Some fingerprint,
              r_policy_json := Some (JObj (py_set (run_policy r) ''request_identity_version'' (JInt 2)))\<rparr>
            in run = r' \<and> rows' = save_run r' rows)"
      by (simp add: get_idempotent_replay_def Let_def del: py_eq.simps split: if_splits) blast
    with False q show ?thesis by (intro legacy [OF r q]) (simp_all add: Let_def del: py_eq.simps)
  qed
qed

text \<open>C14: A replay hands out only the run that was asked for.  The stored run has the site and the key of the request,
  and either it carries the request's fingerprint and nothing changes, or it was stored before identity version 2.
  Then its contract holds the request's storage mode, timeout, retries, retention and task backend, it has the
  request's canonical run id, the request asks for no callback, and the fingerprint it was stored under is the old
  hash of this very request, taken with the profile's default policy and the run's own routing evidence.  Only that
  run is then rewritten, and only in its fingerprint and identity version.\<close>

theorem replay_is_confined:
  assumes "get_idempotent_replay routing site_id (Some key) fingerprint request rows = Return (Some run, rows')"
  shows "\<exists>r\<in>set rows. r_site_id r = site_id \<and> r_idempotency_key r = Some key
    \<and> (run = r \<and> rows' = rows \<and> r_request_fingerprint r = Some fingerprint
       \<or> (\<exists>q contract default_policy legacy_policy. request = Some q
            \<and> \<not> py_eq (JInt 2) (py_get (run_policy r) ''request_identity_version'')
            \<and> py_get (run_policy r) ''execution_contract'' = JObj contract
            \<and> py_eq (JStr (q_storage_mode q)) (py_get contract ''storage_mode'')
            \<and> py_eq (JInt (q_timeout_seconds q)) (py_get contract ''timeout_seconds'')
            \<and> py_eq (JInt (q_retry_max q)) (py_get contract ''retry_max'')
            \<and> py_eq (JInt (q_retention_ttl q)) (py_get contract ''retention_ttl'')
            \<and> py_eq (JObj (q_task_backend q)) (py_get contract ''task_backend'')
            \<and> or_empty (r_canonical_run_id r) = q_canonical_run_id q \<and> q_callback_url q = []
            \<and> routing (q_profile_id q) = Some default_policy
            \<and> (\<forall>k. map_of legacy_policy k =
                 (if k \<in> {''routing_revision'', ''routing_candidates'', ''routing_explainability''}
                  then map_of (run_policy r) k else map_of (dict_merge default_policy (q_policy q)) k))
            \<and> r_request_fingerprint r = Some (build_request_fingerprint q legacy_policy False)
            \<and> run = r\<lparr>r_request_fingerprint := Some fingerprint,
                       r_policy_json := Some (JObj (py_set (run_policy r) ''request_identity_version'' (JInt 2)))\<rparr>
            \<and> rows' = save_run run rows))"
  using assms
proof (cases rule: replay_cases)
  case current
  then show ?thesis using get_run_by_idempotency_Some [OF current(1)] by blast
next
  case (legacy r q)
  note found = get_run_by_idempotency_Some [OF legacy(1)]
  obtain contract where contract: "py_get (run_policy r) ''execution_contract'' = JObj contract"
    using legacy(4) by (auto simp: legacy_request_matches_def Let_def split: json.splits)
  then obtain default_policy legacy_policy where checked:
    "\<not> list_ex (\<lambda>(k, v). \<not> py_eq v (py_get contract k)) (request_controls q)"
    "or_empty (r_canonical_run_id r) = q_canonical_run_id q" "q_callback_url q = []"
    "routing (q_profile_id q) = Some default_policy"
    "add_routing_evidence [''routing_revision'', ''routing_candidates'', ''routing_explainability'']
       (run_policy r) (dict_merge default_policy (q_policy q)) = Some legacy_policy"
    "r_request_fingerprint r = Some (build_request_fingerprint q legacy_policy False)"
    using legacy(4) by (auto simp: legacy_request_matches_def Let_def split: if_splits option.splits)
  have controls: "py_eq (JStr (q_storage_mode q)) (py_get contract ''storage_mode'')"
    "py_eq (JInt (q_timeout_seconds q)) (py_get contract ''timeout_seconds'')"
    "py_eq (JInt (q_retry_max q)) (py_get contract ''retry_max'')"
    "py_eq (JInt (q_retention_ttl q)) (py_get contract ''retention_ttl'')"
    "py_eq (JObj (q_task_backend q)) (py_get contract ''task_backend'')"
    using checked(1) by (simp_all add: request_controls_def del: py_eq.simps)
  have "map_of legacy_policy k = (if k \<in> {''routing_revision'', ''routing_candidates'', ''routing_explainability''}
      then map_of (run_policy r) k else map_of (dict_merge default_policy (q_policy q)) k)" for k
    using routing_evidence_lookup [OF checked(5)] by (simp add: insert_commute)
  then show ?thesis using found legacy(2,3,5,6) contract controls checked(2-4,6)
    by (intro bexI [of _ r] conjI disjI2 exI [of _ q] exI [of _ contract] exI [of _ default_policy]
          exI [of _ legacy_policy] allI) blast+
qed

text \<open>A run of the first identity version and a request that asks for it again.\<close>

definition demo_request :: runtime_request where
  "demo_request = \<lparr>q_site_id = ''s1'', q_ability_name = ''a'', q_channel = ''api'', q_execution_kind = ''text'',
     q_profile_id = ''p'', q_input_payload = [], q_canonical_run_id = [], q_ability_family = ''text'', q_skill_id = [],
     q_workflow_id = [], q_contract_version = [], q_execution_tier = ''cloud'',
     q_execution_pattern = ''whole_run_offload'', q_data_classification = ''public'', q_storage_mode = ''result_only'',
     q_timeout_seconds = 30, q_retry_max = 0, q_retention_ttl = 60, q_callback_url = [], q_task_backend = [],
     q_policy = [], q_idempotency_key = Some ''k1'', q_trace_id = None\<rparr>"

definition demo_evidence :: json_dict where
  "demo_evidence = [(''routing_revision'', JInt 1), (''routing_candidates'', JList []), (''routing_explainability'', JNull)]"

definition demo_legacy_run :: run_record where
  "demo_legacy_run = demo_run\<lparr>r_policy_json := Some (JObj ((''execution_contract'', JObj (request_controls demo_request)) # demo_evidence)),
     r_request_fingerprint := Some (build_request_fingerprint demo_request demo_evidence False)\<rparr>"

lemma demo_legacy_matches: "legacy_request_matches (\<lambda>_. Some []) demo_legacy_run demo_request"
  by (simp add: legacy_request_matches_def demo_legacy_run_def run_policy_def dict_or_empty_def py_get_def
      request_controls_def py_number_def demo_evidence_def dict_merge_def or_empty_def Let_def)
     (simp add: demo_request_def demo_run_def new_run_record_def demo_command_def none_if_empty_def)

theorem replay_is_confined_witness:
  "\<exists>run rows'. get_idempotent_replay (\<lambda>_. Some []) ''s1'' (Some ''k1'') ''f2'' (Some demo_request) [demo_legacy_run]
       = Return (Some run, rows')
     \<and> (\<exists>r\<in>set [demo_legacy_run]. r_site_id r = ''s1'' \<and> r_idempotency_key r = Some ''k1'')"
proof -
  have found: "get_run_by_idempotency ''s1'' ''k1'' [demo_legacy_run] = Some demo_legacy_run"
    by (simp add: get_run_by_idempotency_def demo_legacy_run_def)
  have old: "\<not> py_eq (JInt 2) (py_get (run_policy demo_legacy_run) ''request_identity_version'')"
    by (simp add: demo_legacy_run_def run_policy_def dict_or_empty_def py_get_def demo_evidence_def py_number_def)
  obtain run rows' where replay: "get_idempotent_replay (\<lambda>_. Some []) ''s1'' (Some ''k1'') ''f2'' (Some demo_request)
      [demo_legacy_run] = Return (Some run, rows')"
    using found old demo_legacy_matches by (simp add: get_idempotent_replay_def Let_def)
  from replay_is_confined [OF replay] replay show ?thesis by blast
qed

lemma dumps_obj_cong:
  "map (map_prod id json_dumps) a = map (map_prod id json_dumps) b \<Longrightarrow> json_dumps (JObj a) = json_dumps (JObj b)"
  by simp

text \<open>The request fingerprint does not depend on the order in which a client or a JSON parser lists
  the keys of the input, of the request policy or of the merged policy.\<close>

theorem fingerprint_ignores_key_order:
  assumes "distinct (map fst input)" "mset input = mset input'"
    and "distinct (map fst policy)" "mset policy = mset policy'"
    and "distinct (map fst merged)" "mset merged = mset merged'"
  shows "build_request_fingerprint (q\<lparr>q_input_payload := input, q_policy := policy\<rparr>) merged client_identity
    = build_request_fingerprint (q\<lparr>q_input_payload := input', q_policy := policy'\<rparr>) merged' client_identity"
proof -
  have "json_dumps (JObj input) = json_dumps (JObj input')" "json_dumps (JObj policy) = json_dumps (JObj policy')"
    "json_dumps (JObj merged) = json_dumps (JObj merged')"
    using assms by (auto intro: json_text_key_order simp del: json_text.simps)
  then have "json_dumps (canonical_request_payload (q\<lparr>q_input_payload := input, q_policy := policy\<rparr>) merged client_identity)
      = json_dumps (canonical_request_payload (q\<lparr>q_input_payload := input', q_policy := policy'\<rparr>) merged' client_identity)"
    unfolding canonical_request_payload_def
    by (intro dumps_obj_cong) (simp add: identity_controls_def del: json_text.simps)
  then show ?thesis by (simp only: build_request_fingerprint_def)
qed

theorem fingerprint_ignores_key_order_witness:
  "\<forall>q. build_request_fingerprint (q\<lparr>q_input_payload := [(''a'', JInt 1), (''b'', JInt 2)], q_policy := []\<rparr>) [] True
    = build_request_fingerprint (q\<lparr>q_input_payload := [(''b'', JInt 2), (''a'', JInt 1)], q_policy := []\<rparr>) [] True"
  by (intro allI fingerprint_ignores_key_order) simp_all

end
