(* ===== verification/ServiceProperties.thy ===== *)
theory ServiceProperties
  imports RequestProperties
begin

section \<open>Properties of the run service and of the shared runtime\<close>

text \<open>
  Cancellation, public results, the drain loop and the invariant of the whole runtime.
\<close>

subsection \<open>Cancellation\<close>

lemma get_saved:
  assumes "get_run_row run_id rows = Some r" and "r_run_id r' = run_id"
  shows "get_run_row run_id (save_run r' rows) = Some r'"
  using assms row_get_put_same [of r_run_id r' rows] by (simp add: get_run_row_def save_run_def)

lemma save_frame: "q \<in> set rows \<Longrightarrow> r_run_id q \<noteq> r_run_id r' \<Longrightarrow> q \<in> set (save_run r' rows)"
  by (force simp: save_run_def row_put_def in_rows_update)

lemma cancel_cases:
  assumes "cancel_run_tx now run_id site_id rows = Return rows'"
  obtains run where "get_run_row run_id rows = Some run" "or_empty site_id = [] \<or> r_site_id run = or_empty site_id"
    "supports_public_cancel (r_execution_pattern run) (run_policy run)"
    "(r_status run = ''queued'' \<and> rows' = save_run (mark_run_canceled now ''run canceled before worker claim'' run) rows)
     \<or> (r_status run = ''running'' \<and> rows' = save_run (request_run_cancel now run) rows)
     \<or> (r_status run = ''canceled'' \<and> rows' = rows)"
  using assms by (auto simp: cancel_run_tx_def get_site_scoped_run_def split: option.splits if_splits)

lemma canceled_status [simp]:
  "r_status (mark_run_canceled t m r) = ''canceled''" "r_result_json (mark_run_canceled t m r) = r_result_json r"
  by (simp_all add: mark_run_canceled_def Let_def)

lemma requested_status [simp]:
  "r_status (request_run_cancel t r) = r_status r" "r_cancel_requested_at (request_run_cancel t r) \<noteq> None"
  "r_result_json (request_run_cancel t r) = r_result_json r"
  by (simp_all add: request_run_cancel_def)

lemma claim_needs_queued:
  assumes "table_wf rows" "run_id \<noteq> []" "get_run_row run_id rows = Some r" "r_status r \<noteq> ''queued''"
  shows "fst (claim_run_if_queued t t' run_id rows) = None"
proof -
  have "\<not> run_claim.claim_wins (t, t') run_id rows"
  proof
    assume "run_claim.claim_wins (t, t') run_id rows"
    then obtain q where q: "q \<in> set rows" "r_run_id q = run_id" "queued_claimable t q"
      by (auto simp: run_claim.claim_wins_def run_claim_guard_def)
    then have "q = r" using row_get_unique [OF table_wf_distinct [OF assms(1)] q(1)] assms(3) by (simp add: get_run_row_def)
    with q(3) assms(4) show False by (simp add: queued_claimable_def)
  qed
  then show ?thesis using assms by (simp add: claim_run_if_queued_cases table_wf_distinct)
qed



subsection \<open>Public results\<close>

lemma result_cases:
  assumes "get_run_result projector float_text now run_id site_id calls rows = Return payload"
  obtains run result where "get_run_row run_id rows = Some run"
    "or_empty site_id = [] \<or> r_site_id run = or_empty site_id"
    "\<not> is_run_result_expired now run" "r_result_json run \<noteq> None"
    "build_analysis_result_envelope (projector run (dict_or_empty (r_result_json run)))
       (if r_ability_family run = [] then ''text'' else r_ability_family run)
       (r_ability_name run) (dict_or_empty (r_input_json run)) = Some result"
    "map_of (as_dict payload) ''run_id'' = Some (JStr (r_run_id run))"
    "map_of (as_dict payload) ''status'' = Some (JStr (r_status run))"
    "map_of (as_dict payload) ''result'' = Some (JObj result)"
  using assms
  by (auto simp: get_run_result_def get_site_scoped_run_def Let_def as_dict_def split: option.splits if_splits)


definition demo_done_run :: run_record where
  "demo_done_run = apply_finish (Succeed [] ''p'' ''m'' ''i'' False) 9 (start_processing 5 demo_run)"

lemma demo_done_table: "table_wf [demo_done_run]"
proof (rule single_table_wf)
  have "run_wf (start_processing 5 demo_run)"
    by (rule start_processing_wf [OF demo_run_wf, of 5]) (simp add: queued_claimable_def worker_eligible_def)
  then show "run_wf demo_done_run"
    unfolding demo_done_run_def by (rule finish_wf) simp
  show "r_run_id demo_done_run \<noteq> []" by (simp only: demo_done_run_def finish_frame) (simp add: start_processing_def)
qed

lemma demo_done_fields [simp]:
  "r_run_id demo_done_run = ''r1''" "r_site_id demo_done_run = ''s1''" "r_result_json demo_done_run = Some (JObj [])"
  "r_result_purged_at demo_done_run = None" "r_ability_family demo_done_run = ''text''"
  by (simp_all add: demo_done_run_def mark_run_succeeded_def Let_def start_processing_def
      schedule_callback_delivery_def apply_terminal_input_storage_policy_def)
     (simp_all add: demo_run_def new_run_record_def demo_command_def)

lemma demo_done_deadline: "r_retention_expires_at demo_done_run = Some (9 + seconds 60)"
proof -
  have "r_retention_expires_at demo_done_run = retention_deadline demo_run 9"
    using finish_shape [of "Succeed [] ''p'' ''m'' ''i'' False" "start_processing 5 demo_run" 9]
    by (simp add: demo_done_run_def finished_like_def retention_deadline_def run_policy_def start_processing_def)
  also have "\<dots> = Some (9 + seconds 60)"
    by (simp add: retention_deadline_def demo_run_def new_run_record_def demo_command_def run_policy_def
        dict_or_empty_def py_get_def Let_def coerce_int_def coerce_int_default_def)
  finally show ?thesis .
qed


subsection \<open>The drain loop\<close>

lemma process_single_None:
  "process_single_queued_run limit executor clk signal rows = (None, rows')
    \<longleftrightarrow> claim_for_worker limit clk signal rows = (None, rows')"
  by (auto simp: process_single_queued_run_def split: prod.splits option.splits)

lemma process_loop_bound:
  "process_queued_loop n i timeout limit executor clks signals rows = (results, rows') \<Longrightarrow>
     length results \<le> n \<and> (length results < n \<longrightarrow>
       (\<exists>rows1. claim_for_worker limit (clks (i + length results))
          (signals (i + length results) (if results = [] then timeout else 0)) rows1 = (None, rows')))"
proof (induction n i timeout limit executor clks signals rows arbitrary: results rows' rule: process_queued_loop.induct)
  case (2 n i timeout limit executor clks signals rows)
  show ?case
  proof (cases "process_single_queued_run limit executor (clks i) (signals i timeout) rows")
    case (Pair result rows1)
    show ?thesis
    proof (cases result)
      case None
      with Pair 2(2) have "results = []" "rows' = rows1" by auto
      with Pair None show ?thesis by (auto simp: process_single_None)
    next
      case (Some r)
      obtain results' rows'' where rest:
        "process_queued_loop n (Suc i) 0 limit executor clks signals rows1 = (results', rows'')"
        by fastforce
      with Pair Some 2(2) have eq: "results = r # results'" "rows' = rows''" by auto
      from 2(1) [OF Pair [symmetric] Some rest] eq show ?thesis by (auto split: if_splits)
    qed
  qed
qed simp

text \<open>One drain processes at least one and at most the requested number of runs (one, if the request
  is not positive), and stops before that only when a worker's claim found nothing; only its first wait
  for a signal may block, and the table it leaves is the one that last claim saw.\<close>

theorem drain_is_bounded:
  "case process_queued_runs max_runs timeout_seconds limit executor clks signals rows of (results, rows') \<Rightarrow>
     int (length results) \<le> max 1 max_runs
     \<and> (int (length results) < max 1 max_runs \<longrightarrow>
          (\<exists>rows1. claim_for_worker limit (clks (length results))
             (signals (length results) (if results = [] then max 0 timeout_seconds else 0)) rows1 = (None, rows')))"
proof -
  obtain results rows' where r:
    "process_queued_loop (nat (max 1 max_runs)) 0 (max 0 timeout_seconds) limit executor clks signals rows = (results, rows')"
    by fastforce
  from process_loop_bound [OF r] show ?thesis
    unfolding process_queued_runs_def r by (auto simp: nat_less_iff le_nat_iff zless_nat_eq_int_zless)
qed

theorem drain_is_bounded_witness:
  "process_queued_runs 2 0 1 (\<lambda>r rows. (r, rows)) (\<lambda>i j. 5) (\<lambda>i t. None) [] = ([], [])
    \<and> (\<exists>rows1. claim_for_worker 1 (\<lambda>j. 5) None rows1 = (None, []))"
proof -
  have run: "process_queued_runs 2 0 1 (\<lambda>r rows. (r, rows)) (\<lambda>i j. 5) (\<lambda>i t. None) [] = ([], [])"
    by (simp add: process_queued_runs_def numeral_2_eq_2 process_single_queued_run_def claim_for_worker_def
        claim_next_queued_run_def oldest_queued_run_def)
  note bounded = drain_is_bounded [where max_runs=2 and timeout_seconds=0 and limit=1 and rows="[]" and
      executor="\<lambda>r rows. (r, rows)" and clks="\<lambda>i j. 5" and signals="\<lambda>i t. None"]
  from bounded run show ?thesis
    by simp
qed

text \<open>A runnable run keeps a drain from returning empty-handed.\<close>

lemma claim_for_worker_None:
  assumes wf: "table_wf rows" and none: "claim_for_worker limit clk signal rows = (None, rows')"
  shows "rows' = rows \<and> (\<forall>q\<in>set rows. r_status q = ''queued'' \<longrightarrow> \<not> runnable_filter (Some limit) (clk 2) rows q)"
proof -
  have next_none: "rows1 = rows2 \<and> (\<forall>q\<in>set rows1. r_status q = ''queued'' \<longrightarrow> \<not> runnable_filter (Some limit) (clk 2) rows1 q)"
    if "table_wf rows1" "claim_next_queued_run (Some limit) (clk 2) (clk 3) rows1 = (None, rows2)" for rows1 rows2
    using that claim_next_queued_run_cases [OF that(1), of "Some limit" "clk 2" "clk 3"]
    by (auto simp: oldest_queued_run_None split: option.splits)
  show ?thesis
    using claim_for_worker_route [of limit clk signal rows]
  proof
    assume "claim_for_worker limit clk signal rows = claim_next_queued_run (Some limit) (clk 2) (clk 3) rows"
    with none next_none [OF wf] show ?thesis by auto
  next
    assume route: "signal \<noteq> None \<and> or_empty signal \<noteq> [] \<and>
      (\<forall>candidate. get_run_row (or_empty signal) rows = Some candidate \<longrightarrow>
         \<not> (r_execution_kind candidate = ''media_derivative''
            \<and> limit \<le> count_running_media_derivative_runs (r_site_id candidate) rows)) \<and>
      claim_for_worker limit clk signal rows =
        (case claim_run_if_queued (clk 0) (clk 1) (or_empty signal) rows of
           (Some r, rows') \<Rightarrow> (Some r, rows')
         | (None, rows') \<Rightarrow> claim_next_queued_run (Some limit) (clk 2) (clk 3) rows')"
    obtain res rows1 where c: "claim_run_if_queued (clk 0) (clk 1) (or_empty signal) rows = (res, rows1)" by fastforce
    from route none c have "res = None" by (cases res) auto
    with c claim_run_if_queued_loses [OF wf] route have "rows1 = rows" by auto
    have "claim_for_worker limit clk signal rows = claim_next_queued_run (Some limit) (clk 2) (clk 3) rows"
      using route c \<open>res = None\<close> \<open>rows1 = rows\<close> by (simp del: numeral_2_eq_2 One_nat_def)
    with none have "claim_next_queued_run (Some limit) (clk 2) (clk 3) rows = (None, rows')" by (simp only:)
    from next_none [OF wf this] show ?thesis by blast
  qed
qed

text \<open>C16: Whatever the wake-up queue says, a worker that asks for work while a runnable queued run is
  stored gets a run: signals are hints and a lost signal strands nothing.\<close>

theorem runnable_run_is_not_stranded:
  assumes "table_wf rows" and "q \<in> set rows" and "r_status q = ''queued''"
    and "runnable_filter (Some limit) (clks 0 2) rows q"
  shows "fst (process_queued_runs max_runs timeout_seconds limit executor clks signals rows) \<noteq> []"
proof
  assume empty: "fst (process_queued_runs max_runs timeout_seconds limit executor clks signals rows) = []"
  have "nat (max 1 max_runs) = Suc (nat (max 1 max_runs) - 1)" by simp
  then obtain n where n: "nat (max 1 max_runs) = Suc n" by blast
  obtain res rows1 where c: "claim_for_worker limit (clks 0) (signals 0 (max 0 timeout_seconds)) rows = (res, rows1)"
    by fastforce
  have "res = None"
    using empty c
    by (cases res) (auto simp: process_queued_runs_def n process_single_queued_run_def split: prod.splits)
  with claim_for_worker_None [OF assms(1)] c assms(2-4) show False by blast
qed

theorem runnable_run_is_not_stranded_witness:
  "fst (process_queued_runs 3 0 1 (\<lambda>r rows. (r, rows)) (\<lambda>i j. 5) (\<lambda>i t. None) [demo_run]) \<noteq> []"
  by (rule runnable_run_is_not_stranded [OF demo_table_wf, of demo_run])
     (simp_all add: runnable_filter_def worker_eligible_def)

subsection \<open>The whole runtime\<close>



end
