(* ===== verification/CallbackProperties.thy ===== *)
theory CallbackProperties
  imports RunProperties
begin

section \<open>Properties of callback delivery\<close>

text \<open>
  Who may send a callback and where to, how often it is retried, what a dispatch lease protects, and
  two behaviours the code does not mean to have: older runs without a callback hide due callbacks, and
  a dispatcher that reports after its lease was taken over can undo a delivery.
\<close>

subsection \<open>Example rows\<close>

definition demo_callback_run :: run_record where
  "demo_callback_run = apply_finish (Cancel ''stop'') 9 (start_processing 5
     (new_run_record 1 1 ((demo_command ''r2'')\<lparr>c_policy_json :=
        [(''runtime_callback'', JObj [(''source'', JStr ''site_registered''), (''callback_url'', JStr ''u''),
           (''key_id'', JStr ''k''), (''registration_id'', JStr ''g'')])]\<rparr>)))"

lemma demo_callback_table: "table_wf [demo_callback_run]"
proof (rule single_table_wf)
  let ?r = "new_run_record 1 1 ((demo_command ''r2'')\<lparr>c_policy_json :=
        [(''runtime_callback'', JObj [(''source'', JStr ''site_registered''), (''callback_url'', JStr ''u''),
           (''key_id'', JStr ''k''), (''registration_id'', JStr ''g'')])]\<rparr>)"
  have st: "r_status ?r = ''queued''" "r_worker_eligible_at ?r = None"
    by (simp_all add: new_run_record_def demo_command_def)
  have "run_wf ?r" by (rule new_run_wf) (simp add: demo_command_def)
  then have "run_wf (start_processing 5 ?r)"
    by (rule start_processing_wf [of _ 5]) (simp only: queued_claimable_def worker_eligible_def st option.case simp_thms)
  then show "run_wf demo_callback_run"
    unfolding demo_callback_run_def by (rule finish_wf) (simp add: demo_command_def)
  show "r_run_id demo_callback_run \<noteq> []"
    by (simp only: demo_callback_run_def finish_frame start_processing_frame) (simp add: demo_command_def)
qed

lemma demo_callback_target:
  "repo_has_callback_target [(''runtime_callback'', JObj [(''source'', JStr ''site_registered''), (''callback_url'', JStr ''u''),
           (''key_id'', JStr ''k''), (''registration_id'', JStr ''g'')])]"
  by (simp add: repo_has_callback_target_def py_get_def str_or_empty_def py_strip_def py_space_def py_str_def)

lemma demo_callback_policy:
  "run_policy demo_callback_run = [(''runtime_callback'', JObj [(''source'', JStr ''site_registered''), (''callback_url'', JStr ''u''),
           (''key_id'', JStr ''k''), (''registration_id'', JStr ''g'')])]"
  by (simp add: demo_callback_run_def mark_run_canceled_def Let_def start_processing_def
      schedule_callback_delivery_def apply_terminal_input_storage_policy_def run_policy_def dict_or_empty_def new_run_record_def)

lemma demo_callback_fields [simp]:
  "r_run_id demo_callback_run = ''r2''" "r_site_id demo_callback_run = ''s1''"
  "r_finished_at demo_callback_run = Some 9"
  by (simp_all only: demo_callback_run_def finish_frame start_processing_frame)
     (simp_all add: demo_command_def new_run_record_def mark_run_canceled_def Let_def)

lemma demo_callback_pending [simp]:
  "r_callback_status demo_callback_run = RUN_CALLBACK_STATUS_PENDING"
  "r_callback_next_attempt_at demo_callback_run = Some 9"
proof -
  let ?run = "start_processing 5 (new_run_record 1 1 ((demo_command ''r2'')\<lparr>c_policy_json :=
        [(''runtime_callback'', JObj [(''source'', JStr ''site_registered''), (''callback_url'', JStr ''u''),
           (''key_id'', JStr ''k''), (''registration_id'', JStr ''g'')])]\<rparr>))"
  have "finished_like ?run 9 demo_callback_run"
    unfolding demo_callback_run_def by (rule finish_shape) simp
  moreover have "repo_has_callback_target (run_policy ?run)"
    using demo_callback_target by (simp add: run_policy_def start_processing_def dict_or_empty_def)
  ultimately show "r_callback_status demo_callback_run = RUN_CALLBACK_STATUS_PENDING"
    "r_callback_next_attempt_at demo_callback_run = Some 9"
    by (simp_all add: finished_like_def)
qed

subsection \<open>Claims\<close>

lemma validate_request:
  assumes "validate_callback_claim lib settings sites artifacts clk run = Return (Inr req)"
  shows "\<exists>site registered. row_get s_site_id (r_site_id run) sites = Some site
    \<and> resolve_registered_callback_config lib settings site = Return registered
    \<and> rc_enabled registered \<and> rc_registration_id registered \<noteq> []
    \<and> cr_run_id req = r_run_id run \<and> cr_site_id req = r_site_id run
    \<and> cr_callback_url req = rc_callback_url registered \<and> cr_callback_url req \<noteq> []
    \<and> cr_key_id req = rc_key_id registered \<and> cr_secret req = rc_secret registered \<and> cr_secret req \<noteq> []
    \<and> cr_callback_id req = delivery_callback_id (rc_registration_id registered) (r_run_id run)"
  using assms unfolding validate_callback_claim_def Let_def
  by (auto simp: and_then_Return split: if_splits option.splits)

lemma claimed_row:
  assumes "get_run_row run_id rows = Some r" "callback_claimable r"
  shows "get_run_row run_id (callback_claim.claim_rows t run_id rows) = Some (start_callback_dispatch t r)"
  using assms get_run_row_member [OF assms(1)] by (simp add: callback_claim_get)

lemma claim_matches_registration_lemma:
  assumes "table_wf rows"
    and "claim_next_pending_callback lib settings sites artifacts clk rows = Return (request, rows')"
  shows "case request of
      Some req \<Rightarrow> (\<exists>r registered. r \<in> set rows \<and> r_finished_at r \<noteq> None \<and> callback_claimable r
        \<and> get_run_row (cr_run_id req) rows' = Some (start_callback_dispatch (ck_claim clk) r)
        \<and> cr_run_id req = r_run_id r \<and> cr_site_id req = r_site_id r
        \<and> (\<exists>site\<in>set sites. s_site_id site = r_site_id r
             \<and> resolve_registered_callback_config lib settings site = Return registered)
        \<and> rc_enabled registered \<and> cr_callback_url req = rc_callback_url registered
        \<and> cr_key_id req = rc_key_id registered \<and> cr_secret req = rc_secret registered \<and> cr_secret req \<noteq> [])
    | None \<Rightarrow> rows' = rows \<or> (\<exists>r\<in>set rows. \<exists>failed. get_run_row (r_run_id r) rows' = Some failed
        \<and> r_callback_status failed = RUN_CALLBACK_STATUS_FAILED
        \<and> r_callback_last_error_code failed = Some ''runtime.callback_config_invalid'')"
  using assms
proof (cases rule: claim_next_cases)
  case (claimed r)
  note row = claimed_row [OF claimed(5,3), of "ck_claim clk"]
  from claimed(7) show ?thesis
  proof (elim disjE exE conjE)
    fix message
    assume no: "request = None"
      and rows': "rows' = save_run (mark_callback_config_invalid message (start_callback_dispatch (ck_claim clk) r))
                       (callback_claim.claim_rows (ck_claim clk) (r_run_id r) rows)"
    have "get_run_row (r_run_id r) rows' = Some (mark_callback_config_invalid message (start_callback_dispatch (ck_claim clk) r))"
      using row_get_put_same [of r_run_id "mark_callback_config_invalid message (start_callback_dispatch (ck_claim clk) r)"
          "callback_claim.claim_rows (ck_claim clk) (r_run_id r) rows"] row
      by (simp add: rows' get_run_row_def save_run_def)
    with no show ?thesis
      by (simp only: option.case) (intro disjI2 bexI [OF _ claimed(1)] exI conjI, assumption, simp_all)
  next
    fix req
    assume ok: "validate_callback_claim lib settings sites artifacts clk (start_callback_dispatch (ck_claim clk) r) = Return (Inr req)"
      "request = Some req" "rows' = callback_claim.claim_rows (ck_claim clk) (r_run_id r) rows"
    from validate_request [OF ok(1)] obtain site registered where reg:
      "row_get s_site_id (r_site_id r) sites = Some site"
      "resolve_registered_callback_config lib settings site = Return registered"
      "rc_enabled registered" "cr_run_id req = r_run_id r" "cr_site_id req = r_site_id r"
      "cr_callback_url req = rc_callback_url registered" "cr_key_id req = rc_key_id registered"
      "cr_secret req = rc_secret registered" "cr_secret req \<noteq> []" by auto
    from row_get_Some [OF reg(1)] have site: "site \<in> set sites" "s_site_id site = r_site_id r" by simp_all
    have "get_run_row (cr_run_id req) rows' = Some (start_callback_dispatch (ck_claim clk) r)"
      using row ok(3) reg(4) by simp
    then show ?thesis
      unfolding ok(2) option.case
      by (intro exI [of _ r] exI [of _ registered] conjI claimed(1-3) reg(3-9) bexI [of _ site] reg(2) site)
  qed
qed simp

text \<open>C23: A dispatcher only ever gets a request for a finished run that was due, addressed to the URL, key
  and secret the run's site has registered now, with the attempt counted first; when the stored target
  does not match the registration the run's callback fails for good and nothing is sent; otherwise the
  table is untouched.\<close>

theorem claim_matches_registration:
  assumes "table_wf rows"
    and "claim_next_pending_callback lib settings sites artifacts clk rows = Return (request, rows')"
  shows "case request of
      Some req \<Rightarrow> (\<exists>r registered. r \<in> set rows \<and> r_finished_at r \<noteq> None \<and> callback_claimable r
        \<and> get_run_row (cr_run_id req) rows' = Some (start_callback_dispatch (ck_claim clk) r)
        \<and> cr_run_id req = r_run_id r \<and> cr_site_id req = r_site_id r
        \<and> (\<exists>site\<in>set sites. s_site_id site = r_site_id r
             \<and> resolve_registered_callback_config lib settings site = Return registered)
        \<and> rc_enabled registered \<and> cr_callback_url req = rc_callback_url registered
        \<and> cr_key_id req = rc_key_id registered \<and> cr_secret req = rc_secret registered \<and> cr_secret req \<noteq> [])
    | None \<Rightarrow> rows' = rows \<or> (\<exists>r\<in>set rows. \<exists>failed. get_run_row (r_run_id r) rows' = Some failed
        \<and> r_callback_status failed = RUN_CALLBACK_STATUS_FAILED
        \<and> r_callback_last_error_code failed = Some ''runtime.callback_config_invalid'')"
  using assms by (rule claim_matches_registration_lemma)

lemma demo_due: "list_due_callback_run_ids 1 20 [demo_callback_run] = [''r2'']"
  using demo_callback_target
  by (simp add: list_due_callback_run_ids_def sql_limit_def callback_claimable_def demo_callback_policy)

lemma demo_callback_get: "get_run_row ''r2'' [demo_callback_run] = Some demo_callback_run"
  by (simp add: get_run_row_def row_get_def)

definition demo_clock :: callback_clock where
  "demo_clock = \<lparr>ck_due = 20, ck_claim = 21, ck_lifecycle = 22, ck_projection = 23, ck_attempt = 24\<rparr>"

lemma demo_claim:
  "claim_callback_dispatch 21 ''r2'' [demo_callback_run]
    = (Some (start_callback_dispatch 21 demo_callback_run), [start_callback_dispatch 21 demo_callback_run])"
  by (simp add: claim_callback_dispatch_cases table_wf_distinct [OF demo_callback_table] demo_callback_get
      callback_claimable_def callback_claim.claim_rows_def rows_update_def callback_claim_guard_def)

subsection \<open>A registered site\<close>

definition demo_site :: "string \<Rightarrow> site_row" where
  "demo_site ciphertext = \<lparr>s_site_id = ''s1'', s_metadata_json = Some
     [(''runtime_callbacks'', JObj [(''terminal'', JObj
        [(''enabled'', JBool True), (''callback_url'', JStr ''u''), (''key_id'', JStr ''k''),
         (''registration_id'', JStr ''g''), (''secret_ciphertext'', JStr ciphertext)])])]\<rparr>"

lemma demo_site_id [simp]: "s_site_id (demo_site ciphertext) = ''s1''"
  by (simp add: demo_site_def)

lemma demo_registered:
  obtains ciphertext where
    "resolve_registered_callback_config demo_crypto demo_settings (demo_site ciphertext) = Return
       \<lparr>rc_enabled = True, rc_callback_url = ''u'', rc_key_id = ''k'', rc_secret = ''s3cret'', rc_secret_error = [],
        rc_registration_id = ''g''\<rparr>"
proof -
  obtain token where enc: "encrypt_runtime_data_plaintext demo_crypto (utf8_encode ''s3cret'')
      ''runtime_terminal_callback_secret'' demo_settings = Return token"
    using demo_encrypts(1) [OF stored_purposes(1)] by blast
  note strip = runtime_token_strip [OF demo_documented enc] and ne = runtime_token_not_blank [OF enc]
  have dec: "decrypt_runtime_terminal_callback_secret demo_crypto demo_settings (Some token) = Return ''s3cret''"
    by (rule text_secret_roundtrips(1) [OF demo_documented])
       (use enc in \<open>simp add: encrypt_runtime_terminal_callback_secret_def\<close>)
  have short: "py_strip ''s3cret'' = ''s3cret''" "py_strip ''u'' = ''u''" "py_strip ''k'' = ''k''" "py_strip ''g'' = ''g''" "py_strip [] = []"
    by (simp_all add: py_strip_def py_space_def)
  have "resolve_registered_callback_config demo_crypto demo_settings (demo_site token) = Return
       \<lparr>rc_enabled = True, rc_callback_url = ''u'', rc_key_id = ''k'', rc_secret = ''s3cret'', rc_secret_error = [],
        rc_registration_id = ''g''\<rparr>"
    using strip ne dec short
    by (simp add: resolve_registered_callback_config_def demo_site_def as_dict_def py_get_def stripped_def py_or_def
        str_or_empty_def py_str_def Let_def)
  then show thesis by (rule that)
qed

lemma demo_claimed:
  obtains site req rows1 where
    "claim_next_pending_callback demo_crypto demo_settings [site] [] demo_clock [demo_callback_run] = Return (Some req, rows1)"
    "cr_run_id req = ''r2''"
proof (rule demo_registered)
  fix ciphertext
  assume reg: "resolve_registered_callback_config demo_crypto demo_settings (demo_site ciphertext) = Return
       \<lparr>rc_enabled = True, rc_callback_url = ''u'', rc_key_id = ''k'', rc_secret = ''s3cret'', rc_secret_error = [],
        rc_registration_id = ''g''\<rparr>"
  let ?r = "start_callback_dispatch 21 demo_callback_run"
  have claim: "claim_callback_dispatch 21 ''r2'' [demo_callback_run] = (Some ?r, [?r])" by (rule demo_claim)
  have policy: "run_policy ?r = run_policy demo_callback_run" by (rule run_policy_cong) simp
  obtain req where verdict: "validate_callback_claim demo_crypto demo_settings [demo_site ciphertext] [] demo_clock ?r = Return (Inr req)"
    by (simp add: validate_callback_claim_def policy demo_callback_policy get_callback_target_def as_dict_def py_get_def
        str_or_empty_def py_str_def row_get_def Let_def reg)
  have "claim_next_pending_callback demo_crypto demo_settings [demo_site ciphertext] [] demo_clock [demo_callback_run]
      = Return (Some req, [?r])"
    using demo_due claim verdict by (simp add: claim_next_pending_callback_def demo_clock_def)
  moreover have "cr_run_id req = ''r2''" using validate_request [OF verdict] by auto
  ultimately show thesis by (rule that)
qed

theorem claim_matches_registration_witness:
  "\<exists>site req rows1. claim_next_pending_callback demo_crypto demo_settings [site] [] demo_clock [demo_callback_run]
       = Return (Some req, rows1) \<and> cr_site_id req = ''s1'' \<and> cr_secret req \<noteq> []"
proof (rule demo_claimed)
  fix site req rows1
  assume claim: "claim_next_pending_callback demo_crypto demo_settings [site] [] demo_clock [demo_callback_run] = Return (Some req, rows1)"
  with claim_matches_registration [OF demo_callback_table claim] show ?thesis by auto
qed

subsection \<open>Leases\<close>

lemma reclaim_step:
  "snd (reclaim_candidates now before (candidate # candidates) rows) =
   snd (reclaim_candidates now before candidates
     (rows_update (\<lambda>r. r_run_id r = r_run_id candidate \<and> lease_expired before r) (requeue_callback now) rows))"
  by (auto simp: Let_def split: prod.split)

lemma reclaim_candidates_keeps:
  "get_run_row run_id rows = Some r \<Longrightarrow> \<not> lease_expired before r \<Longrightarrow>
     get_run_row run_id (snd (reclaim_candidates now before candidates rows)) = Some r"
proof (induction now before candidates rows rule: reclaim_candidates.induct)
  case (2 now before candidate candidates rows)
  let ?rows = "rows_update (\<lambda>r. r_run_id r = r_run_id candidate \<and> lease_expired before r) (requeue_callback now) rows"
  have "get_run_row run_id ?rows = Some r"
    using 2(2,3) unfolding get_run_row_def by (subst row_get_rows_update) simp_all
  with 2(1) [OF refl refl] 2(3) show ?case by (auto simp: Let_def split: prod.split)
qed simp

lemma reclaim_candidates_distinct:
  "keys_distinct r_run_id rows \<Longrightarrow> keys_distinct r_run_id (snd (reclaim_candidates now before candidates rows))"
proof (induction now before candidates rows rule: reclaim_candidates.induct)
  case (2 now before candidate candidates rows)
  have "keys_distinct r_run_id (rows_update (\<lambda>r. r_run_id r = r_run_id candidate \<and> lease_expired before r) (requeue_callback now) rows)"
    by (rule rows_update_distinct [OF 2(2)]) simp
  with 2(1) [OF refl refl] show ?case by (auto simp: Let_def split: prod.split)
qed simp

lemma claim_dispatch_Some:
  assumes "table_wf rows" and "claim_callback_dispatch t run_id rows = (Some run, rows')"
  shows "\<exists>r. get_run_row run_id rows = Some r \<and> callback_claimable r \<and> run = start_callback_dispatch t r
    \<and> rows' = callback_claim.claim_rows t run_id rows \<and> get_run_row run_id rows' = Some run
    \<and> keys_distinct r_run_id rows'"
  using assms claimed_row [of run_id rows] callback_claim.claim_distinct [OF table_wf_distinct [OF assms(1)]]
  by (auto simp: claim_callback_dispatch_cases table_wf_distinct split: option.splits if_splits)

lemma dispatching_not_claimable: "\<not> callback_claimable (start_callback_dispatch t r)"
  by (simp add: callback_claimable_def)

text \<open>A claimed callback is leased to its dispatcher: until 300 seconds after the claim no recovery pass
  touches it, no other dispatcher can claim it and it is not listed as due, however many recoveries of
  whatever size run in between.\<close>

theorem dispatch_lease_is_exclusive:
  assumes "table_wf rows" and "claim_callback_dispatch t run_id rows = (Some run, rows1)"
    and "now < t + seconds 300"
  shows "get_run_row run_id (snd (recover_stale_callback_dispatches now n rows1)) = Some run
    \<and> fst (claim_callback_dispatch u run_id (snd (recover_stale_callback_dispatches now n rows1))) = None
    \<and> run_id \<notin> set (list_due_callback_run_ids m v rows1)"
proof -
  from claim_dispatch_Some [OF assms(1,2)] obtain r where r: "run = start_callback_dispatch t r"
    "get_run_row run_id rows1 = Some run" "keys_distinct r_run_id rows1" by auto
  let ?before = "now - seconds RUNTIME_CALLBACK_DISPATCH_LEASE_RECOVERY_AFTER_SECONDS"
  have fresh: "\<not> lease_expired ?before run"
    using assms(3) by (simp add: lease_expired_def r(1) RUNTIME_CALLBACK_DISPATCH_LEASE_RECOVERY_AFTER_SECONDS_def)
  have kept: "get_run_row run_id (snd (recover_stale_callback_dispatches now n rows1)) = Some run"
    unfolding recover_stale_callback_dispatches_def reclaim_stale_callback_dispatches_def Let_def
    by (rule reclaim_candidates_keeps [OF r(2) fresh])
  have kd: "keys_distinct r_run_id (snd (recover_stale_callback_dispatches now n rows1))"
    unfolding recover_stale_callback_dispatches_def reclaim_stale_callback_dispatches_def Let_def
    by (rule reclaim_candidates_distinct [OF r(3)])
  have "fst (claim_callback_dispatch u run_id (snd (recover_stale_callback_dispatches now n rows1))) = None"
    using kept by (simp add: claim_callback_dispatch_cases [OF kd] r(1) dispatching_not_claimable)
  moreover have "run_id \<notin> set (list_due_callback_run_ids m v rows1)"
  proof
    assume "run_id \<in> set (list_due_callback_run_ids m v rows1)"
    from due_run [OF this] obtain q where q: "q \<in> set rows1" "r_run_id q = run_id" "callback_claimable q" by blast
    have "Some q = Some run" using row_get_unique [OF r(3) q(1)] q(2) r(2) by (simp add: get_run_row_def)
    with q(3) r(1) dispatching_not_claimable show False by simp
  qed
  ultimately show ?thesis using kept by blast
qed

theorem dispatch_lease_is_exclusive_witness:
  "\<exists>run rows1. claim_callback_dispatch 21 ''r2'' [demo_callback_run] = (Some run, rows1)
     \<and> get_run_row ''r2'' (snd (recover_stale_callback_dispatches 99 5 rows1)) = Some run"
proof -
  obtain run rows1 where claim: "claim_callback_dispatch 21 ''r2'' [demo_callback_run] = (Some run, rows1)"
    by (simp add: claim_callback_dispatch_cases table_wf_distinct [OF demo_callback_table] demo_callback_get
        callback_claimable_def)
  have "(99 :: instant) < 21 + seconds 300" by (simp add: seconds_def)
  from dispatch_lease_is_exclusive [OF demo_callback_table claim this] claim show ?thesis by blast
qed

subsection \<open>Settlement\<close>

lemma settle_get:
  assumes "get_run_row run_id rows = Some r"
  shows "get_run_row run_id (snd (settle_callback t retry_at dispatched run_id rows)) =
    Some (case dispatched of DispatchResult _ \<Rightarrow> mark_callback_delivered t r
          | RuntimeCallbackDispatchError code message _ \<Rightarrow> mark_callback_delivery_failed code message retry_at r)"
proof -
  note mem = get_run_row_member [OF assms]
  have saved: "get_run_row run_id (save_run r' rows) = Some r'" if "r_run_id r' = run_id" for r'
    using row_get_put_same [of r_run_id r' rows] that assms by (simp add: get_run_row_def save_run_def)
  show ?thesis
    using assms mem saved by (simp add: settle_callback_def Let_def split: dispatch_outcome.split)
qed

text \<open>C24: One pass with a dispatcher settles the run it claimed: a send that succeeded makes it delivered; a
  failed one is scheduled again, the configured back-off after the attempt, only if the failure is
  retryable and fewer attempts than the maximum were made, and otherwise fails for good; so no pass ever
  schedules an attempt beyond the maximum.\<close>

theorem retries_are_bounded:
  assumes "table_wf rows"
    and "dispatch_single_pending_callback lib settings max_attempts backoff dispatcher sites artifacts clk rows
      = Return (Some result, rows')"
  shows "\<exists>r\<in>set rows. \<exists>req settled. callback_claimable r \<and> cr_run_id req = r_run_id r
    \<and> get_run_row (r_run_id r) rows' = Some settled
    \<and> r_callback_attempt_count settled = r_callback_attempt_count r + 1
    \<and> (case dispatcher req of
         DispatchResult _ \<Rightarrow> r_callback_status settled = RUN_CALLBACK_STATUS_DELIVERED
       | RuntimeCallbackDispatchError code message retryable \<Rightarrow>
           r_callback_last_error_code settled = Some code
           \<and> (if retryable \<and> r_callback_attempt_count settled < max_attempts
              then r_callback_status settled = RUN_CALLBACK_STATUS_PENDING
                \<and> r_callback_next_attempt_at settled = Some (ck_attempt clk + seconds backoff)
              else r_callback_status settled = RUN_CALLBACK_STATUS_FAILED
                \<and> r_callback_next_attempt_at settled = None))"
proof -
  from assms(2) obtain request rows1 where claim:
    "claim_next_pending_callback lib settings sites artifacts clk rows = Return (request, rows1)"
    by (auto simp: dispatch_single_pending_callback_def and_then_Return)
  with assms(2) obtain req where req: "request = Some req"
    by (cases request) (auto simp: dispatch_single_pending_callback_def)
  from claim_matches_registration_lemma [OF assms(1) claim] req obtain r where r: "r \<in> set rows" "callback_claimable r"
    "cr_run_id req = r_run_id r" "get_run_row (r_run_id r) rows1 = Some (start_callback_dispatch (ck_claim clk) r)"
    by auto
  let ?r = "start_callback_dispatch (ck_claim clk) r"
  define retry where "retry = (case dispatcher req of
      RuntimeCallbackDispatchError _ _ retryable \<Rightarrow>
        resolve_callback_retry_at max_attempts backoff retryable (ck_attempt clk) (cr_run_id req) rows1
    | DispatchResult _ \<Rightarrow> None)"
  have "rows' = snd (settle_callback (ck_attempt clk) retry (dispatcher req) (cr_run_id req) rows1)"
    using assms(2) claim req by (simp add: dispatch_single_pending_callback_def Let_def retry_def)
  then have get: "get_run_row (r_run_id r) rows' = Some (case dispatcher req of
      DispatchResult _ \<Rightarrow> mark_callback_delivered (ck_attempt clk) ?r
    | RuntimeCallbackDispatchError code message _ \<Rightarrow> mark_callback_delivery_failed code message retry ?r)"
    using settle_get r(3,4) by simp
  have failed: "r_callback_status (mark_callback_delivery_failed c m u q) =
        (if u = None then RUN_CALLBACK_STATUS_FAILED else RUN_CALLBACK_STATUS_PENDING)"
      "r_callback_next_attempt_at (mark_callback_delivery_failed c m u q) = u"
      "r_callback_last_error_code (mark_callback_delivery_failed c m u q) = Some c"
      "r_callback_status (mark_callback_delivered t q) = RUN_CALLBACK_STATUS_DELIVERED" for c m u q t
    by (simp_all add: mark_callback_delivery_failed_def mark_callback_delivered_def)
  show ?thesis
    by (rule bexI [OF _ r(1)], rule exI [of _ req], rule exI, intro conjI, rule r(2), rule r(3), rule get)
       (simp_all add: failed retry_def resolve_callback_retry_at_def r(3,4) split: dispatch_outcome.split)
qed

theorem retries_are_bounded_witness:
  "\<exists>site result rows' settled.
     dispatch_single_pending_callback demo_crypto demo_settings 3 60
       (\<lambda>_. RuntimeCallbackDispatchError ''e'' ''m'' True) [site] [] demo_clock [demo_callback_run] = Return (Some result, rows')
     \<and> get_run_row ''r2'' rows' = Some settled \<and> r_callback_last_error_code settled = Some ''e''"
proof (rule demo_claimed)
  fix site req rows1
  assume claim: "claim_next_pending_callback demo_crypto demo_settings [site] [] demo_clock [demo_callback_run] = Return (Some req, rows1)"
    and id: "cr_run_id req = ''r2''"
  from claim_matches_registration_lemma [OF demo_callback_table claim] id
  obtain run where "get_run_row ''r2'' rows1 = Some run" by auto
  then obtain result rows' where pass:
    "dispatch_single_pending_callback demo_crypto demo_settings 3 60
       (\<lambda>_. RuntimeCallbackDispatchError ''e'' ''m'' True) [site] [] demo_clock [demo_callback_run] = Return (Some result, rows')"
    using claim id by (simp add: dispatch_single_pending_callback_def settle_callback_def Let_def)
  with retries_are_bounded [OF demo_callback_table pass] show ?thesis by auto
qed

subsection \<open>Recovery\<close>

lemma reclaim_candidates_requeues:
  assumes "keys_distinct r_run_id rows" and "get_run_row run_id rows = Some r" and "lease_expired before r"
    and "\<exists>c\<in>set candidates. r_run_id c = run_id"
  shows "get_run_row run_id (snd (reclaim_candidates now before candidates rows)) = Some (requeue_callback now r)"
  using assms
proof (induction now before candidates rows rule: reclaim_candidates.induct)
  case (2 now before candidate candidates rows)
  let ?rows = "rows_update (\<lambda>r. r_run_id r = r_run_id candidate \<and> lease_expired before r) (requeue_callback now) rows"
  have kd: "keys_distinct r_run_id ?rows" by (rule rows_update_distinct [OF 2(2)]) simp
  have get: "get_run_row run_id ?rows = Some (if r_run_id candidate = run_id then requeue_callback now r else r)"
    using 2(3,4) get_run_row_member [OF 2(3)] unfolding get_run_row_def
    by (subst row_get_rows_update) auto
  have stop: "\<not> lease_expired before (requeue_callback now r)" by (simp add: lease_expired_def requeue_callback_def)
  show ?case
  proof (cases "r_run_id candidate = run_id")
    case True
    with get have "get_run_row run_id ?rows = Some (requeue_callback now r)" by simp
    from reclaim_candidates_keeps [OF this stop] show ?thesis unfolding reclaim_step .
  next
    case False
    with get have "get_run_row run_id ?rows = Some r" by simp
    with 2(1) [OF refl refl kd _ 2(4)] 2(5) False show ?thesis unfolding reclaim_step by simp
  qed
qed simp

lemma recover_requeues:
  assumes kd: "keys_distinct r_run_id rows" and get: "get_run_row run_id rows = Some r"
    and r: "r_finished_at r \<noteq> None" "r_callback_status r = RUN_CALLBACK_STATUS_DISPATCHING" "callback_url_set r"
      "r_callback_last_attempt_at r = Some t" "t + seconds 300 \<le> now"
    and n: "int (length rows) \<le> n"
  shows "get_run_row run_id (snd (recover_stale_callback_dispatches now n rows)) = Some (requeue_callback now r)"
proof -
  let ?before = "now - seconds RUNTIME_CALLBACK_DISPATCH_LEASE_RECOVERY_AFTER_SECONDS"
  let ?c = "\<lambda>r. r_finished_at r \<noteq> None \<and> lease_expired ?before r \<and> callback_url_set r"
  let ?k = "\<lambda>r. (asc_nulls_last (r_callback_last_attempt_at r), asc_nulls_last (r_finished_at r))"
  note mem = get_run_row_member [OF get]
  have lease: "lease_expired ?before r"
    using r by (simp add: lease_expired_def RUNTIME_CALLBACK_DISPATCH_LEASE_RECOVERY_AFTER_SECONDS_def)
  have "length (sort_key ?k (filter ?c rows)) \<le> nat (max 1 n)"
  proof -
    have "length (filter ?c rows) \<le> length rows" by (rule length_filter_le)
    also have "\<dots> \<le> nat (max 1 n)" using n by linarith
    finally show ?thesis by (simp only: length_sort)
  qed
  then have "sql_limit (max 1 n) (sort_key ?k (filter ?c rows)) = sort_key ?k (filter ?c rows)"
    unfolding sql_limit_def by (rule take_all)
  moreover have "r \<in> set (sort_key ?k (filter ?c rows))"
    using mem r(1,3) lease by (simp only: set_sort set_filter mem_Collect_eq simp_thms)
  ultimately have "\<exists>c\<in>set (sql_limit (max 1 n) (sort_key ?k (filter ?c rows))). r_run_id c = run_id"
    using mem by (simp only:) blast
  from reclaim_candidates_requeues [OF kd get lease this, of now] show ?thesis
    unfolding recover_stale_callback_dispatches_def reclaim_stale_callback_dispatches_def Let_def .
qed

text \<open>A dispatcher that dies does not lose the callback: once the lease is 300 seconds old a recovery
  pass whose limit covers the table makes the run due at once, keeps its attempt count, and the next
  dispatcher can claim it.\<close>

theorem expired_lease_is_recovered:
  assumes "table_wf rows" and "claim_callback_dispatch t run_id rows = (Some run, rows1)"
    and "r_finished_at run \<noteq> None" and "callback_url_set run"
    and "t + seconds 300 \<le> now" and "int (length rows) \<le> n"
  shows "\<exists>again. get_run_row run_id (snd (recover_stale_callback_dispatches now n rows1)) = Some again
    \<and> r_callback_status again = RUN_CALLBACK_STATUS_PENDING \<and> r_callback_next_attempt_at again = Some now
    \<and> r_callback_attempt_count again = r_callback_attempt_count run
    \<and> fst (claim_callback_dispatch u run_id (snd (recover_stale_callback_dispatches now n rows1))) \<noteq> None"
proof -
  from claim_dispatch_Some [OF assms(1,2)] obtain r where r: "run = start_callback_dispatch t r"
    "get_run_row run_id rows1 = Some run" "keys_distinct r_run_id rows1"
    "rows1 = callback_claim.claim_rows t run_id rows" by auto
  have len: "int (length rows1) \<le> n" using assms(6) by (simp add: r(4) callback_claim.claim_rows_def)
  have requeued: "get_run_row run_id (snd (recover_stale_callback_dispatches now n rows1)) = Some (requeue_callback now run)"
    by (rule recover_requeues [OF r(3,2) assms(3) _ assms(4) _ assms(5) len]) (simp_all add: r(1))
  have kd: "keys_distinct r_run_id (snd (recover_stale_callback_dispatches now n rows1))"
    unfolding recover_stale_callback_dispatches_def reclaim_stale_callback_dispatches_def Let_def
    by (rule reclaim_candidates_distinct [OF r(3)])
  have claimable: "callback_claimable (requeue_callback now run)" by (simp add: callback_claimable_def requeue_callback_def)
  have "fst (claim_callback_dispatch u run_id (snd (recover_stale_callback_dispatches now n rows1))) \<noteq> None"
    using requeued claimable by (simp add: claim_callback_dispatch_cases [OF kd])
  with requeued show ?thesis by (intro exI [of _ "requeue_callback now run"]) (simp add: requeue_callback_def)
qed

lemma demo_callback_url: "callback_url_set (start_callback_dispatch 21 demo_callback_run)"
proof -
  have "r_policy_json demo_callback_run = Some (JObj (run_policy demo_callback_run))"
    by (simp add: demo_callback_run_def mark_run_canceled_def Let_def start_processing_def
      schedule_callback_delivery_def apply_terminal_input_storage_policy_def run_policy_def dict_or_empty_def new_run_record_def)
  then show ?thesis
    by (simp add: callback_url_set_def callback_url_expression_def demo_callback_policy json_path_value_def py_get_def Let_def)
qed

theorem expired_lease_is_recovered_witness:
  "\<exists>run rows1 again. claim_callback_dispatch 21 ''r2'' [demo_callback_run] = (Some run, rows1)
     \<and> get_run_row ''r2'' (snd (recover_stale_callback_dispatches (21 + seconds 300) 1 rows1)) = Some again
     \<and> r_callback_status again = RUN_CALLBACK_STATUS_PENDING"
  using expired_lease_is_recovered [OF demo_callback_table demo_claim, of "21 + seconds 300" 1] demo_callback_url demo_claim
  by auto

text \<open>Settlements are not tied to the lease they belong to: when a dispatcher outlives its lease, the
  run is recovered and another dispatcher has delivered the callback, the late failure report of the
  first one undoes the delivery: the run is pending or failed again and its delivery time is gone.\<close>

theorem late_failure_undoes_delivery:
  assumes "table_wf rows" and "claim_callback_dispatch t run_id rows = (Some run, rows1)"
    and "r_finished_at run \<noteq> None" and "callback_url_set run"
    and "t + seconds 300 \<le> now" and "int (length rows) \<le> n"
  shows "let rows2 = snd (recover_stale_callback_dispatches now n rows1);
      (second, rows3) = claim_callback_dispatch u run_id rows2;
      rows4 = snd (settle_callback v None (DispatchResult 200) run_id rows3);
      rows5 = snd (settle_callback t retry_at (RuntimeCallbackDispatchError code message retryable) run_id rows4)
    in second \<noteq> None
      \<and> map_option r_callback_status (get_run_row run_id rows4) = Some RUN_CALLBACK_STATUS_DELIVERED
      \<and> (\<exists>undone. get_run_row run_id rows5 = Some undone \<and> r_callback_delivered_at undone = None
           \<and> r_callback_status undone \<in> {RUN_CALLBACK_STATUS_PENDING, RUN_CALLBACK_STATUS_FAILED})"
proof -
  from claim_dispatch_Some [OF assms(1,2)] obtain r where r: "run = start_callback_dispatch t r"
    "get_run_row run_id rows1 = Some run" "keys_distinct r_run_id rows1"
    "rows1 = callback_claim.claim_rows t run_id rows" by auto
  have len: "int (length rows1) \<le> n" using assms(6) by (simp add: r(4) callback_claim.claim_rows_def)
  let ?rows2 = "snd (recover_stale_callback_dispatches now n rows1)"
  have requeued: "get_run_row run_id ?rows2 = Some (requeue_callback now run)"
    by (rule recover_requeues [OF r(3,2) assms(3) _ assms(4) _ assms(5) len]) (simp_all add: r(1))
  have kd: "keys_distinct r_run_id ?rows2"
    unfolding recover_stale_callback_dispatches_def reclaim_stale_callback_dispatches_def Let_def
    by (rule reclaim_candidates_distinct [OF r(3)])
  have claimable: "callback_claimable (requeue_callback now run)" by (simp add: callback_claimable_def requeue_callback_def)
  let ?rows3 = "callback_claim.claim_rows u run_id ?rows2"
  have second: "claim_callback_dispatch u run_id ?rows2 = (Some (start_callback_dispatch u (requeue_callback now run)), ?rows3)"
    using requeued claimable by (simp add: claim_callback_dispatch_cases [OF kd])
  have get4: "get_run_row run_id (snd (settle_callback v None (DispatchResult 200) run_id ?rows3))
      = Some (mark_callback_delivered v (start_callback_dispatch u (requeue_callback now run)))"
    by (simp only: settle_get [OF claimed_row [OF requeued claimable]] dispatch_outcome.case)
  note get5 = settle_get [OF get4, of t retry_at "RuntimeCallbackDispatchError code message retryable"]
  show ?thesis
    unfolding Let_def second prod.case
    by (simp only: get4 get5 dispatch_outcome.case) (simp add: mark_callback_delivered_def mark_callback_delivery_failed_def)
qed

theorem late_failure_undoes_delivery_witness:
  "\<exists>rows4 rows5 undone. get_run_row ''r2'' rows5 = Some undone \<and> r_callback_delivered_at undone = None
     \<and> rows5 = snd (settle_callback 21 None (RuntimeCallbackDispatchError ''e'' ''m'' True) ''r2'' rows4)
     \<and> map_option r_callback_status (get_run_row ''r2'' rows4) = Some RUN_CALLBACK_STATUS_DELIVERED"
  using late_failure_undoes_delivery [OF demo_callback_table demo_claim, of "21 + seconds 300" 1 400 401 None "''e''" "''m''" True]
    demo_callback_url
  by (auto simp: Let_def split: prod.splits)

subsection \<open>Starvation\<close>

lemma sort_key_split:
  fixes k :: "'r \<Rightarrow> 'o :: linorder"
  assumes "\<And>x y. x \<in> set xs \<Longrightarrow> y \<in> set xs \<Longrightarrow> P x \<Longrightarrow> \<not> P y \<Longrightarrow> k x < k y"
  shows "sort_key k xs = sort_key k (filter P xs) @ sort_key k (filter (\<lambda>x. \<not> P x) xs)"
proof (rule properties_for_sort_key)
  show "mset (sort_key k (filter P xs) @ sort_key k (filter (\<lambda>x. \<not> P x) xs)) = mset xs" by simp
  show "sorted (map k (sort_key k (filter P xs) @ sort_key k (filter (\<lambda>x. \<not> P x) xs)))"
    using assms by (fastforce simp: sorted_append intro: less_imp_le)
  fix a assume "a \<in> set (sort_key k (filter P xs) @ sort_key k (filter (\<lambda>x. \<not> P x) xs))"
  then have a: "a \<in> set xs" by auto
  have same: "P x = P a" if "x \<in> set xs" "k a = k x" for x
    using assms [OF a that(1)] assms [OF that(1) a] that(2) by (cases "P a"; cases "P x") auto
  have one: "filter (\<lambda>x. k a = k x) (filter (\<lambda>x. \<not> P x) xs) = [] \<and> filter (\<lambda>x. k a = k x) (filter P xs) = filter (\<lambda>x. k a = k x) xs"
    if "P a" using same that by (auto simp: filter_empty_conv intro!: filter_cong)
  have two: "filter (\<lambda>x. k a = k x) (filter P xs) = [] \<and> filter (\<lambda>x. k a = k x) (filter (\<lambda>x. \<not> P x) xs) = filter (\<lambda>x. k a = k x) xs"
    if "\<not> P a" using same that by (auto simp: filter_empty_conv intro!: filter_cong)
  have eq: "(\<lambda>x. k a = k x) = (\<lambda>x. k x = k a)" by auto
  show "filter (\<lambda>x. k a = k x) (sort_key k (filter P xs) @ sort_key k (filter (\<lambda>x. \<not> P x) xs)) = filter (\<lambda>x. k a = k x) xs"
    using one two by (cases "P a") (simp_all add: eq sort_key_stable)
qed

text \<open>A finished run whose policy names no callback, still in the state it was finished in.\<close>

definition idle_run :: "run_record \<Rightarrow> bool" where
  "idle_run r \<longleftrightarrow> r_finished_at r \<noteq> None \<and> callback_claimable r \<and> \<not> repo_has_callback_target (run_policy r)"

text \<open>C25: Finished runs without a callback take part in the search for due callbacks: when at least five of
  them finished before every run that waits for its callback, no callback is found due, so the
  dispatcher sends nothing however long it runs.\<close>

theorem idle_runs_starve_callbacks:
  assumes "5 \<le> length (filter idle_run rows)"
    and "\<forall>b\<in>set rows. \<forall>r\<in>set rows. idle_run b \<and> r_finished_at r \<noteq> None \<and> callback_claimable r
        \<and> repo_has_callback_target (run_policy r) \<longrightarrow>
      (asc_nulls_last (r_finished_at b), r_started_at b) < (asc_nulls_last (r_finished_at r), r_started_at r)"
  shows "list_due_callback_run_ids 1 now rows = []
    \<and> claim_next_pending_callback lib settings sites artifacts clk rows = Return (None, rows)"
proof -
  let ?c = "\<lambda>r. r_finished_at r \<noteq> None \<and> callback_claimable r"
  let ?k = "\<lambda>r. (asc_nulls_last (r_finished_at r), r_started_at r)"
  have idle: "filter idle_run (filter ?c rows) = filter idle_run rows"
    unfolding filter_filter by (rule filter_cong [OF refl]) (auto simp: idle_run_def)
  have split: "sort_key ?k (filter ?c rows) = sort_key ?k (filter idle_run (filter ?c rows)) @ sort_key ?k (filter (\<lambda>r. \<not> idle_run r) (filter ?c rows))"
  proof (rule sort_key_split)
    fix x y assume x: "x \<in> set (filter ?c rows)" "idle_run x" and y: "y \<in> set (filter ?c rows)" "\<not> idle_run y"
    from y have "repo_has_callback_target (run_policy y)" unfolding idle_run_def set_filter by blast
    with assms(2) x y show "?k x < ?k y" by (simp only: set_filter mem_Collect_eq) blast
  qed
  have "5 \<le> length (sort_key ?k (filter idle_run rows))" using assms(1) by (simp only: length_sort)
  then have "take 5 (sort_key ?k (filter ?c rows)) = take 5 (sort_key ?k (filter idle_run rows))"
    unfolding split idle by (simp only: take_append diff_is_0_eq' take_0 append_Nil2)
  then have none: "list_due_callback_run_ids 1 t rows = []" for t
    unfolding list_due_callback_run_ids_def Let_def sql_limit_def
    by (auto simp: filter_empty_conv idle_run_def dest!: in_set_takeD)
  then show ?thesis by (simp add: claim_next_pending_callback_def)
qed

lemma demo_idle: "idle_run demo_expired_run"
proof -
  have like: "finished_like (start_processing 5 demo_run) 9 demo_expired_run"
    unfolding demo_expired_run_def by (rule finish_shape) simp
  have policy: "run_policy demo_expired_run = run_policy demo_run"
    by (rule run_policy_cong) (simp add: demo_expired_run_def mark_run_canceled_def Let_def start_processing_def
      schedule_callback_delivery_def apply_terminal_input_storage_policy_def)
  have "\<not> repo_has_callback_target (run_policy demo_run)"
    by (simp add: repo_has_callback_target_def py_get_def demo_run_def new_run_record_def demo_command_def run_policy_def
        dict_or_empty_def str_or_empty_def py_strip_def)
  moreover have "run_policy (start_processing 5 demo_run) = run_policy demo_run"
    by (rule run_policy_cong) (simp add: start_processing_def)
  ultimately show ?thesis using like policy by (simp add: idle_run_def finished_like_def callback_claimable_def)
qed

theorem idle_runs_starve_callbacks_witness:
  "list_due_callback_run_ids 1 1000
     (replicate 5 demo_expired_run @ [demo_callback_run\<lparr>r_finished_at := Some 10\<rparr>]) = []"
proof -
  let ?r = "demo_callback_run\<lparr>r_finished_at := Some 10\<rparr>"
  have target: "\<not> idle_run ?r"
    using demo_callback_target run_policy_cong [of ?r demo_callback_run] by (simp add: idle_run_def demo_callback_policy)
  have nine: "r_finished_at demo_expired_run = Some 9" using demo_idle
    by (simp add: demo_expired_run_def mark_run_canceled_def Let_def)
  have "5 \<le> length (filter idle_run (replicate 5 demo_expired_run @ [?r]))"
    using demo_idle by simp
  then show ?thesis
    by (rule idle_runs_starve_callbacks [THEN conjunct1])
       (use demo_idle target nine in \<open>auto simp: asc_nulls_last_def idle_run_def\<close>)
qed

end
