(* ===== verification/PortalSystem.thy ===== *)
theory PortalSystem
  imports PortalIdempotency
begin

section \<open>Portal mutations as a shared system\<close>

text \<open>
  The table of receipts under concurrent requests.  A live claim is one a request handler holds and
  has neither released nor completed; a handler may die and drop its claim.
\<close>

subsection \<open>Well-formed receipts\<close>

text \<open>The check constraint on the lifecycle columns.\<close>

definition receipt_wf :: "portal_receipt \<Rightarrow> bool" where
  "receipt_wf r \<longleftrightarrow>
     0 < pr_retention_ttl_seconds r
     \<and> ((pr_state r = PORTAL_IDEMPOTENCY_STATE_PROCESSING \<and> pr_claim_token r \<noteq> None \<and> pr_lease_expires_at r \<noteq> None
          \<and> pr_response_status r = None \<and> pr_response_body_ciphertext r = None \<and> pr_completed_at r = None)
        \<or> (pr_state r = PORTAL_IDEMPOTENCY_STATE_COMPLETED \<and> pr_claim_token r = None \<and> pr_lease_expires_at r = None
          \<and> pr_response_status r \<noteq> None \<and> pr_response_body_ciphertext r \<noteq> None \<and> pr_completed_at r \<noteq> None))"

definition pr_request :: "portal_receipt \<Rightarrow> string \<times> string" where
  "pr_request r = (pr_principal_id r, pr_idempotency_key r)"

definition pc_request :: "portal_claim \<Rightarrow> string \<times> string" where
  "pc_request c = (pc_principal_id c, pc_idempotency_key c)"

definition receipts_wf :: "receipt_table \<Rightarrow> bool" where
  "receipts_wf rows \<longleftrightarrow>
     keys_distinct pr_receipt_id rows \<and> keys_distinct pr_request rows \<and> (\<forall>r\<in>set rows. receipt_wf r)"

lemma portal_states_differ [simp]:
  "PORTAL_IDEMPOTENCY_STATE_PROCESSING \<noteq> PORTAL_IDEMPOTENCY_STATE_COMPLETED"
  "PORTAL_IDEMPOTENCY_STATE_COMPLETED \<noteq> PORTAL_IDEMPOTENCY_STATE_PROCESSING"
  by (simp_all add: PORTAL_IDEMPOTENCY_STATE_PROCESSING_def PORTAL_IDEMPOTENCY_STATE_COMPLETED_def)

lemma receipts_wf_filter: "receipts_wf rows \<Longrightarrow> receipts_wf (filter P rows)"
  by (auto simp: receipts_wf_def)

lemma find_receipt_Some:
  "find_receipt p k rows = Some r \<Longrightarrow> r \<in> set rows \<and> pr_request r = (p, k)"
  by (auto simp: find_receipt_def find_Some_iff pr_request_def)

lemma find_receipt_None:
  "find_receipt p k rows = None \<longleftrightarrow> (\<forall>r\<in>set rows. pr_request r \<noteq> (p, k))"
  by (auto simp: find_receipt_def find_None_iff pr_request_def)

lemma find_receipt_row_get: "find_receipt p k rows = row_get pr_request (p, k) rows"
  unfolding find_receipt_def row_get_def pr_request_def by (rule arg_cong [where f = "\<lambda>P. find P rows"]) auto

lemma find_receipt_unique:
  "receipts_wf rows \<Longrightarrow> r \<in> set rows \<Longrightarrow> pr_request r = (p, k) \<Longrightarrow> find_receipt p k rows = Some r"
  using row_get_unique [of pr_request rows r] by (simp add: find_receipt_row_get receipts_wf_def)

lemma insert_refused_iff:
  "insert_refused r rows \<longleftrightarrow> pr_retention_ttl_seconds r \<le> 0
     \<or> row_get pr_receipt_id (pr_receipt_id r) rows \<noteq> None \<or> row_get pr_request (pr_request r) rows \<noteq> None"
  by (auto simp: insert_refused_def list_ex_iff row_get_None pr_request_def not_None_eq [symmetric] simp del: not_None_eq)

lemma insert_wf:
  "receipts_wf rows \<Longrightarrow> \<not> insert_refused (new_receipt c) rows \<Longrightarrow> receipts_wf (rows @ [new_receipt c])"
  by (auto simp: receipts_wf_def insert_refused_iff keys_distinct_append receipt_wf_def new_receipt_def)

subsection \<open>Ownership\<close>

text \<open>Completion and release are conditional on the claim's token.\<close>

type_synonym completion = "portal_claim \<times> instant \<times> int \<times> string"

definition completion_guard :: "completion \<Rightarrow> portal_receipt \<Rightarrow> bool" where
  "completion_guard t r = (case t of (claim, now, status, ciphertext) \<Rightarrow> owns claim r)"

definition completion_effect :: "completion \<Rightarrow> portal_receipt \<Rightarrow> portal_receipt" where
  "completion_effect t r = (case t of (claim, now, status, ciphertext) \<Rightarrow> complete_receipt now status ciphertext r)"

interpretation completion: conditional_claim pr_receipt_id completion_guard completion_effect
  by unfold_locales
    (auto simp: completion_guard_def completion_effect_def complete_receipt_def owns_def)

lemma owns_receipt: "owns claim r \<Longrightarrow> pr_receipt_id r = pc_receipt_id claim \<and> pr_request r = pc_request claim
    \<and> pr_state r = PORTAL_IDEMPOTENCY_STATE_PROCESSING"
  by (simp add: owns_def pr_request_def pc_request_def)

lemma owned_rows:
  assumes "receipts_wf rows"
  shows "filter (owns claim) rows =
    (case row_get pr_receipt_id (pc_receipt_id claim) rows of None \<Rightarrow> [] | Some r \<Rightarrow> if owns claim r then [r] else [])"
  using assms unfolding receipts_wf_def
  by (intro filter_unique_key) (auto dest: owns_receipt)

lemma owned_filter_length:
  "receipts_wf rows \<Longrightarrow> length (filter (owns claim) rows) = 1 \<longleftrightarrow> (\<exists>r\<in>set rows. owns claim r)"
proof
  assume "receipts_wf rows" "length (filter (owns claim) rows) = 1"
  then have "filter (owns claim) rows \<noteq> []" by auto
  then show "\<exists>r\<in>set rows. owns claim r" by (simp add: filter_empty_conv)
next
  assume wf: "receipts_wf rows" and "\<exists>r\<in>set rows. owns claim r"
  then obtain r where r: "r \<in> set rows" "owns claim r" by blast
  have "row_get pr_receipt_id (pc_receipt_id claim) rows = Some r"
    using row_get_unique [of pr_receipt_id rows r] wf r owns_receipt [OF r(2)] by (simp add: receipts_wf_def)
  with r show "length (filter (owns claim) rows) = 1" by (simp add: owned_rows [OF wf])
qed

lemma completed_wf: "receipt_wf r \<Longrightarrow> receipt_wf (complete_receipt now status ciphertext r)"
  by (simp add: receipt_wf_def complete_receipt_def)

lemma complete_rows_wf:
  assumes "receipts_wf rows"
  shows "receipts_wf (rows_update (owns claim) (complete_receipt now status ciphertext) rows)"
  using assms completed_wf
  by (auto simp: receipts_wf_def in_rows_update complete_receipt_def pr_request_def intro!: rows_update_distinct split: if_splits)

lemma complete_cases:
  assumes wf: "receipts_wf rows"
    and ran: "complete_portal_mutation lib settings json_loads now limit claim status body rows = (res, rows')"
  obtains (refused) e where "res = Raise e" "rows' = rows"
    | (stored) ciphertext where "res = Return ()" "100 \<le> status" "status \<le> 599" "body \<noteq> []" "int (length body) \<le> limit"
      "encrypt_portal_idempotency_response lib settings body = Return ciphertext" "\<exists>r\<in>set rows. owns claim r"
      "rows' = rows_update (owns claim) (complete_receipt now status ciphertext) rows"
proof -
  have len: "length (filter (owns claim) rows) = Suc 0 \<longleftrightarrow> (\<exists>r\<in>set rows. owns claim r)"
    using owned_filter_length [OF wf] by simp
  have fail: thesis if "\<exists>e. (res, rows') = (Raise e, rows)" using that by (auto intro: refused)
  show thesis
  proof (cases "100 \<le> status \<and> status \<le> 599 \<and> body \<noteq> []")
    case False
    then consider "\<not> (100 \<le> status \<and> status \<le> 599)" | "100 \<le> status \<and> status \<le> 599" "body = []" by blast
    then show thesis
    proof cases
      case 1
      then have "complete_portal_mutation lib settings json_loads now limit claim status body rows
          = (Raise (PortalValueError ''Portal idempotency response status must be between 100 and 599''), rows)"
        unfolding complete_portal_mutation_def by (simp only: simp_thms if_True)
      with ran show thesis by (intro fail) auto
    next
      case 2
      with ran show thesis unfolding complete_portal_mutation_def by (intro fail) auto
    qed
  next
    case True
    show thesis
    proof (cases "json_loads body")
      case None
      with True ran show thesis unfolding complete_portal_mutation_def by (intro fail) auto
    next
      case (Some parsed)
      show thesis
      proof (cases "parsed = JNull \<or> limit < int (length body)")
        case True
        with Some \<open>100 \<le> status \<and> status \<le> 599 \<and> body \<noteq> []\<close> ran show thesis
          unfolding complete_portal_mutation_def by (intro fail) (auto split: if_splits)
      next
        case small: False
        show thesis
        proof (cases "encrypt_portal_idempotency_response lib settings body")
          case (Inl e)
          with Some small \<open>100 \<le> status \<and> status \<le> 599 \<and> body \<noteq> []\<close> ran show thesis
            unfolding complete_portal_mutation_def by (intro fail) auto
        next
          case (Inr ciphertext)
          show thesis
          proof (cases "\<exists>r\<in>set rows. owns claim r")
            case True
            then obtain r where r: "r \<in> set rows" "owns claim r" by blast
            have "row_get pr_receipt_id (pc_receipt_id claim) rows = Some r"
              using row_get_unique [of pr_receipt_id rows r] wf r owns_receipt [OF r(2)] by (simp add: receipts_wf_def)
            with Some small Inr len True \<open>100 \<le> status \<and> status \<le> 599 \<and> body \<noteq> []\<close> ran show thesis
              unfolding complete_portal_mutation_def by (intro stored [of ciphertext]) simp_all
          next
            case False
            with Some small Inr len \<open>100 \<le> status \<and> status \<le> 599 \<and> body \<noteq> []\<close> ran show thesis
              unfolding complete_portal_mutation_def by (intro fail) (auto split: option.splits)
          qed
        qed
      qed
    qed
  qed
qed

lemma release_cases:
  assumes wf: "receipts_wf rows" and rel: "release_unexecuted_portal_mutation claim rows = (res, rows')"
  obtains (refused) e where "res = Raise e" "rows' = rows" "\<not> (\<exists>r\<in>set rows. owns claim r)"
    | (released) "res = Return ()" "\<exists>r\<in>set rows. owns claim r" "rows' = filter (\<lambda>r. \<not> owns claim r) rows"
  using rel refused released owned_filter_length [OF wf]
  unfolding release_unexecuted_portal_mutation_def by (auto split: if_splits)

subsection \<open>One claim attempt\<close>

lemma claim_once_cases:
  assumes once: "claim_portal_mutation_once lib settings race c rows = (res, rows')"
  obtains (created) "find_receipt (ca_principal_id c) (ca_idempotency_key c) rows = None"
      "\<not> insert_refused (new_receipt c) (race rows)"
      "res = Return (Some (Claimed (claim_from_receipt (ca_now c) (new_receipt c))))" "rows' = race rows @ [new_receipt c]"
    | (lost) "find_receipt (ca_principal_id c) (ca_idempotency_key c) rows = None"
      "insert_refused (new_receipt c) (race rows)" "res = Return None" "rows' = race rows"
    | (expired) r P where "find_receipt (ca_principal_id c) (ca_idempotency_key c) rows = Some r"
      "receipt_expired (ca_now c) r" "res = Return None" "rows' = filter P (race rows)"
      "\<forall>q. \<not> P q \<longrightarrow> pr_receipt_id q = pr_receipt_id r"
    | (answered) r where "find_receipt (ca_principal_id c) (ca_idempotency_key c) rows = Some r"
      "\<not> receipt_expired (ca_now c) r \<or> pr_request_fingerprint r \<noteq> ca_request_fingerprint c"
      "(\<exists>e. res = Raise e) \<or> (\<exists>replay. res = Return (Some (Replayed replay))
         \<and> pr_state r = PORTAL_IDEMPOTENCY_STATE_COMPLETED \<and> pr_request_fingerprint r = ca_request_fingerprint c)" "rows' = rows"
proof (cases "find_receipt (ca_principal_id c) (ca_idempotency_key c) rows")
  case None
  with once show thesis
    by (cases "insert_refused (new_receipt c) (race rows)")
       (auto simp: claim_portal_mutation_once_def Let_def intro: created lost)
next
  case (Some r)
  show thesis
  proof (cases "receipt_expired (ca_now c) r \<and> pr_request_fingerprint r = ca_request_fingerprint c")
    case True
    let ?gone = "\<lambda>q. pr_receipt_id q = pr_receipt_id r \<and> pr_expires_at q \<le> ca_now c"
    have step: "(res, rows') = (if length (filter ?gone (race rows)) \<noteq> 1 then (Return None, race rows)
        else (Return None, filter (\<lambda>q. \<not> ?gone q) (race rows)))"
      unfolding once [symmetric] claim_portal_mutation_once_def Some option.case Let_def
      by (simp only: True not_not simp_thms if_True if_False)
    show thesis
    proof (cases "length (filter ?gone (race rows)) \<noteq> 1")
      case lost: True
      from step have "res = Return None" "rows' = race rows" by (simp_all only: lost if_True prod.inject simp_thms)
      moreover have "race rows = filter (\<lambda>_. True) (race rows)" by simp
      ultimately show thesis using expired [OF Some conjunct1 [OF True], of "\<lambda>_. True"] by simp
    next
      case gone: False
      from step have "res = Return None" "rows' = filter (\<lambda>q. \<not> ?gone q) (race rows)"
        by (simp_all only: gone if_False prod.inject simp_thms)
      then show thesis by (rule expired [OF Some conjunct1 [OF True]]) blast
    qed
  next
    case False
    have "rows' = rows \<and> ((\<exists>e. res = Raise e) \<or> (\<exists>replay. res = Return (Some (Replayed replay))
         \<and> pr_state r = PORTAL_IDEMPOTENCY_STATE_COMPLETED \<and> pr_request_fingerprint r = ca_request_fingerprint c))"
    proof (cases "pr_request_fingerprint r = ca_request_fingerprint c")
      case fp: True
      with False have live: "\<not> receipt_expired (ca_now c) r" by blast
      show ?thesis
      proof (cases "pr_state r = PORTAL_IDEMPOTENCY_STATE_COMPLETED")
        case True
        have "(res, rows') = (case decrypt_portal_idempotency_response lib settings (pr_response_body_ciphertext r) of
                  Inr response_body \<Rightarrow>
                    (Return (Some (Replayed \<lparr>pp_status_code =
                        (case pr_response_status r of None \<Rightarrow> 500 | Some s \<Rightarrow> if s = 0 then 500 else s),
                        pp_body = response_body\<rparr>)), rows)
                | Inl (RuntimeError _) \<Rightarrow>
                    (Raise (PortalIdempotencyError 503 ''portal.idempotency_receipt_unavailable''
                       ''Portal idempotency receipt could not be read safely''), rows)
                | Inl e \<Rightarrow> (Raise (PortalSecretError e), rows))"
          unfolding once [symmetric] claim_portal_mutation_once_def Some option.case
          by (simp only: fp live True simp_thms if_True if_False)
        with fp True show ?thesis
          by (cases "decrypt_portal_idempotency_response lib settings (pr_response_body_ciphertext r)")
             (auto split: secret_error.splits)
      next
        case pending: False
        have "\<exists>e. (res, rows') = (Raise e, rows)"
          unfolding once [symmetric] claim_portal_mutation_once_def Some option.case
          by (simp only: fp live pending simp_thms if_True if_False split: if_split) blast
        then show ?thesis by auto
      qed
    next
      case fp: False
      have "\<exists>e. (res, rows') = (Raise e, rows)"
        unfolding once [symmetric] claim_portal_mutation_once_def Some option.case
        by (simp only: fp simp_thms if_True) blast
      then show ?thesis by auto
    qed
    with Some False show thesis by (intro answered [of r]) auto
  qed
qed

subsection \<open>Steps\<close>

record portal_state =
  ps_receipts :: receipt_table
  ps_live :: "portal_claim list"

definition portal_init :: "portal_state \<Rightarrow> bool" where
  "portal_init st \<longleftrightarrow> ps_receipts st = [] \<and> ps_live st = []"

definition gained :: "(portal_error, portal_outcome option) outcome \<Rightarrow> portal_claim list" where
  "gained res = (case res of Inr (Some (Claimed claim)) \<Rightarrow> [claim] | _ \<Rightarrow> [])"

inductive portal_step :: "portal_state \<Rightarrow> portal_state \<Rightarrow> bool" where
  claim: "claim_portal_mutation_once lib settings (\<lambda>rows. rows) c (ps_receipts st) = (res, rows') \<Longrightarrow>
    portal_step st (st\<lparr>ps_receipts := rows', ps_live := gained res @ ps_live st\<rparr>)"
| release: "claim \<in> set (ps_live st) \<Longrightarrow> release_unexecuted_portal_mutation claim (ps_receipts st) = (Return (), rows') \<Longrightarrow>
    portal_step st (st\<lparr>ps_receipts := rows', ps_live := remove1 claim (ps_live st)\<rparr>)"
| complete: "claim \<in> set (ps_live st) \<Longrightarrow>
    complete_portal_mutation lib settings json_loads now limit claim status body (ps_receipts st) = (Return (), rows') \<Longrightarrow>
    portal_step st (st\<lparr>ps_receipts := rows', ps_live := remove1 claim (ps_live st)\<rparr>)"
| crash: "portal_step st (st\<lparr>ps_live := remove1 claim (ps_live st)\<rparr>)"
| cleanup: "portal_step st (st\<lparr>ps_receipts := snd (cleanup_expired_portal_mutation_receipts now n (ps_receipts st))\<rparr>)"

inductive_cases portal_stepE: "portal_step st st'"

text \<open>Receipts are well-formed and every live claim owns a receipt of its own.\<close>

definition portal_inv :: "portal_state \<Rightarrow> bool" where
  "portal_inv st \<longleftrightarrow> receipts_wf (ps_receipts st) \<and> distinct (map pc_request (ps_live st))
     \<and> (\<forall>claim\<in>set (ps_live st). \<exists>r\<in>set (ps_receipts st). owns claim r)"

lemma portal_inv_drop:
  assumes "portal_inv st" and "receipts_wf rows'"
    and "\<And>claim r. claim \<in> set (remove1 gone (ps_live st)) \<Longrightarrow> r \<in> set (ps_receipts st) \<Longrightarrow> owns claim r \<Longrightarrow> r \<in> set rows'"
  shows "portal_inv (st\<lparr>ps_receipts := rows', ps_live := remove1 gone (ps_live st)\<rparr>)"
proof -
  have "distinct (ps_live st)" using assms(1) by (auto simp: portal_inv_def distinct_map)
  then have "distinct (map pc_request (remove1 gone (ps_live st)))"
    using assms(1) by (auto simp: portal_inv_def distinct_map inj_on_def)
  then show ?thesis
    using assms set_remove1_subset [of gone "ps_live st"] unfolding portal_inv_def by fastforce
qed

lemma other_owner:
  assumes "portal_inv st" and "gone \<in> set (ps_live st)" and "claim \<in> set (remove1 gone (ps_live st))"
    and "owns claim r"
  shows "\<not> owns gone r"
proof
  assume "owns gone r"
  then have "pc_request gone = pc_request claim" using assms(4) owns_receipt by metis
  moreover have "distinct (map pc_request (ps_live st))" using assms(1) by (simp add: portal_inv_def)
  ultimately have "gone = claim"
    using assms(2,3) notin_set_remove1 by (fastforce simp: distinct_map inj_on_def dest: set_remove1_subset [THEN subsetD])
  with assms(1,3) show False by (auto simp: portal_inv_def distinct_map)
qed

lemma portal_inv_init: "portal_init st \<Longrightarrow> portal_inv st"
  by (simp add: portal_init_def portal_inv_def receipts_wf_def keys_distinct_def)

lemma cleanup_subset:
  assumes "r \<in> set rows" and "pr_state r = PORTAL_IDEMPOTENCY_STATE_PROCESSING" and "receipts_wf rows"
  shows "r \<in> set (snd (cleanup_expired_portal_mutation_receipts now n rows))"
proof -
  have "pr_receipt_id q \<noteq> pr_receipt_id r" if "q \<in> set rows" "receipt_expired now q" for q
  proof
    assume "pr_receipt_id q = pr_receipt_id r"
    with that(1) assms(1,3) have "q = r"
      by (metis receipts_wf_def option.inject row_get_unique)
    with that(2) assms(2) show False by (simp add: receipt_expired_def)
  qed
  then have "pr_receipt_id r \<notin> set (map pr_receipt_id (sql_limit l (sort_key k (filter (receipt_expired now) rows))))"
    for l and k :: "portal_receipt \<Rightarrow> instant \<times> string"
    by (force simp: sql_limit_def dest!: in_set_takeD)
  with assms(1) show ?thesis
    by (simp add: cleanup_expired_portal_mutation_receipts_def Let_def)
qed

lemma cleanup_wf: "receipts_wf rows \<Longrightarrow> receipts_wf (snd (cleanup_expired_portal_mutation_receipts now n rows))"
  by (simp add: cleanup_expired_portal_mutation_receipts_def Let_def receipts_wf_filter)

lemma claim_step_inv:
  assumes inv: "portal_inv st"
    and once: "claim_portal_mutation_once lib settings (\<lambda>rows. rows) c (ps_receipts st) = (res, rows')"
  shows "portal_inv (st\<lparr>ps_receipts := rows', ps_live := gained res @ ps_live st\<rparr>)"
proof -
  have wf: "receipts_wf (ps_receipts st)" using inv by (simp add: portal_inv_def)
  from once show ?thesis
  proof (cases rule: claim_once_cases)
    case created
    let ?claim = "claim_from_receipt (ca_now c) (new_receipt c)"
    have owner: "owns ?claim (new_receipt c)" by (simp add: owns_def claim_from_receipt_def new_receipt_def)
    have "pc_request ?claim \<noteq> pc_request other" if "other \<in> set (ps_live st)" for other
    proof
      assume same: "pc_request ?claim = pc_request other"
      from inv that obtain r where r: "r \<in> set (ps_receipts st)" "owns other r" by (auto simp: portal_inv_def)
      from created(1) r(1) have "pr_request r \<noteq> (ca_principal_id c, ca_idempotency_key c)" by (simp add: find_receipt_None)
      with same owns_receipt [OF r(2)] show False
        by (simp add: pc_request_def claim_from_receipt_def new_receipt_def)
    qed
    then show ?thesis
      using inv created insert_wf [OF wf created(2)] owner by (fastforce simp: portal_inv_def gained_def)
  next
    case (expired r P)
    have state: "pr_state r = PORTAL_IDEMPOTENCY_STATE_COMPLETED" using expired(2) by (simp add: receipt_expired_def)
    have r: "r \<in> set (ps_receipts st)" using find_receipt_Some [OF expired(1)] by simp
    have "P q" if "q \<in> set (ps_receipts st)" "owns claim q" for claim q
    proof (rule ccontr)
      assume "\<not> P q"
      with expired(5) have "pr_receipt_id q = pr_receipt_id r" by blast
      with wf r that(1) have "q = r" by (metis receipts_wf_def option.inject row_get_unique)
      with owns_receipt [OF that(2)] state show False by simp
    qed
    then show ?thesis
      using inv expired(3,4) receipts_wf_filter [OF wf] by (fastforce simp: portal_inv_def gained_def)
  qed (use inv in \<open>auto simp: gained_def portal_inv_def\<close>)
qed

lemma portal_inv_step: "portal_inv st \<Longrightarrow> portal_step st st' \<Longrightarrow> portal_inv st'"
proof (elim portal_stepE)
  assume inv: "portal_inv st"
  then have wf: "receipts_wf (ps_receipts st)" by (simp add: portal_inv_def)
  {
    fix lib settings c res rows'
    assume "st' = st\<lparr>ps_receipts := rows', ps_live := gained res @ ps_live st\<rparr>"
      "claim_portal_mutation_once lib settings (\<lambda>rows. rows) c (ps_receipts st) = (res, rows')"
    with claim_step_inv [OF inv] show "portal_inv st'" by simp
  next
    fix claim rows'
    assume st': "st' = st\<lparr>ps_receipts := rows', ps_live := remove1 claim (ps_live st)\<rparr>"
      and live: "claim \<in> set (ps_live st)" "release_unexecuted_portal_mutation claim (ps_receipts st) = (Return (), rows')"
    from wf live(2) have rows': "rows' = filter (\<lambda>r. \<not> owns claim r) (ps_receipts st)"
      by (cases rule: release_cases) auto
    show "portal_inv st'"
      unfolding st' by (rule portal_inv_drop [OF inv])
        (use receipts_wf_filter [OF wf] other_owner [OF inv live(1)] in \<open>auto simp: rows'\<close>)
  next
    fix claim lib settings json_loads now limit status body rows'
    assume st': "st' = st\<lparr>ps_receipts := rows', ps_live := remove1 claim (ps_live st)\<rparr>"
      and live: "claim \<in> set (ps_live st)"
        "complete_portal_mutation lib settings json_loads now limit claim status body (ps_receipts st) = (Return (), rows')"
    from wf live(2) obtain ciphertext where
      rows': "rows' = rows_update (owns claim) (complete_receipt now status ciphertext) (ps_receipts st)"
      by (cases rule: complete_cases) auto
    have "q \<in> set rows'" if "other \<in> set (remove1 claim (ps_live st))" "q \<in> set (ps_receipts st)" "owns other q" for other q
      using other_owner [OF inv live(1) that(1,3)] that(2) by (auto simp: rows' in_rows_update intro: bexI [of _ q])
    then show "portal_inv st'"
      unfolding st' by (intro portal_inv_drop [OF inv]) (auto simp: rows' complete_rows_wf [OF wf])
  next
    fix claim
    assume "st' = st\<lparr>ps_live := remove1 claim (ps_live st)\<rparr>"
    then show "portal_inv st'" using portal_inv_drop [OF inv wf, of claim] by simp
  next
    fix now n
    assume st': "st' = st\<lparr>ps_receipts := snd (cleanup_expired_portal_mutation_receipts now n (ps_receipts st))\<rparr>"
    show "portal_inv st'"
      using inv cleanup_wf [OF wf] cleanup_subset [OF _ _ wf] owns_receipt unfolding st' portal_inv_def by fastforce
  }
qed

interpretation portal: invariant_system portal_init portal_step portal_inv
  by unfold_locales (auto intro: portal_inv_init portal_inv_step)

end
