(* ===== verification/PortalProperties.thy ===== *)
theory PortalProperties
  imports PortalSystem
begin

section \<open>Properties of Portal idempotency\<close>

text \<open>
  A Portal mutation is executed by at most one request at a time and its stored response is what every
  repetition gets.
\<close>

subsection \<open>Example rows\<close>

definition demo_attempt :: "string \<Rightarrow> instant \<Rightarrow> claim_attempt" where
  "demo_attempt receipt_id now =
     \<lparr>ca_receipt_id = receipt_id, ca_principal_id = ''p1'', ca_idempotency_key = ''k1'', ca_method = ''POST'',
      ca_route = ''/x'', ca_request_fingerprint = ''f1'', ca_claim_token = ''t1'', ca_lease_expires_at = now + 10,
      ca_expires_at = now + 100, ca_retention_ttl_seconds = 60, ca_now = now\<rparr>"

definition demo_receipt :: portal_receipt where
  "demo_receipt = new_receipt (demo_attempt ''i1'' 1)"

definition demo_claim_token :: portal_claim where
  "demo_claim_token = claim_from_receipt 1 demo_receipt"

lemma demo_attempt_fields [simp]:
  "ca_principal_id (demo_attempt i t) = ''p1''" "ca_idempotency_key (demo_attempt i t) = ''k1''"
  "ca_request_fingerprint (demo_attempt i t) = ''f1''" "ca_now (demo_attempt i t) = t"
  "ca_retention_ttl_seconds (demo_attempt i t) = 60" "ca_lease_expires_at (demo_attempt i t) = t + 10"
  by (simp_all add: demo_attempt_def)

lemma demo_receipt_fields [simp]:
  "pr_principal_id demo_receipt = ''p1''" "pr_idempotency_key demo_receipt = ''k1''"
  "pr_request_fingerprint demo_receipt = ''f1''" "pr_state demo_receipt = PORTAL_IDEMPOTENCY_STATE_PROCESSING"
  "pr_request demo_receipt = (''p1'', ''k1'')" "pr_lease_expires_at demo_receipt = Some 11"
  "pr_retention_ttl_seconds demo_receipt = 60"
  by (simp_all add: demo_receipt_def new_receipt_def pr_request_def)

lemma demo_receipts_wf: "receipts_wf [demo_receipt]"
  unfolding demo_receipt_def
  using insert_wf [of "[]" "demo_attempt ''i1'' 1"]
  by (simp add: receipts_wf_def insert_refused_def keys_distinct_def new_receipt_def)

lemma demo_owner: "owns demo_claim_token demo_receipt"
  by (simp add: owns_def demo_claim_token_def claim_from_receipt_def) (simp add: demo_receipt_def new_receipt_def)

lemma demo_first_claim:
  "claim_portal_mutation_once lib settings (\<lambda>rows. rows) (demo_attempt ''i1'' 1) []
    = (Return (Some (Claimed demo_claim_token)), [demo_receipt])"
proof -
  have "\<not> insert_refused demo_receipt []" by (simp add: insert_refused_def)
  then show ?thesis
    unfolding claim_portal_mutation_once_def find_receipt_def demo_claim_token_def demo_receipt_def
    by (simp add: Let_def)
qed

lemma demo_completed:
  obtains rows' where "complete_portal_mutation demo_crypto demo_settings (\<lambda>_. Some (JBool True)) 5 100 demo_claim_token 200 [116]
      [demo_receipt] = (Return (), rows')"
proof -
  obtain ciphertext where enc: "encrypt_portal_idempotency_response demo_crypto demo_settings [116] = Return ciphertext"
    using demo_encrypts(1) [OF stored_purposes(4)] unfolding encrypt_portal_idempotency_response_def by blast
  have "row_get pr_receipt_id (pc_receipt_id demo_claim_token) [demo_receipt] = Some demo_receipt"
    using demo_owner by (simp add: row_get_def owns_def)
  then show thesis
    using that demo_owner by (simp add: complete_portal_mutation_def enc)
qed

subsection \<open>At most one executor\<close>



subsection \<open>Outcomes of a claim\<close>

lemma claim_on_processing:
  assumes wf: "receipts_wf rows" and r: "r \<in> set rows" "pr_state r = PORTAL_IDEMPOTENCY_STATE_PROCESSING"
    and req: "pr_principal_id r = ca_principal_id c" "pr_idempotency_key r = ca_idempotency_key c"
  shows "claim_portal_mutation_once lib settings race c rows =
    (Raise (if pr_request_fingerprint r \<noteq> ca_request_fingerprint c
            then PortalIdempotencyError 409 ''portal.idempotency_conflict''
                   ''Idempotency-Key was already used for a different Portal request''
            else if (\<exists>t. pr_lease_expires_at r = Some t \<and> ca_now c < t) then in_progress_error
            else PortalIdempotencyError 409 ''portal.idempotency_indeterminate''
                   ''The original Portal request may have completed and requires reconciliation''), rows)"
proof -
  have found: "find_receipt (ca_principal_id c) (ca_idempotency_key c) rows = Some r"
    using req by (intro find_receipt_unique [OF wf r(1)]) (simp add: pr_request_def)
  have not_done: "pr_state r \<noteq> PORTAL_IDEMPOTENCY_STATE_COMPLETED" "\<not> receipt_expired (ca_now c) r"
    using r(2) by (simp_all add: receipt_expired_def)
  have "receipt_wf r" using wf r(1) by (simp add: receipts_wf_def)
  with r(2) obtain t where "pr_lease_expires_at r = Some t" by (auto simp: receipt_wf_def)
  then show ?thesis
    unfolding claim_portal_mutation_once_def found option.case
    by (simp only: not_done simp_thms if_True if_False option.case option.inject ex_simps cong: if_cong) simp
qed

text \<open>C27: Once a request holds a receipt, nobody is ever given it again: every other claim under the same
  principal and key is refused - as a conflict for a different request, as in progress while the lease
  runs, as indeterminate after it, because the mutation may have happened - and changes nothing.\<close>

theorem processing_receipt_is_never_reissued:
  assumes "receipts_wf rows" and "r \<in> set rows" and "pr_state r = PORTAL_IDEMPOTENCY_STATE_PROCESSING"
    and "pr_principal_id r = ca_principal_id c" and "pr_idempotency_key r = ca_idempotency_key c"
  shows "\<exists>code message. claim_portal_mutation_once lib settings race c rows = (Raise (PortalIdempotencyError 409 code message), rows)
    \<and> code = (if pr_request_fingerprint r \<noteq> ca_request_fingerprint c then ''portal.idempotency_conflict''
              else if \<exists>t. pr_lease_expires_at r = Some t \<and> ca_now c < t then ''portal.idempotency_in_progress''
              else ''portal.idempotency_indeterminate'')"
  unfolding claim_on_processing [OF assms] in_progress_error_def by (simp only: split: if_split) blast

theorem processing_receipt_is_never_reissued_witness:
  "\<exists>message. claim_portal_mutation_once demo_crypto demo_settings (\<lambda>rows. rows) (demo_attempt ''i2'' 50) [demo_receipt]
     = (Raise (PortalIdempotencyError 409 ''portal.idempotency_indeterminate'' message), [demo_receipt])"
  using processing_receipt_is_never_reissued [OF demo_receipts_wf, of demo_receipt "demo_attempt ''i2'' 50" demo_crypto demo_settings "\<lambda>rows. rows"]
  by simp

text \<open>Two requests that both saw no receipt cannot both win: when one has inserted its receipt, the insert
  of the other is refused, and its retry finds the winner's receipt and is refused as well.\<close>

theorem simultaneous_claims_have_one_winner:
  assumes "receipts_wf rows"
    and "claim_portal_mutation_once lib settings (\<lambda>rows. rows) a rows = (Return (Some (Claimed winner)), rows1)"
    and "ca_principal_id b = ca_principal_id a" and "ca_idempotency_key b = ca_idempotency_key a"
  shows "claim_portal_mutation_once lib settings (\<lambda>_. rows1) b rows = (Return None, rows1)
    \<and> (\<exists>code message. claim_portal_mutation_once lib settings (\<lambda>rows. rows) b rows1
         = (Raise (PortalIdempotencyError 409 code message), rows1))"
  using assms(2)
proof (cases rule: claim_once_cases)
  case created
  have wf1: "receipts_wf rows1" unfolding created(4) by (rule insert_wf [OF assms(1) created(2)])
  let ?r = "new_receipt a"
  have r: "?r \<in> set rows1" "pr_state ?r = PORTAL_IDEMPOTENCY_STATE_PROCESSING"
    "pr_principal_id ?r = ca_principal_id b" "pr_idempotency_key ?r = ca_idempotency_key b"
    using created(4) assms(3,4) by (simp_all add: new_receipt_def)
  have refused: "insert_refused (new_receipt b) rows1"
    unfolding insert_refused_def list_ex_iff
    by (intro disjI2 bexI [OF _ r(1)] conjI) (simp_all add: new_receipt_def assms(3,4))
  have first: "claim_portal_mutation_once lib settings (\<lambda>_. rows1) b rows = (Return None, rows1)"
    using created(1) refused assms(3,4) by (simp add: claim_portal_mutation_once_def)
  have "\<exists>code message. claim_portal_mutation_once lib settings (\<lambda>rows. rows) b rows1
         = (Raise (PortalIdempotencyError 409 code message), rows1)"
    unfolding claim_on_processing [OF wf1 r] in_progress_error_def by (simp only: split: if_split) blast
  with first show ?thesis by blast
qed auto

theorem simultaneous_claims_have_one_winner_witness:
  "claim_portal_mutation_once demo_crypto demo_settings (\<lambda>_. [demo_receipt]) (demo_attempt ''i2'' 2) []
     = (Return None, [demo_receipt])"
  using simultaneous_claims_have_one_winner [OF _ demo_first_claim, of "demo_attempt ''i2'' 2" demo_crypto demo_settings]
  by (simp add: receipts_wf_def keys_distinct_def)

subsection \<open>Completion and replay\<close>

text \<open>C28: A completed mutation is replayed: until the retention time of its receipt is over, every claim with
  the same principal, key and fingerprint gets exactly the status and the body that were stored, and the
  table is left alone.\<close>

theorem stored_response_is_replayed:
  assumes "receipts_wf rows" and "fernet_documented lib"
    and "complete_portal_mutation lib settings json_loads now limit claim status body rows = (Return (), rows')"
    and "ca_principal_id c = pc_principal_id claim" and "ca_idempotency_key c = pc_idempotency_key claim"
    and "ca_request_fingerprint c = pc_request_fingerprint claim"
    and "\<forall>r\<in>set rows. owns claim r \<longrightarrow> ca_now c < now + seconds (pr_retention_ttl_seconds r)"
  shows "claim_portal_mutation_once lib settings race c rows'
    = (Return (Some (Replayed \<lparr>pp_status_code = status, pp_body = body\<rparr>)), rows')"
  using assms(1,3)
proof (cases rule: complete_cases)
  case (stored ciphertext)
  then obtain r where r: "r \<in> set rows" "owns claim r" by blast
  let ?r = "complete_receipt now status ciphertext r"
  have wf': "receipts_wf rows'" unfolding stored(8) by (rule complete_rows_wf [OF assms(1)])
  have "?r \<in> set rows'" using r by (auto simp: stored(8) in_rows_update)
  moreover have "pr_request ?r = (ca_principal_id c, ca_idempotency_key c)"
    using owns_receipt [OF r(2)] assms(4,5) by (simp add: complete_receipt_def pr_request_def pc_request_def)
  ultimately have found: "find_receipt (ca_principal_id c) (ca_idempotency_key c) rows' = Some ?r"
    by (rule find_receipt_unique [OF wf'])
  have same: "pr_request_fingerprint ?r = ca_request_fingerprint c"
    using r(2) assms(6) by (simp add: complete_receipt_def owns_def)
  have fresh: "\<not> receipt_expired (ca_now c) ?r"
    using r assms(7) by (auto simp: receipt_expired_def complete_receipt_def)
  have fields: "pr_state ?r = PORTAL_IDEMPOTENCY_STATE_COMPLETED" "pr_response_status ?r = Some status"
    "pr_response_body_ciphertext ?r = Some ciphertext" by (simp_all add: complete_receipt_def)
  have dec: "decrypt_portal_idempotency_response lib settings (Some ciphertext) = Return body"
    by (rule idempotency_response_roundtrip [OF assms(2) stored(6)])
  show ?thesis
    unfolding claim_portal_mutation_once_def found option.case
    using stored(2) by (simp add: same fresh fields dec)
qed simp

theorem stored_response_is_replayed_witness:
  "\<exists>rows'. claim_portal_mutation_once demo_crypto demo_settings (\<lambda>rows. rows) (demo_attempt ''i2'' 9) rows'
     = (Return (Some (Replayed \<lparr>pp_status_code = 200, pp_body = [116]\<rparr>)), rows')"
proof (rule demo_completed)
  fix rows'
  assume "complete_portal_mutation demo_crypto demo_settings (\<lambda>_. Some (JBool True)) 5 100 demo_claim_token 200 [116]
      [demo_receipt] = (Return (), rows')"
  from stored_response_is_replayed [OF demo_receipts_wf demo_documented this, of "demo_attempt ''i2'' 9" "\<lambda>rows. rows"]
  show ?thesis by (auto simp: demo_claim_token_def claim_from_receipt_def seconds_def)
qed

text \<open>A claim is good for one end only: after a completion the same claim can neither be completed nor
  released again, so a stored response is never overwritten or removed by its claimant; and a claim that
  owns no receipt changes nothing.\<close>

theorem claim_is_spent_by_completion:
  assumes "receipts_wf rows"
    and "complete_portal_mutation lib settings json_loads now limit claim status body rows = (Return (), rows')"
  shows "(\<exists>e. release_unexecuted_portal_mutation claim rows' = (Raise e, rows'))
    \<and> (\<exists>e. complete_portal_mutation lib settings json_loads later limit' claim status' body' rows' = (Raise e, rows'))
    \<and> (\<forall>q\<in>set rows. pr_receipt_id q \<noteq> pc_receipt_id claim \<longrightarrow> q \<in> set rows')"
  using assms
proof (cases rule: complete_cases)
  case (stored ciphertext)
  let ?t = "(claim, now, status, ciphertext)"
  have guard: "(\<lambda>r. pr_receipt_id r = pc_receipt_id claim \<and> completion_guard ?t r) = owns claim"
    by (auto simp: completion_guard_def dest: owns_receipt)
  have effect: "completion_effect ?t = complete_receipt now status ciphertext"
    by (auto simp: completion_effect_def)
  have rows': "rows' = completion.claim_rows ?t (pc_receipt_id claim) rows"
    by (simp only: stored(8) completion.claim_rows_def guard effect)
  have wins: "completion.claim_wins ?t (pc_receipt_id claim) rows"
    using stored(7) by (auto simp: completion.claim_wins_def completion_guard_def dest: owns_receipt)
  have kd: "keys_distinct pr_receipt_id rows" using assms(1) by (simp add: receipts_wf_def)
  have spent: "\<not> (\<exists>r\<in>set rows'. owns claim r)"
    using completion.claim_single_winner [OF kd wins, of ?t]
    by (auto simp: rows' completion.claim_wins_def completion_guard_def dest: owns_receipt)
  have wf': "receipts_wf rows'" unfolding stored(8) by (rule complete_rows_wf [OF assms(1)])
  have "\<exists>e. release_unexecuted_portal_mutation claim rows' = (Raise e, rows')"
    using release_cases [OF wf', of claim] spent by (metis surj_pair)
  moreover have "\<exists>e. complete_portal_mutation lib settings json_loads later limit' claim status' body' rows' = (Raise e, rows')"
    using complete_cases [OF wf', of lib settings json_loads later limit' claim status' body'] spent by (metis surj_pair)
  moreover have "\<forall>q\<in>set rows. pr_receipt_id q \<noteq> pc_receipt_id claim \<longrightarrow> q \<in> set rows'"
    using completion.claim_frame by (auto simp: rows')
  ultimately show ?thesis by blast
qed simp

theorem claim_is_spent_by_completion_witness:
  "\<exists>rows' e. release_unexecuted_portal_mutation demo_claim_token rows' = (Raise e, rows') \<and> rows' \<noteq> []"
proof (rule demo_completed)
  fix rows'
  assume ran: "complete_portal_mutation demo_crypto demo_settings (\<lambda>_. Some (JBool True)) 5 100 demo_claim_token 200 [116]
      [demo_receipt] = (Return (), rows')"
  have "rows' \<noteq> []"
  proof
    assume "rows' = []"
    with demo_receipts_wf ran show False by (cases rule: complete_cases) (auto simp: rows_update_def)
  qed
  with claim_is_spent_by_completion [OF demo_receipts_wf ran] show ?thesis by blast
qed

subsection \<open>Clean-up\<close>

text \<open>A clean-up deletes at most 100 receipts, reports exactly how many, and deletes completed, expired
  receipts only: a receipt in progress, however old, and every response that may still be replayed
  survive.\<close>

theorem cleanup_is_bounded_and_safe:
  assumes "receipts_wf rows" and "cleanup_expired_portal_mutation_receipts now batch_size rows = (n, rows')"
  shows "0 \<le> n \<and> n \<le> 100 \<and> int (length rows') = int (length rows) - n \<and> set rows' \<subseteq> set rows
    \<and> (\<forall>r\<in>set rows. r \<notin> set rows' \<longrightarrow> pr_state r = PORTAL_IDEMPOTENCY_STATE_COMPLETED \<and> pr_expires_at r \<le> now)"
proof -
  define limit where "limit = max 1 (min batch_size PORTAL_IDEMPOTENCY_CLEANUP_BATCH_SIZE)"
  define picked where "picked = sql_limit limit (sort_key (\<lambda>r. (pr_expires_at r, pr_receipt_id r)) (filter (receipt_expired now) rows))"
  let ?gone = "\<lambda>r. pr_receipt_id r \<in> set (map pr_receipt_id picked)"
  have kd: "keys_distinct pr_receipt_id rows" using assms(1) by (simp add: receipts_wf_def)
  have inj: "p = r" if "p \<in> set rows" "r \<in> set rows" "pr_receipt_id p = pr_receipt_id r" for p r
    by (rule keys_distinct_inj [OF kd that])
  have sub: "p \<in> set rows \<and> receipt_expired now p" if "p \<in> set picked" for p
    using that by (auto simp: picked_def sql_limit_def dest!: in_set_takeD)
  have gone: "?gone r \<longleftrightarrow> r \<in> set picked" if "r \<in> set rows" for r
    using inj [OF _ that] sub by (auto simp: image_iff) metis
  have "distinct rows" using kd by (simp add: keys_distinct_def distinct_map)
  then have "card (set (filter ?gone rows)) = length (filter ?gone rows)" by (intro distinct_card distinct_filter)
  moreover have "set (filter ?gone rows) = set picked" using gone sub by auto
  ultimately have "length (filter ?gone rows) \<le> length picked" using card_length [of picked] by simp
  also have "length picked \<le> nat limit" by (simp add: picked_def sql_limit_def)
  finally have len: "int (length (filter ?gone rows)) \<le> 100"
    by (simp add: limit_def PORTAL_IDEMPOTENCY_CLEANUP_BATCH_SIZE_def)
  have result: "n = int (length (filter ?gone rows)) \<and> rows' = filter (\<lambda>r. \<not> ?gone r) rows"
    using assms(2) unfolding cleanup_expired_portal_mutation_receipts_def Let_def limit_def [symmetric] picked_def [symmetric]
    by (auto split: if_splits)
  have "length (filter ?gone rows) + length (filter (\<lambda>r. \<not> ?gone r) rows) = length rows"
    by (rule sum_length_filter_compl)
  moreover have "pr_state r = PORTAL_IDEMPOTENCY_STATE_COMPLETED \<and> pr_expires_at r \<le> now"
    if "r \<in> set rows" "r \<notin> set rows'" for r
    using that gone sub result by (auto simp: receipt_expired_def)
  ultimately show ?thesis using len result by auto
qed

theorem cleanup_is_bounded_and_safe_witness:
  "cleanup_expired_portal_mutation_receipts 1000 7 [demo_receipt] = (0, [demo_receipt])
    \<and> set (snd (cleanup_expired_portal_mutation_receipts 1000 7 [demo_receipt])) \<subseteq> {demo_receipt}"
proof -
  have run: "cleanup_expired_portal_mutation_receipts 1000 7 [demo_receipt] = (0, [demo_receipt])"
    by (simp add: cleanup_expired_portal_mutation_receipts_def receipt_expired_def sql_limit_def)
  from cleanup_is_bounded_and_safe [OF demo_receipts_wf run] run show ?thesis by simp
qed

end
