(* ===== verification/RequestAuthProperties.thy ===== *)
theory RequestAuthProperties
  imports RequestDemo
begin

section \<open>What the request guards promise\<close>

subsection \<open>What an accepted request went through\<close>

lemma raised_at_Return [simp]: "raised_at p r = Return v \<longleftrightarrow> r = Return v"
  by (cases r) (simp_all add: raised_at_def)

lemma rejected_Return [simp]: "rejected r = Return v \<longleftrightarrow> r = Return v"
  by (cases r) (simp_all add: rejected_def)

lemma rejected_Raise: "rejected r = Raise f \<Longrightarrow> \<exists>e. f = Rejected e"
  by (cases r) (auto simp: rejected_def)

lemma require_header_Return [simp]:
  "require_header request name code = Return v \<longleftrightarrow> v = py_strip (header request name) \<and> v \<noteq> []"
  by (auto simp: require_header_def Let_def)

lemma validate_signature_format_Return [simp]: "validate_signature_format s = Return u \<longleftrightarrow> SHA256_HEX_PATTERN s"
  by (simp add: validate_signature_format_def)

lemma validate_timestamp_Return:
  "validate_timestamp fromiso timestamp now tolerance = Return u \<longleftrightarrow>
     (\<exists>t. parse_request_timestamp fromiso timestamp = Return t \<and> \<bar>now - t\<bar> \<le> seconds tolerance)"
  by (auto simp: validate_timestamp_def split: sum.splits timestamp_fault.splits)

lemma read_signed_headers_Return:
  assumes "read_signed_headers fromiso tolerance opts now request = Return (h, signature)"
  shows "h = \<lparr>rc_site = py_strip (header request ''X-Npcink-Site-Id''), rc_key = py_strip (header request ''X-Npcink-Key-Id''),
        rc_trace_id = extract_trace_id (py_strip (header request ''traceparent'')),
        rc_traceparent = py_strip (header request ''traceparent''), rc_nonce = py_strip (header request ''X-Npcink-Nonce''),
        rc_idempotency_key = py_strip (header request ''Idempotency-Key''),
        rc_timestamp = py_strip (header request ''X-Npcink-Timestamp''), rc_body_digest = []\<rparr>"
    and "rc_site h \<noteq> []" and "rc_key h \<noteq> []"
    and "signature = normalize_signature (py_strip (header request ''X-Npcink-Signature''))"
    and "py_strip (header request ''X-Npcink-Signature'') \<noteq> []"
    and "SHA256_HEX_PATTERN signature"
    and "validate_nonce (rc_nonce h) (requires_nonce request (ao_replay_policy opts)) = Return ()"
    and "validate_idempotency_key (rc_idempotency_key h) (ao_require_idempotency opts) = Return ()"
  using assms unfolding read_signed_headers_def Let_def by (auto simp: and_then_Return split: if_splits)

lemma validate_site_and_key_Return:
  assumes "validate_site_and_key site api_key site_id scope now = Return k"
  shows "api_key = Some k \<and> ak_site_id k = site_id \<and> ak_status k = ''active'' \<and> ak_revoked_at k = None
    \<and> \<not> sql_le (ak_expires_at k) now \<and> (\<exists>s. site = Some s \<and> st_status s = ''active'')
    \<and> (or_empty scope = [] \<or> expand_api_key_scopes (ak_scopes_json k) = []
       \<or> or_empty scope \<in> set (expand_api_key_scopes (ak_scopes_json k)))"
proof (cases api_key)
  case None
  with assms show ?thesis by (simp add: validate_site_and_key_def)
next
  case (Some k')
  with assms show ?thesis
    by (cases site) (simp_all add: validate_site_and_key_def Let_def split: if_split_asm)
qed

lemma signing_secret_Return:
  "resolve_site_api_signing_secret lib settings k = Return secret \<Longrightarrow>
     decrypt_site_api_signing_secret lib settings (ak_signing_secret_ciphertext k) = Return secret \<and> secret \<noteq> []"
  by (auto simp: resolve_site_api_signing_secret_def Let_def split: sum.splits secret_error.splits if_splits)

lemma compare_digest_Some: "compare_digest a b = Some same \<Longrightarrow> same \<longleftrightarrow> a = b"
  by (simp add: compare_digest_def split: if_splits)

text \<open>The credentials an accepted request presented, read in the database it was checked against.\<close>

definition authentic ::
    "crypto \<Rightarrow> encryption_settings \<Rightarrow> string option \<Rightarrow> instant \<Rightarrow> http_request \<Rightarrow> request_auth_context \<Rightarrow> string
      \<Rightarrow> auth_db \<Rightarrow> bool" where
  "authentic lib settings scope now request ctx signature db \<longleftrightarrow>
     (\<exists>k s secret. row_get ak_key_id (rc_key ctx) (ad_keys db) = Some k
        \<and> ak_site_id k = rc_site ctx \<and> ak_status k = ''active'' \<and> ak_revoked_at k = None
        \<and> \<not> sql_le (ak_expires_at k) now
        \<and> row_get st_site_id (rc_site ctx) (ad_sites db) = Some s \<and> st_status s = ''active''
        \<and> (or_empty scope = [] \<or> expand_api_key_scopes (ak_scopes_json k) = []
           \<or> or_empty scope \<in> set (expand_api_key_scopes (ak_scopes_json k)))
        \<and> decrypt_site_api_signing_secret lib settings (ak_signing_secret_ciphertext k) = Return secret
        \<and> secret \<noteq> [] \<and> signature = build_hmac_signature secret (canonical_request_of request ctx))"

lemma credentials_cases:
  assumes "authorize_site_credentials lib settings limits opts race now request ctx signature db = (Return u, db')"
  shows "authentic lib settings (ao_required_scope opts) now request ctx signature db \<and>
    (requires_nonce request (ao_replay_policy opts) \<longrightarrow>
      (\<exists>cooldown window scopes db1 db2. public_scopes limits (ao_replay_policy opts) (rc_site ctx) (rc_key ctx)
          (resolve_client_scope_id request) = (cooldown, window, scopes)
        \<and> pass_guards race cooldown (gl_cooldown_window_seconds limits) scopes window (rc_nonce ctx) (hr_method request)
            (hr_path request) (rc_trace_id ctx) now
            (resolve_replay_receipt_ttl_seconds (gl_timestamp_tolerance_seconds limits)) db = (Return db1, db2)
        \<and> ad_receipts db' = ad_receipts db1))
    \<and> (\<not> requires_nonce request (ao_replay_policy opts) \<longrightarrow> ad_receipts db' = ad_receipts db)"
proof -
  let ?checks = "and_then (rejected (preflight_site_and_key db (rc_site ctx) (rc_key ctx) (ao_required_scope opts) now))
             (\<lambda>authorized_key.
              and_then (resolve_site_api_signing_secret lib settings authorized_key) (\<lambda>signing_secret.
                case compare_digest (build_hmac_signature signing_secret (canonical_request_of request ctx)) signature of
                  None \<Rightarrow> Raise (Unhandled ''TypeError'')
                | Some same \<Rightarrow> if same then Return authorized_key else Raise (Rejected invalid_signature)))"
  obtain k where k: "?checks = Return k"
  proof (cases ?checks)
    case (Inl e)
    then show ?thesis using assms by (simp add: authorize_site_credentials_def)
  qed blast
  from k obtain secret where secret:
      "preflight_site_and_key db (rc_site ctx) (rc_key ctx) (ao_required_scope opts) now = Return k"
      "resolve_site_api_signing_secret lib settings k = Return secret"
      "signature = build_hmac_signature secret (canonical_request_of request ctx)"
    by (auto simp: and_then_Return dest: compare_digest_Some split: option.splits if_splits)
  have authentic: "authentic lib settings (ao_required_scope opts) now request ctx signature db"
    using validate_site_and_key_Return [OF secret(1) [unfolded preflight_site_and_key_def]]
      signing_secret_Return [OF secret(2)] secret(3) unfolding authentic_def by blast
  from assms have rest: "(let used = (\<lambda>db. db\<lparr>ad_keys := row_put ak_key_id (k\<lparr>ak_last_used_at := Some now\<rparr>) (ad_keys db)\<rparr>)
           in if \<not> requires_nonce request (ao_replay_policy opts) then (Return (), used db)
              else case public_scopes limits (ao_replay_policy opts) (rc_site ctx) (rc_key ctx)
                          (resolve_client_scope_id request) of
                (cooldown_scopes, rate_window, replay_scopes) \<Rightarrow>
                  (case pass_guards race cooldown_scopes (gl_cooldown_window_seconds limits) replay_scopes rate_window
                          (rc_nonce ctx) (hr_method request) (hr_path request) (rc_trace_id ctx) now
                          (resolve_replay_receipt_ttl_seconds (gl_timestamp_tolerance_seconds limits)) db of
                     (Inl e, db) \<Rightarrow> (Raise (Rejected e), db)
                   | (Inr db, _) \<Rightarrow> (Return (), used db))) = (Return u, db')"
    unfolding authorize_site_credentials_def k by simp
  then show ?thesis using authentic
    by (auto simp: Let_def split: prod.splits sum.splits if_splits)
qed

lemma authorize_request_Return:
  assumes "authorize_request lib settings fromiso limits opts source race clk request db = (Return ctx, db')"
  obtains h signature where
    "read_signed_headers fromiso (gl_timestamp_tolerance_seconds limits) opts (ac_preflight clk) request = Return (h, signature)"
    "resolve_body_digest opts source (ac_preflight clk) request h db = Return (rc_body_digest ctx)"
    "validate_timestamp fromiso (rc_timestamp h) (ac_now clk) (gl_timestamp_tolerance_seconds limits) = Return ()"
    "ctx = h\<lparr>rc_body_digest := rc_body_digest ctx\<rparr>"
    "authorize_site_credentials lib settings limits opts race (ac_now clk) request ctx signature db = (Return (), db')"
proof -
  from assms obtain h signature where h:
    "read_signed_headers fromiso (gl_timestamp_tolerance_seconds limits) opts (ac_preflight clk) request = Return (h, signature)"
    by (auto simp: authorize_request_def Let_def split: sum.splits prod.splits)
  from assms h obtain digest where d: "resolve_body_digest opts source (ac_preflight clk) request h db = Return digest"
    "validate_timestamp fromiso (rc_timestamp h) (ac_now clk) (gl_timestamp_tolerance_seconds limits) = Return ()"
    "authorize_site_credentials lib settings limits opts race (ac_now clk) request (h\<lparr>rc_body_digest := digest\<rparr>) signature db
      = (Return (), db')" "ctx = h\<lparr>rc_body_digest := digest\<rparr>"
    by (auto simp: authorize_request_def Let_def and_then_def split: sum.splits prod.splits)
  show ?thesis by (rule that [OF h]) (use d in simp_all)
qed

lemma accepted_request_is_authentic_lemma:
  assumes "authorize_request lib settings fromiso limits opts source race clk request db = (Return ctx, db')"
  shows "authentic lib settings (ao_required_scope opts) (ac_now clk) request ctx
      (normalize_signature (py_strip (header request ''X-Npcink-Signature''))) db
    \<and> rc_site ctx = py_strip (header request ''X-Npcink-Site-Id'') \<and> rc_site ctx \<noteq> []
    \<and> rc_key ctx = py_strip (header request ''X-Npcink-Key-Id'')
    \<and> (source = RequestBody \<longrightarrow> rc_body_digest ctx = build_body_digest (hr_body request)
         \<and> int (length (hr_body request)) \<le> ao_max_body_bytes opts)
    \<and> (\<exists>t. parse_request_timestamp fromiso (rc_timestamp ctx) = Return t
         \<and> \<bar>ac_now clk - t\<bar> \<le> seconds (gl_timestamp_tolerance_seconds limits))"
proof (rule authorize_request_Return [OF assms])
  fix h signature
  assume h: "read_signed_headers fromiso (gl_timestamp_tolerance_seconds limits) opts (ac_preflight clk) request = Return (h, signature)"
    and digest: "resolve_body_digest opts source (ac_preflight clk) request h db = Return (rc_body_digest ctx)"
    and time: "validate_timestamp fromiso (rc_timestamp h) (ac_now clk) (gl_timestamp_tolerance_seconds limits) = Return ()"
    and ctx: "ctx = h\<lparr>rc_body_digest := rc_body_digest ctx\<rparr>"
    and tx: "authorize_site_credentials lib settings limits opts race (ac_now clk) request ctx signature db = (Return (), db')"
  note headers = read_signed_headers_Return [OF h]
  have "rc_timestamp ctx = rc_timestamp h" "rc_site ctx = rc_site h" "rc_key ctx = rc_key h"
    by (subst ctx, simp)+
  moreover have "source = RequestBody \<longrightarrow> rc_body_digest ctx = build_body_digest (hr_body request)
      \<and> int (length (hr_body request)) \<le> ao_max_body_bytes opts"
    using digest by (auto simp: resolve_body_digest_def and_then_Return validate_payload_size_def
        validate_payload_byte_size_def split: if_splits)
  ultimately show ?thesis
    using credentials_cases [OF tx] headers(1,2,4) time by (simp add: validate_timestamp_Return)
qed

text \<open>C37: A request is accepted only with the credentials of its site: the key it names exists, belongs to the
  site, is active, not revoked and not expired and has the scope the endpoint asks for; the site is active; the
  signature is the HMAC, under the key's decrypted secret, of the canonical text of this very request,
  whose body digest is that of the received body; and the signed time is within the tolerance.\<close>

theorem accepted_request_is_authentic:
  assumes "authorize_request lib settings fromiso limits opts source race clk request db = (Return ctx, db')"
  shows "authentic lib settings (ao_required_scope opts) (ac_now clk) request ctx
      (normalize_signature (py_strip (header request ''X-Npcink-Signature''))) db
    \<and> rc_site ctx = py_strip (header request ''X-Npcink-Site-Id'') \<and> rc_site ctx \<noteq> []
    \<and> rc_key ctx = py_strip (header request ''X-Npcink-Key-Id'')
    \<and> (source = RequestBody \<longrightarrow> rc_body_digest ctx = build_body_digest (hr_body request)
         \<and> int (length (hr_body request)) \<le> ao_max_body_bytes opts)
    \<and> (\<exists>t. parse_request_timestamp fromiso (rc_timestamp ctx) = Return t
         \<and> \<bar>ac_now clk - t\<bar> \<le> seconds (gl_timestamp_tolerance_seconds limits))"
  by (rule accepted_request_is_authentic_lemma [OF assms])

theorem accepted_request_is_authentic_witness:
  "\<exists>ciphertext. authentic demo_crypto demo_settings None (seconds 5) demo_request demo_context
     (normalize_signature (py_strip (header demo_request ''X-Npcink-Signature''))) (demo_db ciphertext None [])"
proof (rule demo_ciphertext)
  fix ciphertext assume "decrypt_site_api_signing_secret demo_crypto demo_settings (Some ciphertext) = Return ''sk''"
  from accepted_request_is_authentic [OF demo_first [OF this, of "seconds 5"]] show ?thesis
    by (auto simp: demo_options_def demo_auth_clock_def)
qed

subsection \<open>Replay markers are kept\<close>

text \<open>A marker row may be renewed, but never disappears and never expires earlier.\<close>

definition markers_kept :: "replay_table \<Rightarrow> replay_table \<Rightarrow> bool" where
  "markers_kept rows rows' \<longleftrightarrow>
     (\<forall>m r. row_get rr_marker m rows = Some r \<longrightarrow>
        (\<exists>r'. row_get rr_marker m rows' = Some r' \<and> rr_expires_at r \<le> rr_expires_at r'))"

lemma markers_keptD:
  "markers_kept rows rows' \<Longrightarrow> row_get rr_marker m rows = Some r \<Longrightarrow>
     \<exists>r'. row_get rr_marker m rows' = Some r' \<and> rr_expires_at r \<le> rr_expires_at r'"
  unfolding markers_kept_def by blast

lemma markers_kept_refl [simp, intro]: "markers_kept rows rows"
  by (auto simp: markers_kept_def)

lemma markers_kept_trans: "markers_kept a b \<Longrightarrow> markers_kept b c \<Longrightarrow> markers_kept a c"
  unfolding markers_kept_def by (meson order_trans)

lemma row_get_snoc: "row_get key k (rows @ [r]) =
    (case row_get key k rows of None \<Rightarrow> if key r = k then Some r else None | Some x \<Rightarrow> Some x)"
  by (induction rows) (auto simp: row_get_def)

lemma marker_row_fields [simp]:
  "rr_marker (marker_row kind sid key method path trace now ttl) = (kind, sid, key)"
  "rr_expires_at (marker_row kind sid key method path trace now ttl) = now + seconds (max 1 ttl)"
  "rr_created_at (marker_row kind sid key method path trace now ttl) = now"
  "rr_scope_kind (marker_row kind sid key method path trace now ttl) = kind"
  "rr_scope_id (marker_row kind sid key method path trace now ttl) = sid"
  by (simp_all add: marker_row_def rr_marker_def)

lemma reserve_cases:
  assumes "reserve_replay_receipt kind sid key method path trace now ttl rows = Return rows'"
  shows "row_get rr_marker (kind, sid, key) rows' = Some (marker_row kind sid key method path trace now ttl)
    \<and> markers_kept rows rows'
    \<and> (\<forall>r. row_get rr_marker (kind, sid, key) rows = Some r \<longrightarrow> rr_expires_at r \<le> now)"
proof (cases "row_get rr_marker (kind, sid, key) rows")
  case None
  with assms have rows': "rows' = rows @ [marker_row kind sid key method path trace now ttl]"
    by (simp add: reserve_replay_receipt_def Let_def)
  have "markers_kept rows rows'" by (auto simp: markers_kept_def rows' row_get_snoc)
  then show ?thesis using None by (simp add: rows' row_get_snoc)
next
  case (Some r)
  let ?new = "marker_row kind sid key method path trace now ttl"
  from Some assms have old: "rr_expires_at r \<le> now" and rows': "rows' = row_put rr_marker ?new rows"
    by (auto simp: reserve_replay_receipt_def Let_def split: if_splits)
  have get: "row_get rr_marker (kind, sid, key) rows' = Some ?new"
    using row_get_put_same [of rr_marker ?new rows] Some by (simp add: rows')
  have "markers_kept rows rows'"
    unfolding markers_kept_def
  proof (intro allI impI)
    fix m q assume q: "row_get rr_marker m rows = Some q"
    show "\<exists>r'. row_get rr_marker m rows' = Some r' \<and> rr_expires_at q \<le> rr_expires_at r'"
    proof (cases "m = (kind, sid, key)")
      case True
      then have "q = r" using q Some by simp
      moreover have "0 \<le> seconds (max 1 ttl)" by simp
      ultimately have "rr_expires_at q \<le> now + seconds (max 1 ttl)" using old by (simp add: add_increasing2)
      then show ?thesis using True get by simp
    next
      case False
      then show ?thesis using q by (simp add: rows')
    qed
  qed
  then show ?thesis using get old Some by simp
qed

lemma reserve_markers_cases:
  assumes "reserve_markers scopes key method path trace now ttl rows = Return rows'"
  shows "markers_kept rows rows' \<and> (\<forall>(kind, sid, n)\<in>set scopes. sid \<noteq> [] \<longrightarrow>
     (\<exists>r. row_get rr_marker (kind, sid, key) rows' = Some r \<and> now + seconds (max 1 ttl) \<le> rr_expires_at r)
     \<and> (\<forall>r. row_get rr_marker (kind, sid, key) rows = Some r \<longrightarrow> rr_expires_at r \<le> now))"
  using assms
proof (induction scopes arbitrary: rows)
  case Nil
  then show ?case by simp
next
  case (Cons scope scopes)
  obtain kind sid n where scope: "scope = (kind, sid, n)" by (cases scope)
  show ?case
  proof (cases "sid = []")
    case True
    with Cons scope show ?thesis by simp
  next
    case False
    with Cons.prems scope obtain rows1 where one:
      "reserve_replay_receipt kind sid key method path trace now ttl rows = Return rows1"
      "reserve_markers scopes key method path trace now ttl rows1 = Return rows'"
      by (auto simp: and_then_Return)
    note first = reserve_cases [OF one(1)] and rest = Cons.IH [OF one(2)]
    have kept: "markers_kept rows rows'" using first rest markers_kept_trans by blast
    have get1: "row_get rr_marker (kind, sid, key) rows1 = Some (marker_row kind sid key method path trace now ttl)"
      using first by blast
    from rest have kept1: "markers_kept rows1 rows'" by blast
    from markers_keptD [OF kept1 get1]
    obtain r where "row_get rr_marker (kind, sid, key) rows' = Some r" "now + seconds (max 1 ttl) \<le> rr_expires_at r"
      by auto
    moreover have "rr_expires_at r \<le> now"
      if "(k, i, m) \<in> set scopes" "i \<noteq> []" "row_get rr_marker (k, i, key) rows = Some r" for k i m r
    proof -
      from that(3) first obtain r1 where r1: "row_get rr_marker (k, i, key) rows1 = Some r1" "rr_expires_at r \<le> rr_expires_at r1"
        using markers_keptD by blast
      with rest that(1,2) have "rr_expires_at r1 \<le> now" by fastforce
      with r1 show ?thesis by linarith
    qed
    ultimately show ?thesis using kept first rest False by (auto simp: scope) 
  qed
qed

lemma pass_guards_cases:
  assumes "pass_guards race cooldown cw scopes window key method path trace now ttl db = (res, db')"
  shows "(\<exists>e. res = Raise e \<and> db' = db) \<or>
    (db' = db\<lparr>ad_receipts := race (ad_receipts db)\<rparr>
     \<and> all_pass (\<lambda>(kind, sid, m). enforce_guard_cooldown kind sid now cw m (ad_events db)) cooldown = Return ()
     \<and> all_pass (\<lambda>(kind, sid, m). enforce_short_window_rate_limit kind sid now window m (ad_receipts db)) scopes = Return ()
     \<and> (case reserve_markers scopes key method path trace now ttl (race (ad_receipts db)) of
           Inl e \<Rightarrow> res = Raise e | Inr rows \<Rightarrow> res = Return (db\<lparr>ad_receipts := rows\<rparr>)))"
  using assms unfolding pass_guards_def Let_def by (auto simp: and_then_Return split: sum.splits)

lemma pass_guards_kept:
  assumes "pass_guards race cooldown cw scopes window key method path trace now ttl db = (res, db')"
    and "markers_kept (ad_receipts db) (race (ad_receipts db))"
  shows "markers_kept (ad_receipts db) (ad_receipts db')
    \<and> (\<forall>db1. res = Return db1 \<longrightarrow> markers_kept (ad_receipts db) (ad_receipts db1))"
proof (cases "reserve_markers scopes key method path trace now ttl (race (ad_receipts db))")
  case (Inl e)
  then show ?thesis using pass_guards_cases [OF assms(1)] assms(2) by auto
next
  case (Inr rows)
  then have "markers_kept (race (ad_receipts db)) rows" using reserve_markers_cases by blast
  then show ?thesis using pass_guards_cases [OF assms(1)] assms(2) Inr markers_kept_trans by auto
qed

inductive auth_step :: "auth_db \<Rightarrow> auth_db \<Rightarrow> bool" where
  signed: "authorize_request lib settings fromiso limits opts source race clk request db = (res, db')
      \<Longrightarrow> markers_kept (ad_receipts db) (race (ad_receipts db)) \<Longrightarrow> auth_step db db'"
| internal: "authorize_static_token_request ilimits token session required race clk request db = (ires, db')
      \<Longrightarrow> markers_kept (ad_receipts db) (race (ad_receipts db)) \<Longrightarrow> auth_step db db'"
| others: "markers_kept (ad_receipts db) rows
      \<Longrightarrow> auth_step db (db\<lparr>ad_sites := sites, ad_keys := keys, ad_events := events, ad_receipts := rows\<rparr>)"

inductive_cases auth_stepE: "auth_step db db'"

lemma authorize_request_kept:
  assumes "authorize_request lib settings fromiso limits opts source race clk request db = (res, db')"
    and "markers_kept (ad_receipts db) (race (ad_receipts db))"
  shows "markers_kept (ad_receipts db) (ad_receipts db')"
proof -
  have tx: "markers_kept (ad_receipts db) (ad_receipts db1)"
    if "authorize_site_credentials lib settings limits opts race (ac_now clk) request ctx signature db = (out, db1)"
    for ctx signature out db1
    using that assms(2)
    by (auto simp: authorize_site_credentials_def Let_def split: sum.splits prod.splits if_splits dest!: pass_guards_kept)
  show ?thesis
    using assms(1) by (auto simp: authorize_request_def Let_def split: sum.splits prod.splits auth_fault.splits dest!: tx)
qed

lemma static_token_kept:
  assumes "authorize_static_token_request limits token session required race clk request db = (res, db')"
    and "markers_kept (ad_receipts db) (race (ad_receipts db))"
  shows "markers_kept (ad_receipts db) (ad_receipts db')"
  using assms unfolding authorize_static_token_request_def Let_def
  by (auto split: sum.splits prod.splits option.splits if_splits dest!: pass_guards_kept)

interpretation markers: invariant_system "\<lambda>db. db = base" auth_step
    "\<lambda>db. markers_kept (ad_receipts base) (ad_receipts db)" for base
proof
  fix db db' assume kept: "markers_kept (ad_receipts base) (ad_receipts db)" and step: "auth_step db db'"
  from step have "markers_kept (ad_receipts db) (ad_receipts db')"
    by (cases rule: auth_stepE) (auto dest: authorize_request_kept static_token_kept)
  with kept show "markers_kept (ad_receipts base) (ad_receipts db')" by (rule markers_kept_trans)
qed auto

lemma public_scopes_site:
  "public_scopes limits policy site_id key_id client = (cooldown, window, scopes) \<Longrightarrow>
     (\<exists>n. (fst (public_scope_kinds policy), site_id, n) \<in> set scopes)"
  by (auto simp: public_scopes_def public_scope_kinds_def Let_def)

text \<open>The marker an accepted request leaves, and the marker it must not find.\<close>

lemma accepted_marker:
  assumes "authorize_request lib settings fromiso limits opts source race clk request db = (Return ctx, db')"
    and "requires_nonce request (ao_replay_policy opts)"
  shows "(\<exists>r. row_get rr_marker (fst (public_scope_kinds (ao_replay_policy opts)), rc_site ctx, rc_nonce ctx) (ad_receipts db')
           = Some r \<and> ac_now clk + seconds (resolve_replay_receipt_ttl_seconds (gl_timestamp_tolerance_seconds limits))
               \<le> rr_expires_at r)
    \<and> (\<forall>r. row_get rr_marker (fst (public_scope_kinds (ao_replay_policy opts)), rc_site ctx, rc_nonce ctx)
             (race (ad_receipts db)) = Some r \<longrightarrow> rr_expires_at r \<le> ac_now clk)"
proof (rule authorize_request_Return [OF assms(1)])
  fix h signature
  assume h: "read_signed_headers fromiso (gl_timestamp_tolerance_seconds limits) opts (ac_preflight clk) request = Return (h, signature)"
    and ctx: "ctx = h\<lparr>rc_body_digest := rc_body_digest ctx\<rparr>"
    and tx: "authorize_site_credentials lib settings limits opts race (ac_now clk) request ctx signature db = (Return (), db')"
  have site: "rc_site ctx \<noteq> []" using read_signed_headers_Return(2) [OF h] by (subst ctx) simp
  let ?ttl = "resolve_replay_receipt_ttl_seconds (gl_timestamp_tolerance_seconds limits)"
  from credentials_cases [OF tx] assms(2) obtain cooldown window scopes db1 db2 where
    scopes: "public_scopes limits (ao_replay_policy opts) (rc_site ctx) (rc_key ctx) (resolve_client_scope_id request)
      = (cooldown, window, scopes)"
    and pass: "pass_guards race cooldown (gl_cooldown_window_seconds limits) scopes window (rc_nonce ctx) (hr_method request)
        (hr_path request) (rc_trace_id ctx) (ac_now clk) ?ttl db = (Return db1, db2)"
    and receipts: "ad_receipts db' = ad_receipts db1" by auto
  from pass_guards_cases [OF pass] obtain rows where
    rows: "reserve_markers scopes (rc_nonce ctx) (hr_method request) (hr_path request) (rc_trace_id ctx) (ac_now clk) ?ttl
        (race (ad_receipts db)) = Return rows" "ad_receipts db' = rows"
    using receipts by (auto split: sum.splits)
  from public_scopes_site [OF scopes] obtain n where
    member: "(fst (public_scope_kinds (ao_replay_policy opts)), rc_site ctx, n) \<in> set scopes" by blast
  have ttl: "max 1 ?ttl = ?ttl" by (simp add: resolve_replay_receipt_ttl_seconds_def)
  from reserve_markers_cases [OF rows(1)] member site show ?thesis
    unfolding rows(2) ttl by fastforce
qed



end
