(* ===== verification/RequestLimitProperties.thy ===== *)
theory RequestLimitProperties
  imports RequestAuthProperties
begin

section \<open>Limits, retry times and cooldowns\<close>

subsection \<open>Counting requests of a window\<close>

lemma length_filter_sort_key: "length (filter P (sort_key f xs)) = length (filter P xs)"
  by (metis mset_filter mset_sort size_mset)

lemma length_filter_mono: "(\<And>x. x \<in> set xs \<Longrightarrow> P x \<Longrightarrow> Q x) \<Longrightarrow> length (filter P xs) \<le> length (filter Q xs)"
  by (induction xs) (auto simp: le_SucI)

lemma sorted_later:
  assumes "sorted (map f xs)" and "drop k xs = r # rest"
  shows "length (filter (\<lambda>x. f r < f x) xs) \<le> length rest" and "\<forall>x\<in>set (r # rest). f r \<le> f x"
proof -
  have xs: "xs = take k xs @ r # rest" using assms(2) by (metis append_take_drop_id)
  have sorted: "sorted (map f (take k xs) @ f r # map f rest)"
    using assms(1) by (subst (asm) xs) simp
  have none: "filter (\<lambda>x. f r < f x) (take k xs) = []"
    using sorted by (auto simp: filter_empty_conv sorted_append)
  have "filter (\<lambda>x. f r < f x) xs = filter (\<lambda>x. f r < f x) (r # rest)"
    by (subst xs) (simp only: filter_append none append_Nil)
  then show "length (filter (\<lambda>x. f r < f x) xs) \<le> length rest" by simp
  show "\<forall>x\<in>set (r # rest). f r \<le> f x" using sorted by (auto simp: sorted_append)
qed

lemma ceil_seconds_bounds: "d \<le> seconds (ceil_seconds d)" "seconds (ceil_seconds d) < d + seconds 1"
  by (simp_all add: ceil_seconds_def seconds_def)

text \<open>The refusal of a full window, in terms of the receipt whose age frees the next request.\<close>

lemma rate_limit_Raise:
  assumes "enforce_short_window_rate_limit kind sid now w n rows = Raise e"
  obtains release rest where "0 < n" "0 < w" "sid \<noteq> []"
    "drop (nat (int (length (filter (in_window kind sid (now - seconds w)) rows)) - n))
       (sort_key rr_created_at (filter (in_window kind sid (now - seconds w)) rows)) = release # rest"
    "int (length rest) = n - 1" "now \<le> rr_created_at release + seconds w"
    "ae_retry_after_seconds e = max 1 (ceil_seconds (rr_created_at release + seconds w - now))"
proof -
  define recent where "recent = filter (in_window kind sid (now - seconds w)) rows"
  define from_release where "from_release = drop (nat (int (length recent) - n)) (sort_key rr_created_at recent)"
  have cond: "0 < n" "0 < w" "sid \<noteq> []" "n \<le> int (length recent)"
    using assms by (auto simp: enforce_short_window_rate_limit_def recent_def Let_def split: if_splits)
  then have len: "int (length from_release) = n" by (simp add: from_release_def)
  then obtain release rest where release: "from_release = release # rest" using cond(1) by (cases from_release) auto
  have rest: "int (length rest) = n - 1" using len by (simp add: release)
  have error: "e = rate_limit_exceeded (max 1 (ceil_seconds (rr_created_at release + seconds w - now)))"
    using assms cond release unfolding enforce_short_window_rate_limit_def Let_def recent_def [symmetric] from_release_def
    by simp
  have "release \<in> set from_release" by (simp add: release)
  then have "release \<in> set recent" unfolding from_release_def using in_set_dropD by fastforce
  then have "now \<le> rr_created_at release + seconds w" by (simp add: recent_def in_window_def)
  with cond(1-3) rest release error show ?thesis
    by (intro that [of release rest]) (simp_all add: from_release_def recent_def rate_limit_exceeded_def)
qed

lemma rate_limit_passes:
  "int (length (filter (in_window kind sid (t - seconds w)) rows)) < n \<Longrightarrow>
     enforce_short_window_rate_limit kind sid t w n rows = Return ()"
  by (simp add: enforce_short_window_rate_limit_def)

lemma rate_limit_refuses:
  assumes "n \<le> int (length (filter (in_window kind sid (t - seconds w)) rows))" and "0 < n" and "0 < w" and "sid \<noteq> []"
  shows "enforce_short_window_rate_limit kind sid t w n rows \<noteq> Return ()"
proof -
  let ?recent = "filter (in_window kind sid (t - seconds w)) rows"
  have "drop (nat (max 0 (int (length ?recent) - n))) (sort_key rr_created_at ?recent) \<noteq> []"
    using assms(1,2) by simp
  then show ?thesis
    using assms unfolding enforce_short_window_rate_limit_def Let_def by (auto split: list.split)
qed

lemma window_shrinks:
  assumes "now \<le> t"
  shows "filter (in_window kind sid (t - seconds w)) rows
    = filter (\<lambda>r. t - seconds w \<le> rr_created_at r) (filter (in_window kind sid (now - seconds w)) rows)"
  unfolding filter_filter by (rule filter_cong) (use assms in \<open>auto simp: in_window_def\<close>)

lemma window_after_release:
  assumes drop: "drop k (sort_key rr_created_at (filter (in_window kind sid (now - seconds w)) rows)) = release # rest"
    and "rr_created_at release + seconds w < t" and "now \<le> t"
  shows "length (filter (in_window kind sid (t - seconds w)) rows) \<le> length rest"
proof -
  let ?recent = "filter (in_window kind sid (now - seconds w)) rows"
  have "length (filter (in_window kind sid (t - seconds w)) rows)
      \<le> length (filter (\<lambda>r. rr_created_at release < rr_created_at r) ?recent)"
    unfolding window_shrinks [OF assms(3)] by (rule length_filter_mono) (use assms(2) in auto)
  also have "\<dots> = length (filter (\<lambda>r. rr_created_at release < rr_created_at r) (sort_key rr_created_at ?recent))"
    by (simp add: length_filter_sort_key)
  also have "\<dots> \<le> length rest" by (rule sorted_later(1) [OF _ drop]) simp
  finally show ?thesis .
qed

lemma window_until_release:
  assumes drop: "drop k (sort_key rr_created_at (filter (in_window kind sid (now - seconds w)) rows)) = release # rest"
    and "t \<le> rr_created_at release + seconds w"
  shows "length rest < length (filter (in_window kind sid (t - seconds w)) rows)"
proof -
  let ?sorted = "sort_key rr_created_at (filter (in_window kind sid (now - seconds w)) rows)"
  have "length (release # rest) \<le> length (filter (\<lambda>r. rr_created_at release \<le> rr_created_at r) ?sorted)"
  proof -
    have "sorted (map rr_created_at ?sorted)" by simp
    from sorted_later(2) [OF this drop]
    have "filter (\<lambda>r. rr_created_at release \<le> rr_created_at r) (drop k ?sorted) = release # rest"
      unfolding drop by (rule filter_True)
    moreover have "?sorted = take k ?sorted @ drop k ?sorted" by simp
    ultimately show ?thesis by (metis filter_append length_append le_add2)
  qed
  also have "\<dots> \<le> length (filter (in_window kind sid (t - seconds w)) rows)"
    unfolding length_filter_sort_key filter_filter
    by (rule length_filter_mono) (use assms(2) in \<open>auto simp: in_window_def\<close>)
  finally show ?thesis by simp
qed

text \<open>The \<open>Retry-After\<close> of a refused request is right to the second: when no further request of the scope is
  counted, any request made more than that many seconds later passes, and every request up to one
  second before is refused.\<close>

theorem retry_after_is_exact:
  assumes "enforce_short_window_rate_limit kind sid now w n rows = Raise e"
  shows "1 \<le> ae_retry_after_seconds e
    \<and> (\<forall>t > now + seconds (ae_retry_after_seconds e). enforce_short_window_rate_limit kind sid t w n rows = Return ())
    \<and> (\<forall>t \<ge> now. t \<le> now + seconds (ae_retry_after_seconds e - 1)
          \<longrightarrow> enforce_short_window_rate_limit kind sid t w n rows \<noteq> Return ())"
proof (rule rate_limit_Raise [OF assms])
  fix release rest
  assume limits: "0 < n" "0 < w" "sid \<noteq> []"
    and drop: "drop (nat (int (length (filter (in_window kind sid (now - seconds w)) rows)) - n))
       (sort_key rr_created_at (filter (in_window kind sid (now - seconds w)) rows)) = release # rest"
    and rest: "int (length rest) = n - 1" and fresh: "now \<le> rr_created_at release + seconds w"
    and retry: "ae_retry_after_seconds e = max 1 (ceil_seconds (rr_created_at release + seconds w - now))"
  let ?c = "rr_created_at release" and ?retry = "ae_retry_after_seconds e"
  note bounds = ceil_seconds_bounds [of "?c + seconds w - now"]
  have first: "enforce_short_window_rate_limit kind sid t w n rows = Return ()" if t: "now + seconds ?retry < t" for t
  proof -
    have "0 \<le> seconds ?retry" "seconds (ceil_seconds (?c + seconds w - now)) \<le> seconds ?retry" by (simp_all add: retry)
    with bounds t have "?c + seconds w < t" "now \<le> t" by linarith+
    from window_after_release [OF drop this] rest show ?thesis by (intro rate_limit_passes) linarith
  qed
  have second: "enforce_short_window_rate_limit kind sid t w n rows \<noteq> Return ()"
    if t: "now \<le> t" "t \<le> now + seconds (?retry - 1)" for t
  proof -
    have "seconds (?retry - 1) = (if 1 \<le> ceil_seconds (?c + seconds w - now)
        then seconds (ceil_seconds (?c + seconds w - now)) - seconds 1 else 0)"
      by (simp add: retry seconds_def algebra_simps)
    with bounds t fresh have "t \<le> ?c + seconds w" by (simp split: if_splits)
    from window_until_release [OF drop this] rest limits show ?thesis by (intro rate_limit_refuses) simp_all
  qed
  show ?thesis using first second retry by auto
qed

definition demo_receipt_at :: "instant \<Rightarrow> replay_receipt" where
  "demo_receipt_at t = marker_row ''k'' ''s'' ''n'' ''POST'' ''/'' ''t'' t 60"

theorem retry_after_is_exact_witness:
  "\<exists>e. enforce_short_window_rate_limit ''k'' ''s'' (seconds 5) 60 1 [demo_receipt_at 0] = Raise e
     \<and> enforce_short_window_rate_limit ''k'' ''s'' (seconds 61) 60 1 [demo_receipt_at 0] = Return ()"
proof -
  have refused: "enforce_short_window_rate_limit ''k'' ''s'' (seconds 5) 60 1 [demo_receipt_at 0] = Raise (rate_limit_exceeded 55)"
    by (simp add: enforce_short_window_rate_limit_def in_window_def demo_receipt_at_def seconds_def ceil_seconds_def)
  have "seconds 5 + seconds (ae_retry_after_seconds (rate_limit_exceeded 55)) < seconds 61"
    by (simp add: rate_limit_exceeded_def seconds_def)
  with retry_after_is_exact [OF refused] refused show ?thesis by blast
qed

subsection \<open>The limits hold\<close>

lemma reserve_count:
  assumes "reserve_replay_receipt kind sid key method path trace now ttl rows = Return rows'"
    and "keys_distinct rr_marker rows"
  shows "length (filter P rows') \<le> length (filter P rows) + (if P (marker_row kind sid key method path trace now ttl) then 1 else 0)
    \<and> keys_distinct rr_marker rows'"
proof (cases "row_get rr_marker (kind, sid, key) rows")
  case None
  with assms show ?thesis by (auto simp: reserve_replay_receipt_def Let_def keys_distinct_append)
next
  case (Some r)
  let ?new = "marker_row kind sid key method path trace now ttl"
  from Some assms(1) have rows': "rows' = row_put rr_marker ?new rows"
    by (auto simp: reserve_replay_receipt_def Let_def split: if_splits)
  from row_get_Some [OF Some] obtain pre post where split: "rows = pre @ r # post" "rr_marker r = (kind, sid, key)"
    by (metis split_list)
  have others: "rr_marker x \<noteq> (kind, sid, key)" if "x \<in> set pre \<union> set post" for x
    using assms(2) split that by (auto simp: keys_distinct_def rev_image_eqI)
  have same: "rows_update (\<lambda>x. rr_marker x = rr_marker ?new) (\<lambda>_. ?new) xs = xs" if "set xs \<subseteq> set pre \<union> set post" for xs
    by (rule rows_update_id) (use that others in auto)
  have "rows' = pre @ ?new # post"
    using same [of pre] same [of post] split by (simp add: rows' row_put_def rows_update_def)
  moreover have "keys_distinct rr_marker rows'" using assms(2) by (simp add: rows' row_put_distinct)
  ultimately show ?thesis by (auto simp: split)
qed

lemma reserve_markers_count:
  assumes "reserve_markers scopes key method path trace now ttl rows = Return rows'" and "keys_distinct rr_marker rows"
  shows "length (filter (in_window kind sid from) rows')
    \<le> length (filter (in_window kind sid from) rows) + length (filter (\<lambda>(k, i, n). k = kind) scopes)"
  using assms
proof (induction scopes arbitrary: rows)
  case Nil
  then show ?case by simp
next
  case (Cons scope scopes)
  obtain k i n where scope: "scope = (k, i, n)" by (cases scope)
  show ?case
  proof (cases "i = []")
    case True
    then have "reserve_markers scopes key method path trace now ttl rows = Return rows'"
      using Cons.prems(1) by (simp add: scope)
    from Cons.IH [OF this Cons.prems(2)] show ?thesis by (auto simp: scope)
  next
    case False
    with Cons.prems scope obtain rows1 where one:
      "reserve_replay_receipt k i key method path trace now ttl rows = Return rows1"
      "reserve_markers scopes key method path trace now ttl rows1 = Return rows'"
      by (auto simp: and_then_Return)
    from reserve_count [OF one(1) Cons.prems(2), of "in_window kind sid from"]
    have "length (filter (in_window kind sid from) rows1)
        \<le> length (filter (in_window kind sid from) rows) + (if k = kind then 1 else 0)" "keys_distinct rr_marker rows1"
      by (auto simp: in_window_def split: if_splits)
    with Cons.IH [OF one(2)] show ?thesis by (auto simp: scope)
  qed
qed

lemma all_pass_Return: "all_pass check xs = Return () \<longleftrightarrow> (\<forall>x\<in>set xs. check x = Return ())"
  by (induction xs) (auto simp: and_then_Return)

lemma public_scopes_kinds:
  "public_scopes limits policy site_id key_id client = (cooldown, window, scopes) \<Longrightarrow>
     (kind, sid, n) \<in> set scopes \<Longrightarrow> length (filter (\<lambda>(k, i, n). k = kind) scopes) = 1"
  by (auto simp: public_scopes_def public_scope_kinds_def Let_def split: if_splits)



subsection \<open>Rejections count against the site they name\<close>

lemma read_unsigned:
  assumes "py_strip (header request ''X-Npcink-Signature'') = []" and "py_strip (header request ''X-Npcink-Site-Id'') = sid"
    and "sid \<noteq> []" and "ao_replay_policy opts \<in> {PUBLIC_REPLAY_POLICY_METHOD_DEFAULT, PUBLIC_REPLAY_POLICY_MEDIA_PULL}"
  shows "\<exists>k t e. read_signed_headers fromiso tolerance opts now request = Raise ((sid, k, t), Rejected e)"
proof -
  have raises: "and_then r f = Raise e \<longleftrightarrow> r = Raise e \<or> (\<exists>v. r = Return v \<and> f v = Raise e)"
    for r :: "('e, 'a) outcome" and f :: "'a \<Rightarrow> ('e, 'b) outcome" and e
    by (cases r) auto
  have at: "raised_at p r = Raise x \<longleftrightarrow> (\<exists>e. r = Raise e \<and> x = (p, e))" for p x and r :: "(auth_fault, 'a) outcome"
    by (cases r) (auto simp: raised_at_def)
  have rejects: "rejected r = Raise f \<longleftrightarrow> (\<exists>e. r = Raise e \<and> f = Rejected e)" for f and r :: "(request_auth_error, 'a) outcome"
    by (cases r) (auto simp: rejected_def)
  have site: "require_header request ''X-Npcink-Site-Id'' code = Return sid" for code
    using assms(2,3) by simp
  show ?thesis
  proof (cases "read_signed_headers fromiso tolerance opts now request")
    case (Inr v)
    then show ?thesis using read_signed_headers_Return(5) assms(1) by (cases v) blast
  next
    case (Inl x)
    then show ?thesis
      using assms(1,4) unfolding read_signed_headers_def Let_def site
      by (auto simp: raises at rejects split: if_splits)
  qed
qed

text \<open>An unsigned request that names a site, sent while rejections can be stored.\<close>

definition unsigned_attempt :: "string \<Rightarrow> instant \<Rightarrow> auth_clock \<times> http_request \<Rightarrow> bool" where
  "unsigned_attempt sid from attempt \<longleftrightarrow>
     (case attempt of (clk, request) \<Rightarrow>
        py_strip (header request ''X-Npcink-Signature'') = [] \<and> py_strip (header request ''X-Npcink-Site-Id'') = sid
        \<and> ac_stored clk \<and> from \<le> ac_events clk 0)"

lemma unsigned_attempt_recorded:
  assumes "unsigned_attempt sid from (clk, request)" and "sid \<noteq> []"
    and "ao_replay_policy opts \<in> {PUBLIC_REPLAY_POLICY_METHOD_DEFAULT, PUBLIC_REPLAY_POLICY_MEDIA_PULL}"
    and "authorize_request lib settings fromiso limits opts source race clk request db = (res, db')"
  shows "\<exists>event events. ad_events db' = ad_events db @ event # events
    \<and> recent_rejection (fst (public_scope_kinds (ao_replay_policy opts))) sid from event"
proof -
  from assms(1) have unsigned: "py_strip (header request ''X-Npcink-Signature'') = []"
    "py_strip (header request ''X-Npcink-Site-Id'') = sid" and stored: "ac_stored clk" "from \<le> ac_events clk 0"
    by (simp_all add: unsigned_attempt_def)
  from read_unsigned [OF unsigned assms(2,3)] obtain k t e where
    "read_signed_headers fromiso (gl_timestamp_tolerance_seconds limits) opts (ac_preflight clk) request = Raise ((sid, k, t), Rejected e)"
    by blast
  with assms(4) have events: "ad_events db' = record_runtime_guard_rejection (ac_stored clk) (ac_events clk) request
      RUNTIME_GUARD_SURFACE_PUBLIC e sid k t (ao_required_scope opts) (ao_replay_policy opts) (ad_events db)"
    by (auto simp: authorize_request_def Let_def)
  obtain kinds where kinds: "public_scope_kinds (ao_replay_policy opts) = kinds" "fst kinds \<noteq> []"
    by (auto simp: public_scope_kinds_def)
  have strip: "py_strip sid = sid" using unsigned(2) by (metis py_strip_idem)
  have surface: "RUNTIME_GUARD_SURFACE_PUBLIC \<noteq> RUNTIME_GUARD_SURFACE_INTERNAL"
    by (simp add: RUNTIME_GUARD_SURFACE_PUBLIC_def RUNTIME_GUARD_SURFACE_INTERNAL_def)
  define client where "client = resolve_client_scope_id request"
  obtain pairs where pairs: "build_runtime_guard_scope_pairs RUNTIME_GUARD_SURFACE_PUBLIC sid k client (ao_replay_policy opts)
      = (fst kinds, sid) # pairs"
    using kinds surface assms(2)
    by (cases kinds) (auto simp: build_runtime_guard_scope_pairs_def normalize_guard_scope_pairs_def Let_def strip split: prod.split)
  have again: "\<exists>pairs'. normalize_guard_scope_pairs ((fst kinds, sid) # pairs) = (fst kinds, sid) # pairs'"
    using kinds(2) assms(2) by (simp add: normalize_guard_scope_pairs_def Let_def strip)
  then obtain pairs' where pairs': "normalize_guard_scope_pairs ((fst kinds, sid) # pairs) = (fst kinds, sid) # pairs'" by blast
  show ?thesis
    using stored
    by (auto simp: events record_runtime_guard_rejection_def Let_def pairs pairs' record_runtime_guard_events_def
        recent_rejection_def kinds(1) client_def [symmetric] enumerate_simps)
qed

definition make_attempts ::
    "crypto \<Rightarrow> encryption_settings \<Rightarrow> (string \<Rightarrow> (timestamp_fault, instant) outcome) \<Rightarrow> guard_limits \<Rightarrow> auth_options
      \<Rightarrow> (auth_clock \<times> http_request) list \<Rightarrow> auth_db \<Rightarrow> auth_db" where
  "make_attempts lib settings fromiso limits opts attempts db =
     fold (\<lambda>(clk, attempt) db. snd (authorize_request lib settings fromiso limits opts RequestBody (\<lambda>rows. rows) clk attempt db))
       attempts db"

lemma attempts_counted:
  assumes "list_all (unsigned_attempt sid from) attempts" and "sid \<noteq> []"
    and "ao_replay_policy opts \<in> {PUBLIC_REPLAY_POLICY_METHOD_DEFAULT, PUBLIC_REPLAY_POLICY_MEDIA_PULL}"
  shows "length attempts \<le> length (filter (recent_rejection (fst (public_scope_kinds (ao_replay_policy opts))) sid from)
    (ad_events (make_attempts lib settings fromiso limits opts attempts db)))"
proof -
  let ?count = "\<lambda>db. length (filter (recent_rejection (fst (public_scope_kinds (ao_replay_policy opts))) sid from) (ad_events db))"
  let ?make = "make_attempts lib settings fromiso limits opts"
  have "length attempts + ?count db \<le> ?count (?make attempts db)"
    using assms(1)
  proof (induction attempts arbitrary: db)
    case Nil
    then show ?case by (simp add: make_attempts_def)
  next
    case (Cons attempt attempts)
    obtain c a where attempt: "attempt = (c, a)" by (cases attempt)
    obtain res db1 where run: "authorize_request lib settings fromiso limits opts RequestBody (\<lambda>rows. rows) c a db = (res, db1)"
      by (rule prod.exhaust)
    from Cons.prems have "unsigned_attempt sid from (c, a)" by (simp add: attempt)
    from unsigned_attempt_recorded [OF this assms(2,3) run] have "?count db + 1 \<le> ?count db1" by auto
    moreover have "length attempts + ?count db1 \<le> ?count (?make attempts db1)"
      using Cons.prems by (intro Cons.IH) simp
    moreover have "?make (attempt # attempts) db = ?make attempts db1" by (simp add: make_attempts_def attempt run)
    ultimately show ?case by simp
  qed
  then show ?thesis by linarith
qed

text \<open>An accepted request found its site below the limit of rejections.\<close>

lemma accepted_below_cooldown:
  assumes "authorize_request lib settings fromiso limits opts source race clk request db = (Return ctx, db')"
    and "requires_nonce request (ao_replay_policy opts)"
  shows "enforce_guard_cooldown (fst (public_scope_kinds (ao_replay_policy opts))) (rc_site ctx) (ac_now clk)
    (gl_cooldown_window_seconds limits) (gl_max_rejects_per_site limits) (ad_events db) = Return ()"
proof (rule authorize_request_Return [OF assms(1)])
  fix h signature
  assume tx: "authorize_site_credentials lib settings limits opts race (ac_now clk) request ctx signature db = (Return (), db')"
  from credentials_cases [OF tx] assms(2) obtain cooldown window scopes db1 db2 where
    scopes: "public_scopes limits (ao_replay_policy opts) (rc_site ctx) (rc_key ctx) (resolve_client_scope_id request)
      = (cooldown, window, scopes)"
    and pass: "pass_guards race cooldown (gl_cooldown_window_seconds limits) scopes window (rc_nonce ctx) (hr_method request)
      (hr_path request) (rc_trace_id ctx) (ac_now clk)
      (resolve_replay_receipt_ttl_seconds (gl_timestamp_tolerance_seconds limits)) db = (Return db1, db2)"
    by auto
  have "(fst (public_scope_kinds (ao_replay_policy opts)), rc_site ctx, gl_max_rejects_per_site limits) \<in> set cooldown"
    using scopes by (auto simp: public_scopes_def public_scope_kinds_def Let_def split: if_splits)
  moreover have "all_pass (\<lambda>(kind, sid, m). enforce_guard_cooldown kind sid (ac_now clk) (gl_cooldown_window_seconds limits) m
      (ad_events db)) cooldown = Return ()"
    using pass_guards_cases [OF pass] by auto
  ultimately show ?thesis by (auto simp: all_pass_Return)
qed

text \<open>C40: The cooldown counts requests nobody authenticated: as many unsigned requests naming a site as the
  site's limit of rejections shut the site out, so that for the rest of the cooldown window every request
  of its owner that needs a replay marker is refused, however it is signed.\<close>

theorem rejections_lock_out_site:
  assumes "list_all (unsigned_attempt sid (ac_now clk - seconds (gl_cooldown_window_seconds limits))) attempts"
    and "gl_max_rejects_per_site limits \<le> int (length attempts)"
    and "0 < gl_max_rejects_per_site limits" and "0 < gl_cooldown_window_seconds limits" and "sid \<noteq> []"
    and "ao_replay_policy opts \<in> {PUBLIC_REPLAY_POLICY_METHOD_DEFAULT, PUBLIC_REPLAY_POLICY_MEDIA_PULL}"
    and "py_strip (header request ''X-Npcink-Site-Id'') = sid" and "requires_nonce request (ao_replay_policy opts)"
  shows "fst (authorize_request lib settings fromiso limits opts source race clk request
      (make_attempts lib settings fromiso limits opts attempts db)) \<noteq> Return ctx"
proof
  let ?locked = "make_attempts lib settings fromiso limits opts attempts db"
  assume "fst (authorize_request lib settings fromiso limits opts source race clk request ?locked) = Return ctx"
  then obtain db' where accepted: "authorize_request lib settings fromiso limits opts source race clk request ?locked = (Return ctx, db')"
    by (metis prod.collapse)
  have "rc_site ctx = sid" using accepted_request_is_authentic_lemma [OF accepted] assms(7) by simp
  with accepted_below_cooldown [OF accepted assms(8)] attempts_counted [OF assms(1,5,6), of lib settings fromiso limits db]
    assms(2-5) show False
    by (simp add: enforce_guard_cooldown_def split: if_splits)
qed

theorem rejections_lock_out_site_witness:
  "\<exists>ciphertext.
     fst (authorize_request demo_crypto demo_settings (\<lambda>_. Raise TimestampValueError) demo_limits demo_options RequestBody (\<lambda>rows. rows)
       (demo_auth_clock (seconds 5)) demo_request (demo_db ciphertext None [])) = Return demo_context
     \<and> fst (authorize_request demo_crypto demo_settings (\<lambda>_. Raise TimestampValueError) demo_limits demo_options RequestBody (\<lambda>rows. rows)
       (demo_auth_clock (seconds 5)) demo_request
       (make_attempts demo_crypto demo_settings (\<lambda>_. Raise TimestampValueError) demo_limits demo_options
         (replicate 2 (demo_auth_clock (seconds 4), signed_demo_request [])) (demo_db ciphertext None []))) \<noteq> Return demo_context"
proof (rule demo_ciphertext)
  fix ciphertext assume secret: "decrypt_site_api_signing_secret demo_crypto demo_settings (Some ciphertext) = Return ''sk''"
  show ?thesis
  proof (intro exI [of _ ciphertext] conjI)
    show "fst (authorize_request demo_crypto demo_settings (\<lambda>_. Raise TimestampValueError) demo_limits demo_options RequestBody (\<lambda>rows. rows)
       (demo_auth_clock (seconds 5)) demo_request (demo_db ciphertext None [])) = Return demo_context"
      by (simp add: demo_first [OF secret])
  next
    show "fst (authorize_request demo_crypto demo_settings (\<lambda>_. Raise TimestampValueError) demo_limits demo_options RequestBody (\<lambda>rows. rows)
       (demo_auth_clock (seconds 5)) demo_request
       (make_attempts demo_crypto demo_settings (\<lambda>_. Raise TimestampValueError) demo_limits demo_options
         (replicate 2 (demo_auth_clock (seconds 4), signed_demo_request [])) (demo_db ciphertext None []))) \<noteq> Return demo_context"
      by (rule rejections_lock_out_site [where sid = "''s1''"])
         (simp_all add: demo_limits_def demo_options_def demo_request_fields demo_headers [of demo_signature, folded demo_request_def]
           demo_headers demo_strips unsigned_attempt_def demo_auth_clock_def seconds_def list_all_iff)
  qed
qed

end
