(* ===== verification/PortalTotp.thy ===== *)
theory PortalTotp
  imports PortalAccess
begin

section \<open>The Portal's second factor (app/domain/portal\_totp/service.py)\<close>

text \<open>
  A challenge is the restricted credential between the first and the second proof.  It is bound to the
  principal's session version and to the factor's version and recovery generation, lives five minutes,
  allows five attempts and is consumed by success; fifteen attempts per principal and quarter hour are the
  budget.  Random identifiers, secrets and salts, and the clock reads of a command, are arguments.
\<close>

definition CHALLENGE_SECONDS :: int where "CHALLENGE_SECONDS = 300"
definition ATTEMPT_LIMIT :: int where "ATTEMPT_LIMIT = 5"
definition WINDOW_SECONDS :: int where "WINDOW_SECONDS = 900"
definition PRINCIPAL_ATTEMPT_LIMIT :: int where "PRINCIPAL_ATTEMPT_LIMIT = 15"

definition invalid_proof :: "string \<Rightarrow> int option \<Rightarrow> access_fault" where
  "invalid_proof challenge_status attempts_remaining =
     Refused ((CommercialServiceError 401 ''auth.portal_factor_invalid'' ''Authentication proof invalid'')
       \<lparr>se_data := (''challenge_status'', JStr challenge_status)
          # (case attempts_remaining of None \<Rightarrow> []
             | Some n \<Rightarrow> [(''attempts_remaining'', JInt (max 0 n))])\<rparr>)"

abbreviation terminal_proof :: access_fault where
  "terminal_proof \<equiv> invalid_proof ''terminal'' None"

definition lock_primary_factor :: "string \<Rightarrow> portal_db \<Rightarrow> (access_fault, totp_factor option) outcome" where
  "lock_primary_factor principal_id db =
     (let factor = row_get tf_principal_id principal_id (pd_factors db)
      in if factor = None
            \<and> list_ex (\<lambda>s. ps_principal_id s = principal_id \<and> ps_factor_version s \<noteq> None) (pd_sessions db)
         then Raise (Refused (CommercialServiceError 503 ''auth.portal_factor_unavailable'' ''Factor state unavailable''))
         else Return factor)"

subsection \<open>The attempt budget\<close>

definition recent_attempts :: "string \<Rightarrow> instant \<Rightarrow> auth_challenge list \<Rightarrow> int" where
  "recent_attempts principal_id now challenges =
     sum_list (map ch_attempt_count (filter (\<lambda>c. ch_principal_id c = principal_id
        \<and> now - seconds WINDOW_SECONDS \<le> ch_created_at c) challenges))"

definition budget :: "string \<Rightarrow> instant \<Rightarrow> portal_db \<Rightarrow> (access_fault, unit) outcome" where
  "budget principal_id now db =
     (if PRINCIPAL_ATTEMPT_LIMIT \<le> recent_attempts principal_id now (pd_challenges db)
      then Raise (Refused (CommercialServiceError 429 ''auth.portal_factor_rate_limited'' ''Try again later''))
      else Return ())"

subsection \<open>Challenges\<close>

record restricted_challenge =
  rs_credential :: string
  rs_expires_at :: instant

record challenge_random =
  cx_challenge_id :: string
  cx_secret :: string
  cx_salt :: bytes

definition create_challenge ::
    "challenge_random \<Rightarrow> principal \<Rightarrow> totp_factor option \<Rightarrow> string \<Rightarrow> string \<Rightarrow> instant \<Rightarrow> int \<Rightarrow> instant
      \<Rightarrow> string option \<Rightarrow> instant option \<Rightarrow> portal_db \<Rightarrow> (access_fault, restricted_challenge \<times> portal_db) outcome" where
  "create_challenge rnd holder factor purpose primary_method primary_at ttl_seconds now bound_sid bound_expiry db =
     and_then (budget (pn_principal_id holder) now db) (\<lambda>_.
     let pending = (if purpose = ''setup'' then (case factor of None \<Rightarrow> [] | Some f \<Rightarrow> or_empty (tf_pending_setup_id f)) else []);
         challenge_id = (if pending = [] then cx_challenge_id rnd else pending);
         ttl = max 60 (min ttl_seconds (90 * 86400));
         credential = challenge_id @ ''.'' @ cx_secret rnd @ ''.'' @ int_text ttl;
         expires = min (now + seconds CHALLENGE_SECONDS) (primary_at + seconds CHALLENGE_SECONDS)
     in if expires \<le> now then Raise terminal_proof
        else case build_secret_hash (cx_salt rnd) credential of
          None \<Rightarrow> Raise (AccessValueError ''salt must be at least 8 bytes'')
        | Some credential_hash \<Rightarrow>
            if row_get ch_challenge_id challenge_id (pd_challenges db) \<noteq> None then Raise AccessIntegrityError
            else Return (\<lparr>rs_credential = credential, rs_expires_at = expires\<rparr>,
              db\<lparr>pd_challenges := pd_challenges db @
                [\<lparr>ch_challenge_id = challenge_id, ch_principal_id = pn_principal_id holder,
                  ch_credential_hash = credential_hash, ch_purpose = purpose, ch_primary_method = primary_method,
                  ch_primary_authenticated_at = primary_at, ch_bound_session_version = pn_session_version holder,
                  ch_bound_factor_version = (case factor of None \<Rightarrow> 0 | Some f \<Rightarrow> tf_factor_version f),
                  ch_bound_recovery_generation = (case factor of None \<Rightarrow> 0 | Some f \<Rightarrow> tf_recovery_generation f),
                  ch_bound_session_id = bound_sid, ch_bound_session_expires_at = bound_expiry,
                  ch_created_at = now, ch_expires_at = expires, ch_attempt_count = 0,
                  ch_attempt_limit = ATTEMPT_LIMIT, ch_consumed_at = None\<rparr>]\<rparr>))"

definition credential_parts :: "string \<Rightarrow> (access_fault, string \<times> int) outcome" where
  "credential_parts credential =
     (if 256 < length credential then Raise terminal_proof
      else case py_split CHR ''.'' credential of
        [challenge_id, secret, ttl_text] \<Rightarrow>
          if challenge_id = [] \<or> secret = [] \<or> \<not> is_ascii ttl_text then Raise terminal_proof
          else (case int_of_text ttl_text of
                  None \<Rightarrow> Raise terminal_proof
                | Some ttl \<Rightarrow> if 60 \<le> ttl \<and> ttl \<le> 90 * 86400 then Return (challenge_id, ttl) else Raise terminal_proof)
      | _ \<Rightarrow> Raise terminal_proof)"

text \<open>The projection of a challenge: its state and expiry; the status text and the method list are constant.\<close>

definition challenge_status ::
    "string \<Rightarrow> instant \<Rightarrow> portal_db \<Rightarrow> (access_fault, string \<times> instant) outcome" where
  "challenge_status credential clock db =
     (if credential = [] then Raise (invalid_proof ''missing'' None)
      else and_then (credential_parts credential) (\<lambda>(challenge_id, _).
        let now = drop_microseconds clock
        in case row_get ch_challenge_id challenge_id (pd_challenges db) of
             None \<Rightarrow> Raise (invalid_proof ''missing'' None)
           | Some row \<Rightarrow>
               if \<not> verify_secret_hash credential (ch_credential_hash row)
               then Raise (invalid_proof ''missing'' None)
               else Return (if ch_consumed_at row \<noteq> None then ''consumed''
                            else if ch_expires_at row \<le> now then ''expired''
                            else if ch_attempt_limit row \<le> ch_attempt_count row then ''attempts_exhausted''
                            else ''pending'', ch_expires_at row)))"

subsection \<open>Recovery codes\<close>

definition recovery_parts :: "string \<Rightarrow> string \<times> string" where
  "recovery_parts code =
     (case py_split CHR ''.'' code of
        [code_id, secret] \<Rightarrow> if length code \<le> 160 then (code_id, secret) else ([], [])
      | _ \<Rightarrow> ([], []))"

text \<open>The random id, secret and salt of each of the eight codes.\<close>

type_synonym code_random = "string \<times> string \<times> bytes"

fun recovery_batch ::
    "code_random list \<Rightarrow> totp_factor \<Rightarrow> instant \<Rightarrow> recovery_code list
      \<Rightarrow> (access_fault, string list \<times> recovery_code list) outcome" where
  "recovery_batch [] factor now rows = Return ([], rows)"
| "recovery_batch ((code_id, secret, salt) # rnds) factor now rows =
     (case build_secret_hash salt secret of
        None \<Rightarrow> Raise (AccessValueError ''salt must be at least 8 bytes'')
      | Some code_hash \<Rightarrow>
          if row_get rv_code_id code_id rows \<noteq> None then Raise AccessIntegrityError
          else and_then (recovery_batch rnds factor now (rows @
              [\<lparr>rv_code_id = code_id, rv_principal_id = tf_principal_id factor,
                rv_factor_version = tf_factor_version factor, rv_generation = tf_recovery_generation factor,
                rv_code_hash = code_hash, rv_created_at = now, rv_consumed_at = None\<rparr>])) (\<lambda>(codes, rows).
            Return ((code_id @ ''.'' @ secret) # codes, rows)))"

subsection \<open>Starting a management command\<close>

record management_random =
  mx_seed :: bytes
  mx_setup_id :: string
  mx_challenge :: challenge_random

record management_result =
  mg_setup :: "(string \<times> string \<times> string) option"
  mg_challenge :: restricted_challenge

definition secret_fault :: "secret_error \<Rightarrow> access_fault" where
  "secret_fault e = (case e of RuntimeError m \<Rightarrow> AccessRuntimeError m | SecretUnicodeDecodeError \<Rightarrow> AccessValueError ''UnicodeDecodeError'')"

definition disabled_factor :: "string \<Rightarrow> int \<Rightarrow> instant \<Rightarrow> totp_factor" where
  "disabled_factor principal_id factor_version now =
     \<lparr>tf_principal_id = principal_id, tf_factor_version = factor_version, tf_state = ''disabled'',
      tf_active_seed_ciphertext = None, tf_enabled_at = None, tf_last_accepted_counter = None,
      tf_recovery_generation = 0, tf_pending_setup_id = None, tf_pending_seed_ciphertext = None,
      tf_pending_created_at = None, tf_pending_expires_at = None, tf_created_at = now, tf_updated_at = now\<rparr>"

definition put_factor :: "totp_factor \<Rightarrow> portal_db \<Rightarrow> portal_db" where
  "put_factor f db =
     db\<lparr>pd_factors := (if row_get tf_principal_id (tf_principal_id f) (pd_factors db) = None
                       then pd_factors db @ [f] else row_put tf_principal_id f (pd_factors db))\<rparr>"

definition pending_factor :: "string \<Rightarrow> string \<Rightarrow> instant \<Rightarrow> totp_factor \<Rightarrow> totp_factor" where
  "pending_factor sid ciphertext now f =
     f\<lparr>tf_pending_setup_id := Some sid, tf_pending_seed_ciphertext := Some ciphertext, tf_pending_created_at := Some now,
       tf_pending_expires_at := Some (now + seconds CHALLENGE_SECONDS), tf_updated_at := now\<rparr>"

text \<open>What is set up before the challenge: the factor to bind it to, and for a setup the new seed's presentation.\<close>

definition prepare_management ::
    "crypto \<Rightarrow> encryption_settings \<Rightarrow> management_random \<Rightarrow> string \<Rightarrow> instant \<Rightarrow> principal \<Rightarrow> totp_factor option \<Rightarrow> portal_db
      \<Rightarrow> (access_fault, (string \<times> string \<times> string) option \<times> totp_factor \<times> portal_db) outcome" where
  "prepare_management lib settings rnd purpose now holder factor db =
     (case factor of
        None \<Rightarrow> Raise terminal_proof
      | Some f \<Rightarrow>
          if purpose = ''setup''
          then if tf_state f = ''enabled'' then Raise terminal_proof
               else (case encrypt_portal_totp_seed lib settings (mx_seed rnd) of
                       Inl e \<Rightarrow> Raise (secret_fault e)
                     | Inr ciphertext \<Rightarrow>
                         let f = pending_factor (mx_setup_id rnd) ciphertext now f;
                             label = (if or_empty (pn_email holder) = [] then pn_principal_id holder
                                      else or_empty (pn_email holder))
                         in Return (Some (mx_setup_id rnd, provisioning (mx_seed rnd) label), f, put_factor f db))
          else if tf_state f \<noteq> ''enabled'' then Raise terminal_proof
          else Return (None, f, db))"

text \<open>The clock is read before the locks, by the validation and after it.\<close>

definition start_management_body ::
    "crypto \<Rightarrow> encryption_settings \<Rightarrow> management_random \<Rightarrow> string set \<Rightarrow> instant \<times> instant \<times> instant
      \<Rightarrow> authenticated_session \<Rightarrow> string \<Rightarrow> portal_db \<Rightarrow> (access_fault, management_result \<times> portal_db) outcome" where
  "start_management_body lib settings rnd discovered clocks ident purpose db =
     and_then (lock_login_scope discovered (id_principal_id ident) db) (\<lambda>holder.
     and_then (lock_primary_factor (id_principal_id ident) db) (\<lambda>found.
     let created = disabled_factor (id_principal_id ident) 1 (drop_microseconds (fst clocks));
         fresh = (found = None \<and> purpose = ''setup'');
         factor = (if fresh then Some created else found);
         db = (if fresh then put_factor created db else db);
         now = drop_microseconds (snd (snd clocks))
     in and_then (validate_registered_session (fst (snd clocks)) ident db) (\<lambda>row.
        case (holder, ps_primary_authenticated_at row) of
          (Some h, Some primary_at) \<Rightarrow>
            if \<not> (now - seconds CHALLENGE_SECONDS \<le> primary_at \<and> primary_at \<le> now)
            then Raise (Refused (CommercialServiceError 401 ''auth.portal_primary_reauthentication_required'' ''Please log in again''))
            else and_then (budget (pn_principal_id h) now db) (\<lambda>_.
                 and_then (prepare_management lib settings rnd purpose now h factor db) (\<lambda>(setup, f, db).
                 and_then (create_challenge (mx_challenge rnd) h (Some f) purpose (ps_auth_method row) primary_at
                             (epoch_seconds (id_expires_at ident - now)) now
                             (Some (id_session_id ident)) (Some (id_expires_at ident)) db) (\<lambda>(challenge, db).
                   Return (\<lparr>mg_setup = setup, mg_challenge = challenge\<rparr>, db))))
        | _ \<Rightarrow> Raise (Refused (CommercialServiceError 401 ''auth.portal_primary_reauthentication_required'' ''Please log in again'')))))"

definition start_management ::
    "crypto \<Rightarrow> encryption_settings \<Rightarrow> management_random \<Rightarrow> string set \<Rightarrow> instant \<times> instant \<times> instant
      \<Rightarrow> authenticated_session option \<Rightarrow> string \<Rightarrow> portal_db
      \<Rightarrow> (access_fault, management_result) outcome \<times> portal_db" where
  "start_management lib settings rnd discovered clocks identity purpose db =
     (case identity of
        None \<Rightarrow> (Raise terminal_proof, db)
      | Some ident \<Rightarrow>
          if purpose \<notin> {''setup'', ''disable'', ''recovery_reset''} then (Raise terminal_proof, db)
          else (case start_management_body lib settings rnd discovered clocks ident purpose db of
                  Inl e \<Rightarrow> (Raise e, db)
                | Inr (result, db') \<Rightarrow> (Return result, db')))"

end
