(* ===== verification/PortalCompletion.thy ===== *)
theory PortalCompletion
  imports PortalTotp
begin

section \<open>Completing a challenge and issuing a login (portal\_totp/service.py, portal\_sessions/service.py)\<close>

text \<open>
  \<open>complete\<close> turns a challenge and a proof into a session.  Everything before the proof only reads; a wrong
  proof commits the raised attempt count and nothing else; a right one consumes the challenge (and the
  recovery code), applies the purpose of the challenge to the factor, raises the session version unless it
  was a login, and issues the session, all in one transaction.
\<close>

record completion_request =
  cr_credential :: string
  cr_code :: string
  cr_purpose :: string
  cr_method :: string
  cr_identity :: "authenticated_session option"
  cr_setup_id :: string

record completion_random =
  cz_session_id :: string
  cz_codes :: "code_random list"

text \<open>The clock reads of one completion: by the validation, after the locks and when the session is issued.\<close>

record completion_clocks =
  ck_validated :: instant
  ck_now :: instant
  ck_issued :: instant

subsection \<open>Guards\<close>

definition has_active_account :: "string \<Rightarrow> portal_db \<Rightarrow> bool" where
  "has_active_account principal_id db =
     list_ex (\<lambda>m. mb_principal_id m = principal_id \<and> mb_status m = ''active''
        \<and> list_ex (\<lambda>a. an_account_id a = mb_account_id m \<and> an_status a = ''active'') (pd_accounts db))
       (pd_memberships db)"

definition lock_recovery_owned :: "string \<Rightarrow> string \<Rightarrow> portal_db \<Rightarrow> recovery_code option" where
  "lock_recovery_owned principal_id code_id db =
     find (\<lambda>r. rv_principal_id r = principal_id \<and> rv_code_id r = code_id) (pd_recovery_codes db)"

definition lock_challenge_owned :: "string \<Rightarrow> string \<Rightarrow> portal_db \<Rightarrow> auth_challenge option" where
  "lock_challenge_owned principal_id challenge_id db =
     find (\<lambda>c. ch_principal_id c = principal_id \<and> ch_challenge_id c = challenge_id) (pd_challenges db)"

definition challenge_live ::
    "string \<Rightarrow> string \<Rightarrow> instant \<Rightarrow> principal \<Rightarrow> totp_factor \<Rightarrow> auth_challenge \<Rightarrow> bool" where
  "challenge_live credential purpose now holder factor challenge \<longleftrightarrow>
     ch_purpose challenge = purpose \<and> ch_consumed_at challenge = None \<and> now < ch_expires_at challenge
     \<and> ch_attempt_count challenge < ch_attempt_limit challenge
     \<and> ch_bound_session_version challenge = pn_session_version holder
     \<and> ch_bound_factor_version challenge = tf_factor_version factor
     \<and> ch_bound_recovery_generation challenge = tf_recovery_generation factor
     \<and> now - seconds CHALLENGE_SECONDS \<le> ch_primary_authenticated_at challenge
     \<and> ch_primary_authenticated_at challenge \<le> now
     \<and> verify_secret_hash credential (ch_credential_hash challenge)"

definition challenge_session_bound :: "string \<Rightarrow> authenticated_session option \<Rightarrow> instant \<Rightarrow> auth_challenge \<Rightarrow> bool" where
  "challenge_session_bound purpose identity now challenge \<longleftrightarrow>
     purpose = ''login''
     \<or> (case (identity, ch_bound_session_expires_at challenge) of
          (Some ident, Some expires) \<Rightarrow>
            ch_bound_session_id challenge = Some (id_session_id ident) \<and> now < expires \<and> expires = id_expires_at ident
        | _ \<Rightarrow> False)"

definition proof_ciphertext ::
    "completion_request \<Rightarrow> instant \<Rightarrow> totp_factor \<Rightarrow> auth_challenge \<Rightarrow> (access_fault, string option) outcome" where
  "proof_ciphertext req now factor challenge =
     (if cr_purpose req = ''setup''
      then if tf_state factor \<noteq> ''disabled'' \<or> cr_method req \<noteq> ''totp'' \<or> cr_setup_id req = []
              \<or> tf_pending_setup_id factor \<noteq> Some (cr_setup_id req) \<or> ch_challenge_id challenge \<noteq> cr_setup_id req
              \<or> (case tf_pending_expires_at factor of None \<Rightarrow> True | Some e \<Rightarrow> e \<le> now)
           then Raise terminal_proof else Return (tf_pending_seed_ciphertext factor)
      else if cr_purpose req \<in> {''login'', ''disable'', ''recovery_reset''} \<and> tf_state factor = ''enabled''
      then Return (tf_active_seed_ciphertext factor)
      else Raise terminal_proof)"

subsection \<open>The proof\<close>

definition counter_fresh :: "totp_factor \<Rightarrow> int \<Rightarrow> bool" where
  "counter_fresh factor counter \<longleftrightarrow>
     (case tf_last_accepted_counter factor of None \<Rightarrow> True | Some last_one \<Rightarrow> last_one < counter)"

definition recovery_valid :: "string \<Rightarrow> totp_factor \<Rightarrow> recovery_code option \<Rightarrow> bool" where
  "recovery_valid secret factor recovery \<longleftrightarrow>
     (case recovery of
        None \<Rightarrow> False
      | Some r \<Rightarrow> rv_consumed_at r = None \<and> rv_factor_version r = tf_factor_version factor
                 \<and> rv_generation r = tf_recovery_generation factor \<and> verify_secret_hash secret (rv_code_hash r))"

text \<open>\<open>valid\<close> and the counter a one-time password matched; the result of no match is \<open>None\<close>.\<close>

definition check_proof ::
    "crypto \<Rightarrow> encryption_settings \<Rightarrow> completion_request \<Rightarrow> instant \<Rightarrow> totp_factor \<Rightarrow> recovery_code option
      \<Rightarrow> string option \<Rightarrow> (access_fault, bool \<times> int option) outcome" where
  "check_proof lib settings req now factor recovery ciphertext =
     (if cr_method req = ''totp''
      then case decrypt_portal_totp_seed lib settings ciphertext of
          Inl e \<Rightarrow> Raise (secret_fault e)
        | Inr seed \<Rightarrow>
            (case matched_counter seed (cr_code req) now of
               Inl _ \<Rightarrow> Raise (AccessValueError ''invalid OTP input'')
             | Inr None \<Rightarrow> Return (False, None)
             | Inr (Some counter) \<Rightarrow> Return (counter_fresh factor counter, Some counter))
      else if cr_method req = ''recovery_code'' \<and> cr_purpose req \<noteq> ''setup''
      then Return (recovery_valid (snd (recovery_parts (cr_code req))) factor recovery, None)
      else Return (False, None))"

subsection \<open>The effects\<close>

definition lifecycle_factor :: "string \<Rightarrow> instant \<Rightarrow> totp_factor \<Rightarrow> totp_factor" where
  "lifecycle_factor purpose now f =
     (if purpose = ''setup''
      then f\<lparr>tf_active_seed_ciphertext := tf_pending_seed_ciphertext f, tf_enabled_at := Some now,
             tf_state := ''enabled'', tf_factor_version := tf_factor_version f + 1,
             tf_recovery_generation := tf_recovery_generation f + 1\<rparr>
      else if purpose = ''disable''
      then f\<lparr>tf_state := ''disabled'', tf_active_seed_ciphertext := None, tf_enabled_at := None,
             tf_last_accepted_counter := None, tf_factor_version := tf_factor_version f + 1\<rparr>
      else if purpose = ''recovery_reset''
      then f\<lparr>tf_recovery_generation := tf_recovery_generation f + 1\<rparr>
      else f)"

definition settled_factor :: "string \<Rightarrow> instant \<Rightarrow> int option \<Rightarrow> totp_factor \<Rightarrow> totp_factor" where
  "settled_factor purpose now counter f =
     (let f = (if counter = None then f else f\<lparr>tf_last_accepted_counter := counter\<rparr>);
          f = lifecycle_factor purpose now f;
          f = (if purpose = ''login'' then f
               else f\<lparr>tf_pending_setup_id := None, tf_pending_seed_ciphertext := None,
                      tf_pending_created_at := None, tf_pending_expires_at := None\<rparr>)
      in f\<lparr>tf_updated_at := now\<rparr>)"

definition settled_principal :: "string \<Rightarrow> principal \<Rightarrow> principal" where
  "settled_principal purpose holder =
     (if purpose = ''login'' then holder else holder\<lparr>pn_session_version := pn_session_version holder + 1\<rparr>)"

definition accept_proof ::
    "(json_dict \<Rightarrow> string \<Rightarrow> string) \<Rightarrow> jwt_settings \<Rightarrow> completion_random \<Rightarrow> completion_request \<Rightarrow> int
      \<Rightarrow> completion_clocks \<Rightarrow> principal \<Rightarrow> totp_factor \<Rightarrow> auth_challenge \<Rightarrow> recovery_code option \<Rightarrow> int option
      \<Rightarrow> portal_db \<Rightarrow> (access_fault, (issued_session \<times> string list) \<times> portal_db) outcome" where
  "accept_proof jwt_encode jwt rnd req ttl clocks holder factor challenge recovery counter db =
     (let now = drop_microseconds (ck_now clocks); purpose = cr_purpose req;
          factor = settled_factor purpose now counter factor;
          holder = settled_principal purpose holder;
          used = (case recovery of None \<Rightarrow> pd_recovery_codes db
                  | Some r \<Rightarrow> row_put rv_code_id (r\<lparr>rv_consumed_at := Some now\<rparr>) (pd_recovery_codes db))
      in and_then (if purpose = ''setup'' \<or> purpose = ''recovery_reset''
                   then recovery_batch (cz_codes rnd) factor now used else Return ([], used)) (\<lambda>(codes, recovery_rows).
         and_then (issue_verified_session jwt_encode jwt (cz_session_id rnd) (ck_issued clocks) holder ttl
                     (ch_primary_method challenge) (ch_primary_authenticated_at challenge)
                     (if purpose = ''login'' then None else ch_bound_session_expires_at challenge)
                     (if tf_state factor = ''enabled'' then Some factor else None) (Some now) (Some (cr_method req))
                     (db\<lparr>pd_principals := row_put pn_principal_id holder (pd_principals db),
                         pd_factors := row_put tf_principal_id factor (pd_factors db),
                         pd_recovery_codes := recovery_rows,
                         pd_challenges := row_put ch_challenge_id (challenge\<lparr>ch_consumed_at := Some now\<rparr>)
                           (pd_challenges db)\<rparr>)) (\<lambda>(issued, db).
         Return ((issued, codes), db))))"

definition refuse_proof :: "auth_challenge \<Rightarrow> portal_db \<Rightarrow> access_fault \<times> portal_db" where
  "refuse_proof challenge db =
     (let remaining = ch_attempt_limit challenge - (ch_attempt_count challenge + 1)
      in (invalid_proof (if 0 < remaining then ''retryable'' else ''attempt_limit'') (Some remaining),
          db\<lparr>pd_challenges := row_put ch_challenge_id
               (challenge\<lparr>ch_attempt_count := ch_attempt_count challenge + 1\<rparr>) (pd_challenges db)\<rparr>))"

subsection \<open>The command\<close>

text \<open>The checks before the proof: the rows they load, the ttl of the credential and the ciphertext to open.\<close>

record completion_context =
  cc_holder :: principal
  cc_factor :: totp_factor
  cc_challenge :: auth_challenge
  cc_recovery :: "recovery_code option"
  cc_ttl :: int
  cc_ciphertext :: "string option"

definition completion_context_of ::
    "string set \<Rightarrow> completion_clocks \<Rightarrow> completion_request \<Rightarrow> portal_db
      \<Rightarrow> (access_fault, completion_context) outcome" where
  "completion_context_of discovered clocks req db =
     and_then (credential_parts (cr_credential req)) (\<lambda>(challenge_id, ttl).
     case row_get ch_challenge_id challenge_id (pd_challenges db) of
       None \<Rightarrow> Raise terminal_proof
     | Some seen \<Rightarrow>
     and_then (lock_login_scope discovered (ch_principal_id seen) db) (\<lambda>found.
     case found of
       None \<Rightarrow> Raise terminal_proof
     | Some holder \<Rightarrow>
     if pn_status holder \<noteq> ''active'' \<or> \<not> has_active_account (pn_principal_id holder) db then Raise terminal_proof else
     and_then (lock_primary_factor (pn_principal_id holder) db) (\<lambda>factor.
     case factor of
       None \<Rightarrow> Raise terminal_proof
     | Some factor \<Rightarrow>
     and_then (if cr_purpose req = ''login'' then Return ()
               else case cr_identity req of
                   None \<Rightarrow> Raise terminal_proof
                 | Some ident \<Rightarrow>
                     if id_principal_id ident \<noteq> pn_principal_id holder then Raise terminal_proof
                     else and_then (validate_registered_session (ck_validated clocks) ident db) (\<lambda>_. Return ())) (\<lambda>_.
     let now = drop_microseconds (ck_now clocks);
         recovery = (if cr_method req = ''recovery_code''
                     then lock_recovery_owned (pn_principal_id holder) (fst (recovery_parts (cr_code req))) db else None)
     in case lock_challenge_owned (pn_principal_id holder) challenge_id db of
          None \<Rightarrow> Raise terminal_proof
        | Some challenge \<Rightarrow>
            if \<not> challenge_live (cr_credential req) (cr_purpose req) now holder factor challenge
               \<or> \<not> challenge_session_bound (cr_purpose req) (cr_identity req) now challenge then Raise terminal_proof
            else and_then (proof_ciphertext req now factor challenge) (\<lambda>ciphertext.
                 and_then (budget (pn_principal_id holder) now db) (\<lambda>_.
                   Return \<lparr>cc_holder = holder, cc_factor = factor, cc_challenge = challenge, cc_recovery = recovery,
                           cc_ttl = ttl, cc_ciphertext = ciphertext\<rparr>))))))"

definition complete ::
    "crypto \<Rightarrow> encryption_settings \<Rightarrow> (json_dict \<Rightarrow> string \<Rightarrow> string) \<Rightarrow> jwt_settings \<Rightarrow> completion_random
      \<Rightarrow> string set \<Rightarrow> completion_clocks \<Rightarrow> completion_request \<Rightarrow> portal_db
      \<Rightarrow> (access_fault, issued_session \<times> string list) outcome \<times> portal_db" where
  "complete lib settings jwt_encode jwt rnd discovered clocks req db =
     (case completion_context_of discovered clocks req db of
        Inl e \<Rightarrow> (Raise e, db)
      | Inr ctx \<Rightarrow>
          (case check_proof lib settings req (drop_microseconds (ck_now clocks)) (cc_factor ctx) (cc_recovery ctx)
                  (cc_ciphertext ctx) of
             Inl e \<Rightarrow> (Raise e, db)
           | Inr (valid, counter) \<Rightarrow>
               if \<not> valid then (let (e, db') = refuse_proof (cc_challenge ctx) db in (Raise e, db'))
               else (case accept_proof jwt_encode jwt rnd req (cc_ttl ctx) clocks (cc_holder ctx) (cc_factor ctx)
                            (cc_challenge ctx) (cc_recovery ctx) counter db of
                       Inl e \<Rightarrow> (Raise e, db)
                     | Inr (result, db') \<Rightarrow> (Return result, db'))))"

subsection \<open>A primary login\<close>

record oauth_proof =
  op_state :: string
  op_nonce :: string

text \<open>
  \<open>metadata_json\<close> is the state's metadata dict; \<open>str(... or "")\<close> of its nonce hash is \<open>str_or_empty\<close>.
  The two clock reads are the check's and the write's.
\<close>

definition consume_oauth_state ::
    "oauth_proof \<Rightarrow> instant \<times> instant \<Rightarrow> portal_db \<Rightarrow> (access_fault, portal_db) outcome" where
  "consume_oauth_state proof clocks db =
     (let mine = (\<lambda>s. os_provider s = ''qq''
                  \<and> os_state_hash s = derive_stable_secret_digest (''qq:'' @ py_strip (op_state proof)));
          refused = Refused (CommercialServiceError 403 ''service.portal_oauth_state_invalid'' ''OAuth proof invalid'')
      in case find mine (pd_oauth_states db) of
           None \<Rightarrow> Raise refused
         | Some row \<Rightarrow>
             let expected_nonce = str_or_empty (py_get (case os_metadata_json row of None \<Rightarrow> [] | Some m \<Rightarrow> m) ''nonce_hash'')
             in if os_status row \<noteq> ''pending'' \<or> os_consumed_at row \<noteq> None \<or> os_expires_at row \<le> fst clocks
                   \<or> (expected_nonce \<noteq> []
                      \<and> expected_nonce \<noteq> derive_stable_secret_digest (''qq:nonce:'' @ py_strip (op_nonce proof)))
                then Raise refused
                else Return (db\<lparr>pd_oauth_states := rows_update mine
                       (\<lambda>s. s\<lparr>os_status := ''consumed'', os_consumed_at := Some (snd clocks)\<rparr>) (pd_oauth_states db)\<rparr>))"

datatype login_result = LoginIssued issued_session | LoginChallenged restricted_challenge

record login_issuer =
  li_ttl_seconds :: int
  li_auth_method :: string
  li_oauth_proof :: "oauth_proof option"

record login_random =
  lx_session_id :: string
  lx_challenge :: challenge_random

record login_clocks =
  lk_now :: instant
  lk_oauth :: "instant \<times> instant"
  lk_issued :: instant

definition issue ::
    "(json_dict \<Rightarrow> string \<Rightarrow> string) \<Rightarrow> jwt_settings \<Rightarrow> login_random \<Rightarrow> login_clocks \<Rightarrow> login_issuer \<Rightarrow> principal
      \<Rightarrow> portal_db \<Rightarrow> (access_fault, login_result \<times> portal_db) outcome" where
  "issue jwt_encode jwt rnd clocks issuer holder db =
     (if pn_status holder \<noteq> ''active''
      then Raise (session_revoked ''principal is not active'')
      else let now = drop_microseconds (lk_now clocks)
      in and_then (lock_primary_factor (pn_principal_id holder) db) (\<lambda>factor.
         and_then (case li_oauth_proof issuer of None \<Rightarrow> Return db | Some proof \<Rightarrow> consume_oauth_state proof (lk_oauth clocks) db) (\<lambda>db.
         if (case factor of None \<Rightarrow> False | Some f \<Rightarrow> tf_state f = ''enabled'')
         then and_then (create_challenge (lx_challenge rnd) holder factor ''login'' (li_auth_method issuer) now
                          (li_ttl_seconds issuer) now None None db) (\<lambda>(challenge, db). Return (LoginChallenged challenge, db))
         else and_then (issue_verified_session jwt_encode jwt (lx_session_id rnd) (lk_issued clocks) holder
                          (li_ttl_seconds issuer) (li_auth_method issuer) now None None None None db)
                (\<lambda>(issued, db). Return (LoginIssued issued, db)))))"

end
