(* ===== verification/PortalAccessSystem.thy ===== *)
theory PortalAccessSystem
  imports PortalCompletion
begin

section \<open>The Portal's access state under concurrent commands\<close>

text \<open>What each access command does to the tables, and the invariant of their interleavings.\<close>

subsection \<open>What the guards of a completion establish\<close>

lemma lock_login_scope_Return:
  "lock_login_scope discovered pid db = Return found \<Longrightarrow> found = row_get pn_principal_id pid (pd_principals db)"
  by (auto simp: lock_login_scope_def lock_login_scopes_def Let_def split: if_splits option.splits)

lemma lock_primary_factor_Return:
  "lock_primary_factor pid db = Return found \<Longrightarrow> found = row_get tf_principal_id pid (pd_factors db)"
  by (simp add: lock_primary_factor_def Let_def split: if_splits)

lemma budget_Return:
  "budget pid now db = Return u \<longleftrightarrow> recent_attempts pid now (pd_challenges db) < PRINCIPAL_ATTEMPT_LIMIT"
  by (auto simp: budget_def)

lemma lock_challenge_owned_Some:
  "lock_challenge_owned pid cid db = Some c \<Longrightarrow>
     c \<in> set (pd_challenges db) \<and> ch_principal_id c = pid \<and> ch_challenge_id c = cid"
  by (auto simp: lock_challenge_owned_def find_Some_iff)

lemma lock_recovery_owned_Some:
  "lock_recovery_owned pid cid db = Some r \<Longrightarrow>
     r \<in> set (pd_recovery_codes db) \<and> rv_principal_id r = pid \<and> rv_code_id r = cid"
  by (auto simp: lock_recovery_owned_def find_Some_iff)

text \<open>Everything a completion has established when it looks at the proof.\<close>

definition completion_ready ::
    "completion_clocks \<Rightarrow> completion_request \<Rightarrow> portal_db \<Rightarrow> completion_context \<Rightarrow> bool" where
  "completion_ready clocks req db ctx \<longleftrightarrow>
     (let now = drop_microseconds (ck_now clocks); pid = pn_principal_id (cc_holder ctx)
      in row_get pn_principal_id pid (pd_principals db) = Some (cc_holder ctx)
         \<and> pn_status (cc_holder ctx) = ''active'' \<and> has_active_account pid db
         \<and> row_get tf_principal_id pid (pd_factors db) = Some (cc_factor ctx)
         \<and> cc_challenge ctx \<in> set (pd_challenges db) \<and> ch_principal_id (cc_challenge ctx) = pid
         \<and> credential_parts (cr_credential req) = Return (ch_challenge_id (cc_challenge ctx), cc_ttl ctx)
         \<and> challenge_live (cr_credential req) (cr_purpose req) now (cc_holder ctx) (cc_factor ctx) (cc_challenge ctx)
         \<and> challenge_session_bound (cr_purpose req) (cr_identity req) now (cc_challenge ctx)
         \<and> proof_ciphertext req now (cc_factor ctx) (cc_challenge ctx) = Return (cc_ciphertext ctx)
         \<and> recent_attempts pid now (pd_challenges db) < PRINCIPAL_ATTEMPT_LIMIT
         \<and> cc_recovery ctx = (if cr_method req = ''recovery_code''
              then lock_recovery_owned pid (fst (recovery_parts (cr_code req))) db else None)
         \<and> (cr_purpose req \<noteq> ''login'' \<longrightarrow> (\<exists>ident row. cr_identity req = Some ident \<and> id_principal_id ident = pid
              \<and> validate_registered_session (ck_validated clocks) ident db = Return row)))"

lemma completion_context_ready:
  assumes "completion_context_of discovered clocks req db = Return ctx"
  shows "completion_ready clocks req db ctx"
proof -
  note step = assms [unfolded completion_context_of_def]
  from step obtain cid ttl where parts: "credential_parts (cr_credential req) = Return (cid, ttl)"
    by (cases "credential_parts (cr_credential req)") auto
  note step = step [unfolded parts and_then_simps prod.case]
  from step obtain seen where seen: "row_get ch_challenge_id cid (pd_challenges db) = Some seen"
    by (cases "row_get ch_challenge_id cid (pd_challenges db)") auto
  note step = step [unfolded seen option.case]
  from step obtain holder where scope: "lock_login_scope discovered (ch_principal_id seen) db = Return (Some holder)"
    by (cases "lock_login_scope discovered (ch_principal_id seen) db") (auto split: option.splits)
  from row_get_Some [OF lock_login_scope_Return [OF scope, symmetric]] lock_login_scope_Return [OF scope]
  have holder: "row_get pn_principal_id (pn_principal_id holder) (pd_principals db) = Some holder" by simp
  note step = step [unfolded scope and_then_simps option.case]
  from step have active: "pn_status holder = ''active'' \<and> has_active_account (pn_principal_id holder) db"
    by (simp only: split: if_splits) auto
  then have "\<not> (pn_status holder \<noteq> ''active'' \<or> \<not> has_active_account (pn_principal_id holder) db)" by blast
  note step = step [unfolded if_not_P [OF this]]
  from step obtain factor where locked: "lock_primary_factor (pn_principal_id holder) db = Return (Some factor)"
    by (cases "lock_primary_factor (pn_principal_id holder) db") (auto split: option.splits)
  note step = step [unfolded locked and_then_simps option.case]
  let ?caller = "if cr_purpose req = ''login'' then Return ()
      else case cr_identity req of None \<Rightarrow> Raise terminal_proof
        | Some ident \<Rightarrow> if id_principal_id ident \<noteq> pn_principal_id holder then Raise terminal_proof
            else and_then (validate_registered_session (ck_validated clocks) ident db) (\<lambda>_. Return ())"
  from step have caller: "?caller = Return ()" by (cases ?caller) auto
  then have bound: "cr_purpose req \<noteq> ''login'' \<longrightarrow> (\<exists>ident row. cr_identity req = Some ident
      \<and> id_principal_id ident = pn_principal_id holder \<and> validate_registered_session (ck_validated clocks) ident db = Return row)"
    by (auto simp only: and_then_Return split: if_splits option.splits)
  note step = step [unfolded caller and_then_simps Let_def]
  from step obtain challenge where challenge: "lock_challenge_owned (pn_principal_id holder) cid db = Some challenge"
    by (cases "lock_challenge_owned (pn_principal_id holder) cid db") auto
  note step = step [unfolded challenge option.case]
  let ?now = "drop_microseconds (ck_now clocks)"
  from step have live: "challenge_live (cr_credential req) (cr_purpose req) ?now holder factor challenge"
      "challenge_session_bound (cr_purpose req) (cr_identity req) ?now challenge"
    by (simp_all only: split: if_splits) auto
  then have "\<not> (\<not> challenge_live (cr_credential req) (cr_purpose req) ?now holder factor challenge
      \<or> \<not> challenge_session_bound (cr_purpose req) (cr_identity req) ?now challenge)" by blast
  note step = step [unfolded if_not_P [OF this]]
  let ?recovery = "if cr_method req = ''recovery_code''
      then lock_recovery_owned (pn_principal_id holder) (fst (recovery_parts (cr_code req))) db else None"
  from step obtain ciphertext where ciphertext: "proof_ciphertext req ?now factor challenge = Return ciphertext"
    by (cases "proof_ciphertext req ?now factor challenge") auto
  note step = step [unfolded ciphertext and_then_simps]
  from step obtain u where room: "budget (pn_principal_id holder) ?now db = Return u"
    by (cases "budget (pn_principal_id holder) ?now db") auto
  note step = step [unfolded room and_then_simps]
  from step have ctx: "ctx = \<lparr>cc_holder = holder, cc_factor = factor, cc_challenge = challenge, cc_recovery = ?recovery,
      cc_ttl = ttl, cc_ciphertext = ciphertext\<rparr>" by simp
  show ?thesis
    unfolding completion_ready_def Let_def ctx
    using parts holder active lock_primary_factor_Return [OF locked] bound live ciphertext
      room [unfolded budget_Return] lock_challenge_owned_Some [OF challenge]
    by simp
qed

text \<open>The three ways a completion ends.\<close>

lemma completion_cases:
  assumes "complete lib settings jwt_encode jwt rnd discovered clocks req db = (res, db')"
  obtains (rejected) e where "res = Raise e" "db' = db"
    | (refused) ctx counter e where "completion_ready clocks req db ctx"
        "check_proof lib settings req (drop_microseconds (ck_now clocks)) (cc_factor ctx) (cc_recovery ctx) (cc_ciphertext ctx)
           = Return (False, counter)"
        "refuse_proof (cc_challenge ctx) db = (e, db')" "res = Raise e"
    | (accepted) ctx counter result where "completion_ready clocks req db ctx"
        "check_proof lib settings req (drop_microseconds (ck_now clocks)) (cc_factor ctx) (cc_recovery ctx) (cc_ciphertext ctx)
           = Return (True, counter)"
        "accept_proof jwt_encode jwt rnd req (cc_ttl ctx) clocks (cc_holder ctx) (cc_factor ctx) (cc_challenge ctx)
           (cc_recovery ctx) counter db = Return (result, db')" "res = Return result"
proof (cases "completion_context_of discovered clocks req db")
  case (Inl e)
  with assms show thesis by (intro rejected [of e]) (simp_all add: complete_def)
next
  case (Inr ctx)
  note ready = completion_context_ready [OF Inr]
  let ?check = "check_proof lib settings req (drop_microseconds (ck_now clocks)) (cc_factor ctx) (cc_recovery ctx) (cc_ciphertext ctx)"
  let ?accept = "\<lambda>counter. accept_proof jwt_encode jwt rnd req (cc_ttl ctx) clocks (cc_holder ctx) (cc_factor ctx)
    (cc_challenge ctx) (cc_recovery ctx) counter db"
  show thesis
  proof (cases ?check)
    case (Inl e)
    with assms \<open>_ = Inr ctx\<close> show thesis by (intro rejected [of e]) (simp_all add: complete_def)
  next
    case check: (Inr p)
    obtain valid counter where p: "p = (valid, counter)" by (cases p)
    show thesis
    proof (cases valid)
      case False
      obtain e db'' where "refuse_proof (cc_challenge ctx) db = (e, db'')" by (cases "refuse_proof (cc_challenge ctx) db")
      with assms Inr check p False show thesis by (intro refused [OF ready, of counter e]) (simp_all add: complete_def)
    next
      case True
      show thesis
      proof (cases "?accept counter")
        case (Inl e)
        with assms \<open>_ = Inr ctx\<close> check p True show thesis by (intro rejected [of e]) (simp_all add: complete_def)
      next
        case acc: (Inr q)
        obtain result db'' where q: "q = (result, db'')" by (cases q)
        from assms Inr check p True acc q show thesis
          by (intro accepted [OF ready, of counter result]) (simp_all add: complete_def)
      qed
    qed
  qed
qed

subsection \<open>What issuing and accepting write\<close>

text \<open>The session row, with the evidence of the second factor when there is one.\<close>

definition issued_row ::
    "string \<Rightarrow> principal \<Rightarrow> instant \<Rightarrow> instant \<Rightarrow> string \<Rightarrow> instant \<Rightarrow> (totp_factor \<times> instant \<times> string) option
      \<Rightarrow> portal_session" where
  "issued_row sid holder now expiry auth_method primary_at evidence =
     (case evidence of
        None \<Rightarrow> new_session sid holder now expiry auth_method primary_at
      | Some (f, second_at, method) \<Rightarrow> (new_session sid holder now expiry auth_method primary_at)
          \<lparr>ps_factor_version := Some (tf_factor_version f), ps_second_factor_verified_at := Some second_at,
           ps_second_factor_method := Some method\<rparr>)"

lemma issue_verified_session_Return:
  assumes "issue_verified_session jwt_encode jwt sid clock holder ttl auth_method primary_at expires_at factor
             second_at second_method db = Return (issued, db')"
  obtains evidence expiry where
    "db' = db\<lparr>pd_sessions := pd_sessions db @ [issued_row sid holder (drop_microseconds clock) expiry auth_method primary_at evidence]\<rparr>"
    "row_get ps_session_id sid (pd_sessions db) = None" "drop_microseconds clock < expiry"
    "iss_session_id issued = sid" "iss_principal_id issued = pn_principal_id holder"
    "case factor of None \<Rightarrow> evidence = None
      | Some f \<Rightarrow> \<exists>moment m. evidence = Some (f, moment, m) \<and> tf_state f = ''enabled'' \<and> second_at = Some moment
          \<and> second_method = Some m \<and> Some m \<in> SECOND_FACTOR_METHODS"
proof -
  let ?now = "drop_microseconds clock"
  define expiry where "expiry = (case expires_at of Some e \<Rightarrow> e | None \<Rightarrow> ?now + seconds (max 60 ttl))"
  let ?row = "new_session sid holder ?now expiry auth_method primary_at"
  note step = assms [unfolded issue_verified_session_def Let_def expiry_def [symmetric]]
  from step have free: "row_get ps_session_id sid (pd_sessions db) = None" "?now < expiry"
    by (simp_all only: split: if_splits) auto
  then have "\<not> (row_get ps_session_id sid (pd_sessions db) \<noteq> None \<or> expiry \<le> ?now)" by auto
  note step = step [unfolded if_not_P [OF this]]
  let ?signed = "sign_session jwt_encode jwt holder sid expiry [] ?now"
  from step obtain row where row: "(case factor of None \<Rightarrow> Return ?row
      | Some f \<Rightarrow> if tf_state f \<noteq> ''enabled'' \<or> second_at = None \<or> second_method \<notin> SECOND_FACTOR_METHODS
                  then Raise (session_revoked ''invalid factor proof'')
                  else Return (?row\<lparr>ps_factor_version := Some (tf_factor_version f),
                                   ps_second_factor_verified_at := second_at,
                                   ps_second_factor_method := second_method\<rparr>)) = Return row"
    and signed: "?signed = Return issued" and db': "db' = db\<lparr>pd_sessions := pd_sessions db @ [row]\<rparr>"
    by (simp only: and_then_Return prod.inject sum.inject) blast
  from signed have ids: "iss_session_id issued = sid" "iss_principal_id issued = pn_principal_id holder"
    by (auto simp: sign_session_def and_then_Return)
  show thesis
  proof (cases factor)
    case None
    with row show thesis by (intro that [of expiry None]) (simp_all add: issued_row_def db' free ids)
  next
    case (Some f)
    note row = row [unfolded Some option.case]
    from row have ok: "tf_state f = ''enabled''" "second_at \<noteq> None" "second_method \<in> SECOND_FACTOR_METHODS"
      by (simp_all only: split: if_splits) auto
    then obtain moment m where "second_at = Some moment" "second_method = Some m" by (auto simp: SECOND_FACTOR_METHODS_def)
    with row ok Some show thesis
      by (intro that [of expiry "Some (f, moment, m)"]) (simp_all add: issued_row_def db' free ids)
  qed
qed

lemma recovery_batch_Return:
  assumes "recovery_batch rnds factor now rows = Return (codes, rows')"
  shows "\<exists>new. rows' = rows @ new \<and> (keys_distinct rv_code_id rows \<longrightarrow> keys_distinct rv_code_id rows')
    \<and> (\<forall>r\<in>set new. rv_principal_id r = tf_principal_id factor \<and> rv_factor_version r = tf_factor_version factor
         \<and> rv_generation r = tf_recovery_generation factor \<and> rv_code_hash r \<noteq> [] \<and> rv_created_at r = now
         \<and> rv_consumed_at r = None \<and> rv_code_id r \<in> fst ` set rnds)"
  using assms
proof (induction rnds factor now rows arbitrary: codes rows' rule: recovery_batch.induct)
  case (1 factor now rows)
  then show ?case by simp
next
  case (2 code_id secret salt rnds factor now rows)
  from "2.prems" obtain h where h: "build_secret_hash salt secret = Some h" by (auto split: option.splits)
  then have "h \<noteq> []" by (auto simp: build_secret_hash_def split: if_splits)
  let ?row = "\<lparr>rv_code_id = code_id, rv_principal_id = tf_principal_id factor, rv_factor_version = tf_factor_version factor,
    rv_generation = tf_recovery_generation factor, rv_code_hash = h, rv_created_at = now, rv_consumed_at = None\<rparr>"
  from "2.prems" h have fresh: "row_get rv_code_id code_id rows = None" by (auto split: if_splits)
  from "2.prems" h fresh obtain codes' where "recovery_batch rnds factor now (rows @ [?row]) = Return (codes', rows')"
    by (auto simp: and_then_Return)
  from "2.IH" [OF h _ this] fresh obtain new where new: "rows' = (rows @ [?row]) @ new"
      "keys_distinct rv_code_id (rows @ [?row]) \<longrightarrow> keys_distinct rv_code_id rows'"
      "\<forall>r\<in>set new. rv_principal_id r = tf_principal_id factor \<and> rv_factor_version r = tf_factor_version factor
         \<and> rv_generation r = tf_recovery_generation factor \<and> rv_code_hash r \<noteq> [] \<and> rv_created_at r = now
         \<and> rv_consumed_at r = None \<and> rv_code_id r \<in> fst ` set rnds"
    by auto
  then show ?case
    using fresh \<open>h \<noteq> []\<close> by (intro exI [of _ "?row # new"]) (auto simp: keys_distinct_append)
qed

end
