(* ===== verification/PortalAccessChecks.thy ===== *)
theory PortalAccessChecks
  imports PortalAccessSystem
begin

section \<open>The check constraints of the Portal's access tables (app/core/models.py)\<close>

text \<open>
  The constraints the database would refuse a row by.  The commands never test them; that their rows always
  satisfy them is proved, so that no command can fail with an integrity error the model leaves out.
\<close>

definition AUTH_METHODS :: "string set" where
  "AUTH_METHODS = {''email_code'', ''registration'', ''qq''}"

definition identifier_length :: "string \<Rightarrow> bool" where
  "identifier_length s \<longleftrightarrow> 1 \<le> length s \<and> length s \<le> 64"

definition session_checks :: "portal_session \<Rightarrow> bool" where
  "session_checks s \<longleftrightarrow>
     identifier_length (ps_session_id s) \<and> 0 < ps_session_version s \<and> ps_created_at s < ps_absolute_expires_at s
     \<and> ps_auth_method s \<in> AUTH_METHODS
     \<and> (case (ps_revoked_at s, ps_revoke_reason s) of
          (None, None) \<Rightarrow> True
        | (Some at_time, Some reason) \<Rightarrow> identifier_length reason \<and> ps_created_at s \<le> at_time
        | _ \<Rightarrow> False)
     \<and> (case ps_client_hint s of None \<Rightarrow> True | Some h \<Rightarrow> 1 \<le> length h \<and> length h \<le> 120)
     \<and> (case (ps_factor_version s, ps_second_factor_verified_at s, ps_second_factor_method s) of
          (None, None, None) \<Rightarrow> True
        | (Some v, Some verified, Some m) \<Rightarrow>
            0 < v \<and> (case ps_primary_authenticated_at s of None \<Rightarrow> False | Some primary \<Rightarrow> primary \<le> verified)
            \<and> Some m \<in> SECOND_FACTOR_METHODS
        | _ \<Rightarrow> False)"

definition factor_checks :: "totp_factor \<Rightarrow> bool" where
  "factor_checks f \<longleftrightarrow>
     0 < tf_factor_version f \<and> 0 \<le> tf_recovery_generation f
     \<and> (case tf_last_accepted_counter f of None \<Rightarrow> True | Some c \<Rightarrow> 0 \<le> c)
     \<and> (tf_state f = ''disabled'' \<and> tf_active_seed_ciphertext f = None \<and> tf_enabled_at f = None
          \<and> tf_last_accepted_counter f = None
        \<or> tf_state f = ''enabled'' \<and> or_empty (tf_active_seed_ciphertext f) \<noteq> [] \<and> tf_enabled_at f \<noteq> None
          \<and> 0 < tf_recovery_generation f)
     \<and> (case (tf_pending_setup_id f, tf_pending_seed_ciphertext f, tf_pending_created_at f, tf_pending_expires_at f) of
          (None, None, None, None) \<Rightarrow> True
        | (Some sid, Some seed, Some created, Some expires) \<Rightarrow> identifier_length sid \<and> seed \<noteq> [] \<and> created < expires
        | _ \<Rightarrow> False)
     \<and> tf_created_at f \<le> tf_updated_at f"

definition recovery_checks :: "recovery_code \<Rightarrow> bool" where
  "recovery_checks r \<longleftrightarrow>
     identifier_length (rv_code_id r) \<and> 0 < rv_factor_version r \<and> 0 < rv_generation r \<and> rv_code_hash r \<noteq> []
     \<and> (case rv_consumed_at r of None \<Rightarrow> True | Some t \<Rightarrow> rv_created_at r \<le> t)"

definition challenge_checks :: "auth_challenge \<Rightarrow> bool" where
  "challenge_checks c \<longleftrightarrow>
     identifier_length (ch_challenge_id c) \<and> ch_credential_hash c \<noteq> []
     \<and> ch_purpose c \<in> {''login'', ''setup'', ''disable'', ''recovery_reset''} \<and> ch_primary_method c \<in> AUTH_METHODS
     \<and> 0 < ch_bound_session_version c \<and> 0 \<le> ch_bound_factor_version c \<and> 0 \<le> ch_bound_recovery_generation c
     \<and> 0 \<le> ch_attempt_count c \<and> 0 < ch_attempt_limit c \<and> ch_attempt_count c \<le> ch_attempt_limit c
     \<and> ch_created_at c < ch_expires_at c
     \<and> (case ch_consumed_at c of None \<Rightarrow> True | Some t \<Rightarrow> ch_created_at c \<le> t)
     \<and> (ch_purpose c = ''login'' \<and> ch_bound_session_id c = None \<and> ch_bound_session_expires_at c = None
        \<or> ch_purpose c \<noteq> ''login'' \<and> identifier_length (or_empty (ch_bound_session_id c))
          \<and> ch_bound_session_expires_at c \<noteq> None)"

subsection \<open>Each write keeps the checks of its row\<close>

lemma issued_row_checks:
  assumes "identifier_length sid" and "0 < pn_session_version holder" and "now < expiry" and "m \<in> AUTH_METHODS"
    and "case evidence of None \<Rightarrow> True | Some (f, verified, sm) \<Rightarrow> 0 < tf_factor_version f \<and> primary_at \<le> verified
           \<and> Some sm \<in> SECOND_FACTOR_METHODS"
  shows "session_checks (issued_row sid holder now expiry m primary_at evidence)"
  using assms by (auto simp: session_checks_def issued_row_def new_session_def split: option.splits)

lemma revoked_checks:
  assumes "session_checks s" and "ps_created_at s \<le> now" and "identifier_length reason"
  shows "session_checks (s\<lparr>ps_revoked_at := Some now, ps_revoke_reason := Some reason\<rparr>)"
  using assms by (cases s) (simp add: session_checks_def split: option.splits)

lemma counted_checks:
  "challenge_checks c \<Longrightarrow> ch_attempt_count c < ch_attempt_limit c \<Longrightarrow>
     challenge_checks (c\<lparr>ch_attempt_count := ch_attempt_count c + 1\<rparr>)"
  by (cases c) (simp add: challenge_checks_def split: option.splits)

lemma consumed_checks:
  "challenge_checks c \<Longrightarrow> ch_created_at c \<le> now \<Longrightarrow> challenge_checks (c\<lparr>ch_consumed_at := Some now\<rparr>)"
  by (cases c) (simp add: challenge_checks_def)

lemma recovery_consumed_checks:
  "recovery_checks r \<Longrightarrow> rv_created_at r \<le> now \<Longrightarrow> recovery_checks (r\<lparr>rv_consumed_at := Some now\<rparr>)"
  by (cases r) (simp add: recovery_checks_def)

lemma settled_factor_simps:
  "tf_principal_id (settled_factor purpose now counter f) = tf_principal_id f"
  "tf_created_at (settled_factor purpose now counter f) = tf_created_at f"
  "tf_updated_at (settled_factor purpose now counter f) = now"
  "tf_factor_version (settled_factor purpose now counter f) =
     tf_factor_version f + (if purpose = ''setup'' \<or> purpose = ''disable'' then 1 else 0)"
  "tf_recovery_generation (settled_factor purpose now counter f) =
     tf_recovery_generation f + (if purpose = ''setup'' \<or> purpose = ''recovery_reset'' then 1 else 0)"
  "tf_state (settled_factor purpose now counter f) =
     (if purpose = ''setup'' then ''enabled'' else if purpose = ''disable'' then ''disabled'' else tf_state f)"
  "tf_last_accepted_counter (settled_factor purpose now counter f) =
     (if purpose = ''disable'' then None else if counter = None then tf_last_accepted_counter f else counter)"
  "tf_active_seed_ciphertext (settled_factor purpose now counter f) =
     (if purpose = ''setup'' then tf_pending_seed_ciphertext f else if purpose = ''disable'' then None
      else tf_active_seed_ciphertext f)"
  "tf_enabled_at (settled_factor purpose now counter f) =
     (if purpose = ''setup'' then Some now else if purpose = ''disable'' then None else tf_enabled_at f)"
  by (auto simp: settled_factor_def lifecycle_factor_def Let_def)

lemma settled_factor_pending:
  "purpose \<noteq> ''login'' \<Longrightarrow> tf_pending_setup_id (settled_factor purpose now counter f) = None
     \<and> tf_pending_seed_ciphertext (settled_factor purpose now counter f) = None
     \<and> tf_pending_created_at (settled_factor purpose now counter f) = None
     \<and> tf_pending_expires_at (settled_factor purpose now counter f) = None"
  "purpose = ''login'' \<Longrightarrow> tf_pending_setup_id (settled_factor purpose now counter f) = tf_pending_setup_id f
     \<and> tf_pending_seed_ciphertext (settled_factor purpose now counter f) = tf_pending_seed_ciphertext f
     \<and> tf_pending_created_at (settled_factor purpose now counter f) = tf_pending_created_at f
     \<and> tf_pending_expires_at (settled_factor purpose now counter f) = tf_pending_expires_at f"
  by (auto simp: settled_factor_def lifecycle_factor_def Let_def)

lemma settled_factor_checks:
  assumes "factor_checks f" and "tf_created_at f \<le> now" and "case counter of None \<Rightarrow> True | Some c \<Rightarrow> 0 \<le> c"
    and "purpose = ''setup'' \<and> or_empty (tf_pending_seed_ciphertext f) \<noteq> []
         \<or> purpose \<in> {''login'', ''disable'', ''recovery_reset''} \<and> tf_state f = ''enabled''"
  shows "factor_checks (settled_factor purpose now counter f)"
proof -
  have base: "0 < tf_factor_version f" "0 \<le> tf_recovery_generation f" "case tf_last_accepted_counter f of None \<Rightarrow> True | Some c \<Rightarrow> 0 \<le> c"
      "tf_state f = ''enabled'' \<Longrightarrow> or_empty (tf_active_seed_ciphertext f) \<noteq> [] \<and> tf_enabled_at f \<noteq> None \<and> 0 < tf_recovery_generation f"
    and pending: "case (tf_pending_setup_id f, tf_pending_seed_ciphertext f, tf_pending_created_at f, tf_pending_expires_at f) of
          (None, None, None, None) \<Rightarrow> True
        | (Some sid, Some seed, Some created, Some expires) \<Rightarrow> identifier_length sid \<and> seed \<noteq> [] \<and> created < expires
        | _ \<Rightarrow> False"
    using assms(1) unfolding factor_checks_def by auto
  from assms(4) consider "purpose = ''setup''" "or_empty (tf_pending_seed_ciphertext f) \<noteq> []"
    | "purpose = ''login''" "tf_state f = ''enabled''" | "purpose = ''disable''" "tf_state f = ''enabled''"
    | "purpose = ''recovery_reset''" "tf_state f = ''enabled''" by blast
  then show ?thesis
  proof cases
    case 1
    then show ?thesis
      using base assms(2,3) settled_factor_pending(1) [of purpose now counter f]
      by (simp add: factor_checks_def settled_factor_simps split: if_splits)
  next
    case 2
    then show ?thesis
      using base pending assms(2,3) settled_factor_pending(2) [of purpose now counter f]
      by (simp add: factor_checks_def settled_factor_simps split: if_splits)
  next
    case 3
    then show ?thesis
      using base assms(2,3) settled_factor_pending(1) [of purpose now counter f]
      by (simp add: factor_checks_def settled_factor_simps split: if_splits)
  next
    case 4
    then show ?thesis
      using base assms(2,3) settled_factor_pending(1) [of purpose now counter f]
      by (simp add: factor_checks_def settled_factor_simps split: if_splits)
  qed
qed

end
