(* ===== verification/PortalAccessInvariant.thy ===== *)
theory PortalAccessInvariant
  imports PortalAccessChecks
begin

section \<open>The invariant of the Portal's access tables\<close>

text \<open>
  The table invariant, with the clock as part of the state, and one lemma per kind of row write: the
  commands are sequences of these writes.
\<close>

definition version_known :: "string \<Rightarrow> int \<Rightarrow> portal_db \<Rightarrow> bool" where
  "version_known pid v db \<longleftrightarrow>
     (\<exists>p. row_get pn_principal_id pid (pd_principals db) = Some p \<and> v \<le> pn_session_version p)"

definition principals_ok :: "portal_db \<Rightarrow> bool" where
  "principals_ok db \<longleftrightarrow> keys_distinct pn_principal_id (pd_principals db) \<and> (\<forall>p\<in>set (pd_principals db). 0 < pn_session_version p)"

definition sessions_ok :: "instant \<Rightarrow> portal_db \<Rightarrow> bool" where
  "sessions_ok t db \<longleftrightarrow> keys_distinct ps_session_id (pd_sessions db)
     \<and> (\<forall>s\<in>set (pd_sessions db). session_checks s \<and> ps_created_at s \<le> drop_microseconds t
          \<and> version_known (ps_principal_id s) (ps_session_version s) db)"

definition factors_ok :: "instant \<Rightarrow> portal_db \<Rightarrow> bool" where
  "factors_ok t db \<longleftrightarrow> keys_distinct tf_principal_id (pd_factors db)
     \<and> (\<forall>f\<in>set (pd_factors db). factor_checks f \<and> tf_created_at f \<le> drop_microseconds t)"

definition recovery_codes_ok :: "instant \<Rightarrow> portal_db \<Rightarrow> bool" where
  "recovery_codes_ok t db \<longleftrightarrow> keys_distinct rv_code_id (pd_recovery_codes db)
     \<and> (\<forall>r\<in>set (pd_recovery_codes db). recovery_checks r \<and> rv_created_at r \<le> drop_microseconds t)"

definition challenges_ok :: "instant \<Rightarrow> portal_db \<Rightarrow> bool" where
  "challenges_ok t db \<longleftrightarrow> keys_distinct ch_challenge_id (pd_challenges db)
     \<and> (\<forall>c\<in>set (pd_challenges db). challenge_checks c \<and> ch_attempt_limit c = ATTEMPT_LIMIT
          \<and> ch_created_at c \<le> drop_microseconds t
          \<and> version_known (ch_principal_id c) (ch_bound_session_version c) db)"

definition budget_ok :: "instant \<Rightarrow> portal_db \<Rightarrow> bool" where
  "budget_ok t db \<longleftrightarrow> (\<forall>pid. recent_attempts pid t (pd_challenges db) \<le> PRINCIPAL_ATTEMPT_LIMIT)"

definition access_inv :: "instant \<times> portal_db \<Rightarrow> bool" where
  "access_inv st \<longleftrightarrow> (case st of (t, db) \<Rightarrow>
     principals_ok db \<and> sessions_ok t db \<and> factors_ok t db \<and> recovery_codes_ok t db \<and> challenges_ok t db
     \<and> budget_ok t db)"

lemmas access_inv_parts = access_inv_def principals_ok_def sessions_ok_def factors_ok_def recovery_codes_ok_def
  challenges_ok_def budget_ok_def

lemma drop_microseconds_mono: "t \<le> t' \<Longrightarrow> drop_microseconds t \<le> drop_microseconds t'"
  by (simp add: drop_microseconds_def minus_mod_eq_mult_div zdiv_mono1)

lemma drop_microseconds_idem [simp]: "drop_microseconds (drop_microseconds t) = drop_microseconds t"
  by (simp add: drop_microseconds_def minus_mod_eq_mult_div)

lemma challenge_checks_count: "challenge_checks c \<Longrightarrow> 0 \<le> ch_attempt_count c"
  by (simp add: challenge_checks_def)

subsection \<open>Attempts in the window\<close>

lemma recent_attempts_Nil [simp]: "recent_attempts pid now [] = 0"
  by (simp add: recent_attempts_def)

lemma recent_attempts_Cons [simp]:
  "recent_attempts pid now (c # cs) =
     (if ch_principal_id c = pid \<and> now - seconds WINDOW_SECONDS \<le> ch_created_at c then ch_attempt_count c else 0)
     + recent_attempts pid now cs"
  by (simp add: recent_attempts_def)

lemma recent_attempts_append [simp]:
  "recent_attempts pid now (cs @ ds) = recent_attempts pid now cs + recent_attempts pid now ds"
  by (simp add: recent_attempts_def)

lemma recent_attempts_antimono:
  assumes "\<forall>c\<in>set cs. 0 \<le> ch_attempt_count c" and "now \<le> later"
  shows "recent_attempts pid later cs \<le> recent_attempts pid now cs"
  using assms by (induction cs) auto

lemma recent_attempts_put:
  assumes "keys_distinct ch_challenge_id cs" and "c \<in> set cs"
    and "ch_challenge_id c' = ch_challenge_id c" and "ch_principal_id c' = ch_principal_id c"
    and "ch_created_at c' = ch_created_at c"
  shows "recent_attempts pid now (row_put ch_challenge_id c' cs) = recent_attempts pid now cs
    + (if ch_principal_id c = pid \<and> now - seconds WINDOW_SECONDS \<le> ch_created_at c
       then ch_attempt_count c' - ch_attempt_count c else 0)"
  using assms(1,2)
proof (induction cs)
  case Nil
  then show ?case by simp
next
  case (Cons d cs)
  show ?case
  proof (cases "d = c")
    case True
    then have "\<forall>x\<in>set cs. ch_challenge_id x \<noteq> ch_challenge_id c'"
      using Cons.prems(1) assms(3) by (auto simp: keys_distinct_def image_iff)
    then have "row_put ch_challenge_id c' cs = cs" by (auto simp: row_put_def intro: rows_update_id)
    then have "row_put ch_challenge_id c' (d # cs) = c' # cs"
      using True assms(3) by (simp add: row_put_def rows_update_def)
    then show ?thesis using True assms(4,5) by simp
  next
    case False
    with Cons.prems assms(3) have "ch_challenge_id d \<noteq> ch_challenge_id c'" "c \<in> set cs" "keys_distinct ch_challenge_id cs"
      by (auto simp: keys_distinct_def image_iff)
    with Cons.IH show ?thesis by (simp add: row_put_def rows_update_def)
  qed
qed

subsection \<open>One lemma per write\<close>

lemma access_inv_later:
  assumes "access_inv (t, db)" and "t \<le> t'"
  shows "access_inv (t', db)"
proof -
  have le: "drop_microseconds t \<le> drop_microseconds t'" using assms(2) by (rule drop_microseconds_mono)
  have "recent_attempts pid t' (pd_challenges db) \<le> PRINCIPAL_ATTEMPT_LIMIT" for pid
  proof -
    have "\<forall>c\<in>set (pd_challenges db). 0 \<le> ch_attempt_count c"
      using assms(1) by (auto simp: access_inv_parts challenge_checks_count)
    moreover have "recent_attempts pid t (pd_challenges db) \<le> PRINCIPAL_ATTEMPT_LIMIT"
      using assms(1) by (simp add: access_inv_parts)
    ultimately show ?thesis using recent_attempts_antimono [OF _ assms(2)] order_trans by blast
  qed
  with assms(1) le show ?thesis by (force simp: access_inv_parts)
qed

lemma version_known_simps [simp]:
  "version_known pid v (db\<lparr>pd_sessions := ss\<rparr>) = version_known pid v db"
  "version_known pid v (db\<lparr>pd_factors := fs\<rparr>) = version_known pid v db"
  "version_known pid v (db\<lparr>pd_recovery_codes := rs\<rparr>) = version_known pid v db"
  "version_known pid v (db\<lparr>pd_challenges := cs\<rparr>) = version_known pid v db"
  "version_known pid v (db\<lparr>pd_accounts := as\<rparr>) = version_known pid v db"
  "version_known pid v (db\<lparr>pd_memberships := ms\<rparr>) = version_known pid v db"
  "version_known pid v (db\<lparr>pd_oauth_states := os\<rparr>) = version_known pid v db"
  by (simp_all add: version_known_def)

lemma inv_sessions:
  assumes "access_inv (t, db)" and "sessions_ok t (db\<lparr>pd_sessions := ss\<rparr>)"
  shows "access_inv (t, db\<lparr>pd_sessions := ss\<rparr>)"
  using assms by (simp add: access_inv_parts)

lemma inv_add_session:
  assumes "access_inv (t, db)" and "session_checks s" and "ps_created_at s \<le> drop_microseconds t"
    and "version_known (ps_principal_id s) (ps_session_version s) db"
    and "row_get ps_session_id (ps_session_id s) (pd_sessions db) = None"
  shows "access_inv (t, db\<lparr>pd_sessions := pd_sessions db @ [s]\<rparr>)"
  using assms by (auto simp: access_inv_parts keys_distinct_append)

lemma inv_put_factor:
  assumes "access_inv (t, db)" and "factor_checks f" and "tf_created_at f \<le> drop_microseconds t"
  shows "access_inv (t, put_factor f db)" and "access_inv (t, db\<lparr>pd_factors := row_put tf_principal_id f (pd_factors db)\<rparr>)"
  using assms by (auto simp: access_inv_parts put_factor_def keys_distinct_append dest: in_row_put)

lemma inv_recovery_codes:
  assumes "access_inv (t, db)" and "keys_distinct rv_code_id rs"
    and "\<forall>r\<in>set rs. recovery_checks r \<and> rv_created_at r \<le> drop_microseconds t"
  shows "access_inv (t, db\<lparr>pd_recovery_codes := rs\<rparr>)"
  using assms by (simp add: access_inv_parts)

lemma inv_put_principal:
  assumes "access_inv (t, db)" and "row_get pn_principal_id (pn_principal_id p) (pd_principals db) = Some q"
    and "pn_session_version q \<le> pn_session_version p"
  shows "access_inv (t, db\<lparr>pd_principals := row_put pn_principal_id p (pd_principals db)\<rparr>)"
proof -
  let ?db = "db\<lparr>pd_principals := row_put pn_principal_id p (pd_principals db)\<rparr>"
  have known: "version_known pid v ?db" if "version_known pid v db" for pid v
    using that assms(2,3) by (cases "pid = pn_principal_id p") (auto simp: version_known_def)
  have "0 < pn_session_version q" using assms(1,2) row_get_Some by (fastforce simp: access_inv_parts)
  then have "principals_ok ?db"
    using assms(1,3) by (auto simp: access_inv_parts dest!: in_row_put)
  with assms(1) known show ?thesis by (simp add: access_inv_parts)
qed

lemma inv_add_challenge:
  assumes "access_inv (t, db)" and "challenge_checks c" and "ch_attempt_limit c = ATTEMPT_LIMIT"
    and "ch_attempt_count c = 0" and "ch_created_at c \<le> drop_microseconds t"
    and "version_known (ch_principal_id c) (ch_bound_session_version c) db"
    and "row_get ch_challenge_id (ch_challenge_id c) (pd_challenges db) = None"
  shows "access_inv (t, db\<lparr>pd_challenges := pd_challenges db @ [c]\<rparr>)"
  using assms by (auto simp: access_inv_parts keys_distinct_append)

lemma inv_put_challenge:
  assumes inv: "access_inv (t, db)" and c: "c \<in> set (pd_challenges db)"
    and same: "ch_challenge_id c' = ch_challenge_id c" "ch_principal_id c' = ch_principal_id c"
      "ch_created_at c' = ch_created_at c" "ch_bound_session_version c' = ch_bound_session_version c"
      "ch_attempt_limit c' = ch_attempt_limit c"
    and checks: "challenge_checks c'"
    and count: "ch_attempt_count c' = ch_attempt_count c
      \<or> ch_attempt_count c' = ch_attempt_count c + 1
        \<and> recent_attempts (ch_principal_id c) t (pd_challenges db) < PRINCIPAL_ATTEMPT_LIMIT"
  shows "access_inv (t, db\<lparr>pd_challenges := row_put ch_challenge_id c' (pd_challenges db)\<rparr>)"
proof -
  let ?cs = "row_put ch_challenge_id c' (pd_challenges db)"
  have distinct: "keys_distinct ch_challenge_id (pd_challenges db)" using inv by (simp add: access_inv_parts)
  have "recent_attempts pid t ?cs \<le> PRINCIPAL_ATTEMPT_LIMIT" for pid
    using recent_attempts_put [OF distinct c same(1-3), of pid t] inv count by (auto simp: access_inv_parts)
  moreover have "challenges_ok t (db\<lparr>pd_challenges := ?cs\<rparr>)"
    using inv c same checks distinct by (auto simp: access_inv_parts dest!: in_row_put)
  ultimately show ?thesis using inv by (simp add: access_inv_parts)
qed

end
