(* ===== verification/PortalAccessRuns.thy ===== *)
theory PortalAccessRuns
  imports PortalAccessInvariant
begin

section \<open>Interleaved access commands\<close>

subsection \<open>Reading off a proof and an acceptance\<close>

lemma proof_ciphertext_Return:
  assumes "proof_ciphertext req now factor challenge = Return ct"
  obtains (pending) "cr_purpose req = ''setup''" "cr_method req = ''totp''" "tf_state factor = ''disabled''"
      "ct = tf_pending_seed_ciphertext factor" "tf_pending_setup_id factor = Some (ch_challenge_id challenge)"
    | (enabled) "cr_purpose req \<in> {''login'', ''disable'', ''recovery_reset''}" "cr_purpose req \<noteq> ''setup''"
      "tf_state factor = ''enabled''" "ct = tf_active_seed_ciphertext factor"
proof (cases "cr_purpose req = ''setup''")
  case True
  with assms show thesis by (intro pending) (auto simp: proof_ciphertext_def split: if_splits)
next
  case False
  with assms show thesis by (intro enabled) (simp_all add: proof_ciphertext_def split: if_splits)
qed

lemma matched_counter_nonneg: "matched_counter seed code now = Return (Some c) \<Longrightarrow> 0 \<le> c"
proof -
  assume m: "matched_counter seed code now = Return (Some c)"
  let ?M = "\<lambda>step. filter (\<lambda>c. hotp seed c 6 = Some code) [max 0 (step - 1)..step + 1]"
  from m obtain step where "?M step \<noteq> []" "c = Max (set (?M step))"
    unfolding matched_counter_def Let_def by (auto split: if_splits)
  then have "c \<in> set (?M step)" by (metis List.finite_set Max_in set_empty)
  then show ?thesis by simp
qed

lemma check_proof_True:
  assumes "check_proof lib settings req now factor recovery ct = Return (True, counter)"
  obtains (totp) seed c where "cr_method req = ''totp''" "decrypt_portal_totp_seed lib settings ct = Return seed"
      "matched_counter seed (cr_code req) now = Return (Some c)" "counter = Some c" "counter_fresh factor c" "0 \<le> c"
      "or_empty ct \<noteq> []"
    | (code) "cr_method req = ''recovery_code''" "cr_method req \<noteq> ''totp''" "cr_purpose req \<noteq> ''setup''" "counter = None"
      "recovery_valid (snd (recovery_parts (cr_code req))) factor recovery"
proof (cases "cr_method req = ''totp''")
  case True
  with assms obtain seed where seed: "decrypt_portal_totp_seed lib settings ct = Return seed"
    by (auto simp: check_proof_def split: sum.splits)
  with True assms obtain c where c: "matched_counter seed (cr_code req) now = Return (Some c)" "counter = Some c"
      "counter_fresh factor c"
    by (auto simp: check_proof_def split: sum.splits option.splits)
  have "or_empty ct \<noteq> []" using seed by (auto simp: decrypt_portal_totp_seed_def Let_def)
  with True seed c matched_counter_nonneg [OF c(1)] show thesis by (intro totp)
next
  case False
  with assms show thesis by (intro code) (simp_all add: check_proof_def split: if_splits)
qed

lemma check_proof_False_counter:
  "check_proof lib settings req now factor recovery ct = Return (True, counter) \<Longrightarrow>
     case counter of None \<Rightarrow> True | Some c \<Rightarrow> 0 \<le> c"
  by (erule check_proof_True) simp_all

lemma and_then_tag:
  "and_then r (\<lambda>(a, b). Return ((a, c), b)) = Return ((x, y), z) \<longleftrightarrow> r = Return (x, z) \<and> c = y"
  by (cases r) auto

definition used_codes :: "instant \<Rightarrow> recovery_code option \<Rightarrow> recovery_code list \<Rightarrow> recovery_code list" where
  "used_codes now recovery rows =
     (case recovery of None \<Rightarrow> rows | Some r \<Rightarrow> row_put rv_code_id (r\<lparr>rv_consumed_at := Some now\<rparr>) rows)"

lemma accept_proof_Return:
  assumes "accept_proof jwt_encode jwt rnd req ttl clocks holder factor challenge recovery counter db
             = Return ((issued, codes), db')"
  obtains evidence expiry new where
    "db' = db\<lparr>pd_principals := row_put pn_principal_id (settled_principal (cr_purpose req) holder) (pd_principals db),
        pd_factors := row_put tf_principal_id (settled_factor (cr_purpose req) (drop_microseconds (ck_now clocks)) counter factor)
          (pd_factors db),
        pd_recovery_codes := used_codes (drop_microseconds (ck_now clocks)) recovery (pd_recovery_codes db) @ new,
        pd_challenges := row_put ch_challenge_id (challenge\<lparr>ch_consumed_at := Some (drop_microseconds (ck_now clocks))\<rparr>)
          (pd_challenges db),
        pd_sessions := pd_sessions db @ [issued_row (cz_session_id rnd) (settled_principal (cr_purpose req) holder)
          (drop_microseconds (ck_issued clocks)) expiry (ch_primary_method challenge)
          (ch_primary_authenticated_at challenge) evidence]\<rparr>"
    "row_get ps_session_id (cz_session_id rnd) (pd_sessions db) = None" "drop_microseconds (ck_issued clocks) < expiry"
    "iss_session_id issued = cz_session_id rnd" "iss_principal_id issued = pn_principal_id holder"
    "let f = settled_factor (cr_purpose req) (drop_microseconds (ck_now clocks)) counter factor
     in if tf_state f = ''enabled'' then evidence = Some (f, drop_microseconds (ck_now clocks), cr_method req)
          \<and> Some (cr_method req) \<in> SECOND_FACTOR_METHODS else evidence = None"
    "if cr_purpose req \<in> {''setup'', ''recovery_reset''}
     then recovery_batch (cz_codes rnd) (settled_factor (cr_purpose req) (drop_microseconds (ck_now clocks)) counter factor)
       (drop_microseconds (ck_now clocks)) (used_codes (drop_microseconds (ck_now clocks)) recovery (pd_recovery_codes db))
       = Return (codes, pd_recovery_codes db')
     else new = [] \<and> codes = []"
proof -
  let ?now = "drop_microseconds (ck_now clocks)"
  let ?f = "settled_factor (cr_purpose req) ?now counter factor"
  let ?h = "settled_principal (cr_purpose req) holder"
  define used where "used = used_codes ?now recovery (pd_recovery_codes db)"
  note step = assms [unfolded accept_proof_def Let_def used_codes_def [symmetric], folded used_def]
  let ?batch = "if cr_purpose req = ''setup'' \<or> cr_purpose req = ''recovery_reset''
                then recovery_batch (cz_codes rnd) ?f ?now used else Return ([], used)"
  from step obtain codes' rows where batch: "?batch = Return (codes', rows)"
    by (cases ?batch) auto
  let ?db = "db\<lparr>pd_principals := row_put pn_principal_id ?h (pd_principals db),
                 pd_factors := row_put tf_principal_id ?f (pd_factors db), pd_recovery_codes := rows,
                 pd_challenges := row_put ch_challenge_id (challenge\<lparr>ch_consumed_at := Some ?now\<rparr>) (pd_challenges db)\<rparr>"
  note step = step [unfolded batch and_then_simps prod.case]
  from step have sess: "issue_verified_session jwt_encode jwt (cz_session_id rnd) (ck_issued clocks) ?h ttl
        (ch_primary_method challenge) (ch_primary_authenticated_at challenge)
        (if cr_purpose req = ''login'' then None else ch_bound_session_expires_at challenge)
        (if tf_state ?f = ''enabled'' then Some ?f else None) (Some ?now) (Some (cr_method req)) ?db = Return (issued, db')"
    and codes: "codes' = codes"
    by (simp_all only: and_then_tag)
  have "\<exists>new. rows = used @ new \<and> (cr_purpose req \<in> {''setup'', ''recovery_reset''} \<or> new = [] \<and> codes = [])"
  proof (cases "cr_purpose req = ''setup'' \<or> cr_purpose req = ''recovery_reset''")
    case True
    from batch [unfolded if_P [OF this]] recovery_batch_Return obtain new where "rows = used @ new" by metis
    with True show ?thesis by simp
  next
    case False
    from batch [unfolded if_not_P [OF this]] codes show ?thesis by simp
  qed
  then obtain new where new: "rows = used @ new"
      "cr_purpose req \<in> {''setup'', ''recovery_reset''} \<or> new = [] \<and> codes = []" by (elim exE conjE)
  from issue_verified_session_Return [OF sess] obtain evidence expiry where
    ev: "db' = ?db\<lparr>pd_sessions := pd_sessions ?db @ [issued_row (cz_session_id rnd) ?h (drop_microseconds (ck_issued clocks))
        expiry (ch_primary_method challenge) (ch_primary_authenticated_at challenge) evidence]\<rparr>"
      "row_get ps_session_id (cz_session_id rnd) (pd_sessions ?db) = None" "drop_microseconds (ck_issued clocks) < expiry"
      "iss_session_id issued = cz_session_id rnd" "iss_principal_id issued = pn_principal_id ?h"
      "case if tf_state ?f = ''enabled'' then Some ?f else None of None \<Rightarrow> evidence = None
        | Some f \<Rightarrow> \<exists>moment m. evidence = Some (f, moment, m) \<and> tf_state f = ''enabled'' \<and> Some ?now = Some moment
            \<and> Some (cr_method req) = Some m \<and> Some m \<in> SECOND_FACTOR_METHODS"
    by (rule issue_verified_session_Return [OF sess]) (rule that, assumption+)
  show thesis
  proof (rule that)
    show "db' = db\<lparr>pd_principals := row_put pn_principal_id ?h (pd_principals db),
        pd_factors := row_put tf_principal_id ?f (pd_factors db),
        pd_recovery_codes := used_codes ?now recovery (pd_recovery_codes db) @ new,
        pd_challenges := row_put ch_challenge_id (challenge\<lparr>ch_consumed_at := Some ?now\<rparr>) (pd_challenges db),
        pd_sessions := pd_sessions db @ [issued_row (cz_session_id rnd) ?h (drop_microseconds (ck_issued clocks)) expiry
          (ch_primary_method challenge) (ch_primary_authenticated_at challenge) evidence]\<rparr>"
      unfolding ev(1) new(1) used_def [symmetric] by simp
    show "let f = ?f in if tf_state f = ''enabled'' then evidence = Some (f, ?now, cr_method req)
          \<and> Some (cr_method req) \<in> SECOND_FACTOR_METHODS else evidence = None"
      using ev(6) by (simp add: Let_def split: if_splits)
    show "if cr_purpose req \<in> {''setup'', ''recovery_reset''} then recovery_batch (cz_codes rnd) ?f ?now
         (used_codes ?now recovery (pd_recovery_codes db)) = Return (codes, pd_recovery_codes db')
       else new = [] \<and> codes = []"
      using batch codes new(2) unfolding used_def [symmetric] by (auto simp: ev(1) split: if_splits)
  qed (use ev in \<open>simp_all add: settled_principal_def split: if_splits\<close>)
qed

subsection \<open>Completions keep the invariant\<close>

definition completion_random_ok :: "completion_random \<Rightarrow> bool" where
  "completion_random_ok rnd \<longleftrightarrow> identifier_length (cz_session_id rnd) \<and> length (cz_codes rnd) = 8
     \<and> (\<forall>c\<in>set (cz_codes rnd). identifier_length (fst c))"

lemma settled_principal_simps [simp]:
  "pn_principal_id (settled_principal purpose holder) = pn_principal_id holder"
  "pn_session_version (settled_principal purpose holder) =
     pn_session_version holder + (if purpose = ''login'' then 0 else 1)"
  by (simp_all add: settled_principal_def)

lemma issued_row_simps [simp]:
  "ps_session_id (issued_row sid holder now expiry m primary_at evidence) = sid"
  "ps_principal_id (issued_row sid holder now expiry m primary_at evidence) = pn_principal_id holder"
  "ps_session_version (issued_row sid holder now expiry m primary_at evidence) = pn_session_version holder"
  "ps_created_at (issued_row sid holder now expiry m primary_at evidence) = now"
  "ps_revoked_at (issued_row sid holder now expiry m primary_at evidence) = None"
  by (auto simp: issued_row_def new_session_def split: option.splits)

lemma ready_facts:
  assumes "completion_ready clocks req db ctx"
  shows "row_get pn_principal_id (pn_principal_id (cc_holder ctx)) (pd_principals db) = Some (cc_holder ctx)"
    and "row_get tf_principal_id (pn_principal_id (cc_holder ctx)) (pd_factors db) = Some (cc_factor ctx)"
    and "cc_challenge ctx \<in> set (pd_challenges db)" and "ch_principal_id (cc_challenge ctx) = pn_principal_id (cc_holder ctx)"
    and "challenge_live (cr_credential req) (cr_purpose req) (drop_microseconds (ck_now clocks)) (cc_holder ctx)
      (cc_factor ctx) (cc_challenge ctx)"
    and "proof_ciphertext req (drop_microseconds (ck_now clocks)) (cc_factor ctx) (cc_challenge ctx) = Return (cc_ciphertext ctx)"
    and "recent_attempts (pn_principal_id (cc_holder ctx)) (drop_microseconds (ck_now clocks)) (pd_challenges db)
      < PRINCIPAL_ATTEMPT_LIMIT"
    and "cc_recovery ctx = Some r \<Longrightarrow> r \<in> set (pd_recovery_codes db)"
  using assms lock_recovery_owned_Some by (auto simp: completion_ready_def Let_def split: if_splits)

lemma refuse_keeps_inv:
  assumes inv: "access_inv (t, db)" and ready: "completion_ready clocks req db ctx" and t: "t \<le> ck_now clocks"
    and refuse: "refuse_proof (cc_challenge ctx) db = (e, db')"
  shows "access_inv (ck_now clocks, db')"
proof -
  let ?c = "cc_challenge ctx" and ?now = "ck_now clocks"
  note facts = ready_facts [OF ready]
  have inv': "access_inv (?now, db)" by (rule access_inv_later [OF inv t])
  then have c: "challenge_checks ?c" "\<forall>c\<in>set (pd_challenges db). 0 \<le> ch_attempt_count c"
    using facts(3) by (auto simp: access_inv_parts challenge_checks_count)
  have "ch_attempt_count ?c < ch_attempt_limit ?c" using facts(5) by (simp add: challenge_live_def)
  note checks = counted_checks [OF c(1) this]
  have "recent_attempts (pn_principal_id (cc_holder ctx)) ?now (pd_challenges db) < PRINCIPAL_ATTEMPT_LIMIT"
    using recent_attempts_antimono [OF c(2) conjunct1 [OF drop_microseconds_le]] facts(7) by (rule le_less_trans)
  with inv_put_challenge [OF inv' facts(3) _ _ _ _ _ checks] facts(4)
  have "access_inv (?now, db\<lparr>pd_challenges := row_put ch_challenge_id
      (?c\<lparr>ch_attempt_count := ch_attempt_count ?c + 1\<rparr>) (pd_challenges db)\<rparr>)" by simp
  with refuse show ?thesis by (auto simp: refuse_proof_def Let_def)
qed

lemma settled_factor_keeps_checks:
  assumes inv: "access_inv (t, db)" and ready: "completion_ready clocks req db ctx" and t: "t \<le> ck_now clocks"
    and check: "check_proof lib settings req (drop_microseconds (ck_now clocks)) (cc_factor ctx) (cc_recovery ctx)
      (cc_ciphertext ctx) = Return (True, counter)"
  shows "factor_checks (settled_factor (cr_purpose req) (drop_microseconds (ck_now clocks)) counter (cc_factor ctx))
    \<and> tf_created_at (cc_factor ctx) \<le> drop_microseconds (ck_now clocks)"
proof -
  let ?f = "cc_factor ctx"
  note facts = ready_facts [OF ready]
  have "?f \<in> set (pd_factors db)" using facts(2) row_get_Some by fastforce
  with access_inv_later [OF inv t] have f: "factor_checks ?f" "tf_created_at ?f \<le> drop_microseconds (ck_now clocks)"
    by (auto simp: access_inv_parts)
  note nonneg = check_proof_False_counter [OF check]
  from facts(6) show ?thesis
  proof (cases rule: proof_ciphertext_Return)
    case pending
    from check pending(1,2) have "or_empty (cc_ciphertext ctx) \<noteq> []" by (elim check_proof_True) simp_all
    with pending f nonneg settled_factor_checks show ?thesis by metis
  next
    case enabled
    with f nonneg settled_factor_checks show ?thesis by metis
  qed
qed

lemma factor_generation_pos:
  assumes "access_inv (t, db)" and "completion_ready clocks req db ctx"
  shows "0 \<le> tf_recovery_generation (cc_factor ctx)"
  using assms(1) row_get_Some [OF ready_facts(2) [OF assms(2)]] by (auto simp: access_inv_parts factor_checks_def)

lemma accepted_row_premises:
  assumes "access_inv (t, db)" and "completion_ready clocks req db ctx"
  shows "0 < pn_session_version (cc_holder ctx) \<and> ch_primary_method (cc_challenge ctx) \<in> AUTH_METHODS
    \<and> ch_primary_authenticated_at (cc_challenge ctx) \<le> drop_microseconds (ck_now clocks)"
  using assms(1) row_get_Some [OF ready_facts(1) [OF assms(2)]] ready_facts(3,5) [OF assms(2)]
  by (auto simp: access_inv_parts challenge_checks_def challenge_live_def)

lemma used_codes_ok:
  assumes "access_inv (t, db)" and "drop_microseconds t \<le> now" and "\<And>r. recovery = Some r \<Longrightarrow> r \<in> set (pd_recovery_codes db)"
  shows "keys_distinct rv_code_id (used_codes now recovery (pd_recovery_codes db))
    \<and> (\<forall>r\<in>set (used_codes now recovery (pd_recovery_codes db)). recovery_checks r \<and> rv_created_at r \<le> now)"
proof (cases recovery)
  case None
  with assms(1,2) show ?thesis by (auto simp: used_codes_def access_inv_parts)
next
  case (Some r)
  with assms recovery_consumed_checks have "recovery_checks (r\<lparr>rv_consumed_at := Some now\<rparr>)" "rv_created_at r \<le> now"
    by (force simp: access_inv_parts)+
  with Some assms(1,2) show ?thesis
    by (auto simp: used_codes_def access_inv_parts dest!: in_row_put)
qed

lemma batch_codes_ok:
  assumes "keys_distinct rv_code_id rows \<and> (\<forall>r\<in>set rows. recovery_checks r \<and> rv_created_at r \<le> now)"
    and "recovery_batch rnds f now rows = Return (codes, rows')" and "factor_checks f" and "0 < tf_recovery_generation f"
    and "\<forall>c\<in>set rnds. identifier_length (fst c)"
  shows "keys_distinct rv_code_id rows' \<and> (\<forall>r\<in>set rows'. recovery_checks r \<and> rv_created_at r \<le> now)"
proof -
  have f: "0 < tf_factor_version f" using assms(3) by (simp add: factor_checks_def)
  obtain new where new: "rows' = rows @ new" "keys_distinct rv_code_id rows'"
      "\<forall>r\<in>set new. rv_factor_version r = tf_factor_version f \<and> rv_generation r = tf_recovery_generation f
         \<and> rv_code_hash r \<noteq> [] \<and> rv_created_at r = now \<and> rv_consumed_at r = None \<and> rv_code_id r \<in> fst ` set rnds"
    using recovery_batch_Return [OF assms(2)] assms(1) by blast
  have "recovery_checks r \<and> rv_created_at r \<le> now" if "r \<in> set new" for r
  proof -
    from that new(3) have "rv_code_id r \<in> fst ` set rnds" by simp
    with assms(5) have "identifier_length (rv_code_id r)" by auto
    with that new(3) f assms(4) show ?thesis by (simp add: recovery_checks_def)
  qed
  with new(1,2) assms(1) show ?thesis by auto
qed

lemma accept_keeps_inv:
  assumes inv: "access_inv (t, db)" and ready: "completion_ready clocks req db ctx" and t: "t \<le> ck_now clocks"
    and issued: "ck_now clocks \<le> ck_issued clocks" and random: "completion_random_ok rnd"
    and check: "check_proof lib settings req (drop_microseconds (ck_now clocks)) (cc_factor ctx) (cc_recovery ctx)
      (cc_ciphertext ctx) = Return (True, counter)"
    and accept: "accept_proof jwt_encode jwt rnd req ttl clocks (cc_holder ctx) (cc_factor ctx) (cc_challenge ctx)
      (cc_recovery ctx) counter db = Return ((issued_s, codes), db')"
  shows "access_inv (ck_issued clocks, db')"
proof -
  let ?T = "ck_issued clocks" and ?now = "drop_microseconds (ck_now clocks)"
  define holder where "holder = settled_principal (cr_purpose req) (cc_holder ctx)"
  define factor where "factor = settled_factor (cr_purpose req) ?now counter (cc_factor ctx)"
  define c' where "c' = (cc_challenge ctx)\<lparr>ch_consumed_at := Some ?now\<rparr>"
  let ?used = "used_codes ?now (cc_recovery ctx) (pd_recovery_codes db)"
  note facts = ready_facts [OF ready]
  have le: "drop_microseconds t \<le> ?now" "?now \<le> drop_microseconds ?T"
    using t issued by (simp_all add: drop_microseconds_mono)
  have I0: "access_inv (?T, db)" by (rule access_inv_later [OF inv]) (use t issued in simp)
  have factor: "factor_checks factor" "tf_created_at factor \<le> drop_microseconds ?T"
    using settled_factor_keeps_checks [OF inv ready t check] le by (auto simp: factor_def settled_factor_simps)
  have c: "cc_challenge ctx \<in> set (pd_challenges db)" "challenge_checks (cc_challenge ctx)"
      "ch_created_at (cc_challenge ctx) \<le> ?now"
    using inv facts(3) le by (auto simp: access_inv_parts)
  have used: "keys_distinct rv_code_id ?used \<and> (\<forall>r\<in>set ?used. recovery_checks r \<and> rv_created_at r \<le> ?now)"
    by (rule used_codes_ok [OF inv le(1)]) (rule facts(8))
  from accept obtain evidence expiry new where
    db': "db' = db\<lparr>pd_principals := row_put pn_principal_id holder (pd_principals db),
        pd_factors := row_put tf_principal_id factor (pd_factors db), pd_recovery_codes := ?used @ new,
        pd_challenges := row_put ch_challenge_id c' (pd_challenges db),
        pd_sessions := pd_sessions db @ [issued_row (cz_session_id rnd) holder (drop_microseconds ?T) expiry
          (ch_primary_method (cc_challenge ctx)) (ch_primary_authenticated_at (cc_challenge ctx)) evidence]\<rparr>"
    and free: "row_get ps_session_id (cz_session_id rnd) (pd_sessions db) = None" "drop_microseconds ?T < expiry"
    and evidence: "let f = factor in if tf_state f = ''enabled'' then evidence = Some (f, ?now, cr_method req)
        \<and> Some (cr_method req) \<in> SECOND_FACTOR_METHODS else evidence = None"
    and batch: "if cr_purpose req \<in> {''setup'', ''recovery_reset''}
      then recovery_batch (cz_codes rnd) factor ?now ?used = Return (codes, pd_recovery_codes db')
      else new = [] \<and> codes = []"
    by (rule accept_proof_Return) (rule that, (unfold holder_def factor_def c'_def, assumption)+)
  have "tf_recovery_generation factor > 0" if "cr_purpose req \<in> {''setup'', ''recovery_reset''}"
    using that factor_generation_pos [OF inv ready] by (auto simp: factor_def settled_factor_simps)
  with batch_codes_ok [OF used _ factor(1)] batch used random
  have codes: "keys_distinct rv_code_id (?used @ new) \<and> (\<forall>r\<in>set (?used @ new). recovery_checks r \<and> rv_created_at r \<le> ?now)"
    by (cases "cr_purpose req \<in> {''setup'', ''recovery_reset''}") (simp_all add: db' completion_random_ok_def)
  have row: "session_checks (issued_row (cz_session_id rnd) holder (drop_microseconds ?T) expiry
      (ch_primary_method (cc_challenge ctx)) (ch_primary_authenticated_at (cc_challenge ctx)) evidence)"
    by (rule issued_row_checks) (use accepted_row_premises [OF inv ready] factor evidence free random in
        \<open>auto simp: holder_def completion_random_ok_def factor_checks_def Let_def split: if_splits\<close>)
  have I1: "access_inv (?T, db\<lparr>pd_principals := row_put pn_principal_id holder (pd_principals db)\<rparr>)"
    by (rule inv_put_principal [OF I0, of _ "cc_holder ctx"]) (use facts(1) in \<open>simp_all add: holder_def\<close>)
  note I2 = inv_put_factor(2) [OF I1 factor, simplified]
  have I3: "access_inv (?T, db\<lparr>pd_principals := row_put pn_principal_id holder (pd_principals db),
      pd_factors := row_put tf_principal_id factor (pd_factors db), pd_recovery_codes := ?used @ new\<rparr>)"
    by (rule inv_recovery_codes [OF I2]) (use codes order_trans [OF _ le(2)] in blast)+
  have I4: "access_inv (?T, db\<lparr>pd_principals := row_put pn_principal_id holder (pd_principals db),
      pd_factors := row_put tf_principal_id factor (pd_factors db), pd_recovery_codes := ?used @ new,
      pd_challenges := row_put ch_challenge_id c' (pd_challenges db)\<rparr>)"
    using inv_put_challenge [OF I3, of "cc_challenge ctx" c'] c consumed_checks [OF c(2,3)] by (simp add: c'_def)
  have "pn_principal_id holder = pn_principal_id (cc_holder ctx)" by (simp add: holder_def)
  then have held: "row_get pn_principal_id (pn_principal_id holder) (row_put pn_principal_id holder (pd_principals db)) = Some holder"
    using row_get_put_same [of pn_principal_id holder "pd_principals db"] facts(1) by simp
  show ?thesis
    unfolding db' by (rule inv_add_session [OF I4, simplified])
      (use row free held in \<open>simp_all add: version_known_def\<close>)
qed

end
