(* ===== verification/PortalAccessSteps.thy ===== *)
theory PortalAccessSteps
  imports PortalAccessRuns
begin

section \<open>The access commands as steps\<close>

text \<open>Logins, management commands and revocations keep the table invariant; then the step relation itself.\<close>

subsection \<open>Challenges\<close>

lemma create_challenge_Return:
  assumes "create_challenge rnd holder factor purpose primary_method primary_at ttl now sid expiry db = Return (challenge, db')"
  obtains c where "db' = db\<lparr>pd_challenges := pd_challenges db @ [c]\<rparr>"
    "row_get ch_challenge_id (ch_challenge_id c) (pd_challenges db) = None"
    "ch_challenge_id c = (case factor of Some f \<Rightarrow> if purpose = ''setup'' \<and> or_empty (tf_pending_setup_id f) \<noteq> []
        then or_empty (tf_pending_setup_id f) else cx_challenge_id rnd | None \<Rightarrow> cx_challenge_id rnd)"
    "ch_principal_id c = pn_principal_id holder" "ch_purpose c = purpose" "ch_primary_method c = primary_method"
    "ch_bound_session_version c = pn_session_version holder"
    "ch_bound_factor_version c = (case factor of None \<Rightarrow> 0 | Some f \<Rightarrow> tf_factor_version f)"
    "ch_bound_recovery_generation c = (case factor of None \<Rightarrow> 0 | Some f \<Rightarrow> tf_recovery_generation f)"
    "ch_bound_session_id c = sid" "ch_bound_session_expires_at c = expiry" "ch_created_at c = now"
    "now < ch_expires_at c" "ch_attempt_count c = 0" "ch_attempt_limit c = ATTEMPT_LIMIT" "ch_consumed_at c = None"
    "ch_credential_hash c \<noteq> []"
    "recent_attempts (pn_principal_id holder) now (pd_challenges db) < PRINCIPAL_ATTEMPT_LIMIT"
proof -
  define pending where "pending = (if purpose = ''setup''
    then (case factor of None \<Rightarrow> [] | Some f \<Rightarrow> or_empty (tf_pending_setup_id f)) else [])"
  define cid where "cid = (if pending = [] then cx_challenge_id rnd else pending)"
  define expires where "expires = min (now + seconds CHALLENGE_SECONDS) (primary_at + seconds CHALLENGE_SECONDS)"
  define credential where "credential = cid @ ''.'' @ cx_secret rnd @ ''.'' @ int_text (max 60 (min ttl (90 * 86400)))"
  note step = assms [unfolded create_challenge_def Let_def, folded pending_def, folded cid_def expires_def, folded credential_def]
  from step obtain u where room: "budget (pn_principal_id holder) now db = Return u"
    by (cases "budget (pn_principal_id holder) now db") auto
  note step = step [unfolded room and_then_simps]
  from step have live: "\<not> expires \<le> now" by (auto split: if_splits)
  note step = step [unfolded if_not_P [OF live]]
  from step obtain h where h: "build_secret_hash (cx_salt rnd) credential = Some h"
    by (cases "build_secret_hash (cx_salt rnd) credential") auto
  then have "h \<noteq> []" by (auto simp: build_secret_hash_def split: if_splits)
  note step = step [unfolded h option.case]
  from step have fresh: "row_get ch_challenge_id cid (pd_challenges db) = None" by (auto split: if_splits)
  then have "\<not> row_get ch_challenge_id cid (pd_challenges db) \<noteq> None" by simp
  note step = step [unfolded if_not_P [OF this]]
  show thesis
    by (rule that [OF conjunct2 [OF step [unfolded sum.inject prod.inject], symmetric]])
      (use fresh live \<open>h \<noteq> []\<close> room [unfolded budget_Return] in
        \<open>simp_all add: cid_def pending_def split: option.splits\<close>)
qed

lemma create_keeps_inv:
  assumes inv: "access_inv (T, db)" and now: "now \<le> drop_microseconds T"
    and create: "create_challenge rnd holder factor purpose primary_method primary_at ttl now sid expiry db
      = Return (challenge, db')"
    and holder: "row_get pn_principal_id (pn_principal_id holder) (pd_principals db) = Some holder"
    and factor: "\<And>f. factor = Some f \<Longrightarrow> factor_checks f"
    and random: "identifier_length (cx_challenge_id rnd)"
      "\<And>f. factor = Some f \<Longrightarrow> purpose = ''setup'' \<Longrightarrow> identifier_length (or_empty (tf_pending_setup_id f))"
    and purpose: "purpose = ''login'' \<and> sid = None \<and> expiry = None
      \<or> purpose \<in> {''setup'', ''disable'', ''recovery_reset''} \<and> identifier_length (or_empty sid) \<and> expiry \<noteq> None"
    and primary: "primary_method \<in> AUTH_METHODS"
  shows "access_inv (T, db')"
proof -
  from create show ?thesis
  proof (rule create_challenge_Return)
    fix c
    assume db': "db' = db\<lparr>pd_challenges := pd_challenges db @ [c]\<rparr>"
      and fresh: "row_get ch_challenge_id (ch_challenge_id c) (pd_challenges db) = None"
      and id: "ch_challenge_id c = (case factor of Some f \<Rightarrow> if purpose = ''setup'' \<and> or_empty (tf_pending_setup_id f) \<noteq> []
        then or_empty (tf_pending_setup_id f) else cx_challenge_id rnd | None \<Rightarrow> cx_challenge_id rnd)"
      and c: "ch_principal_id c = pn_principal_id holder" "ch_purpose c = purpose" "ch_primary_method c = primary_method"
        "ch_bound_session_version c = pn_session_version holder"
        "ch_bound_factor_version c = (case factor of None \<Rightarrow> 0 | Some f \<Rightarrow> tf_factor_version f)"
        "ch_bound_recovery_generation c = (case factor of None \<Rightarrow> 0 | Some f \<Rightarrow> tf_recovery_generation f)"
        "ch_bound_session_id c = sid" "ch_bound_session_expires_at c = expiry" "ch_created_at c = now"
        "now < ch_expires_at c" "ch_attempt_count c = 0" "ch_attempt_limit c = ATTEMPT_LIMIT" "ch_consumed_at c = None"
        "ch_credential_hash c \<noteq> []"
    have "identifier_length (ch_challenge_id c)" using random id by (auto split: option.splits if_splits)
    moreover have "0 < pn_session_version holder" using inv row_get_Some [OF holder] by (auto simp: access_inv_parts)
    moreover have "0 \<le> ch_bound_factor_version c \<and> 0 \<le> ch_bound_recovery_generation c"
      using c(5,6) factor by (cases factor) (auto simp: factor_checks_def)
    moreover have "purpose \<in> {''login'', ''setup'', ''disable'', ''recovery_reset''}"
        "purpose = ''login'' \<and> sid = None \<and> expiry = None \<or> purpose \<noteq> ''login'' \<and> identifier_length (or_empty sid) \<and> expiry \<noteq> None"
      using purpose by auto
    ultimately have "challenge_checks c"
      unfolding challenge_checks_def using c primary by (simp add: ATTEMPT_LIMIT_def)
    then show "access_inv (T, db')"
      unfolding db' by (intro inv_add_challenge [OF inv]) (use c fresh now holder in \<open>auto simp: version_known_def\<close>)
  qed
qed

subsection \<open>Primary logins\<close>

definition login_random_ok :: "login_random \<Rightarrow> bool" where
  "login_random_ok rnd \<longleftrightarrow> identifier_length (lx_session_id rnd) \<and> identifier_length (cx_challenge_id (lx_challenge rnd))"

lemma and_then_wrap:
  "and_then r (\<lambda>(a, b). Return (g a, b)) = Return (x, z) \<longleftrightarrow> (\<exists>a. r = Return (a, z) \<and> x = g a)"
  by (cases r) auto

lemma consume_oauth_state_Return:
  "consume_oauth_state proof clocks db = Return db' \<Longrightarrow> \<exists>states. db' = db\<lparr>pd_oauth_states := states\<rparr>"
  unfolding consume_oauth_state_def Let_def by (auto split: option.splits if_splits)

text \<open>An active principal gets a session when no factor is enabled, and only a challenge when one is.\<close>

lemma issue_cases:
  assumes "issue jwt_encode jwt rnd clocks issuer holder db = Return (result, db')"
  obtains (challenged) f states challenge where "row_get tf_principal_id (pn_principal_id holder) (pd_factors db) = Some f"
      "tf_state f = ''enabled''" "result = LoginChallenged challenge"
      "create_challenge (lx_challenge rnd) holder (Some f) ''login'' (li_auth_method issuer) (drop_microseconds (lk_now clocks))
         (li_ttl_seconds issuer) (drop_microseconds (lk_now clocks)) None None (db\<lparr>pd_oauth_states := states\<rparr>)
       = Return (challenge, db')"
    | (issued) states session where
      "\<forall>f. row_get tf_principal_id (pn_principal_id holder) (pd_factors db) = Some f \<longrightarrow> tf_state f \<noteq> ''enabled''"
      "result = LoginIssued session"
      "issue_verified_session jwt_encode jwt (lx_session_id rnd) (lk_issued clocks) holder (li_ttl_seconds issuer)
         (li_auth_method issuer) (drop_microseconds (lk_now clocks)) None None None None (db\<lparr>pd_oauth_states := states\<rparr>)
       = Return (session, db')"
proof -
  let ?now = "drop_microseconds (lk_now clocks)"
  note step = assms [unfolded issue_def Let_def]
  from step have "\<not> pn_status holder \<noteq> ''active''" by (auto split: if_splits)
  note step = step [unfolded if_not_P [OF this]]
  from step obtain found where locked: "lock_primary_factor (pn_principal_id holder) db = Return found"
    by (cases "lock_primary_factor (pn_principal_id holder) db") auto
  note found = lock_primary_factor_Return [OF locked]
  note step = step [unfolded locked and_then_simps]
  let ?consumed = "case li_oauth_proof issuer of None \<Rightarrow> Return db | Some proof \<Rightarrow> consume_oauth_state proof (lk_oauth clocks) db"
  from step obtain db1 where db1: "?consumed = Return db1" by (cases ?consumed) auto
  have "\<exists>states. db1 = db\<lparr>pd_oauth_states := states\<rparr>"
  proof (cases "li_oauth_proof issuer")
    case None
    with db1 show ?thesis by (intro exI [of _ "pd_oauth_states db"]) simp
  next
    case (Some p)
    with db1 show ?thesis by (intro consume_oauth_state_Return) simp
  qed
  then obtain states where states: "db1 = db\<lparr>pd_oauth_states := states\<rparr>" by (elim exE)
  note step = step [unfolded db1 and_then_simps states]
  show thesis
  proof (cases "case found of None \<Rightarrow> False | Some f \<Rightarrow> tf_state f = ''enabled''")
    case True
    then obtain f where f: "found = Some f" "tf_state f = ''enabled''" by (auto split: option.splits)
    from step [unfolded if_P [OF True], unfolded f(1) and_then_wrap] obtain challenge where
      "result = LoginChallenged challenge" "create_challenge (lx_challenge rnd) holder (Some f) ''login'' (li_auth_method issuer) ?now
         (li_ttl_seconds issuer) ?now None None (db\<lparr>pd_oauth_states := states\<rparr>) = Return (challenge, db')" by blast
    from challenged [OF found [unfolded f(1), symmetric] f(2) this] show thesis .
  next
    case False
    then have "\<forall>f. row_get tf_principal_id (pn_principal_id holder) (pd_factors db) = Some f \<longrightarrow> tf_state f \<noteq> ''enabled''"
      using found by auto
    from step [unfolded if_not_P [OF False] and_then_wrap] issued [OF this] show thesis by blast
  qed
qed

lemma issue_keeps_inv:
  assumes inv: "access_inv (t, db)" and clocks: "t \<le> lk_now clocks" "lk_now clocks \<le> lk_issued clocks"
    and random: "login_random_ok rnd" and primary: "li_auth_method issuer \<in> AUTH_METHODS"
    and holder: "row_get pn_principal_id (pn_principal_id holder) (pd_principals db) = Some holder"
    and issue: "issue jwt_encode jwt rnd clocks issuer holder db = Return (result, db')"
  shows "access_inv (lk_issued clocks, db')"
proof -
  let ?T = "lk_issued clocks"
  have I: "access_inv (?T, db\<lparr>pd_oauth_states := states\<rparr>)" for states
    using access_inv_later [OF inv, of ?T] clocks by (simp add: access_inv_parts)
  have now: "drop_microseconds (lk_now clocks) \<le> drop_microseconds ?T" using clocks(2) by (rule drop_microseconds_mono)
  from issue show ?thesis
  proof (cases rule: issue_cases)
    case (challenged f states challenge)
    have "factor_checks f" using inv row_get_Some [OF challenged(1)] by (auto simp: access_inv_parts)
    then show ?thesis
      by (intro create_keeps_inv [OF I now challenged(4)]) (use random primary holder in \<open>simp_all add: login_random_ok_def\<close>)
  next
    case (issued states session)
    from issued(3) show ?thesis
    proof (rule issue_verified_session_Return)
      fix evidence expiry
      let ?row = "issued_row (lx_session_id rnd) holder (drop_microseconds ?T) expiry (li_auth_method issuer)
        (drop_microseconds (lk_now clocks)) evidence"
      assume db': "db' = db\<lparr>pd_oauth_states := states, pd_sessions := pd_sessions (db\<lparr>pd_oauth_states := states\<rparr>) @ [?row]\<rparr>"
        and free: "row_get ps_session_id (lx_session_id rnd) (pd_sessions (db\<lparr>pd_oauth_states := states\<rparr>)) = None"
        and expiry: "drop_microseconds ?T < expiry"
        and none: "case None of None \<Rightarrow> evidence = None | Some f \<Rightarrow> \<exists>moment m. evidence = Some (f, moment, m)
          \<and> tf_state f = ''enabled'' \<and> None = Some moment \<and> None = Some m \<and> Some m \<in> SECOND_FACTOR_METHODS"
      have "0 < pn_session_version holder" using inv row_get_Some [OF holder] by (auto simp: access_inv_parts)
      then have "session_checks ?row"
        by (intro issued_row_checks) (use random primary expiry none in \<open>simp_all add: login_random_ok_def\<close>)
      then show "access_inv (?T, db')"
        unfolding db' by (intro inv_add_session [OF I]) (use free holder in \<open>auto simp: version_known_def\<close>)
    qed
  qed
qed

subsection \<open>Revocations\<close>

lemma revoke_keeps_inv:
  assumes inv: "access_inv (t, db)" and t: "t \<le> now"
    and revoke: "revoke_principal_sessions discovered validated_at now ident target db = (res, db')"
  shows "access_inv (now, db')"
proof -
  have I: "access_inv (now, db)" by (rule access_inv_later [OF inv t])
  define reason where "reason = (if or_empty target \<noteq> [] then ''self_revoke'' else ''revoke_others'')"
  let ?rows = "rows_update (revocation_target target ident now)
    (\<lambda>s. s\<lparr>ps_revoked_at := Some now, ps_revoke_reason := Some reason\<rparr>) (pd_sessions db)"
  have reason: "identifier_length reason" by (simp add: reason_def identifier_length_def)
  from revoke have "db' = db \<or> db' = db\<lparr>pd_sessions := ?rows\<rparr>"
    unfolding revoke_principal_sessions_def Let_def reason_def [symmetric] by (auto split: sum.splits)
  moreover have "sessions_ok now (db\<lparr>pd_sessions := ?rows\<rparr>)"
  proof -
    have rows: "session_checks s \<and> ps_created_at s \<le> now" if "s \<in> set (pd_sessions db)" for s
      using inv that t drop_microseconds_le [of t] by (fastforce simp: access_inv_parts)
    show ?thesis
      using I revoked_checks [OF _ _ reason] rows by (auto simp: access_inv_parts in_rows_update)
  qed
  ultimately show ?thesis using I inv_sessions by blast
qed

subsection \<open>Management commands\<close>

definition management_random_ok :: "management_random \<Rightarrow> bool" where
  "management_random_ok rnd \<longleftrightarrow> identifier_length (mx_setup_id rnd) \<and> identifier_length (cx_challenge_id (mx_challenge rnd))"

lemma pending_factor_checks:
  assumes "factor_checks f" and "identifier_length sid" and "ciphertext \<noteq> []" and "tf_created_at f \<le> now"
  shows "factor_checks (pending_factor sid ciphertext now f)"
proof -
  have "(0::int) < seconds CHALLENGE_SECONDS" by (simp add: seconds_def CHALLENGE_SECONDS_def)
  with assms show ?thesis by (cases f) (simp add: factor_checks_def pending_factor_def)
qed

lemma prepare_management_Return:
  assumes "prepare_management lib settings rnd purpose now holder factor db = Return (shown, f', db')"
  obtains (setting_up) f ciphertext where "factor = Some f" "purpose = ''setup''" "tf_state f \<noteq> ''enabled''" "ciphertext \<noteq> []"
      "f' = pending_factor (mx_setup_id rnd) ciphertext now f" "db' = put_factor f' db"
    | (existing) "factor = Some f'" "purpose \<noteq> ''setup''" "tf_state f' = ''enabled''" "db' = db"
proof (cases factor)
  case None
  with assms show thesis by (simp add: prepare_management_def)
next
  case (Some f)
  note step = assms [unfolded prepare_management_def Some option.case]
  show thesis
  proof (cases "purpose = ''setup''")
    case True
    note step = step [unfolded if_P [OF True]]
    from step have state: "tf_state f \<noteq> ''enabled''" by (auto split: if_splits)
    from step [unfolded if_not_P [OF state]] obtain ciphertext where
      sealed: "encrypt_portal_totp_seed lib settings (mx_seed rnd) = Return ciphertext"
      and f': "f' = pending_factor (mx_setup_id rnd) ciphertext now f" "db' = put_factor f' db"
      by (cases "encrypt_portal_totp_seed lib settings (mx_seed rnd)") (auto simp: Let_def)
    have "ciphertext \<noteq> []"
      using sealed runtime_token_not_blank by (fastforce simp: encrypt_portal_totp_seed_def py_strip_def split: if_splits)
    then show thesis by (rule setting_up [OF Some True state _ f'])
  next
    case False
    note step = step [unfolded if_not_P [OF False]]
    from step have state: "tf_state f = ''enabled''" by (auto split: if_splits)
    then have "\<not> tf_state f \<noteq> ''enabled''" by simp
    from step [unfolded if_not_P [OF this]] show thesis
      using state by (intro existing) (simp_all add: Some False)
  qed
qed

lemma start_management_cases:
  assumes "start_management lib settings rnd discovered clocks identity purpose db = (res, db')"
  obtains (failed) e where "res = Raise e" "db' = db"
    | (started) ident result where "identity = Some ident" "purpose \<in> {''setup'', ''disable'', ''recovery_reset''}"
      "start_management_body lib settings rnd discovered clocks ident purpose db = Return (result, db')" "res = Return result"
proof (cases identity)
  case None
  with assms failed [of terminal_proof] show thesis by (simp add: start_management_def)
next
  case (Some ident)
  note step = assms [unfolded start_management_def Some option.case]
  show thesis
  proof (cases "purpose \<notin> {''setup'', ''disable'', ''recovery_reset''}")
    case True
    from step [unfolded if_P [OF True]] failed [of terminal_proof] show thesis by simp
  next
    case False
    from step [unfolded if_not_P [OF False]] show thesis
      using Some False by (cases "start_management_body lib settings rnd discovered clocks ident purpose db")
        (auto intro: failed started)
  qed
qed

lemma start_management_body_Return:
  assumes "start_management_body lib settings rnd discovered clocks ident purpose db = Return (result, db')"
  obtains holder factor db0 row primary_at shown f' db1 challenge where
    "row_get pn_principal_id (id_principal_id ident) (pd_principals db) = Some holder"
    "factor = None \<and> db0 = db \<or> row_get tf_principal_id (id_principal_id ident) (pd_factors db) = factor \<and> db0 = db
       \<or> row_get tf_principal_id (id_principal_id ident) (pd_factors db) = None
         \<and> factor = Some (disabled_factor (id_principal_id ident) 1 (drop_microseconds (fst clocks))) \<and> db0 = put_factor (disabled_factor (id_principal_id ident) 1 (drop_microseconds (fst clocks))) db"
    "validate_registered_session (fst (snd clocks)) ident db0 = Return row"
    "prepare_management lib settings rnd purpose (drop_microseconds (snd (snd clocks))) holder factor db0 = Return (shown, f', db1)"
    "create_challenge (mx_challenge rnd) holder (Some f') purpose (ps_auth_method row) primary_at
       (epoch_seconds (id_expires_at ident - drop_microseconds (snd (snd clocks)))) (drop_microseconds (snd (snd clocks)))
       (Some (id_session_id ident)) (Some (id_expires_at ident)) db1 = Return (challenge, db')"
proof -
  let ?now = "drop_microseconds (snd (snd clocks))"
  define created where "created = disabled_factor (id_principal_id ident) 1 (drop_microseconds (fst clocks))"
  note step = assms [unfolded start_management_body_def Let_def, folded created_def]
  from step obtain found where holder: "lock_login_scope discovered (id_principal_id ident) db = Return found"
    by (cases "lock_login_scope discovered (id_principal_id ident) db") auto
  note step = step [unfolded holder and_then_simps]
  from step obtain locked where locked: "lock_primary_factor (id_principal_id ident) db = Return locked"
    by (cases "lock_primary_factor (id_principal_id ident) db") auto
  note step = step [unfolded locked and_then_simps]
  let ?fresh = "locked = None \<and> purpose = ''setup''"
  define factor where "factor = (if ?fresh then Some created else locked)"
  define db0 where "db0 = (if ?fresh then put_factor created db else db)"
  note step = step [folded factor_def db0_def]
  from step obtain row where row: "validate_registered_session (fst (snd clocks)) ident db0 = Return row"
    by (cases "validate_registered_session (fst (snd clocks)) ident db0") auto
  note step = step [unfolded row and_then_simps]
  from step obtain h primary_at where h: "found = Some h" and primary_at: "ps_primary_authenticated_at row = Some primary_at"
    by (cases found; cases "ps_primary_authenticated_at row") auto
  note step = step [unfolded h primary_at prod.case option.case]
  from step have recent: "\<not> \<not> (?now - seconds CHALLENGE_SECONDS \<le> primary_at \<and> primary_at \<le> ?now)"
    by (auto split: if_splits)
  note step = step [unfolded if_not_P [OF recent]]
  from step obtain u where room: "budget (pn_principal_id h) ?now db0 = Return u"
    by (cases "budget (pn_principal_id h) ?now db0") auto
  note step = step [unfolded room and_then_simps]
  from step obtain shown f' db1 where prepared:
    "prepare_management lib settings rnd purpose ?now h factor db0 = Return (shown, f', db1)"
    by (cases "prepare_management lib settings rnd purpose ?now h factor db0") auto
  note step = step [unfolded prepared and_then_simps prod.case]
  from step obtain challenge where create: "create_challenge (mx_challenge rnd) h (Some f') purpose (ps_auth_method row) primary_at
       (epoch_seconds (id_expires_at ident - ?now)) ?now (Some (id_session_id ident)) (Some (id_expires_at ident)) db1
     = Return (challenge, db')"
    unfolding and_then_wrap by blast
  have "row_get pn_principal_id (id_principal_id ident) (pd_principals db) = Some h"
    using lock_login_scope_Return [OF holder] h by simp
  moreover have "factor = None \<and> db0 = db \<or> row_get tf_principal_id (id_principal_id ident) (pd_factors db) = factor \<and> db0 = db
      \<or> row_get tf_principal_id (id_principal_id ident) (pd_factors db) = None \<and> factor = Some created \<and> db0 = put_factor created db"
    using lock_primary_factor_Return [OF locked] by (simp add: factor_def db0_def)
  ultimately show thesis using row prepared create unfolding created_def by (rule that)
qed

lemma validate_Return:
  assumes "validate_registered_session now ident db = Return row"
  shows "row \<in> set (pd_sessions db)" and "ps_session_id row = id_session_id ident"
    and "ps_principal_id row = id_principal_id ident" and "ps_revoked_at row = None"
    and "ps_session_version row = id_session_version ident"
    and "\<exists>holder. row_get pn_principal_id (id_principal_id ident) (pd_principals db) = Some holder
      \<and> pn_status holder = ''active'' \<and> pn_session_version holder = id_session_version ident"
    and "factor_satisfied (row_get tf_principal_id (id_principal_id ident) (pd_factors db)) row"
    and "now < ps_absolute_expires_at row"
proof -
  note step = assms [unfolded validate_registered_session_def Let_def]
  from step obtain holder row' where found: "row_get pn_principal_id (id_principal_id ident) (pd_principals db) = Some holder"
      "owned_session (id_principal_id ident) (id_session_id ident) db = Some row'"
    by (auto split: option.splits)
  note step = step [unfolded found prod.case option.case]
  from step have ok: "pn_status holder = ''active'' \<and> pn_session_version holder = id_session_version ident
      \<and> ps_session_version row' = id_session_version ident \<and> ps_revoked_at row' = None \<and> now < ps_absolute_expires_at row'
      \<and> factor_satisfied (row_get tf_principal_id (id_principal_id ident) (pd_factors db)) row' \<and> row' = row"
    by (simp only: sum.inject split: if_splits) (auto simp: not_le)
  have "row' \<in> set (pd_sessions db) \<and> ps_session_id row' = id_session_id ident \<and> ps_principal_id row' = id_principal_id ident"
    using found(2) by (auto simp: owned_session_def find_Some_iff)
  with ok found(1) show "row \<in> set (pd_sessions db)" "ps_session_id row = id_session_id ident"
      "ps_principal_id row = id_principal_id ident" "ps_revoked_at row = None" "ps_session_version row = id_session_version ident"
      "factor_satisfied (row_get tf_principal_id (id_principal_id ident) (pd_factors db)) row" "now < ps_absolute_expires_at row"
      "\<exists>holder. row_get pn_principal_id (id_principal_id ident) (pd_principals db) = Some holder
        \<and> pn_status holder = ''active'' \<and> pn_session_version holder = id_session_version ident"
    by auto
qed

lemma disabled_factor_checks: "factor_checks (disabled_factor pid 1 now)"
  by (simp add: factor_checks_def disabled_factor_def)

lemma start_management_keeps_inv:
  assumes inv: "access_inv (t, db)" and clocks: "fst clocks \<le> fst (snd clocks)" "t \<le> fst (snd clocks)"
      "fst (snd clocks) \<le> snd (snd clocks)"
    and random: "management_random_ok rnd" and purpose: "purpose \<in> {''setup'', ''disable'', ''recovery_reset''}"
    and body: "start_management_body lib settings rnd discovered clocks ident purpose db = Return (result, db')"
  shows "access_inv (snd (snd clocks), db')"
proof -
  let ?T = "snd (snd clocks)"
  let ?now = "drop_microseconds ?T" and ?created = "disabled_factor (id_principal_id ident) 1 (drop_microseconds (fst clocks))"
  have I: "access_inv (?T, db)" by (rule access_inv_later [OF inv]) (use clocks in simp)
  have created: "tf_created_at ?created \<le> ?now"
    unfolding disabled_factor_def by simp (rule drop_microseconds_mono, use clocks in simp)
  from body show ?thesis
  proof (rule start_management_body_Return)
    fix holder factor db0 row primary_at shown f' db1 challenge
    assume holder: "row_get pn_principal_id (id_principal_id ident) (pd_principals db) = Some holder"
      and factor: "factor = None \<and> db0 = db \<or> row_get tf_principal_id (id_principal_id ident) (pd_factors db) = factor \<and> db0 = db
        \<or> row_get tf_principal_id (id_principal_id ident) (pd_factors db) = None \<and> factor = Some ?created \<and> db0 = put_factor ?created db"
      and row: "validate_registered_session (fst (snd clocks)) ident db0 = Return row"
      and prepared: "prepare_management lib settings rnd purpose ?now holder factor db0 = Return (shown, f', db1)"
      and create: "create_challenge (mx_challenge rnd) holder (Some f') purpose (ps_auth_method row) primary_at
         (epoch_seconds (id_expires_at ident - ?now)) ?now (Some (id_session_id ident)) (Some (id_expires_at ident)) db1
       = Return (challenge, db')"
    have I0: "access_inv (?T, db0)"
      using factor I inv_put_factor(1) [OF I disabled_factor_checks created] by auto
    have f: "factor_checks f \<and> tf_created_at f \<le> ?now" if "factor = Some f" for f
      using factor that I created disabled_factor_checks row_get_Some by (fastforce simp: access_inv_parts)
    have principals: "pd_principals db0 = pd_principals db" using factor by (auto simp: put_factor_def)
    have row_ok: "session_checks row" using I0 validate_Return(1) [OF row] by (auto simp: access_inv_parts)
    then have sid: "identifier_length (id_session_id ident)" "ps_auth_method row \<in> AUTH_METHODS"
      using validate_Return(2) [OF row] by (auto simp: session_checks_def)
    from prepared have "factor_checks f' \<and> access_inv (?T, db1) \<and> pd_principals db1 = pd_principals db
      \<and> (purpose = ''setup'' \<longrightarrow> tf_pending_setup_id f' = Some (mx_setup_id rnd))"
    proof (cases rule: prepare_management_Return)
      case (setting_up f ciphertext)
      have id: "identifier_length (mx_setup_id rnd)" using random by (simp add: management_random_ok_def)
      from f [OF setting_up(1)] have "tf_created_at f' \<le> ?now" by (simp add: setting_up(5) pending_factor_def)
      moreover have "factor_checks f'"
        using pending_factor_checks [OF _ id setting_up(4)] f [OF setting_up(1)] by (simp add: setting_up(5))
      moreover have "tf_created_at f' \<le> ?now \<Longrightarrow> factor_checks f' \<Longrightarrow> access_inv (?T, db1)"
        unfolding setting_up(6) by (rule inv_put_factor(1) [OF I0])
      moreover have "pd_principals db1 = pd_principals db" by (simp add: setting_up(6) put_factor_def principals)
      moreover have "tf_pending_setup_id f' = Some (mx_setup_id rnd)" by (simp add: setting_up(5) pending_factor_def)
      ultimately show ?thesis by blast
    next
      case existing
      with f I0 principals show ?thesis by simp
    qed
    then show "access_inv (?T, db')"
      by (intro create_keeps_inv [OF _ _ create]) (use holder row_get_Some [OF holder] random sid purpose in
          \<open>auto simp: management_random_ok_def\<close>)
  qed
qed

subsection \<open>Steps\<close>

text \<open>
  The state is the clock and the tables.  A command's clock reads lie between the clock before it and the
  clock after it, because the principal's lock serialises the commands.  \<open>directory\<close> stands for everything
  else that writes these tables: accounts, memberships and OAuth states change freely, a principal's row
  keeps its id and never lowers its session version, and a key rotation replaces the two seed ciphertexts.
\<close>

definition rotated :: "totp_factor \<Rightarrow> totp_factor \<Rightarrow> bool" where
  "rotated f f' \<longleftrightarrow> (\<exists>a p. f' = f\<lparr>tf_active_seed_ciphertext := a, tf_pending_seed_ciphertext := p\<rparr>
     \<and> (a = None \<longleftrightarrow> tf_active_seed_ciphertext f = None) \<and> a \<noteq> Some []
     \<and> (p = None \<longleftrightarrow> tf_pending_seed_ciphertext f = None) \<and> p \<noteq> Some [])"

inductive access_step :: "instant \<times> portal_db \<Rightarrow> instant \<times> portal_db \<Rightarrow> bool" where
  login: "row_get pn_principal_id (pn_principal_id holder) (pd_principals db) = Some holder \<Longrightarrow>
    login_random_ok rnd \<Longrightarrow> li_auth_method issuer \<in> AUTH_METHODS \<Longrightarrow>
    t \<le> lk_now clocks \<Longrightarrow> lk_now clocks \<le> lk_issued clocks \<Longrightarrow> lk_issued clocks \<le> t' \<Longrightarrow>
    issue jwt_encode jwt rnd clocks issuer holder db = Return (result, db') \<Longrightarrow>
    access_step (t, db) (t', db')"
| management: "management_random_ok mrnd \<Longrightarrow>
    fst reads \<le> fst (snd reads) \<Longrightarrow> t \<le> fst (snd reads) \<Longrightarrow> fst (snd reads) \<le> snd (snd reads) \<Longrightarrow> snd (snd reads) \<le> t' \<Longrightarrow>
    start_management lib settings mrnd discovered reads identity purpose db = (mres, db') \<Longrightarrow>
    access_step (t, db) (t', db')"
| completion: "completion_random_ok crnd \<Longrightarrow>
    t \<le> ck_validated cclocks \<Longrightarrow> ck_validated cclocks \<le> ck_now cclocks \<Longrightarrow> ck_now cclocks \<le> ck_issued cclocks \<Longrightarrow>
    ck_issued cclocks \<le> t' \<Longrightarrow>
    complete lib settings jwt_encode jwt crnd discovered cclocks req db = (cres, db') \<Longrightarrow>
    access_step (t, db) (t', db')"
| revocation: "t \<le> validated_at \<Longrightarrow> validated_at \<le> now \<Longrightarrow> now \<le> t' \<Longrightarrow>
    revoke_principal_sessions discovered validated_at now ident target db = (rres, db') \<Longrightarrow>
    access_step (t, db) (t', db')"
| registration: "row_get pn_principal_id (pn_principal_id p) (pd_principals db) = None \<Longrightarrow> 0 < pn_session_version p \<Longrightarrow>
    t \<le> t' \<Longrightarrow> access_step (t, db) (t', db\<lparr>pd_principals := pd_principals db @ [p]\<rparr>)"
| directory: "row_get pn_principal_id (pn_principal_id p) (pd_principals db) = Some q \<Longrightarrow>
    pn_session_version q \<le> pn_session_version p \<Longrightarrow> t \<le> t' \<Longrightarrow>
    access_step (t, db) (t', db\<lparr>pd_principals := row_put pn_principal_id p (pd_principals db), pd_accounts := accounts,
      pd_memberships := memberships, pd_oauth_states := states\<rparr>)"
| rotation: "row_get tf_principal_id (tf_principal_id f) (pd_factors db) = Some f \<Longrightarrow> rotated f f' \<Longrightarrow> t \<le> t' \<Longrightarrow>
    access_step (t, db) (t', put_factor f' db)"

inductive_cases access_stepE: "access_step (t, db) (t', db')"

definition access_init :: "instant \<times> portal_db \<Rightarrow> bool" where
  "access_init st \<longleftrightarrow> pd_principals (snd st) = [] \<and> pd_sessions (snd st) = [] \<and> pd_factors (snd st) = []
     \<and> pd_recovery_codes (snd st) = [] \<and> pd_challenges (snd st) = []"

lemma rotated_checks: "factor_checks f \<Longrightarrow> rotated f f' \<Longrightarrow> factor_checks f' \<and> tf_created_at f' = tf_created_at f"
  unfolding rotated_def
  by (cases f) (auto simp: factor_checks_def or_empty_def split: option.splits)

lemma access_inv_init: "access_init st \<Longrightarrow> access_inv st"
  by (cases st) (simp add: access_init_def access_inv_parts keys_distinct_def PRINCIPAL_ATTEMPT_LIMIT_def)

lemma complete_keeps_inv:
  assumes inv: "access_inv (t, db)" and clocks: "t \<le> ck_validated clocks" "ck_validated clocks \<le> ck_now clocks"
      "ck_now clocks \<le> ck_issued clocks"
    and random: "completion_random_ok rnd"
    and complete: "complete lib settings jwt_encode jwt rnd discovered clocks req db = (res, db')"
  shows "access_inv (ck_issued clocks, db')"
proof -
  have t: "t \<le> ck_now clocks" using clocks by simp
  from complete show ?thesis
  proof (cases rule: completion_cases)
    case rejected
    with inv t clocks(3) show ?thesis by (auto intro: access_inv_later)
  next
    case (refused ctx counter e)
    from refuse_keeps_inv [OF inv refused(1) t refused(3)] clocks(3) show ?thesis by (rule access_inv_later)
  next
    case (accepted ctx counter result)
    then show ?thesis
      by (cases result) (auto intro: accept_keeps_inv [OF inv _ t clocks(3) random])
  qed
qed

lemma access_inv_step:
  assumes inv: "access_inv (t, db)" and step: "access_step (t, db) (t', db')"
  shows "access_inv (t', db')"
  using step
proof cases
  case (login holder rnd issuer clocks jwt_encode jwt result)
  show ?thesis
    by (rule access_inv_later [OF issue_keeps_inv [OF inv login(4,5,2,3,1,7)] login(6)])
next
  case (management mrnd reads lib settings discovered identity purpose mres)
  from management(6) show ?thesis
  proof (cases rule: start_management_cases)
    case failed
    with inv management(3-5) show ?thesis by (auto intro: access_inv_later)
  next
    case (started ident result)
    show ?thesis
      by (rule access_inv_later [OF start_management_keeps_inv [OF inv management(2,3,4,1) started(2,3)] management(5)])
  qed
next
  case (completion crnd cclocks lib settings jwt_encode jwt discovered req cres)
  show ?thesis
    by (rule access_inv_later [OF complete_keeps_inv [OF inv completion(2,3,4,1,6)] completion(5)])
next
  case (revocation validated_at now discovered ident target rres)
  have "t \<le> now" using revocation(1,2) by simp
  from access_inv_later [OF revoke_keeps_inv [OF inv this revocation(4)] revocation(3)] show ?thesis .
next
  case (registration p)
  have known: "version_known pid v (db\<lparr>pd_principals := pd_principals db @ [p]\<rparr>)" if "version_known pid v db" for pid v
    using that by (auto simp: version_known_def row_get_append)
  have "access_inv (t, db')"
    using inv registration(2,3) known unfolding registration(1)
    by (auto simp: access_inv_parts keys_distinct_append)
  then show ?thesis using registration(4) by (rule access_inv_later)
next
  case (directory p q accounts memberships states)
  have "access_inv (t, db')"
    using inv_put_principal [OF inv directory(2,3)] unfolding directory(1) by (simp add: access_inv_parts version_known_def)
  then show ?thesis using directory(4) by (rule access_inv_later)
next
  case (rotation f f')
  have "f \<in> set (pd_factors db)" using row_get_Some [OF rotation(2)] by simp
  with inv have "factor_checks f" "tf_created_at f \<le> drop_microseconds t" by (auto simp: access_inv_parts)
  with rotated_checks rotation(3) have "access_inv (t, db')"
    unfolding rotation(1) by (intro inv_put_factor(1) [OF inv]) auto
  then show ?thesis using rotation(4) by (rule access_inv_later)
qed

interpretation access: invariant_system access_init access_step access_inv
  by unfold_locales (auto intro: access_inv_init access_inv_step)

end
