(* ===== verification/PortalAccessHistory.thy ===== *)
theory PortalAccessHistory
  imports PortalAccessSteps
begin

section \<open>What the Portal's access tables never forget\<close>

text \<open>
  Rows are never deleted, and along every run session versions, factor versions, accepted counters, attempt
  counts and consumption marks only move forward.  \<open>forward\<close> collects this as one relation between two states.
\<close>

definition factor_forward :: "totp_factor \<Rightarrow> totp_factor \<Rightarrow> bool" where
  "factor_forward f f' \<longleftrightarrow> tf_factor_version f \<le> tf_factor_version f'
     \<and> (tf_factor_version f = tf_factor_version f' \<longrightarrow> tf_state f' = tf_state f
         \<and> tf_recovery_generation f \<le> tf_recovery_generation f'
         \<and> (\<forall>c. tf_last_accepted_counter f = Some c \<longrightarrow> (\<exists>c'. tf_last_accepted_counter f' = Some c' \<and> c \<le> c')))"

definition challenge_forward :: "auth_challenge \<Rightarrow> auth_challenge \<Rightarrow> bool" where
  "challenge_forward c c' \<longleftrightarrow>
     ch_principal_id c' = ch_principal_id c \<and> ch_bound_session_version c' = ch_bound_session_version c
     \<and> ch_attempt_limit c' = ch_attempt_limit c \<and> ch_expires_at c' = ch_expires_at c
     \<and> ch_attempt_count c \<le> ch_attempt_count c' \<and> (ch_consumed_at c \<noteq> None \<longrightarrow> ch_consumed_at c' \<noteq> None)"

definition session_forward :: "portal_session \<Rightarrow> portal_session \<Rightarrow> bool" where
  "session_forward s s' \<longleftrightarrow> ps_principal_id s' = ps_principal_id s \<and> ps_session_version s' = ps_session_version s
     \<and> (ps_revoked_at s \<noteq> None \<longrightarrow> ps_revoked_at s' \<noteq> None)"

definition recovery_forward :: "recovery_code \<Rightarrow> recovery_code \<Rightarrow> bool" where
  "recovery_forward r r' \<longleftrightarrow> rv_principal_id r' = rv_principal_id r \<and> (rv_consumed_at r \<noteq> None \<longrightarrow> rv_consumed_at r' \<noteq> None)"

text \<open>Every row of the first table is in the second one, possibly moved forward.\<close>

definition table_forward :: "('r \<Rightarrow> string) \<Rightarrow> ('r \<Rightarrow> 'r \<Rightarrow> bool) \<Rightarrow> 'r list \<Rightarrow> 'r list \<Rightarrow> bool" where
  "table_forward key rel rows rows' \<longleftrightarrow>
     (\<forall>k r. row_get key k rows = Some r \<longrightarrow> (\<exists>r'. row_get key k rows' = Some r' \<and> rel r r'))"

definition forward :: "portal_db \<Rightarrow> portal_db \<Rightarrow> bool" where
  "forward db db' \<longleftrightarrow>
     table_forward pn_principal_id (\<lambda>p p'. pn_session_version p \<le> pn_session_version p') (pd_principals db) (pd_principals db')
     \<and> table_forward ps_session_id session_forward (pd_sessions db) (pd_sessions db')
     \<and> table_forward tf_principal_id factor_forward (pd_factors db) (pd_factors db')
     \<and> table_forward rv_code_id recovery_forward (pd_recovery_codes db) (pd_recovery_codes db')
     \<and> table_forward ch_challenge_id challenge_forward (pd_challenges db) (pd_challenges db')"

subsection \<open>The relation is a preorder\<close>

lemma forward_rel_refl [simp]:
  "factor_forward f f" "challenge_forward c c" "session_forward s s" "recovery_forward r r"
  by (simp_all add: factor_forward_def challenge_forward_def session_forward_def recovery_forward_def)

lemma factor_forward_trans: "factor_forward f g \<Longrightarrow> factor_forward g h \<Longrightarrow> factor_forward f h"
  unfolding factor_forward_def by (smt (verit) order_trans order_antisym)

lemma table_forward_refl [simp]: "(\<And>r. rel r r) \<Longrightarrow> table_forward key rel rows rows"
  by (simp add: table_forward_def)

lemma table_forward_trans:
  assumes "table_forward key rel a b" and "table_forward key rel b c" and "\<And>x y z. rel x y \<Longrightarrow> rel y z \<Longrightarrow> rel x z"
  shows "table_forward key rel a c"
  unfolding table_forward_def
proof (intro allI impI)
  fix k r
  assume "row_get key k a = Some r"
  with assms(1) obtain s where "row_get key k b = Some s" "rel r s" unfolding table_forward_def by blast
  with assms(2) obtain u where "row_get key k c = Some u" "rel s u" unfolding table_forward_def by blast
  with assms(3) \<open>rel r s\<close> show "\<exists>r'. row_get key k c = Some r' \<and> rel r r'" by blast
qed

lemma table_forward_append: "(\<And>r. rel r r) \<Longrightarrow> table_forward key rel rows (rows @ new)"
  by (auto simp: table_forward_def row_get_append)

lemma table_forward_update:
  assumes "\<And>r. rel r r" and "\<And>r. cond r \<Longrightarrow> key (f r) = key r \<and> rel r (f r)"
  shows "table_forward key rel rows (rows_update cond f rows)"
  using assms by (auto simp: table_forward_def row_get_rows_update)

lemma table_forward_put:
  assumes "\<And>r. rel r r" and "row_get key (key r) rows = Some q" and "rel q r"
  shows "table_forward key rel rows (row_put key r rows)"
  unfolding table_forward_def
proof (intro allI impI)
  fix k s
  assume s: "row_get key k rows = Some s"
  show "\<exists>r'. row_get key k (row_put key r rows) = Some r' \<and> rel s r'"
  proof (cases "k = key r")
    case True
    with s assms(2,3) show ?thesis by simp
  next
    case False
    with s assms(1) show ?thesis by auto
  qed
qed

lemma forward_refl [simp]: "forward db db"
  by (simp add: forward_def)

lemma forward_trans: "forward a b \<Longrightarrow> forward b c \<Longrightarrow> forward a c"
  unfolding forward_def
  by (elim conjE, intro conjI; erule (1) table_forward_trans)
     (auto simp: session_forward_def recovery_forward_def challenge_forward_def intro: factor_forward_trans)

lemma table_forwardD:
  "table_forward key rel rows rows' \<Longrightarrow> row_get key k rows = Some r \<Longrightarrow> \<exists>r'. row_get key k rows' = Some r' \<and> rel r r'"
  by (simp add: table_forward_def)

subsection \<open>Every step moves forward\<close>

lemma forward_sessions: "table_forward ps_session_id session_forward (pd_sessions db) ss \<Longrightarrow> forward db (db\<lparr>pd_sessions := ss\<rparr>)"
  by (simp add: forward_def)

lemma forward_challenges:
  "table_forward ch_challenge_id challenge_forward (pd_challenges db) cs \<Longrightarrow> forward db (db\<lparr>pd_challenges := cs\<rparr>)"
  by (simp add: forward_def)

lemma forward_put_factor:
  assumes "\<And>f. row_get tf_principal_id (tf_principal_id f') (pd_factors db) = Some f \<Longrightarrow> factor_forward f f'"
  shows "forward db (put_factor f' db)"
proof (cases "row_get tf_principal_id (tf_principal_id f') (pd_factors db)")
  case None
  then show ?thesis by (simp add: forward_def put_factor_def table_forward_append)
next
  case (Some f)
  with assms have "table_forward tf_principal_id factor_forward (pd_factors db) (row_put tf_principal_id f' (pd_factors db))"
    by (intro table_forward_put) auto
  with Some show ?thesis by (simp add: forward_def put_factor_def)
qed

lemma issue_forward:
  assumes "issue jwt_encode jwt rnd clocks issuer holder db = Return (result, db')"
  shows "forward db db'"
  using assms
proof (cases rule: issue_cases)
  case (challenged f states challenge)
  from challenged(4) show ?thesis
    by (rule create_challenge_Return) (simp add: forward_def table_forward_append)
next
  case (issued states session)
  from issued(3) show ?thesis
    by (rule issue_verified_session_Return) (simp add: forward_def table_forward_append)
qed

lemma start_management_forward:
  assumes "start_management_body lib settings rnd discovered clocks ident purpose db = Return (result, db')"
  shows "forward db db'"
  using assms
proof (rule start_management_body_Return)
  let ?created = "disabled_factor (id_principal_id ident) 1 (drop_microseconds (fst clocks))"
  fix holder factor db0 row primary_at shown f' db1 challenge
  assume factor: "factor = None \<and> db0 = db \<or> row_get tf_principal_id (id_principal_id ident) (pd_factors db) = factor \<and> db0 = db
        \<or> row_get tf_principal_id (id_principal_id ident) (pd_factors db) = None \<and> factor = Some ?created \<and> db0 = put_factor ?created db"
    and prepared: "prepare_management lib settings rnd purpose (drop_microseconds (snd (snd clocks))) holder factor db0
      = Return (shown, f', db1)"
    and create: "create_challenge (mx_challenge rnd) holder (Some f') purpose (ps_auth_method row) primary_at
         (epoch_seconds (id_expires_at ident - drop_microseconds (snd (snd clocks)))) (drop_microseconds (snd (snd clocks)))
         (Some (id_session_id ident)) (Some (id_expires_at ident)) db1 = Return (challenge, db')"
  have "forward db db0"
    using factor by (auto simp: disabled_factor_def intro: forward_put_factor)
  moreover have "forward db0 db1"
    using prepared
  proof (cases rule: prepare_management_Return)
    case (setting_up f ciphertext)
    from factor setting_up(1) consider "row_get tf_principal_id (id_principal_id ident) (pd_factors db) = Some f" "db0 = db"
      | "row_get tf_principal_id (id_principal_id ident) (pd_factors db) = None" "f = ?created" "db0 = put_factor ?created db"
      by auto
    then have "row_get tf_principal_id (tf_principal_id f) (pd_factors db0) = Some f"
    proof cases
      case 1
      with row_get_Some [OF 1(1)] show ?thesis by simp
    next
      case 2
      have "tf_principal_id ?created = id_principal_id ident" by (simp add: disabled_factor_def)
      with 2 row_get_append [of tf_principal_id "id_principal_id ident" "pd_factors db" "[?created]"] show ?thesis
        by (simp add: put_factor_def) (simp add: row_get_def)
    qed
    then show ?thesis
      unfolding setting_up(6)
      by (intro forward_put_factor) (auto simp: setting_up(5) pending_factor_def factor_forward_def)
  qed simp
  moreover from create have "forward db1 db'"
    by (rule create_challenge_Return) (simp add: forward_challenges table_forward_append)
  ultimately show "forward db db'" by (blast intro: forward_trans)
qed

lemma revoke_forward:
  assumes "revoke_principal_sessions discovered validated_at now ident target db = (res, db')"
  shows "forward db db'"
  using assms unfolding revoke_principal_sessions_def Let_def
  by (auto split: sum.splits intro!: forward_sessions table_forward_update simp: session_forward_def)

lemma settled_factor_forward:
  assumes "case counter of None \<Rightarrow> True | Some c \<Rightarrow> counter_fresh f c" and "purpose \<noteq> ''setup'' \<or> tf_state f = ''disabled''"
  shows "factor_forward f (settled_factor purpose now counter f)"
  using assms by (auto simp: factor_forward_def settled_factor_simps counter_fresh_def split: option.splits)

lemma accepted_counter_fresh:
  "check_proof lib settings req now factor recovery ct = Return (True, counter) \<Longrightarrow>
     case counter of None \<Rightarrow> True | Some c \<Rightarrow> counter_fresh factor c"
  by (erule check_proof_True) simp_all

lemma challenge_row: "access_inv (t, db) \<Longrightarrow> c \<in> set (pd_challenges db) \<Longrightarrow>
    row_get ch_challenge_id (ch_challenge_id c) (pd_challenges db) = Some c"
  by (intro row_get_unique) (simp_all add: access_inv_parts)

lemma recovery_row: "access_inv (t, db) \<Longrightarrow> r \<in> set (pd_recovery_codes db) \<Longrightarrow>
    row_get rv_code_id (rv_code_id r) (pd_recovery_codes db) = Some r"
  by (intro row_get_unique) (simp_all add: access_inv_parts)

lemma used_codes_forward:
  assumes "access_inv (t, db)" and "\<And>r. recovery = Some r \<Longrightarrow> r \<in> set (pd_recovery_codes db)"
  shows "table_forward rv_code_id recovery_forward (pd_recovery_codes db) (used_codes now recovery (pd_recovery_codes db) @ new)"
proof -
  have "table_forward rv_code_id recovery_forward (pd_recovery_codes db) (used_codes now recovery (pd_recovery_codes db))"
  proof (cases recovery)
    case None
    then show ?thesis by (simp add: used_codes_def)
  next
    case (Some r)
    with recovery_row [OF assms(1) assms(2)] show ?thesis
      by (auto simp: used_codes_def recovery_forward_def intro: table_forward_put)
  qed
  moreover have "table_forward rv_code_id recovery_forward rs (rs @ new)" for rs by (rule table_forward_append) simp
  ultimately show ?thesis
    by (rule table_forward_trans) (auto simp: recovery_forward_def)
qed

lemma accept_forward:
  assumes inv: "access_inv (t, db)" and ready: "completion_ready clocks req db ctx"
    and check: "check_proof lib settings req (drop_microseconds (ck_now clocks)) (cc_factor ctx) (cc_recovery ctx)
      (cc_ciphertext ctx) = Return (True, counter)"
    and accept: "accept_proof jwt_encode jwt rnd req ttl clocks (cc_holder ctx) (cc_factor ctx) (cc_challenge ctx)
      (cc_recovery ctx) counter db = Return ((issued_s, codes), db')"
  shows "forward db db'"
proof -
  let ?now = "drop_microseconds (ck_now clocks)"
  let ?f = "settled_factor (cr_purpose req) ?now counter (cc_factor ctx)"
  let ?h = "settled_principal (cr_purpose req) (cc_holder ctx)"
  let ?c = "(cc_challenge ctx)\<lparr>ch_consumed_at := Some ?now\<rparr>"
  note facts = ready_facts [OF ready]
  have "cr_purpose req \<noteq> ''setup'' \<or> tf_state (cc_factor ctx) = ''disabled''"
    using facts(6) by (cases rule: proof_ciphertext_Return) simp_all
  with settled_factor_forward [OF accepted_counter_fresh [OF check]]
  have "factor_forward (cc_factor ctx) ?f" by blast
  moreover have "tf_principal_id ?f = pn_principal_id (cc_holder ctx)"
    using row_get_Some [OF facts(2)] by (simp add: settled_factor_simps)
  ultimately have F: "table_forward tf_principal_id factor_forward (pd_factors db) (row_put tf_principal_id ?f (pd_factors db))"
    by (intro table_forward_put) (use facts(2) in auto)
  have P: "table_forward pn_principal_id (\<lambda>p p'. pn_session_version p \<le> pn_session_version p') (pd_principals db)
      (row_put pn_principal_id ?h (pd_principals db))"
    by (rule table_forward_put [of _ _ _ _ "cc_holder ctx"]) (use facts(1) in simp_all)
  have C: "table_forward ch_challenge_id challenge_forward (pd_challenges db) (row_put ch_challenge_id ?c (pd_challenges db))"
    by (rule table_forward_put [of _ _ _ _ "cc_challenge ctx"])
      (use challenge_row [OF inv facts(3)] in \<open>simp_all add: challenge_forward_def\<close>)
  from accept show ?thesis
    by (rule accept_proof_Return)
       (use F P C used_codes_forward [OF inv facts(8)] in \<open>simp add: forward_def table_forward_append\<close>)
qed

lemma refuse_forward:
  assumes inv: "access_inv (t, db)" and ready: "completion_ready clocks req db ctx"
    and refuse: "refuse_proof (cc_challenge ctx) db = (e, db')"
  shows "forward db db'"
proof -
  let ?c = "(cc_challenge ctx)\<lparr>ch_attempt_count := ch_attempt_count (cc_challenge ctx) + 1\<rparr>"
  have "table_forward ch_challenge_id challenge_forward (pd_challenges db) (row_put ch_challenge_id ?c (pd_challenges db))"
    by (rule table_forward_put [of _ _ _ _ "cc_challenge ctx"])
      (use challenge_row [OF inv ready_facts(3) [OF ready]] in \<open>simp_all add: challenge_forward_def\<close>)
  with refuse show ?thesis by (auto simp: refuse_proof_def Let_def intro: forward_challenges)
qed

lemma complete_forward:
  assumes inv: "access_inv (t, db)"
    and complete: "complete lib settings jwt_encode jwt rnd discovered clocks req db = (res, db')"
  shows "forward db db'"
  using complete
proof (cases rule: completion_cases)
  case rejected
  then show ?thesis by simp
next
  case (refused ctx counter e)
  from refuse_forward [OF inv refused(1,3)] show ?thesis .
next
  case (accepted ctx counter result)
  from accept_forward [OF inv accepted(1,2)] accepted(3) show ?thesis by (cases result) simp
qed

lemma step_forward:
  assumes inv: "access_inv (t, db)" and step: "access_step (t, db) (t', db')"
  shows "forward db db' \<and> t \<le> t'"
  using step
proof cases
  case (management mrnd reads lib settings discovered identity purpose mres)
  from management(6) show ?thesis
    by (cases rule: start_management_cases) (use management start_management_forward in auto)
next
  case (registration p)
  then show ?thesis by (simp add: forward_def table_forward_append)
next
  case (directory p q accounts memberships states)
  have "table_forward pn_principal_id (\<lambda>p p'. pn_session_version p \<le> pn_session_version p') (pd_principals db)
      (row_put pn_principal_id p (pd_principals db))"
    by (rule table_forward_put [of _ _ _ _ q]) (use directory in simp_all)
  with directory show ?thesis by (simp add: forward_def)
next
  case (rotation f f')
  then have "factor_forward f f'" "tf_principal_id f' = tf_principal_id f" by (auto simp: rotated_def factor_forward_def)
  with rotation show ?thesis by (auto intro: forward_put_factor)
qed (use issue_forward complete_forward [OF inv] revoke_forward in auto)

lemma run_forward:
  assumes "access_step\<^sup>*\<^sup>* st st'" and "access_inv st"
  shows "forward (snd st) (snd st') \<and> fst st \<le> fst st' \<and> access_inv st'"
  using assms(1)
proof (induction rule: rtranclp_induct)
  case base
  then show ?case using assms(2) by simp
next
  case (step y z)
  then show ?case
    using step_forward [of "fst y" "snd y" "fst z" "snd z"] access_inv_step [of "fst y" "snd y" "fst z" "snd z"]
    by (auto intro: forward_trans order_trans)
qed

subsection \<open>Challenges that are over\<close>

text \<open>Consumed, exhausted, expired, or bound to a session version that is gone.\<close>

definition challenge_over :: "instant \<Rightarrow> portal_db \<Rightarrow> auth_challenge \<Rightarrow> bool" where
  "challenge_over t db c \<longleftrightarrow>
     ch_consumed_at c \<noteq> None \<or> ch_attempt_limit c \<le> ch_attempt_count c \<or> ch_expires_at c \<le> drop_microseconds t
     \<or> (\<exists>p. row_get pn_principal_id (ch_principal_id c) (pd_principals db) = Some p
            \<and> ch_bound_session_version c < pn_session_version p)"

lemma challenge_over_forward:
  assumes over: "challenge_over t db c" and db: "forward db db'" and c: "challenge_forward c c'" and t: "t \<le> t'"
  shows "challenge_over t' db' c'"
proof -
  have "\<exists>p'. row_get pn_principal_id pid (pd_principals db') = Some p' \<and> v < pn_session_version p'"
    if p: "row_get pn_principal_id pid (pd_principals db) = Some p" and v: "v < pn_session_version p" for pid p v
  proof -
    from db have "table_forward pn_principal_id (\<lambda>p p'. pn_session_version p \<le> pn_session_version p') (pd_principals db) (pd_principals db')"
      by (simp add: forward_def)
    from table_forwardD [OF this p] v show ?thesis by auto
  qed
  with over c drop_microseconds_mono [OF t] show ?thesis
    unfolding challenge_over_def challenge_forward_def by (metis order_trans)
qed

lemma over_persists:
  assumes "row_get ch_challenge_id cid (pd_challenges db) = Some c" and "challenge_over t db c" and "forward db db'" and "t \<le> t'"
  shows "\<exists>c'. row_get ch_challenge_id cid (pd_challenges db') = Some c' \<and> challenge_over t' db' c'"
proof -
  from assms(3) have "table_forward ch_challenge_id challenge_forward (pd_challenges db) (pd_challenges db')"
    by (simp add: forward_def)
  from table_forwardD [OF this assms(1)] challenge_over_forward [OF assms(2,3) _ assms(4)] show ?thesis by blast
qed

lemma over_not_ready:
  assumes inv: "access_inv (t, db)" and c: "row_get ch_challenge_id cid (pd_challenges db) = Some c"
    and over: "challenge_over t db c" and t: "t \<le> ck_now clocks"
    and parts: "credential_parts (cr_credential req) = Return (cid, ttl)"
  shows "\<not> completion_ready clocks req db ctx"
proof
  assume ready: "completion_ready clocks req db ctx"
  note facts = ready_facts [OF ready]
  have "ch_challenge_id (cc_challenge ctx) = cid"
    using ready parts by (simp add: completion_ready_def Let_def)
  with challenge_row [OF inv facts(3)] c have same: "cc_challenge ctx = c" by simp
  with facts(4) have "ch_principal_id c = pn_principal_id (cc_holder ctx)" by simp
  with over facts(1,5) drop_microseconds_mono [OF t] show False
    unfolding challenge_over_def same challenge_live_def by auto
qed

end
