(* ===== verification/PortalAccessDemo.thy ===== *)
theory PortalAccessDemo
  imports PortalAccessHistory
begin

section \<open>A concrete login with a second factor\<close>

text \<open>
  One principal with an enabled factor, a session and a pending challenge, on which both kinds of proof
  succeed: the witnesses of the Portal's access properties run it.
\<close>

definition demo_holder :: principal where
  "demo_holder = \<lparr>pn_principal_id = ''p'', pn_email = None, pn_status = ''active'', pn_session_version = 1\<rparr>"

definition demo_seed_token :: string where
  "demo_seed_token = (case encrypt_portal_totp_seed demo_crypto demo_settings [1, 2, 3] of Inl _ \<Rightarrow> [] | Inr t \<Rightarrow> t)"

definition demo_factor :: totp_factor where
  "demo_factor =
     \<lparr>tf_principal_id = ''p'', tf_factor_version = 2, tf_state = ''enabled'',
      tf_active_seed_ciphertext = Some demo_seed_token, tf_enabled_at = Some 0, tf_last_accepted_counter = Some 0,
      tf_recovery_generation = 1, tf_pending_setup_id = None, tf_pending_seed_ciphertext = None,
      tf_pending_created_at = None, tf_pending_expires_at = None, tf_created_at = 0, tf_updated_at = 0\<rparr>"

definition demo_hash :: "string \<Rightarrow> string" where
  "demo_hash secret = the (build_secret_hash (replicate 8 0) secret)"

definition demo_recovery :: recovery_code where
  "demo_recovery =
     \<lparr>rv_code_id = ''r'', rv_principal_id = ''p'', rv_factor_version = 2, rv_generation = 1,
      rv_code_hash = demo_hash ''s'', rv_created_at = 0, rv_consumed_at = None\<rparr>"

definition demo_session :: portal_session where
  "demo_session =
     \<lparr>ps_session_id = ''old'', ps_principal_id = ''p'', ps_session_version = 1, ps_created_at = 0,
      ps_absolute_expires_at = seconds 900, ps_revoked_at = None, ps_revoke_reason = None, ps_auth_method = ''qq'',
      ps_client_hint = None, ps_factor_version = Some 2, ps_primary_authenticated_at = Some 0,
      ps_second_factor_verified_at = Some 0, ps_second_factor_method = Some ''totp''\<rparr>"

definition demo_challenge :: "string \<Rightarrow> auth_challenge" where
  "demo_challenge purpose =
     \<lparr>ch_challenge_id = ''c'', ch_principal_id = ''p'', ch_credential_hash = demo_hash ''c.s.60'', ch_purpose = purpose,
      ch_primary_method = ''qq'', ch_primary_authenticated_at = 0, ch_bound_session_version = 1,
      ch_bound_factor_version = 2, ch_bound_recovery_generation = 1,
      ch_bound_session_id = (if purpose = ''login'' then None else Some ''old''),
      ch_bound_session_expires_at = (if purpose = ''login'' then None else Some (seconds 900)),
      ch_created_at = 0, ch_expires_at = seconds 300, ch_attempt_count = 0, ch_attempt_limit = ATTEMPT_LIMIT,
      ch_consumed_at = None\<rparr>"

definition demo_access :: "string \<Rightarrow> portal_db" where
  "demo_access purpose =
     \<lparr>pd_principals = [demo_holder], pd_accounts = [\<lparr>an_account_id = ''a'', an_status = ''active''\<rparr>],
      pd_memberships = [\<lparr>mb_membership_id = ''m'', mb_principal_id = ''p'', mb_account_id = ''a'', mb_status = ''active''\<rparr>],
      pd_sessions = [demo_session], pd_factors = [demo_factor], pd_recovery_codes = [demo_recovery],
      pd_challenges = [demo_challenge purpose], pd_oauth_states = []\<rparr>"

definition demo_completion_clocks :: completion_clocks where
  "demo_completion_clocks = \<lparr>ck_validated = seconds 90, ck_now = seconds 90, ck_issued = seconds 90\<rparr>"

definition demo_identity :: authenticated_session where
  "demo_identity = \<lparr>id_principal_id = ''p'', id_session_id = ''old'', id_session_version = 1, id_expires_at = seconds 900\<rparr>"

definition demo_completion :: "string \<Rightarrow> string \<Rightarrow> string \<Rightarrow> completion_request" where
  "demo_completion purpose method code =
     \<lparr>cr_credential = ''c.s.60'', cr_code = code, cr_purpose = purpose, cr_method = method,
      cr_identity = Some demo_identity, cr_setup_id = []\<rparr>"

definition demo_completion_random :: completion_random where
  "demo_completion_random = \<lparr>cz_session_id = ''new'', cz_codes = replicate 8 (''x'', ''y'', replicate 8 0)\<rparr>"

definition demo_jwt :: jwt_settings where
  "demo_jwt = \<lparr>jw_secret = Some ''k'', jw_issuer = None, jw_audience = None, jw_ttl_seconds = 3600\<rparr>"

abbreviation demo_encode :: "json_dict \<Rightarrow> string \<Rightarrow> string" where
  "demo_encode \<equiv> \<lambda>_ _. ''token''"

lemma demo_hash_verifies: "verify_secret_hash secret (demo_hash secret)"
  by (rule built_hash_verifies [of "replicate 8 0"]) (simp add: demo_hash_def build_secret_hash_def)

lemma demo_hash_nonempty: "demo_hash secret \<noteq> []"
  by (simp add: demo_hash_def build_secret_hash_def)

lemma demo_seed_sealed: "encrypt_portal_totp_seed demo_crypto demo_settings [1, 2, 3] = Return demo_seed_token"
proof -
  obtain t where "encrypt_portal_totp_seed demo_crypto demo_settings [1, 2, 3] = Return t"
    using demo_encrypts(1) stored_purposes by (fastforce simp: encrypt_portal_totp_seed_def)
  then show ?thesis by (simp add: demo_seed_token_def)
qed

lemma demo_seed_opens: "decrypt_portal_totp_seed demo_crypto demo_settings (Some demo_seed_token) = Return [1, 2, 3]"
  by (rule totp_seed_roundtrip [OF demo_documented demo_seed_sealed])

lemma demo_seed_nonempty: "demo_seed_token \<noteq> []"
  using demo_seed_opens by (auto simp: decrypt_portal_totp_seed_def)

lemma seconds_le: "seconds m \<le> seconds n \<longleftrightarrow> m \<le> n" "seconds m < seconds n \<longleftrightarrow> m < n"
    "0 \<le> seconds n \<longleftrightarrow> 0 \<le> n" "0 < seconds n \<longleftrightarrow> 0 < n" "seconds n \<le> 0 \<longleftrightarrow> n \<le> 0"
  by (simp_all add: seconds_def)

lemma drop_whole_seconds [simp]: "drop_microseconds (seconds n) = seconds n"
  by (simp add: drop_microseconds_def seconds_def)

lemma demo_access_inv:
  assumes "purpose \<in> {''login'', ''disable''}"
  shows "access_inv (seconds 90, demo_access purpose)"
proof -
  have session: "session_checks demo_session"
    by (simp add: session_checks_def demo_session_def identifier_length_def AUTH_METHODS_def SECOND_FACTOR_METHODS_def seconds_le)
  have factor: "factor_checks demo_factor"
    using demo_seed_nonempty by (simp add: factor_checks_def demo_factor_def)
  have recovery: "recovery_checks demo_recovery"
    by (simp add: recovery_checks_def demo_recovery_def identifier_length_def demo_hash_nonempty)
  have challenge: "challenge_checks (demo_challenge purpose)"
    using assms by (auto simp: challenge_checks_def demo_challenge_def identifier_length_def AUTH_METHODS_def ATTEMPT_LIMIT_def
        demo_hash_nonempty seconds_le)
  show ?thesis
    unfolding access_inv_parts prod.case demo_access_def
    by (simp add: session factor recovery challenge keys_distinct_def version_known_def row_get_def seconds_le
        PRINCIPAL_ATTEMPT_LIMIT_def)
       (simp add: demo_holder_def demo_session_def demo_factor_def demo_recovery_def demo_challenge_def seconds_le)
qed

subsection \<open>The completion runs\<close>

lemma demo_parts: "credential_parts ''c.s.60'' = Return (''c'', 60)"
  by code_simp

lemma demo_table_reads:
  "row_get ch_challenge_id ''c'' (pd_challenges (demo_access purpose)) = Some (demo_challenge purpose)"
  "row_get pn_principal_id ''p'' (pd_principals (demo_access purpose)) = Some demo_holder"
  "row_get tf_principal_id ''p'' (pd_factors (demo_access purpose)) = Some demo_factor"
  "lock_challenge_owned ''p'' ''c'' (demo_access purpose) = Some (demo_challenge purpose)"
  "owned_session ''p'' ''old'' (demo_access purpose) = Some demo_session"
  "has_active_account ''p'' (demo_access purpose)"
  "lock_login_scope {''a''} ''p'' (demo_access purpose) = Return (Some demo_holder)"
  "recent_attempts ''p'' now (pd_challenges (demo_access purpose)) = 0"
  by (simp_all add: demo_access_def row_get_def demo_challenge_def demo_holder_def demo_factor_def demo_session_def
      lock_challenge_owned_def owned_session_def has_active_account_def lock_login_scope_def lock_login_scopes_def
      account_ids_of_def)

lemma demo_lock: "lock_primary_factor ''p'' (demo_access purpose) = Return (Some demo_factor)"
  by (simp add: lock_primary_factor_def demo_table_reads)

lemma demo_validates:
  "validate_registered_session (seconds 90) demo_identity (demo_access purpose) = Return demo_session"
  unfolding validate_registered_session_def
  by (simp add: demo_identity_def demo_table_reads)
     (simp add: demo_holder_def demo_session_def demo_factor_def factor_satisfied_def SECOND_FACTOR_METHODS_def seconds_le)

definition demo_ctx :: "string \<Rightarrow> recovery_code option \<Rightarrow> completion_context" where
  "demo_ctx purpose recovery =
     \<lparr>cc_holder = demo_holder, cc_factor = demo_factor, cc_challenge = demo_challenge purpose, cc_recovery = recovery,
      cc_ttl = 60, cc_ciphertext = Some demo_seed_token\<rparr>"

lemma demo_context:
  assumes "purpose \<in> {''login'', ''disable''}"
  shows "completion_context_of {''a''} demo_completion_clocks (demo_completion purpose method code) (demo_access purpose)
    = Return (demo_ctx purpose (if method = ''recovery_code''
        then lock_recovery_owned ''p'' (fst (recovery_parts code)) (demo_access purpose) else None))"
proof -
  have pid: "ch_principal_id (demo_challenge purpose) = ''p''" "pn_principal_id demo_holder = ''p''"
      "pn_status demo_holder = ''active''" "id_principal_id demo_identity = ''p''"
    by (simp_all add: demo_challenge_def demo_holder_def demo_identity_def)
  have live: "challenge_live ''c.s.60'' purpose (seconds 90) demo_holder demo_factor (demo_challenge purpose)"
    by (simp add: challenge_live_def demo_challenge_def demo_holder_def demo_factor_def demo_hash_verifies seconds_le
        ATTEMPT_LIMIT_def CHALLENGE_SECONDS_def)
  have bound: "challenge_session_bound purpose (Some demo_identity) (seconds 90) (demo_challenge purpose)"
    using assms by (auto simp: challenge_session_bound_def demo_challenge_def demo_identity_def seconds_le)
  have ciphertext: "proof_ciphertext (demo_completion purpose method code) (seconds 90) demo_factor (demo_challenge purpose)
      = Return (Some demo_seed_token)"
    using assms by (auto simp: proof_ciphertext_def demo_completion_def demo_factor_def)
  have room: "budget ''p'' (seconds 90) (demo_access purpose) = Return ()"
    by (simp add: budget_def demo_table_reads PRINCIPAL_ATTEMPT_LIMIT_def)
  show ?thesis
    unfolding completion_context_of_def
    using ciphertext
    by (simp add: demo_completion_def demo_completion_clocks_def demo_parts demo_table_reads pid demo_lock demo_validates
        live bound room Let_def demo_ctx_def)
qed

lemma demo_token:
  assumes "90 < e"
  shows "\<exists>issued. sign_session demo_encode demo_jwt (settled_principal purpose demo_holder) ''new'' (seconds e) [] (seconds 90)
    = Return issued"
proof -
  have "py_strip ''p'' = ''p''" "py_strip ''new'' = ''new''" by code_simp+
  moreover have "pn_session_version demo_holder = 1" "pn_principal_id demo_holder = ''p''" by (simp_all add: demo_holder_def)
  moreover have "epoch_seconds (seconds n) = n" if "0 \<le> n" for n
    using that by (simp add: epoch_seconds_def seconds_def)
  ultimately show ?thesis
    using assms by (simp add: sign_session_def build_portal_session_token_def demo_jwt_def)
qed

lemma demo_accept:
  assumes "purpose \<in> {''login'', ''disable''}" and "method \<in> {''totp'', ''recovery_code''}"
  shows "\<exists>result db'. accept_proof demo_encode demo_jwt demo_completion_random (demo_completion purpose method code) 60
    demo_completion_clocks demo_holder demo_factor (demo_challenge purpose) recovery counter (demo_access purpose) = Return (result, db')"
proof -
  have no_batch: "\<not> (purpose = ''setup'' \<or> purpose = ''recovery_reset'')" using assms(1) by auto
  have issue: "\<exists>issued db'. issue_verified_session demo_encode demo_jwt ''new'' (seconds 90) (settled_principal purpose demo_holder) 60
      m primary_at (if purpose = ''login'' then None else ch_bound_session_expires_at (demo_challenge purpose))
      (if tf_state f = ''enabled'' then Some f else None) (Some now) (Some method)
      (demo_access purpose\<lparr>pd_principals := ps, pd_factors := fs, pd_recovery_codes := rs, pd_challenges := cs\<rparr>)
      = Return (issued, db')" for m primary_at f now ps fs rs cs
  proof -
    define e :: int where "e = (if purpose = ''login'' then 150 else 900)"
    have "(case if purpose = ''login'' then None else ch_bound_session_expires_at (demo_challenge purpose) of
        None \<Rightarrow> seconds 90 + seconds (max 60 60) | Some e \<Rightarrow> e) = seconds e"
      using assms(1) by (auto simp: e_def demo_challenge_def seconds_def)
    moreover have "row_get ps_session_id ''new'' (pd_sessions (demo_access purpose)) = None"
      by (simp add: demo_access_def row_get_def demo_session_def)
    moreover have "Some method \<in> SECOND_FACTOR_METHODS" using assms(2) by (auto simp: SECOND_FACTOR_METHODS_def)
    moreover have "90 < e" by (simp add: e_def)
    moreover from this demo_token obtain issued where "sign_session demo_encode demo_jwt (settled_principal purpose demo_holder)
        ''new'' (seconds e) [] (seconds 90) = Return issued" by blast
    ultimately show ?thesis by (simp add: issue_verified_session_def Let_def seconds_le not_le)
  qed
  show ?thesis
    using issue [of "ch_primary_method (demo_challenge purpose)" "ch_primary_authenticated_at (demo_challenge purpose)"
        "settled_factor purpose (seconds 90) counter demo_factor" "seconds 90"]
    by (simp add: accept_proof_def Let_def demo_completion_def demo_completion_random_def demo_completion_clocks_def no_batch
        and_then_Return split: prod.splits)
qed

lemma demo_complete:
  assumes "purpose \<in> {''login'', ''disable''}" and "method \<in> {''totp'', ''recovery_code''}"
    and "check_proof demo_crypto demo_settings (demo_completion purpose method code) (seconds 90) demo_factor
      (if method = ''recovery_code'' then lock_recovery_owned ''p'' (fst (recovery_parts code)) (demo_access purpose) else None)
      (Some demo_seed_token) = Return (True, counter)"
  shows "\<exists>result db'. complete demo_crypto demo_settings demo_encode demo_jwt demo_completion_random {''a''}
    demo_completion_clocks (demo_completion purpose method code) (demo_access purpose) = (Return result, db')"
proof -
  let ?recovery = "if method = ''recovery_code'' then lock_recovery_owned ''p'' (fst (recovery_parts code)) (demo_access purpose) else None"
  have "drop_microseconds (ck_now demo_completion_clocks) = seconds 90" by (simp add: demo_completion_clocks_def)
  moreover have "cc_holder (demo_ctx purpose r) = demo_holder" "cc_factor (demo_ctx purpose r) = demo_factor"
      "cc_challenge (demo_ctx purpose r) = demo_challenge purpose" "cc_recovery (demo_ctx purpose r) = r"
      "cc_ttl (demo_ctx purpose r) = 60" "cc_ciphertext (demo_ctx purpose r) = Some demo_seed_token" for r
    by (simp_all add: demo_ctx_def)
  moreover obtain result db' where "accept_proof demo_encode demo_jwt demo_completion_random (demo_completion purpose method code) 60
    demo_completion_clocks demo_holder demo_factor (demo_challenge purpose) ?recovery counter (demo_access purpose) = Return (result, db')"
    using demo_accept [OF assms(1,2)] by blast
  ultimately show ?thesis
    unfolding complete_def demo_context [OF assms(1)] by (simp add: assms(3) del: if_split)
qed

text \<open>The one-time password of the third time step, and the recovery code.\<close>

definition demo_code :: string where
  "demo_code = the (hotp [1, 2, 3] 3 6)"

lemma demo_code_hotp: "hotp [1, 2, 3] 3 6 = Some demo_code"
  by (simp add: demo_code_def hotp_def Let_def)

lemma demo_counter: "\<exists>c. matched_counter [1, 2, 3] demo_code (seconds 90) = Return (Some c) \<and> 0 < c"
proof -
  let ?M = "{c. 2 \<le> c \<and> c \<le> 4 \<and> hotp [1, 2, 3] c 6 = Some demo_code}"
  have "finite ?M" by (rule finite_subset [of _ "{2..4}"]) auto
  moreover have three: "3 \<in> ?M" using demo_code_hotp by simp
  moreover have "?M \<noteq> {}" using three by blast
  ultimately have "Max ?M \<in> ?M \<and> (\<forall>d\<in>?M. d \<le> Max ?M)" using Max_in Max_ge by blast
  then obtain m where m: "2 \<le> m" "m \<le> 4" "hotp [1, 2, 3] m 6 = Some demo_code"
    and greatest: "\<And>d. 2 \<le> d \<Longrightarrow> d \<le> 4 \<Longrightarrow> hotp [1, 2, 3] d 6 = Some demo_code \<Longrightarrow> d \<le> m" by blast
  have "hotp [1, 2, 3] d 6 \<noteq> Some demo_code" if "m < d" "d \<le> 4" for d
    using greatest [of d] that m(1) by auto
  moreover have step: "seconds 90 div seconds 30 = (3::int)" "0 \<le> seconds 90" by (simp_all add: seconds_def)
  ultimately have "matched_counter [1, 2, 3] demo_code (seconds 90) = Return (Some m)"
    unfolding matched_counter_iff [OF list.distinct(2) step(2)] step
    using m by (simp add: abs_le_iff)
  then show ?thesis using m(1) by auto
qed

lemma demo_totp_check:
  "\<exists>c. matched_counter [1, 2, 3] demo_code (seconds 90) = Return (Some c)
     \<and> check_proof demo_crypto demo_settings (demo_completion purpose ''totp'' demo_code) (seconds 90) demo_factor None
         (Some demo_seed_token) = Return (True, Some c)"
proof -
  obtain c where c: "matched_counter [1, 2, 3] demo_code (seconds 90) = Return (Some c)" "0 < c" using demo_counter by blast
  then show ?thesis
    by (simp add: check_proof_def demo_completion_def demo_seed_opens counter_fresh_def demo_factor_def)
qed

lemma demo_recovery_check:
  assumes "purpose \<noteq> ''setup''"
  shows "check_proof demo_crypto demo_settings (demo_completion purpose ''recovery_code'' ''r.s'') (seconds 90) demo_factor
    (lock_recovery_owned ''p'' (fst (recovery_parts ''r.s'')) (demo_access purpose)) (Some demo_seed_token) = Return (True, None)"
proof -
  have parts: "recovery_parts ''r.s'' = (''r'', ''s'')" by code_simp
  show ?thesis
    using assms demo_hash_verifies
    by (simp add: check_proof_def demo_completion_def parts recovery_valid_def lock_recovery_owned_def demo_access_def
        demo_recovery_def demo_factor_def)
qed

subsection \<open>A registration and a login from empty tables\<close>

definition demo_empty :: portal_db where
  "demo_empty = \<lparr>pd_principals = [], pd_accounts = [], pd_memberships = [], pd_sessions = [], pd_factors = [],
     pd_recovery_codes = [], pd_challenges = [], pd_oauth_states = []\<rparr>"

definition demo_registered :: portal_db where
  "demo_registered = demo_empty\<lparr>pd_principals := pd_principals demo_empty @ [demo_holder]\<rparr>"

definition demo_login_random :: login_random where
  "demo_login_random = \<lparr>lx_session_id = ''new'', lx_challenge = \<lparr>cx_challenge_id = ''c'', cx_secret = ''s'', cx_salt = replicate 8 0\<rparr>\<rparr>"

definition demo_issuer :: login_issuer where
  "demo_issuer = \<lparr>li_ttl_seconds = 60, li_auth_method = ''qq'', li_oauth_proof = None\<rparr>"

definition demo_login_clocks :: login_clocks where
  "demo_login_clocks = \<lparr>lk_now = seconds 90, lk_oauth = (seconds 90, seconds 90), lk_issued = seconds 90\<rparr>"

lemma demo_login:
  "\<exists>session db'. issue demo_encode demo_jwt demo_login_random demo_login_clocks demo_issuer demo_holder demo_registered
     = Return (LoginIssued session, db') \<and> length (pd_sessions db') = 1"
proof -
  have "settled_principal ''login'' demo_holder = demo_holder" by (simp add: settled_principal_def)
  with demo_token [of 150 "''login''"] obtain s where
    s: "sign_session demo_encode demo_jwt demo_holder ''new'' (seconds 150) [] (seconds 90) = Return s" by auto
  have e: "seconds 90 + seconds 60 = seconds 150" by (simp add: seconds_def)
  have tables: "pd_sessions demo_registered = []" "pd_factors demo_registered = []"
    by (simp_all add: demo_registered_def demo_empty_def)
  have "issue_verified_session demo_encode demo_jwt ''new'' (seconds 90) demo_holder 60 ''qq'' (seconds 90) None None None None demo_registered
    = Return (s, demo_registered\<lparr>pd_sessions := pd_sessions demo_registered
        @ [new_session ''new'' demo_holder (seconds 90) (seconds 150) ''qq'' (seconds 90)]\<rparr>)"
    using s by (simp add: issue_verified_session_def Let_def tables row_get_def e seconds_le)
  moreover have "lock_primary_factor (pn_principal_id demo_holder) demo_registered = Return None"
    by (simp add: lock_primary_factor_def tables row_get_def)
  moreover have "pn_status demo_holder = ''active''" by (simp add: demo_holder_def)
  ultimately show ?thesis
    by (simp add: issue_def Let_def demo_login_random_def demo_login_clocks_def demo_issuer_def tables)
qed

lemma demo_run:
  "\<exists>db. access_step\<^sup>*\<^sup>* (0, demo_empty) (seconds 90, db) \<and> length (pd_sessions db) = 1"
proof -
  obtain session db' where login: "issue demo_encode demo_jwt demo_login_random demo_login_clocks demo_issuer demo_holder
      demo_registered = Return (LoginIssued session, db')" "length (pd_sessions db') = 1"
    using demo_login by blast
  have "access_step (0, demo_empty) (0, demo_registered)"
    unfolding demo_registered_def
    by (rule registration) (simp_all add: demo_empty_def row_get_def demo_holder_def)
  moreover have "access_step (0, demo_registered) (seconds 90, db')"
    by (rule access_step.login [OF _ _ _ _ _ _ login(1)])
       (simp_all add: demo_registered_def demo_empty_def row_get_def demo_login_random_def login_random_ok_def
         identifier_length_def demo_issuer_def AUTH_METHODS_def demo_login_clocks_def seconds_le)
  ultimately show ?thesis using login(2) by (meson converse_rtranclp_into_rtranclp r_into_rtranclp)
qed

lemma demo_empty_init: "access_init (0, demo_empty)"
  by (simp add: access_init_def demo_empty_def)

end
