(* ===== verification/PortalAccessProperties.thy ===== *)
theory PortalAccessProperties
  imports PortalAccessDemo
begin

section \<open>Properties of the Portal's sessions and second factor\<close>

subsection \<open>Invariants of all runs\<close>

text \<open>C33: The tables keep their check constraints: from empty tables, whatever logins, management commands,
  completions, revocations, directory changes and key rotations are interleaved, every session, factor,
  recovery code and challenge satisfies the constraints the database declares for it, so no command ever fails
  on one.\<close>

theorem access_tables_keep_constraints:
  assumes "access_init st" and "access_step\<^sup>*\<^sup>* st (t, db)"
  shows "list_all session_checks (pd_sessions db) \<and> list_all factor_checks (pd_factors db)
    \<and> list_all recovery_checks (pd_recovery_codes db) \<and> list_all challenge_checks (pd_challenges db)"
  using access.inv_run [OF assms] by (simp add: access_inv_parts list_all_iff)

theorem access_tables_keep_constraints_witness:
  "\<exists>db :: portal_db. length (pd_sessions db) = 1 \<and> list_all session_checks (pd_sessions db)"
proof -
  obtain db where run: "access_step\<^sup>*\<^sup>* (0, demo_empty) (seconds 90, db)" "length (pd_sessions db) = 1"
    using demo_run by (elim exE conjE)
  show ?thesis by (rule exI [of _ db]) (use access_tables_keep_constraints [OF demo_empty_init run(1)] run(2) in simp)
qed



subsection \<open>Proofs are used once\<close>

lemma ready_challenge:
  "completion_ready clocks req db ctx \<Longrightarrow>
     credential_parts (cr_credential req) = Return (ch_challenge_id (cc_challenge ctx), cc_ttl ctx)"
  by (simp add: completion_ready_def Let_def)

lemma complete_Return:
  assumes "complete lib settings jwt_encode jwt rnd discovered clocks req db = (Return result, db')"
  obtains ctx counter where "completion_ready clocks req db ctx"
    "check_proof lib settings req (drop_microseconds (ck_now clocks)) (cc_factor ctx) (cc_recovery ctx) (cc_ciphertext ctx)
       = Return (True, counter)"
    "accept_proof jwt_encode jwt rnd req (cc_ttl ctx) clocks (cc_holder ctx) (cc_factor ctx) (cc_challenge ctx)
       (cc_recovery ctx) counter db = Return (result, db')"
  using assms by (rule completion_cases) (auto intro: that)

lemma accepted_recovery:
  assumes "completion_ready clocks req db ctx"
    and "check_proof lib settings req (drop_microseconds (ck_now clocks)) (cc_factor ctx) (cc_recovery ctx) (cc_ciphertext ctx)
      = Return (True, n)"
    and "cr_method req = ''recovery_code''"
  shows "\<exists>r. cc_recovery ctx = Some r \<and> r \<in> set (pd_recovery_codes db) \<and> rv_code_id r = fst (recovery_parts (cr_code req))
    \<and> rv_consumed_at r = None"
proof -
  from assms(2) have "recovery_valid (snd (recovery_parts (cr_code req))) (cc_factor ctx) (cc_recovery ctx)"
    by (rule check_proof_True) (use assms(3) in simp_all)
  then obtain r where r: "cc_recovery ctx = Some r" "rv_consumed_at r = None"
    by (auto simp: recovery_valid_def split: option.splits)
  moreover have "cc_recovery ctx = lock_recovery_owned (pn_principal_id (cc_holder ctx)) (fst (recovery_parts (cr_code req))) db"
    using assms(1,3) by (simp add: completion_ready_def Let_def)
  ultimately show ?thesis using lock_recovery_owned_Some by metis
qed

lemma over_rejected:
  assumes "access_inv (t, db)" and "row_get ch_challenge_id cid (pd_challenges db) = Some c" and "challenge_over t db c"
    and "t \<le> ck_now clocks" and "credential_parts (cr_credential req) = Return (cid, ttl)"
  shows "\<exists>e. complete lib settings jwt_encode jwt rnd discovered clocks req db = (Raise e, db)"
proof -
  obtain res db' where run: "complete lib settings jwt_encode jwt rnd discovered clocks req db = (res, db')"
    by (cases "complete lib settings jwt_encode jwt rnd discovered clocks req db")
  then show ?thesis
    by (rule completion_cases) (use run over_not_ready [OF assms] in auto)
qed

text \<open>A completed challenge is spent: once a completion succeeded, the same credential is refused and changes
  nothing in every later state, whatever happened in between.\<close>

theorem completed_challenge_stays_spent:
  assumes inv: "access_inv (t, db)" and random: "completion_random_ok rnd"
    and clocks: "t \<le> ck_validated clocks" "ck_validated clocks \<le> ck_now clocks" "ck_now clocks \<le> ck_issued clocks"
    and first: "complete lib settings jwt_encode jwt rnd discovered clocks req db = (Return result, db1)"
    and later: "access_step\<^sup>*\<^sup>* (ck_issued clocks, db1) (t2, db2)" "t2 \<le> ck_now clocks2"
    and same: "cr_credential req2 = cr_credential req"
  shows "\<exists>e. complete lib2 settings2 jwt_encode2 jwt2 rnd2 discovered2 clocks2 req2 db2 = (Raise e, db2)"
proof -
  from first obtain ctx counter where ready: "completion_ready clocks req db ctx"
    and accept: "accept_proof jwt_encode jwt rnd req (cc_ttl ctx) clocks (cc_holder ctx) (cc_factor ctx) (cc_challenge ctx)
       (cc_recovery ctx) counter db = Return (result, db1)"
    by (rule complete_Return)
  note facts = ready_facts [OF ready]
  let ?cid = "ch_challenge_id (cc_challenge ctx)"
  let ?c = "(cc_challenge ctx)\<lparr>ch_consumed_at := Some (drop_microseconds (ck_now clocks))\<rparr>"
  obtain issued codes where result: "result = (issued, codes)" by (cases result)
  have "row_get ch_challenge_id ?cid (pd_challenges db1) = Some ?c"
    using accept [unfolded result]
    by (rule accept_proof_Return)
       (use challenge_row [OF inv facts(3)] row_get_put_same [of ch_challenge_id ?c "pd_challenges db"] in simp)
  moreover have "challenge_over (ck_issued clocks) db1 ?c" by (simp add: challenge_over_def)
  moreover have run: "forward db1 db2" "ck_issued clocks \<le> t2" "access_inv (t2, db2)"
    using run_forward [OF later(1) complete_keeps_inv [OF inv clocks random first]] by simp_all
  ultimately obtain c' where c': "row_get ch_challenge_id ?cid (pd_challenges db2) = Some c'" "challenge_over t2 db2 c'"
    using over_persists by blast
  from over_rejected [OF run(3) c' later(2)] ready_challenge [OF ready] same show ?thesis by simp
qed

lemma demo_random_ok: "completion_random_ok demo_completion_random"
  by (simp add: completion_random_ok_def demo_completion_random_def identifier_length_def)

lemma demo_clock_order:
  "ck_validated demo_completion_clocks = seconds 90" "ck_now demo_completion_clocks = seconds 90"
  "ck_issued demo_completion_clocks = seconds 90"
  by (simp_all add: demo_completion_clocks_def)

lemma demo_totp_login:
  "\<exists>result db'. complete demo_crypto demo_settings demo_encode demo_jwt demo_completion_random {''a''} demo_completion_clocks
     (demo_completion ''login'' ''totp'' demo_code) (demo_access ''login'') = (Return result, db')"
proof -
  obtain c where "check_proof demo_crypto demo_settings (demo_completion ''login'' ''totp'' demo_code) (seconds 90) demo_factor None
      (Some demo_seed_token) = Return (True, Some c)" using demo_totp_check by blast
  then show ?thesis by (intro demo_complete) simp_all
qed

theorem completed_challenge_stays_spent_witness:
  "\<exists>result db e. complete demo_crypto demo_settings demo_encode demo_jwt demo_completion_random {''a''} demo_completion_clocks
       (demo_completion ''login'' ''totp'' demo_code) (demo_access ''login'') = (Return result, db)
     \<and> complete demo_crypto demo_settings demo_encode demo_jwt demo_completion_random {''a''} demo_completion_clocks
       (demo_completion ''login'' ''totp'' demo_code) db = (Raise e, db)"
proof -
  obtain result db where run: "complete demo_crypto demo_settings demo_encode demo_jwt demo_completion_random {''a''}
      demo_completion_clocks (demo_completion ''login'' ''totp'' demo_code) (demo_access ''login'') = (Return result, db)"
    using demo_totp_login by blast
  have "access_inv (seconds 90, demo_access ''login'')" by (rule demo_access_inv) simp
  from completed_challenge_stays_spent [OF this demo_random_ok _ _ _ run rtranclp.rtrancl_refl _ refl] run
  show ?thesis by (simp add: demo_clock_order)
qed

text \<open>C29: A one-time password is accepted once: as long as the factor is the same, every password that is accepted
  has a counter above all counters accepted before, in any later state, and becomes the new bound.\<close>

theorem accepted_counters_increase:
  assumes inv: "access_inv (t1, db1)" and run: "access_step\<^sup>*\<^sup>* (t1, db1) (t2, db2)"
    and before: "row_get tf_principal_id pid (pd_factors db1) = Some f1" "tf_last_accepted_counter f1 = Some c1"
    and now: "row_get tf_principal_id pid (pd_factors db2) = Some f2" "tf_factor_version f2 = tf_factor_version f1"
    and challenge: "credential_parts (cr_credential req) = Return (cid, ttl)"
      "row_get ch_challenge_id cid (pd_challenges db2) = Some c" "ch_principal_id c = pid"
    and success: "complete lib settings jwt_encode jwt rnd discovered clocks req db2 = (Return result, db3)"
      "cr_method req = ''totp''"
  shows "\<exists>seed counter. matched_counter seed (cr_code req) (drop_microseconds (ck_now clocks)) = Return (Some counter)
    \<and> c1 < counter
    \<and> (cr_purpose req = ''disable'' \<or> map_option tf_last_accepted_counter (row_get tf_principal_id pid (pd_factors db3)) = Some (Some counter))"
proof -
  have forward: "forward db1 db2" and inv2: "access_inv (t2, db2)" using run_forward [OF run inv] by simp_all
  then have "table_forward tf_principal_id factor_forward (pd_factors db1) (pd_factors db2)" by (simp add: forward_def)
  from table_forwardD [OF this before(1)] now have "factor_forward f1 f2" by auto
  with before(2) now(2) obtain c2 where c2: "tf_last_accepted_counter f2 = Some c2" "c1 \<le> c2"
    by (auto simp: factor_forward_def)
  from success(1) obtain ctx counter where ready: "completion_ready clocks req db2 ctx"
    and check: "check_proof lib settings req (drop_microseconds (ck_now clocks)) (cc_factor ctx) (cc_recovery ctx) (cc_ciphertext ctx)
       = Return (True, counter)"
    and accept: "accept_proof jwt_encode jwt rnd req (cc_ttl ctx) clocks (cc_holder ctx) (cc_factor ctx) (cc_challenge ctx)
       (cc_recovery ctx) counter db2 = Return (result, db3)"
    by (rule complete_Return)
  note facts = ready_facts [OF ready]
  have "cc_challenge ctx = c"
    using challenge_row [OF inv2 facts(3)] challenge(1,2) ready_challenge [OF ready] by simp
  then have pid: "pn_principal_id (cc_holder ctx) = pid" using facts(4) challenge(3) by simp
  then have f2: "cc_factor ctx = f2" using facts(2) now(1) by simp
  from check success(2) obtain seed n where n: "matched_counter seed (cr_code req) (drop_microseconds (ck_now clocks)) = Return (Some n)"
      "counter = Some n" "counter_fresh f2 n"
    unfolding f2 by (elim check_proof_True) simp_all
  let ?f = "settled_factor (cr_purpose req) (drop_microseconds (ck_now clocks)) counter f2"
  have key: "tf_principal_id ?f = pid" using row_get_Some [OF now(1)] by (simp add: settled_factor_simps)
  obtain issued codes where result: "result = (issued, codes)" by (cases result)
  from accept [unfolded result f2]
  have "row_get tf_principal_id pid (pd_factors db3) = Some ?f"
    by (rule accept_proof_Return) (use row_get_put_same [of tf_principal_id ?f "pd_factors db2"] key now(1) in simp)
  moreover have "c1 < n" using n(3) c2 by (simp add: counter_fresh_def)
  ultimately show ?thesis using n(1,2) by (auto simp: settled_factor_simps)
qed

theorem accepted_counters_increase_witness:
  "\<exists>seed counter. matched_counter seed demo_code (seconds 90) = Return (Some counter) \<and> (0::int) < counter"
proof -
  obtain result db where run: "complete demo_crypto demo_settings demo_encode demo_jwt demo_completion_random {''a''}
      demo_completion_clocks (demo_completion ''login'' ''totp'' demo_code) (demo_access ''login'') = (Return result, db)"
    using demo_totp_login by blast
  have inv: "access_inv (seconds 90, demo_access ''login'')" by (rule demo_access_inv) simp
  have parts: "credential_parts (cr_credential (demo_completion ''login'' ''totp'' demo_code)) = Return (''c'', 60)"
    by (simp add: demo_completion_def demo_parts)
  from accepted_counters_increase [OF inv rtranclp.rtrancl_refl demo_table_reads(3) _ demo_table_reads(3) refl parts
      demo_table_reads(1) _ run, of 0]
  show ?thesis by (auto simp: demo_factor_def demo_challenge_def demo_completion_def demo_clock_order)
qed

text \<open>C35: A recovery code works once: after a completion with it, no completion with the same code succeeds in any
  later state, for whatever challenge, purpose or caller.\<close>

theorem recovery_code_works_once:
  assumes inv: "access_inv (t, db)" and random: "completion_random_ok rnd"
    and clocks: "t \<le> ck_validated clocks" "ck_validated clocks \<le> ck_now clocks" "ck_now clocks \<le> ck_issued clocks"
    and first: "complete lib settings jwt_encode jwt rnd discovered clocks req db = (Return result, db1)"
      "cr_method req = ''recovery_code''"
    and run: "access_step\<^sup>*\<^sup>* (ck_issued clocks, db1) (t2, db2)"
    and second: "cr_method req2 = ''recovery_code''" "cr_code req2 = cr_code req"
  shows "\<not> (\<exists>result2 db3. complete lib2 settings2 jwt_encode2 jwt2 rnd2 discovered2 clocks2 req2 db2 = (Return result2, db3))"
proof
  let ?id = "fst (recovery_parts (cr_code req))"
  assume "\<exists>result2 db3. complete lib2 settings2 jwt_encode2 jwt2 rnd2 discovered2 clocks2 req2 db2 = (Return result2, db3)"
  then obtain result2 db3 where "complete lib2 settings2 jwt_encode2 jwt2 rnd2 discovered2 clocks2 req2 db2 = (Return result2, db3)"
    by (elim exE)
  then obtain ctx2 n2 where ready2: "completion_ready clocks2 req2 db2 ctx2"
    and check2: "check_proof lib2 settings2 req2 (drop_microseconds (ck_now clocks2)) (cc_factor ctx2) (cc_recovery ctx2)
      (cc_ciphertext ctx2) = Return (True, n2)" by (rule complete_Return)
  from first(1) obtain ctx n where ready: "completion_ready clocks req db ctx"
    and check: "check_proof lib settings req (drop_microseconds (ck_now clocks)) (cc_factor ctx) (cc_recovery ctx)
      (cc_ciphertext ctx) = Return (True, n)"
    and accept: "accept_proof jwt_encode jwt rnd req (cc_ttl ctx) clocks (cc_holder ctx) (cc_factor ctx) (cc_challenge ctx)
       (cc_recovery ctx) n db = Return (result, db1)" by (rule complete_Return)
  obtain r where r: "cc_recovery ctx = Some r" "r \<in> set (pd_recovery_codes db)" "rv_code_id r = ?id"
    using accepted_recovery [OF ready check first(2)] by blast
  obtain r2 where r2: "r2 \<in> set (pd_recovery_codes db2)" "rv_code_id r2 = ?id" "rv_consumed_at r2 = None"
    using accepted_recovery [OF ready2 check2 second(1)] second(2) by auto
  have inv1: "access_inv (ck_issued clocks, db1)" by (rule complete_keeps_inv [OF inv clocks random first(1)])
  let ?used = "r\<lparr>rv_consumed_at := Some (drop_microseconds (ck_now clocks))\<rparr>"
  obtain issued codes where result: "result = (issued, codes)" by (cases result)
  have "row_get rv_code_id ?id (row_put rv_code_id ?used (pd_recovery_codes db)) = Some ?used"
    using row_get_put_same [of rv_code_id ?used "pd_recovery_codes db"] recovery_row [OF inv r(2)] r(3) by simp
  then have "row_get rv_code_id ?id (pd_recovery_codes db1) = Some ?used"
    using accept [unfolded result r(1)] by (elim accept_proof_Return) (simp add: used_codes_def row_get_append)
  moreover from run_forward [OF run inv1] have "access_inv (t2, db2)"
      "table_forward rv_code_id recovery_forward (pd_recovery_codes db1) (pd_recovery_codes db2)"
    by (simp_all add: forward_def)
  ultimately show False
    using table_forwardD recovery_row r2 by (fastforce simp: recovery_forward_def)
qed

lemma demo_recovery_login:
  "\<exists>result db'. complete demo_crypto demo_settings demo_encode demo_jwt demo_completion_random {''a''} demo_completion_clocks
     (demo_completion ''login'' ''recovery_code'' ''r.s'') (demo_access ''login'') = (Return result, db')"
  by (rule demo_complete) (use demo_recovery_check [of "''login''"] in simp_all)

theorem recovery_code_works_once_witness:
  "\<exists>result db. complete demo_crypto demo_settings demo_encode demo_jwt demo_completion_random {''a''} demo_completion_clocks
       (demo_completion ''login'' ''recovery_code'' ''r.s'') (demo_access ''login'') = (Return result, db)
     \<and> \<not> (\<exists>result2 db3. complete demo_crypto demo_settings demo_encode demo_jwt demo_completion_random {''a''}
       demo_completion_clocks (demo_completion ''disable'' ''recovery_code'' ''r.s'') db = (Return result2, db3))"
proof -
  obtain result db where run: "complete demo_crypto demo_settings demo_encode demo_jwt demo_completion_random {''a''}
      demo_completion_clocks (demo_completion ''login'' ''recovery_code'' ''r.s'') (demo_access ''login'') = (Return result, db)"
    using demo_recovery_login by (elim exE)
  have inv: "access_inv (seconds 90, demo_access ''login'')" by (rule demo_access_inv) simp
  have "\<not> (\<exists>result2 db3. complete demo_crypto demo_settings demo_encode demo_jwt demo_completion_random {''a''}
       demo_completion_clocks (demo_completion ''disable'' ''recovery_code'' ''r.s'') db = (Return result2, db3))"
    by (rule recovery_code_works_once [OF inv demo_random_ok _ _ _ run _ rtranclp.rtrancl_refl])
       (simp_all add: demo_clock_order demo_completion_def)
  with run show ?thesis by blast
qed

subsection \<open>Sessions end\<close>

text \<open>C31: Changing the second factor ends every earlier session: after a setup, disable or recovery reset, no
  session the principal had before the change is ever valid again.\<close>

theorem factor_change_ends_earlier_sessions:
  assumes inv: "access_inv (t, db)" and random: "completion_random_ok rnd"
    and clocks: "t \<le> ck_validated clocks" "ck_validated clocks \<le> ck_now clocks" "ck_now clocks \<le> ck_issued clocks"
    and change: "complete lib settings jwt_encode jwt rnd discovered clocks req db = (Return result, db1)"
      "cr_purpose req \<noteq> ''login''" "cr_identity req = Some caller"
    and run: "access_step\<^sup>*\<^sup>* (ck_issued clocks, db1) (t2, db2)"
    and earlier: "row_get ps_session_id sid (pd_sessions db) = Some s" "ps_principal_id s = id_principal_id caller"
    and ident: "id_principal_id ident = id_principal_id caller" "id_session_id ident = sid"
  shows "\<exists>e. validate_registered_session now ident db2 = Raise e"
proof -
  from change(1) obtain ctx counter where ready: "completion_ready clocks req db ctx"
    and accept: "accept_proof jwt_encode jwt rnd req (cc_ttl ctx) clocks (cc_holder ctx) (cc_factor ctx) (cc_challenge ctx)
       (cc_recovery ctx) counter db = Return (result, db1)"
    by (rule complete_Return)
  let ?h = "cc_holder ctx" and ?h' = "settled_principal (cr_purpose req) (cc_holder ctx)"
  note facts = ready_facts [OF ready]
  have pid: "id_principal_id caller = pn_principal_id ?h"
    using ready change(2,3) by (auto simp: completion_ready_def Let_def)
  have "s \<in> set (pd_sessions db)" using row_get_Some [OF earlier(1)] by simp
  then have old: "ps_session_version s \<le> pn_session_version ?h"
    using inv facts(1) earlier(2) pid by (auto simp: access_inv_parts version_known_def)
  obtain issued codes where result: "result = (issued, codes)" by (cases result)
  have h': "row_get pn_principal_id (pn_principal_id ?h) (pd_principals db1) = Some ?h'"
    using accept [unfolded result] row_get_put_same [of pn_principal_id ?h' "pd_principals db"] facts(1)
    by (elim accept_proof_Return) simp
  have inv1: "access_inv (ck_issued clocks, db1)" by (rule complete_keeps_inv [OF inv clocks random change(1)])
  have whole: "forward db db2"
    using complete_forward [OF inv change(1)] run_forward [OF run inv1] by (auto intro: forward_trans)
  from whole earlier(1) obtain s2 where s2: "row_get ps_session_id sid (pd_sessions db2) = Some s2" "ps_session_version s2 = ps_session_version s"
    unfolding forward_def session_forward_def by (blast dest: table_forwardD)
  from run_forward [OF run inv1] h' obtain p2 where p2: "row_get pn_principal_id (pn_principal_id ?h) (pd_principals db2) = Some p2"
      "pn_session_version ?h < pn_session_version p2"
    unfolding forward_def using change(2) by (fastforce dest: table_forwardD)
  have inv2: "access_inv (t2, db2)" using run_forward [OF run inv1] by simp
  have "\<not> (\<exists>row. validate_registered_session now ident db2 = Return row)"
  proof
    assume "\<exists>row. validate_registered_session now ident db2 = Return row"
    then obtain row where row: "validate_registered_session now ident db2 = Return row" by (elim exE)
    note v = validate_Return [OF row]
    have "row_get ps_session_id (ps_session_id row) (pd_sessions db2) = Some row"
      using inv2 v(1) by (intro row_get_unique) (simp_all add: access_inv_parts)
    then have "row = s2" using v(2) ident(2) s2(1) by simp
    with v(5,6) p2 pid ident(1) s2(2) old show False by auto
  qed
  then show ?thesis by (cases "validate_registered_session now ident db2") auto
qed

lemma demo_disable:
  "\<exists>result db'. complete demo_crypto demo_settings demo_encode demo_jwt demo_completion_random {''a''} demo_completion_clocks
     (demo_completion ''disable'' ''recovery_code'' ''r.s'') (demo_access ''disable'') = (Return result, db')"
  by (rule demo_complete) (use demo_recovery_check [of "''disable''"] in simp_all)

theorem factor_change_ends_earlier_sessions_witness:
  "\<exists>result db e. complete demo_crypto demo_settings demo_encode demo_jwt demo_completion_random {''a''} demo_completion_clocks
       (demo_completion ''disable'' ''recovery_code'' ''r.s'') (demo_access ''disable'') = (Return result, db)
     \<and> validate_registered_session (seconds 90) demo_identity (demo_access ''disable'') = Return demo_session
     \<and> validate_registered_session (seconds 90) demo_identity db = Raise e"
proof -
  obtain result db where run: "complete demo_crypto demo_settings demo_encode demo_jwt demo_completion_random {''a''}
      demo_completion_clocks (demo_completion ''disable'' ''recovery_code'' ''r.s'') (demo_access ''disable'') = (Return result, db)"
    using demo_disable by (elim exE)
  have inv: "access_inv (seconds 90, demo_access ''disable'')" by (rule demo_access_inv) simp
  have old: "row_get ps_session_id ''old'' (pd_sessions (demo_access ''disable'')) = Some demo_session"
    by (simp add: demo_access_def row_get_def demo_session_def)
  have "\<exists>e. validate_registered_session (seconds 90) demo_identity db = Raise e"
    by (rule factor_change_ends_earlier_sessions [OF inv demo_random_ok _ _ _ run _ _ rtranclp.rtrancl_refl old, of demo_identity])
       (simp_all add: demo_clock_order demo_completion_def demo_identity_def demo_session_def)
  with run demo_validates show ?thesis by blast
qed

text \<open>C34: An enabled second factor cannot be skipped: a primary login of its principal yields a challenge and no
  session, and a session of the principal is valid only with evidence of a second factor of the factor's
  present version.\<close>

theorem enabled_factor_is_required:
  assumes factor: "row_get tf_principal_id pid (pd_factors db) = Some f" "tf_state f = ''enabled''"
  shows "(\<forall>holder result db'. pn_principal_id holder = pid
        \<and> issue jwt_encode jwt rnd clocks issuer holder db = Return (result, db') \<longrightarrow> (\<exists>challenge. result = LoginChallenged challenge))
    \<and> (\<forall>ident row. id_principal_id ident = pid \<and> validate_registered_session now ident db = Return row \<longrightarrow>
        ps_factor_version row = Some (tf_factor_version f) \<and> ps_second_factor_verified_at row \<noteq> None
        \<and> ps_second_factor_method row \<in> {Some ''totp'', Some ''recovery_code''})"
proof (intro conjI allI impI)
  fix holder result db'
  assume login: "pn_principal_id holder = pid \<and> issue jwt_encode jwt rnd clocks issuer holder db = Return (result, db')"
  from conjunct2 [OF login] show "\<exists>challenge. result = LoginChallenged challenge"
    by (cases rule: issue_cases) (use factor login in auto)
next
  fix ident row
  assume valid: "id_principal_id ident = pid \<and> validate_registered_session now ident db = Return row"
  from validate_Return(7) [OF conjunct2 [OF valid]] factor valid
  have "ps_factor_version row = Some (tf_factor_version f) \<and> ps_second_factor_verified_at row \<noteq> None
      \<and> ps_second_factor_method row \<in> SECOND_FACTOR_METHODS" by (simp add: factor_satisfied_def)
  then show "ps_factor_version row = Some (tf_factor_version f)" "ps_second_factor_verified_at row \<noteq> None"
      "ps_second_factor_method row \<in> {Some ''totp'', Some ''recovery_code''}"
    by (simp_all add: SECOND_FACTOR_METHODS_def)
qed

theorem enabled_factor_is_required_witness:
  "validate_registered_session (seconds 90) demo_identity (demo_access ''login'') = Return demo_session
   \<and> ps_factor_version demo_session = Some (tf_factor_version demo_factor)"
proof -
  have "tf_state demo_factor = ''enabled''" "id_principal_id demo_identity = ''p''"
    by (simp_all add: demo_factor_def demo_identity_def)
  with enabled_factor_is_required [OF demo_table_reads(3) [of "''login''"], THEN conjunct2, rule_format] demo_validates [of "''login''"]
  show ?thesis by blast
qed

subsection \<open>The registry as a set of live sessions\<close>

text \<open>The abstract registry of one principal is the set of its live session ids; a command maps the set.\<close>

datatype registry_command = RevokeOne string | KeepOnly string | LogIn string | StartOver string

fun registry_after :: "registry_command \<Rightarrow> string set \<Rightarrow> string set" where
  "registry_after (RevokeOne sid) live = live - {sid}"
| "registry_after (KeepOnly sid) live = live \<inter> {sid}"
| "registry_after (LogIn sid) live = insert sid live"
| "registry_after (StartOver sid) live = {sid}"

definition live_sessions :: "string \<Rightarrow> instant \<Rightarrow> portal_db \<Rightarrow> string set" where
  "live_sessions pid t db = ps_session_id ` {s \<in> set (pd_sessions db). active_session pid t db s}"

lemma revoke_Return:
  assumes "revoke_principal_sessions discovered validated_at now ident target db = (Return r, db')"
  obtains row where "validate_registered_session validated_at ident db = Return row"
    "\<exists>reason. db' = db\<lparr>pd_sessions := rows_update (revocation_target target ident now)
       (\<lambda>s. s\<lparr>ps_revoked_at := Some now, ps_revoke_reason := Some reason\<rparr>) (pd_sessions db)\<rparr>"
  using assms unfolding revoke_principal_sessions_def Let_def
  by (cases "validate_registered_session validated_at ident db") (auto simp: and_then_Return split: sum.splits)

lemma active_session_revoked:
  assumes "\<forall>p. row_get pn_principal_id pid (pd_principals db) = Some p \<longrightarrow> pn_session_version p = id_session_version ident"
    and "pid = id_principal_id ident"
  shows "active_session pid now db s \<and> \<not> revocation_target target ident now s \<longleftrightarrow>
    active_session pid now db s \<and> (case target of Some t \<Rightarrow> ps_session_id s \<noteq> t | None \<Rightarrow> ps_session_id s = id_session_id ident)"
  using assms by (auto simp: active_session_def revocation_target_def split: option.splits)

lemma image_key_eq: "f ` {s \<in> A. P s \<and> f s = k} = f ` {s \<in> A. P s} \<inter> {k}"
  by force

lemma image_key_neq: "f ` {s \<in> A. P s \<and> f s \<noteq> k} = f ` {s \<in> A. P s} - {k}"
  by force

lemma revoke_refines:
  assumes revoke: "revoke_principal_sessions discovered validated_at now ident target db = (Return r, db')"
  shows "live_sessions (id_principal_id ident) now db' = registry_after
      (case target of Some sid \<Rightarrow> RevokeOne sid | None \<Rightarrow> KeepOnly (id_session_id ident)) (live_sessions (id_principal_id ident) now db)"
proof -
  let ?pid = "id_principal_id ident"
  from revoke obtain row reason where row: "validate_registered_session validated_at ident db = Return row"
    and db': "db' = db\<lparr>pd_sessions := rows_update (revocation_target target ident now)
       (\<lambda>s. s\<lparr>ps_revoked_at := Some now, ps_revoke_reason := Some reason\<rparr>) (pd_sessions db)\<rparr>"
    by (elim revoke_Return exE)
  have version: "\<forall>p. row_get pn_principal_id ?pid (pd_principals db) = Some p \<longrightarrow> pn_session_version p = id_session_version ident"
    using validate_Return(6) [OF row] by auto
  have same: "active_session ?pid now db' s = active_session ?pid now db s" for s
    by (simp add: active_session_def db')
  have gone: "\<not> active_session ?pid now db (s\<lparr>ps_revoked_at := Some now, ps_revoke_reason := Some reason\<rparr>)" for s
    by (simp add: active_session_def)
  have "live_sessions ?pid now db' = ps_session_id ` {s \<in> set (pd_sessions db). active_session ?pid now db s \<and> \<not> revocation_target target ident now s}"
    unfolding live_sessions_def same using gone by (auto simp: db' in_rows_update image_iff)
  then show ?thesis
    unfolding active_session_revoked [OF version refl] live_sessions_def
    by (cases target) (simp_all only: option.case registry_after.simps image_key_eq image_key_neq)
qed

lemma live_sessions_append:
  "live_sessions pid t (db\<lparr>pd_sessions := pd_sessions db @ [s]\<rparr>) =
     (if active_session pid t db s then insert (ps_session_id s) (live_sessions pid t db) else live_sessions pid t db)"
  by (auto simp: live_sessions_def active_session_def)

lemma active_after_settling:
  assumes inv: "access_inv (t, db)" and holder: "row_get pn_principal_id pid (pd_principals db) = Some holder"
    and s: "s \<in> set (pd_sessions db)"
    and db': "row_get pn_principal_id pid (pd_principals db') = Some (settled_principal purpose holder)"
  shows "active_session pid now db' s \<longleftrightarrow> purpose = ''login'' \<and> active_session pid now db s"
proof (cases "ps_principal_id s = pid")
  case True
  with inv s holder have "ps_session_version s \<le> pn_session_version holder"
    by (auto simp: access_inv_parts version_known_def)
  with True holder db' show ?thesis by (auto simp: active_session_def settled_principal_def)
next
  case False
  then show ?thesis by (simp add: active_session_def)
qed

lemma complete_refines:
  assumes inv: "access_inv (t, db)"
    and complete: "complete lib settings jwt_encode jwt rnd accounts clocks req db = (Return (issued, codes), db')"
  shows "live_sessions (iss_principal_id issued) (drop_microseconds (ck_issued clocks)) db' = registry_after
      (if cr_purpose req = ''login'' then LogIn (iss_session_id issued) else StartOver (iss_session_id issued))
      (live_sessions (iss_principal_id issued) (drop_microseconds (ck_issued clocks)) db)"
proof -
  let ?T = "drop_microseconds (ck_issued clocks)"
  from complete obtain ctx counter where ready: "completion_ready clocks req db ctx"
    and accept: "accept_proof jwt_encode jwt rnd req (cc_ttl ctx) clocks (cc_holder ctx) (cc_factor ctx) (cc_challenge ctx)
       (cc_recovery ctx) counter db = Return ((issued, codes), db')"
    by (rule complete_Return)
  let ?h = "cc_holder ctx"
  let ?h' = "settled_principal (cr_purpose req) ?h"
  note facts = ready_facts [OF ready]
  obtain row where issued: "iss_principal_id issued = pn_principal_id ?h" "ps_session_id row = iss_session_id issued"
    and row: "ps_principal_id row = pn_principal_id ?h" "ps_session_version row = pn_session_version ?h'"
      "ps_revoked_at row = None" "?T < ps_absolute_expires_at row"
    and db': "pd_sessions db' = pd_sessions db @ [row]" "pd_principals db' = row_put pn_principal_id ?h' (pd_principals db)"
    using accept by (rule accept_proof_Return) (rule that, simp_all add: issued_row_def new_session_def split: option.splits)
  have h': "row_get pn_principal_id (pn_principal_id ?h) (pd_principals db') = Some ?h'"
    using row_get_put_same [of pn_principal_id ?h' "pd_principals db"] facts(1) db'(2) by simp
  have "pn_status ?h' = ''active''" using ready by (simp add: completion_ready_def Let_def settled_principal_def)
  with h' row have new: "active_session (pn_principal_id ?h) ?T db' row" by (simp add: active_session_def)
  have "{s \<in> set (pd_sessions db'). active_session (pn_principal_id ?h) ?T db' s} = insert row
      {s \<in> set (pd_sessions db). cr_purpose req = ''login'' \<and> active_session (pn_principal_id ?h) ?T db s}"
    using new active_after_settling [OF inv facts(1) _ h'] unfolding db'(1) by auto
  then show ?thesis
    unfolding issued live_sessions_def by (cases "cr_purpose req = ''login''") (simp_all add: issued(2))
qed

text \<open>C32: The session registry refines a set of live sessions: revoking removes the target, or all but the caller's
  own session, and a completed challenge adds the new session after a login and leaves only the new one after
  a change of the second factor.\<close>

theorem registry_refines_live_sets:
  assumes "access_inv (t, db)"
  shows "(revoke_principal_sessions accounts validated_at now ident target db = (Return r, db1) \<longrightarrow>
        live_sessions (id_principal_id ident) now db1 = registry_after
          (case target of Some sid \<Rightarrow> RevokeOne sid | None \<Rightarrow> KeepOnly (id_session_id ident))
          (live_sessions (id_principal_id ident) now db))
    \<and> (complete lib settings jwt_encode jwt rnd accounts clocks req db = (Return (issued, codes), db2) \<longrightarrow>
        live_sessions (iss_principal_id issued) (drop_microseconds (ck_issued clocks)) db2 = registry_after
          (if cr_purpose req = ''login'' then LogIn (iss_session_id issued) else StartOver (iss_session_id issued))
          (live_sessions (iss_principal_id issued) (drop_microseconds (ck_issued clocks)) db))"
  by (intro conjI impI) (rule revoke_refines, assumption, rule complete_refines [OF assms], assumption)

theorem registry_refines_live_sets_witness:
  "\<exists>issued codes db. complete demo_crypto demo_settings demo_encode demo_jwt demo_completion_random {''a''} demo_completion_clocks
       (demo_completion ''disable'' ''recovery_code'' ''r.s'') (demo_access ''disable'') = (Return (issued, codes), db)
     \<and> live_sessions (iss_principal_id issued) (seconds 90) db = {iss_session_id issued}"
proof -
  obtain issued codes db where run: "complete demo_crypto demo_settings demo_encode demo_jwt demo_completion_random {''a''}
      demo_completion_clocks (demo_completion ''disable'' ''recovery_code'' ''r.s'') (demo_access ''disable'') = (Return (issued, codes), db)"
    using demo_disable by (metis surj_pair)
  have "access_inv (seconds 90, demo_access ''disable'')" by (rule demo_access_inv) simp
  from conjunct2 [OF registry_refines_live_sets [OF this], rule_format, OF run] run
  show ?thesis by (auto simp: demo_clock_order demo_completion_def)
qed

text \<open>C36: Matching a one-time password is exactly a search of the window: the result is the largest counter among
  the time steps before, at and after the present one that yields the code, and there is none exactly when no
  counter of the window yields it.\<close>

theorem matching_searches_the_window:
  assumes "seed \<noteq> []" and "0 \<le> timestamp"
  shows "(\<forall>c. matched_counter seed code timestamp = Return (Some c) \<longleftrightarrow>
        0 \<le> c \<and> \<bar>c - timestamp div seconds 30\<bar> \<le> 1 \<and> hotp seed c 6 = Some code
        \<and> (\<forall>d. c < d \<and> d \<le> timestamp div seconds 30 + 1 \<longrightarrow> hotp seed d 6 \<noteq> Some code))
    \<and> (matched_counter seed code timestamp = Return None \<longleftrightarrow>
        (\<forall>c. 0 \<le> c \<and> \<bar>c - timestamp div seconds 30\<bar> \<le> 1 \<longrightarrow> hotp seed c 6 \<noteq> Some code))"
  using matched_counter_iff [OF assms] matched_counter_none [OF assms] by blast

theorem matching_searches_the_window_witness:
  "matched_counter [1, 2, 3] demo_code (seconds 90) \<noteq> Return None"
proof -
  have "seconds 90 div seconds 30 = 3" "0 \<le> seconds 90" by (simp_all add: seconds_def)
  with matching_searches_the_window [of "[1, 2, 3]" "seconds 90" demo_code, THEN conjunct2]
  have "matched_counter [1, 2, 3] demo_code (seconds 90) = Return None \<longleftrightarrow>
      (\<forall>c. 0 \<le> c \<and> \<bar>c - 3\<bar> \<le> 1 \<longrightarrow> hotp [1, 2, 3] c 6 \<noteq> Some demo_code)" by simp
  moreover have "\<not> (\<forall>c. 0 \<le> c \<and> \<bar>c - 3\<bar> \<le> 1 \<longrightarrow> hotp [1, 2, 3] c 6 \<noteq> Some demo_code)"
    using demo_code_hotp by (auto intro!: exI [of _ 3])
  ultimately show ?thesis by simp
qed

end
