(* ===== verification/ProviderPressure.thy ===== *)
theory ProviderPressure
  imports ProviderLedger
begin

section \<open>The budget view of the administration (ProviderBudgetService.admin\_projection)\<close>

text \<open>
  What the administration sees of the spend fuse: for each provider with a policy the current counters
  against their limits, and the providers that lack one.  The view reads the tables and changes nothing;
  \<open>now\<close> is its clock read.
\<close>

subsection \<open>The items\<close>

record pressure_item =
  pi_provider_id :: string
  pi_account_class :: string
  pi_period_kind :: string
  pi_period_start_at :: string
  pi_period_end_at :: string
  pi_limit_cost_usd :: rat
  pi_reserved_cost_usd :: rat
  pi_remaining_cost_usd :: rat
  pi_utilization_ratio :: rat
  pi_warning :: bool
  pi_exceeded :: bool

record connection_view =
  cv_provider_id :: string
  cv_connection_id :: string
  cv_display_name :: string
  cv_enabled :: bool

record budget_projection =
  bp_status :: string
  bp_warning_ratio :: rat
  bp_configured_provider_count :: nat
  bp_missing_provider_ids :: "string list"
  bp_items :: "pressure_item list"
  bp_connections :: "connection_view list"
  bp_generated_at :: string
  bp_period_timezone :: string

definition budget_provider_id :: "provider_connection \<Rightarrow> string" where
  "budget_provider_id connection =
     (let v = py_get (dict_or_empty (pcn_config_json connection)) ''provider_id'' in
      py_strip (if py_truthy v then py_str v else pcn_connection_id connection))"

definition current_counters :: "instant \<Rightarrow> budget_counter list \<Rightarrow> budget_counter list" where
  "current_counters now counters = filter (\<lambda>c. bc_period_start_at c \<le> now \<and> now < bc_period_end_at c) counters"

definition find_counter :: "string \<Rightarrow> string \<Rightarrow> string \<Rightarrow> budget_counter list \<Rightarrow> budget_counter option" where
  "find_counter provider_id account_class kind counters =
     find (\<lambda>c. bc_provider_id c = provider_id \<and> bc_account_class c = account_class \<and> bc_period_kind c = kind) counters"

definition pressure_item_of :: "bool \<Rightarrow> rat \<Rightarrow> string \<Rightarrow> string \<Rightarrow> string \<Rightarrow> rat \<Rightarrow> budget_counter option \<Rightarrow> pressure_item" where
  "pressure_item_of enabled ratio_limit provider_id account_class kind limit counter =
     (let reserved = (case counter of None \<Rightarrow> 0 | Some c \<Rightarrow> max 0 (bc_reserved_cost_usd c));
          ratio = reserved / limit
      in \<lparr>pi_provider_id = provider_id,
          pi_account_class = account_class,
          pi_period_kind = kind,
          pi_period_start_at = (case counter of None \<Rightarrow> [] | Some c \<Rightarrow> isoformat (bc_period_start_at c)),
          pi_period_end_at = (case counter of None \<Rightarrow> [] | Some c \<Rightarrow> isoformat (bc_period_end_at c)),
          pi_limit_cost_usd = round6 limit,
          pi_reserved_cost_usd = round6 reserved,
          pi_remaining_cost_usd = round6 (max 0 (limit - reserved)),
          pi_utilization_ratio = round6 ratio,
          pi_warning = (enabled \<and> ratio_limit \<le> ratio),
          pi_exceeded = (enabled \<and> 1 \<le> ratio)\<rparr>)"

text \<open>One round of the inner loop: an item, or a provider whose paid account lacks a limit.\<close>

definition add_period :: "bool \<Rightarrow> rat \<Rightarrow> budget_counter list \<Rightarrow> json_dict \<Rightarrow> string \<Rightarrow> string \<Rightarrow> string \<times> string
    \<Rightarrow> pressure_item list \<times> string list \<Rightarrow> pressure_item list \<times> string list" where
  "add_period enabled ratio_limit counters policy provider_id account_class period acc =
     (let (kind, key) = period; (items, missing) = acc; limit = positive_float (py_get policy key) in
      if limit \<le> 0
      then (items, if account_class = ''paid'' \<and> provider_id \<notin> set missing then missing @ [provider_id] else missing)
      else (items @ [pressure_item_of enabled ratio_limit provider_id account_class kind limit
                       (find_counter provider_id account_class kind counters)], missing))"

definition policy_class :: "json_dict \<Rightarrow> string" where
  "policy_class policy = (let v = py_get policy ''account_class'' in if py_truthy v then py_str v else ''paid'')"

definition add_provider :: "budget_db \<Rightarrow> json_dict \<Rightarrow> bool \<Rightarrow> string list \<Rightarrow> budget_counter list \<Rightarrow> string
    \<Rightarrow> pressure_item list \<times> string list \<Rightarrow> pressure_item list \<times> string list" where
  "add_provider db config enabled active_ids counters provider_id acc =
     (case resolve_policy db config provider_id of
        None \<Rightarrow>
          (let (items, missing) = acc in
           (items, if provider_id \<in> set active_ids \<and> flag_or_true config ''require_provider_configuration''
                   then missing @ [provider_id] else missing))
      | Some policy \<Rightarrow>
          fold (add_period enabled (warning_ratio config) counters policy provider_id (policy_class policy))
            [(''day'', ''daily_usd''), (''month'', ''monthly_usd'')] acc)"

subsection \<open>The view\<close>

definition provider_keys :: "json_dict \<Rightarrow> string list" where
  "provider_keys config = (case py_get config ''providers'' of JObj providers \<Rightarrow> map fst providers | _ \<Rightarrow> [])"

definition projection_status :: "bool \<Rightarrow> pressure_item list \<Rightarrow> string list \<Rightarrow> string" where
  "projection_status enabled items missing =
     (if \<not> enabled then ''disabled''
      else if list_ex pi_exceeded items then ''exceeded''
      else if missing \<noteq> [] then ''missing_config''
      else if list_ex pi_warning items then ''warning''
      else ''ok'')"

definition admin_projection :: "instant \<Rightarrow> budget_db \<Rightarrow> budget_projection" where
  "admin_projection now db =
     (let config = (case bd_setting db of None \<Rightarrow> [] | Some row \<Rightarrow> dict_or_empty (ss_config_json row));
          enabled = (case bd_setting db of None \<Rightarrow> False | Some row \<Rightarrow> ss_enabled row);
          connections = sort_key pcn_connection_id (bd_connections db);
          provider_ids = sort (remdups (provider_keys config @ map budget_provider_id connections));
          counters = current_counters now (bd_counters db);
          active_ids = map budget_provider_id (filter pcn_enabled connections);
          (items, missing) = fold (add_provider db config enabled active_ids counters) provider_ids ([], [])
      in \<lparr>bp_status = projection_status enabled items missing,
          bp_warning_ratio = warning_ratio config,
          bp_configured_provider_count = length (provider_keys config),
          bp_missing_provider_ids = sort missing,
          bp_items = items,
          bp_connections = map (\<lambda>c. \<lparr>cv_provider_id = budget_provider_id c, cv_connection_id = pcn_connection_id c,
                                      cv_display_name = pcn_display_name c, cv_enabled = pcn_enabled c\<rparr>) connections,
          bp_generated_at = isoformat now,
          bp_period_timezone = ''UTC''\<rparr>)"

subsection \<open>What the view promises\<close>

definition item_ok :: "bool \<Rightarrow> budget_counter list \<Rightarrow> pressure_item \<Rightarrow> bool" where
  "item_ok enabled counters item =
     (\<exists>limit ratio_limit. 0 < limit \<and> item = pressure_item_of enabled ratio_limit (pi_provider_id item) (pi_account_class item)
        (pi_period_kind item) limit
        (find_counter (pi_provider_id item) (pi_account_class item) (pi_period_kind item) counters))"

lemma add_period_items:
  assumes "\<forall>item\<in>set (fst acc). item_ok enabled counters item"
  shows "\<forall>item\<in>set (fst (add_period enabled r counters policy p cls period acc)). item_ok enabled counters item"
proof -
  have "item_ok enabled counters (pressure_item_of enabled r p cls kind limit (find_counter p cls kind counters))"
    if "0 < limit" for kind limit
    using that unfolding item_ok_def by (intro exI [of _ limit] exI [of _ r]) (simp add: pressure_item_of_def Let_def)
  then show ?thesis using assms by (auto simp: add_period_def Let_def split: prod.splits)
qed

lemma fold_period_items:
  assumes "\<forall>item\<in>set (fst acc). item_ok enabled counters item"
  shows "\<forall>item\<in>set (fst (fold (add_period enabled r counters policy p cls) periods acc)). item_ok enabled counters item"
  by (rule fold_invariant [where Q = "\<lambda>_. True" and P = "\<lambda>acc. \<forall>item\<in>set (fst acc). item_ok enabled counters item"])
    (simp, rule assms, rule add_period_items)

lemma add_provider_items:
  assumes "\<forall>item\<in>set (fst acc). item_ok enabled counters item"
  shows "\<forall>item\<in>set (fst (add_provider db config enabled active counters p acc)). item_ok enabled counters item"
proof (cases "resolve_policy db config p")
  case None
  then show ?thesis using assms by (simp add: add_provider_def Let_def split: prod.splits)
next
  case (Some policy)
  then show ?thesis unfolding add_provider_def Some option.case by (intro fold_period_items assms)
qed

lemma find_SomeD: "find P xs = Some x \<Longrightarrow> x \<in> set xs \<and> P x"
  by (induction xs) (auto split: if_splits)

lemma find_counter_current:
  assumes "find_counter p cls kind (current_counters now counters) = Some c"
  shows "c \<in> set counters" and "bc_provider_id c = p" and "bc_account_class c = cls" and "bc_period_kind c = kind"
    and "bc_period_start_at c \<le> now" and "now < bc_period_end_at c"
proof -
  have "c \<in> set (filter (\<lambda>c. bc_period_start_at c \<le> now \<and> now < bc_period_end_at c) counters)
      \<and> bc_provider_id c = p \<and> bc_account_class c = cls \<and> bc_period_kind c = kind"
    using assms unfolding find_counter_def current_counters_def
    by (auto dest!: find_SomeD)
  then show "c \<in> set counters" and "bc_provider_id c = p" and "bc_account_class c = cls" and "bc_period_kind c = kind"
    and "bc_period_start_at c \<le> now" and "now < bc_period_end_at c" by simp_all
qed

lemma fold_provider_items:
  assumes "\<forall>item\<in>set (fst acc). item_ok enabled counters item"
  shows "\<forall>item\<in>set (fst (fold (add_provider db config enabled active counters) ps acc)). item_ok enabled counters item"
  by (rule fold_invariant [where Q = "\<lambda>_. True" and P = "\<lambda>acc. \<forall>item\<in>set (fst acc). item_ok enabled counters item"])
    (simp, rule assms, rule add_provider_items)

text \<open>An item that the view calls exceeded belongs to a current counter, and under the limit it was compared
  with that counter refuses every dispatch.\<close>

theorem exceeded_item_refuses_dispatch:
  assumes "item \<in> set (bp_items (admin_projection now db))" and "pi_exceeded item" and "0 < estimated"
  shows "\<exists>c\<in>set (bd_counters db). bc_provider_id c = pi_provider_id item \<and> bc_account_class c = pi_account_class item
     \<and> bc_period_kind c = pi_period_kind item \<and> bc_period_start_at c \<le> now \<and> now < bc_period_end_at c
     \<and> (\<exists>limit. pi_limit_cost_usd item = round6 limit \<and> exhausted estimated (c\<lparr>bc_limit_cost_usd := limit\<rparr>))"
proof -
  define config where "config = (case bd_setting db of None \<Rightarrow> [] | Some row \<Rightarrow> dict_or_empty (ss_config_json row))"
  define enabled where "enabled = (case bd_setting db of None \<Rightarrow> False | Some row \<Rightarrow> ss_enabled row)"
  let ?counters = "current_counters now (bd_counters db)"
  have "item_ok enabled ?counters item"
    using assms(1) fold_provider_items [of "([], [])" enabled ?counters db config]
    by (auto simp: admin_projection_def config_def [symmetric] enabled_def [symmetric] Let_def split: prod.splits)
      (metis fst_conv)
  then obtain limit r where limit: "0 < limit" "item = pressure_item_of enabled r (pi_provider_id item) (pi_account_class item)
        (pi_period_kind item) limit (find_counter (pi_provider_id item) (pi_account_class item) (pi_period_kind item) ?counters)"
    unfolding item_ok_def by blast
  define counter where "counter = find_counter (pi_provider_id item) (pi_account_class item) (pi_period_kind item) ?counters"
  have item: "pi_exceeded item = (enabled \<and> 1 \<le> (case counter of None \<Rightarrow> 0 | Some c \<Rightarrow> max 0 (bc_reserved_cost_usd c)) / limit)"
    "pi_limit_cost_usd item = round6 limit"
    using limit(2) unfolding counter_def [symmetric] by (metis (no_types, lifting) pressure_item.select_convs pressure_item_of_def)+
  obtain c where c: "counter = Some c" using item(1) assms(2) by (cases counter) auto
  then have "limit \<le> max 0 (bc_reserved_cost_usd c)" using item(1) assms(2) limit(1) by (simp add: le_divide_eq)
  then have "exhausted estimated (c\<lparr>bc_limit_cost_usd := limit\<rparr>)" using limit(1) assms(3) by (auto simp: exhausted_def)
  then have limited: "\<exists>limit. pi_limit_cost_usd item = round6 limit \<and> exhausted estimated (c\<lparr>bc_limit_cost_usd := limit\<rparr>)"
    using item(2) by blast
  show ?thesis using find_counter_current [OF c [unfolded counter_def]] limited by blast
qed

end
