(* ===== verification/Spec2Isabelle.thy ===== *)
theory Spec2Isabelle
  imports ReencryptionProperties ProviderProperties ServiceProperties CallbackProperties PortalProperties RequestLimitProperties PortalAccessProperties ProviderPressure
begin

text \<open>
  A verification library of the hosted runtime under src/app/: the service that accepts signed
  requests of WordPress sites, runs them against external AI providers, stores and projects the
  results, calls the sites back, and lets their owners log in to a Portal.

  HOW THE PROGRAM WORKS.  A site signs a request; \<open>core/security.py\<close> and \<open>api/auth.py\<close> check the
  signature, the time stamp, replay markers and rate limits.  The run service
  (\<open>domain/runtime/run_lifecycle.py\<close>) turns the request into a durable row of \<open>run_records\<close> or finds the
  row of an earlier request with the same idempotency key.  Workers claim queued rows through
  \<open>adapters/repositories/runtime_repository.py\<close>; the provider execution service
  (\<open>domain/runtime/provider_execution.py\<close>) tries the routing candidates one after the other, each with
  retries, behind a spend fuse (\<open>domain/runtime/provider_budget.py\<close>) and behind the error taxonomy that
  says which failures may be retried or passed to the next candidate.  Finished runs are projected for
  the site, purged after their retention period, and announced by signed callbacks with leases and
  retries (\<open>domain/runtime/callback_delivery.py\<close>).  Secrets rest encrypted in envelopes
  (\<open>core/secrets.py\<close>) whose root key a maintenance command exchanges
  (\<open>domain/runtime/runtime_data_reencryption.py\<close>).  Portal mutations are idempotent through receipts
  (\<open>domain/portal_idempotency.py\<close>); Portal logins are sessions in a registry with an optional second
  factor (\<open>domain/portal_sessions\<close>, \<open>domain/portal_totp\<close>).

  THE MODEL.  Each theory translates one part of the source, in the order the code has it; names are
  the code's.  A database table is the list of its rows, a transaction is a function on the tables it
  touches, an exception is a left value of a sum (\<open>Raise\<close>, \<open>Return\<close> of theory Prelude), a JSON value is the
  datatype \<open>json\<close>, an instant is an integer number of microseconds.  Clock reads, random identifiers,
  HTTP calls, provider adapters, Redis, the run executor, HKDF and Fernet, \<open>jwt.encode\<close>, the JSON parser
  and \<open>datetime.fromisoformat\<close> are arguments of the definitions that use them; what is assumed of them
  is a named hypothesis (\<open>fernet_documented\<close> in Secrets).  SHA-1, SHA-256, HMAC, PBKDF2, Base32, Base64 and
  the TOTP code are computed, on machine words.

  THEORIES, by part of the program.

    Shared.  Prelude: results, tables, SQL ordering, the interfaces \<open>conditional_claim\<close> (an
    \<open>UPDATE ... WHERE\<close> that at most one of several sessions wins) and \<open>invariant_system\<close> (reachable states
    of a step relation).  PyValues: Python values, strings, integers, time stamps.  JsonText: canonical
    JSON.  Hashes: digests and text encodings.  ErrorTaxonomy: \<open>core/error_taxonomy.py\<close>.

    Runs.  RunStore, RunTransitions, RunClaims, RunQueries: \<open>runtime_repository.py\<close> (creation and lookup;
    every state change; claims of workers and dispatchers; diagnostics queries).  RunIdentity and
    RunLifecycle: \<open>run_lifecycle.py\<close> (fingerprints, replay; worker loop, wake-up queues, public reads,
    cancellation).  RunProjection: \<open>run_projection.py\<close>.  MediaProjection and AnalysisResult: what leaves
    the service.  CallbackDelivery: \<open>callback_delivery.py\<close>.  RuntimeSystem: creation, claims, execution,
    cancellation, callbacks, lease recovery and purges as one step relation over the run table.
    RunProperties, RequestProperties, ServiceProperties, CallbackProperties: what these promise.

    Providers.  ProviderUsage: \<open>adapters/providers/compatibility.py\<close>, usage reports, cost and token
    estimates, context budgets, recognising overflow errors.  ProviderCalls: \<open>adapters/providers/base.py\<close>.
    ProviderBudget: \<open>provider_budget.py\<close>, claims and reconciliation.  ProviderLedger: the invariant of its
    tables, the fuse as a system shared by all sessions, and the limits a claim keeps.  ProviderPressure: the
    administration's view of the counters (\<open>admin_projection\<close>) and that what it calls exceeded is refused.
    ProviderExecution: \<open>provider_execution.py\<close>, the whole candidate chain over a session with commits;
    the requests it sends are kept as a log.  ProviderRuns: what that log looks like.  ProviderSettling:
    the chain leaves a finished run and admits each request.  ProviderProperties: the promises.

    Secrets.  Secrets: \<open>core/secrets.py\<close>, the envelopes, key ids, purposes and canonical roots.
    RuntimeReencryption: \<open>domain/runtime/runtime_data_reencryption.py\<close>, the command that brings every stored
    ciphertext under the active key, over the rows of six tables.  ReencryptionRuns: writing one
    ciphertext back changes one record (the interface \<open>ciphertext_table\<close>, interpreted for each table).
    ReencryptionProperties: the promises.

    Requests.  SecretHash, RequestGuards, RequestSigning, RequestAuth: \<open>core/security.py\<close> and the
    authorization functions of \<open>api/auth.py\<close>.  RequestDemo: one signed request, evaluated.
    RequestAuthProperties and RequestLimitProperties: what an accepted request went through; limits,
    retry times, cooldowns.

    Portal.  PortalIdempotency, PortalSystem, PortalProperties: receipts of mutations, their
    interleavings, their promises.  TotpCodec: \<open>portal_totp/codec.py\<close>.  PortalAccess: sessions, the OAuth
    proof, listing and revoking.  PortalTotp: the attempt budget, challenges, recovery codes, management
    commands.  PortalCompletion: completing a challenge, issuing a login.  PortalAccessChecks: the check
    constraints of the tables in \<open>core/models.py\<close>.  PortalAccessSystem, PortalAccessInvariant,
    PortalAccessRuns, PortalAccessSteps, PortalAccessHistory: all access commands as one step relation,
    its invariant, and what its tables never forget.  PortalAccessDemo: a login with a second factor,
    evaluated.  PortalAccessProperties: the promises.

  WHAT THE LEMMAS SHOW.  Every write keeps its table well-formed (\<open>run_wf\<close>, \<open>receipts_wf\<close>, \<open>access_inv\<close>,
  \<open>budget_inv\<close>), so every reachable state is consistent, with commands of different sessions interleaved and
  with workers that die between transactions.  Claims have one winner.  Creation, Portal mutations,
  signed requests, one-time passwords, recovery codes and challenges are spent once.  Idempotent replay
  hands out only what was asked for.  Results reach only their own site and only before their deadline,
  without private fields.  Loops are bounded, and recoverable work is recovered.  Some theorems show
  what the code does against its intention; the manifest lists them as findings.

  BOUNDS AND FUEL.  All recursion is structural or has a measure; the drain loop of RunLifecycle
  recurses on the number of runs it may still process, which is the bound of the code's own loop.  The
  loop of PBKDF2 recurses on its iteration count.
  The candidate chain recurses on the list of candidates, and for each on the \<open>max_retries + 1\<close> rounds of
  the code's \<open>range\<close>; its theorems show that the last round never asks for another.
  ATOMICITY.  A transaction of the code is one step, except where the code commits in between; then
  each committed part is a step of its own (a claim, an execution, a settlement).  Commands on one
  Portal principal are serialised by the row lock the code takes.

  NOT MODELLED.  The FastAPI routes (\<open>api/routes\<close>), which only translate HTTP; the provider adapters, web
  search, image sources and site knowledge, which call external services; the contract validation and
  the specialised executors of \<open>domain/runtime/service.py\<close>, which enter as the executor argument;
  commercial plans, billing, payments and the usage ledger (\<open>domain/commercial\<close>, \<open>domain/usage\<close>), whose calls
  from the modelled code are kept as a log; observability, notifications, operations and release
  scripts.  Of the run repository, provider evidence reports and the guard event queries are left out.

  LIMITS OF THE VALUES.  Strings are lists of code points below 256, so text outside Latin-1 is not
  represented.  Floats are rational numbers with the text Python prints for them, so infinities, NaN and
  rounding errors of single operations are not represented; explicit calls of \<open>round\<close> are.  Column length
  limits and foreign keys are not modelled, primary keys and unique constraints are.  Log lines are
  left out.
\<close>

end
